(* ===== verification/Prelude.thy ===== *)
theory Prelude
  imports Main "HOL-Library.Word" "HOL-Library.AList" "HOL-Library.Sublist"
begin

text \<open>
  What every other theory of the development shares.

  \<^item> The machine integers of the Rust sources (\<open>u8\<close>, \<open>u32\<close>, \<open>u64\<close>) as words.
  \<^item> Results: \<open>Result<T, E>\<close> is \<open>'e + 'a\<close> with \<open>Inl\<close> for the error; \<open>bindR\<close> is the
    operator \<open>?\<close> and \<open>foldR\<close> is a loop whose body may return early with an error.
  \<^item> \<open>HashSet\<close> and \<open>HashMap\<close>: a list without duplicates, respectively an association list,
    in the (unspecified) iteration order of the container. Every theorem quantifies over
    all such lists, so it holds for each iteration order. The interface the components
    rely on is the locale \<open>finite_map\<close>, interpreted on the association lists.
\<close>

section \<open>Integers\<close>

type_synonym u8 = "8 word"
type_synonym u16 = "16 word"
type_synonym u32 = "32 word"
type_synonym u64 = "64 word"

named_theorems result_simps "equations that decide when a result is an error or a value"
named_theorems coll_simps "look-up equations of the hash containers"

text \<open>Rust's \<open>checked_add(1)\<close>: \<open>None\<close> when the sum does not fit.\<close>

definition checked_inc :: "'l::len word \<Rightarrow> 'l word option" where
  "checked_inc w = (if w = - 1 then None else Some (w + 1))"

lemma checked_inc_Some [result_simps]:
  "checked_inc w = Some v \<longleftrightarrow> w \<noteq> - 1 \<and> v = w + 1"
  by (auto simp: checked_inc_def)

lemma checked_inc_None [result_simps]: "checked_inc w = None \<longleftrightarrow> w = - 1"
  by (simp add: checked_inc_def)

lemma unat_inc: "w \<noteq> - 1 \<Longrightarrow> unat (w + 1) = Suc (unat w)"
  by (metis add.commute add_eq_0_iff unatSuc)

lemma checked_inc_unat: "checked_inc w = Some v \<Longrightarrow> unat v = Suc (unat w)"
  by (auto simp: result_simps unat_inc)

text \<open>Rust's \<open>saturating_sub\<close>.\<close>

definition saturating_sub :: "'l::len word \<Rightarrow> 'l word \<Rightarrow> 'l word" where
  "saturating_sub a b = (if b \<le> a then a - b else 0)"

section \<open>Results\<close>

definition bindR :: "'e + 'a \<Rightarrow> ('a \<Rightarrow> 'e + 'b) \<Rightarrow> 'e + 'b" where
  "bindR m f = (case m of Inl e \<Rightarrow> Inl e | Inr x \<Rightarrow> f x)"

lemma bindR_Inl [simp]: "bindR (Inl e) f = Inl e"
  by (simp add: bindR_def)

lemma bindR_Inr [simp]: "bindR (Inr x) f = f x"
  by (simp add: bindR_def)

lemma bindR_eq_Inr [result_simps]: "bindR m f = Inr y \<longleftrightarrow> (\<exists>x. m = Inr x \<and> f x = Inr y)"
  by (cases m) auto

lemma bindR_eq_Inl [result_simps]:
  "bindR m f = Inl e \<longleftrightarrow> m = Inl e \<or> (\<exists>x. m = Inr x \<and> f x = Inl e)"
  by (cases m) auto

lemma bindR_cong [fundef_cong]:
  "m = m' \<Longrightarrow> (\<And>x. m' = Inr x \<Longrightarrow> f x = f' x) \<Longrightarrow> bindR m f = bindR m' f'"
  by (cases m') auto

text \<open>\<open>map_err\<close>, \<open>ok()\<close> and \<open>ok_or\<close>.\<close>

definition map_err :: "('e \<Rightarrow> 'f) \<Rightarrow> 'e + 'a \<Rightarrow> 'f + 'a" where
  "map_err g m = (case m of Inl e \<Rightarrow> Inl (g e) | Inr x \<Rightarrow> Inr x)"

lemma map_err_Inl [simp]: "map_err g (Inl e) = Inl (g e)"
  by (simp add: map_err_def)

lemma map_err_Inr [simp]: "map_err g (Inr x) = Inr x"
  by (simp add: map_err_def)

lemma map_err_eq_Inr [result_simps]: "map_err g m = Inr x \<longleftrightarrow> m = Inr x"
  by (cases m) (auto simp: map_err_def)

definition ok_opt :: "'e + 'a \<Rightarrow> 'a option" where
  "ok_opt m = (case m of Inl _ \<Rightarrow> None | Inr x \<Rightarrow> Some x)"

lemma ok_opt_simps [simp]: "ok_opt (Inl e) = None" "ok_opt (Inr x) = Some x"
  by (simp_all add: ok_opt_def)

definition ok_or :: "'a option \<Rightarrow> 'e \<Rightarrow> 'e + 'a" where
  "ok_or x e = (case x of None \<Rightarrow> Inl e | Some v \<Rightarrow> Inr v)"

lemma ok_or_simps [simp]: "ok_or None e = Inl e" "ok_or (Some v) e = Inr v"
  by (simp_all add: ok_or_def)

lemma ok_or_eq_Inr [result_simps]: "ok_or x e = Inr v \<longleftrightarrow> x = Some v"
  by (cases x) auto

text \<open>A \<open>for\<close> loop over a list whose body threads a state and may return an error.\<close>

fun foldR :: "('a \<Rightarrow> 's \<Rightarrow> 'e + 's) \<Rightarrow> 'a list \<Rightarrow> 's \<Rightarrow> 'e + 's" where
  "foldR f [] s = Inr s"
| "foldR f (x # xs) s = bindR (f x s) (foldR f xs)"

lemma foldR_cong [fundef_cong]:
  "xs = ys \<Longrightarrow> s = t \<Longrightarrow> (\<And>x s. x \<in> set ys \<Longrightarrow> f x s = g x s) \<Longrightarrow> foldR f xs s = foldR g ys t"
proof (induction xs arbitrary: ys s t)
  case Nil
  then show ?case by auto
next
  case (Cons x xs)
  have "foldR f xs r = foldR g xs r" for r
    using Cons.prems by (intro Cons.IH) auto
  then have "foldR f xs = foldR g xs" by (intro ext)
  with Cons.prems show ?case by auto
qed

lemma foldR_append: "foldR f (xs @ ys) s = bindR (foldR f xs s) (foldR f ys)"
  by (induction xs arbitrary: s) (auto simp: bindR_def split: sum.splits)

text \<open>The invariant rule for such loops: what every iteration keeps holds at the end.\<close>

lemma foldR_invariant:
  assumes "foldR f xs s = Inr t" and "I s"
    and "\<And>x r r'. x \<in> set xs \<Longrightarrow> I r \<Longrightarrow> f x r = Inr r' \<Longrightarrow> I r'"
  shows "I t"
  using assms by (induction xs arbitrary: s) (auto simp: result_simps)

text \<open>A version whose invariant sees the elements processed so far.\<close>

lemma foldR_invariant_prefix:
  assumes run: "foldR f xs s = Inr t" and start: "I [] s"
    and step: "\<And>ys x zs r r'. xs = ys @ x # zs \<Longrightarrow> I ys r \<Longrightarrow> f x r = Inr r' \<Longrightarrow> I (ys @ [x]) r'"
  shows "I xs t"
proof -
  have "foldR f zs r = Inr t \<Longrightarrow> I ys r \<Longrightarrow> xs = ys @ zs \<Longrightarrow> I xs t" for ys zs r
  proof (induction zs arbitrary: ys r)
    case Nil
    then show ?case by simp
  next
    case (Cons z zs)
    from Cons.prems(1) obtain r' where r': "f z r = Inr r'" "foldR f zs r' = Inr t"
      by (auto simp: result_simps)
    have "I (ys @ [z]) r'" using step Cons.prems(2,3) r'(1) by blast
    with r'(2) Cons.prems(3) show ?case using Cons.IH by simp
  qed
  from this [of xs s "[]"] run start show ?thesis by simp
qed

section \<open>Hash sets\<close>

text \<open>\<open>HashSet<T>\<close> as a list in iteration order.\<close>

type_synonym 'a hset = "'a list"

definition hs_insert :: "'a \<Rightarrow> 'a hset \<Rightarrow> 'a hset" where
  "hs_insert x xs = (if x \<in> set xs then xs else xs @ [x])"

fun hs_extend :: "'a hset \<Rightarrow> 'a list \<Rightarrow> 'a hset" where
  "hs_extend xs [] = xs"
| "hs_extend xs (y # ys) = hs_extend (hs_insert y xs) ys"

definition hs_of_list :: "'a list \<Rightarrow> 'a hset" where
  "hs_of_list xs = hs_extend [] xs"

lemma set_hs_insert [coll_simps, simp]: "set (hs_insert x xs) = insert x (set xs)"
  by (auto simp: hs_insert_def)

lemma set_hs_extend [coll_simps, simp]: "set (hs_extend xs ys) = set xs \<union> set ys"
  by (induction ys arbitrary: xs) auto

lemma set_hs_of_list [coll_simps, simp]: "set (hs_of_list xs) = set xs"
  by (simp add: hs_of_list_def)

lemma distinct_hs_insert [simp]: "distinct xs \<Longrightarrow> distinct (hs_insert x xs)"
  by (simp add: hs_insert_def)

lemma distinct_hs_extend [simp]: "distinct xs \<Longrightarrow> distinct (hs_extend xs ys)"
  by (induction ys arbitrary: xs) auto

lemma distinct_hs_of_list [simp]: "distinct (hs_of_list xs)"
  by (simp add: hs_of_list_def)

lemma length_hs_insert: "length (hs_insert x xs) = (if x \<in> set xs then length xs else Suc (length xs))"
  by (simp add: hs_insert_def)

text \<open>\<open>len()\<close> of a hash set is the cardinality of the set it stands for.\<close>

lemma length_hs: "distinct xs \<Longrightarrow> length xs = card (set xs)"
  by (simp add: distinct_card)

section \<open>Hash maps\<close>

text \<open>\<open>HashMap<K, V>\<close> as an association list in iteration order.\<close>

type_synonym ('k, 'v) hmap = "('k \<times> 'v) list"

definition hm_get :: "('k, 'v) hmap \<Rightarrow> 'k \<Rightarrow> 'v option" where
  "hm_get m k = map_of m k"

definition hm_insert :: "'k \<Rightarrow> 'v \<Rightarrow> ('k, 'v) hmap \<Rightarrow> ('k, 'v) hmap" where
  "hm_insert k v m = AList.update k v m"

definition hm_remove :: "'k \<Rightarrow> ('k, 'v) hmap \<Rightarrow> ('k, 'v) hmap" where
  "hm_remove k m = AList.delete k m"

definition hm_contains :: "('k, 'v) hmap \<Rightarrow> 'k \<Rightarrow> bool" where
  "hm_contains m k = (hm_get m k \<noteq> None)"

definition hm_values :: "('k, 'v) hmap \<Rightarrow> 'v list" where
  "hm_values m = map snd m"

definition hm_keys :: "('k, 'v) hmap \<Rightarrow> 'k list" where
  "hm_keys m = map fst m"

definition hm_wf :: "('k, 'v) hmap \<Rightarrow> bool" where
  "hm_wf m = distinct (map fst m)"

text \<open>The contract of a finite map, as the callers of \<open>HashMap\<close> and \<open>DashMap\<close> use it.\<close>

locale finite_map =
  fixes empty :: "'m"
    and lookup :: "'m \<Rightarrow> 'k \<Rightarrow> 'v option"
    and insert :: "'k \<Rightarrow> 'v \<Rightarrow> 'm \<Rightarrow> 'm"
    and remove :: "'k \<Rightarrow> 'm \<Rightarrow> 'm"
    and invar :: "'m \<Rightarrow> bool"
  assumes lookup_empty: "lookup empty k = None"
    and lookup_insert: "lookup (insert k v m) k' = (if k' = k then Some v else lookup m k')"
    and lookup_remove: "invar m \<Longrightarrow> lookup (remove k m) k' = (if k' = k then None else lookup m k')"
    and invar_empty: "invar empty"
    and invar_insert: "invar m \<Longrightarrow> invar (insert k v m)"
    and invar_remove: "invar m \<Longrightarrow> invar (remove k m)"
begin

lemma insert_get: "lookup (insert k v m) k = Some v"
  by (simp add: lookup_insert)

lemma remove_get: "invar m \<Longrightarrow> lookup (remove k m) k = None"
  by (simp add: lookup_remove)

lemma insert_other: "k' \<noteq> k \<Longrightarrow> lookup (insert k v m) k' = lookup m k'"
  by (simp add: lookup_insert)

lemma remove_other: "invar m \<Longrightarrow> k' \<noteq> k \<Longrightarrow> lookup (remove k m) k' = lookup m k'"
  by (simp add: lookup_remove)

lemma remove_absorbs_insert: "invar m \<Longrightarrow> lookup (remove k (insert k v m)) = lookup (remove k m)"
  by (auto simp: lookup_remove lookup_insert invar_insert)

lemma insert_commutes:
  "k \<noteq> k' \<Longrightarrow> lookup (insert k v (insert k' v' m)) = lookup (insert k' v' (insert k v m))"
  by (auto simp: lookup_insert)

end

interpretation hm: finite_map "[] :: ('k, 'v) hmap" hm_get hm_insert hm_remove hm_wf
  by unfold_locales
    (auto simp: hm_get_def hm_insert_def hm_remove_def hm_wf_def update_conv' delete_conv'
      distinct_update distinct_delete)

lemmas hm_facts [coll_simps, simp] =
  hm.lookup_empty hm.lookup_insert hm.invar_empty hm.invar_insert hm.invar_remove
  hm.lookup_remove

lemma hm_contains_get [coll_simps]: "hm_contains m k \<longleftrightarrow> (\<exists>v. hm_get m k = Some v)"
  by (auto simp: hm_contains_def)

lemma set_hm_keys: "set (hm_keys m) = {k. hm_get m k \<noteq> None}"
  by (auto simp: hm_keys_def hm_get_def map_of_eq_None_iff image_iff)

lemma hm_values_iff: "hm_wf m \<Longrightarrow> v \<in> set (hm_values m) \<longleftrightarrow> (\<exists>k. hm_get m k = Some v)"
  by (force simp: hm_values_def hm_get_def hm_wf_def dest: map_of_SomeD)

lemma hm_get_in: "hm_get m k = Some v \<Longrightarrow> (k, v) \<in> set m"
  by (simp add: hm_get_def map_of_SomeD)

lemma length_hm: "hm_wf m \<Longrightarrow> length m = card {k. hm_get m k \<noteq> None}"
  by (metis hm_keys_def hm_wf_def distinct_card length_map set_hm_keys)

text \<open>The first value, in iteration order, with a property: \<open>values().find(p)\<close>.\<close>

definition hm_find_value :: "('v \<Rightarrow> bool) \<Rightarrow> ('k, 'v) hmap \<Rightarrow> 'v option" where
  "hm_find_value p m = List.find p (hm_values m)"

lemma hm_find_value_Some: "hm_find_value p m = Some v \<Longrightarrow> v \<in> set (hm_values m) \<and> p v"
  by (auto simp: hm_find_value_def find_Some_iff)

lemma hm_find_value_None: "hm_find_value p m = None \<longleftrightarrow> (\<forall>v \<in> set (hm_values m). \<not> p v)"
  by (auto simp: hm_find_value_def find_None_iff)

end
