(* ===== verification/Rust_Std.thy ===== *)
theory Rust_Std
  imports Prelude
begin

text \<open>
  The parts of Rust's standard library the sources rely on.

  A Rust \<open>String\<close> is its UTF-8 byte sequence, a \<open>char list\<close>. \<open>trim\<close>, \<open>strip_prefix\<close>,
  \<open>split\<close>, \<open>replace\<close>, \<open>parse::<uN>\<close> and decimal printing are written out; \<open>trim\<close> knows the
  UTF-8 encodings of all 25 characters of Unicode's White_Space. \<open>Path\<close> equality and
  \<open>Path::starts_with\<close> compare the components of Unix paths, as \<open>std::path\<close> does, and
  \<open>parse_ip\<close> is the parser behind \<open>str::parse::<IpAddr>\<close>.
\<close>

named_theorems str_simps "equations about byte strings"

section \<open>Characters\<close>

definition byte :: "char \<Rightarrow> nat" where
  "byte c = of_char c"

definition is_digit :: "char \<Rightarrow> bool" where
  "is_digit c \<longleftrightarrow> 48 \<le> byte c \<and> byte c \<le> 57"

definition is_ascii_alphabetic :: "char \<Rightarrow> bool" where
  "is_ascii_alphabetic c \<longleftrightarrow> (65 \<le> byte c \<and> byte c \<le> 90) \<or> (97 \<le> byte c \<and> byte c \<le> 122)"

definition is_ascii_alphanumeric :: "char \<Rightarrow> bool" where
  "is_ascii_alphanumeric c \<longleftrightarrow> is_ascii_alphabetic c \<or> is_digit c"

definition is_ascii_hexdigit :: "char \<Rightarrow> bool" where
  "is_ascii_hexdigit c \<longleftrightarrow> is_digit c \<or> (65 \<le> byte c \<and> byte c \<le> 70) \<or> (97 \<le> byte c \<and> byte c \<le> 102)"

definition ascii_lower :: "char \<Rightarrow> char" where
  "ascii_lower c =
     (case map_of (zip ''ABCDEFGHIJKLMNOPQRSTUVWXYZ'' ''abcdefghijklmnopqrstuvwxyz'') c of
        None \<Rightarrow> c | Some d \<Rightarrow> d)"

definition ascii_upper :: "char \<Rightarrow> char" where
  "ascii_upper c =
     (case map_of (zip ''abcdefghijklmnopqrstuvwxyz'' ''ABCDEFGHIJKLMNOPQRSTUVWXYZ'') c of
        None \<Rightarrow> c | Some d \<Rightarrow> d)"

definition to_ascii_lowercase :: "string \<Rightarrow> string" where
  "to_ascii_lowercase s = map ascii_lower s"

definition eq_ignore_ascii_case :: "string \<Rightarrow> string \<Rightarrow> bool" where
  "eq_ignore_ascii_case s t \<longleftrightarrow> to_ascii_lowercase s = to_ascii_lowercase t"

text \<open>
  \<open>str::chars().any(char::is_control)\<close>: the Unicode category Cc is U+0000 to U+001F,
  U+007F and U+0080 to U+009F (encoded \<open>C2 80\<close> to \<open>C2 9F\<close>).
\<close>

fun has_control :: "string \<Rightarrow> bool" where
  "has_control [] = False"
| "has_control (c # cs) =
     (byte c < 32 \<or> byte c = 127 \<or>
      (byte c = 194 \<and> (case cs of [] \<Rightarrow> False | d # _ \<Rightarrow> 128 \<le> byte d \<and> byte d < 160)) \<or>
      has_control cs)"

section \<open>Prefixes and trimming\<close>

definition strip_prefix :: "string \<Rightarrow> string \<Rightarrow> string option" where
  "strip_prefix p s = (if prefix p s then Some (drop (length p) s) else None)"

lemma strip_prefix_Some [str_simps]: "strip_prefix p s = Some r \<longleftrightarrow> s = p @ r"
  by (auto simp: strip_prefix_def prefix_def)

lemma strip_prefix_append [simp]: "strip_prefix p (p @ r) = Some r"
  by (simp add: str_simps)

fun strip_any :: "string list \<Rightarrow> string \<Rightarrow> string option" where
  "strip_any [] s = None"
| "strip_any (w # ws) s = (if w \<noteq> [] \<and> prefix w s then Some (drop (length w) s) else strip_any ws s)"

lemma strip_any_shorter: "strip_any ws s = Some r \<Longrightarrow> length r < length s"
  by (induction ws) (auto split: if_splits simp: prefix_def)

lemma strip_any_None: "strip_any ws s = None \<longleftrightarrow> (\<forall>w \<in> set ws. w \<noteq> [] \<longrightarrow> \<not> prefix w s)"
  by (induction ws) auto

lemma strip_any_suffix: "strip_any ws s = Some r \<Longrightarrow> suffix r s"
  by (induction ws) (auto split: if_splits simp: suffix_drop)

function trim_any :: "string list \<Rightarrow> string \<Rightarrow> string" where
  "trim_any ws s = (case strip_any ws s of None \<Rightarrow> s | Some r \<Rightarrow> trim_any ws r)"
  by pat_completeness auto
termination
  by (relation "measure (\<lambda>(ws, s). length s)") (auto simp: strip_any_shorter)

declare trim_any.simps [simp del]

lemma trim_any_fix: "strip_any ws s = None \<Longrightarrow> trim_any ws s = s"
  by (simp add: trim_any.simps)

lemma trim_any_done: "strip_any ws (trim_any ws s) = None"
proof (induction ws s rule: trim_any.induct)
  case (1 ws s)
  show ?case
  proof (cases "strip_any ws s")
    case None
    then show ?thesis by (simp add: trim_any_fix)
  next
    case (Some r)
    with 1 show ?thesis by (simp add: trim_any.simps [of ws s])
  qed
qed

lemma trim_any_suffix: "suffix (trim_any ws s) s"
proof (induction ws s rule: trim_any.induct)
  case (1 ws s)
  show ?case
  proof (cases "strip_any ws s")
    case None
    then show ?thesis by (simp add: trim_any_fix)
  next
    case (Some r)
    with 1 have "suffix (trim_any ws r) r" by simp
    with strip_any_suffix [OF Some] have "suffix (trim_any ws r) s"
      by (rule suffix_order.trans [rotated])
    with Some show ?thesis by (simp add: trim_any.simps [of ws s])
  qed
qed

text \<open>The UTF-8 encodings of Unicode's White_Space characters.\<close>

definition ws_seqs :: "string list" where
  "ws_seqs =
     [[CHR 0x09], [CHR 0x0A], [CHR 0x0B], [CHR 0x0C], [CHR 0x0D], [CHR 0x20],
      [CHR 0xC2, CHR 0x85], [CHR 0xC2, CHR 0xA0], [CHR 0xE1, CHR 0x9A, CHR 0x80]] @
     map (\<lambda>n. [CHR 0xE2, CHR 0x80, char_of (n :: nat)]) [128..<139] @
     [[CHR 0xE2, CHR 0x80, CHR 0xA8], [CHR 0xE2, CHR 0x80, CHR 0xA9],
      [CHR 0xE2, CHR 0x80, CHR 0xAF], [CHR 0xE2, CHR 0x81, CHR 0x9F],
      [CHR 0xE3, CHR 0x80, CHR 0x80]]"

definition rust_trim :: "string \<Rightarrow> string" where
  "rust_trim s = rev (trim_any (map rev ws_seqs) (rev (trim_any ws_seqs s)))"

text \<open>Trimming is idempotent and never lengthens.\<close>

lemma rust_trim_idem [simp]: "rust_trim (rust_trim s) = rust_trim s"
proof -
  let ?a = "trim_any ws_seqs s" and ?rws = "map rev ws_seqs"
  let ?t = "rev (trim_any ?rws (rev ?a))"
  have "prefix ?t ?a"
    using trim_any_suffix [of ?rws "rev ?a"] by (simp add: suffix_to_prefix)
  moreover have "strip_any ws_seqs ?a = None" by (rule trim_any_done)
  ultimately have "strip_any ws_seqs ?t = None"
    by (metis prefix_order.trans strip_any_None)
  then have "trim_any ws_seqs ?t = ?t" by (rule trim_any_fix)
  moreover have "trim_any ?rws (rev ?t) = rev ?t"
    using trim_any_done [of ?rws "rev ?a"] by (simp add: trim_any_fix)
  ultimately show ?thesis by (simp add: rust_trim_def)
qed

lemma length_rust_trim: "length (rust_trim s) \<le> length s"
proof -
  have "length (trim_any ws t) \<le> length t" for ws t
    using trim_any_suffix by (rule suffix_length_le)
  then show ?thesis unfolding rust_trim_def by (metis length_rev order_trans)
qed

lemma rust_trim_Nil [simp]: "rust_trim [] = []"
  using length_rust_trim [of "[]"] by simp

text \<open>A string whose first and last byte are printable ASCII is left alone.\<close>

definition plain_byte :: "char \<Rightarrow> bool" where
  "plain_byte c \<longleftrightarrow> 32 < byte c \<and> byte c < 127"

lemma ws_seqs_heads: "w \<in> set ws_seqs \<Longrightarrow> w \<noteq> [] \<and> \<not> plain_byte (hd w) \<and> \<not> plain_byte (last w)"
  by (auto simp: ws_seqs_def plain_byte_def byte_def)

lemma rust_trim_plain:
  assumes "s \<noteq> []" "plain_byte (hd s)" "plain_byte (last s)"
  shows "rust_trim s = s"
proof -
  have "strip_any ws_seqs s = None"
    using assms by (auto simp: strip_any_None prefix_def dest!: ws_seqs_heads)
  then have a: "trim_any ws_seqs s = s" by (rule trim_any_fix)
  have "\<not> prefix (rev w) (rev s)" if "w \<in> set ws_seqs" for w
    using that assms by (auto simp: suffix_def simp flip: suffix_to_prefix dest!: ws_seqs_heads)
  then have "strip_any (map rev ws_seqs) (rev s) = None"
    by (auto simp: strip_any_None)
  with a show ?thesis by (simp add: rust_trim_def trim_any_fix)
qed

section \<open>Splitting and replacing\<close>

text \<open>\<open>str::split(c)\<close>: always at least one piece.\<close>

fun split_on :: "char \<Rightarrow> string \<Rightarrow> string list" where
  "split_on c [] = [[]]"
| "split_on c (x # xs) =
     (if x = c then [] # split_on c xs
      else (case split_on c xs of [] \<Rightarrow> [[x]] | p # ps \<Rightarrow> (x # p) # ps))"

lemma split_on_nonempty [simp]: "split_on c s \<noteq> []"
  by (induction s) (auto split: list.splits)

lemma split_on_absent: "c \<notin> set s \<Longrightarrow> split_on c s = [s]"
  by (induction s) auto

lemma split_on_append: "c \<notin> set s \<Longrightarrow> split_on c (s @ c # t) = s # split_on c t"
  by (induction s) auto

text \<open>\<open>str::replace(pat, rep)\<close> for a non-empty pattern: leftmost, not overlapping.\<close>

function replace_all :: "string \<Rightarrow> string \<Rightarrow> string \<Rightarrow> string" where
  "replace_all p r s =
     (if p = [] then s
      else case s of [] \<Rightarrow> []
        | x # xs \<Rightarrow> if prefix p s then r @ replace_all p r (drop (length p) s)
                   else x # replace_all p r xs)"
  by pat_completeness auto
termination
  by (relation "measure (\<lambda>(p, r, s). length s)") auto

declare replace_all.simps [simp del]

section \<open>Unicode upper case\<close>

text \<open>
  \<open>str::to_uppercase\<close>. The sources compare its result with ASCII words only, so the
  characters spelled out here are the ASCII letters and the ten characters outside ASCII
  whose upper case is pure ASCII (dotless i, long s, sharp s and the Latin ligatures); any
  other character has an upper case outside ASCII and is left as it is.
\<close>

definition upper_specials :: "(string \<times> string) list" where
  "upper_specials =
     [([CHR 0xC4, CHR 0xB1], ''I''), ([CHR 0xC5, CHR 0xBF], ''S''), ([CHR 0xC3, CHR 0x9F], ''SS''),
      ([CHR 0xEF, CHR 0xAC, CHR 0x80], ''FF''), ([CHR 0xEF, CHR 0xAC, CHR 0x81], ''FI''),
      ([CHR 0xEF, CHR 0xAC, CHR 0x82], ''FL''), ([CHR 0xEF, CHR 0xAC, CHR 0x83], ''FFI''),
      ([CHR 0xEF, CHR 0xAC, CHR 0x84], ''FFL''), ([CHR 0xEF, CHR 0xAC, CHR 0x85], ''ST''),
      ([CHR 0xEF, CHR 0xAC, CHR 0x86], ''ST'')]"

fun upper_special :: "(string \<times> string) list \<Rightarrow> string \<Rightarrow> (string \<times> string) option" where
  "upper_special [] s = None"
| "upper_special ((w, u) # ws) s =
     (if w \<noteq> [] \<and> prefix w s then Some (u, drop (length w) s) else upper_special ws s)"

lemma upper_special_shorter: "upper_special ws s = Some (u, r) \<Longrightarrow> length r < length s"
  by (induction ws s rule: upper_special.induct) (auto split: if_splits simp: prefix_def)

function to_uppercase :: "string \<Rightarrow> string" where
  "to_uppercase s =
     (case s of [] \<Rightarrow> []
      | c # cs \<Rightarrow> (case upper_special upper_specials s of
          None \<Rightarrow> ascii_upper c # to_uppercase cs
        | Some (u, r) \<Rightarrow> u @ to_uppercase r))"
  by pat_completeness auto
termination
  by (relation "measure length") (auto dest: upper_special_shorter)

declare to_uppercase.simps [simp del]

definition is_ascii :: "string \<Rightarrow> bool" where
  "is_ascii s = list_all (\<lambda>c. byte c < 128) s"

lemma upper_special_skip:
  "\<forall>(w, u) \<in> set ws. w = [] \<or> hd w \<noteq> c \<Longrightarrow> upper_special ws (c # cs) = None"
  by (induction ws "c # cs" rule: upper_special.induct) (auto simp: prefix_Cons)

lemma upper_specials_heads: "(w, u) \<in> set upper_specials \<Longrightarrow> 128 \<le> byte (hd w)"
  by (simp add: upper_specials_def byte_def) (elim disjE; simp)

lemma upper_special_ascii: "byte c < 128 \<Longrightarrow> upper_special upper_specials (c # cs) = None"
  by (rule upper_special_skip) (use upper_specials_heads in fastforce)

text \<open>On ASCII strings it is the bytewise upper case.\<close>

lemma to_uppercase_ascii: "is_ascii s \<Longrightarrow> to_uppercase s = map ascii_upper s"
proof (induction s)
  case Nil
  then show ?case by (simp add: to_uppercase.simps)
next
  case (Cons c cs)
  then show ?case
    by (subst to_uppercase.simps) (auto simp: is_ascii_def upper_special_ascii)
qed

section \<open>Numbers\<close>

definition digit_char :: "nat \<Rightarrow> char" where
  "digit_char d = ''0123456789'' ! d"

fun show_nat :: "nat \<Rightarrow> string" where
  "show_nat n = (if n < 10 then [digit_char n] else show_nat (n div 10) @ [digit_char (n mod 10)])"

declare show_nat.simps [simp del]

definition digit_value :: "char \<Rightarrow> nat" where
  "digit_value c = byte c - 48"

definition digits_value :: "string \<Rightarrow> nat" where
  "digits_value s = foldl (\<lambda>a c. 10 * a + digit_value c) 0 s"

text \<open>
  \<open>str::parse::<uN>()\<close>: an optional \<open>+\<close>, then at least one decimal digit, and the value
  must fit in \<open>N\<close> bits.
\<close>

definition parse_uint :: "nat \<Rightarrow> string \<Rightarrow> nat option" where
  "parse_uint bits s =
     (let t = (case s of c # cs \<Rightarrow> if c = CHR ''+'' then cs else s | [] \<Rightarrow> s)
      in if t \<noteq> [] \<and> list_all is_digit t \<and> digits_value t < 2 ^ bits
         then Some (digits_value t) else None)"

definition parse_u32 :: "string \<Rightarrow> u32 option" where
  "parse_u32 s = map_option of_nat (parse_uint 32 s)"

definition parse_u64 :: "string \<Rightarrow> u64 option" where
  "parse_u64 s = map_option of_nat (parse_uint 64 s)"

lemma byte_digit_char: "d < 10 \<Longrightarrow> byte (digit_char d) = 48 + d"
proof -
  assume "d < 10"
  then have "d = 0 \<or> d = 1 \<or> d = 2 \<or> d = 3 \<or> d = 4 \<or> d = 5 \<or> d = 6 \<or> d = 7 \<or> d = 8 \<or> d = 9"
    by arith
  then show ?thesis by (elim disjE) (simp_all add: byte_def digit_char_def)
qed

lemma is_digit_digit_char [simp]: "d < 10 \<Longrightarrow> is_digit (digit_char d)"
  by (simp add: is_digit_def byte_digit_char)

lemma digit_value_digit_char [simp]: "d < 10 \<Longrightarrow> digit_value (digit_char d) = d"
  by (simp add: digit_value_def byte_digit_char)

lemma digits_value_snoc: "digits_value (s @ [c]) = 10 * digits_value s + digit_value c"
  by (simp add: digits_value_def)

lemma digits_value_Nil [simp]: "digits_value [] = 0"
  by (simp add: digits_value_def)

lemma digits_value_zeros: "digits_value (replicate n (CHR ''0'') @ s) = digits_value s"
proof -
  have "foldl (\<lambda>a c. 10 * a + digit_value c) 0 (replicate n (CHR ''0'')) = 0"
    by (induction n) (auto simp: digit_value_def byte_def)
  then show ?thesis by (simp add: digits_value_def)
qed

lemma show_nat_digits: "show_nat n \<noteq> [] \<and> list_all is_digit (show_nat n)"
proof (induction n rule: show_nat.induct)
  case (1 n)
  then show ?case by (subst (1 2) show_nat.simps) auto
qed

lemma digits_value_show_nat: "digits_value (show_nat n) = n"
proof (induction n rule: show_nat.induct)
  case (1 n)
  show ?case
  proof (cases "n < 10")
    case True
    then show ?thesis by (subst show_nat.simps) (simp add: digits_value_def)
  next
    case False
    with 1 have "digits_value (show_nat (n div 10)) = n div 10" by simp
    with False show ?thesis by (subst show_nat.simps) (simp add: digits_value_snoc)
  qed
qed

text \<open>The parser reads back zero-padded digits: the core of every numeric round trip.\<close>

lemma parse_uint_digits:
  assumes "s \<noteq> []" "list_all is_digit s" "digits_value s < 2 ^ bits"
  shows "parse_uint bits s = Some (digits_value s)"
proof -
  have "hd s \<noteq> CHR ''+''" using assms(1,2)
    by (cases s) (auto simp: is_digit_def byte_def)
  with assms show ?thesis by (cases s) (auto simp: parse_uint_def Let_def)
qed

text \<open>\<open>format!("{:0w$}", n)\<close>.\<close>

definition pad_nat :: "nat \<Rightarrow> nat \<Rightarrow> string" where
  "pad_nat w n = replicate (w - length (show_nat n)) (CHR ''0'') @ show_nat n"

lemma digits_value_pad_nat: "digits_value (pad_nat w n) = n"
  by (simp add: pad_nat_def digits_value_zeros digits_value_show_nat)

lemma pad_nat_digits: "pad_nat w n \<noteq> [] \<and> list_all is_digit (pad_nat w n)"
  using show_nat_digits [of n] by (auto simp: pad_nat_def list_all_iff is_digit_def byte_def)

lemma parse_uint_pad_nat: "n < 2 ^ bits \<Longrightarrow> parse_uint bits (pad_nat w n) = Some n"
  using parse_uint_digits pad_nat_digits digits_value_pad_nat by metis

definition show_u32 :: "u32 \<Rightarrow> string" where
  "show_u32 w = show_nat (unat w)"

definition show_u64 :: "u64 \<Rightarrow> string" where
  "show_u64 w = show_nat (unat w)"

section \<open>Quoted text in messages\<close>

definition quoted :: "string \<Rightarrow> string" where
  "quoted s = CHR 0x27 # s @ [CHR 0x27]"

end
