(* ===== verification/Rust_Path.thy ===== *)
theory Rust_Path
  imports Rust_Std
begin

text \<open>
  \<open>std::path\<close> on Unix and \<open>std::net::IpAddr\<close>. A \<open>PathBuf\<close> is its byte string; comparing two
  paths, \<open>starts_with\<close> and hashing look at the components only, so repeated slashes,
  trailing slashes and inner \<open>.\<close> components do not count while \<open>..\<close> is kept as it is.
\<close>

type_synonym path = string

section \<open>Path components\<close>

datatype component = RootDir | CurDir | ParentDir | Normal string

fun body_components :: "string list \<Rightarrow> component list" where
  "body_components [] = []"
| "body_components (p # ps) =
     (if p = '''' \<or> p = ''.'' then body_components ps
      else (if p = ''..'' then ParentDir else Normal p) # body_components ps)"

definition is_absolute :: "path \<Rightarrow> bool" where
  "is_absolute p = prefix ''/'' p"

definition components :: "path \<Rightarrow> component list" where
  "components p =
     (let ps = split_on (CHR ''/'') p
      in (if is_absolute p then [RootDir] else if hd ps = ''.'' then [CurDir] else [])
           @ body_components ps)"

definition path_eq :: "path \<Rightarrow> path \<Rightarrow> bool" where
  "path_eq p q \<longleftrightarrow> components p = components q"

definition path_starts_with :: "path \<Rightarrow> path \<Rightarrow> bool" where
  "path_starts_with p base \<longleftrightarrow> prefix (components base) (components p)"

text \<open>\<open>HashSet<PathBuf>\<close>: membership and insertion up to \<open>path_eq\<close>.\<close>

definition path_set_contains :: "path hset \<Rightarrow> path \<Rightarrow> bool" where
  "path_set_contains ps p \<longleftrightarrow> (\<exists>q \<in> set ps. path_eq q p)"

definition path_set_insert :: "path \<Rightarrow> path hset \<Rightarrow> path hset" where
  "path_set_insert p ps = (if path_set_contains ps p then ps else ps @ [p])"

lemma path_eq_refl [simp]: "path_eq p p"
  by (simp add: path_eq_def)

lemma path_eq_sym: "path_eq p q \<Longrightarrow> path_eq q p"
  by (simp add: path_eq_def)

lemma path_eq_trans: "path_eq p q \<Longrightarrow> path_eq q r \<Longrightarrow> path_eq p r"
  by (simp add: path_eq_def)

lemma path_starts_with_refl [simp]: "path_starts_with p p"
  by (simp add: path_starts_with_def)

lemma path_starts_with_trans:
  "path_starts_with p q \<Longrightarrow> path_starts_with q r \<Longrightarrow> path_starts_with p r"
  unfolding path_starts_with_def by (rule prefix_order.trans)

lemma path_eq_iff_starts_with:
  "path_eq p q \<longleftrightarrow> path_starts_with p q \<and> path_starts_with q p"
  by (auto simp: path_eq_def path_starts_with_def intro: prefix_order.antisym)

lemma path_starts_with_cong:
  "path_eq p p' \<Longrightarrow> path_eq q q' \<Longrightarrow> path_starts_with p q = path_starts_with p' q'"
  by (simp add: path_eq_def path_starts_with_def)

lemma path_starts_with_empty [simp]: "path_starts_with p []"
  by (simp add: path_starts_with_def components_def is_absolute_def)

lemma body_components_no_root: "RootDir \<notin> set (body_components ps)"
  by (induction ps) auto

lemma is_absolute_components: "is_absolute p \<longleftrightarrow> RootDir \<in> set (components p)"
  by (auto simp: components_def Let_def body_components_no_root)

lemma is_absolute_cong: "path_eq p q \<Longrightarrow> is_absolute p = is_absolute q"
  by (simp add: is_absolute_components path_eq_def)

lemma path_set_contains_insert [coll_simps]:
  "path_set_contains (path_set_insert p ps) q \<longleftrightarrow> path_eq p q \<or> path_set_contains ps q"
  by (auto simp: path_set_insert_def path_set_contains_def intro: path_eq_trans path_eq_sym)

lemma path_set_contains_Nil [simp]: "\<not> path_set_contains [] p"
  by (simp add: path_set_contains_def)

lemma path_set_contains_cong:
  "path_eq p q \<Longrightarrow> path_set_contains ps p = path_set_contains ps q"
  by (auto simp: path_set_contains_def path_eq_def)

section \<open>IP addresses\<close>

datatype ipaddr = V4 u32 | V6 "128 word"

definition hex_value :: "char \<Rightarrow> nat" where
  "hex_value c = (if is_digit c then byte c - 48 else byte (ascii_lower c) - 87)"

definition is_radix_digit :: "nat \<Rightarrow> char \<Rightarrow> bool" where
  "is_radix_digit radix c = (if radix = 10 then is_digit c else is_ascii_hexdigit c)"

text \<open>\<open>read_number(radix, Some(max_digits), allow_zero_prefix)\<close> into a type below \<open>bound\<close>.\<close>

definition read_number :: "nat \<Rightarrow> nat \<Rightarrow> bool \<Rightarrow> nat \<Rightarrow> string \<Rightarrow> (nat \<times> string) option" where
  "read_number radix max_digits allow_zero_prefix bound s =
     (let ds = takeWhile (is_radix_digit radix) s;
          v = foldl (\<lambda>a c. radix * a + hex_value c) 0 ds
      in if ds = [] \<or> max_digits < length ds \<or>
            (\<not> allow_zero_prefix \<and> hd ds = CHR ''0'' \<and> 1 < length ds) \<or> bound \<le> v
         then None else Some (v, dropWhile (is_radix_digit radix) s))"

definition read_separator :: "char \<Rightarrow> nat \<Rightarrow> (string \<Rightarrow> 'a option) \<Rightarrow> string \<Rightarrow> 'a option" where
  "read_separator sep i inner s =
     (if i = 0 then inner s
      else case s of [] \<Rightarrow> None | c # cs \<Rightarrow> if c = sep then inner cs else None)"

fun read_octets :: "nat \<Rightarrow> nat \<Rightarrow> string \<Rightarrow> (nat list \<times> string) option" where
  "read_octets 0 i s = Some ([], s)"
| "read_octets (Suc n) i s =
     (case read_separator (CHR ''.'') i (read_number 10 3 False 256) s of
        None \<Rightarrow> None
      | Some (v, r) \<Rightarrow>
          (case read_octets n (Suc i) r of None \<Rightarrow> None | Some (vs, r') \<Rightarrow> Some (v # vs, r')))"

definition read_ipv4 :: "string \<Rightarrow> (nat list \<times> string) option" where
  "read_ipv4 s = read_octets 4 0 s"

function read_groups :: "nat \<Rightarrow> nat \<Rightarrow> string \<Rightarrow> nat list \<times> bool \<times> string" where
  "read_groups limit i s =
     (if limit \<le> i then ([], False, s)
      else case (if i + 1 < limit then read_separator (CHR '':'') i read_ipv4 s else None) of
        Some (os, r) \<Rightarrow>
          ([256 * (os ! 0) + os ! 1, 256 * (os ! 2) + os ! 3], True, r)
      | None \<Rightarrow>
          (case read_separator (CHR '':'') i (read_number 16 4 True 65536) s of
             None \<Rightarrow> ([], False, s)
           | Some (g, r) \<Rightarrow>
               (case read_groups limit (Suc i) r of (gs, f, r') \<Rightarrow> (g # gs, f, r'))))"
  by pat_completeness auto
termination
  by (relation "measure (\<lambda>(limit, i, s). limit - i)") auto

declare read_groups.simps [simp del]

definition groups_word :: "nat list \<Rightarrow> 128 word" where
  "groups_word gs = of_nat (foldl (\<lambda>a g. 65536 * a + g) 0 gs)"

definition octets_word :: "nat list \<Rightarrow> u32" where
  "octets_word os = of_nat (foldl (\<lambda>a g. 256 * a + g) 0 os)"

definition read_ipv6 :: "string \<Rightarrow> (128 word \<times> string) option" where
  "read_ipv6 s =
     (case read_groups 8 0 s of (hds, head_ipv4, r) \<Rightarrow>
        if length hds = 8 then Some (groups_word hds, r)
        else if head_ipv4 then None
        else case strip_prefix ''::'' r of
            None \<Rightarrow> None
          | Some r2 \<Rightarrow>
              (case read_groups (8 - (length hds + 1)) 0 r2 of (tls, _, r3) \<Rightarrow>
                 Some (groups_word (hds @ replicate (8 - length hds - length tls) 0 @ tls), r3)))"

definition parse_ip :: "string \<Rightarrow> ipaddr option" where
  "parse_ip s =
     (case read_ipv4 s of
        Some (os, r) \<Rightarrow> if r = [] then Some (V4 (octets_word os)) else None
      | None \<Rightarrow>
          (case read_ipv6 s of
             Some (w, r) \<Rightarrow> if r = [] then Some (V6 w) else None
           | None \<Rightarrow> None))"

end
