(* ===== verification/Engine_Types.thy ===== *)
theory Engine_Types
  imports Rust_Path
begin

text \<open>
  The vocabulary of the policy engine: \<open>v14/types.rs\<close> (system and rule types, effects, audit
  levels and actions with their bit masks), \<open>v14/errors.rs\<close> and \<open>v14/util.rs\<close>.
\<close>

unbundle bit_operations_syntax

section \<open>types.rs\<close>

datatype system_type = Server | Workstation

datatype rule_type = RtStandard | RtSubjectOnly

datatype effect = Allow | Deny | NeedApproval | AuditOnly

fun effect_as_str :: "effect \<Rightarrow> string" where
  "effect_as_str NeedApproval = ''need_approval''"
| "effect_as_str Allow = ''allow''"
| "effect_as_str AuditOnly = ''audit_only''"
| "effect_as_str Deny = ''deny''"

definition effect_from :: "string \<Rightarrow> effect" where
  "effect_from s =
     (if s = ''need_approval'' then NeedApproval
      else if s = ''allow'' then Allow
      else if s = ''audit_only'' then AuditOnly
      else Deny)"

text \<open>The derived \<open>Debug\<close> output.\<close>

fun effect_debug :: "effect \<Rightarrow> string" where
  "effect_debug Allow = ''Allow''"
| "effect_debug Deny = ''Deny''"
| "effect_debug NeedApproval = ''NeedApproval''"
| "effect_debug AuditOnly = ''AuditOnly''"

fun system_type_debug :: "system_type \<Rightarrow> string" where
  "system_type_debug Server = ''Server''"
| "system_type_debug Workstation = ''Workstation''"

datatype audit_level = AlStandard | AlSilent | AlStrict

fun audit_level_as_str :: "audit_level \<Rightarrow> string" where
  "audit_level_as_str AlStandard = ''standard''"
| "audit_level_as_str AlSilent = ''silent''"
| "audit_level_as_str AlStrict = ''strict''"

fun audit_level_to_u32 :: "audit_level \<Rightarrow> u32" where
  "audit_level_to_u32 AlStandard = 0"
| "audit_level_to_u32 AlSilent = 1"
| "audit_level_to_u32 AlStrict = 2"

datatype action =
    Read | Write | Execute | FileDelete | FileUnlink | FileRename | FileChmod | FileChown
  | NetConnect | Unknown

fun action_as_str :: "action \<Rightarrow> string" where
  "action_as_str Read = ''FILE_READ''"
| "action_as_str Write = ''FILE_WRITE''"
| "action_as_str Execute = ''FILE_EXECUTE''"
| "action_as_str FileDelete = ''FILE_DELETE''"
| "action_as_str FileUnlink = ''FILE_UNLINK''"
| "action_as_str FileRename = ''FILE_RENAME''"
| "action_as_str FileChmod = ''FILE_CHMOD''"
| "action_as_str FileChown = ''FILE_CHOWN''"
| "action_as_str NetConnect = ''NET_CONNECT''"
| "action_as_str Unknown = ''UNKNOWN_ACTION''"

fun to_mask :: "action \<Rightarrow> u32" where
  "to_mask Read = 1"
| "to_mask Write = 2"
| "to_mask Execute = 4"
| "to_mask FileDelete = 8"
| "to_mask FileUnlink = 16"
| "to_mask FileRename = 32"
| "to_mask FileChmod = 64"
| "to_mask FileChown = 128"
| "to_mask NetConnect = 256"
| "to_mask Unknown = 512"

definition file_ops_mask :: u32 where
  "file_ops_mask =
     to_mask Read OR to_mask Write OR to_mask FileDelete OR to_mask FileUnlink
       OR to_mask FileChmod OR to_mask FileChown"

fun action_display :: "action \<Rightarrow> string" where
  "action_display Read = ''Read''"
| "action_display Write = ''Write''"
| "action_display Execute = ''Execute''"
| "action_display FileDelete = ''Delete''"
| "action_display FileUnlink = ''Unlink''"
| "action_display FileRename = ''Rename''"
| "action_display FileChmod = ''Chmod''"
| "action_display FileChown = ''Chown''"
| "action_display NetConnect = ''Connect''"
| "action_display Unknown = ''Unknown''"

section \<open>errors.rs\<close>

datatype validate_error_kind = VkSchema | VkIo | VkJsonParse | VkSemantic

record validate_error =
  ve_kind :: validate_error_kind
  ve_message :: string

definition validate_error_new :: "validate_error_kind \<Rightarrow> string \<Rightarrow> validate_error" where
  "validate_error_new k m = \<lparr>ve_kind = k, ve_message = m\<rparr>"

datatype assignment_context = CtxUser string | CtxUid u32 | CtxGroup string | CtxGid u32

fun assignment_context_display :: "assignment_context \<Rightarrow> string" where
  "assignment_context_display (CtxUser u) = ''user='' @ u"
| "assignment_context_display (CtxUid u) = ''uid='' @ show_u32 u"
| "assignment_context_display (CtxGroup g) = ''group='' @ g"
| "assignment_context_display (CtxGid g) = ''gid='' @ show_u32 g"

datatype assignment_kind = MissingTarget | AmbiguousTarget | EmptyName

fun assignment_kind_display :: "assignment_kind \<Rightarrow> string" where
  "assignment_kind_display MissingTarget = ''missing target''"
| "assignment_kind_display AmbiguousTarget = ''ambiguous target''"
| "assignment_kind_display EmptyName = ''empty name target''"

datatype compile_error =
    Json string
  | UnsupportedVersion string
  | DuplicateRuleId string
  | DuplicateRoleName string
  | InvalidRoleName string string
  | Semantic string
  | MissingField string
  | InvalidField string string
  | InvalidObjectPath string
  | UnknownAction string
  | UnknownRole string
  | UnknownRoleInAssignment string assignment_context
  | EmptyRoleSetInAssignment assignment_context
  | MissingAssignmentTarget
  | AmbiguousAssignmentTarget
  | InvalidAssignmentTarget assignment_kind "u32 option" "string option"
  | MissingGroupAssignmentTarget
  | AmbiguousGroupAssignmentTarget
  | InvalidGroupAssignmentTarget assignment_kind "u32 option" "string option"
  | UnknownRoleReferenced string string
  | PathNormalize string
  | MissingMpaThreshold string
  | InvalidMpaThreshold string
  | InvalidPreApprovalDefaults string
  | InvalidValue string

type_synonym warnings = "string list"

definition warn :: "string \<Rightarrow> warnings \<Rightarrow> warnings" where
  "warn w ws = ws @ [w]"

definition extend_warnings :: "warnings \<Rightarrow> warnings \<Rightarrow> warnings" where
  "extend_warnings ws other = ws @ other"

text \<open>Parsing an action name (types.rs again: it returns a \<open>CompileError\<close>).\<close>

definition action_parse :: "string \<Rightarrow> compile_error + action" where
  "action_parse s =
     (let t = to_ascii_lowercase (rust_trim s)
      in if t = ''read'' then Inr Read
         else if t = ''write'' then Inr Write
         else if t = ''execute'' then Inr Execute
         else if t = ''delete'' then Inr FileDelete
         else if t = ''unlink'' then Inr FileUnlink
         else if t = ''rename'' then Inr FileRename
         else if t = ''chmod'' then Inr FileChmod
         else if t = ''chown'' then Inr FileChown
         else if t = ''connect'' then Inr NetConnect
         else if t = ''unknown'' then Inr Unknown
         else Inl (UnknownAction s))"

section \<open>util.rs\<close>

fun join :: "string \<Rightarrow> string list \<Rightarrow> string" where
  "join sep [] = []"
| "join sep [s] = s"
| "join sep (s # t # ts) = s @ sep @ join sep (t # ts)"

definition u32_to_str :: "u32 \<Rightarrow> string" where
  "u32_to_str op = join '','' (
     (if to_mask Read AND op \<noteq> 0 then [''READ''] else []) @
     (if to_mask Write AND op \<noteq> 0 then [''WRITE''] else []) @
     (if to_mask Execute AND op \<noteq> 0 then [''EXECUTE''] else []) @
     (if to_mask FileDelete AND op \<noteq> 0 then [''DELETE''] else []) @
     (if to_mask FileUnlink AND op \<noteq> 0 then [''UNLINK''] else []) @
     (if to_mask FileRename AND op \<noteq> 0 then [''RENAME''] else []) @
     (if to_mask FileChmod AND op \<noteq> 0 then [''CHMOD''] else []) @
     (if to_mask FileChown AND op \<noteq> 0 then [''CHOWN''] else []) @
     (if to_mask NetConnect AND op \<noteq> 0 then [''CONNECT''] else []) @
     (if to_mask Unknown AND op \<noteq> 0 then [''UNKNOWN''] else []))"

text \<open>
  \<open>name_to_uid\<close> asks the user database (\<open>getpwnam\<close> through the crate \<open>nix\<close>); the parameter
  is \<open>User::from_name\<close>: an error, no such user, or the uid.
\<close>

type_synonym user_db = "string \<Rightarrow> string + u32 option"

definition name_to_uid :: "user_db \<Rightarrow> string \<Rightarrow> string + u32" where
  "name_to_uid from_name name =
     bindR (map_err (\<lambda>_. ''Failed to call getpwnam for '' @ name) (from_name name))
       (\<lambda>u. ok_or u (''User not found: '' @ name))"

definition normalize_tty_name :: "string \<Rightarrow> string" where
  "normalize_tty_name tty = rust_trim (replace_all ''/'' '''' (replace_all ''/dev/'' '''' tty))"

definition normalize_opt_field :: "string \<Rightarrow> string option" where
  "normalize_opt_field s = (if s = [] then None else Some s)"

text \<open>
  The serde names of \<open>Action\<close> (\<open>SCREAMING_SNAKE_CASE\<close>, with \<open>serde(other)\<close> on \<open>Unknown\<close>), and
  the deserialisation of \<open>ops\<close>.
\<close>

definition serde_action :: "string \<Rightarrow> action" where
  "serde_action s =
     (if s = ''READ'' then Read
      else if s = ''WRITE'' then Write
      else if s = ''EXECUTE'' then Execute
      else if s = ''FILE_DELETE'' then FileDelete
      else if s = ''FILE_UNLINK'' then FileUnlink
      else if s = ''FILE_RENAME'' then FileRename
      else if s = ''FILE_CHMOD'' then FileChmod
      else if s = ''FILE_CHOWN'' then FileChown
      else if s = ''NET_CONNECT'' then NetConnect
      else Unknown)"

definition deserialize_ops_uppercase :: "string list \<Rightarrow> action list" where
  "deserialize_ops_uppercase raw = map (\<lambda>s. serde_action (to_uppercase s)) raw"

section \<open>Facts about masks and names\<close>

lemma to_mask_bits: "to_mask a AND to_mask b \<noteq> 0 \<longleftrightarrow> a = b"
  by (cases a; cases b) simp_all

lemma to_mask_nonzero [simp]: "to_mask a \<noteq> 0"
  by (cases a) simp_all

lemma to_mask_inject [simp]: "to_mask a = to_mask b \<longleftrightarrow> a = b"
  by (cases a; cases b) simp_all

lemma effect_from_as_str [simp]: "effect_from (effect_as_str e) = e"
  by (cases e) (simp_all add: effect_from_def)

text \<open>The union of the masks of a list of actions contains exactly the bits of the list.\<close>

fun or_masks :: "u32 \<Rightarrow> action list \<Rightarrow> u32" where
  "or_masks op [] = op"
| "or_masks op (a # as) = or_masks (op OR to_mask a) as"

lemma and_or_zero: "(a :: u32) AND (b OR c) = 0 \<longleftrightarrow> a AND b = 0 \<and> a AND c = 0"
  by (simp add: bit_eq_iff bit_simps) blast

lemma or_masks_bit:
  "to_mask a AND or_masks op as \<noteq> 0 \<longleftrightarrow> to_mask a AND op \<noteq> 0 \<or> a \<in> set as"
proof (induction as arbitrary: op)
  case Nil
  then show ?case by simp
next
  case (Cons b bs)
  have "to_mask a AND (op OR to_mask b) \<noteq> 0 \<longleftrightarrow> to_mask a AND op \<noteq> 0 \<or> a = b"
    using to_mask_bits [of a b] by (simp add: and_or_zero)
  with Cons.IH [of "op OR to_mask b"] show ?case by auto
qed

text \<open>Names that \<open>action_parse\<close> gets from the kernel are already trimmed.\<close>

lemma action_parse_plain:
  assumes "s \<noteq> []" "plain_byte (hd s)" "plain_byte (last s)"
  shows "action_parse s = (let t = to_ascii_lowercase s in
      if t = ''read'' then Inr Read else if t = ''write'' then Inr Write
      else if t = ''execute'' then Inr Execute else if t = ''delete'' then Inr FileDelete
      else if t = ''unlink'' then Inr FileUnlink else if t = ''rename'' then Inr FileRename
      else if t = ''chmod'' then Inr FileChmod else if t = ''chown'' then Inr FileChown
      else if t = ''connect'' then Inr NetConnect else if t = ''unknown'' then Inr Unknown
      else Inl (UnknownAction s))"
  using assms by (simp add: action_parse_def rust_trim_plain)

end
