(* ===== verification/Raw.thy ===== *)
theory Raw
  imports Engine_Types
begin

text \<open>
  \<open>v14/raw.rs\<close>: the configuration as serde reads it, before compilation, and the ticket flags.
  Reading JSON and checking it against the schema is done by \<open>serde_json\<close> and \<open>jsonschema\<close>
  and is not modelled; the records below are what those libraries hand over.
\<close>

section \<open>Ticket flags\<close>

definition TEAL_TICKET_FLG_SILENT_IO :: u32 where
  "TEAL_TICKET_FLG_SILENT_IO = push_bit 0 1"

definition TEAL_TICKET_FLG_INHERIT :: u32 where
  "TEAL_TICKET_FLG_INHERIT = push_bit 1 1"

definition TEAL_TICKET_FLG_NAMELESS_IPC :: u32 where
  "TEAL_TICKET_FLG_NAMELESS_IPC = push_bit 2 1"

definition TEAL_TICKET_FLG_PARENT_MATCH :: u32 where
  "TEAL_TICKET_FLG_PARENT_MATCH = push_bit 4 1"

lemma flag_values [simp]:
  "TEAL_TICKET_FLG_SILENT_IO = 1" "TEAL_TICKET_FLG_INHERIT = 2"
  "TEAL_TICKET_FLG_NAMELESS_IPC = 4" "TEAL_TICKET_FLG_PARENT_MATCH = 16"
  by (simp_all add: TEAL_TICKET_FLG_SILENT_IO_def TEAL_TICKET_FLG_INHERIT_def
      TEAL_TICKET_FLG_NAMELESS_IPC_def TEAL_TICKET_FLG_PARENT_MATCH_def)

record raw_ticket_profile =
  rtp_silent_io :: bool
  rtp_inherit :: bool
  rtp_allow_nameless_ipc :: bool

definition default_ticket_profile :: raw_ticket_profile where
  "default_ticket_profile =
     \<lparr>rtp_silent_io = False, rtp_inherit = False, rtp_allow_nameless_ipc = False\<rparr>"

definition ticket_profile_to_u32 :: "raw_ticket_profile \<Rightarrow> u32" where
  "ticket_profile_to_u32 p =
     (let f0 = (0 :: u32);
          f1 = (if rtp_silent_io p then f0 OR TEAL_TICKET_FLG_SILENT_IO else f0);
          f2 = (if rtp_inherit p then f1 OR TEAL_TICKET_FLG_INHERIT else f1);
          f3 = (if rtp_allow_nameless_ipc p then f2 OR TEAL_TICKET_FLG_NAMELESS_IPC else f2)
      in f3)"

section \<open>Policies\<close>

record raw_bundle =
  rb_schema_version :: string
  rb_name :: "string option"
  rb_policy_files :: "string list"

record raw_pre_approval_defaults =
  rpd_ttl_sec_default :: u64
  rpd_ttl_sec_max :: "u64 option"

record raw_login_context =
  rlc_source_ip :: "string option"
  rlc_auth_method :: "string option"
  rlc_require_interactive_tty :: "bool option"
  rlc_bind_registered_session :: "bool option"

record raw_subject =
  rsu_user :: "string option"
  rsu_uid :: "u32 option"
  rsu_roles :: "string list"
  rsu_origin_program :: "string option"
  rsu_origin_script :: "string option"
  rsu_origin_applet :: "string option"
  rsu_login_context :: "raw_login_context option"

record raw_time_window =
  rtw_start :: string
  rtw_end :: string

record raw_time_constraint =
  rtc_week_interval :: u32
  rtc_days :: "string list"
  rtc_window :: raw_time_window

record raw_object =
  rob_path :: string
  rob_new_path :: "string option"

record raw_action =
  rac_ops :: "action list"

record raw_mpa =
  rmp_threshold :: u32
  rmp_approver_roles :: "string list"

record raw_pre_approval =
  rpa_enabled :: bool
  rpa_ttl_sec :: "u64 option"

record raw_rule =
  rr_id :: string
  rr_description :: "string option"
  rr_rule_type :: rule_type
  rr_subject :: raw_subject
  rr_time_constraints :: "raw_time_constraint list"
  rr_object :: "raw_object option"
  rr_action :: raw_action
  rr_effect :: effect
  rr_mpa :: "raw_mpa option"
  rr_audit_level :: audit_level
  rr_max_uses :: u32
  rr_pre_approval :: "raw_pre_approval option"
  rr_reason :: "string option"
  rr_ticket_profile :: raw_ticket_profile

definition default_audit_level :: audit_level where
  "default_audit_level = AlStandard"

definition default_max_uses :: u32 where
  "default_max_uses = 1"

definition default_week_interval :: u32 where
  "default_week_interval = 1"

record raw_policy =
  rp_version :: string
  rp_system_type :: system_type
  rp_default_effect :: "effect option"
  rp_default_reason :: "string option"
  rp_ttl_minutes :: u64
  rp_sweep_minutes :: u64
  rp_pre_approval_defaults :: raw_pre_approval_defaults
  rp_rules :: "raw_rule list"

section \<open>Roles\<close>

record raw_role_def =
  rrd_name :: string
  rrd_description :: "string option"
  rrd_tags :: "string list"
  rrd_permissions :: "string list"

record raw_assignment =
  ra_uid :: "u32 option"
  ra_user :: "string option"
  ra_roles :: "string list"

record raw_group_assignment =
  rga_gid :: "u32 option"
  rga_group :: "string option"
  rga_roles :: "string list"

record raw_login_context_assignment =
  rla_uid :: "u32 option"
  rla_user :: "string option"
  rla_allowed_ssh_sources :: "string list"

record raw_defaults =
  rd_roles_for_unknown_user :: "string list"
  rd_deny_if_role_unknown :: bool

record raw_roles =
  rro_schema_version :: string
  rro_roles :: "raw_role_def list"
  rro_assignments :: "raw_assignment list"
  rro_group_assignments :: "raw_group_assignment list"
  rro_login_contexts :: "raw_login_context_assignment list"
  rro_defaults :: raw_defaults

section \<open>Facts\<close>

text \<open>The flag word of a profile carries exactly its three booleans.\<close>

lemma ticket_profile_flags:
  "ticket_profile_to_u32 p AND TEAL_TICKET_FLG_SILENT_IO \<noteq> 0 \<longleftrightarrow> rtp_silent_io p"
  "ticket_profile_to_u32 p AND TEAL_TICKET_FLG_INHERIT \<noteq> 0 \<longleftrightarrow> rtp_inherit p"
  "ticket_profile_to_u32 p AND TEAL_TICKET_FLG_NAMELESS_IPC \<noteq> 0 \<longleftrightarrow> rtp_allow_nameless_ipc p"
  "ticket_profile_to_u32 p AND TEAL_TICKET_FLG_PARENT_MATCH = 0"
  by (simp_all add: ticket_profile_to_u32_def Let_def)

end
