(* ===== verification/Ir.thy ===== *)
theory Ir
  imports Raw
begin

text \<open>
  \<open>v14/ir.rs\<close>: the compiled policy. The record \<open>platform\<close> gathers what the engine gets from
  crates outside the repository (\<open>globset\<close>, \<open>ipnetwork\<close>, the user database of \<open>nix\<close>); it is an
  argument of the definitions that use it. A compiled glob is represented by its pattern.

  The scope index decides which requests are managed at all. Its two halves (objects and
  programs) share the interface \<open>match_index\<close>: adding a matcher to an index makes exactly
  the paths of that matcher hit it.
\<close>

section \<open>Code outside the repository\<close>

datatype ipnet = IpNet (net_ip: ipaddr) (net_prefix_len: u8)

record platform =
  glob_new :: "string \<Rightarrow> string + unit"         \<comment> \<open>\<open>globset::Glob::new\<close>: an error message or a valid pattern\<close>
  glob_is_match :: "string \<Rightarrow> path \<Rightarrow> bool"      \<comment> \<open>\<open>GlobMatcher::is_match\<close> of the pattern\<close>
  net_parse :: "string \<Rightarrow> string + ipnet"         \<comment> \<open>\<open>IpNetwork::from_str\<close>\<close>
  net_new :: "ipaddr \<Rightarrow> u8 \<Rightarrow> string + ipnet"      \<comment> \<open>\<open>IpNetwork::new\<close>\<close>
  net_network :: "ipnet \<Rightarrow> ipaddr"               \<comment> \<open>\<open>IpNetwork::network\<close>\<close>
  net_contains :: "ipnet \<Rightarrow> ipaddr \<Rightarrow> bool"      \<comment> \<open>\<open>IpNetwork::contains\<close>\<close>
  user_from_name :: user_db                      \<comment> \<open>\<open>User::from_name\<close>\<close>

section \<open>Path matchers\<close>

datatype path_matcher = PmExact path | PmPrefix path | PmGlob string

fun is_exact :: "path_matcher \<Rightarrow> bool" where
  "is_exact (PmExact _) = True"
| "is_exact _ = False"

fun pathmatcher_display :: "path_matcher \<Rightarrow> string" where
  "pathmatcher_display (PmExact p) = p"
| "pathmatcher_display (PmPrefix p) = ''prefix:'' @ p"
| "pathmatcher_display (PmGlob g) = ''glob:'' @ g"

definition compile_exact :: "string \<Rightarrow> string + path_matcher" where
  "compile_exact s0 =
     (let s = rust_trim s0
      in if s = [] then Inl ''path is empty''
         else if \<not> is_absolute s then Inl (''path must be an absolute path: '' @ s)
         else Inr (PmExact s))"

text \<open>
  \<open>exact_path\<close> fails with a message that quotes the derived \<open>Debug\<close> form of the matcher, which
  for a glob prints the internals of \<open>globset\<close>; the parameter stands for that text.
\<close>

fun exact_path :: "(path_matcher \<Rightarrow> string) \<Rightarrow> path_matcher \<Rightarrow> string + path" where
  "exact_path dbg (PmExact p) = Inr p"
| "exact_path dbg pm = Inl (''path is not Exact (path type '' @ dbg pm @ '')'')"

definition pathmatcher_parse :: "platform \<Rightarrow> string \<Rightarrow> string + path_matcher" where
  "pathmatcher_parse pf input =
     (case strip_prefix ''glob:'' input of
        Some pattern \<Rightarrow>
          bindR (map_err (\<lambda>e. ''Invalid glob pattern '' @ quoted pattern @ '': '' @ e) (glob_new pf pattern))
            (\<lambda>_. Inr (PmGlob pattern))
      | None \<Rightarrow>
          (case strip_prefix ''prefix:'' input of
             Some path_str \<Rightarrow> Inr (PmPrefix path_str)
           | None \<Rightarrow> Inr (PmExact input)))"

text \<open>The hand-written \<open>PartialEq\<close>.\<close>

fun pathmatcher_eq :: "path_matcher \<Rightarrow> path_matcher \<Rightarrow> bool" where
  "pathmatcher_eq (PmExact a) (PmExact b) = path_eq a b"
| "pathmatcher_eq (PmPrefix a) (PmPrefix b) = path_eq a b"
| "pathmatcher_eq (PmGlob a) (PmGlob b) = (a = b)"
| "pathmatcher_eq _ _ = False"

section \<open>Action matchers\<close>

datatype action_matcher = AmAny | AmOneOf "action hset"

fun pick_one :: "action_matcher \<Rightarrow> action" where
  "pick_one (AmOneOf s) = (case s of [] \<Rightarrow> Unknown | a # _ \<Rightarrow> a)"
| "pick_one AmAny = Unknown"

fun action_matcher_to_u32 :: "action_matcher \<Rightarrow> u32" where
  "action_matcher_to_u32 AmAny = - 1"
| "action_matcher_to_u32 (AmOneOf as) = or_masks 0 as"

section \<open>Matchers of a rule\<close>

datatype weekday = Mon | Tue | Wed | Thu | Fri | Sat | Sun

datatype object_kind = OkFile | OkDir | OkSocket | OkPipe

datatype log_level = LlTrace | LlDebug | LlInfo | LlWarn | LlError

record login_context_matcher =
  lcm_source_ip_network :: "ipnet option"
  lcm_auth_method :: "string option"
  lcm_require_interactive_tty :: bool
  lcm_bind_registered_session :: bool

record subject_matcher =
  sm_uid :: "u32 option"
  sm_required_roles :: "string hset"
  sm_origin_program :: "path_matcher option"
  sm_origin_script :: "path_matcher option"
  sm_origin_applet :: "string option"
  sm_login_context :: "login_context_matcher option"

record time_constraint_matcher =
  tcm_allowed_days :: "weekday hset"
  tcm_start :: u32
  tcm_end :: u32
  tcm_week_interval :: u32

record object_matcher =
  om_path :: "path_matcher option"
  om_new_path :: "path_matcher option"
  om_kind :: "object_kind option"

record mpa_matcher =
  mm_threshold :: u32
  mm_approver_roles :: "string hset"

record audit_cfg =
  au_tag :: "string option"
  au_log_level :: "log_level option"

record compiled_pre_approval =
  cpa_enabled :: bool
  cpa_ttl_sec :: u64

record ticket_profile =
  tp_flags :: u32

definition ticket_profile_from_raw :: "raw_ticket_profile \<Rightarrow> ticket_profile" where
  "ticket_profile_from_raw raw = \<lparr>tp_flags = ticket_profile_to_u32 raw\<rparr>"

definition is_silent_io :: "ticket_profile \<Rightarrow> bool" where
  "is_silent_io p \<longleftrightarrow> tp_flags p AND TEAL_TICKET_FLG_SILENT_IO \<noteq> 0"

definition is_inherit :: "ticket_profile \<Rightarrow> bool" where
  "is_inherit p \<longleftrightarrow> tp_flags p AND TEAL_TICKET_FLG_INHERIT \<noteq> 0"

section \<open>Rules\<close>

record compiled_rule =
  cr_id :: string
  cr_source_file :: "string option"
  cr_description :: "string option"
  cr_rule_type :: rule_type
  cr_effect :: effect
  cr_max_uses :: u32
  cr_subject :: subject_matcher
  cr_time_constraints :: "time_constraint_matcher list"
  cr_object :: "object_matcher option"
  cr_action_match :: action_matcher
  cr_mpa :: "mpa_matcher option"
  cr_audit :: audit_cfg
  cr_pre_approval :: compiled_pre_approval
  cr_audit_level :: audit_level
  cr_out_reason :: string
  cr_ticket_profile :: ticket_profile

definition default_with_reason :: "effect \<Rightarrow> string \<Rightarrow> compiled_rule" where
  "default_with_reason eff reason =
     \<lparr>cr_id = ''default_rule'', cr_source_file = None, cr_description = None,
      cr_rule_type = RtStandard, cr_effect = eff, cr_max_uses = 1,
      cr_subject = \<lparr>sm_uid = None, sm_required_roles = [], sm_origin_program = None,
        sm_origin_script = None, sm_origin_applet = None, sm_login_context = None\<rparr>,
      cr_time_constraints = [],
      cr_object = Some \<lparr>om_path = Some (PmPrefix []), om_new_path = None, om_kind = None\<rparr>,
      cr_action_match = AmAny, cr_mpa = None,
      cr_audit = \<lparr>au_tag = None, au_log_level = None\<rparr>,
      cr_pre_approval = \<lparr>cpa_enabled = False, cpa_ttl_sec = 0\<rparr>,
      cr_audit_level = AlStandard, cr_out_reason = reason,
      cr_ticket_profile = \<lparr>tp_flags = 0\<rparr>\<rparr>"

definition approver_roles :: "compiled_rule \<Rightarrow> string hset" where
  "approver_roles r = (case cr_mpa r of Some a \<Rightarrow> mm_approver_roles a | None \<Rightarrow> [])"

definition rule_threshold :: "compiled_rule \<Rightarrow> u32" where
  "rule_threshold r = (case cr_mpa r of Some a \<Rightarrow> mm_threshold a | None \<Rightarrow> 0)"

text \<open>The priority of a rule; the derived order is \<open>Low < Medium < High\<close>.\<close>

datatype specificity = Low | Medium | High

fun specificity_rank :: "specificity \<Rightarrow> nat" where
  "specificity_rank Low = 0"
| "specificity_rank Medium = 1"
| "specificity_rank High = 2"

lemma specificity_rank_inject: "specificity_rank a = specificity_rank b \<Longrightarrow> a = b"
  by (cases a; cases b) auto

instantiation specificity :: linorder
begin

definition less_eq_specificity :: "specificity \<Rightarrow> specificity \<Rightarrow> bool" where
  "less_eq_specificity a b \<longleftrightarrow> specificity_rank a \<le> specificity_rank b"

definition less_specificity :: "specificity \<Rightarrow> specificity \<Rightarrow> bool" where
  "less_specificity a b \<longleftrightarrow> specificity_rank a < specificity_rank b"

instance
  by standard
    (auto simp: less_eq_specificity_def less_specificity_def dest: specificity_rank_inject)

end

definition exact_opt :: "path_matcher option \<Rightarrow> bool" where
  "exact_opt pm = (case pm of None \<Rightarrow> False | Some p \<Rightarrow> is_exact p)"

definition calculate_specificity :: "compiled_rule \<Rightarrow> specificity" where
  "calculate_specificity r =
     (let obj_exact = exact_opt (case cr_object r of None \<Rightarrow> None | Some ob \<Rightarrow> om_path ob);
          prog_exact = exact_opt (sm_origin_program (cr_subject r));
          script_exact = exact_opt (sm_origin_script (cr_subject r))
      in if obj_exact \<and> prog_exact \<and> script_exact then High
         else if obj_exact then Medium
         else Low)"

section \<open>Requests\<close>

record registered_session =
  rs_uid :: u32
  rs_source_ip :: "string option"
  rs_auth_method :: "string option"

record access_context =
  ac_uid :: u32
  ac_subject_roles :: "string hset"
  ac_origin_program :: "path option"
  ac_origin_script :: "path option"
  ac_origin_applet :: "string option"
  ac_action :: action
  ac_object_path :: path
  ac_object_new_path :: "path option"
  ac_object_kind :: "object_kind option"
  ac_session_tty :: string
  ac_registered_session :: "registered_session option"

datatype decision = Pass | Matched compiled_rule | NoMatchManaged

section \<open>The managed scope\<close>

record managed_scope_index =
  ms_exact_paths :: "path hset"
  ms_prefixes :: "path list"
  ms_globs :: "string list"
  ms_subject_exact :: "path hset"
  ms_subject_prefix :: "path list"
  ms_subject_glob :: "string list"

type_synonym path_index = "path hset \<times> path list \<times> string list"

fun add_matcher :: "path_matcher \<Rightarrow> path_index \<Rightarrow> path_index" where
  "add_matcher (PmExact p) (ex, pfxs, globs) = (path_set_insert p ex, pfxs, globs)"
| "add_matcher (PmPrefix p) (ex, pfxs, globs) = (ex, pfxs @ [p], globs)"
| "add_matcher (PmGlob g) (ex, pfxs, globs) = (ex, pfxs, globs @ [g])"

definition add_matcher_opt :: "path_matcher option \<Rightarrow> path_index \<Rightarrow> path_index" where
  "add_matcher_opt pm i = (case pm of None \<Rightarrow> i | Some m \<Rightarrow> add_matcher m i)"

fun path_set_extend :: "path hset \<Rightarrow> path list \<Rightarrow> path hset" where
  "path_set_extend xs [] = xs"
| "path_set_extend xs (y # ys) = path_set_extend (path_set_insert y xs) ys"

definition scope_union :: "managed_scope_index \<Rightarrow> managed_scope_index \<Rightarrow> managed_scope_index" where
  "scope_union s t =
     \<lparr>ms_exact_paths = path_set_extend (ms_exact_paths s) (ms_exact_paths t),
      ms_prefixes = ms_prefixes s @ ms_prefixes t,
      ms_globs = ms_globs s @ ms_globs t,
      ms_subject_exact = path_set_extend (ms_subject_exact s) (ms_subject_exact t),
      ms_subject_prefix = ms_subject_prefix s @ ms_subject_prefix t,
      ms_subject_glob = ms_subject_glob s @ ms_subject_glob t\<rparr>"

fun index_rule :: "compiled_rule \<Rightarrow> path_index \<times> path_index \<Rightarrow> path_index \<times> path_index" where
  "index_rule r (objs, subs) =
     (let objs' =
            (if cr_rule_type r \<noteq> RtSubjectOnly then
               (case cr_object r of
                  Some ob \<Rightarrow> add_matcher_opt (om_new_path ob) (add_matcher_opt (om_path ob) objs)
                | None \<Rightarrow> objs)
             else objs);
          subs' =
            (if cr_rule_type r = RtSubjectOnly then
               add_matcher_opt (sm_origin_program (cr_subject r)) subs
             else subs)
      in (objs', subs'))"

fun index_rules :: "compiled_rule list \<Rightarrow> path_index \<times> path_index \<Rightarrow> path_index \<times> path_index" where
  "index_rules [] i = i"
| "index_rules (r # rs) i = index_rules rs (index_rule r i)"

definition scope_from_rules :: "compiled_rule list \<Rightarrow> managed_scope_index" where
  "scope_from_rules rules =
     (case index_rules rules (([], [], []), ([], [], [])) of
        ((ex, pfxs, globs), (sex, sprefixes, sglobs)) \<Rightarrow>
          \<lparr>ms_exact_paths = ex, ms_prefixes = pfxs, ms_globs = globs,
           ms_subject_exact = sex, ms_subject_prefix = sprefixes, ms_subject_glob = sglobs\<rparr>)"

definition scope_default :: managed_scope_index where
  "scope_default =
     \<lparr>ms_exact_paths = [], ms_prefixes = [], ms_globs = [],
      ms_subject_exact = [], ms_subject_prefix = [], ms_subject_glob = []\<rparr>"

fun index_hits :: "platform \<Rightarrow> path_index \<Rightarrow> path \<Rightarrow> bool" where
  "index_hits pf (ex, pfxs, globs) p \<longleftrightarrow>
     path_set_contains ex p \<or> (\<exists>b \<in> set pfxs. path_starts_with p b) \<or>
     (\<exists>g \<in> set globs. glob_is_match pf g p)"

definition matches_object_scope :: "platform \<Rightarrow> managed_scope_index \<Rightarrow> path \<Rightarrow> bool" where
  "matches_object_scope pf s p = index_hits pf (ms_exact_paths s, ms_prefixes s, ms_globs s) p"

text \<open>
  The contract of an index: it starts out hitting nothing, and adding a matcher makes it hit
  exactly the paths of that matcher in addition to what it hit before.
\<close>

locale match_index =
  fixes empty_index :: "'i"
    and add :: "'m \<Rightarrow> 'i \<Rightarrow> 'i"
    and hits :: "'i \<Rightarrow> 'p \<Rightarrow> bool"
    and covers :: "'m \<Rightarrow> 'p \<Rightarrow> bool"
  assumes hits_empty: "\<not> hits empty_index p"
    and hits_add: "hits (add m i) p \<longleftrightarrow> covers m p \<or> hits i p"
begin

lemma add_mono: "hits i p \<Longrightarrow> hits (add m i) p"
  by (simp add: hits_add)

lemma add_sound: "covers m p \<Longrightarrow> hits (add m i) p"
  by (simp add: hits_add)

lemma hits_fold: "hits (fold add ms i) p \<longleftrightarrow> (\<exists>m \<in> set ms. covers m p) \<or> hits i p"
  by (induction ms arbitrary: i) (auto simp: hits_add)

lemma hits_fold_empty: "hits (fold add ms empty_index) p \<longleftrightarrow> (\<exists>m \<in> set ms. covers m p)"
  by (simp add: hits_fold hits_empty)

lemma add_commutes: "hits (add m (add m' i)) p \<longleftrightarrow> hits (add m' (add m i)) p"
  by (auto simp: hits_add)

end

definition is_request_managed :: "platform \<Rightarrow> managed_scope_index \<Rightarrow> access_context \<Rightarrow> bool" where
  "is_request_managed pf s ctx =
     (if matches_object_scope pf s (ac_object_path ctx) then True
      else if (case ac_object_new_path ctx of
                 Some np \<Rightarrow> matches_object_scope pf s np | None \<Rightarrow> False) then True
      else (case ac_origin_program ctx of
              Some prog \<Rightarrow>
                index_hits pf (ms_subject_exact s, ms_subject_prefix s, ms_subject_glob s) prog
            | None \<Rightarrow> False))"

section \<open>Policies and roles\<close>

datatype policy_version = V1_2 | V1_3 | V1_4

fun policy_version_debug :: "policy_version \<Rightarrow> string" where
  "policy_version_debug V1_2 = ''V1_2''"
| "policy_version_debug V1_3 = ''V1_3''"
| "policy_version_debug V1_4 = ''V1_4''"

record compiled_pre_approval_defaults =
  cpd_ttl_sec_default :: u64
  cpd_ttl_sec_max :: "u64 option"

definition pre_approval_defaults_from ::
  "raw_pre_approval_defaults \<Rightarrow> compiled_pre_approval_defaults" where
  "pre_approval_defaults_from r =
     \<lparr>cpd_ttl_sec_default = rpd_ttl_sec_default r, cpd_ttl_sec_max = rpd_ttl_sec_max r\<rparr>"

definition default_pre_approval_defaults :: compiled_pre_approval_defaults where
  "default_pre_approval_defaults = \<lparr>cpd_ttl_sec_default = 600, cpd_ttl_sec_max = None\<rparr>"

record compiled_policy =
  cp_version :: policy_version
  cp_system_type :: system_type
  cp_rules :: "compiled_rule list"
  cp_scope :: managed_scope_index
  cp_pre_approval_defaults :: compiled_pre_approval_defaults
  cp_default_effect :: effect
  cp_default_reason :: string
  cp_ttl_minutes :: u64
  cp_sweep_minutes :: u64

definition merge_rule ::
  "compiled_rule \<Rightarrow> string hset \<times> compiled_rule list \<Rightarrow> string + (string hset \<times> compiled_rule list)" where
  "merge_rule r st =
     (case st of (seen, rules) \<Rightarrow>
        if cr_id r \<in> set seen then Inl (''duplicate rule id while merging: '' @ cr_id r)
        else Inr (hs_insert (cr_id r) seen, rules @ [r]))"

text \<open>
  \<open>CompiledPolicy::merge\<close>. On an error the half-merged policy is dropped by the only caller, so
  the error alone is returned.
\<close>

definition policy_merge ::
  "compiled_policy \<Rightarrow> compiled_policy \<Rightarrow> warnings \<Rightarrow> string + (compiled_policy \<times> warnings)" where
  "policy_merge base nxt ws =
     (if cp_version base \<noteq> cp_version nxt then
        Inl (''policy version mismatch: base='' @ policy_version_debug (cp_version base) @
             '' next='' @ policy_version_debug (cp_version nxt))
      else if cp_system_type base \<noteq> cp_system_type nxt then
        Inl (''policy system_type mismatch: base='' @ system_type_debug (cp_system_type base) @
             '' next='' @ system_type_debug (cp_system_type nxt) @
             '' (cannot merge different operation contexts)'')
      else
        let ws1 = (if cp_default_effect base \<noteq> cp_default_effect nxt then
              warn (''default_effect differs across policy files: base='' @
                    quoted (effect_debug (cp_default_effect base)) @ '' next='' @
                    quoted (effect_debug (cp_default_effect nxt)) @ '' (keeping base)'') ws else ws);
            ws2 = (if cp_default_reason base \<noteq> cp_default_reason nxt then
              warn (''default_reason differs across policy files: base='' @
                    quoted (cp_default_reason base) @ '' next='' @
                    quoted (cp_default_reason nxt) @ '' (keeping base)'') ws1 else ws1);
            ws3 = (if cp_ttl_minutes base \<noteq> cp_ttl_minutes nxt then
              warn (''ttl_minutes differs across policy files: base='' @
                    show_u64 (cp_ttl_minutes base) @ '' next='' @
                    show_u64 (cp_ttl_minutes nxt) @ '' (keeping base)'') ws2 else ws2);
            ws4 = (if cp_sweep_minutes base \<noteq> cp_sweep_minutes nxt then
              warn (''sweep_minutes differs across policy files: base='' @
                    show_u64 (cp_sweep_minutes base) @ '' next='' @
                    show_u64 (cp_sweep_minutes nxt) @ '' (keeping base)'') ws3 else ws3);
            scope = scope_union (cp_scope base) (cp_scope nxt);
            seen = hs_of_list (map cr_id (cp_rules base))
        in bindR (foldR merge_rule (cp_rules nxt) (seen, cp_rules base))
             (\<lambda>(_, rules). Inr (base\<lparr>cp_scope := scope, cp_rules := rules\<rparr>, ws4)))"

definition default_policy :: compiled_policy where
  "default_policy =
     \<lparr>cp_version = V1_4, cp_system_type = Server, cp_rules = [], cp_scope = scope_default,
      cp_pre_approval_defaults = default_pre_approval_defaults, cp_default_effect = Deny,
      cp_default_reason = ''Default policy (Fail-Safe)'', cp_ttl_minutes = 10,
      cp_sweep_minutes = 5\<rparr>"

record role_meta =
  rm_description :: "string option"
  rm_tags :: "string list"
  rm_permissions :: "string list"

record role_catalog =
  rc_known_roles :: "string hset"
  rc_meta :: "(string, role_meta) hmap"

record subject_role_index =
  sri_uid_roles :: "(u32, string hset) hmap"

record group_role_index =
  gri_gid_roles :: "(u32, string hset) hmap"
  gri_group_roles :: "(string, string hset) hmap"

record compiled_defaults =
  cd_roles_for_unknown_user :: "string hset"
  cd_deny_if_role_unknown :: bool

record compiled_roles_core =
  crc_roles :: role_catalog
  crc_assignments :: subject_role_index
  crc_group_assignments :: group_role_index
  crc_defaults :: compiled_defaults
  crc_allowed_ssh_networks :: "(u32, ipnet list) hmap"

record compiled_roles =
  cro_roles_file :: path
  cro_deny_if_role_unknown :: bool
  cro_known_roles :: "string hset"
  cro_core :: compiled_roles_core

definition is_known_role :: "compiled_roles \<Rightarrow> string \<Rightarrow> bool" where
  "is_known_role r name \<longleftrightarrow> name \<in> set (cro_known_roles r)"

record compiled_bundle =
  cb_policy :: compiled_policy
  cb_roles :: compiled_roles_core
  cb_warnings :: warnings

end
