(* ===== verification/Matchers.thy ===== *)
theory Matchers
  imports Ir
begin

text \<open>
  \<open>v14/matchers.rs\<close> and \<open>v14/eval.rs\<close>: when a rule matches a request, and the evaluation of a
  request against a bundle. The calendar of \<open>chrono\<close> is a parameter: a date is a day number,
  and the record gives its weekday, its ISO week and the day before it. The clock is an
  argument, so every theorem holds at every local time.
\<close>

section \<open>The calendar\<close>

type_synonym date = int

record calendar =
  cal_weekday :: "date \<Rightarrow> weekday"
  cal_iso_week :: "date \<Rightarrow> u32"
  cal_pred :: "date \<Rightarrow> date option"

record naive_date_time =
  ndt_date :: date
  ndt_hour :: u32
  ndt_minute :: u32

section \<open>Time constraints\<close>

definition matches_start_date :: "calendar \<Rightarrow> time_constraint_matcher \<Rightarrow> date \<Rightarrow> bool" where
  "matches_start_date cal c d \<longleftrightarrow>
     (tcm_allowed_days c = [] \<or> cal_weekday cal d \<in> set (tcm_allowed_days c)) \<and>
     (cal_iso_week cal d - 1) mod tcm_week_interval c = 0"

definition time_constraint_holds ::
  "calendar \<Rightarrow> time_constraint_matcher \<Rightarrow> date \<Rightarrow> u32 \<Rightarrow> bool" where
  "time_constraint_holds cal c d minutes =
     (let s = tcm_start c; e = tcm_end c
      in if tcm_week_interval c = 0 \<or> s \<ge> 24 * 60 \<or> e > 24 * 60 \<or> s = e then False
         else if s < e then s \<le> minutes \<and> minutes < e \<and> matches_start_date cal c d
         else if minutes \<ge> s then matches_start_date cal c d
         else if minutes < e then
           (case cal_pred cal d of None \<Rightarrow> False | Some d' \<Rightarrow> matches_start_date cal c d')
         else False)"

definition match_time_constraints_at ::
  "calendar \<Rightarrow> time_constraint_matcher list \<Rightarrow> naive_date_time \<Rightarrow> bool" where
  "match_time_constraints_at cal constraints now =
     (if constraints = [] then True
      else let minutes = ndt_hour now * 60 + ndt_minute now
           in \<exists>c \<in> set constraints. time_constraint_holds cal c (ndt_date now) minutes)"

definition match_time_constraints ::
  "calendar \<Rightarrow> time_constraint_matcher list \<Rightarrow> naive_date_time \<Rightarrow> bool" where
  "match_time_constraints cal constraints now =
     (if constraints = [] then True else match_time_constraints_at cal constraints now)"

section \<open>Paths, objects and actions\<close>

fun pathmatcher_matches :: "platform \<Rightarrow> path_matcher \<Rightarrow> path \<Rightarrow> bool" where
  "pathmatcher_matches pf (PmExact p) q = path_eq q p"
| "pathmatcher_matches pf (PmPrefix p) q = path_starts_with q p"
| "pathmatcher_matches pf (PmGlob g) q = glob_is_match pf g q"

definition match_object ::
  "platform \<Rightarrow> object_matcher option \<Rightarrow> path \<Rightarrow> path option \<Rightarrow> object_kind option \<Rightarrow> bool" where
  "match_object pf om object_path object_new_path kind =
     (case om of
        None \<Rightarrow> True
      | Some m \<Rightarrow>
          if (case om_path m of Some pm \<Rightarrow> \<not> pathmatcher_matches pf pm object_path | None \<Rightarrow> False)
          then False
          else if (case om_new_path m of
                     Some pm \<Rightarrow> (case object_new_path of
                        Some np \<Rightarrow> \<not> pathmatcher_matches pf pm np | None \<Rightarrow> True)
                   | None \<Rightarrow> False)
          then False
          else (case om_kind m of
                  Some rk \<Rightarrow> (case kind of Some ck \<Rightarrow> ck = rk | None \<Rightarrow> True)
                | None \<Rightarrow> True))"

fun match_action :: "action_matcher \<Rightarrow> action \<Rightarrow> bool" where
  "match_action AmAny a = True"
| "match_action (AmOneOf s) a \<longleftrightarrow> a \<in> set s"

section \<open>Login contexts\<close>

type_synonym ssh_networks = "(u32, ipnet list) hmap"

definition is_ssh_source_allowed ::
  "platform \<Rightarrow> ssh_networks \<Rightarrow> registered_session \<Rightarrow> bool" where
  "is_ssh_source_allowed pf nets session =
     (case hm_get nets (rs_uid session) of
        None \<Rightarrow> True
      | Some allowed \<Rightarrow>
          (case rs_source_ip session of
             Some ip_str \<Rightarrow>
               (case parse_ip ip_str of
                  Some ip \<Rightarrow> \<exists>net \<in> set allowed. net_contains pf net ip
                | None \<Rightarrow> False)
           | None \<Rightarrow> True))"

definition interactive_terminal :: "system_type \<Rightarrow> string \<Rightarrow> bool" where
  "interactive_terminal st tty =
     (let cui = prefix ''pts'' tty \<or> prefix ''tty'' tty
      in case st of Server \<Rightarrow> cui | Workstation \<Rightarrow> cui \<or> prefix '':'' tty)"

definition match_login_context ::
  "platform \<Rightarrow> login_context_matcher \<Rightarrow> ssh_networks \<Rightarrow> access_context \<Rightarrow> system_type \<Rightarrow> bool" where
  "match_login_context pf lc nets ctx st =
     (if lcm_require_interactive_tty lc \<and> \<not> interactive_terminal st (ac_session_tty ctx) then False
      else if lcm_bind_registered_session lc then
        (case ac_registered_session ctx of
           Some session \<Rightarrow>
             (if lcm_auth_method lc \<noteq> None \<and> rs_auth_method session \<noteq> lcm_auth_method lc then False
              else if (case lcm_source_ip_network lc of
                         None \<Rightarrow> False
                       | Some network \<Rightarrow>
                           (case rs_source_ip session of
                              None \<Rightarrow> True
                            | Some ip_str \<Rightarrow>
                                (case parse_ip ip_str of
                                   Some ip \<Rightarrow> \<not> net_contains pf network ip
                                 | None \<Rightarrow> True)))
              then False
              else is_ssh_source_allowed pf nets session)
         | None \<Rightarrow>
             (case st of
                Server \<Rightarrow> False
              | Workstation \<Rightarrow>
                  \<not> (lcm_auth_method lc \<noteq> None \<or> lcm_source_ip_network lc \<noteq> None)))
      else True)"

section \<open>Subjects and rules\<close>

definition match_origin :: "platform \<Rightarrow> path_matcher option \<Rightarrow> path option \<Rightarrow> bool" where
  "match_origin pf rule_pm actual =
     (case rule_pm of
        None \<Rightarrow> True
      | Some pm \<Rightarrow> (case actual of None \<Rightarrow> False | Some p \<Rightarrow> pathmatcher_matches pf pm p))"

definition match_subject ::
  "platform \<Rightarrow> subject_matcher \<Rightarrow> ssh_networks \<Rightarrow> access_context \<Rightarrow> system_type \<Rightarrow> bool" where
  "match_subject pf m nets ctx st =
     (if (case sm_uid m of Some u \<Rightarrow> ac_uid ctx \<noteq> u | None \<Rightarrow> False) then False
      else if sm_required_roles m \<noteq> [] \<and>
              \<not> (\<exists>r \<in> set (sm_required_roles m). r \<in> set (ac_subject_roles ctx)) then False
      else if \<not> match_origin pf (sm_origin_program m) (ac_origin_program ctx) then False
      else if \<not> match_origin pf (sm_origin_script m) (ac_origin_script ctx) then False
      else if (case sm_origin_applet m of
                 Some a \<Rightarrow> (case ac_origin_applet ctx of None \<Rightarrow> True | Some c \<Rightarrow> a \<noteq> c)
               | None \<Rightarrow> False) then False
      else (case sm_login_context m of
              Some lc \<Rightarrow> match_login_context pf lc nets ctx st
            | None \<Rightarrow> True))"

text \<open>The environment of one evaluation: what is outside the repository and the clock.\<close>

record eval_env =
  ev_platform :: platform
  ev_calendar :: calendar
  ev_now :: naive_date_time

definition rule_matches ::
  "eval_env \<Rightarrow> compiled_rule \<Rightarrow> ssh_networks \<Rightarrow> access_context \<Rightarrow> system_type \<Rightarrow> bool" where
  "rule_matches ev r nets ctx st =
     (if match_object (ev_platform ev) (cr_object r) (ac_object_path ctx)
           (ac_object_new_path ctx) (ac_object_kind ctx) \<and>
         match_action (cr_action_match r) (ac_action ctx) then
        (if \<not> match_time_constraints (ev_calendar ev) (cr_time_constraints r) (ev_now ev) then False
         else match_subject (ev_platform ev) (cr_subject r) nets ctx st)
      else False)"

section \<open>eval.rs\<close>

fun first_match :: "(compiled_rule \<Rightarrow> bool) \<Rightarrow> compiled_rule list \<Rightarrow> decision" where
  "first_match m [] = NoMatchManaged"
| "first_match m (r # rs) = (if m r then Matched r else first_match m rs)"

definition evaluate :: "eval_env \<Rightarrow> compiled_bundle \<Rightarrow> access_context \<Rightarrow> decision" where
  "evaluate ev bundle ctx =
     (if \<not> is_request_managed (ev_platform ev) (cp_scope (cb_policy bundle)) ctx then Pass
      else first_match
        (\<lambda>r. rule_matches ev r (crc_allowed_ssh_networks (cb_roles bundle)) ctx
               (cp_system_type (cb_policy bundle)))
        (cp_rules (cb_policy bundle)))"

end
