(* ===== verification/Scope.thy ===== *)
theory Scope
  imports Matchers
begin

text \<open>
  What the managed scope and the evaluation of \<open>v14/eval.rs\<close> guarantee. The index built from a
  rule list hits exactly the paths of the matchers it was built from; a rule that is indexed is
  therefore never skipped by the early \<open>Pass\<close> of \<open>evaluate\<close>; the decision is the first
  matching rule of the list.
\<close>

section \<open>The index of a list of rules\<close>

definition empty_path_index :: path_index where
  "empty_path_index = ([], [], [])"

interpretation pix: match_index empty_path_index add_matcher "index_hits pf" "pathmatcher_matches pf"
  for pf
proof unfold_locales
  show "\<not> index_hits pf empty_path_index p" for p
    by (simp add: empty_path_index_def)
  show "index_hits pf (add_matcher m i) p \<longleftrightarrow> pathmatcher_matches pf m p \<or> index_hits pf i p" for m i p
    by (cases m; cases i) (auto simp: path_set_contains_insert intro: path_eq_sym)
qed

definition opt_covers :: "platform \<Rightarrow> path_matcher option \<Rightarrow> path \<Rightarrow> bool" where
  "opt_covers pf pm p = (case pm of None \<Rightarrow> False | Some m \<Rightarrow> pathmatcher_matches pf m p)"

lemma hits_add_opt [simp]:
  "index_hits pf (add_matcher_opt pm i) p \<longleftrightarrow> opt_covers pf pm p \<or> index_hits pf i p"
  by (cases pm) (simp_all add: add_matcher_opt_def opt_covers_def pix.hits_add)

text \<open>The paths a rule contributes to the object half and to the program half of the scope.\<close>

definition rule_object_covers :: "platform \<Rightarrow> compiled_rule \<Rightarrow> path \<Rightarrow> bool" where
  "rule_object_covers pf r p \<longleftrightarrow> cr_rule_type r \<noteq> RtSubjectOnly \<and>
     (\<exists>ob. cr_object r = Some ob \<and> (opt_covers pf (om_path ob) p \<or> opt_covers pf (om_new_path ob) p))"

definition rule_program_covers :: "platform \<Rightarrow> compiled_rule \<Rightarrow> path \<Rightarrow> bool" where
  "rule_program_covers pf r p \<longleftrightarrow>
     cr_rule_type r = RtSubjectOnly \<and> opt_covers pf (sm_origin_program (cr_subject r)) p"

lemma index_rule_objects:
  "index_hits pf (fst (index_rule r i)) p \<longleftrightarrow> rule_object_covers pf r p \<or> index_hits pf (fst i) p"
  by (cases i) (auto simp: rule_object_covers_def split: option.splits)

lemma index_rule_programs:
  "index_hits pf (snd (index_rule r i)) p \<longleftrightarrow> rule_program_covers pf r p \<or> index_hits pf (snd i) p"
  by (cases i) (auto simp: rule_program_covers_def)

lemma index_rules_objects:
  "index_hits pf (fst (index_rules rs i)) p \<longleftrightarrow>
     (\<exists>r \<in> set rs. rule_object_covers pf r p) \<or> index_hits pf (fst i) p"
  by (induction rs arbitrary: i) (auto simp del: index_rule.simps simp: index_rule_objects)

lemma index_rules_programs:
  "index_hits pf (snd (index_rules rs i)) p \<longleftrightarrow>
     (\<exists>r \<in> set rs. rule_program_covers pf r p) \<or> index_hits pf (snd i) p"
  by (induction rs arbitrary: i) (auto simp del: index_rule.simps simp: index_rule_programs)

definition program_index :: "managed_scope_index \<Rightarrow> path_index" where
  "program_index s = (ms_subject_exact s, ms_subject_prefix s, ms_subject_glob s)"

lemma scope_from_rules_objects:
  "matches_object_scope pf (scope_from_rules rs) p \<longleftrightarrow> (\<exists>r \<in> set rs. rule_object_covers pf r p)"
proof -
  obtain ex pr gl sex spr sgl where
    i: "index_rules rs (([], [], []), ([], [], [])) = ((ex, pr, gl), (sex, spr, sgl))"
    by (metis surj_pair)
  have "matches_object_scope pf (scope_from_rules rs) p =
      index_hits pf (fst (index_rules rs (empty_path_index, empty_path_index))) p"
    by (simp add: i matches_object_scope_def scope_from_rules_def empty_path_index_def)
  then show ?thesis by (simp only: index_rules_objects fst_conv pix.hits_empty simp_thms)
qed

lemma scope_from_rules_programs:
  "index_hits pf (program_index (scope_from_rules rs)) p \<longleftrightarrow>
     (\<exists>r \<in> set rs. rule_program_covers pf r p)"
proof -
  obtain ex pr gl sex spr sgl where
    i: "index_rules rs (([], [], []), ([], [], [])) = ((ex, pr, gl), (sex, spr, sgl))"
    by (metis surj_pair)
  have "index_hits pf (program_index (scope_from_rules rs)) p =
      index_hits pf (snd (index_rules rs (empty_path_index, empty_path_index))) p"
    by (simp add: i program_index_def scope_from_rules_def empty_path_index_def)
  then show ?thesis by (simp only: index_rules_programs snd_conv pix.hits_empty simp_thms)
qed

lemma managed_iff:
  "is_request_managed pf s ctx \<longleftrightarrow>
     matches_object_scope pf s (ac_object_path ctx) \<or>
     (\<exists>np. ac_object_new_path ctx = Some np \<and> matches_object_scope pf s np) \<or>
     (\<exists>prog. ac_origin_program ctx = Some prog \<and> index_hits pf (program_index s) prog)"
  by (auto simp: is_request_managed_def program_index_def split: option.splits)

text \<open>
  C29. The managed scope is complete and exact: a request is managed by the scope built from
  a rule list if and only if its object path or its new path is covered by the object of some
  ordinary rule, or its program by the origin program of some subject-only rule.
\<close>

theorem managed_scope_exact:
  "is_request_managed pf (scope_from_rules rules) ctx \<longleftrightarrow>
     (\<exists>r \<in> set rules.
        rule_object_covers pf r (ac_object_path ctx) \<or>
        (\<exists>np. ac_object_new_path ctx = Some np \<and> rule_object_covers pf r np) \<or>
        (\<exists>prog. ac_origin_program ctx = Some prog \<and> rule_program_covers pf r prog))"
  unfolding managed_iff scope_from_rules_objects scope_from_rules_programs by blast

section \<open>The union of two scopes\<close>

lemma path_set_contains_extend [simp]:
  "path_set_contains (path_set_extend xs ys) p \<longleftrightarrow> path_set_contains xs p \<or> path_set_contains ys p"
proof (induction ys arbitrary: xs)
  case Nil
  then show ?case by simp
next
  case (Cons y ys)
  have "path_set_contains (y # ys) p \<longleftrightarrow> path_eq y p \<or> path_set_contains ys p"
    by (auto simp: path_set_contains_def)
  with Cons show ?case by (auto simp: path_set_contains_insert)
qed

lemma scope_union_objects:
  "matches_object_scope pf (scope_union s t) p \<longleftrightarrow>
     matches_object_scope pf s p \<or> matches_object_scope pf t p"
  by (auto simp: matches_object_scope_def scope_union_def)

lemma scope_union_programs:
  "index_hits pf (program_index (scope_union s t)) p \<longleftrightarrow>
     index_hits pf (program_index s) p \<or> index_hits pf (program_index t) p"
  by (auto simp: program_index_def scope_union_def)

text \<open>
  Merging the scopes of two policy files gives the scope of the concatenated rule list: the
  union computed by \<open>ManagedScopeIndex::union\<close> manages the same requests as the index built
  from all the rules at once.
\<close>

theorem scope_union_concat:
  "is_request_managed pf (scope_union (scope_from_rules rs) (scope_from_rules rs')) ctx =
   is_request_managed pf (scope_from_rules (rs @ rs')) ctx"
  unfolding managed_iff scope_union_objects scope_union_programs
    scope_from_rules_objects scope_from_rules_programs set_append by blast

end
