(* ===== verification/Samples.thy ===== *)
theory Samples
  imports Matchers
begin

text \<open>
  Concrete instances of the parameters and a few concrete rules and requests, at which the
  theorems with hypotheses are applied. The sample platform knows two users and one network.
\<close>

definition sample_platform :: platform where
  "sample_platform =
     \<lparr>glob_new = (\<lambda>p. if p = ''['' then Inl ''unclosed character class'' else Inr ()),
      glob_is_match = (\<lambda>g p. g = ''/srv/*'' \<and> prefix ''/srv/'' p),
      net_parse = (\<lambda>s. if s = ''10.0.0.0/8'' then Inr (IpNet (V4 0x0A000000) 8) else Inl ''invalid''),
      net_new = (\<lambda>ip len. Inr (IpNet ip len)),
      net_network = net_ip,
      net_contains = (\<lambda>net ip. net_prefix_len net = 8 \<and>
        (case ip of V4 a \<Rightarrow> a AND 0xFF000000 = 0x0A000000 | V6 _ \<Rightarrow> False)),
      user_from_name = (\<lambda>n. if n = ''root'' then Inr (Some 0)
        else if n = ''alice'' then Inr (Some 1000) else Inr None)\<rparr>"

definition sample_calendar :: calendar where
  "sample_calendar =
     \<lparr>cal_weekday = (\<lambda>d. [Thu, Fri, Sat, Sun, Mon, Tue, Wed] ! nat (d mod 7)),
      cal_iso_week = (\<lambda>d. word_of_int ((d div 7) mod 52) + 1),
      cal_pred = (\<lambda>d. Some (d - 1))\<rparr>"

definition sample_env :: eval_env where
  "sample_env =
     \<lparr>ev_platform = sample_platform, ev_calendar = sample_calendar,
      ev_now = \<lparr>ndt_date = 3, ndt_hour = 23, ndt_minute = 30\<rparr>\<rparr>"

definition any_subject :: subject_matcher where
  "any_subject = \<lparr>sm_uid = None, sm_required_roles = [], sm_origin_program = None,
     sm_origin_script = None, sm_origin_applet = None, sm_login_context = None\<rparr>"

definition sample_rule :: compiled_rule where
  "sample_rule =
     (default_with_reason Deny ''sample'')
       \<lparr>cr_id := ''R1'',
        cr_object := Some \<lparr>om_path = Some (PmExact ''/etc/shadow''), om_new_path = None, om_kind = None\<rparr>,
        cr_action_match := AmOneOf [Read]\<rparr>"

definition sample_context :: access_context where
  "sample_context =
     \<lparr>ac_uid = 1000, ac_subject_roles = [''admin''], ac_origin_program = Some ''/bin/cat'',
      ac_origin_script = None, ac_origin_applet = None, ac_action = Read,
      ac_object_path = ''/etc/shadow'', ac_object_new_path = None, ac_object_kind = None,
      ac_session_tty = ''pts/0'', ac_registered_session = None\<rparr>"

definition sample_policy :: compiled_policy where
  "sample_policy =
     default_policy\<lparr>cp_rules := [sample_rule], cp_scope := scope_from_rules [sample_rule]\<rparr>"

definition empty_roles_core :: compiled_roles_core where
  "empty_roles_core =
     \<lparr>crc_roles = \<lparr>rc_known_roles = [], rc_meta = []\<rparr>,
      crc_assignments = \<lparr>sri_uid_roles = []\<rparr>,
      crc_group_assignments = \<lparr>gri_gid_roles = [], gri_group_roles = []\<rparr>,
      crc_defaults = \<lparr>cd_roles_for_unknown_user = [], cd_deny_if_role_unknown = True\<rparr>,
      crc_allowed_ssh_networks = []\<rparr>"

definition sample_bundle :: compiled_bundle where
  "sample_bundle = \<lparr>cb_policy = sample_policy, cb_roles = empty_roles_core, cb_warnings = []\<rparr>"

text \<open>A window from Sunday 23:00 to Monday 02:00, every second week.\<close>

definition sample_window :: time_constraint_matcher where
  "sample_window =
     \<lparr>tcm_allowed_days = [Sun], tcm_start = 23 * 60, tcm_end = 2 * 60, tcm_week_interval = 2\<rparr>"

end
