(* ===== verification/Evaluation.thy ===== *)
theory Evaluation
  imports Scope Samples
begin

text \<open>
  Facts about the evaluation of \<open>v14/eval.rs\<close> and the matchers it rests on: the decision is the
  first matching rule, no indexed rule is skipped, path matchers respect path equality, a time
  constraint is the union of its daily windows, and a constraint on the login context is
  fail-safe when there is no registered session.
\<close>

section \<open>The first matching rule\<close>

lemma first_match_Matched:
  "first_match m rs = Matched r \<longleftrightarrow>
     (\<exists>before after. rs = before @ r # after \<and> m r \<and> (\<forall>b \<in> set before. \<not> m b))"
proof
  show "\<exists>before after. rs = before @ r # after \<and> m r \<and> (\<forall>b \<in> set before. \<not> m b)"
    if "first_match m rs = Matched r"
    using that
  proof (induction rs)
    case (Cons a rs)
    show ?case
    proof (cases "m a")
      case True
      with Cons.prems show ?thesis by (intro exI [of _ "[]"] exI [of _ rs]) auto
    next
      case False
      with Cons obtain before after where
        "rs = before @ r # after" "m r" "\<forall>b \<in> set before. \<not> m b" by auto
      with False show ?thesis by (intro exI [of _ "a # before"] exI [of _ after]) auto
    qed
  qed simp
next
  have "first_match m (before @ r # after) = Matched r"
    if "m r" "\<forall>b \<in> set before. \<not> m b" for before after
    using that by (induction before) auto
  then show "first_match m rs = Matched r"
    if "\<exists>before after. rs = before @ r # after \<and> m r \<and> (\<forall>b \<in> set before. \<not> m b)"
    using that by blast
qed

lemma first_match_None: "first_match m rs = NoMatchManaged \<longleftrightarrow> (\<forall>r \<in> set rs. \<not> m r)"
  by (induction rs) auto

lemma first_match_not_Pass [simp]: "first_match m rs \<noteq> Pass"
  by (induction rs) auto

definition bundle_matches :: "eval_env \<Rightarrow> compiled_bundle \<Rightarrow> access_context \<Rightarrow> compiled_rule \<Rightarrow> bool" where
  "bundle_matches ev b ctx r =
     rule_matches ev r (crc_allowed_ssh_networks (cb_roles b)) ctx (cp_system_type (cb_policy b))"

definition bundle_managed :: "eval_env \<Rightarrow> compiled_bundle \<Rightarrow> access_context \<Rightarrow> bool" where
  "bundle_managed ev b ctx = is_request_managed (ev_platform ev) (cp_scope (cb_policy b)) ctx"

lemma evaluate_alt:
  "evaluate ev b ctx =
     (if bundle_managed ev b ctx then first_match (bundle_matches ev b ctx) (cp_rules (cb_policy b))
      else Pass)"
  by (simp add: evaluate_def bundle_managed_def bundle_matches_def [abs_def])

text \<open>
  C6. \<open>evaluate\<close> decides by the first match: it returns a rule exactly when the request is
  managed and that rule matches while no rule before it in the policy does.
\<close>

theorem evaluate_first_match:
  "evaluate ev b ctx = Matched r \<longleftrightarrow>
     bundle_managed ev b ctx \<and>
     (\<exists>before after. cp_rules (cb_policy b) = before @ r # after \<and>
        bundle_matches ev b ctx r \<and> (\<forall>q \<in> set before. \<not> bundle_matches ev b ctx q))"
  by (simp add: evaluate_alt first_match_Matched)

text \<open>
  A rule is indexed when it contributes at least one matcher to the scope. What the compiler
  emits for a rule with an object always has a path.
\<close>

definition is_indexed :: "compiled_rule \<Rightarrow> bool" where
  "is_indexed r \<longleftrightarrow>
     (if cr_rule_type r = RtSubjectOnly then sm_origin_program (cr_subject r) \<noteq> None
      else \<exists>ob. cr_object r = Some ob \<and> (om_path ob \<noteq> None \<or> om_new_path ob \<noteq> None))"

lemma rule_matches_object:
  "rule_matches ev r nets ctx st \<Longrightarrow>
     match_object (ev_platform ev) (cr_object r) (ac_object_path ctx) (ac_object_new_path ctx)
       (ac_object_kind ctx)"
  by (auto simp: rule_matches_def split: if_splits)

lemma rule_matches_origin:
  "rule_matches ev r nets ctx st \<Longrightarrow>
     match_origin (ev_platform ev) (sm_origin_program (cr_subject r)) (ac_origin_program ctx)"
  by (auto simp: rule_matches_def match_subject_def split: if_splits)

lemma match_object_path:
  "match_object pf (Some ob) p np k \<Longrightarrow> om_path ob = Some m \<Longrightarrow> pathmatcher_matches pf m p"
  by (auto simp: match_object_def split: if_splits)

lemma match_object_new_path:
  "match_object pf (Some ob) p np k \<Longrightarrow> om_new_path ob = Some m \<Longrightarrow>
     \<exists>q. np = Some q \<and> pathmatcher_matches pf m q"
  by (auto simp: match_object_def split: if_splits option.splits)

lemma match_origin_Some:
  "match_origin pf (Some m) q \<Longrightarrow> \<exists>p. q = Some p \<and> pathmatcher_matches pf m p"
  by (auto simp: match_origin_def split: option.splits)

lemma matching_rule_covers:
  assumes m: "rule_matches ev r nets ctx st" and i: "is_indexed r"
  shows "rule_object_covers (ev_platform ev) r (ac_object_path ctx) \<or>
     (\<exists>np. ac_object_new_path ctx = Some np \<and> rule_object_covers (ev_platform ev) r np) \<or>
     (\<exists>prog. ac_origin_program ctx = Some prog \<and> rule_program_covers (ev_platform ev) r prog)"
proof (cases "cr_rule_type r = RtSubjectOnly")
  case True
  with i obtain pm where "sm_origin_program (cr_subject r) = Some pm"
    by (auto simp: is_indexed_def)
  then show ?thesis
    using True rule_matches_origin [OF m] match_origin_Some
    by (fastforce simp: rule_program_covers_def opt_covers_def)
next
  case False
  with i obtain ob where ob: "cr_object r = Some ob" "om_path ob \<noteq> None \<or> om_new_path ob \<noteq> None"
    by (auto simp: is_indexed_def)
  note mo = rule_matches_object [OF m, unfolded ob(1)]
  from ob(2) show ?thesis
  proof
    assume "om_path ob \<noteq> None"
    then show ?thesis
      using False ob(1) match_object_path [OF mo]
      by (auto simp: rule_object_covers_def opt_covers_def split: option.splits)
  next
    assume "om_new_path ob \<noteq> None"
    then obtain pm where pm: "om_new_path ob = Some pm" by blast
    from match_object_new_path [OF mo pm] show ?thesis
      using False ob(1) pm by (auto simp: rule_object_covers_def opt_covers_def)
  qed
qed

lemma indexed_rule_decides:
  assumes "cp_scope (cb_policy b) = scope_from_rules (cp_rules (cb_policy b))"
    and "cp_rules (cb_policy b) = before @ r # after"
    and "is_indexed r" and "bundle_matches ev b ctx r"
  shows "\<exists>q \<in> insert r (set before). evaluate ev b ctx = Matched q \<and> bundle_matches ev b ctx q"
proof -
  have "bundle_managed ev b ctx"
    using matching_rule_covers [OF assms(4) [unfolded bundle_matches_def] assms(3)] assms(2)
    unfolding bundle_managed_def assms(1) managed_iff scope_from_rules_objects
      scope_from_rules_programs by (metis in_set_conv_decomp)
  moreover have "\<exists>q \<in> insert r (set before). first_match (bundle_matches ev b ctx) (before @ r # after) = Matched q
      \<and> bundle_matches ev b ctx q"
    using assms(4) by (induction before) auto
  ultimately show ?thesis by (simp add: evaluate_alt assms(2))
qed

text \<open>
  No indexed rule is skipped: in a bundle whose scope was built from its rules, if an
  indexed rule matches the request then the early \<open>Pass\<close> for unmanaged requests is not taken,
  and the decision is that rule or a matching rule placed before it.
\<close>

theorem indexed_rule_not_skipped:
  assumes "cp_scope (cb_policy b) = scope_from_rules (cp_rules (cb_policy b))"
    and "cp_rules (cb_policy b) = before @ r # after"
    and "is_indexed r" and "bundle_matches ev b ctx r"
  shows "\<exists>q \<in> insert r (set before). evaluate ev b ctx = Matched q \<and> bundle_matches ev b ctx q"
  using assms by (rule indexed_rule_decides)

lemma sample_rule_matches: "bundle_matches sample_env sample_bundle sample_context sample_rule"
  by (simp add: bundle_matches_def sample_bundle_def sample_policy_def empty_roles_core_def
      rule_matches_def sample_rule_def sample_context_def sample_env_def default_with_reason_def
      default_policy_def match_object_def match_time_constraints_def match_subject_def match_origin_def)

lemma evaluate_first_match_witness:
  "evaluate sample_env sample_bundle sample_context = Matched sample_rule"
proof -
  have "bundle_managed sample_env sample_bundle sample_context"
    by (simp add: bundle_managed_def sample_bundle_def sample_policy_def sample_env_def
        is_request_managed_def matches_object_scope_def scope_from_rules_def sample_rule_def
        default_with_reason_def add_matcher_opt_def sample_context_def path_set_insert_def
        path_set_contains_def)
  moreover have "cp_rules (cb_policy sample_bundle) = [] @ sample_rule # []"
    by (simp add: sample_bundle_def sample_policy_def)
  ultimately show ?thesis
    using evaluate_first_match [of sample_env sample_bundle sample_context sample_rule]
      sample_rule_matches by fastforce
qed

lemma indexed_rule_not_skipped_witness:
  "\<exists>q \<in> insert sample_rule (set []). evaluate sample_env sample_bundle sample_context = Matched q \<and>
     bundle_matches sample_env sample_bundle sample_context q"
  by (rule indexed_rule_not_skipped [where after = "[]"])
    (simp_all add: sample_rule_matches, simp_all add: sample_bundle_def sample_policy_def
      is_indexed_def sample_rule_def default_with_reason_def default_policy_def)

section \<open>Path matchers respect path equality\<close>

text \<open>\<open>Glob\<close> equality compares the patterns, so equal globs match the same paths by congruence.\<close>

lemma pathmatcher_eq_refl [simp]: "pathmatcher_eq a a"
  by (cases a) auto

lemma pathmatcher_eq_sym: "pathmatcher_eq a b \<Longrightarrow> pathmatcher_eq b a"
  by (cases a; cases b) (auto intro: path_eq_sym)

lemma pathmatcher_eq_trans: "pathmatcher_eq a b \<Longrightarrow> pathmatcher_eq b c \<Longrightarrow> pathmatcher_eq a c"
  by (cases a; cases b; cases c) (auto intro: path_eq_trans)

text \<open>
  The hand-written equality of path matchers is an equivalence that matching respects:
  equal matchers accept the same paths.
\<close>

theorem pathmatcher_eq_equivalence:
  "equivp pathmatcher_eq \<and>
   (\<forall>a b pf p. pathmatcher_eq a b \<longrightarrow> pathmatcher_matches pf a p = pathmatcher_matches pf b p)"
proof
  show "equivp pathmatcher_eq"
    by (intro equivpI reflpI sympI transpI)
      (auto intro: pathmatcher_eq_sym pathmatcher_eq_trans)
  have "pathmatcher_matches pf a p = pathmatcher_matches pf b p" if "pathmatcher_eq a b" for a b pf p
    using that
    by (cases a; cases b)
      (auto simp: path_starts_with_cong [OF path_eq_refl] intro: path_eq_trans path_eq_sym)
  then show "\<forall>a b pf p. pathmatcher_eq a b \<longrightarrow>
      pathmatcher_matches pf a p = pathmatcher_matches pf b p" by blast
qed

lemma pathmatcher_eq_equivalence_witness:
  "pathmatcher_matches sample_platform (PmExact ''/bin/ls'') ''/bin//ls'' =
   pathmatcher_matches sample_platform (PmExact ''/bin/./ls'') ''/bin//ls''"
proof -
  have "pathmatcher_eq (PmExact ''/bin/ls'') (PmExact ''/bin/./ls'')"
    by (simp add: path_eq_def components_def is_absolute_def)
  then show ?thesis using pathmatcher_eq_equivalence by blast
qed

section \<open>Time constraints\<close>

definition valid_time_constraint :: "time_constraint_matcher \<Rightarrow> bool" where
  "valid_time_constraint c \<longleftrightarrow>
     tcm_week_interval c \<noteq> 0 \<and> tcm_start c < 24 * 60 \<and> tcm_end c \<le> 24 * 60 \<and> tcm_start c \<noteq> tcm_end c"

text \<open>
  The intended meaning: on every start date that satisfies the weekday and week conditions a
  window of minutes opens; it closes on the same day, or on the next one when the end is
  before the start. Minutes are counted on one axis, 1440 to a date.
\<close>

definition window_length :: "time_constraint_matcher \<Rightarrow> int" where
  "window_length c = (if tcm_start c < tcm_end c then uint (tcm_end c) - uint (tcm_start c)
     else 1440 + uint (tcm_end c) - uint (tcm_start c))"

definition in_window :: "calendar \<Rightarrow> time_constraint_matcher \<Rightarrow> int \<Rightarrow> bool" where
  "in_window cal c t \<longleftrightarrow>
     (\<exists>start_date. matches_start_date cal c start_date \<and>
        1440 * start_date + uint (tcm_start c) \<le> t \<and>
        t < 1440 * start_date + uint (tcm_start c) + window_length c)"

lemma valid_bounds:
  assumes "valid_time_constraint c"
  shows "0 \<le> uint (tcm_start c)" "uint (tcm_start c) < 1440" "0 \<le> uint (tcm_end c)"
    "uint (tcm_end c) \<le> 1440" "uint (tcm_start c) \<noteq> uint (tcm_end c)"
  using assms
  by (auto simp: valid_time_constraint_def word_less_alt word_le_def simp flip: word_uint_eq_iff)

lemma window_length_pos:
  assumes "valid_time_constraint c"
  shows "0 < window_length c \<and> window_length c \<le> 1440"
  using valid_bounds [OF assms] unfolding window_length_def word_less_alt by (smt (verit))

text \<open>Only the window that opened today or the one that opened yesterday can be open now.\<close>

lemma in_window_dates:
  assumes "valid_time_constraint c" "m < 1440"
  shows "in_window cal c (1440 * d + uint (m :: u32)) \<longleftrightarrow>
     (matches_start_date cal c d \<and> uint (tcm_start c) \<le> uint m \<and>
        uint m < uint (tcm_start c) + window_length c) \<or>
     (matches_start_date cal c (d - 1) \<and> 1440 + uint m < uint (tcm_start c) + window_length c)"
proof -
  have bounds: "0 \<le> uint m" "uint m < 1440" "uint (tcm_start c) < 1440" "0 \<le> uint (tcm_start c)"
    using assms by (auto simp: valid_time_constraint_def word_less_alt)
  have "sd = d \<or> sd = d - 1"
    if "1440 * sd + uint (tcm_start c) \<le> 1440 * d + uint m"
      and "1440 * d + uint m < 1440 * sd + uint (tcm_start c) + window_length c" for sd
    using that bounds window_length_pos [OF assms(1)] by arith
  then show ?thesis using bounds unfolding in_window_def
    by (smt (verit) int_distrib(4))
qed

text \<open>
  A time constraint means the windows it declares: at a minute of a date it holds exactly
  when the constraint is valid and some window, same-day or crossing midnight, that opened on
  an allowed date is open at that minute. The date that counts for the weekday and the week
  interval is the one the window opened on.
\<close>

theorem time_constraint_window:
  assumes "m < 24 * 60" and "cal_pred cal d = Some (d - 1)"
  shows "time_constraint_holds cal c d m \<longleftrightarrow>
     valid_time_constraint c \<and> in_window cal c (1440 * d + uint m)"
proof (cases "valid_time_constraint c")
  case False
  then show ?thesis
    by (auto simp: time_constraint_holds_def valid_time_constraint_def Let_def not_le not_less)
next
  case True
  have bounds: "uint m < 1440" using assms(1) by (simp add: word_less_alt)
  note bounds = bounds valid_bounds [OF True]
  have holds: "time_constraint_holds cal c d m \<longleftrightarrow>
      (if uint (tcm_start c) < uint (tcm_end c) then
         uint (tcm_start c) \<le> uint m \<and> uint m < uint (tcm_end c) \<and> matches_start_date cal c d
       else if uint (tcm_start c) \<le> uint m then matches_start_date cal c d
       else uint m < uint (tcm_end c) \<and> matches_start_date cal c (d - 1))"
    using True assms(2)
    by (auto simp: time_constraint_holds_def valid_time_constraint_def Let_def word_less_alt
        word_le_def split: if_splits)
  have m: "m < 1440" using assms(1) by simp
  show ?thesis
    using True bounds uint_ge_0 [of m] unfolding holds in_window_dates [OF True m]
      window_length_def word_less_alt by (smt (verit))
qed

text \<open>Monday 01:30 belongs to the window that opened on Sunday 23:00.\<close>

lemma time_constraint_window_witness:
  "in_window sample_calendar sample_window (1440 * 4 + uint (90 :: u32))"
proof -
  have "time_constraint_holds sample_calendar sample_window 4 90"
    by (simp add: time_constraint_holds_def sample_window_def sample_calendar_def
        matches_start_date_def Let_def)
  moreover have "cal_pred sample_calendar 4 = Some (4 - 1)"
    by (simp add: sample_calendar_def)
  ultimately show ?thesis
    using time_constraint_window [of 90 sample_calendar 4 sample_window] by simp
qed

section \<open>Login contexts\<close>

text \<open>
  On a server a login context that binds the registered session is satisfied only by a
  registered session: the session exists, it has the required authentication method, its
  source address parses and lies in the required network, and the networks allowed to its uid
  admit it. Without a registered session the request does not match.
\<close>

theorem server_login_context_bound:
  assumes "lcm_bind_registered_session lc"
  shows "match_login_context pf lc nets ctx Server \<longleftrightarrow>
     (lcm_require_interactive_tty lc \<longrightarrow> interactive_terminal Server (ac_session_tty ctx)) \<and>
     (\<exists>session. ac_registered_session ctx = Some session \<and>
        (\<forall>a. lcm_auth_method lc = Some a \<longrightarrow> rs_auth_method session = Some a) \<and>
        (\<forall>net. lcm_source_ip_network lc = Some net \<longrightarrow>
           (\<exists>str ip. rs_source_ip session = Some str \<and> parse_ip str = Some ip \<and> net_contains pf net ip)) \<and>
        is_ssh_source_allowed pf nets session)"
  using assms by (cases "lcm_auth_method lc") (auto simp: match_login_context_def split: option.splits)

lemma server_login_context_bound_witness:
  "\<not> match_login_context sample_platform
       \<lparr>lcm_source_ip_network = None, lcm_auth_method = None, lcm_require_interactive_tty = False,
        lcm_bind_registered_session = True\<rparr> [] sample_context Server"
  by (subst server_login_context_bound) (simp_all add: sample_context_def)

end
