(* ===== verification/Compile_Policy.thy ===== *)
theory Compile_Policy
  imports Evaluation
begin

text \<open>
  \<open>v14/compile.rs\<close>, second half: compiling a policy file. Warnings are threaded as a value;
  an error drops them. Errors of \<open>anyhow\<close> become \<open>Semantic\<close>, as the derived conversion does.
\<close>

section \<open>Fields\<close>

definition opt_trimmed_nonempty ::
  "string \<Rightarrow> string option \<Rightarrow> warnings \<Rightarrow> string option \<times> warnings" where
  "opt_trimmed_nonempty field_name v ws =
     (case v of
        None \<Rightarrow> (None, ws)
      | Some s \<Rightarrow>
          (let t = rust_trim s
           in if t = [] then (None, warn (field_name @ '' is empty string; ignored'') ws)
              else (Some t, ws)))"

definition opt_compile_path ::
  "platform \<Rightarrow> string \<Rightarrow> string option \<Rightarrow> warnings \<Rightarrow> path_matcher option \<times> warnings" where
  "opt_compile_path pf field_name v ws =
     (case opt_trimmed_nonempty field_name v ws of
        (None, ws1) \<Rightarrow> (None, ws1)
      | (Some s, ws1) \<Rightarrow>
          (case pathmatcher_parse pf s of
             Inr pm \<Rightarrow> (Some pm, ws1)
           | Inl e \<Rightarrow> (None, warn (field_name @ '' is invalid: '' @ e @ ''; ignored'') ws1)))"

fun compile_required_roles_loop ::
  "compiled_roles \<Rightarrow> string list \<Rightarrow> string hset \<times> warnings \<Rightarrow> string hset \<times> warnings" where
  "compile_required_roles_loop db [] st = st"
| "compile_required_roles_loop db (raw # raws) (roles, ws) =
     (let r = rust_trim raw
      in if r = [] then
           compile_required_roles_loop db raws
             (roles, warn ''subject.roles contains empty string; ignored'' ws)
         else if r \<in> set roles then
           compile_required_roles_loop db raws
             (roles, warn (''subject.roles contains duplicate role: '' @ r) ws)
         else
           compile_required_roles_loop db raws
             (hs_insert r roles,
              if \<not> is_known_role db r
              then warn (''subject.roles contains unknown role: '' @ r) ws else ws))"

definition compile_required_roles ::
  "string list \<Rightarrow> compiled_roles \<Rightarrow> warnings \<Rightarrow> string hset \<times> warnings" where
  "compile_required_roles raws db ws = compile_required_roles_loop db raws ([], ws)"

section \<open>Subjects\<close>

definition compile_login_context ::
  "platform \<Rightarrow> raw_login_context \<Rightarrow> warnings \<Rightarrow> login_context_matcher \<times> warnings" where
  "compile_login_context pf raw ws =
     (let (ip, ws1) = opt_trimmed_nonempty ''subject.login_context.source_ip'' (rlc_source_ip raw) ws;
          (net, ws2) =
            (case ip of
               None \<Rightarrow> (None, ws1)
             | Some ip_str \<Rightarrow>
                 (case net_parse pf ip_str of
                    Inr n \<Rightarrow> (Some n, ws1)
                  | Inl e \<Rightarrow>
                      (None, warn (''invalid source_ip format '' @ quoted ip_str @ '': '' @ e) ws1)));
          (auth, ws3) =
            opt_trimmed_nonempty ''subject.login_context.auth_method'' (rlc_auth_method raw) ws2
      in (\<lparr>lcm_source_ip_network = net, lcm_auth_method = auth,
           lcm_require_interactive_tty = (case rlc_require_interactive_tty raw of Some b \<Rightarrow> b | None \<Rightarrow> False),
           lcm_bind_registered_session = (case rlc_bind_registered_session raw of Some b \<Rightarrow> b | None \<Rightarrow> False)\<rparr>,
          ws3))"

definition compile_subject_v14 ::
  "platform \<Rightarrow> raw_subject \<Rightarrow> compiled_roles \<Rightarrow> warnings \<Rightarrow> subject_matcher \<times> warnings" where
  "compile_subject_v14 pf subject db ws =
     (let (uid, ws1) =
            (case rsu_uid subject of
               Some u \<Rightarrow> (Some u, ws)
             | None \<Rightarrow>
                 (case opt_trimmed_nonempty ''subject.user'' (rsu_user subject) ws of
                    (Some user, w) \<Rightarrow> (ok_opt (name_to_uid (user_from_name pf) user), w)
                  | (None, w) \<Rightarrow> (None, w)));
          (required, ws2) = compile_required_roles (rsu_roles subject) db ws1;
          (program, ws3) =
            opt_compile_path pf ''subject.origin_program'' (rsu_origin_program subject) ws2;
          (script, ws4) =
            opt_compile_path pf ''subject.origin_script'' (rsu_origin_script subject) ws3;
          (applet, ws5) =
            opt_trimmed_nonempty ''subject.origin_applet'' (rsu_origin_applet subject) ws4;
          (login, ws6) =
            (case rsu_login_context subject of
               Some raw \<Rightarrow> (let (m, w) = compile_login_context pf raw ws5 in (Some m, w))
             | None \<Rightarrow> (None, ws5))
      in (\<lparr>sm_uid = uid, sm_required_roles = required, sm_origin_program = program,
           sm_origin_script = script, sm_origin_applet = applet, sm_login_context = login\<rparr>, ws6))"

section \<open>Time constraints\<close>

definition parse_time_to_minutes :: "string \<Rightarrow> string + u32" where
  "parse_time_to_minutes time_str =
     (case split_on CHR '':'' time_str of
        [h, m] \<Rightarrow>
          bindR (ok_or (parse_u32 h) (''invalid hour format: '' @ time_str)) (\<lambda>hours.
          bindR (ok_or (parse_u32 m) (''invalid minute format: '' @ time_str)) (\<lambda>minutes.
            if hours > 23 \<or> minutes > 59 then
              Inl (''time out of range (HH 0-23, MM 0-59): '' @ time_str)
            else Inr (hours * 60 + minutes)))
      | _ \<Rightarrow> Inl (''invalid time format (expected HH:MM): '' @ time_str))"

definition weekday_of_str :: "string \<Rightarrow> weekday option" where
  "weekday_of_str s =
     (if s = ''Mon'' then Some Mon else if s = ''Tue'' then Some Tue
      else if s = ''Wed'' then Some Wed else if s = ''Thu'' then Some Thu
      else if s = ''Fri'' then Some Fri else if s = ''Sat'' then Some Sat
      else if s = ''Sun'' then Some Sun else None)"

definition day_step :: "string \<Rightarrow> weekday hset \<Rightarrow> string + weekday hset" where
  "day_step day_str days =
     bindR (ok_or (weekday_of_str day_str)
              (''invalid weekday specified (bypassed schema validation?): '' @ day_str))
       (\<lambda>d. Inr (hs_insert d days))"

definition compile_time_constraint ::
  "raw_time_constraint \<Rightarrow> warnings \<Rightarrow> string + (time_constraint_matcher \<times> warnings)" where
  "compile_time_constraint raw ws =
     (if rtc_week_interval raw = 0 then Inl ''time_constraints.week_interval must be >= 1''
      else
        bindR (foldR day_step (rtc_days raw) []) (\<lambda>days.
        let ws1 = (if days = []
                   then warn ''time_constraints.days is empty (matches all weekdays)'' ws else ws)
        in bindR (parse_time_to_minutes (rtw_start (rtc_window raw))) (\<lambda>s.
           bindR (if rtw_end (rtc_window raw) = ''24:00'' then Inr (24 * 60)
                  else parse_time_to_minutes (rtw_end (rtc_window raw))) (\<lambda>e.
             if s = e then
               Inl (''time_constraints.window.start and end must differ: '' @
                    rtw_start (rtc_window raw))
             else Inr (\<lparr>tcm_allowed_days = days, tcm_start = s, tcm_end = e,
                        tcm_week_interval = rtc_week_interval raw\<rparr>, ws1)))))"

definition time_constraints_step ::
  "raw_time_constraint \<Rightarrow> time_constraint_matcher list \<times> warnings \<Rightarrow>
   string + (time_constraint_matcher list \<times> warnings)" where
  "time_constraints_step raw st =
     (case st of (ms, ws) \<Rightarrow>
        bindR (compile_time_constraint raw ws) (\<lambda>(m, ws1). Inr (ms @ [m], ws1)))"

definition compile_time_constraints_v14 ::
  "raw_time_constraint list \<Rightarrow> warnings \<Rightarrow> string + (time_constraint_matcher list \<times> warnings)" where
  "compile_time_constraints_v14 raws ws = foldR time_constraints_step raws ([], ws)"

section \<open>Objects and actions\<close>

definition compile_path_matcher_v14 :: "platform \<Rightarrow> string \<Rightarrow> compile_error + path_matcher" where
  "compile_path_matcher_v14 pf raw =
     (let s = rust_trim raw
      in if s = [] then Inl (InvalidObjectPath ''path must not be empty'')
         else case strip_prefix ''glob:'' s of
           Some pattern \<Rightarrow>
             (if \<not> prefix ''/'' pattern then
                Inl (InvalidObjectPath
                  (''glob pattern must be absolute (start with '' @ quoted ''/'' @ ''): '' @ pattern))
              else bindR (map_err InvalidObjectPath (glob_new pf pattern)) (\<lambda>_. Inr (PmGlob pattern)))
         | None \<Rightarrow>
             (case strip_prefix ''prefix:'' s of
                Some path_str \<Rightarrow>
                  (if \<not> is_absolute path_str then
                     Inl (InvalidObjectPath (''prefix path must be absolute: '' @ path_str))
                   else Inr (PmPrefix path_str))
              | None \<Rightarrow>
                  (if \<not> is_absolute s then
                     Inl (InvalidObjectPath (''relative path is not allowed: '' @ s))
                   else Inr (PmExact s))))"

definition compile_object_v14 ::
  "platform \<Rightarrow> raw_object option \<Rightarrow> compile_error + object_matcher option" where
  "compile_object_v14 pf raw_object =
     (case raw_object of
        None \<Rightarrow> Inr None
      | Some ob \<Rightarrow>
          bindR (compile_path_matcher_v14 pf (rob_path ob)) (\<lambda>pm.
          bindR (case rob_new_path ob of
                   Some np \<Rightarrow> bindR (compile_path_matcher_v14 pf np) (\<lambda>m. Inr (Some m))
                 | None \<Rightarrow> Inr None) (\<lambda>npm.
            Inr (Some \<lparr>om_path = Some pm, om_new_path = npm, om_kind = None\<rparr>))))"

fun action_set_loop :: "action list \<Rightarrow> action hset \<times> warnings \<Rightarrow> action hset \<times> warnings" where
  "action_set_loop [] st = st"
| "action_set_loop (op # ops) (acts, ws) =
     (if op = Unknown then
        action_set_loop ops
          (acts, warn ''Ignored an Unknown action in ops (possible typo in policy).'' ws)
      else action_set_loop ops (hs_insert op acts, ws))"

definition compile_action_v14 ::
  "raw_action \<Rightarrow> warnings \<Rightarrow> compile_error + (action_matcher \<times> warnings)" where
  "compile_action_v14 raw ws =
     (if rac_ops raw = [] then Inr (AmAny, ws)
      else
        (let (acts, ws1) = action_set_loop (rac_ops raw) ([], ws)
         in if acts = [] then
              Inr (AmAny, warn (''action.ops resolved to empty due to invalid inputs; '' @
                 ''treated as Any. Please fix the policy.'') ws1)
            else Inr (AmOneOf acts, ws1)))"

section \<open>Rules\<close>

definition validate_pre_approval_defaults ::
  "raw_pre_approval_defaults \<Rightarrow> compile_error + unit" where
  "validate_pre_approval_defaults p =
     (case rpd_ttl_sec_max p of
        Some m \<Rightarrow>
          (if rpd_ttl_sec_default p > m then
             Inl (InvalidPreApprovalDefaults (''ttl_sec_default ('' @ show_u64 (rpd_ttl_sec_default p) @
               '') exceeds ttl_sec_max ('' @ show_u64 m @ '')''))
           else Inr ())
      | None \<Rightarrow> Inr ())"

definition validate_pre_approval_for_rule ::
  "string \<Rightarrow> raw_pre_approval \<Rightarrow> warnings \<Rightarrow> compile_error + warnings" where
  "validate_pre_approval_for_rule rule_id p ws =
     (if (case rpa_ttl_sec p of Some ttl \<Rightarrow> ttl < 1 | None \<Rightarrow> False) then
        Inl (InvalidValue (''rule '' @ rule_id @ '': pre_approval.ttl_sec must be >= 1''))
      else Inr (if \<not> rpa_enabled p \<and> rpa_ttl_sec p \<noteq> None then
             warn (''rule '' @ rule_id @
               '': pre_approval.ttl_sec is set but enabled=false; ttl_sec will be ignored'') ws
           else ws))"

definition make_default_reason :: "string \<Rightarrow> effect \<Rightarrow> string" where
  "make_default_reason rid eff =
     (case eff of Allow \<Rightarrow> ''ALLOW'' | Deny \<Rightarrow> ''DENY'' | NeedApproval \<Rightarrow> ''NEED APPROVAL''
      | AuditOnly \<Rightarrow> ''AUDIT ONLY'') @ '' by rule='' @ rid"

definition compile_mpa :: "raw_mpa option \<Rightarrow> mpa_matcher option" where
  "compile_mpa raw =
     (let raw_threshold = (case raw of Some m \<Rightarrow> rmp_threshold m | None \<Rightarrow> 0);
          raw_roles = (case raw of Some m \<Rightarrow> rmp_approver_roles m | None \<Rightarrow> [])
      in if raw_threshold > 0 \<or> raw_roles \<noteq> []
         then Some \<lparr>mm_threshold = raw_threshold, mm_approver_roles = hs_of_list raw_roles\<rparr>
         else None)"

definition compile_reason :: "raw_rule \<Rightarrow> warnings \<Rightarrow> string \<times> warnings" where
  "compile_reason rule ws =
     (let generated =
            (make_default_reason (rr_id rule) (rr_effect rule),
             warn (''rule.id='' @ rr_id rule @
               '' has no reason; auto-generated default reason will be used'') ws)
      in case rr_reason rule of
           Some s \<Rightarrow> if rust_trim s \<noteq> [] then (s, ws) else generated
         | None \<Rightarrow> generated)"

text \<open>The end of \<open>compile_rule_v14\<close>: the reason, the pre-approval and the record.\<close>

definition assemble_rule ::
  "raw_rule \<Rightarrow> u64 \<Rightarrow> subject_matcher \<Rightarrow> time_constraint_matcher list \<Rightarrow> object_matcher option \<Rightarrow>
   action_matcher \<Rightarrow> warnings \<Rightarrow> compiled_rule \<times> warnings" where
  "assemble_rule rule default_ttl_sec subject tcs ob act ws =
     (let (out_reason, ws1) = compile_reason rule ws
      in (\<lparr>cr_id = rr_id rule, cr_source_file = None, cr_description = rr_description rule,
           cr_rule_type = rr_rule_type rule, cr_effect = rr_effect rule,
           cr_max_uses = rr_max_uses rule, cr_subject = subject, cr_time_constraints = tcs,
           cr_object = ob, cr_action_match = act, cr_mpa = compile_mpa (rr_mpa rule),
           cr_audit = \<lparr>au_tag = None, au_log_level = None\<rparr>,
           cr_pre_approval =
             (case rr_pre_approval rule of
                Some p \<Rightarrow> \<lparr>cpa_enabled = rpa_enabled p,
                  cpa_ttl_sec = (case rpa_ttl_sec p of Some t \<Rightarrow> t | None \<Rightarrow> default_ttl_sec)\<rparr>
              | None \<Rightarrow> \<lparr>cpa_enabled = False, cpa_ttl_sec = default_ttl_sec\<rparr>),
           cr_audit_level = rr_audit_level rule, cr_out_reason = out_reason,
           cr_ticket_profile = ticket_profile_from_raw (rr_ticket_profile rule)\<rparr>, ws1))"

definition compile_rule_v14 ::
  "platform \<Rightarrow> raw_rule \<Rightarrow> u64 \<Rightarrow> compiled_roles \<Rightarrow> warnings \<Rightarrow>
   compile_error + (compiled_rule \<times> warnings)" where
  "compile_rule_v14 pf rule default_ttl_sec db ws =
     bindR (case rr_pre_approval rule of
              Some p \<Rightarrow> validate_pre_approval_for_rule (rr_id rule) p ws
            | None \<Rightarrow> Inr ws) (\<lambda>ws1.
     let (subject, ws2) = compile_subject_v14 pf (rr_subject rule) db ws1
     in bindR (map_err Semantic (compile_time_constraints_v14 (rr_time_constraints rule) ws2))
       (\<lambda>(tcs, ws3).
        bindR (compile_object_v14 pf (rr_object rule)) (\<lambda>ob.
        bindR (compile_action_v14 (rr_action rule) ws3) (\<lambda>(act, ws4).
          Inr (assemble_rule rule default_ttl_sec subject tcs ob act ws4)))))"

section \<open>Policies\<close>

definition rule_id_step :: "raw_rule \<Rightarrow> string hset \<Rightarrow> compile_error + string hset" where
  "rule_id_step r seen =
     (if rr_id r \<in> set seen then Inl (DuplicateRuleId (rr_id r)) else Inr (hs_insert (rr_id r) seen))"

definition rules_step ::
  "platform \<Rightarrow> u64 \<Rightarrow> compiled_roles \<Rightarrow> raw_rule \<Rightarrow> compiled_rule list \<times> warnings \<Rightarrow>
   compile_error + (compiled_rule list \<times> warnings)" where
  "rules_step pf ttl db rr st =
     (case st of (rules, ws) \<Rightarrow>
        bindR (compile_rule_v14 pf rr ttl db ws) (\<lambda>(r, ws1). Inr (rules @ [r], ws1)))"

text \<open>
  The stable sort by descending specificity. \<open>sort_key\<close> is a stable ascending sort, so the
  descending one is its mirror image.
\<close>

definition sort_by_specificity :: "compiled_rule list \<Rightarrow> compiled_rule list" where
  "sort_by_specificity rules = rev (sort_key calculate_specificity (rev rules))"

definition compile_policy_v14 ::
  "platform \<Rightarrow> raw_policy \<Rightarrow> compiled_roles \<Rightarrow> compile_error + (compiled_policy \<times> warnings)" where
  "compile_policy_v14 pf raw db =
     bindR (validate_pre_approval_defaults (rp_pre_approval_defaults raw)) (\<lambda>_.
     if rp_version raw \<noteq> ''1.4'' then Inl (UnsupportedVersion (rp_version raw))
     else
       bindR (foldR rule_id_step (rp_rules raw) []) (\<lambda>_.
       let pre = pre_approval_defaults_from (rp_pre_approval_defaults raw)
       in bindR (foldR (rules_step pf (cpd_ttl_sec_default pre) db) (rp_rules raw) ([], []))
            (\<lambda>(compiled, ws).
               let rules = sort_by_specificity compiled
               in Inr (\<lparr>cp_version = V1_4, cp_system_type = rp_system_type raw, cp_rules = rules,
                    cp_scope = scope_from_rules rules, cp_pre_approval_defaults = pre,
                    cp_default_effect = (case rp_default_effect raw of Some e \<Rightarrow> e | None \<Rightarrow> Deny),
                    cp_default_reason =
                      (case rp_default_reason raw of Some s \<Rightarrow> s | None \<Rightarrow> ''no matching rule''),
                    cp_ttl_minutes = rp_ttl_minutes raw,
                    cp_sweep_minutes = rp_sweep_minutes raw\<rparr>, ws))))"

end
