(* ===== verification/Policy_Facts.thy ===== *)
theory Policy_Facts
  imports Compile_Policy "HOL-Library.Multiset"
begin

text \<open>
  What a compiled policy guarantees: its time constraints are valid, its object paths absolute,
  its rule ids unique, its rules a stable permutation of the source sorted by specificity, and
  its scope complete for every rule with an object. Two theorems record gaps: a rule for an
  unknown user applies to every user, and a more specific rule overtakes rules written before it.
\<close>

section \<open>Actions and masks\<close>

text \<open>
  The bit mask sent to the kernel and the matcher evaluated in user space agree: a rule's
  action matcher accepts an action exactly when the action's bit is set in the matcher's mask.
\<close>

theorem action_mask_faithful:
  "match_action m a \<longleftrightarrow> to_mask a AND action_matcher_to_u32 m \<noteq> 0"
  by (cases m) (simp_all add: or_masks_bit)

lemma action_set_loop_spec:
  "action_set_loop ops (acts, ws) = (acts', ws') \<Longrightarrow>
     set acts' = set acts \<union> (set ops - {Unknown}) \<and> (distinct acts \<longrightarrow> distinct acts')"
  by (induction ops arbitrary: acts ws) (auto split: if_splits)

lemma compile_action_match:
  assumes "compile_action_v14 raw ws = Inr (m, ws')"
  shows "match_action m a \<longleftrightarrow> set (rac_ops raw) - {Unknown} = {} \<or> a \<in> set (rac_ops raw) - {Unknown}"
proof (cases "rac_ops raw = []")
  case True
  with assms show ?thesis by (auto simp: compile_action_v14_def)
next
  case False
  obtain acts ws1 where l: "action_set_loop (rac_ops raw) ([], ws) = (acts, ws1)"
    by (cases "action_set_loop (rac_ops raw) ([], ws)")
  from action_set_loop_spec [OF l] have "set acts = set (rac_ops raw) - {Unknown}" by simp
  moreover have "m = (if acts = [] then AmAny else AmOneOf acts)"
    using assms False l by (simp add: compile_action_v14_def split: if_splits)
  ultimately show ?thesis by (metis match_action.simps set_empty)
qed

section \<open>Time constraints\<close>

lemma hours_minutes_bound:
  assumes "(h :: u32) \<le> 23" and "m \<le> 59"
  shows "h * 60 + m < 24 * 60"
proof -
  have "unat h \<le> 23" "unat m \<le> 59" using assms by (simp_all add: word_le_nat_alt)
  then have "unat h * 60 + unat m < 1440" by simp
  moreover from this have "unat (h * 60 + m) = unat h * 60 + unat m"
    by (simp add: unat_word_ariths)
  ultimately show ?thesis by (simp add: word_less_nat_alt)
qed

lemma parse_time_to_minutes_Inr:
  assumes "parse_time_to_minutes s = Inr t"
  obtains h m where "split_on CHR '':'' s = [h, m]"
    "\<exists>hours minutes. parse_u32 h = Some hours \<and> parse_u32 m = Some minutes \<and> hours \<le> 23 \<and>
       minutes \<le> 59 \<and> t = hours * 60 + minutes"
  using assms
  by (auto simp: parse_time_to_minutes_def bindR_eq_Inr ok_or_eq_Inr not_less
      split: list.splits if_splits)

lemma parse_time_to_minutes_bound: "parse_time_to_minutes s = Inr t \<Longrightarrow> t < 24 * 60"
  by (erule parse_time_to_minutes_Inr) (use hours_minutes_bound in blast)

lemma compile_time_constraint_valid:
  assumes "compile_time_constraint raw ws = Inr (m, ws')"
  shows "valid_time_constraint m"
proof -
  from assms obtain days s e where
    w: "rtc_week_interval raw \<noteq> 0" and s: "parse_time_to_minutes (rtw_start (rtc_window raw)) = Inr s"
    and e: "(if rtw_end (rtc_window raw) = ''24:00'' then Inr (24 * 60)
        else parse_time_to_minutes (rtw_end (rtc_window raw))) = Inr e"
    and ne: "s \<noteq> e" and m: "m = \<lparr>tcm_allowed_days = days, tcm_start = s, tcm_end = e,
        tcm_week_interval = rtc_week_interval raw\<rparr>"
    by (auto simp: compile_time_constraint_def bindR_eq_Inr Let_def split: if_splits)
  have "e \<le> 24 * 60"
    using e by (auto split: if_splits dest!: parse_time_to_minutes_bound)
  with w ne parse_time_to_minutes_bound [OF s] show ?thesis
    by (simp add: m valid_time_constraint_def)
qed

lemma compile_time_constraints_valid:
  assumes "compile_time_constraints_v14 raws ws = Inr (ms, ws')"
  shows "length ms = length raws \<and> (\<forall>m \<in> set ms. valid_time_constraint m)"
proof -
  have "(\<lambda>ys (ms, ws). length ms = length ys \<and> (\<forall>m \<in> set ms. valid_time_constraint m)) raws (ms, ws')"
    using assms unfolding compile_time_constraints_v14_def
    by (rule foldR_invariant_prefix)
      (auto simp: time_constraints_step_def bindR_eq_Inr dest!: compile_time_constraint_valid)
  then show ?thesis by simp
qed

section \<open>Objects\<close>

fun matcher_absolute :: "path_matcher \<Rightarrow> bool" where
  "matcher_absolute (PmExact p) = is_absolute p"
| "matcher_absolute (PmPrefix p) = is_absolute p"
| "matcher_absolute (PmGlob g) = prefix ''/'' g"

lemma compile_path_matcher_absolute:
  "compile_path_matcher_v14 pf s = Inr m \<Longrightarrow> matcher_absolute m"
  by (auto simp: compile_path_matcher_v14_def result_simps Let_def split: if_splits option.splits)

definition object_ok :: "object_matcher option \<Rightarrow> bool" where
  "object_ok om = (case om of None \<Rightarrow> True | Some ob \<Rightarrow>
     (\<exists>pm. om_path ob = Some pm \<and> matcher_absolute pm) \<and>
     (\<forall>pm. om_new_path ob = Some pm \<longrightarrow> matcher_absolute pm))"

lemma compile_object_ok:
  "compile_object_v14 pf raw = Inr om \<Longrightarrow> object_ok om \<and> (om = None \<longleftrightarrow> raw = None)"
  by (auto simp: compile_object_v14_def object_ok_def bindR_eq_Inr compile_path_matcher_absolute
      split: option.splits)

section \<open>Rules\<close>

text \<open>What every successful compilation of a rule yields, component by component.\<close>

lemma compile_rule_Inr:
  assumes "compile_rule_v14 pf rule ttl db ws = Inr (r, ws')"
  obtains ws1 ws2 ws3 where
    "compile_subject_v14 pf (rr_subject rule) db ws1 = (cr_subject r, ws2)"
    "compile_time_constraints_v14 (rr_time_constraints rule) ws2 = Inr (cr_time_constraints r, ws3)"
    "compile_object_v14 pf (rr_object rule) = Inr (cr_object r)"
    "\<exists>ws4. compile_action_v14 (rr_action rule) ws3 = Inr (cr_action_match r, ws4)"
    "cr_id r = rr_id rule" "cr_rule_type r = rr_rule_type rule" "cr_effect r = rr_effect rule"
    "cr_max_uses r = rr_max_uses rule" "cr_mpa r = compile_mpa (rr_mpa rule)"
    "cr_audit_level r = rr_audit_level rule" "cr_out_reason r \<noteq> []"
    "cr_ticket_profile r = ticket_profile_from_raw (rr_ticket_profile rule)"
proof -
  from assms obtain ws1 where body:
    "(let (subject, ws2) = compile_subject_v14 pf (rr_subject rule) db ws1 in
        bindR (map_err Semantic (compile_time_constraints_v14 (rr_time_constraints rule) ws2))
          (\<lambda>(tcs, ws3). bindR (compile_object_v14 pf (rr_object rule)) (\<lambda>ob.
             bindR (compile_action_v14 (rr_action rule) ws3) (\<lambda>(act, ws4).
               Inr (assemble_rule rule ttl subject tcs ob act ws4))))) = Inr (r, ws')"
    unfolding compile_rule_v14_def by (auto simp: bindR_eq_Inr)
  obtain sub ws2 where sub: "compile_subject_v14 pf (rr_subject rule) db ws1 = (sub, ws2)"
    by fastforce
  from body sub obtain tcs ws3 ob act ws4 where
    parts: "compile_time_constraints_v14 (rr_time_constraints rule) ws2 = Inr (tcs, ws3)"
    "compile_object_v14 pf (rr_object rule) = Inr ob"
    "compile_action_v14 (rr_action rule) ws3 = Inr (act, ws4)"
    and r: "assemble_rule rule ttl sub tcs ob act ws4 = (r, ws')"
    by (auto simp: bindR_eq_Inr map_err_eq_Inr)
  obtain reason ws5 where reason: "compile_reason rule ws4 = (reason, ws5)" by fastforce
  then have "reason \<noteq> []"
    by (auto simp: compile_reason_def make_default_reason_def Let_def split: option.splits if_splits)
  with that sub parts r reason show thesis by (auto simp: assemble_rule_def)
qed

section \<open>Order of the rules\<close>

lemma mset_sort_by_specificity [simp]: "mset (sort_by_specificity rs) = mset rs"
  by (simp add: sort_by_specificity_def)

lemma set_sort_by_specificity [simp]: "set (sort_by_specificity rs) = set rs"
  by (metis mset_sort_by_specificity set_mset_mset)

lemma distinct_ids_sort [simp]:
  "distinct (map cr_id (sort_by_specificity rs)) \<longleftrightarrow> distinct (map cr_id rs)"
  by (metis mset_map mset_sort_by_specificity mset_eq_imp_distinct_iff)

lemma sorted_sort_by_specificity:
  "sorted_wrt (\<lambda>a b. calculate_specificity b \<le> calculate_specificity a) (sort_by_specificity rs)"
proof -
  have "sorted (map calculate_specificity (sort_key calculate_specificity (rev rs)))" by simp
  then show ?thesis
    by (simp add: sort_by_specificity_def sorted_wrt_rev sorted_wrt_map)
qed

lemma stable_sort_by_specificity:
  "filter (\<lambda>r. calculate_specificity r = k) (sort_by_specificity rs) =
   filter (\<lambda>r. calculate_specificity r = k) rs"
  by (simp add: sort_by_specificity_def rev_filter [symmetric] sort_key_stable)

text \<open>
  Rules are reordered by priority and by nothing else: the sorted list is a permutation of
  the compiled rules, more specific rules come first, and rules of equal specificity keep the
  order of the file.
\<close>

theorem rules_sorted_stably:
  "mset (sort_by_specificity rs) = mset rs \<and>
   sorted_wrt (\<lambda>a b. calculate_specificity b \<le> calculate_specificity a) (sort_by_specificity rs) \<and>
   (\<forall>k. filter (\<lambda>r. calculate_specificity r = k) (sort_by_specificity rs) =
        filter (\<lambda>r. calculate_specificity r = k) rs)"
  by (simp add: sorted_sort_by_specificity stable_sort_by_specificity)

section \<open>Policies\<close>

lemma rule_ids_distinct:
  assumes "foldR rule_id_step rs [] = Inr seen"
  shows "distinct (map rr_id rs)"
proof -
  have "(\<lambda>ys seen. distinct (map rr_id ys) \<and> set seen = rr_id ` set ys) rs seen"
    using assms by (rule foldR_invariant_prefix) (auto simp: rule_id_step_def split: if_splits)
  then show ?thesis by simp
qed

lemma rule_ids_duplicate:
  assumes "\<not> distinct (map rr_id rs)"
  shows "\<exists>i. foldR rule_id_step rs [] = Inl (DuplicateRuleId i)"
proof -
  have "\<exists>i. e = DuplicateRuleId i" if "foldR rule_id_step rs s = Inl e" for s e
    using that by (induction rs arbitrary: s) (auto simp: rule_id_step_def bindR_eq_Inl split: if_splits)
  with assms rule_ids_distinct show ?thesis
    by (cases "foldR rule_id_step rs []") blast+
qed

definition compiles_to ::
  "platform \<Rightarrow> u64 \<Rightarrow> compiled_roles \<Rightarrow> raw_rule \<Rightarrow> compiled_rule \<Rightarrow> bool" where
  "compiles_to pf ttl db rr r \<longleftrightarrow> (\<exists>ws ws'. compile_rule_v14 pf rr ttl db ws = Inr (r, ws'))"

lemma rules_step_Inr:
  "rules_step pf ttl db x (rs, ws) = Inr (rs', ws') \<Longrightarrow>
     \<exists>r. rs' = rs @ [r] \<and> compiles_to pf ttl db x r"
  unfolding compiles_to_def by (auto simp: rules_step_def bindR_eq_Inr)

lemma rules_compiled:
  assumes "foldR (rules_step pf ttl db) rrs ([], []) = Inr (rs, ws)"
  shows "list_all2 (compiles_to pf ttl db) rrs rs"
proof -
  have "(\<lambda>ys (rs, ws). list_all2 (compiles_to pf ttl db) ys rs) rrs (rs, ws)"
    using assms
    by (rule foldR_invariant_prefix) (auto dest!: rules_step_Inr intro!: list_all2_appendI)
  then show ?thesis by simp
qed

lemma compile_policy_Inr:
  assumes "compile_policy_v14 pf raw db = Inr (p, ws)"
  obtains rs where
    "list_all2 (compiles_to pf (rpd_ttl_sec_default (rp_pre_approval_defaults raw)) db) (rp_rules raw) rs"
    "distinct (map rr_id (rp_rules raw))" "cp_rules p = sort_by_specificity rs"
    "cp_scope p = scope_from_rules (cp_rules p)" "cp_version p = V1_4"
    "rp_version raw = ''1.4''" "cp_system_type p = rp_system_type raw"
    "validate_pre_approval_defaults (rp_pre_approval_defaults raw) = Inr ()"
proof -
  from assms obtain u seen rs ws1 where
    v: "validate_pre_approval_defaults (rp_pre_approval_defaults raw) = Inr u" "rp_version raw = ''1.4''"
    and seen: "foldR rule_id_step (rp_rules raw) [] = Inr seen"
    and rs: "foldR (rules_step pf (rpd_ttl_sec_default (rp_pre_approval_defaults raw)) db) (rp_rules raw)
      ([], []) = Inr (rs, ws1)"
    and p: "cp_rules p = sort_by_specificity rs" "cp_scope p = scope_from_rules (cp_rules p)"
      "cp_version p = V1_4" "cp_system_type p = rp_system_type raw"
    by (auto simp: compile_policy_v14_def bindR_eq_Inr Let_def pre_approval_defaults_from_def
        split: if_splits)
  from that [OF rules_compiled [OF rs] rule_ids_distinct [OF seen] p(1,2,3) v(2) p(4)] v(1)
  show thesis by simp
qed

definition rule_wf :: "compiled_rule \<Rightarrow> bool" where
  "rule_wf r \<longleftrightarrow>
     object_ok (cr_object r) \<and> (\<forall>c \<in> set (cr_time_constraints r). valid_time_constraint c) \<and>
     (\<forall>as. cr_action_match r = AmOneOf as \<longrightarrow> as \<noteq> [] \<and> distinct as \<and> Unknown \<notin> set as) \<and>
     cr_out_reason r \<noteq> []"

lemma compile_action_wf:
  assumes "compile_action_v14 raw ws = Inr (AmOneOf as, ws')"
  shows "as \<noteq> [] \<and> distinct as \<and> Unknown \<notin> set as"
proof -
  obtain acts ws1 where l: "action_set_loop (rac_ops raw) ([], ws) = (acts, ws1)"
    by (cases "action_set_loop (rac_ops raw) ([], ws)")
  from action_set_loop_spec [OF l] have "distinct acts \<and> Unknown \<notin> set acts" by simp
  then show ?thesis using assms l by (simp add: compile_action_v14_def split: if_splits)
qed

lemma compile_rule_wf: "compiles_to pf ttl db rr r \<Longrightarrow> rule_wf r"
  unfolding compiles_to_def
  by (elim exE, erule compile_rule_Inr)
    (auto simp: rule_wf_def dest: compile_object_ok compile_time_constraints_valid compile_action_wf)

lemma compile_rule_id: "compiles_to pf ttl db rr r \<Longrightarrow> cr_id r = rr_id rr"
  unfolding compiles_to_def by (elim exE, erule compile_rule_Inr) simp

definition policy_wf :: "compiled_policy \<Rightarrow> bool" where
  "policy_wf p \<longleftrightarrow> distinct (map cr_id (cp_rules p)) \<and> (\<forall>r \<in> set (cp_rules p). rule_wf r)"

lemma list_all2_map_id:
  "list_all2 (compiles_to pf ttl db) rrs rs \<Longrightarrow> map cr_id rs = map rr_id rrs"
  by (induction rule: list_all2_induct) (auto dest: compile_rule_id)

lemma compiled_policy_ok:
  assumes "compile_policy_v14 pf raw db = Inr (p, ws)"
  shows "policy_wf p" "cp_scope p = scope_from_rules (cp_rules p)"
    "mset (map cr_id (cp_rules p)) = mset (map rr_id (rp_rules raw))"
    "cp_version p = V1_4" "cp_system_type p = rp_system_type raw"
proof -
  from assms obtain rs where
    rs: "list_all2 (compiles_to pf (rpd_ttl_sec_default (rp_pre_approval_defaults raw)) db)
      (rp_rules raw) rs"
    and d: "distinct (map rr_id (rp_rules raw))" and p: "cp_rules p = sort_by_specificity rs"
    and sc: "cp_scope p = scope_from_rules (cp_rules p)" "cp_version p = V1_4"
      "cp_system_type p = rp_system_type raw"
    by (rule compile_policy_Inr)
  have ids: "map cr_id rs = map rr_id (rp_rules raw)" by (rule list_all2_map_id [OF rs])
  have "\<forall>r \<in> set rs. rule_wf r"
    using rs by (induction rule: list_all2_induct) (auto dest: compile_rule_wf)
  with d show "policy_wf p" by (simp add: policy_wf_def p ids)
  show "mset (map cr_id (cp_rules p)) = mset (map rr_id (rp_rules raw))"
    by (metis ids mset_map mset_sort_by_specificity p)
  show "cp_scope p = scope_from_rules (cp_rules p)" "cp_version p = V1_4"
    "cp_system_type p = rp_system_type raw" by (fact sc)+
qed

text \<open>
  C11. A compiled policy is well formed: rule ids are unique, object paths are absolute, every
  time window lies within a day and has a start that differs from its end, action sets are
  never empty, every rule has a reason to report, and the managed scope is the one of its rules.
\<close>

theorem compiled_policy_wf:
  assumes "compile_policy_v14 pf raw db = Inr (p, ws)"
  shows "policy_wf p \<and> cp_scope p = scope_from_rules (cp_rules p) \<and>
    mset (map cr_id (cp_rules p)) = mset (map rr_id (rp_rules raw))"
  using compiled_policy_ok [OF assms] by simp

text \<open>
  Duplicate rule ids are rejected: a policy file of the supported version whose pre-approval
  defaults are consistent fails to compile, with that error, as soon as two of its rules share
  an id.
\<close>

theorem duplicate_ids_rejected:
  assumes "rp_version raw = ''1.4''"
    and "validate_pre_approval_defaults (rp_pre_approval_defaults raw) = Inr ()"
    and "\<not> distinct (map rr_id (rp_rules raw))"
  shows "\<exists>i. compile_policy_v14 pf raw db = Inl (DuplicateRuleId i)"
  using rule_ids_duplicate [OF assms(3)] assms(1,2) by (auto simp: compile_policy_v14_def)

section \<open>Compiled policies and the managed scope\<close>

lemma compiled_rule_indexed:
  assumes "compiles_to pf ttl db rr r" and "rr_object rr \<noteq> None" and "rr_rule_type rr = RtStandard"
  shows "is_indexed r"
  using assms unfolding compiles_to_def
  by (elim exE, elim compile_rule_Inr)
    (auto simp: is_indexed_def object_ok_def dest!: compile_object_ok split: option.splits)

text \<open>
  C7. No rule with an object is skipped after compilation: take the rule a policy file compiles
  to for one of its ordinary rules that has an object. Whenever that rule matches a request,
  the request is managed and is decided by a rule at least as specific as it.
\<close>

theorem compiled_rule_consulted:
  assumes "compile_policy_v14 pf raw db = Inr (cb_policy b, ws)"
    and "rr \<in> set (rp_rules raw)" and "rr_object rr \<noteq> None" and "rr_rule_type rr = RtStandard"
  shows "\<exists>r \<in> set (cp_rules (cb_policy b)). cr_id r = rr_id rr \<and>
    (\<forall>ev ctx. bundle_matches ev b ctx r \<longrightarrow>
       (\<exists>q. evaluate ev b ctx = Matched q \<and> bundle_matches ev b ctx q \<and>
            calculate_specificity r \<le> calculate_specificity q))"
  using assms(1)
proof (rule compile_policy_Inr)
  fix rs
  assume rs: "list_all2 (compiles_to pf (rpd_ttl_sec_default (rp_pre_approval_defaults raw)) db)
      (rp_rules raw) rs"
    and p: "cp_rules (cb_policy b) = sort_by_specificity rs"
    and sc: "cp_scope (cb_policy b) = scope_from_rules (cp_rules (cb_policy b))"
  from rs assms(2) obtain r where r: "r \<in> set rs"
    "compiles_to pf (rpd_ttl_sec_default (rp_pre_approval_defaults raw)) db rr r"
    by (metis list_all2_conv_all_nth in_set_conv_nth)
  note indexed = compiled_rule_indexed [OF r(2) assms(3,4)]
  have "\<exists>q. evaluate ev b ctx = Matched q \<and> bundle_matches ev b ctx q \<and>
      calculate_specificity r \<le> calculate_specificity q"
    if m: "bundle_matches ev b ctx r" for ev ctx
  proof -
    from r(1) obtain before after where split: "cp_rules (cb_policy b) = before @ r # after"
      by (metis p set_sort_by_specificity split_list)
    from indexed_rule_decides [OF sc split indexed m] obtain q where
      q: "q \<in> insert r (set before)" "evaluate ev b ctx = Matched q" "bundle_matches ev b ctx q"
      by blast
    have "sorted_wrt (\<lambda>a b. calculate_specificity b \<le> calculate_specificity a) (before @ r # after)"
      using sorted_sort_by_specificity [of rs] p split by simp
    with q(1) have "calculate_specificity r \<le> calculate_specificity q"
      by (auto simp: sorted_wrt_append)
    with q show ?thesis by blast
  qed
  with r(1) compile_rule_id [OF r(2)] p show ?thesis by (intro bexI [of _ r]) auto
qed

section \<open>Merging policy files\<close>

lemma merge_rules_ok:
  assumes "foldR merge_rule rs (seen, acc) = Inr (seen', acc')"
    and "set seen = set (map cr_id acc)" and "distinct (map cr_id acc)"
  shows "acc' = acc @ rs \<and> distinct (map cr_id acc')"
proof -
  have "(\<lambda>ys (seen, rules). set seen = set (map cr_id rules) \<and> rules = acc @ ys \<and>
      distinct (map cr_id rules)) rs (seen', acc')"
    using assms(1)
    by (rule foldR_invariant_prefix) (use assms(2,3) in \<open>auto simp: merge_rule_def split: if_splits\<close>)
  then show ?thesis unfolding prod.case by blast
qed

lemma policy_merge_Inr:
  assumes "policy_merge p q ws = Inr (m, ws')" and "distinct (map cr_id (cp_rules p))"
  shows "cp_rules m = cp_rules p @ cp_rules q" "distinct (map cr_id (cp_rules m))"
    "cp_scope m = scope_union (cp_scope p) (cp_scope q)" "cp_version m = cp_version p"
    "cp_version q = cp_version p" "cp_system_type m = cp_system_type p"
    "cp_system_type q = cp_system_type p" "cp_default_effect m = cp_default_effect p"
proof -
  have e: "cp_version q = cp_version p"
    by (rule ccontr) (use assms(1) in \<open>simp add: policy_merge_def\<close>)
  moreover have "cp_system_type q = cp_system_type p"
    by (rule ccontr) (use assms(1) e in \<open>simp add: policy_merge_def\<close>)
  ultimately have e: "cp_version q = cp_version p" "cp_system_type q = cp_system_type p" by simp_all
  from assms(1) e obtain seen rules where
    f: "foldR merge_rule (cp_rules q) (hs_of_list (map cr_id (cp_rules p)), cp_rules p) = Inr (seen, rules)"
    and m: "m = p\<lparr>cp_scope := scope_union (cp_scope p) (cp_scope q), cp_rules := rules\<rparr>"
    by (simp add: policy_merge_def bindR_eq_Inr Let_def) blast
  from merge_rules_ok [OF f] assms(2) have r: "rules = cp_rules p @ cp_rules q" "distinct (map cr_id rules)"
    by fastforce+
  show "cp_rules m = cp_rules p @ cp_rules q" "distinct (map cr_id (cp_rules m))"
    "cp_scope m = scope_union (cp_scope p) (cp_scope q)" "cp_version m = cp_version p"
    "cp_version q = cp_version p" "cp_system_type m = cp_system_type p"
    "cp_system_type q = cp_system_type p" "cp_default_effect m = cp_default_effect p"
    using r e by (simp_all add: m)
qed

text \<open>The scope of a policy manages the same requests as the scope of its rules.\<close>

definition scope_complete :: "compiled_policy \<Rightarrow> bool" where
  "scope_complete p \<longleftrightarrow>
     (\<forall>pf q. matches_object_scope pf (cp_scope p) q = (\<exists>r \<in> set (cp_rules p). rule_object_covers pf r q)) \<and>
     (\<forall>pf q. index_hits pf (program_index (cp_scope p)) q = (\<exists>r \<in> set (cp_rules p). rule_program_covers pf r q))"

lemma scope_complete_from_rules: "cp_scope p = scope_from_rules (cp_rules p) \<Longrightarrow> scope_complete p"
  by (simp add: scope_complete_def scope_from_rules_objects scope_from_rules_programs)

lemma merge_ok:
  assumes "policy_merge p q ws = Inr (m, ws')"
    and "policy_wf p" "policy_wf q" "scope_complete p" "scope_complete q"
  shows "policy_wf m \<and> scope_complete m \<and> cp_rules m = cp_rules p @ cp_rules q \<and>
    cp_version q = cp_version p \<and> cp_system_type q = cp_system_type p"
proof -
  have d: "distinct (map cr_id (cp_rules p))" using assms(2) by (simp add: policy_wf_def)
  note m = policy_merge_Inr [OF assms(1) d]
  have "policy_wf m" using assms(2,3) m(1,2) by (auto simp: policy_wf_def)
  moreover have "scope_complete m"
    using assms(4,5)
    by (auto simp: scope_complete_def m(1,3) scope_union_objects scope_union_programs)
  ultimately show ?thesis using m by simp
qed

text \<open>
  Merging keeps the guarantees of its inputs: the merged policy has the rules of the first
  file followed by those of the second, its ids stay unique, its rules stay well formed, and its
  scope still covers exactly what its rules cover. Files of another version or system type are
  not merged.
\<close>

theorem merge_preserves_wf:
  assumes "policy_merge p q ws = Inr (m, ws')"
    and "policy_wf p" "policy_wf q" "scope_complete p" "scope_complete q"
  shows "policy_wf m \<and> scope_complete m \<and> cp_rules m = cp_rules p @ cp_rules q \<and>
    cp_version q = cp_version p \<and> cp_system_type q = cp_system_type p"
  using assms by (rule merge_ok)

section \<open>Gaps\<close>

text \<open>A rule whose user does not resolve has no uid condition at all.\<close>

lemma compile_subject_uid:
  assumes "compile_subject_v14 pf sub db ws = (m, ws')"
  shows "sm_uid m = (case rsu_uid sub of Some u \<Rightarrow> Some u
    | None \<Rightarrow> (case rsu_user sub of None \<Rightarrow> None
        | Some n \<Rightarrow> if rust_trim n = [] then None
                    else ok_opt (name_to_uid (user_from_name pf) (rust_trim n))))"
  using assms
  by (auto simp: compile_subject_v14_def opt_trimmed_nonempty_def Let_def case_prod_beta
      split: option.splits)

lemma rule_matches_any_uid:
  assumes "sm_uid (cr_subject r) = None" and "sm_login_context (cr_subject r) = None"
  shows "rule_matches ev r nets (ctx\<lparr>ac_uid := u\<rparr>) st = rule_matches ev r nets ctx st"
  using assms by (cases "sm_origin_applet (cr_subject r)") (simp_all add: rule_matches_def match_subject_def)

text \<open>
  A rule written for a user that does not exist on the host is not dropped: it compiles, with
  no condition on the uid, and then matches every user who satisfies its other conditions.
\<close>

theorem unknown_user_rule_matches_everyone:
  assumes "compile_rule_v14 pf rule ttl db ws = Inr (r, ws')"
    and "rsu_uid (rr_subject rule) = None" and "rsu_user (rr_subject rule) = Some n"
    and "name_to_uid (user_from_name pf) (rust_trim n) = Inl e"
    and "sm_login_context (cr_subject r) = None"
  shows "rule_matches ev r nets (ctx\<lparr>ac_uid := u\<rparr>) st = rule_matches ev r nets ctx st"
proof -
  from assms(1) have "sm_uid (cr_subject r) = None"
    by (rule compile_rule_Inr) (use assms(2-4) in \<open>auto dest!: compile_subject_uid\<close>)
  then show ?thesis using assms(5) by (rule rule_matches_any_uid)
qed

lemma sort_swaps_specific:
  assumes "calculate_specificity a < calculate_specificity b"
  shows "sort_by_specificity [a, b] = [b, a]"
  using assms by (simp add: sort_by_specificity_def)

text \<open>
  The order of the file is not the order of evaluation: of two rules that both match, the one
  with the higher specificity decides even when the file lists it last.
\<close>

theorem specific_rule_overtakes:
  assumes "calculate_specificity a < calculate_specificity b"
    and "cp_rules (cb_policy bu) = sort_by_specificity [a, b]"
    and "bundle_managed ev bu ctx" and "bundle_matches ev bu ctx a" and "bundle_matches ev bu ctx b"
  shows "evaluate ev bu ctx = Matched b"
  using assms by (simp add: evaluate_alt sort_swaps_specific)

section \<open>A sample policy\<close>

definition sample_known_roles :: compiled_roles where
  "sample_known_roles =
     \<lparr>cro_roles_file = ''/etc/teal.d/roles.json'', cro_deny_if_role_unknown = True,
      cro_known_roles = [''admin''], cro_core = empty_roles_core\<rparr>"

definition sample_raw_rule :: "string \<Rightarrow> string \<Rightarrow> raw_rule" where
  "sample_raw_rule rid p =
     \<lparr>rr_id = rid, rr_description = None, rr_rule_type = RtStandard,
      rr_subject = \<lparr>rsu_user = Some ''bob'', rsu_uid = None, rsu_roles = [],
        rsu_origin_program = None, rsu_origin_script = None, rsu_origin_applet = None,
        rsu_login_context = None\<rparr>,
      rr_time_constraints = [], rr_object = Some \<lparr>rob_path = p, rob_new_path = None\<rparr>,
      rr_action = \<lparr>rac_ops = [Read]\<rparr>, rr_effect = Deny, rr_mpa = None,
      rr_audit_level = AlStandard, rr_max_uses = 1, rr_pre_approval = None, rr_reason = None,
      rr_ticket_profile = default_ticket_profile\<rparr>"

definition sample_raw_policy :: "raw_rule list \<Rightarrow> raw_policy" where
  "sample_raw_policy rules =
     \<lparr>rp_version = ''1.4'', rp_system_type = Server, rp_default_effect = None,
      rp_default_reason = None, rp_ttl_minutes = 10, rp_sweep_minutes = 5,
      rp_pre_approval_defaults = \<lparr>rpd_ttl_sec_default = 600, rpd_ttl_sec_max = None\<rparr>,
      rp_rules = rules\<rparr>"

lemmas compile_eval =
  compile_rule_v14_def compile_subject_v14_def opt_trimmed_nonempty_def opt_compile_path_def
  compile_required_roles_def compile_time_constraints_v14_def compile_object_v14_def
  compile_path_matcher_v14_def compile_action_v14_def assemble_rule_def compile_reason_def
  compile_mpa_def rust_trim_def trim_any.simps ws_seqs_def strip_prefix_def is_absolute_def
  name_to_uid_def sample_platform_def hs_insert_def Let_def

lemma sample_raw_rule_compiles:
  "\<exists>r ws'. compile_rule_v14 sample_platform (sample_raw_rule rid ''/etc/shadow'') ttl db ws = Inr (r, ws') \<and>
     sm_login_context (cr_subject r) = None"
  by (simp add: sample_raw_rule_def compile_eval)

lemma sample_policy_compiles:
  "\<exists>p ws. compile_policy_v14 sample_platform (sample_raw_policy [sample_raw_rule ''R1'' ''/etc/shadow''])
     sample_known_roles = Inr (p, ws)"
  using sample_raw_rule_compiles [of "''R1''" 600 sample_known_roles "[]"]
  by (auto simp: compile_policy_v14_def sample_raw_policy_def validate_pre_approval_defaults_def
      rule_id_step_def rules_step_def pre_approval_defaults_from_def Let_def)

lemma compiled_policy_wf_witness:
  "\<exists>p ws. compile_policy_v14 sample_platform (sample_raw_policy [sample_raw_rule ''R1'' ''/etc/shadow''])
     sample_known_roles = Inr (p, ws) \<and> policy_wf p"
  using sample_policy_compiles compiled_policy_wf by blast

lemma duplicate_ids_rejected_witness:
  "\<exists>i. compile_policy_v14 sample_platform
     (sample_raw_policy [sample_raw_rule ''R1'' ''/etc/shadow'', sample_raw_rule ''R1'' ''/etc/passwd''])
     sample_known_roles = Inl (DuplicateRuleId i)"
  by (rule duplicate_ids_rejected)
    (simp_all add: sample_raw_policy_def sample_raw_rule_def validate_pre_approval_defaults_def)

lemma compiled_rule_consulted_witness:
  "\<exists>b. \<exists>r \<in> set (cp_rules (cb_policy b)). cr_id r = ''R1'' \<and>
    (\<forall>ev ctx. bundle_matches ev b ctx r \<longrightarrow>
       (\<exists>q. evaluate ev b ctx = Matched q \<and> bundle_matches ev b ctx q \<and>
            calculate_specificity r \<le> calculate_specificity q))"
proof -
  obtain p ws where "compile_policy_v14 sample_platform
      (sample_raw_policy [sample_raw_rule ''R1'' ''/etc/shadow'']) sample_known_roles = Inr (p, ws)"
    using sample_policy_compiles by blast
  then have c: "compile_policy_v14 sample_platform
      (sample_raw_policy [sample_raw_rule ''R1'' ''/etc/shadow'']) sample_known_roles =
      Inr (cb_policy \<lparr>cb_policy = p, cb_roles = empty_roles_core, cb_warnings = []\<rparr>, ws)"
    by simp
  show ?thesis
    using compiled_rule_consulted [OF c, of "sample_raw_rule ''R1'' ''/etc/shadow''"]
    by (intro exI [of _ "\<lparr>cb_policy = p, cb_roles = empty_roles_core, cb_warnings = []\<rparr>"])
      (simp add: sample_raw_policy_def sample_raw_rule_def)
qed

lemma merge_preserves_wf_witness:
  "\<exists>m ws. policy_merge default_policy default_policy [] = Inr (m, ws) \<and> policy_wf m"
proof -
  have "\<exists>m ws. policy_merge default_policy default_policy [] = Inr (m, ws)"
    by (simp add: policy_merge_def default_policy_def)
  moreover have "policy_wf default_policy" by (simp add: policy_wf_def default_policy_def)
  moreover have "scope_complete default_policy"
    by (simp add: scope_complete_def default_policy_def scope_default_def matches_object_scope_def
        program_index_def)
  ultimately show ?thesis using merge_preserves_wf by blast
qed

lemma unknown_user_rule_matches_everyone_witness:
  "\<exists>r ws. compile_rule_v14 sample_platform (sample_raw_rule ''R1'' ''/etc/shadow'') 600
       sample_known_roles [] = Inr (r, ws) \<and>
     rule_matches sample_env r [] (sample_context\<lparr>ac_uid := 0\<rparr>) Server =
       rule_matches sample_env r [] sample_context Server"
proof -
  obtain r ws where c: "compile_rule_v14 sample_platform (sample_raw_rule ''R1'' ''/etc/shadow'') 600
       sample_known_roles [] = Inr (r, ws)" and l: "sm_login_context (cr_subject r) = None"
    using sample_raw_rule_compiles by blast
  have "name_to_uid (user_from_name sample_platform) (rust_trim ''bob'') = Inl ''User not found: bob''"
    by (simp add: name_to_uid_def sample_platform_def rust_trim_def trim_any.simps ws_seqs_def)
  from unknown_user_rule_matches_everyone [OF c _ _ this l] c show ?thesis
    by (auto simp: sample_raw_rule_def)
qed

lemma specific_rule_overtakes_witness:
  "evaluate sample_env
     (sample_bundle\<lparr>cb_policy := sample_policy\<lparr>cp_rules := sort_by_specificity
        [sample_rule\<lparr>cr_object := None\<rparr>, sample_rule]\<rparr>\<rparr>) sample_context = Matched sample_rule"
  (is "evaluate _ ?b _ = _")
proof (rule specific_rule_overtakes [where a = "sample_rule\<lparr>cr_object := None\<rparr>"])
  show "calculate_specificity (sample_rule\<lparr>cr_object := None\<rparr>) < calculate_specificity sample_rule"
    by (simp add: calculate_specificity_def sample_rule_def default_with_reason_def exact_opt_def
        less_specificity_def)
  show "bundle_managed sample_env ?b sample_context"
    by (simp add: bundle_managed_def sample_bundle_def sample_policy_def sample_env_def
        is_request_managed_def matches_object_scope_def scope_from_rules_def sample_rule_def
        default_with_reason_def add_matcher_opt_def sample_context_def path_set_insert_def
        path_set_contains_def)
  show "bundle_matches sample_env ?b sample_context sample_rule"
    using sample_rule_matches by (simp add: bundle_matches_def sample_bundle_def)
  show "bundle_matches sample_env ?b sample_context (sample_rule\<lparr>cr_object := None\<rparr>)"
    using sample_rule_matches
    by (simp add: bundle_matches_def sample_bundle_def rule_matches_def match_object_def split: if_splits)
qed simp

end
