(* ===== verification/Compile_Roles.thy ===== *)
theory Compile_Roles
  imports Evaluation
begin

text \<open>
  \<open>v14/compile.rs\<close>, first half: compiling \<open>roles.json\<close>. The warnings are threaded as a value;
  an error drops them, as the source does. The theorems say that a successful compilation
  leaves only known roles in the catalogue, the defaults and the assignments, and that the
  SSH network table has one entry per uid.
\<close>

section \<open>Helpers\<close>

definition validate_role_name :: "string \<Rightarrow> compile_error + unit" where
  "validate_role_name name =
     (if name = [] then Inl (InvalidRoleName name ''empty'')
      else if has_control name then Inl (InvalidRoleName name ''contains control chars'')
      else Inr ())"

definition normalize_name :: "string \<Rightarrow> string \<Rightarrow> compile_error + (string \<times> string list)" where
  "normalize_name kind s =
     (let trimmed = rust_trim s
      in if trimmed = [] then Inl (InvalidRoleName s (kind @ '' name is empty after trim''))
         else Inr (trimmed,
           if trimmed \<noteq> s
           then [kind @ '' normalized by trim: '' @ quoted s @ '' -> '' @ quoted trimmed]
           else []))"

text \<open>The loop of \<open>dedup_vec_keep_order\<close> with \<open>seen\<close>, \<open>out\<close> and \<open>dups\<close>; the key is the item.\<close>

fun dedup_loop :: "'a list \<Rightarrow> 'a hset \<times> 'a list \<times> 'a list \<Rightarrow> 'a hset \<times> 'a list \<times> 'a list" where
  "dedup_loop [] st = st"
| "dedup_loop (x # xs) (seen, out, dups) =
     (if x \<in> set seen then dedup_loop xs (seen, out, dups @ [x])
      else dedup_loop xs (hs_insert x seen, out @ [x], dups))"

definition dedup_vec_keep_order :: "'a list \<Rightarrow> 'a list \<times> 'a list" where
  "dedup_vec_keep_order v = snd (dedup_loop v ([], [], []))"

definition merge_role_set ::
  "'k \<Rightarrow> string hset \<Rightarrow> string \<Rightarrow> ('k, string hset) hmap \<times> warnings \<Rightarrow> ('k, string hset) hmap \<times> warnings" where
  "merge_role_set key incoming ctx st =
     (case st of (m, ws) \<Rightarrow>
        (case hm_get m key of
           Some existing \<Rightarrow>
             (let merged = hs_extend existing incoming
              in (hm_insert key merged m,
                  if length merged \<noteq> length existing
                  then warn (''duplicate target merged roles: '' @ ctx) ws
                  else warn (''duplicate target assignment had no new roles: '' @ ctx) ws))
         | None \<Rightarrow> (hm_insert key incoming m, ws)))"

datatype assignment_target = AtUid u32 | AtUser string

fun assignment_context_string :: "assignment_target \<Rightarrow> string" where
  "assignment_context_string (AtUid uid) = ''assignments[uid='' @ show_u32 uid @ '']''"
| "assignment_context_string (AtUser u) = ''assignments[user='' @ u @ '']''"

definition normalize_assignment_target ::
  "u32 option \<Rightarrow> string option \<Rightarrow> compile_error + assignment_target" where
  "normalize_assignment_target uid user =
     (case (uid, user) of
        (None, None) \<Rightarrow> Inl MissingAssignmentTarget
      | (Some _, Some _) \<Rightarrow> Inl AmbiguousAssignmentTarget
      | (Some u, None) \<Rightarrow> Inr (AtUid u)
      | (None, Some n) \<Rightarrow>
          (let t = rust_trim n
           in if t = [] then Inl MissingAssignmentTarget else Inr (AtUser t)))"

datatype group_assignment_target = GtGid u32 | GtGroup string

fun group_context_string :: "group_assignment_target \<Rightarrow> string" where
  "group_context_string (GtGid gid) = ''group_assignments[gid='' @ show_u32 gid @ '']''"
| "group_context_string (GtGroup g) = ''group_assignments[group='' @ g @ '']''"

definition normalize_group_assignment_target ::
  "u32 option \<Rightarrow> string option \<Rightarrow> compile_error + group_assignment_target" where
  "normalize_group_assignment_target gid grp =
     (case (gid, grp) of
        (None, None) \<Rightarrow> Inl MissingGroupAssignmentTarget
      | (Some _, Some _) \<Rightarrow> Inl AmbiguousGroupAssignmentTarget
      | (Some g, None) \<Rightarrow> Inr (GtGid g)
      | (None, Some n) \<Rightarrow>
          (let t = rust_trim n
           in if t = [] then Inl MissingGroupAssignmentTarget else Inr (GtGroup t)))"

section \<open>The role catalogue\<close>

definition role_description ::
  "string \<Rightarrow> string option \<Rightarrow> warnings \<Rightarrow> string option \<times> warnings" where
  "role_description name description ws =
     (case description of
        None \<Rightarrow> (None, ws)
      | Some d \<Rightarrow>
          (let t = rust_trim d
           in if t = [] then (None, warn (''empty description normalized to None: role='' @ name) ws)
              else if t \<noteq> d then (Some t, warn (''description trimmed: role='' @ name) ws)
              else (Some d, ws)))"

definition catalog_step ::
  "raw_role_def \<Rightarrow> role_catalog \<times> warnings \<Rightarrow> compile_error + (role_catalog \<times> warnings)" where
  "catalog_step r st =
     (case st of (cat, ws) \<Rightarrow>
        bindR (normalize_name ''role'' (rrd_name r)) (\<lambda>(name, name_warnings).
        bindR (validate_role_name name) (\<lambda>_.
          if name \<in> set (rc_known_roles cat) then Inl (DuplicateRoleName name)
          else
            (let (tags, tag_warns) = dedup_vec_keep_order (rrd_tags r);
                 (perms, perm_warns) = dedup_vec_keep_order (rrd_permissions r);
                 ws1 = ws @ name_warnings
                   @ map (\<lambda>w. ''duplicate tag removed: role='' @ name @ '' tag='' @ w) tag_warns
                   @ map (\<lambda>w. ''duplicate permission removed: role='' @ name @ '' permission='' @ w)
                       perm_warns;
                 (desc, ws2) = role_description name (rrd_description r) ws1
             in Inr (\<lparr>rc_known_roles = hs_insert name (rc_known_roles cat),
                      rc_meta = hm_insert name
                        \<lparr>rm_description = desc, rm_tags = tags, rm_permissions = perms\<rparr>
                        (rc_meta cat)\<rparr>, ws2)))))"

definition build_role_catalog ::
  "raw_role_def list \<Rightarrow> warnings \<Rightarrow> compile_error + (role_catalog \<times> warnings)" where
  "build_role_catalog raw_roles ws =
     foldR catalog_step raw_roles (\<lparr>rc_known_roles = [], rc_meta = []\<rparr>, ws)"

section \<open>References to roles\<close>

definition resolve_step ::
  "role_catalog \<Rightarrow> bool \<Rightarrow> string \<Rightarrow> string \<Rightarrow> string hset \<times> warnings \<Rightarrow>
   compile_error + (string hset \<times> warnings)" where
  "resolve_step roles deny_if_unknown ctx rr st =
     (case st of (role_set, ws) \<Rightarrow>
        bindR (normalize_name (''role_ref('' @ ctx @ '')'') rr) (\<lambda>(role, nws).
          let ws1 = ws @ nws
          in if role \<notin> set (rc_known_roles roles) then
               (if deny_if_unknown then Inl (UnknownRoleReferenced role ctx)
                else Inr (role_set,
                  warn (''unknown role dropped (deny_if_role_unknown=false): role='' @ role @
                        '' context='' @ ctx) ws1))
             else if role \<in> set role_set then
               Inr (role_set,
                 warn (''duplicate role removed: role='' @ role @ '' context='' @ ctx) ws1)
             else Inr (hs_insert role role_set, ws1)))"

definition resolve_roles ::
  "string list \<Rightarrow> role_catalog \<Rightarrow> bool \<Rightarrow> string \<Rightarrow> warnings \<Rightarrow>
   compile_error + (string hset \<times> warnings)" where
  "resolve_roles refs roles deny_if_unknown ctx ws =
     foldR (resolve_step roles deny_if_unknown ctx) refs ([], ws)"

definition compile_defaults ::
  "raw_defaults \<Rightarrow> role_catalog \<Rightarrow> warnings \<Rightarrow> compile_error + (compiled_defaults \<times> warnings)" where
  "compile_defaults raw roles ws =
     bindR (resolve_roles (rd_roles_for_unknown_user raw) roles True
              ''defaults.roles_for_unknown_user'' ws)
       (\<lambda>(unknown, ws1).
          let ws2 = (if \<not> rd_deny_if_role_unknown raw
                     then warn ''deny_if_role_unknown=false is unsafe (fail-open)'' ws1 else ws1)
          in Inr (\<lparr>cd_roles_for_unknown_user = unknown,
                   cd_deny_if_role_unknown = rd_deny_if_role_unknown raw\<rparr>, ws2))"

section \<open>Assignments\<close>

definition assignment_step ::
  "platform \<Rightarrow> role_catalog \<Rightarrow> compiled_defaults \<Rightarrow> raw_assignment \<Rightarrow>
   subject_role_index \<times> warnings \<Rightarrow> compile_error + (subject_role_index \<times> warnings)" where
  "assignment_step pf roles defaults a st =
     (case st of (index, ws) \<Rightarrow>
        bindR (normalize_assignment_target (ra_uid a) (ra_user a)) (\<lambda>target.
        let ctx = assignment_context_string target
        in bindR (resolve_roles (ra_roles a) roles (cd_deny_if_role_unknown defaults) ctx ws)
          (\<lambda>(role_set, ws1).
             if role_set = [] then
               Inr (index, warn (''assignment has no effective roles after filtering; skipped: '' @ ctx) ws1)
             else
               (case target of
                  AtUid u \<Rightarrow>
                    (let (m, ws2) = merge_role_set u role_set
                           (''assignments[uid='' @ show_u32 u @ '']'') (sri_uid_roles index, ws1)
                     in Inr (index\<lparr>sri_uid_roles := m\<rparr>, ws2))
                | AtUser name \<Rightarrow>
                    (let ctx' = ''assignments[user='' @ name @ '']''
                     in case name_to_uid (user_from_name pf) name of
                          Inr u \<Rightarrow>
                            (let (m, ws2) = merge_role_set u role_set
                                   (ctx' @ '' -> uid='' @ show_u32 u) (sri_uid_roles index, ws1)
                             in Inr (index\<lparr>sri_uid_roles := m\<rparr>, ws2))
                        | Inl _ \<Rightarrow>
                            Inr (index,
                              warn (''user assignment dropped because user not found : user='' @
                                    name @ '' context='' @ ctx') ws1))))))"

definition compile_assignments ::
  "platform \<Rightarrow> raw_assignment list \<Rightarrow> role_catalog \<Rightarrow> compiled_defaults \<Rightarrow> warnings \<Rightarrow>
   compile_error + (subject_role_index \<times> warnings)" where
  "compile_assignments pf raws roles defaults ws =
     foldR (assignment_step pf roles defaults) raws (\<lparr>sri_uid_roles = []\<rparr>, ws)"

definition group_step ::
  "role_catalog \<Rightarrow> compiled_defaults \<Rightarrow> raw_group_assignment \<Rightarrow>
   group_role_index \<times> warnings \<Rightarrow> compile_error + (group_role_index \<times> warnings)" where
  "group_step roles defaults ga st =
     (case st of (index, ws) \<Rightarrow>
        bindR (normalize_group_assignment_target (rga_gid ga) (rga_group ga)) (\<lambda>target.
        let ctx = group_context_string target
        in bindR (resolve_roles (rga_roles ga) roles (cd_deny_if_role_unknown defaults) ctx ws)
          (\<lambda>(role_set, ws1).
             if role_set = [] then
               Inr (index,
                 warn (''group_assignment has no effective roles after filtering; skipped: '' @ ctx) ws1)
             else
               (case target of
                  GtGid g \<Rightarrow>
                    (let (m, ws2) = merge_role_set g role_set
                           (''group_assignments[gid='' @ show_u32 g @ '']'') (gri_gid_roles index, ws1)
                     in Inr (index\<lparr>gri_gid_roles := m\<rparr>, ws2))
                | GtGroup g \<Rightarrow>
                    (let (m, ws2) = merge_role_set g role_set
                           (''group_assignments[group='' @ g @ '']'') (gri_group_roles index, ws1)
                     in Inr (index\<lparr>gri_group_roles := m\<rparr>, ws2))))))"

definition compile_group_assignments ::
  "raw_group_assignment list \<Rightarrow> role_catalog \<Rightarrow> compiled_defaults \<Rightarrow> warnings \<Rightarrow>
   compile_error + (group_role_index \<times> warnings)" where
  "compile_group_assignments raws roles defaults ws =
     (let ws1 = (if raws \<noteq> [] then warn ''group_assignments are parsed but not used yet'' ws else ws)
      in foldR (group_step roles defaults) raws (\<lparr>gri_gid_roles = [], gri_group_roles = []\<rparr>, ws1))"

section \<open>Login contexts\<close>

definition ssh_source_step ::
  "platform \<Rightarrow> nat \<Rightarrow> string \<Rightarrow> nat \<times> ipnet list \<Rightarrow> compile_error + (nat \<times> ipnet list)" where
  "ssh_source_step pf i raw_source st =
     (case st of (j, networks) \<Rightarrow>
        let source = rust_trim raw_source;
            here = ''login_contexts['' @ show_nat i @ '']''
        in if source = [] then
             Inl (InvalidValue (here @ ''.allowed_ssh_sources['' @ show_nat j @ '']: empty source''))
           else
             bindR (map_err (\<lambda>e. InvalidValue (here @ ''.allowed_ssh_sources['' @ show_nat j @
                        '']: invalid IP address or CIDR '' @ quoted source @ '': '' @ e))
                      (net_parse pf source)) (\<lambda>parsed.
             bindR (map_err (\<lambda>e. InvalidValue (here @ '': invalid network '' @ quoted source @ '': '' @ e))
                      (net_new pf (net_network pf parsed) (net_prefix_len parsed))) (\<lambda>network.
               if network \<in> set networks then
                 Inl (InvalidValue (here @ '': duplicate SSH source '' @ quoted source))
               else Inr (Suc j, networks @ [network]))))"

definition login_context_step ::
  "platform \<Rightarrow> raw_login_context_assignment \<Rightarrow> nat \<times> ssh_networks \<Rightarrow>
   compile_error + (nat \<times> ssh_networks)" where
  "login_context_step pf a st =
     (case st of (i, index) \<Rightarrow>
        bindR (normalize_assignment_target (rla_uid a) (rla_user a)) (\<lambda>target.
        bindR (case target of
                 AtUid u \<Rightarrow> Inr u
               | AtUser name \<Rightarrow>
                   map_err (\<lambda>e. InvalidValue (''login_contexts['' @ show_nat i @ '']: user '' @
                       quoted name @ '' cannot be resolved to UID: '' @ e))
                     (name_to_uid (user_from_name pf) name)) (\<lambda>uid.
          if hm_contains index uid then
            Inl (InvalidValue (''login_contexts['' @ show_nat i @ '']: duplicate UID '' @ show_u32 uid))
          else
            bindR (foldR (ssh_source_step pf i) (rla_allowed_ssh_sources a) (0, []))
              (\<lambda>(_, networks). Inr (Suc i, hm_insert uid networks index)))))"

definition compile_login_contexts ::
  "platform \<Rightarrow> raw_login_context_assignment list \<Rightarrow> compile_error + ssh_networks" where
  "compile_login_contexts pf raws =
     bindR (foldR (login_context_step pf) raws (0, [])) (\<lambda>(_, index). Inr index)"

section \<open>compile\_roles\_v1\<close>

definition compile_roles_v1 ::
  "platform \<Rightarrow> raw_roles \<Rightarrow> compile_error + (compiled_roles_core \<times> warnings)" where
  "compile_roles_v1 pf raw =
     (if rro_schema_version raw \<noteq> ''1.0'' then Inl (UnsupportedVersion (rro_schema_version raw))
      else
        bindR (build_role_catalog (rro_roles raw) []) (\<lambda>(catalog, ws1).
        bindR (compile_defaults (rro_defaults raw) catalog ws1) (\<lambda>(defaults, ws2).
        bindR (compile_assignments pf (rro_assignments raw) catalog defaults ws2) (\<lambda>(assignments, ws3).
        bindR (compile_group_assignments (rro_group_assignments raw) catalog defaults ws3) (\<lambda>(groups, ws4).
        bindR (compile_login_contexts pf (rro_login_contexts raw)) (\<lambda>networks.
          Inr (\<lparr>crc_roles = catalog, crc_assignments = assignments,
                crc_group_assignments = groups, crc_defaults = defaults,
                crc_allowed_ssh_networks = networks\<rparr>, ws4)))))))"

section \<open>Names and role sets\<close>

lemma normalize_name_Inr [result_simps]:
  "normalize_name kind s = Inr (t, ws) \<longleftrightarrow>
     t = rust_trim s \<and> t \<noteq> [] \<and>
     ws = (if t \<noteq> s then [kind @ '' normalized by trim: '' @ quoted s @ '' -> '' @ quoted t] else [])"
  by (auto simp: normalize_name_def Let_def)

lemma validate_role_name_Inr [result_simps]:
  "validate_role_name n = Inr u \<longleftrightarrow> n \<noteq> [] \<and> \<not> has_control n"
  by (auto simp: validate_role_name_def)

text \<open>\<open>dedup_vec_keep_order\<close> keeps the first occurrence of every item.\<close>

lemma dedup_loop_spec:
  assumes "dedup_loop xs (seen, out, dups) = (seen', out', dups')"
    and "set seen = set out" and "distinct out"
  shows "distinct out' \<and> set out' = set out \<union> set xs \<and>
     length out' + length dups' = length out + length dups + length xs"
  using assms
proof (induction xs arbitrary: seen out dups)
  case (Cons x xs)
  show ?case
  proof (cases "x \<in> set seen")
    case True
    with Cons.prems Cons.IH [of seen out "dups @ [x]"] show ?thesis by auto
  next
    case False
    with Cons.prems Cons.IH [of "hs_insert x seen" "out @ [x]" dups] show ?thesis by auto
  qed
qed simp

lemma dedup_vec_keep_order_spec:
  assumes "dedup_vec_keep_order xs = (out, dups)"
  shows "distinct out" "set out = set xs" "length out + length dups = length xs"
proof -
  obtain seen where "dedup_loop xs ([], [], []) = (seen, out, dups)"
    using assms by (metis dedup_vec_keep_order_def prod.collapse)
  from dedup_loop_spec [OF this] show "distinct out" "set out = set xs"
    "length out + length dups = length xs" by simp_all
qed

definition catalog_ok :: "role_catalog \<Rightarrow> bool" where
  "catalog_ok cat \<longleftrightarrow>
     distinct (rc_known_roles cat) \<and> hm_wf (rc_meta cat) \<and>
     (\<forall>n. n \<in> set (rc_known_roles cat) \<longleftrightarrow> hm_contains (rc_meta cat) n) \<and>
     (\<forall>n \<in> set (rc_known_roles cat). n \<noteq> [] \<and> rust_trim n = n \<and> \<not> has_control n)"

lemma catalog_step_ok:
  "catalog_step r (cat, ws) = Inr (cat', ws') \<Longrightarrow> catalog_ok cat \<Longrightarrow>
     catalog_ok cat' \<and> rust_trim (rrd_name r) \<notin> set (rc_known_roles cat) \<and>
     set (rc_known_roles cat') = insert (rust_trim (rrd_name r)) (set (rc_known_roles cat))"
  by (auto simp: catalog_step_def catalog_ok_def result_simps hm_contains_get Let_def
      split: prod.splits if_splits)

text \<open>
  The catalogue of a role list: a successful build keeps the roles' trimmed names, all
  different, and describes each of them.
\<close>

lemma build_role_catalog_ok:
  assumes "build_role_catalog raws ws = Inr (cat, ws')"
  shows "catalog_ok cat \<and> set (rc_known_roles cat) = rust_trim ` rrd_name ` set raws \<and>
     distinct (map (rust_trim \<circ> rrd_name) raws)"
proof -
  have "(\<lambda>ys :: raw_role_def list. \<lambda>(cat, ws). catalog_ok cat \<and> set (rc_known_roles cat) = rust_trim ` rrd_name ` set ys \<and>
      distinct (map (rust_trim \<circ> rrd_name) ys)) raws (cat, ws')"
    using assms unfolding build_role_catalog_def
  proof (rule foldR_invariant_prefix)
    show "case (\<lparr>rc_known_roles = [], rc_meta = []\<rparr>, ws) of (cat, ws) \<Rightarrow>
        catalog_ok cat \<and> set (rc_known_roles cat) = rust_trim ` rrd_name ` set [] \<and>
        distinct (map (rust_trim \<circ> rrd_name) [])"
      by (simp add: catalog_ok_def hm_contains_get)
  next
    fix ys zs :: "raw_role_def list" and x and r r' :: "role_catalog \<times> warnings"
    assume "case r of (cat, ws) \<Rightarrow> catalog_ok cat \<and>
        set (rc_known_roles cat) = rust_trim ` rrd_name ` set ys \<and>
        distinct (map (rust_trim \<circ> rrd_name) ys)"
      and "catalog_step x r = Inr r'"
    then show "case r' of (cat, ws) \<Rightarrow> catalog_ok cat \<and>
        set (rc_known_roles cat) = rust_trim ` rrd_name ` set (ys @ [x]) \<and>
        distinct (map (rust_trim \<circ> rrd_name) (ys @ [x]))"
      by (cases r; cases r') (auto dest!: catalog_step_ok)
  qed
  then show ?thesis by simp
qed

text \<open>Resolving references: exactly the known ones remain, and in strict mode all are known.\<close>

lemma resolve_step_ok:
  "resolve_step cat deny ctx rr (rs, ws) = Inr (rs', ws') \<Longrightarrow>
     set rs' = set rs \<union> ({rust_trim rr} \<inter> set (rc_known_roles cat)) \<and>
     (distinct rs \<longrightarrow> distinct rs') \<and> (deny \<longrightarrow> rust_trim rr \<in> set (rc_known_roles cat))"
  by (auto simp: resolve_step_def result_simps Let_def split: if_splits)

lemma resolve_roles_ok:
  assumes "resolve_roles refs cat deny ctx ws = Inr (rs, ws')"
  shows "distinct rs" "set rs = rust_trim ` set refs \<inter> set (rc_known_roles cat)"
    "deny \<Longrightarrow> rust_trim ` set refs \<subseteq> set (rc_known_roles cat)"
proof -
  have "(\<lambda>ys (rs, ws). distinct rs \<and> set rs = rust_trim ` set ys \<inter> set (rc_known_roles cat) \<and>
      (deny \<longrightarrow> rust_trim ` set ys \<subseteq> set (rc_known_roles cat))) refs (rs, ws')"
    using assms unfolding resolve_roles_def
    by (rule foldR_invariant_prefix) (auto dest!: resolve_step_ok)
  then show "distinct rs" "set rs = rust_trim ` set refs \<inter> set (rc_known_roles cat)"
    "deny \<Longrightarrow> rust_trim ` set refs \<subseteq> set (rc_known_roles cat)" by simp_all
qed

section \<open>Role sets of a target\<close>

definition roles_at :: "('k, string hset) hmap \<Rightarrow> 'k \<Rightarrow> string set" where
  "roles_at m k = (case hm_get m k of None \<Rightarrow> {} | Some rs \<Rightarrow> set rs)"

text \<open>A role index: one entry per target, each a non-empty set of known roles.\<close>

definition role_index_ok :: "role_catalog \<Rightarrow> ('k, string hset) hmap \<Rightarrow> bool" where
  "role_index_ok cat m \<longleftrightarrow> hm_wf m \<and>
     (\<forall>k rs. hm_get m k = Some rs \<longrightarrow> rs \<noteq> [] \<and> distinct rs \<and> set rs \<subseteq> set (rc_known_roles cat))"

lemma role_index_ok_Nil [simp]: "role_index_ok cat []"
  by (simp add: role_index_ok_def)

lemma roles_at_Nil [simp]: "roles_at [] k = {}"
  by (simp add: roles_at_def)

lemma roles_at_merge:
  "merge_role_set k inc ctx (m, ws) = (m', ws') \<Longrightarrow>
     roles_at m' k' = (if k' = k then roles_at m k \<union> set inc else roles_at m k')"
  by (auto simp: merge_role_set_def roles_at_def Let_def split: option.splits)

lemma hs_extend_Nil_iff: "hs_extend xs ys = [] \<longleftrightarrow> xs = [] \<and> ys = []"
  by (metis Un_empty set_empty set_hs_extend)

lemma role_index_ok_merge:
  assumes "merge_role_set k inc ctx (m, ws) = (m', ws')" and "role_index_ok cat m"
    and "inc \<noteq> []" "distinct inc" "set inc \<subseteq> set (rc_known_roles cat)"
  shows "role_index_ok cat m'"
  using assms
  by (auto simp: merge_role_set_def role_index_ok_def Let_def hs_extend_Nil_iff
      split: option.splits if_split_asm) blast+

definition assignment_uid :: "platform \<Rightarrow> raw_assignment \<Rightarrow> u32 option" where
  "assignment_uid pf a =
     (case (ra_uid a, ra_user a) of
        (Some u, None) \<Rightarrow> Some u
      | (None, Some n) \<Rightarrow> ok_opt (name_to_uid (user_from_name pf) (rust_trim n))
      | _ \<Rightarrow> None)"

lemma normalize_assignment_target_Inr [result_simps]:
  "normalize_assignment_target uid user = Inr t \<longleftrightarrow>
     (\<exists>u. uid = Some u \<and> user = None \<and> t = AtUid u) \<or>
     (\<exists>n. uid = None \<and> user = Some n \<and> rust_trim n \<noteq> [] \<and> t = AtUser (rust_trim n))"
  by (auto simp: normalize_assignment_target_def Let_def split: option.splits if_splits)

definition known_refs :: "role_catalog \<Rightarrow> string list \<Rightarrow> string set" where
  "known_refs cat refs = rust_trim ` set refs \<inter> set (rc_known_roles cat)"

text \<open>What one assignment contributes, whichever way its target is written.\<close>

lemma assignment_step_ok:
  assumes step: "assignment_step pf cat d a (ix, ws) = Inr (ix', ws')"
    and ok: "role_index_ok cat (sri_uid_roles ix)"
  shows "role_index_ok cat (sri_uid_roles ix') \<and>
     (\<forall>u. roles_at (sri_uid_roles ix') u = roles_at (sri_uid_roles ix) u \<union>
        (if assignment_uid pf a = Some u then known_refs cat (ra_roles a) else {}))"
proof -
  from step obtain t where t: "normalize_assignment_target (ra_uid a) (ra_user a) = Inr t"
    by (auto simp: assignment_step_def result_simps)
  from step t obtain rs ws1 where
    rs: "resolve_roles (ra_roles a) cat (cd_deny_if_role_unknown d) (assignment_context_string t) ws
         = Inr (rs, ws1)"
    by (auto simp: assignment_step_def Let_def bindR_eq_Inr)
  note rok = resolve_roles_ok(1,2) [OF rs]
  have target: "assignment_uid pf a =
      (case t of AtUid u \<Rightarrow> Some u | AtUser n \<Rightarrow> ok_opt (name_to_uid (user_from_name pf) n))"
    using t by (auto simp: result_simps assignment_uid_def)
  show ?thesis
  proof (cases "rs = []")
    case True
    then have "known_refs cat (ra_roles a) = {}" using rok by (simp add: known_refs_def)
    with step t rs True ok show ?thesis by (simp add: assignment_step_def)
  next
    case False
    have known: "set rs = known_refs cat (ra_roles a)" "set rs \<subseteq> set (rc_known_roles cat)"
      using rok by (auto simp: known_refs_def)
    have merged: "role_index_ok cat m \<and> (\<forall>v. roles_at m v = roles_at (sri_uid_roles ix) v \<union>
        (if v = u then known_refs cat (ra_roles a) else {}))"
      if "merge_role_set u rs c (sri_uid_roles ix, ws1) = (m, w)" for u c m w
      using role_index_ok_merge [OF that ok False rok(1) known(2)] roles_at_merge [OF that] known(1)
      by auto
    show ?thesis
    proof (cases t)
      case (AtUid u)
      with step t rs False show ?thesis
        by (auto simp: assignment_step_def target dest!: merged split: prod.splits)
    next
      case (AtUser n)
      with step t rs False ok show ?thesis
        by (cases "name_to_uid (user_from_name pf) n")
          (auto simp: assignment_step_def target Let_def dest!: merged split: prod.splits)
    qed
  qed
qed

definition assigned_roles :: "platform \<Rightarrow> role_catalog \<Rightarrow> raw_assignment list \<Rightarrow> u32 \<Rightarrow> string set" where
  "assigned_roles pf cat raws u =
     (\<Union>a \<in> set raws. if assignment_uid pf a = Some u then known_refs cat (ra_roles a) else {})"

lemma compile_assignments_ok:
  assumes "compile_assignments pf raws cat d ws = Inr (ix, ws')"
  shows "role_index_ok cat (sri_uid_roles ix) \<and>
     (\<forall>u. roles_at (sri_uid_roles ix) u = assigned_roles pf cat raws u)"
proof -
  have "(\<lambda>ys :: raw_assignment list. \<lambda>(ix, ws). role_index_ok cat (sri_uid_roles ix) \<and>
      (\<forall>u. roles_at (sri_uid_roles ix) u = assigned_roles pf cat ys u)) raws (ix, ws')"
    using assms unfolding compile_assignments_def
    by (rule foldR_invariant_prefix)
      (auto simp: assigned_roles_def dest!: assignment_step_ok split: if_splits)
  then show ?thesis by simp
qed

text \<open>The same for the group assignments, whose targets are gids and group names.\<close>

lemma normalize_group_target_Inr [result_simps]:
  "normalize_group_assignment_target gid grp = Inr t \<longleftrightarrow>
     (\<exists>g. gid = Some g \<and> grp = None \<and> t = GtGid g) \<or>
     (\<exists>n. gid = None \<and> grp = Some n \<and> rust_trim n \<noteq> [] \<and> t = GtGroup (rust_trim n))"
  by (auto simp: normalize_group_assignment_target_def Let_def split: option.splits if_splits)

lemma group_step_ok:
  assumes step: "group_step cat d a (ix, ws) = Inr (ix', ws')"
    and ok: "role_index_ok cat (gri_gid_roles ix)" "role_index_ok cat (gri_group_roles ix)"
  shows "role_index_ok cat (gri_gid_roles ix') \<and> role_index_ok cat (gri_group_roles ix')"
proof -
  from step obtain t where t: "normalize_group_assignment_target (rga_gid a) (rga_group a) = Inr t"
    by (auto simp: group_step_def result_simps)
  from step t obtain rs ws1 where
    rs: "resolve_roles (rga_roles a) cat (cd_deny_if_role_unknown d) (group_context_string t) ws
         = Inr (rs, ws1)"
    by (auto simp: group_step_def Let_def bindR_eq_Inr)
  note rok = resolve_roles_ok(1,2) [OF rs]
  show ?thesis
  proof (cases "rs = []")
    case True
    with step t rs ok show ?thesis by (simp add: group_step_def)
  next
    case False
    note merged = role_index_ok_merge [OF _ ok(1) False rok(1)] role_index_ok_merge [OF _ ok(2) False rok(1)]
    from step t rs False ok rok(2) show ?thesis
      by (cases t) (auto simp: group_step_def dest!: merged split: prod.splits)
  qed
qed

lemma compile_group_assignments_ok:
  assumes "compile_group_assignments raws cat d ws = Inr (ix, ws')"
  shows "role_index_ok cat (gri_gid_roles ix) \<and> role_index_ok cat (gri_group_roles ix)"
proof -
  have "(\<lambda>(ix, ws :: warnings). role_index_ok cat (gri_gid_roles ix) \<and> role_index_ok cat (gri_group_roles ix))
      (ix, ws')"
    using assms unfolding compile_group_assignments_def Let_def
    by (rule foldR_invariant) (auto dest: group_step_ok)
  then show ?thesis by simp
qed

section \<open>The network table\<close>

lemma ssh_source_step_Inr:
  "ssh_source_step pf i src (j, nets) = Inr (j', nets') \<Longrightarrow>
     \<exists>parsed net. rust_trim src \<noteq> [] \<and> net_parse pf (rust_trim src) = Inr parsed \<and>
       net_new pf (net_network pf parsed) (net_prefix_len parsed) = Inr net \<and>
       net \<notin> set nets \<and> nets' = nets @ [net] \<and> j' = Suc j"
  by (auto simp: ssh_source_step_def Let_def result_simps split: if_splits)

lemma ssh_sources_ok:
  assumes "foldR (ssh_source_step pf i) srcs (0, []) = Inr (j, nets)"
  shows "distinct nets \<and> length nets = length srcs"
proof -
  have "(\<lambda>ys (j, nets). distinct nets \<and> length nets = length ys) srcs (j, nets)"
    using assms by (rule foldR_invariant_prefix) (auto dest!: ssh_source_step_Inr)
  then show ?thesis by simp
qed

text \<open>The uid a login context is about, when its user can be resolved.\<close>

definition login_context_uid :: "platform \<Rightarrow> raw_login_context_assignment \<Rightarrow> u32 option" where
  "login_context_uid pf a =
     (case (rla_uid a, rla_user a) of
        (Some u, None) \<Rightarrow> Some u
      | (None, Some n) \<Rightarrow> ok_opt (name_to_uid (user_from_name pf) (rust_trim n))
      | _ \<Rightarrow> None)"

lemma login_context_step_Inr:
  assumes step: "login_context_step pf a (i, ix) = Inr (i', ix')"
  shows "\<exists>u nets. login_context_uid pf a = Some u \<and> hm_get ix u = None \<and>
     distinct nets \<and> length nets = length (rla_allowed_ssh_sources a) \<and>
     ix' = hm_insert u nets ix"
proof -
  from step obtain t where t: "normalize_assignment_target (rla_uid a) (rla_user a) = Inr t"
    by (auto simp: login_context_step_def result_simps)
  have "\<exists>u nets j. login_context_uid pf a = Some u \<and> \<not> hm_contains ix u \<and>
      foldR (ssh_source_step pf i) (rla_allowed_ssh_sources a) (0, []) = Inr (j, nets) \<and>
      ix' = hm_insert u nets ix"
    using step t
    by (cases t) (auto simp: login_context_step_def login_context_uid_def bindR_eq_Inr map_err_eq_Inr
        normalize_assignment_target_Inr split: if_splits)
  then show ?thesis by (auto simp: hm_contains_def dest: ssh_sources_ok)
qed

text \<open>
  The SSH network table is total and unambiguous: a successful compilation resolves every
  login context to a uid, no two of them to the same one, and stores for that uid one network
  per listed source, without repetition. A context that lists no source stores the empty list,
  which rejects every remote session of that uid.
\<close>

theorem login_contexts_unique:
  assumes "compile_login_contexts pf raws = Inr table"
  shows "hm_wf table \<and>
    (\<exists>uids. map (login_context_uid pf) raws = map Some uids \<and> distinct uids \<and>
       set (hm_keys table) = set uids) \<and>
    (\<forall>a \<in> set raws. \<exists>u nets. login_context_uid pf a = Some u \<and> hm_get table u = Some nets \<and>
       distinct nets \<and> length nets = length (rla_allowed_ssh_sources a))"
proof -
  let ?I = "\<lambda>ys (i :: nat, t). hm_wf t \<and>
    (\<exists>uids. map (login_context_uid pf) ys = map Some uids \<and> distinct uids \<and>
       set (hm_keys t) = set uids) \<and>
    (\<forall>a \<in> set ys. \<exists>u nets. login_context_uid pf a = Some u \<and> hm_get t u = Some nets \<and>
       distinct nets \<and> length nets = length (rla_allowed_ssh_sources a))"
  from assms obtain n where "foldR (login_context_step pf) raws (0, []) = Inr (n, table)"
    by (auto simp: compile_login_contexts_def result_simps)
  then have "?I raws (n, table)"
  proof (rule foldR_invariant_prefix)
    show "?I [] (0, [])" by (simp add: hm_keys_def)
  next
    fix ys zs :: "raw_login_context_assignment list" and a and r r' :: "nat \<times> ssh_networks"
    assume I: "?I ys r" and step: "login_context_step pf a r = Inr r'"
    obtain i t where r: "r = (i, t)" by (cases r)
    obtain i' t' where r': "r' = (i', t')" by (cases r')
    from I r obtain uids where wf: "hm_wf t" and uids: "map (login_context_uid pf) ys = map Some uids"
      "distinct uids" "set (hm_keys t) = set uids" by auto
    from login_context_step_Inr [OF step [unfolded r r']] obtain u nets where
      u: "login_context_uid pf a = Some u" "hm_get t u = None" "distinct nets"
        "length nets = length (rla_allowed_ssh_sources a)" "t' = hm_insert u nets t" by blast
    have keys: "set (hm_keys t') = insert u (set uids)" "u \<notin> set uids"
      using u(2,5) by (auto simp: set_hm_keys simp flip: uids(3))
    have "\<exists>uids. map (login_context_uid pf) (ys @ [a]) = map Some uids \<and> distinct uids \<and>
        set (hm_keys t') = set uids"
      using u(1) uids keys by (intro exI [of _ "uids @ [u]"]) auto
    moreover have "\<exists>v ns. login_context_uid pf b = Some v \<and> hm_get t' v = Some ns \<and>
        distinct ns \<and> length ns = length (rla_allowed_ssh_sources b)" if "b \<in> set (ys @ [a])" for b
      using that I u unfolding r by fastforce
    ultimately show "?I (ys @ [a]) r'" using wf u(5) unfolding r' by auto
  qed
  then show ?thesis by simp
qed

section \<open>What a compiled roles file guarantees\<close>

lemma compile_roles_v1_Inr:
  assumes "compile_roles_v1 pf raw = Inr (core, ws)"
  obtains ws1 ws2 ws3 ws4 where
    "build_role_catalog (rro_roles raw) [] = Inr (crc_roles core, ws1)"
    "compile_defaults (rro_defaults raw) (crc_roles core) ws1 = Inr (crc_defaults core, ws2)"
    "compile_assignments pf (rro_assignments raw) (crc_roles core) (crc_defaults core) ws2
       = Inr (crc_assignments core, ws3)"
    "compile_group_assignments (rro_group_assignments raw) (crc_roles core) (crc_defaults core) ws3
       = Inr (crc_group_assignments core, ws4)"
    "compile_login_contexts pf (rro_login_contexts raw) = Inr (crc_allowed_ssh_networks core)"
    "rro_schema_version raw = ''1.0''"
  using assms by (auto simp: compile_roles_v1_def bindR_eq_Inr split: if_splits)

lemma compile_defaults_ok:
  assumes "compile_defaults raw cat ws = Inr (d, ws')"
  shows "cd_deny_if_role_unknown d = rd_deny_if_role_unknown raw"
    "set (cd_roles_for_unknown_user d) = rust_trim ` set (rd_roles_for_unknown_user raw)"
    "set (cd_roles_for_unknown_user d) \<subseteq> set (rc_known_roles cat)"
proof -
  from assms obtain rs ws1 where
    "resolve_roles (rd_roles_for_unknown_user raw) cat True ''defaults.roles_for_unknown_user'' ws
       = Inr (rs, ws1)" and d: "d = \<lparr>cd_roles_for_unknown_user = rs,
       cd_deny_if_role_unknown = rd_deny_if_role_unknown raw\<rparr>"
    by (auto simp: compile_defaults_def bindR_eq_Inr Let_def)
  note rs = resolve_roles_ok [OF this(1)]
  show "cd_deny_if_role_unknown d = rd_deny_if_role_unknown raw"
    "set (cd_roles_for_unknown_user d) = rust_trim ` set (rd_roles_for_unknown_user raw)"
    "set (cd_roles_for_unknown_user d) \<subseteq> set (rc_known_roles cat)"
    using rs(2,3) by (auto simp: d)
qed

text \<open>
  A roles file that compiles defines each role once, under its trimmed name, and every role
  that the compiled file grants, by default, to a uid, to a gid or to a group, is one of them;
  no target is stored with an empty set of roles.
\<close>

theorem compiled_roles_known:
  assumes "compile_roles_v1 pf raw = Inr (core, ws)"
  shows "distinct (map (rust_trim \<circ> rrd_name) (rro_roles raw)) \<and>
    catalog_ok (crc_roles core) \<and>
    set (rc_known_roles (crc_roles core)) = rust_trim ` rrd_name ` set (rro_roles raw) \<and>
    set (cd_roles_for_unknown_user (crc_defaults core)) \<subseteq> set (rc_known_roles (crc_roles core)) \<and>
    role_index_ok (crc_roles core) (sri_uid_roles (crc_assignments core)) \<and>
    role_index_ok (crc_roles core) (gri_gid_roles (crc_group_assignments core)) \<and>
    role_index_ok (crc_roles core) (gri_group_roles (crc_group_assignments core))"
  using assms
proof (rule compile_roles_v1_Inr)
  fix ws1 ws2 ws3 ws4
  assume "build_role_catalog (rro_roles raw) [] = Inr (crc_roles core, ws1)"
    and "compile_defaults (rro_defaults raw) (crc_roles core) ws1 = Inr (crc_defaults core, ws2)"
    and "compile_assignments pf (rro_assignments raw) (crc_roles core) (crc_defaults core) ws2
       = Inr (crc_assignments core, ws3)"
    and "compile_group_assignments (rro_group_assignments raw) (crc_roles core) (crc_defaults core) ws3
       = Inr (crc_group_assignments core, ws4)"
  from build_role_catalog_ok [OF this(1)] compile_defaults_ok(3) [OF this(2)]
    compile_assignments_ok [OF this(3)] compile_group_assignments_ok [OF this(4)]
  show ?thesis by simp
qed

text \<open>
  The compiled assignments are exactly what the file assigns: the roles stored for a uid are
  the known roles of all the assignments that name the uid or a user with that uid, however many
  there are and in whatever order.
\<close>

theorem compiled_assignments_exact:
  assumes "compile_roles_v1 pf raw = Inr (core, ws)"
  shows "roles_at (sri_uid_roles (crc_assignments core)) u =
    assigned_roles pf (crc_roles core) (rro_assignments raw) u"
  using assms by (rule compile_roles_v1_Inr) (simp add: compile_assignments_ok)

lemma assignment_step_strict:
  assumes "assignment_step pf cat d a st = Inr st'" and "cd_deny_if_role_unknown d"
  shows "rust_trim ` set (ra_roles a) \<subseteq> set (rc_known_roles cat)"
  using assms by (cases st) (auto simp: assignment_step_def bindR_eq_Inr Let_def dest!: resolve_roles_ok(3))

lemma foldR_each:
  "foldR f xs s = Inr t \<Longrightarrow> x \<in> set xs \<Longrightarrow> \<exists>r r'. f x r = Inr r'"
  by (induction xs arbitrary: s) (auto simp: bindR_eq_Inr)

text \<open>
  In strict mode no reference to an unknown role is dropped silently: if the file compiles
  with \<open>deny_if_role_unknown\<close>, every role its assignments mention is defined in it.
\<close>

theorem strict_roles_all_known:
  assumes "compile_roles_v1 pf raw = Inr (core, ws)"
    and "rd_deny_if_role_unknown (rro_defaults raw)"
    and "a \<in> set (rro_assignments raw)"
  shows "rust_trim ` set (ra_roles a) \<subseteq> set (rc_known_roles (crc_roles core))"
  using assms(1)
proof (rule compile_roles_v1_Inr)
  fix ws1 ws2 ws3
  assume "compile_defaults (rro_defaults raw) (crc_roles core) ws1 = Inr (crc_defaults core, ws2)"
    and run: "compile_assignments pf (rro_assignments raw) (crc_roles core) (crc_defaults core) ws2
       = Inr (crc_assignments core, ws3)"
  then have "cd_deny_if_role_unknown (crc_defaults core)"
    using assms(2) compile_defaults_ok(1) by blast
  with foldR_each [OF run [unfolded compile_assignments_def] assms(3)] show ?thesis
    using assignment_step_strict by blast
qed

section \<open>A sample file\<close>

definition sample_raw_roles :: raw_roles where
  "sample_raw_roles =
     \<lparr>rro_schema_version = ''1.0'',
      rro_roles = [\<lparr>rrd_name = ''admin'', rrd_description = None, rrd_tags = [], rrd_permissions = []\<rparr>,
                   \<lparr>rrd_name = '' audit '', rrd_description = None, rrd_tags = [''a'', ''a''],
                    rrd_permissions = []\<rparr>],
      rro_assignments = [\<lparr>ra_uid = None, ra_user = Some ''alice'', ra_roles = [''admin '']\<rparr>,
                         \<lparr>ra_uid = Some 1000, ra_user = None, ra_roles = [''audit'']\<rparr>],
      rro_group_assignments = [],
      rro_login_contexts = [\<lparr>rla_uid = Some 0, rla_user = None, rla_allowed_ssh_sources = [''10.0.0.0/8'']\<rparr>],
      rro_defaults = \<lparr>rd_roles_for_unknown_user = [], rd_deny_if_role_unknown = True\<rparr>\<rparr>"

lemma sample_roles_compile:
  "\<exists>core ws. compile_roles_v1 sample_platform sample_raw_roles = Inr (core, ws)"
  by (simp add: compile_roles_v1_def sample_raw_roles_def build_role_catalog_def catalog_step_def
      normalize_name_def validate_role_name_def dedup_vec_keep_order_def role_description_def
      rust_trim_def trim_any.simps ws_seqs_def compile_defaults_def resolve_roles_def
      resolve_step_def compile_assignments_def assignment_step_def normalize_assignment_target_def
      name_to_uid_def sample_platform_def merge_role_set_def compile_group_assignments_def
      compile_login_contexts_def login_context_step_def ssh_source_step_def hm_contains_def
      hs_insert_def byte_def Let_def)

lemma compiled_roles_known_witness:
  "\<exists>core ws. compile_roles_v1 sample_platform sample_raw_roles = Inr (core, ws) \<and>
     set (rc_known_roles (crc_roles core)) = rust_trim ` rrd_name ` set (rro_roles sample_raw_roles)"
  using sample_roles_compile compiled_roles_known by blast

lemma compiled_assignments_exact_witness:
  "\<exists>core ws. compile_roles_v1 sample_platform sample_raw_roles = Inr (core, ws) \<and>
     roles_at (sri_uid_roles (crc_assignments core)) 1000 =
       assigned_roles sample_platform (crc_roles core) (rro_assignments sample_raw_roles) 1000"
  using sample_roles_compile compiled_assignments_exact by blast

lemma strict_roles_all_known_witness:
  "\<exists>core ws. compile_roles_v1 sample_platform sample_raw_roles = Inr (core, ws) \<and>
     rust_trim ` {''admin ''} \<subseteq> set (rc_known_roles (crc_roles core))"
proof -
  obtain core ws where c: "compile_roles_v1 sample_platform sample_raw_roles = Inr (core, ws)"
    using sample_roles_compile by blast
  have "rust_trim ` set (ra_roles \<lparr>ra_uid = None, ra_user = Some ''alice'', ra_roles = [''admin '']\<rparr>)
      \<subseteq> set (rc_known_roles (crc_roles core))"
    by (rule strict_roles_all_known [OF c]) (simp_all add: sample_raw_roles_def)
  with c show ?thesis by auto
qed

lemma sample_login_contexts:
  "compile_login_contexts sample_platform (rro_login_contexts sample_raw_roles) =
     Inr [(0, [IpNet (V4 0x0A000000) 8])]"
  by (simp add: sample_raw_roles_def compile_login_contexts_def login_context_step_def
      ssh_source_step_def normalize_assignment_target_def rust_trim_def trim_any.simps ws_seqs_def
      sample_platform_def hm_contains_def hm_insert_def hm_get_def Let_def)

lemma login_contexts_unique_witness:
  "hm_wf [(0 :: u32, [IpNet (V4 0x0A000000) 8])]"
  using login_contexts_unique [OF sample_login_contexts] by blast

end
