(* ===== verification/Mgmt_Compile.thy ===== *)
theory Mgmt_Compile
  imports Compile_Roles
begin

text \<open>
  \<open>v14/management.rs\<close>: compiling \<open>management.json\<close>, the controls of the daemon itself (start,
  stop, policy update, flush) with their initiators and their multi-party approval.
\<close>

section \<open>Raw and compiled controls\<close>

record raw_mgmt_mpa =
  rmm_enabled :: bool
  rmm_threshold :: "u32 option"
  rmm_approver_roles :: "string list option"
  rmm_timeout_minutes :: "u32 option"

record raw_mgmt_control =
  rmc_description :: "string option"
  rmc_initiator_roles :: "string list"
  rmc_mpa :: raw_mgmt_mpa

record raw_management =
  rmg_start :: raw_mgmt_control
  rmg_stop :: raw_mgmt_control
  rmg_policy_update :: "raw_mgmt_control option"
  rmg_flush :: "raw_mgmt_control option"

record mgmt_mpa_enabled =
  mme_threshold :: u32
  mme_approver_roles :: "string hset"
  mme_timeout_minutes :: u32

datatype mgmt_mpa = MpaDisabled | MpaEnabled mgmt_mpa_enabled

record mgmt_control =
  mc_description :: "string option"
  mc_initiator_uids :: "u32 hset"
  mc_mpa :: mgmt_mpa

record compiled_management =
  cm_start :: mgmt_control
  cm_stop :: mgmt_control
  cm_policy_update :: "mgmt_control option"
  cm_flush :: "mgmt_control option"

section \<open>Roles\<close>

definition lookup_uids_in_compiled_roles :: "compiled_roles_core \<Rightarrow> string \<Rightarrow> u32 hset" where
  "lookup_uids_in_compiled_roles roles role_name =
     hs_of_list (map fst (filter (\<lambda>(uid, rs). role_name \<in> set rs)
       (sri_uid_roles (crc_assignments roles))))"

definition hex2 :: "nat \<Rightarrow> string" where
  "hex2 n = [''0123456789abcdef'' ! (n div 16 mod 16), ''0123456789abcdef'' ! (n mod 16)]"

definition mgmt_name_char :: "char \<Rightarrow> bool" where
  "mgmt_name_char c \<longleftrightarrow> is_ascii_alphanumeric c \<or> c = CHR ''_'' \<or> c = CHR ''-'' \<or> c = CHR ''.''"

definition mgmt_validate_role_name :: "string \<Rightarrow> string + unit" where
  "mgmt_validate_role_name name =
     (if name = [] then Inl ''empty''
      else if length name > 64 then Inl (''too long (len='' @ show_nat (length name) @ '')'')
      else if \<not> is_ascii_alphabetic (hd name) then Inl ''first char must be ASCII alphabetic''
      else case List.find (\<lambda>b. \<not> mgmt_name_char b) name of
          Some b \<Rightarrow> Inl (''invalid char: 0x'' @ hex2 (byte b))
        | None \<Rightarrow> Inr ())"

definition resolve_role_uids ::
  "compiled_roles_core \<Rightarrow> string \<Rightarrow> string \<Rightarrow> compile_error + u32 hset" where
  "resolve_role_uids roles role_name ctx =
     (let uids = lookup_uids_in_compiled_roles roles role_name
      in if uids \<noteq> [] then Inr uids else Inl (UnknownRoleReferenced role_name ctx))"

text \<open>
  One iteration over the role references of a control (field \<open>initiator_roles\<close> or
  \<open>mpa.approver_roles\<close>): validate, drop duplicates with a warning, add the uids.
\<close>

definition role_ref_step ::
  "compiled_roles_core \<Rightarrow> string \<Rightarrow> string \<Rightarrow> string \<Rightarrow> string hset \<times> u32 hset \<times> warnings \<Rightarrow>
   compile_error + (string hset \<times> u32 hset \<times> warnings)" where
  "role_ref_step roles what field role_name st =
     (case st of (seen, uids, ws) \<Rightarrow>
        (case mgmt_validate_role_name role_name of
           Inl reason \<Rightarrow>
             Inl (InvalidRoleName role_name (''invalid '' @ what @ '' ref: '' @ reason))
         | Inr _ \<Rightarrow>
             (if role_name \<in> set seen then
                Inr (seen, uids,
                  warn (field @ '': duplicate role '' @ quoted role_name @ '' removed'') ws)
              else
                bindR (resolve_role_uids roles role_name field)
                  (\<lambda>new. Inr (hs_insert role_name seen, hs_extend uids new, ws)))))"

section \<open>Controls\<close>

definition mgmt_compile_mpa ::
  "compiled_roles_core \<Rightarrow> string \<Rightarrow> raw_mgmt_mpa \<Rightarrow> warnings \<Rightarrow>
   compile_error + (mgmt_mpa \<times> warnings)" where
  "mgmt_compile_mpa roles ctx_base mpa ws =
     (if \<not> rmm_enabled mpa then Inr (MpaDisabled, ws)
      else
        bindR (ok_or (rmm_threshold mpa) (MissingField ''management.controls.*.mpa.threshold'')) (\<lambda>threshold.
        bindR (ok_or (rmm_approver_roles mpa)
                 (MissingField ''management.controls.*.mpa.approver_roles'')) (\<lambda>approver_roles.
        bindR (ok_or (rmm_timeout_minutes mpa)
                 (MissingField ''management.controls.*.mpa.timeout_minutes'')) (\<lambda>timeout.
          if \<not> (1 \<le> threshold \<and> threshold \<le> 32) then
            Inl (InvalidValue (ctx_base @ ''.mpa.threshold out of range (1..=32): '' @ show_u32 threshold))
          else if \<not> (1 \<le> timeout \<and> timeout \<le> 1440) then
            Inl (InvalidValue (ctx_base @ ''.mpa.timeout_minutes out of range (1..=1440): '' @
                               show_u32 timeout))
          else if approver_roles = [] then
            Inl (InvalidField ''management.controls.*.mpa.approver_roles''
                   ''approver_roles must be non-empty when enabled=true'')
          else
            bindR (foldR (role_ref_step roles ''approver_roles'' (ctx_base @ ''.mpa.approver_roles''))
                     approver_roles ([], [], ws)) (\<lambda>(_, approver_uids, ws1).
              if approver_uids = [] then
                Inl (InvalidValue (ctx_base @ ''.mpa.approver_roles resolved to empty uid set''))
              else if unat threshold > length approver_uids then
                Inl (InvalidValue (ctx_base @ ''.mpa.threshold='' @ show_u32 threshold @
                     '' is greater than distinct approver uids='' @ show_nat (length approver_uids)))
              else Inr (MpaEnabled \<lparr>mme_threshold = threshold,
                          mme_approver_roles = hs_of_list approver_roles,
                          mme_timeout_minutes = timeout\<rparr>, ws1))))))"

definition compile_control ::
  "compiled_roles_core \<Rightarrow> string \<Rightarrow> raw_mgmt_control \<Rightarrow> warnings \<Rightarrow>
   compile_error + (mgmt_control \<times> warnings)" where
  "compile_control roles which c ws =
     (let ctx_base = ''management.controls.'' @ which
      in if rmc_initiator_roles c = [] then
           Inl (InvalidField ''management.controls.*.initiator_roles''
                  ''initiator_roles must be non-empty'')
         else
           bindR (foldR (role_ref_step roles ''initiator_roles'' (ctx_base @ ''.initiator_roles''))
                    (rmc_initiator_roles c) ([], [], ws)) (\<lambda>(_, initiator_uids, ws1).
             if initiator_uids = [] then
               Inl (InvalidValue (ctx_base @ ''.initiator_roles resolved to empty uid set''))
             else
               bindR (mgmt_compile_mpa roles ctx_base (rmc_mpa c) ws1) (\<lambda>(mpa, ws2).
                 Inr (\<lparr>mc_description = rmc_description c, mc_initiator_uids = initiator_uids,
                       mc_mpa = mpa\<rparr>, ws2))))"

definition compile_control_opt ::
  "compiled_roles_core \<Rightarrow> string \<Rightarrow> raw_mgmt_control option \<Rightarrow> warnings \<Rightarrow>
   compile_error + (mgmt_control option \<times> warnings)" where
  "compile_control_opt roles which c ws =
     (case c of
        Some rc \<Rightarrow> bindR (compile_control roles which rc ws) (\<lambda>(m, ws1). Inr (Some m, ws1))
      | None \<Rightarrow> Inr (None, ws))"

definition compile_management ::
  "raw_management \<Rightarrow> compiled_roles_core \<Rightarrow> compile_error + (compiled_management \<times> warnings)" where
  "compile_management raw roles =
     bindR (compile_control roles ''start'' (rmg_start raw) []) (\<lambda>(start, ws1).
     bindR (compile_control roles ''stop'' (rmg_stop raw) ws1) (\<lambda>(stop, ws2).
     bindR (compile_control_opt roles ''policy_update'' (rmg_policy_update raw) ws2) (\<lambda>(update, ws3).
     bindR (compile_control_opt roles ''flush'' (rmg_flush raw) ws3) (\<lambda>(flush, ws4).
       Inr (\<lparr>cm_start = start, cm_stop = stop, cm_policy_update = update, cm_flush = flush\<rparr>, ws4)))))"

section \<open>Who can act\<close>

definition holds_role :: "compiled_roles_core \<Rightarrow> u32 \<Rightarrow> string \<Rightarrow> bool" where
  "holds_role roles uid role \<longleftrightarrow> role \<in> roles_at (sri_uid_roles (crc_assignments roles)) uid"

definition core_wf :: "compiled_roles_core \<Rightarrow> bool" where
  "core_wf roles \<longleftrightarrow> hm_wf (sri_uid_roles (crc_assignments roles))"

lemma lookup_uids_spec:
  assumes "core_wf roles"
  shows "set (lookup_uids_in_compiled_roles roles r) = {u. holds_role roles u r}"
proof -
  let ?m = "sri_uid_roles (crc_assignments roles)"
  have "(u, rs) \<in> set ?m \<longleftrightarrow> hm_get ?m u = Some rs" for u rs
    using assms by (simp add: hm_get_def core_wf_def hm_wf_def)
  then show ?thesis
    by (auto simp: lookup_uids_in_compiled_roles_def holds_role_def roles_at_def image_iff
        split: option.splits)
qed

lemma lookup_uids_distinct: "distinct (lookup_uids_in_compiled_roles roles r)"
  by (simp add: lookup_uids_in_compiled_roles_def)

text \<open>The state of the loop over role references: the uids are those of the roles seen.\<close>

definition role_refs_inv ::
  "compiled_roles_core \<Rightarrow> string list \<Rightarrow> string hset \<times> u32 hset \<times> warnings \<Rightarrow> bool" where
  "role_refs_inv roles rs st \<longleftrightarrow> (case st of (seen, uids, ws) \<Rightarrow>
     set seen = set rs \<and> distinct uids \<and>
     set uids = {u. \<exists>r \<in> set rs. holds_role roles u r} \<and>
     (\<forall>r \<in> set rs. mgmt_validate_role_name r = Inr () \<and> (\<exists>u. holds_role roles u r)))"

lemma role_ref_step_inv:
  assumes step: "role_ref_step roles what w r st = Inr st'" and wf: "core_wf roles"
    and inv: "role_refs_inv roles rs st"
  shows "role_refs_inv roles (rs @ [r]) st'"
proof -
  obtain seen uids ws where st: "st = (seen, uids, ws)" by (metis surj_pair)
  from step st have v: "mgmt_validate_role_name r = Inr ()"
    by (auto simp: role_ref_step_def split: sum.splits)
  show ?thesis
  proof (cases "r \<in> set seen")
    case True
    with step v inv show ?thesis by (auto simp: role_ref_step_def role_refs_inv_def st)
  next
    case False
    with step v have st': "st' = (hs_insert r seen, hs_extend uids (lookup_uids_in_compiled_roles roles r), ws)"
        "lookup_uids_in_compiled_roles roles r \<noteq> []"
      by (auto simp: role_ref_step_def st resolve_role_uids_def bindR_eq_Inr Let_def split: if_splits)
    from st'(2) lookup_uids_spec [OF wf, of r] have "\<exists>u. holds_role roles u r"
      by (metis Collect_empty_eq set_empty)
    then show ?thesis
      using inv v lookup_uids_spec [OF wf, of r] by (auto simp: role_refs_inv_def st st'(1))
  qed
qed

lemma role_refs_ok:
  assumes "foldR (role_ref_step roles what w) rs ([], [], ws) = Inr (seen, uids, ws')" and "core_wf roles"
  shows "role_refs_inv roles rs (seen, uids, ws')"
  using assms(1)
  by (rule foldR_invariant_prefix) (auto simp: role_refs_inv_def [of _ "[]"] intro: role_ref_step_inv [OF _ assms(2)])

definition approvers :: "compiled_roles_core \<Rightarrow> mgmt_mpa_enabled \<Rightarrow> u32 set" where
  "approvers roles m = {u. \<exists>r \<in> set (mme_approver_roles m). holds_role roles u r}"

definition mpa_satisfiable :: "compiled_roles_core \<Rightarrow> mgmt_mpa \<Rightarrow> bool" where
  "mpa_satisfiable roles mpa \<longleftrightarrow> (case mpa of MpaDisabled \<Rightarrow> True | MpaEnabled m \<Rightarrow>
     1 \<le> mme_threshold m \<and> mme_threshold m \<le> 32 \<and>
     1 \<le> mme_timeout_minutes m \<and> mme_timeout_minutes m \<le> 1440 \<and>
     mme_approver_roles m \<noteq> [] \<and> distinct (mme_approver_roles m) \<and>
     (\<forall>r \<in> set (mme_approver_roles m). \<exists>u. holds_role roles u r) \<and>
     finite (approvers roles m) \<and> unat (mme_threshold m) \<le> card (approvers roles m))"

lemma hs_of_list_Nil_iff [simp]: "hs_of_list xs = [] \<longleftrightarrow> xs = []"
  by (metis set_empty set_hs_of_list)

lemma mgmt_compile_mpa_ok:
  assumes "mgmt_compile_mpa roles ctx mpa ws = Inr (m, ws')" and wf: "core_wf roles"
  shows "mpa_satisfiable roles m \<and> (m = MpaDisabled \<longleftrightarrow> \<not> rmm_enabled mpa)"
proof (cases "rmm_enabled mpa")
  case False
  with assms show ?thesis by (auto simp: mgmt_compile_mpa_def mpa_satisfiable_def)
next
  case True
  with assms(1) obtain t rs to seen uids ws1 where
    b: "1 \<le> t" "t \<le> 32" "1 \<le> to" "to \<le> 1440" "rs \<noteq> []"
    and f: "foldR (role_ref_step roles ''approver_roles'' (ctx @ ''.mpa.approver_roles'')) rs ([], [], ws)
      = Inr (seen, uids, ws1)"
    and n: "\<not> unat t > length uids"
    and m: "m = MpaEnabled \<lparr>mme_threshold = t, mme_approver_roles = hs_of_list rs, mme_timeout_minutes = to\<rparr>"
    by (auto simp: mgmt_compile_mpa_def bindR_eq_Inr ok_or_eq_Inr split: if_split_asm)
  from role_refs_ok [OF f wf] have
    u: "distinct uids" "set uids = {u. \<exists>r \<in> set rs. holds_role roles u r}"
      "\<forall>r \<in> set rs. \<exists>u. holds_role roles u r"
    by (auto simp: role_refs_inv_def)
  have "card {u. \<exists>r \<in> set rs. holds_role roles u r} = length uids"
    using u(1) distinct_card by (fastforce simp flip: u(2))
  moreover have "finite {u. \<exists>r \<in> set rs. holds_role roles u r}" by (simp flip: u(2))
  ultimately show ?thesis using b n u(3) True
    by (simp add: m mpa_satisfiable_def approvers_def)
qed

definition control_ok :: "compiled_roles_core \<Rightarrow> raw_mgmt_control \<Rightarrow> mgmt_control \<Rightarrow> bool" where
  "control_ok roles c m \<longleftrightarrow>
     mc_initiator_uids m \<noteq> [] \<and>
     set (mc_initiator_uids m) = {u. \<exists>r \<in> set (rmc_initiator_roles c). holds_role roles u r} \<and>
     mpa_satisfiable roles (mc_mpa m) \<and>
     (mc_mpa m = MpaDisabled \<longleftrightarrow> \<not> rmm_enabled (rmc_mpa c))"

lemma compile_control_ok:
  assumes "compile_control roles which c ws = Inr (m, ws')" and wf: "core_wf roles"
  shows "control_ok roles c m"
proof -
  from assms(1) obtain seen uids ws1 mpa where
    f: "foldR (role_ref_step roles ''initiator_roles''
        ((''management.controls.'' @ which) @ ''.initiator_roles'')) (rmc_initiator_roles c) ([], [], ws)
      = Inr (seen, uids, ws1)" and ne: "uids \<noteq> []"
    and mpa: "mgmt_compile_mpa roles (''management.controls.'' @ which) (rmc_mpa c) ws1 = Inr (mpa, ws')"
    and m: "m = \<lparr>mc_description = rmc_description c, mc_initiator_uids = uids, mc_mpa = mpa\<rparr>"
    unfolding compile_control_def Let_def by (auto simp: bindR_eq_Inr split: if_split_asm)
  from role_refs_ok [OF f wf] mgmt_compile_mpa_ok [OF mpa wf] ne show ?thesis
    by (auto simp: control_ok_def m role_refs_inv_def)
qed

lemma compile_control_opt_ok:
  assumes "compile_control_opt roles which c ws = Inr (m, ws')" and "core_wf roles"
  shows "rel_option (control_ok roles) c m"
  using assms by (auto simp: compile_control_opt_def bindR_eq_Inr split: option.splits dest: compile_control_ok)

text \<open>
  C34. A management file that compiles can be operated: for each of its controls somebody may
  initiate it, exactly the holders of an initiator role may, and when approval is enabled every
  approver role has a holder and the approvers are at least as many as the threshold.
\<close>

theorem management_satisfiable:
  assumes "compile_management raw roles = Inr (m, ws)" and "core_wf roles"
  shows "control_ok roles (rmg_start raw) (cm_start m) \<and> control_ok roles (rmg_stop raw) (cm_stop m) \<and>
    rel_option (control_ok roles) (rmg_policy_update raw) (cm_policy_update m) \<and>
    rel_option (control_ok roles) (rmg_flush raw) (cm_flush m)"
proof -
  from assms(1) obtain ws1 ws2 ws3 ws4 where
    "compile_control roles ''start'' (rmg_start raw) [] = Inr (cm_start m, ws1)"
    "compile_control roles ''stop'' (rmg_stop raw) ws1 = Inr (cm_stop m, ws2)"
    "compile_control_opt roles ''policy_update'' (rmg_policy_update raw) ws2 = Inr (cm_policy_update m, ws3)"
    "compile_control_opt roles ''flush'' (rmg_flush raw) ws3 = Inr (cm_flush m, ws4)"
    unfolding compile_management_def by (auto simp: bindR_eq_Inr)
  with assms(2) show ?thesis by (simp add: compile_control_ok compile_control_opt_ok)
qed

section \<open>A sample\<close>

definition sample_core :: compiled_roles_core where
  "sample_core = empty_roles_core\<lparr>crc_assignments := \<lparr>sri_uid_roles =
     [(1000, [''admin'']), (1001, [''admin'', ''audit''])]\<rparr>\<rparr>"

definition sample_raw_control :: raw_mgmt_control where
  "sample_raw_control = \<lparr>rmc_description = None, rmc_initiator_roles = [''audit''],
     rmc_mpa = \<lparr>rmm_enabled = True, rmm_threshold = Some 2, rmm_approver_roles = Some [''admin''],
       rmm_timeout_minutes = Some 10\<rparr>\<rparr>"

lemma sample_control_compiles:
  "\<exists>m ws'. compile_control sample_core which sample_raw_control ws = Inr (m, ws')"
  by (simp add: compile_control_def sample_raw_control_def role_ref_step_def mgmt_validate_role_name_def
      mgmt_name_char_def is_ascii_alphabetic_def is_ascii_alphanumeric_def is_digit_def byte_def
      resolve_role_uids_def lookup_uids_in_compiled_roles_def sample_core_def empty_roles_core_def
      hs_of_list_def hs_insert_def mgmt_compile_mpa_def Let_def)

lemma management_satisfiable_witness:
  "\<exists>m ws. compile_management
       \<lparr>rmg_start = sample_raw_control, rmg_stop = sample_raw_control, rmg_policy_update = None,
        rmg_flush = None\<rparr> sample_core = Inr (m, ws) \<and> mc_initiator_uids (cm_start m) \<noteq> []"
  (is "\<exists>m ws. compile_management ?raw _ = _ \<and> _")
proof -
  have "core_wf sample_core" by (simp add: core_wf_def sample_core_def hm_wf_def)
  moreover obtain m ws where c: "compile_management ?raw sample_core = Inr (m, ws)"
  proof -
    obtain s1 ws1 where 1: "compile_control sample_core ''start'' sample_raw_control [] = Inr (s1, ws1)"
      using sample_control_compiles by blast
    obtain s2 ws2 where "compile_control sample_core ''stop'' sample_raw_control ws1 = Inr (s2, ws2)"
      using sample_control_compiles by blast
    with 1 that show thesis by (auto simp: compile_management_def compile_control_opt_def)
  qed
  ultimately have "control_ok sample_core (rmg_start ?raw) (cm_start m)"
    using management_satisfiable by blast
  with c show ?thesis by (auto simp: control_ok_def)
qed

end
