(* ===== verification/Load.thy ===== *)
theory Load
  imports Policy_Facts Mgmt_Compile
begin

text \<open>
  \<open>teald/src/policy.rs\<close>, \<open>roles.rs\<close> and the preparation half of \<open>management.rs\<close>: from files to
  compiled configuration. Reading a file, validating it against the JSON schema and
  deserialising it are done by \<open>serde_json\<close> and \<open>jsonschema\<close>; the record \<open>loader\<close> stands for
  them. Errors keep the chain of contexts that \<open>anyhow\<close> builds.
\<close>

datatype json =
    JNull
  | JBool bool
  | JNumber string
  | JString string
  | JArray "json list"
  | JObject "(string \<times> json) list"

datatype load_error =
    LeMsg string
  | LeCompile compile_error
  | LeContext string load_error

record loader =
  ld_json_file :: "path \<Rightarrow> load_error + json"
  ld_validate_policy :: "json \<Rightarrow> load_error + unit"
  ld_validate_roles :: "json \<Rightarrow> load_error + unit"
  ld_validate_management :: "json \<Rightarrow> load_error + unit"
  ld_policy_from_value :: "json \<Rightarrow> load_error + raw_policy"
  ld_roles_from_value :: "json \<Rightarrow> load_error + raw_roles"
  ld_management_from_value :: "json \<Rightarrow> load_error + raw_management"

definition with_context :: "string \<Rightarrow> load_error + 'a \<Rightarrow> load_error + 'a" where
  "with_context c m = map_err (LeContext c) m"

section \<open>Upper-casing the operations\<close>

fun uppercase_string :: "json \<Rightarrow> json" where
  "uppercase_string (JString s) = JString (to_uppercase s)"
| "uppercase_string j = j"

fun uppercase_items :: "json \<Rightarrow> json" where
  "uppercase_items (JArray js) = JArray (map uppercase_string js)"
| "uppercase_items j = j"

fun uppercase_ops_in_value :: "json \<Rightarrow> json" where
  "uppercase_ops_in_value (JObject entries) =
     JObject (map (\<lambda>(key, val). (key, if key = ''ops'' then uppercase_items val
                                        else uppercase_ops_in_value val)) entries)"
| "uppercase_ops_in_value (JArray arr) = JArray (map uppercase_ops_in_value arr)"
| "uppercase_ops_in_value j = j"

section \<open>Policies\<close>

definition path_join :: "path \<Rightarrow> string \<Rightarrow> path" where
  "path_join dir name =
     (if is_absolute name then name
      else if dir = [] then name
      else if last dir = CHR ''/'' then dir @ name
      else dir @ ''/'' @ name)"

definition path_file_name :: "path \<Rightarrow> string option" where
  "path_file_name p =
     (case rev (components p) of
        Normal s # _ \<Rightarrow> Some s
      | _ \<Rightarrow> None)"

definition load_policy ::
  "platform \<Rightarrow> loader \<Rightarrow> path \<Rightarrow> compiled_roles \<Rightarrow> load_error + (compiled_policy \<times> warnings)" where
  "load_policy pf ld p roles =
     bindR (with_context (''load policy json: '' @ p) (ld_json_file ld p)) (\<lambda>v0.
     let v = uppercase_ops_in_value v0
     in bindR (with_context (''policy schema validation failed: '' @ p) (ld_validate_policy ld v)) (\<lambda>_.
        bindR (with_context (''deserialize policy raw struct failed: '' @ p)
                 (ld_policy_from_value ld v)) (\<lambda>raw.
        bindR (with_context (''compile policy failed: '' @ p)
                 (map_err LeCompile (compile_policy_v14 pf raw roles))) (\<lambda>(compiled, ws).
          let file_name = (case path_file_name p of Some f \<Rightarrow> f | None \<Rightarrow> p)
          in Inr (compiled\<lparr>cp_rules :=
                    map (\<lambda>r. r\<lparr>cr_source_file := Some file_name\<rparr>) (cp_rules compiled)\<rparr>, ws)))))"

definition valid_policy_name :: "string \<Rightarrow> bool" where
  "valid_policy_name name \<longleftrightarrow>
     \<not> (CHR ''/'' \<in> set name \<or> name = ''.'' \<or> name = ''..'' \<or> name = [])"

definition bundle_step ::
  "platform \<Rightarrow> loader \<Rightarrow> compiled_roles \<Rightarrow> path \<Rightarrow> string \<Rightarrow>
   compiled_policy option \<times> warnings \<Rightarrow> load_error + (compiled_policy option \<times> warnings)" where
  "bundle_step pf ld roles policies_dir name st =
     (case st of (merged, ws) \<Rightarrow>
        if \<not> valid_policy_name name then
          Inl (LeMsg (''invalid policy name in bundle: '' @ name))
        else
          (let path = path_join policies_dir name
           in bindR (with_context (''load_policy failed: '' @ path) (load_policy pf ld path roles))
                (\<lambda>(cp, w).
                   let ws1 = extend_warnings ws w
                   in case merged of
                        None \<Rightarrow> Inr (Some cp, ws1)
                      | Some acc \<Rightarrow>
                          bindR (with_context (''merge policies failed at: '' @ path)
                                   (map_err LeMsg (policy_merge acc cp ws1)))
                            (\<lambda>(m, ws2). Inr (Some m, ws2)))))"

definition load_policies_listed_in_bundle ::
  "platform \<Rightarrow> loader \<Rightarrow> raw_bundle \<Rightarrow> compiled_roles \<Rightarrow> path \<Rightarrow>
   load_error + (compiled_policy \<times> warnings)" where
  "load_policies_listed_in_bundle pf ld bundle roles policies_dir =
     bindR (foldR (bundle_step pf ld roles policies_dir) (rb_policy_files bundle) (None, []))
       (\<lambda>(merged, ws).
          bindR (ok_or merged (LeMsg ''bundle.policies is empty'')) (\<lambda>policy. Inr (policy, ws)))"

section \<open>Roles and management\<close>

definition load_roles ::
  "platform \<Rightarrow> loader \<Rightarrow> path \<Rightarrow> load_error + (compiled_roles \<times> warnings)" where
  "load_roles pf ld p =
     bindR (with_context (''load roles json: '' @ p) (ld_json_file ld p)) (\<lambda>v.
     bindR (with_context (''roles schema validation failed: '' @ p) (ld_validate_roles ld v)) (\<lambda>_.
     bindR (with_context (''deserialize roles raw struct failed: '' @ p)
              (ld_roles_from_value ld v)) (\<lambda>raw.
     bindR (with_context (''compile roles failed: '' @ p)
              (map_err LeCompile (compile_roles_v1 pf raw))) (\<lambda>(core, ws).
       Inr (\<lparr>cro_roles_file = p, cro_deny_if_role_unknown = True,
             cro_known_roles = rc_known_roles (crc_roles core), cro_core = core\<rparr>, ws)))))"

definition prepare_management ::
  "loader \<Rightarrow> path \<Rightarrow> compiled_roles_core \<Rightarrow> load_error + (compiled_management \<times> warnings)" where
  "prepare_management ld p roles =
     bindR (with_context (''load management json: '' @ p) (ld_json_file ld p)) (\<lambda>v.
     bindR (with_context (''management schema validation failed: '' @ p)
              (ld_validate_management ld v)) (\<lambda>_.
     bindR (with_context (''deserialize management raw struct failed: '' @ p)
              (ld_management_from_value ld v)) (\<lambda>raw.
       with_context (''compile management failed: '' @ p)
         (map_err LeCompile (compile_management raw roles)))))"

section \<open>Facts\<close>

lemma with_context_Inr [result_simps]: "with_context c m = Inr x \<longleftrightarrow> m = Inr x"
  by (simp add: with_context_def map_err_eq_Inr)

text \<open>Naming the source file changes nothing that evaluation looks at.\<close>

lemma set_source_simps [simp]:
  "cr_id (r\<lparr>cr_source_file := f\<rparr>) = cr_id r" "rule_wf (r\<lparr>cr_source_file := f\<rparr>) = rule_wf r"
  "rule_object_covers pf (r\<lparr>cr_source_file := f\<rparr>) = rule_object_covers pf r"
  "rule_program_covers pf (r\<lparr>cr_source_file := f\<rparr>) = rule_program_covers pf r"
  by (auto simp: rule_wf_def rule_object_covers_def [abs_def] rule_program_covers_def [abs_def])

lemma load_policy_ok:
  assumes "load_policy pf ld p roles = Inr (cp, ws)"
  shows "policy_wf cp \<and> scope_complete cp \<and> cp_version cp = V1_4"
proof -
  from assms obtain raw c f where
    c: "compile_policy_v14 pf raw roles = Inr (c, ws)"
    and cp: "cp = c\<lparr>cp_rules := map (\<lambda>r. r\<lparr>cr_source_file := f\<rparr>) (cp_rules c)\<rparr>"
    by (auto simp: load_policy_def bindR_eq_Inr with_context_Inr map_err_eq_Inr Let_def)
  from compiled_policy_ok(1,2,4) [OF c] scope_complete_from_rules [OF compiled_policy_ok(2) [OF c]]
  show ?thesis by (auto simp: cp policy_wf_def scope_complete_def o_def)
qed

text \<open>The merged policy so far, against the files read so far.\<close>

definition bundle_inv ::
  "platform \<Rightarrow> loader \<Rightarrow> compiled_roles \<Rightarrow> path \<Rightarrow> string list \<Rightarrow>
   compiled_policy option \<times> warnings \<Rightarrow> bool" where
  "bundle_inv pf ld roles dir files st \<longleftrightarrow>
     (\<forall>n \<in> set files. valid_policy_name n) \<and>
     (\<exists>parts. list_all2 (\<lambda>n c. \<exists>ws. load_policy pf ld (path_join dir n) roles = Inr (c, ws)) files parts \<and>
        (case fst st of
           None \<Rightarrow> files = []
         | Some p \<Rightarrow> policy_wf p \<and> scope_complete p \<and> cp_rules p = concat (map cp_rules parts)))"

lemma bundle_step_inv:
  assumes step: "bundle_step pf ld roles dir name st = Inr st'"
    and inv: "bundle_inv pf ld roles dir files st"
  shows "bundle_inv pf ld roles dir (files @ [name]) st'"
proof -
  obtain merged ws where st: "st = (merged, ws)" by (cases st)
  from step st have name: "valid_policy_name name" by (auto simp: bundle_step_def split: if_splits)
  with step st obtain cp w where cp: "load_policy pf ld (path_join dir name) roles = Inr (cp, w)"
    by (auto simp: bundle_step_def bindR_eq_Inr with_context_Inr Let_def)
  note ok = load_policy_ok [OF cp]
  from inv st obtain parts where
    names: "\<forall>n \<in> set files. valid_policy_name n"
    and parts: "list_all2 (\<lambda>n c. \<exists>ws. load_policy pf ld (path_join dir n) roles = Inr (c, ws)) files parts"
    and m: "case merged of None \<Rightarrow> files = []
      | Some p \<Rightarrow> policy_wf p \<and> scope_complete p \<and> cp_rules p = concat (map cp_rules parts)"
    by (auto simp: bundle_inv_def)
  have parts': "list_all2 (\<lambda>n c. \<exists>ws. load_policy pf ld (path_join dir n) roles = Inr (c, ws))
      (files @ [name]) (parts @ [cp])"
    using parts cp by (intro list_all2_appendI) auto
  have "\<exists>p. fst st' = Some p \<and> policy_wf p \<and> scope_complete p \<and>
      cp_rules p = concat (map cp_rules (parts @ [cp]))"
  proof (cases merged)
    case None
    with m have "parts = []" using parts by simp
    with None step st name cp ok show ?thesis
      by (auto simp: bundle_step_def with_context_def Let_def)
  next
    case (Some acc)
    with step st name cp obtain p' ws2 where
      mg: "policy_merge acc cp (extend_warnings ws w) = Inr (p', ws2)" and st': "fst st' = Some p'"
      by (auto simp: bundle_step_def with_context_Inr bindR_eq_Inr map_err_eq_Inr Let_def)
    from merge_ok [OF mg] m Some ok show ?thesis by (simp add: st')
  qed
  with parts' names name show ?thesis by (auto simp: bundle_inv_def)
qed

text \<open>
  C10. Loading a bundle: if it succeeds, the bundle names at least one policy file, no name can
  leave the policy directory, the rules in force are those of the listed files one after the
  other in the order of the bundle, their ids are unique across files, and the managed scope
  covers exactly what they cover.
\<close>

theorem loaded_bundle_policy:
  assumes "load_policies_listed_in_bundle pf ld bundle roles dir = Inr (p, ws)"
  shows "rb_policy_files bundle \<noteq> [] \<and> (\<forall>n \<in> set (rb_policy_files bundle). valid_policy_name n) \<and>
    policy_wf p \<and> scope_complete p \<and>
    (\<exists>parts. list_all2 (\<lambda>n c. \<exists>ws. load_policy pf ld (path_join dir n) roles = Inr (c, ws))
        (rb_policy_files bundle) parts \<and> cp_rules p = concat (map cp_rules parts))"
proof -
  from assms have run: "foldR (bundle_step pf ld roles dir) (rb_policy_files bundle) (None, []) = Inr (Some p, ws)"
    by (auto simp: load_policies_listed_in_bundle_def bindR_eq_Inr ok_or_eq_Inr)
  then have "bundle_inv pf ld roles dir (rb_policy_files bundle) (Some p, ws)"
    by (rule foldR_invariant_prefix) (auto simp: bundle_inv_def [of _ _ _ _ "[]"] intro: bundle_step_inv)
  moreover have "rb_policy_files bundle \<noteq> []" using run by auto
  ultimately show ?thesis by (auto simp: bundle_inv_def)
qed

section \<open>A sample bundle\<close>

definition sample_loader :: loader where
  "sample_loader =
     \<lparr>ld_json_file = (\<lambda>p. Inr JNull), ld_validate_policy = (\<lambda>_. Inr ()),
      ld_validate_roles = (\<lambda>_. Inr ()), ld_validate_management = (\<lambda>_. Inr ()),
      ld_policy_from_value = (\<lambda>_. Inr (sample_raw_policy [sample_raw_rule ''R1'' ''/etc/shadow''])),
      ld_roles_from_value = (\<lambda>_. Inr sample_raw_roles),
      ld_management_from_value = (\<lambda>_. Inl (LeMsg ''no management''))\<rparr>"

lemma loaded_bundle_policy_witness:
  "\<exists>p ws. load_policies_listed_in_bundle sample_platform sample_loader
     \<lparr>rb_schema_version = ''1.0'', rb_name = None, rb_policy_files = [''a.json'']\<rparr>
     sample_known_roles ''/etc/teal.d'' = Inr (p, ws) \<and> policy_wf p"
proof -
  obtain c ws where c: "compile_policy_v14 sample_platform
      (sample_raw_policy [sample_raw_rule ''R1'' ''/etc/shadow'']) sample_known_roles = Inr (c, ws)"
    using sample_policy_compiles by blast
  then have "\<exists>p ws. load_policies_listed_in_bundle sample_platform sample_loader
     \<lparr>rb_schema_version = ''1.0'', rb_name = None, rb_policy_files = [''a.json'']\<rparr>
     sample_known_roles ''/etc/teal.d'' = Inr (p, ws)"
    by (simp add: load_policies_listed_in_bundle_def bundle_step_def valid_policy_name_def load_policy_def
        sample_loader_def with_context_def Let_def)
  with loaded_bundle_policy show ?thesis by blast
qed

end
