(* ===== verification/Daemon_Types.thy ===== *)
theory Daemon_Types
  imports Load
begin

text \<open>
  \<open>teald/src/types.rs\<close> and the message types of \<open>netlink.rs\<close>: requests from the kernel,
  tickets, pending entries, drafts and approval states. The record \<open>world\<close> collects what the
  daemon takes from the operating system and from foreign crates at one moment: the clock, fresh
  UUIDs, file metadata, program hashes, hexadecimal decoding and BLS signatures.
\<close>

section \<open>The world\<close>

record file_meta =
  fm_dev :: u64
  fm_ino :: u64
  fm_is_dir :: bool

record world =
  wd_eval :: eval_env
  wd_uuid :: string
  wd_now :: u64
  wd_metadata :: "path \<Rightarrow> file_meta option"
  wd_program_hash :: "path \<Rightarrow> string option"
  wd_hex_decode :: "string \<Rightarrow> string + string"
  wd_signature_ok :: "string \<Rightarrow> string + unit"
  wd_aggregate :: "string list \<Rightarrow> string + string"

section \<open>Modes and identities\<close>

datatype daemon_mode = Drain | Audit | Enforce

definition daemon_mode_from :: "u8 \<Rightarrow> daemon_mode" where
  "daemon_mode_from val =
     (if val = 0 then Drain else if val = 1 then Audit else if val = 2 then Enforce else Audit)"

record entity_id =
  ei_dev :: u64
  ei_ino :: u64

definition entity :: "u64 \<Rightarrow> u64 \<Rightarrow> entity_id" where
  "entity dev ino = \<lparr>ei_dev = dev, ei_ino = ino\<rparr>"

definition entity_display :: "entity_id \<Rightarrow> string" where
  "entity_display e = show_u64 (ei_dev e) @ '':'' @ show_u64 (ei_ino e)"

definition to_kernel_dev :: "u64 \<Rightarrow> u32" where
  "to_kernel_dev u_dev =
     (let major = ucast (drop_bit 8 u_dev AND 0xfff) :: u32;
          minor = ucast ((u_dev AND 0xff) OR (drop_bit 12 u_dev AND 0xfff00)) :: u32
      in push_bit 20 major OR minor)"

definition str_to_mask :: "string \<Rightarrow> u32" where
  "str_to_mask action =
     (let t = rust_trim action
      in if t = ''READ'' then 1 else if t = ''WRITE'' then 2 else if t = ''EXECUTE'' then 4
         else if t = ''DELETE'' then 8 else if t = ''UNLINK'' then 16 else if t = ''RENAME'' then 32
         else if t = ''CHMOD'' then 64 else if t = ''CHOWN'' then 128 else if t = ''CONNECT'' then 256
         else if t = ''UNKNOWN'' then 512 else 512)"

section \<open>Requests\<close>

record teal_req =
  tr_trans_id :: u64
  tr_pid :: u32
  tr_ppid :: u32
  tr_session_id :: u32
  tr_uid :: u32
  tr_gid :: u32
  tr_prog_dev :: u32
  tr_prog_ino :: u64
  tr_program :: string
  tr_action :: string
  tr_target_dev :: u32
  tr_target_ino :: u64
  tr_target :: string
  tr_new_target_dev :: u32
  tr_new_target_ino :: u64
  tr_new_target :: string
  tr_script_dev :: u32
  tr_script_ino :: u64
  tr_script :: string
  tr_applet :: string
  tr_lsm_label :: string
  tr_args_head :: string
  tr_flags :: u32
  tr_session_tty :: string

record request =
  rq_id :: u64
  rq_pid :: u32
  rq_ppid :: u32
  rq_session_id :: u32
  rq_uid :: u32
  rq_gid :: u32
  rq_prog_dev :: u64
  rq_prog_ino :: u64
  rq_prog_sha256 :: "string option"
  rq_raw_program :: string
  rq_raw_action :: string
  rq_target_dev :: u64
  rq_target_ino :: u64
  rq_raw_target :: string
  rq_new_target_dev :: u64
  rq_new_target_ino :: u64
  rq_raw_new_target :: "string option"
  rq_script_dev :: u64
  rq_script_ino :: u64
  rq_raw_script :: "string option"
  rq_raw_applet :: "string option"
  rq_lsm_label_hex :: string
  rq_args_head :: "string option"
  rq_flag :: u32
  rq_is_audit :: bool
  rq_session_tty :: string

definition request_from_teal_req :: "teal_req \<Rightarrow> bool \<Rightarrow> request" where
  "request_from_teal_req n is_audit =
     \<lparr>rq_id = tr_trans_id n, rq_pid = tr_pid n, rq_ppid = tr_ppid n,
      rq_session_id = tr_session_id n, rq_uid = tr_uid n, rq_gid = tr_gid n,
      rq_prog_dev = ucast (tr_prog_dev n), rq_prog_ino = tr_prog_ino n, rq_prog_sha256 = None,
      rq_raw_program = tr_program n, rq_raw_action = tr_action n,
      rq_target_dev = ucast (tr_target_dev n), rq_target_ino = tr_target_ino n,
      rq_raw_target = tr_target n, rq_new_target_dev = ucast (tr_new_target_dev n),
      rq_new_target_ino = tr_new_target_ino n,
      rq_raw_new_target = normalize_opt_field (tr_new_target n),
      rq_script_dev = ucast (tr_script_dev n), rq_script_ino = tr_script_ino n,
      rq_raw_script = normalize_opt_field (tr_script n),
      rq_raw_applet = normalize_opt_field (tr_applet n), rq_lsm_label_hex = tr_lsm_label n,
      rq_args_head = normalize_opt_field (tr_args_head n), rq_flag = tr_flags n,
      rq_is_audit = is_audit, rq_session_tty = tr_session_tty n\<rparr>"

definition from_audit_teal_req :: "teal_req \<Rightarrow> request" where
  "from_audit_teal_req n = request_from_teal_req n True"

definition from_enforce_teal_req :: "teal_req \<Rightarrow> request" where
  "from_enforce_teal_req n = request_from_teal_req n False"

section \<open>Approval\<close>

record approver_action =
  aa_account :: string
  aa_roles :: "string hset"
  aa_approved_at :: u64
  aa_method :: string
  aa_comment :: "string option"
  aa_signature :: string
  aa_epoch :: u32

record mpa_state =
  mp_threshold :: u32
  mp_required_roles :: "string hset"
  mp_approvals :: "(u32, approver_action) hmap"
  mp_aggregated :: "string option"

definition default_mpa_state :: mpa_state where
  "default_mpa_state =
     \<lparr>mp_threshold = 0, mp_required_roles = [], mp_approvals = [], mp_aggregated = None\<rparr>"

record signed_cmd_args =
  sa_id :: string
  sa_uid :: u32
  sa_account :: string
  sa_sig_hex :: string
  sa_audit_id :: "string option"

section \<open>Drafts, tickets and entries\<close>

record pre_approval_draft =
  dr_draft_id :: string
  dr_epoch :: u32
  dr_audit_id :: string
  dr_rule_id :: string
  dr_uid :: u32
  dr_origin_program_id :: entity_id
  dr_origin_script_id :: "entity_id option"
  dr_origin_applet :: "string option"
  dr_object_id :: entity_id
  dr_new_object_id :: "entity_id option"
  dr_op_mask :: u32
  dr_mpa_state :: mpa_state
  dr_ttl_sec :: u64
  dr_max_uses :: u32

record approved_ticket =
  at_ticket_id :: string
  at_epoch :: u32
  at_rule_id :: string
  at_origin_program :: string
  at_origin_script :: "string option"
  at_object :: string
  at_new_object :: "string option"
  at_uid :: u32
  at_origin_program_id :: entity_id
  at_origin_program_sha256 :: "string option"
  at_origin_script_id :: "entity_id option"
  at_origin_applet :: "string option"
  at_object_id :: entity_id
  at_new_object_id :: "entity_id option"
  at_op_mask :: u32
  at_ttl_sec :: u64
  at_max_uses :: u32

record subject_context =
  sc_pid :: u32
  sc_ppid :: u32
  sc_uid :: u32
  sc_gid :: u32
  sc_session_id :: u32
  sc_prog_dev :: u64
  sc_prog_ino :: u64
  sc_program_path :: string
  sc_script_dev :: u64
  sc_script_ino :: u64
  sc_script_path :: "string option"
  sc_applet_name :: "string option"
  sc_program_hash :: "string option"
  sc_lsm_label :: string
  sc_client_ip :: "string option"
  sc_auth_method :: "string option"
  sc_session_tty :: string
  sc_cmd_args :: "string option"

record object_context =
  oc_path :: string
  oc_inode :: u64
  oc_device_id :: u64
  oc_new_path :: "string option"
  oc_new_inode :: "u64 option"
  oc_new_device_id :: "u64 option"

record pending_entry =
  pe_audit_id :: string
  pe_transport_id :: u64
  pe_timestamp :: u64
  pe_subject :: subject_context
  pe_object :: object_context
  pe_op :: u32
  pe_rule_id :: "string option"
  pe_reason :: string
  pe_policy_epoch :: u32
  pe_ttl_seconds :: u64
  pe_max_uses :: u32
  pe_mpa_state :: mpa_state

record ticket_payload =
  tk_uid :: u32
  tk_op :: u32
  tk_prog_dev :: u64
  tk_prog_ino :: u64
  tk_script_dev :: u64
  tk_script_ino :: u64
  tk_applet_hash :: u64
  tk_target_dev :: u64
  tk_target_ino :: u64
  tk_new_target_dev :: u64
  tk_new_target_ino :: u64
  tk_expires_in_sec :: u64
  tk_flags :: u32
  tk_uses_left :: u32
  tk_ticket_id :: string
  tk_epoch :: u32
  tk_audit_flags :: u32

datatype policy_decision =
    PdAllow | PdDeny | PdNeedApproval | PdAuditOnly | PdNotManaged | PdNoRuleMatched
  | PdApproved approved_ticket

record policy_result =
  pr_decision :: policy_decision
  pr_rule_id :: "string option"
  pr_ticket :: "ticket_payload option"
  pr_current_epoch :: u32

section \<open>Management controls\<close>

datatype mgmt_ctl_kind = CtlStart | CtlStop | CtlPolicyUpdate | CtlFlush

fun ctl_kind_as_str :: "mgmt_ctl_kind \<Rightarrow> string" where
  "ctl_kind_as_str CtlStart = ''START''"
| "ctl_kind_as_str CtlStop = ''STOP''"
| "ctl_kind_as_str CtlPolicyUpdate = ''POLICY_UPDATE''"
| "ctl_kind_as_str CtlFlush = ''FLUSH''"

record mgmt_pending_ctl =
  pc_kind :: mgmt_ctl_kind
  pc_initiator_uid :: u32
  pc_initiator_user :: string
  pc_audit_id :: string
  pc_target_hash :: string
  pc_epoch :: u32
  pc_mpa_state :: mpa_state
  pc_timeout_minutes :: u32

end
