(* ===== verification/Daemon_State.thy ===== *)
theory Daemon_State
  imports Daemon_Types
begin

text \<open>
  The state of the daemon and the primitive operations on it: \<open>state.rs\<close> and the shared parts of
  \<open>types.rs\<close>, \<open>bundle.rs\<close> (the policy snapshot and its epoch), \<open>management.rs\<close>, \<open>common.rs\<close> and the
  sending half of \<open>netlink.rs\<close>. One record holds every global of the process; an operation that
  takes a lock, or one atomic access, is one definition. Channels are lists in sending order.
\<close>

section \<open>State\<close>

record policy_snapshot =
  ps_epoch :: u32
  ps_bundle :: compiled_bundle

datatype netlink_send =
    NsApprove u64 | NsDeny u64 | NsTicketAdd ticket_payload | NsModeSwitch u32 | NsSyncEpoch u32

datatype internal_event =
    IeResolved teal_req request policy_decision "string option" "string option" u32
  | IeMpaApproved pre_approval_draft approved_ticket
  | IeEntryApproved pending_entry bool string
  | IeCtlApproved mgmt_pending_ctl
  | IeDraftDenied pre_approval_draft approved_ticket u32
  | IeEntryDenied pending_entry u32
  | IeCtlDenied mgmt_pending_ctl u32

record daemon =
  d_snapshot :: policy_snapshot
  d_management :: compiled_management
  d_ticket_seq :: u64
  d_active :: "(string, approved_ticket) hmap"
  d_mode :: daemon_mode
  d_drafts :: "(string, pre_approval_draft) hmap"
  d_approved :: "(string, approved_ticket) hmap"
  d_pending :: "(u64, pending_entry) hmap"
  d_registered_keys :: "(u32, string) hmap"
  d_pending_ctl :: "mgmt_pending_ctl option"
  d_tty_sessions :: "(string, registered_session) hmap"
  d_is_flushed :: bool
  d_transition :: bool
  d_channel_open :: bool
  d_queue :: "netlink_send list"
  d_events :: "internal_event list"

abbreviation d_epoch :: "daemon \<Rightarrow> u32" where
  "d_epoch d \<equiv> ps_epoch (d_snapshot d)"

abbreviation d_bundle :: "daemon \<Rightarrow> compiled_bundle" where
  "d_bundle d \<equiv> ps_bundle (d_snapshot d)"

section \<open>Ticket numbers\<close>

definition next_audit_ticket_id :: "daemon \<Rightarrow> string \<times> daemon" where
  "next_audit_ticket_id d =
     (''T-'' @ pad_nat 9 (unat (d_ticket_seq d)), d\<lparr>d_ticket_seq := d_ticket_seq d + 1\<rparr>)"

section \<open>The policy snapshot\<close>

definition init_bundle_at_epoch ::
  "compiled_bundle \<Rightarrow> u32 \<Rightarrow> policy_snapshot option \<Rightarrow> string + policy_snapshot" where
  "init_bundle_at_epoch bundle epoch previous =
     (if epoch = 0 then Inl ''Epoch 0 is reserved for kernel-unsynchronized state''
      else if previous \<noteq> None then Inl ''PolicySnapshot already initialized''
      else Inr \<lparr>ps_epoch = epoch, ps_bundle = bundle\<rparr>)"

definition epoch_changed :: "u32 \<Rightarrow> u32 \<Rightarrow> string" where
  "epoch_changed expected current =
     ''Policy epoch changed: expected='' @ show_u32 expected @ '', current='' @ show_u32 current"

definition update_bundle :: "compiled_bundle \<Rightarrow> u32 \<Rightarrow> daemon \<Rightarrow> string + (u32 \<times> daemon)" where
  "update_bundle new_bundle expected_epoch d =
     (if d_epoch d \<noteq> expected_epoch then Inl (epoch_changed expected_epoch (d_epoch d))
      else bindR (ok_or (checked_inc (d_epoch d)) ''Policy epoch overflow'') (\<lambda>new_epoch.
        Inr (new_epoch, d\<lparr>d_snapshot := \<lparr>ps_epoch = new_epoch, ps_bundle = new_bundle\<rparr>\<rparr>)))"

definition advance_epoch :: "u32 \<Rightarrow> daemon \<Rightarrow> string + (u32 \<times> daemon)" where
  "advance_epoch expected_epoch d =
     (if d_epoch d \<noteq> expected_epoch then Inl (epoch_changed expected_epoch (d_epoch d))
      else bindR (ok_or (checked_inc (d_epoch d)) ''Policy epoch overflow'') (\<lambda>new_epoch.
        Inr (new_epoch, d\<lparr>d_snapshot := \<lparr>ps_epoch = new_epoch, ps_bundle = d_bundle d\<rparr>\<rparr>)))"

definition commit_management :: "compiled_management \<Rightarrow> daemon \<Rightarrow> daemon" where
  "commit_management compiled d = d\<lparr>d_management := compiled\<rparr>"

definition find_rule :: "string option \<Rightarrow> daemon \<Rightarrow> string + (compiled_rule option \<times> u32)" where
  "find_rule rid d =
     (case rid of
        Some i \<Rightarrow>
          (case List.find (\<lambda>r. cr_id r = i) (cp_rules (cb_policy (d_bundle d))) of
             Some r \<Rightarrow> Inr (Some r, d_epoch d)
           | None \<Rightarrow> Inl (''Rule id='' @ i @ '' is not found''))
      | None \<Rightarrow> Inr (None, d_epoch d))"

definition is_mgmt_id :: "string \<Rightarrow> bool" where
  "is_mgmt_id i =
     (let u = to_uppercase i
      in u = ''START'' \<or> u = ''STOP'' \<or> u = ''POLICY_UPDATE'' \<or> u = ''FLUSH'')"

section \<open>Sessions and drafts\<close>

definition check_registered_session :: "string \<Rightarrow> u32 \<Rightarrow> daemon \<Rightarrow> registered_session option" where
  "check_registered_session tty uid d =
     (if tty = [] \<or> tty = ''-'' then None
      else case hm_get (d_tty_sessions d) (normalize_tty_name tty) of
          Some session \<Rightarrow> if uid = rs_uid session then Some session else None
        | None \<Rightarrow> None)"

definition has_draft_for_rule :: "string \<Rightarrow> daemon \<Rightarrow> bool" where
  "has_draft_for_rule rid d \<longleftrightarrow> (\<exists>dr \<in> set (hm_values (d_drafts d)). dr_rule_id dr = rid)"

section \<open>Sending to the kernel\<close>

definition enqueue :: "netlink_send \<Rightarrow> string \<Rightarrow> daemon \<Rightarrow> string option \<times> daemon" where
  "enqueue m err d =
     (if d_channel_open d then (None, d\<lparr>d_queue := d_queue d @ [m]\<rparr>) else (Some err, d))"

definition send_approve :: "u64 \<Rightarrow> daemon \<Rightarrow> string option \<times> daemon" where
  "send_approve tid d = enqueue (NsApprove tid) ''Failed to queue APPROVE'' d"

definition send_deny :: "u64 \<Rightarrow> daemon \<Rightarrow> string option \<times> daemon" where
  "send_deny tid d = enqueue (NsDeny tid) ''Failed to queue DENY'' d"

definition send_ticket_add :: "ticket_payload \<Rightarrow> daemon \<Rightarrow> string option \<times> daemon" where
  "send_ticket_add ticket d =
     (if d_transition d then (Some ''TICKET_ADD suspended during epoch transition'', d)
      else enqueue (NsTicketAdd ticket) ''Failed to queue TICKET_ADD'' d)"

definition send_mode_switch :: "u32 \<Rightarrow> daemon \<Rightarrow> string option \<times> daemon" where
  "send_mode_switch mode d = enqueue (NsModeSwitch mode) ''Failed to queue MODE_SWITCH'' d"

text \<open>The transition gate: a compare-and-exchange, released when the guard is dropped.\<close>

definition begin_ticket_transition :: "daemon \<Rightarrow> string + daemon" where
  "begin_ticket_transition d =
     (if d_transition d then Inl ''ticket transition already active''
      else Inr (d\<lparr>d_transition := True\<rparr>))"

definition drop_transition_guard :: "daemon \<Rightarrow> daemon" where
  "drop_transition_guard d = d\<lparr>d_transition := False\<rparr>"

end
