(* ===== verification/Mpa.thy ===== *)
theory Mpa
  imports Daemon_State
begin

text \<open>
  Multi-party approval (\<open>MpaState\<close> of \<open>types.rs\<close>). Approvals are keyed by uid, so nobody counts
  twice; an approver brings only the required roles he holds in the current policy. The locale
  \<open>quorum\<close> is the contract of such a vote.
\<close>

section \<open>The operations\<close>

definition is_fulfilled :: "mpa_state \<Rightarrow> bool" where
  "is_fulfilled m \<longleftrightarrow>
     (if length (mp_approvals m) < unat (mp_threshold m) then False
      else \<forall>role \<in> set (mp_required_roles m).
             \<exists>a \<in> set (hm_values (mp_approvals m)). role \<in> set (aa_roles a))"

definition uid_roles_of :: "daemon \<Rightarrow> u32 \<Rightarrow> string hset" where
  "uid_roles_of d uid =
     (case hm_get (sri_uid_roles (crc_assignments (cb_roles (d_bundle d)))) uid of
        Some rs \<Rightarrow> rs | None \<Rightarrow> [])"

definition insert_approver ::
  "world \<Rightarrow> daemon \<Rightarrow> signed_cmd_args \<Rightarrow> u32 \<Rightarrow> mpa_state \<Rightarrow> string + mpa_state" where
  "insert_approver w d args expected_epoch m =
     (if d_epoch d \<noteq> expected_epoch then Inl (epoch_changed expected_epoch (d_epoch d))
      else
        (let roles = hs_of_list (filter (\<lambda>r. r \<in> set (mp_required_roles m)) (uid_roles_of d (sa_uid args)))
         in if roles = [] then Inl ''User does not have an authorized approver role''
            else
              bindR (map_err (\<lambda>e. ''Invalid signature encoding: '' @ e) (wd_hex_decode w (sa_sig_hex args)))
                (\<lambda>signature.
                   Inr (m\<lparr>mp_approvals := hm_insert (sa_uid args)
                     \<lparr>aa_account = sa_account args, aa_roles = roles, aa_approved_at = wd_now w,
                      aa_method = [], aa_comment = None, aa_signature = signature,
                      aa_epoch = d_epoch d\<rparr> (mp_approvals m)\<rparr>))))"

definition signature_step :: "world \<Rightarrow> approver_action \<Rightarrow> string list \<Rightarrow> string + string list" where
  "signature_step w a sigs =
     bindR (map_err (\<lambda>e. ''Invalid signature format (User: '' @ aa_account a @ ''): '' @ e)
              (wd_signature_ok w (aa_signature a)))
       (\<lambda>_. Inr (sigs @ [aa_signature a]))"

definition try_aggregate :: "world \<Rightarrow> mpa_state \<Rightarrow> string + mpa_state" where
  "try_aggregate w m =
     (if \<not> is_fulfilled m then
        Inl ''Approval requirements (threshold or required roles) are not met.''
      else
        bindR (foldR (signature_step w) (hm_values (mp_approvals m)) []) (\<lambda>sigs.
          if sigs = [] then Inl ''No signatures found.''
          else
            bindR (map_err (\<lambda>e. ''Failed to aggregate signatures: '' @ e) (wd_aggregate w sigs))
              (\<lambda>agg. Inr (m\<lparr>mp_aggregated := Some agg\<rparr>))))"

section \<open>Voting\<close>

definition voters :: "mpa_state \<Rightarrow> u32 set" where
  "voters m = {u. hm_get (mp_approvals m) u \<noteq> None}"

definition mpa_wf :: "mpa_state \<Rightarrow> bool" where
  "mpa_wf m \<longleftrightarrow> hm_wf (mp_approvals m)"

lemma length_approvals: "mpa_wf m \<Longrightarrow> length (mp_approvals m) = card (voters m)"
  by (simp add: mpa_wf_def voters_def length_hm)

lemma insert_approver_Inr:
  assumes "insert_approver w d args e m = Inr m'"
  shows "d_epoch d = e" "mp_threshold m' = mp_threshold m"
    "mp_required_roles m' = mp_required_roles m" "mp_aggregated m' = mp_aggregated m"
    "\<exists>a. hm_get (mp_approvals m') = (hm_get (mp_approvals m))(sa_uid args \<mapsto> a) \<and>
       set (aa_roles a) = set (mp_required_roles m) \<inter> set (uid_roles_of d (sa_uid args)) \<and>
       aa_roles a \<noteq> [] \<and> aa_epoch a = e"
    "mpa_wf m \<Longrightarrow> mpa_wf m'"
  using assms
  by (auto simp: insert_approver_def bindR_eq_Inr Let_def mpa_wf_def split: if_splits intro!: ext)

lemma insert_approver_voters:
  "insert_approver w d args e m = Inr m' \<Longrightarrow> voters m' = insert (sa_uid args) (voters m)"
  by (drule insert_approver_Inr(5)) (auto simp: voters_def)

text \<open>The contract of a vote with a threshold.\<close>

locale quorum =
  fixes ballots_of :: "'s \<Rightarrow> 'v set"
    and needed :: "'s \<Rightarrow> nat"
    and passed :: "'s \<Rightarrow> bool"
    and vote :: "'a \<Rightarrow> 's \<Rightarrow> 'e + 's"
    and voter :: "'a \<Rightarrow> 'v"
    and wf :: "'s \<Rightarrow> bool"
  assumes vote_adds: "vote a s = Inr s' \<Longrightarrow> ballots_of s' = insert (voter a) (ballots_of s)"
    and vote_keeps: "vote a s = Inr s' \<Longrightarrow> needed s' = needed s"
    and vote_wf: "vote a s = Inr s' \<Longrightarrow> wf s \<Longrightarrow> wf s'"
    and passed_needs: "wf s \<Longrightarrow> passed s \<Longrightarrow> needed s \<le> card (ballots_of s)"
begin

lemma votes_run:
  assumes "foldR vote as s = Inr t" and "wf s"
  shows "ballots_of t = voter ` set as \<union> ballots_of s" "needed t = needed s" "wf t"
proof -
  have "(\<lambda>ys r. ballots_of r = voter ` set ys \<union> ballots_of s \<and> needed r = needed s \<and> wf r) as t"
    using assms(1)
    by (rule foldR_invariant_prefix) (use assms(2) in \<open>auto simp: vote_adds vote_keeps intro: vote_wf\<close>)
  then show "ballots_of t = voter ` set as \<union> ballots_of s" "needed t = needed s" "wf t" by simp_all
qed

text \<open>A vote that passes from nothing has at least the needed number of different voters.\<close>

lemma quorum_reached:
  assumes "foldR vote as s = Inr t" and "wf s" and "ballots_of s = {}" and "passed t"
  shows "needed s \<le> card (voter ` set as)"
  using votes_run [OF assms(1,2)] passed_needs [OF _ assms(4)] assms(3) by simp

end

text \<open>One ballot: the daemon state it met, the signed arguments and the expected epoch.\<close>

record ballot =
  bl_daemon :: daemon
  bl_args :: signed_cmd_args
  bl_epoch :: u32

definition cast_ballot :: "world \<Rightarrow> ballot \<Rightarrow> mpa_state \<Rightarrow> string + mpa_state" where
  "cast_ballot w b m = insert_approver w (bl_daemon b) (bl_args b) (bl_epoch b) m"

interpretation mpaq: quorum voters "\<lambda>m. unat (mp_threshold m)" is_fulfilled "cast_ballot w"
    "\<lambda>b. sa_uid (bl_args b)" mpa_wf for w
  by unfold_locales
    (auto simp: cast_ballot_def insert_approver_voters insert_approver_Inr is_fulfilled_def
      length_approvals split: if_splits)

definition ballot_roles :: "ballot \<Rightarrow> string set" where
  "ballot_roles b = set (uid_roles_of (bl_daemon b) (sa_uid (bl_args b)))"

lemma ballots_roles:
  assumes "foldR (cast_ballot w) bs m = Inr m'" and "hm_get (mp_approvals m') u = Some a"
    and "mp_approvals m = []"
  shows "mp_required_roles m' = mp_required_roles m \<and>
    (\<exists>b \<in> set bs. sa_uid (bl_args b) = u \<and> set (aa_roles a) \<subseteq> ballot_roles b)"
proof -
  have "(\<lambda>ys r. mp_required_roles r = mp_required_roles m \<and>
      (\<forall>u a. hm_get (mp_approvals r) u = Some a \<longrightarrow>
         (\<exists>b \<in> set ys. sa_uid (bl_args b) = u \<and> set (aa_roles a) \<subseteq> ballot_roles b))) bs m'"
    using assms(1)
  proof (rule foldR_invariant_prefix)
    show "mp_required_roles m = mp_required_roles m \<and>
      (\<forall>u a. hm_get (mp_approvals m) u = Some a \<longrightarrow>
         (\<exists>b \<in> set []. sa_uid (bl_args b) = u \<and> set (aa_roles a) \<subseteq> ballot_roles b))"
      by (simp add: assms(3))
  next
    fix ys zs :: "ballot list" and x and r r' :: mpa_state
    assume IH: "mp_required_roles r = mp_required_roles m \<and>
      (\<forall>u a. hm_get (mp_approvals r) u = Some a \<longrightarrow>
         (\<exists>b \<in> set ys. sa_uid (bl_args b) = u \<and> set (aa_roles a) \<subseteq> ballot_roles b))"
      and step: "cast_ballot w x r = Inr r'"
    note i = insert_approver_Inr [OF step [unfolded cast_ballot_def]]
    from i(5) obtain a' where a': "hm_get (mp_approvals r') = (hm_get (mp_approvals r))(sa_uid (bl_args x) \<mapsto> a')"
      "set (aa_roles a') \<subseteq> ballot_roles x"
      by (auto simp: ballot_roles_def)
    with IH i(3) show "mp_required_roles r' = mp_required_roles m \<and>
      (\<forall>u a. hm_get (mp_approvals r') u = Some a \<longrightarrow>
         (\<exists>b \<in> set (ys @ [x]). sa_uid (bl_args b) = u \<and> set (aa_roles a) \<subseteq> ballot_roles b))"
      by (auto split: if_splits)
  qed
  with assms(2) show ?thesis by blast
qed

text \<open>
  C9. Approval takes as many different people as the threshold says: if a vote that starts with
  no approvals ends fulfilled, the ballots came from at least that many distinct uids, and every
  required role was held, under the policy in force when he voted, by one of the voters. Repeated
  ballots of one uid do not count twice.
\<close>

theorem approval_needs_distinct_people:
  assumes "foldR (cast_ballot w) bs m = Inr m'" and "mp_approvals m = []" and "is_fulfilled m'"
  shows "unat (mp_threshold m) \<le> card ((\<lambda>b. sa_uid (bl_args b)) ` set bs) \<and>
    (\<forall>role \<in> set (mp_required_roles m). \<exists>b \<in> set bs. role \<in> ballot_roles b)"
proof
  have wf: "mpa_wf m" using assms(2) by (simp add: mpa_wf_def)
  have "voters m = {}" using assms(2) by (simp add: voters_def)
  then show "unat (mp_threshold m) \<le> card ((\<lambda>b. sa_uid (bl_args b)) ` set bs)"
    using mpaq.quorum_reached [OF assms(1) wf _ assms(3)] by simp
  have wf': "hm_wf (mp_approvals m')" using mpaq.votes_run(3) [OF assms(1) wf] by (simp add: mpa_wf_def)
  show "\<forall>role \<in> set (mp_required_roles m). \<exists>b \<in> set bs. role \<in> ballot_roles b"
  proof
    fix role assume r: "role \<in> set (mp_required_roles m)"
    have "mp_required_roles m' = mp_required_roles m"
      using assms(1)
      by (rule foldR_invariant [where I = "\<lambda>q. mp_required_roles q = mp_required_roles m"])
        (auto simp: cast_ballot_def dest: insert_approver_Inr(3))
    with r assms(3) obtain a where "a \<in> set (hm_values (mp_approvals m'))" "role \<in> set (aa_roles a)"
      by (auto simp: is_fulfilled_def split: if_splits)
    with wf' obtain u where "hm_get (mp_approvals m') u = Some a" "role \<in> set (aa_roles a)"
      by (auto simp: hm_values_iff)
    with ballots_roles [OF assms(1) _ assms(2)] show "\<exists>b \<in> set bs. role \<in> ballot_roles b" by blast
  qed
qed

text \<open>
  A signature is attached only to a completed approval: aggregation succeeds only when the
  threshold and all required roles are met and at least one approval carries a valid signature,
  and it leaves the approvals as they are.
\<close>

theorem aggregate_only_when_fulfilled:
  assumes "try_aggregate w m = Inr m'"
  shows "is_fulfilled m \<and> mp_approvals m \<noteq> [] \<and> mp_approvals m' = mp_approvals m \<and>
    mp_aggregated m' \<noteq> None \<and>
    (\<forall>a \<in> set (hm_values (mp_approvals m)). wd_signature_ok w (aa_signature a) = Inr ())"
proof -
  from assms obtain sigs agg where
    f: "is_fulfilled m" "foldR (signature_step w) (hm_values (mp_approvals m)) [] = Inr sigs" "sigs \<noteq> []"
    and m': "m' = m\<lparr>mp_aggregated := Some agg\<rparr>"
    by (auto simp: try_aggregate_def bindR_eq_Inr split: if_splits)
  have "(\<lambda>ys sigs. sigs = map aa_signature ys \<and> (\<forall>a \<in> set ys. wd_signature_ok w (aa_signature a) = Inr ()))
      (hm_values (mp_approvals m)) sigs"
    using f(2) by (rule foldR_invariant_prefix) (auto simp: signature_step_def bindR_eq_Inr map_err_eq_Inr)
  with f m' show ?thesis by (auto simp: hm_values_def)
qed

section \<open>Who can complete an approval\<close>

lemma all_approvers_fulfil:
  assumes wf: "mpa_wf m"
    and all: "\<forall>u. u \<in> us \<longrightarrow> (\<exists>a. hm_get (mp_approvals m) u = Some a \<and>
        set (mp_required_roles m) \<inter> roles u \<subseteq> set (aa_roles a))"
    and enough: "unat (mp_threshold m) \<le> card us" "finite us"
    and held: "\<forall>r \<in> set (mp_required_roles m). \<exists>u \<in> us. r \<in> roles u"
  shows "is_fulfilled m"
proof -
  have "finite (voters m)" by (simp add: voters_def flip: set_hm_keys)
  moreover have "us \<subseteq> voters m" using all by (auto simp: voters_def)
  ultimately have "unat (mp_threshold m) \<le> length (mp_approvals m)"
    using enough(1) card_mono length_approvals [OF wf] by (metis order_trans)
  moreover have "\<exists>a \<in> set (hm_values (mp_approvals m)). r \<in> set (aa_roles a)"
    if r: "r \<in> set (mp_required_roles m)" for r
  proof -
    from held r obtain u where "u \<in> us" "r \<in> roles u" by blast
    with all r obtain a where "hm_get (mp_approvals m) u = Some a" "r \<in> set (aa_roles a)" by blast
    with wf show ?thesis unfolding mpa_wf_def using hm_values_iff by fast
  qed
  ultimately show ?thesis by (simp add: is_fulfilled_def)
qed

text \<open>
  A rule that needs approval but names no approvers can never be approved: its approval state
  has no required roles, and with none every approval is refused, whoever gives it.
\<close>

theorem no_approver_roles_no_approval:
  assumes "mp_required_roles m = []" and "insert_approver w d args e m = r"
  shows "\<exists>msg. r = Inl msg"
  using assms by (auto simp: insert_approver_def Let_def hs_of_list_def)

section \<open>A sample vote\<close>

definition sample_world :: world where
  "sample_world = \<lparr>wd_eval = sample_env, wd_uuid = ''u'', wd_now = 0, wd_metadata = (\<lambda>_. None),
     wd_program_hash = (\<lambda>_. None), wd_hex_decode = (\<lambda>s. Inr s), wd_signature_ok = (\<lambda>_. Inr ()),
     wd_aggregate = (\<lambda>_. Inr ''agg'')\<rparr>"

definition sample_mgmt_control :: mgmt_control where
  "sample_mgmt_control =
     \<lparr>mc_description = None, mc_initiator_uids = [0], mc_mpa = MpaDisabled\<rparr>"

definition sample_daemon :: daemon where
  "sample_daemon =
     \<lparr>d_snapshot = \<lparr>ps_epoch = 1, ps_bundle = sample_bundle\<lparr>cb_roles := sample_core\<rparr>\<rparr>,
      d_management = \<lparr>cm_start = sample_mgmt_control, cm_stop = sample_mgmt_control,
        cm_policy_update = None, cm_flush = None\<rparr>,
      d_ticket_seq = 1, d_active = [], d_mode = Enforce, d_drafts = [], d_approved = [],
      d_pending = [], d_registered_keys = [], d_pending_ctl = None, d_tty_sessions = [],
      d_is_flushed = False, d_transition = False, d_channel_open = True, d_queue = [],
      d_events = []\<rparr>"

definition sample_args :: "u32 \<Rightarrow> signed_cmd_args" where
  "sample_args u = \<lparr>sa_id = ''R1'', sa_uid = u, sa_account = ''someone'', sa_sig_hex = ''s'',
     sa_audit_id = None\<rparr>"

definition sample_mpa :: mpa_state where
  "sample_mpa = \<lparr>mp_threshold = 2, mp_required_roles = [''admin''], mp_approvals = [], mp_aggregated = None\<rparr>"

definition sample_ballot :: "u32 \<Rightarrow> ballot" where
  "sample_ballot u = \<lparr>bl_daemon = sample_daemon, bl_args = sample_args u, bl_epoch = 1\<rparr>"

lemmas sample_vote_simps =
  sample_ballot_def sample_daemon_def sample_args_def sample_mpa_def sample_core_def
  empty_roles_core_def sample_world_def cast_ballot_def insert_approver_def uid_roles_of_def
  hs_of_list_def hs_insert_def hm_get_def hm_insert_def Let_def

lemma sample_vote:
  "\<exists>m. foldR (cast_ballot sample_world) [sample_ballot 1000, sample_ballot 1001] sample_mpa = Inr m \<and>
     is_fulfilled m \<and> mp_approvals m \<noteq> []"
  by (simp add: sample_vote_simps is_fulfilled_def hm_values_def)

lemma approval_needs_distinct_people_witness:
  "unat (mp_threshold sample_mpa) \<le>
     card ((\<lambda>b. sa_uid (bl_args b)) ` set [sample_ballot 1000, sample_ballot 1001])"
proof -
  obtain m where m: "foldR (cast_ballot sample_world) [sample_ballot 1000, sample_ballot 1001] sample_mpa
      = Inr m" "is_fulfilled m"
    using sample_vote by blast
  have "mp_approvals sample_mpa = []" by (simp add: sample_mpa_def)
  from approval_needs_distinct_people [OF m(1) this m(2)] show ?thesis by blast
qed

lemma aggregate_only_when_fulfilled_witness:
  "\<exists>m m'. try_aggregate sample_world m = Inr m' \<and> is_fulfilled m \<and> mp_aggregated m' \<noteq> None"
proof -
  obtain m where m: "is_fulfilled m" "mp_approvals m \<noteq> []"
    using sample_vote by blast
  have "foldR (signature_step sample_world) as sigs = Inr (sigs @ map aa_signature as)" for as sigs
    by (induction as arbitrary: sigs) (simp_all add: signature_step_def sample_world_def)
  with m have "\<exists>m'. try_aggregate sample_world m = Inr m'"
    by (simp add: try_aggregate_def sample_world_def hm_values_def)
  with aggregate_only_when_fulfilled show ?thesis by blast
qed

lemma no_approver_roles_no_approval_witness:
  "\<exists>msg. insert_approver sample_world sample_daemon (sample_args 1000) 1
     (sample_mpa\<lparr>mp_required_roles := []\<rparr>) = Inl msg"
  by (rule no_approver_roles_no_approval [OF _ refl]) simp

end
