(* ===== verification/Epoch_Store.thy ===== *)
theory Epoch_Store
  imports Mpa
begin

text \<open>
  The epoch of the policy snapshot (\<open>bundle.rs\<close>). Committing a policy and flushing both go
  through a compare-and-bump on the epoch; the locale states that contract once and both
  operations interpret it.
\<close>

locale epoch_store =
  fixes epoch :: "'s \<Rightarrow> u32"
    and bump :: "u32 \<Rightarrow> 's \<Rightarrow> 'e + (u32 \<times> 's)"
  assumes bump_success: "bump e s = Inr (n, s') \<Longrightarrow>
      epoch s = e \<and> e \<noteq> - 1 \<and> n = e + 1 \<and> epoch s' = n"
    and bump_stale: "epoch s \<noteq> e \<Longrightarrow> \<exists>m. bump e s = Inl m"
    and bump_fresh: "epoch s = e \<Longrightarrow> e \<noteq> - 1 \<Longrightarrow> \<exists>s'. bump e s = Inr (e + 1, s')"
begin

lemma bump_increases:
  assumes "bump e s = Inr (n, s')"
  shows "unat (epoch s') = Suc (unat (epoch s))"
  using bump_success [OF assms] unat_inc by auto

text \<open>Of two commits prepared at the same epoch only the first goes through.\<close>

lemma bump_once:
  assumes "bump e s = Inr (n, s')"
  shows "\<exists>m. bump e s' = Inl m"
proof -
  from bump_success [OF assms] have "epoch s' = e + 1" by simp
  then have "epoch s' \<noteq> e" by simp
  then show ?thesis by (rule bump_stale)
qed

text \<open>An epoch never comes back: it only grows along any sequence of successful bumps.\<close>

inductive bumped :: "'s \<Rightarrow> 's \<Rightarrow> bool" where
  bumped_refl: "bumped s s"
| bumped_step: "bumped s t \<Longrightarrow> bump e t = Inr (n, t') \<Longrightarrow> bumped s t'"

lemma bumped_mono: "bumped s t \<Longrightarrow> unat (epoch s) \<le> unat (epoch t)"
  by (induction rule: bumped.induct) (auto dest: bump_increases)

lemma stale_forever:
  assumes "bump e s = Inr (n, s')" and "bumped s' t"
  shows "\<exists>m. bump e t = Inl m"
proof -
  have "unat e < unat (epoch s')"
    using bump_success [OF assms(1)] bump_increases [OF assms(1)] by simp
  also have "\<dots> \<le> unat (epoch t)" by (rule bumped_mono [OF assms(2)])
  finally have "epoch t \<noteq> e" by auto
  then show ?thesis by (rule bump_stale)
qed

end

lemma checked_inc_ok_or [result_simps]:
  "ok_or (checked_inc w) e = Inr v \<longleftrightarrow> w \<noteq> - 1 \<and> v = w + 1"
  by (simp add: result_simps)

interpretation upd: epoch_store d_epoch "update_bundle b" for b
  by unfold_locales (auto simp: update_bundle_def result_simps checked_inc_def split: if_splits)

interpretation adv: epoch_store d_epoch advance_epoch
  by unfold_locales (auto simp: advance_epoch_def result_simps checked_inc_def split: if_splits)

lemmas epoch_success = upd.bump_success adv.bump_success

lemma update_bundle_Inr:
  "update_bundle b e d = Inr (n, d') \<longleftrightarrow>
     d_epoch d = e \<and> e \<noteq> - 1 \<and> n = e + 1 \<and>
     d' = d\<lparr>d_snapshot := \<lparr>ps_epoch = e + 1, ps_bundle = b\<rparr>\<rparr>"
  by (auto simp: update_bundle_def result_simps split: if_splits)

lemma advance_epoch_Inr:
  "advance_epoch e d = Inr (n, d') \<longleftrightarrow>
     d_epoch d = e \<and> e \<noteq> - 1 \<and> n = e + 1 \<and>
     d' = d\<lparr>d_snapshot := \<lparr>ps_epoch = e + 1, ps_bundle = d_bundle d\<rparr>\<rparr>"
  by (auto simp: advance_epoch_def result_simps split: if_splits)

text \<open>
  Optimistic locking on the epoch: a policy update or a flush succeeds only if the epoch is
  still the one it was prepared for, and then raises it by exactly one without wrapping; any
  later update or flush prepared for the old epoch fails, whatever updates happened in between.
\<close>

theorem stale_update_rejected:
  assumes "update_bundle b e d = Inr (n, d1) \<or> advance_epoch e d = Inr (n, d1)"
    and "(\<lambda>s t. \<exists>c e n. update_bundle c e s = Inr (n, t) \<or> advance_epoch e s = Inr (n, t))\<^sup>*\<^sup>* d1 d2"
  shows "d_epoch d = e \<and> unat (d_epoch d1) = Suc (unat e) \<and>
    (\<exists>m. update_bundle b' e d2 = Inl m) \<and> (\<exists>m. advance_epoch e d2 = Inl m)"
proof -
  have first: "d_epoch d = e \<and> unat (d_epoch d1) = Suc (unat e)"
    using assms(1) upd.bump_increases adv.bump_increases epoch_success by metis
  have "unat (d_epoch d1) \<le> unat (d_epoch d2)"
    using assms(2)
  proof (induction rule: rtranclp_induct)
    case (step s t)
    then have "unat (d_epoch t) = Suc (unat (d_epoch s))"
      using upd.bump_increases adv.bump_increases by blast
    with step.IH show ?case by simp
  qed simp
  with first have "d_epoch d2 \<noteq> e" by auto
  then show ?thesis using first upd.bump_stale adv.bump_stale by blast
qed

text \<open>The sample: an update at epoch 1, then a flush; a second update for epoch 1 fails.\<close>

lemma stale_update_rejected_witness:
  "\<exists>d2. (\<exists>m. update_bundle sample_bundle 1 d2 = Inl m) \<and> (\<exists>m. advance_epoch 1 d2 = Inl m)"
proof -
  have "update_bundle sample_bundle 1 sample_daemon =
      Inr (2, sample_daemon\<lparr>d_snapshot := \<lparr>ps_epoch = 2, ps_bundle = sample_bundle\<rparr>\<rparr>)"
    by (simp add: update_bundle_def sample_daemon_def checked_inc_def)
  then have "update_bundle sample_bundle 1 sample_daemon =
      Inr (2, sample_daemon\<lparr>d_snapshot := \<lparr>ps_epoch = 2, ps_bundle = sample_bundle\<rparr>\<rparr>) \<or>
      advance_epoch 1 sample_daemon =
      Inr (2, sample_daemon\<lparr>d_snapshot := \<lparr>ps_epoch = 2, ps_bundle = sample_bundle\<rparr>\<rparr>)" ..
  from stale_update_rejected [OF this rtranclp.rtrancl_refl] show ?thesis by blast
qed

end
