(* ===== verification/Rust_Utf8.thy ===== *)
theory Rust_Utf8
  imports Rust_Std
begin

text \<open>
  UTF-8 in \<open>std::string\<close>: \<open>String::from_utf8\<close> accepts exactly the byte strings without an
  invalid chunk, \<open>String::from_utf8_lossy\<close> replaces every maximal invalid chunk by U+FFFD.
\<close>

definition in_range :: "nat \<Rightarrow> nat \<Rightarrow> char \<Rightarrow> bool" where
  "in_range lo hi c \<longleftrightarrow> lo \<le> byte c \<and> byte c \<le> hi"

definition is_cont :: "char \<Rightarrow> bool" where
  "is_cont c = in_range 128 191 c"

text \<open>The second byte allowed after the first byte of a three- or four-byte sequence.\<close>

definition second_ok3 :: "char \<Rightarrow> char \<Rightarrow> bool" where
  "second_ok3 b c \<longleftrightarrow>
     (if byte b = 224 then in_range 160 191 c
      else if byte b = 237 then in_range 128 159 c
      else is_cont c)"

definition second_ok4 :: "char \<Rightarrow> char \<Rightarrow> bool" where
  "second_ok4 b c \<longleftrightarrow>
     (if byte b = 240 then in_range 144 191 c
      else if byte b = 244 then in_range 128 143 c
      else is_cont c)"

definition cont_at :: "nat \<Rightarrow> string \<Rightarrow> bool" where
  "cont_at i s \<longleftrightarrow> i < length s \<and> is_cont (s ! i)"

text \<open>
  The first chunk of a non-empty byte string: whether it is a valid character, and how many
  bytes it takes.
\<close>

definition utf8_chunk :: "string \<Rightarrow> bool \<times> nat" where
  "utf8_chunk s =
     (let b = hd s in
      if byte b < 128 then (True, 1)
      else if in_range 194 223 b then (if cont_at 1 s then (True, 2) else (False, 1))
      else if in_range 224 239 b then
        (if \<not> (1 < length s \<and> second_ok3 b (s ! 1)) then (False, 1)
         else if cont_at 2 s then (True, 3) else (False, 2))
      else if in_range 240 244 b then
        (if \<not> (1 < length s \<and> second_ok4 b (s ! 1)) then (False, 1)
         else if \<not> cont_at 2 s then (False, 2)
         else if cont_at 3 s then (True, 4) else (False, 3))
      else (False, 1))"

lemma utf8_chunk_pos: "0 < snd (utf8_chunk s)"
  by (simp add: utf8_chunk_def Let_def)

lemma utf8_chunk_cases:
  assumes "fst (utf8_chunk s)"
  shows "byte (hd s) < 128 \<or> (\<not> byte (hd s) < 128 \<and> in_range 194 223 (hd s) \<and> cont_at 1 s) \<or>
    (\<not> byte (hd s) < 128 \<and> \<not> in_range 194 223 (hd s) \<and> in_range 224 239 (hd s) \<and> 
      1 < length s \<and> second_ok3 (hd s) (s ! 1) \<and> cont_at 2 s) \<or>
   (\<not> byte (hd s) < 128 \<and> \<not> in_range 194 223 (hd s) \<and> \<not> in_range 224 239 (hd s) \<and> in_range 240 244 (hd s) \<and>
      1 < length s \<and> second_ok4 (hd s) (s ! 1) \<and> cont_at 2 s \<and> cont_at 3 s)"
  using assms unfolding utf8_chunk_def Let_def
  by (simp only: if_distrib [of fst] fst_conv) argo

lemma cont_at_high: "cont_at i s \<Longrightarrow> i < length s \<and> 128 \<le> byte (s ! i)"
  by (simp add: cont_at_def is_cont_def in_range_def)

lemma second_ok3_high: "second_ok3 b c \<Longrightarrow> 128 \<le> byte c"
  by (simp add: second_ok3_def is_cont_def in_range_def split: if_splits)

lemma second_ok4_high: "second_ok4 b c \<Longrightarrow> 128 \<le> byte c"
  by (simp add: second_ok4_def is_cont_def in_range_def split: if_splits)

text \<open>A character of more than one byte has no ASCII byte in it.\<close>

lemma utf8_chunk_high:
  assumes "fst (utf8_chunk s)" and "s \<noteq> []" and "\<not> byte (hd s) < 128"
    and "c \<in> set (take (snd (utf8_chunk s)) s)"
  shows "128 \<le> byte c"
proof -
  obtain i where i: "i < snd (utf8_chunk s)" "c = s ! i"
    using assms(4) by (auto simp: in_set_conv_nth)
  have 0: "128 \<le> byte (s ! 0)" using assms(2,3) by (simp add: hd_conv_nth)
  consider "snd (utf8_chunk s) = 2" "cont_at 1 s"
    | "snd (utf8_chunk s) = 3" "second_ok3 (hd s) (s ! 1)" "cont_at 2 s"
    | "snd (utf8_chunk s) = 4" "second_ok4 (hd s) (s ! 1)" "cont_at 2 s" "cont_at 3 s"
    using utf8_chunk_cases [OF assms(1)] assms(3) by (fastforce simp: utf8_chunk_def Let_def)
  then show ?thesis
  proof cases
    case 1
    from i(1) 1(1) consider "i = 0" | "i = 1" by linarith
    then show ?thesis using 0 cont_at_high [OF 1(2)] i(2) by cases simp_all
  next
    case 2
    from i(1) 2(1) consider "i = 0" | "i = 1" | "i = 2" by linarith
    then show ?thesis using 0 second_ok3_high [OF 2(2)] cont_at_high [OF 2(3)] i(2) by cases simp_all
  next
    case 3
    from i(1) 3(1) consider "i = 0" | "i = 1" | "i = 2" | "i = 3" by linarith
    then show ?thesis
      using 0 second_ok4_high [OF 3(2)] cont_at_high [OF 3(3)] cont_at_high [OF 3(4)] i(2) by cases simp_all
  qed
qed

function utf8_valid :: "string \<Rightarrow> bool" where
  "utf8_valid s \<longleftrightarrow>
     (if s = [] then True
      else fst (utf8_chunk s) \<and> utf8_valid (drop (snd (utf8_chunk s)) s))"
  by auto
termination
  by (relation "measure length") (auto simp: utf8_chunk_pos)

function utf8_lossy :: "string \<Rightarrow> string" where
  "utf8_lossy s =
     (if s = [] then []
      else (if fst (utf8_chunk s) then take (snd (utf8_chunk s)) s
            else [CHR 0xEF, CHR 0xBF, CHR 0xBD])
           @ utf8_lossy (drop (snd (utf8_chunk s)) s))"
  by auto
termination
  by (relation "measure length") (auto simp: utf8_chunk_pos)

declare utf8_valid.simps [simp del] utf8_lossy.simps [simp del]

text \<open>On valid text the lossy conversion changes nothing.\<close>

lemma utf8_lossy_valid: "utf8_valid s \<Longrightarrow> utf8_lossy s = s"
proof (induction s rule: utf8_lossy.induct)
  case (1 s)
  show ?case
  proof (cases "s = []")
    case True
    then show ?thesis by (simp add: utf8_lossy.simps)
  next
    case False
    with 1 have "fst (utf8_chunk s)" "utf8_lossy (drop (snd (utf8_chunk s)) s) = drop (snd (utf8_chunk s)) s"
      by (auto simp: utf8_valid.simps [of s])
    with False show ?thesis by (simp add: utf8_lossy.simps [of s])
  qed
qed

lemma utf8_valid_ascii: "\<forall>c \<in> set s. byte c < 128 \<Longrightarrow> utf8_valid s"
proof (induction s)
  case Nil
  show ?case by (simp add: utf8_valid.simps)
next
  case (Cons c s)
  then show ?case by (simp add: utf8_valid.simps [of "c # s"] utf8_chunk_def)
qed

text \<open>\<open>trim_end_matches\<close> for the terminating NUL bytes of kernel strings.\<close>

definition trim_end_char :: "char \<Rightarrow> string \<Rightarrow> string" where
  "trim_end_char c s = rev (dropWhile (\<lambda>x. x = c) (rev s))"

end
