(* ===== verification/Tickets.thy ===== *)
theory Tickets
  imports Epoch_Store Rust_Utf8
begin

text \<open>
  Pending entries, drafts and tickets: the constructors of \<open>types.rs\<close>, \<open>is_cacheable\<close>, and
  \<open>ticket.rs\<close>.
\<close>

section \<open>Pending entries\<close>

definition decode_lsm_label :: "world \<Rightarrow> string \<Rightarrow> string" where
  "decode_lsm_label w label_hex =
     (case wd_hex_decode w label_hex of
        Inr bytes \<Rightarrow> if utf8_valid bytes then bytes else label_hex
      | Inl _ \<Rightarrow> label_hex)"

definition from_base_req :: "world \<Rightarrow> request \<Rightarrow> u32 \<Rightarrow> pending_entry" where
  "from_base_req w req epoch =
     \<lparr>pe_audit_id = wd_uuid w, pe_transport_id = rq_id req, pe_timestamp = wd_now w,
      pe_subject =
        \<lparr>sc_pid = rq_pid req, sc_ppid = rq_ppid req, sc_uid = rq_uid req, sc_gid = rq_gid req,
         sc_session_id = rq_session_id req, sc_prog_dev = rq_prog_dev req,
         sc_prog_ino = rq_prog_ino req, sc_program_path = rq_raw_program req,
         sc_script_dev = rq_script_dev req, sc_script_ino = rq_script_ino req,
         sc_script_path = rq_raw_script req, sc_applet_name = rq_raw_applet req,
         sc_program_hash = rq_prog_sha256 req,
         sc_lsm_label = decode_lsm_label w (rq_lsm_label_hex req), sc_client_ip = None,
         sc_auth_method = None, sc_session_tty = rq_session_tty req, sc_cmd_args = rq_args_head req\<rparr>,
      pe_object =
        \<lparr>oc_path = rq_raw_target req, oc_inode = rq_target_ino req, oc_device_id = rq_target_dev req,
         oc_new_path = rq_raw_new_target req,
         oc_new_inode = (if rq_new_target_ino req \<noteq> 0 then Some (rq_new_target_ino req) else None),
         oc_new_device_id = (if rq_new_target_dev req \<noteq> 0 then Some (rq_new_target_dev req) else None)\<rparr>,
      pe_op = str_to_mask (rq_raw_action req), pe_rule_id = None, pe_reason = [],
      pe_policy_epoch = epoch, pe_ttl_seconds = - 1, pe_max_uses = 1,
      pe_mpa_state = default_mpa_state\<rparr>"

definition mpa_state_for_rule :: "compiled_rule \<Rightarrow> mpa_state" where
  "mpa_state_for_rule r =
     \<lparr>mp_threshold = rule_threshold r, mp_required_roles = approver_roles r, mp_approvals = [],
      mp_aggregated = None\<rparr>"

definition entry_from_rule :: "world \<Rightarrow> compiled_rule \<Rightarrow> request \<Rightarrow> u32 \<Rightarrow> pending_entry" where
  "entry_from_rule w r req epoch =
     (from_base_req w req epoch)
       \<lparr>pe_op := action_matcher_to_u32 (cr_action_match r), pe_rule_id := Some (cr_id r),
        pe_reason := cr_out_reason r, pe_ttl_seconds := cpa_ttl_sec (cr_pre_approval r),
        pe_max_uses := cr_max_uses r, pe_mpa_state := mpa_state_for_rule r\<rparr>"

definition audit_reason :: "effect \<Rightarrow> string" where
  "audit_reason eff =
     (case eff of
        Allow \<Rightarrow> ''Audit Mode: Action would be ALLOWED by policy''
      | Deny \<Rightarrow> ''Audit Mode: Action would be DENIED by policy''
      | NeedApproval \<Rightarrow> ''Audit Mode: Action would require APPROVAL by policy''
      | AuditOnly \<Rightarrow> ''Audit Mode: Shadow Rule Evaluation'')"

definition entry_from_audit ::
  "world \<Rightarrow> request \<Rightarrow> compiled_rule option \<Rightarrow> effect \<Rightarrow> u32 \<Rightarrow> pending_entry" where
  "entry_from_audit w req rule eff epoch =
     (let e0 = from_base_req w req epoch;
          e1 = (case rule of
                  Some r \<Rightarrow> e0\<lparr>pe_rule_id := Some (cr_id r),
                      pe_op := action_matcher_to_u32 (cr_action_match r),
                      pe_ttl_seconds := cpa_ttl_sec (cr_pre_approval r),
                      pe_max_uses := cr_max_uses r\<rparr>
                | None \<Rightarrow> e0)
      in e1\<lparr>pe_reason := audit_reason eff\<rparr>)"

section \<open>ticket.rs\<close>

definition is_ticketable :: "compiled_rule \<Rightarrow> string + unit" where
  "is_ticketable r =
     (if cpa_ttl_sec (cr_pre_approval r) = 0 then Inl ''ttl_sec > 0 is required for TICKET''
      else if cr_rule_type r \<noteq> RtSubjectOnly \<and>
              \<not> exact_opt (case cr_object r of None \<Rightarrow> None | Some ob \<Rightarrow> om_path ob) then
        Inl ''object.path (exact) is required for standard TICKET''
      else
        bindR (case cr_action_match r of
                 AmOneOf s \<Rightarrow>
                   if length s = 1 then Inr () else Inl ''single action op is required for TICKET''
               | AmAny \<Rightarrow> Inl ''ActionMatcher::Any is too broad for TICKET'') (\<lambda>_.
          if \<not> exact_opt (sm_origin_program (cr_subject r)) then
            Inl ''subject.origin_program (exact) is required for TICKET''
          else case sm_origin_script (cr_subject r) of
              Some script \<Rightarrow>
                if \<not> is_exact script then
                  Inl ''subject.origin_script (exact) is required if specified''
                else Inr ()
            | None \<Rightarrow> Inr ()))"

definition draft_from_rule ::
  "world \<Rightarrow> compiled_rule \<Rightarrow> u32 \<Rightarrow> u32 \<Rightarrow> daemon \<Rightarrow> pre_approval_draft \<times> daemon" where
  "draft_from_rule w r uid epoch d =
     (let (draft_id, d1) = next_audit_ticket_id d
      in (\<lparr>dr_draft_id = draft_id, dr_epoch = epoch, dr_audit_id = wd_uuid w, dr_rule_id = cr_id r,
           dr_uid = uid, dr_origin_program_id = entity 0 0,
           dr_origin_script_id =
             (if sm_origin_script (cr_subject r) \<noteq> None then Some (entity 0 0) else None),
           dr_origin_applet = sm_origin_applet (cr_subject r), dr_object_id = entity 0 0,
           dr_new_object_id = None, dr_op_mask = action_matcher_to_u32 (cr_action_match r),
           dr_mpa_state = mpa_state_for_rule r, dr_ttl_sec = cpa_ttl_sec (cr_pre_approval r),
           dr_max_uses = cr_max_uses r\<rparr>, d1))"

definition new_object_entity :: "object_context \<Rightarrow> entity_id option" where
  "new_object_entity ob =
     (case (oc_new_device_id ob, oc_new_inode ob) of
        (Some dev, Some ino) \<Rightarrow> Some (entity dev ino)
      | _ \<Rightarrow> None)"

definition ticket_from_entry ::
  "compiled_rule \<Rightarrow> pending_entry \<Rightarrow> daemon \<Rightarrow> approved_ticket \<times> daemon" where
  "ticket_from_entry r e d =
     (let (draft_id, d1) = next_audit_ticket_id d; s = pe_subject e; ob = pe_object e
      in (\<lparr>at_ticket_id = draft_id, at_epoch = pe_policy_epoch e, at_rule_id = cr_id r,
           at_origin_program = sc_program_path s, at_origin_script = sc_script_path s,
           at_object = oc_path ob, at_new_object = oc_new_path ob, at_uid = sc_uid s,
           at_origin_program_id = entity (sc_prog_dev s) (sc_prog_ino s),
           at_origin_program_sha256 = None,
           at_origin_script_id =
             (if sc_script_path s \<noteq> None then Some (entity (sc_script_dev s) (sc_script_ino s)) else None),
           at_origin_applet = sm_origin_applet (cr_subject r),
           at_object_id = entity (oc_device_id ob) (oc_inode ob),
           at_new_object_id = new_object_entity ob,
           at_op_mask = action_matcher_to_u32 (cr_action_match r),
           at_ttl_sec = cpa_ttl_sec (cr_pre_approval r), at_max_uses = cr_max_uses r\<rparr>, d1))"

section \<open>Approved tickets\<close>

definition display_or :: "path_matcher option \<Rightarrow> string \<Rightarrow> string" where
  "display_or pm s = (case pm of Some p \<Rightarrow> pathmatcher_display p | None \<Rightarrow> s)"

definition display_or_else :: "path_matcher option \<Rightarrow> string option \<Rightarrow> string option" where
  "display_or_else pm s = (case pm of Some p \<Rightarrow> Some (pathmatcher_display p) | None \<Rightarrow> s)"

definition rule_object_path :: "compiled_rule \<Rightarrow> path_matcher option" where
  "rule_object_path r = (case cr_object r of None \<Rightarrow> None | Some ob \<Rightarrow> om_path ob)"

definition rule_object_new_path :: "compiled_rule \<Rightarrow> path_matcher option" where
  "rule_object_new_path r = (case cr_object r of None \<Rightarrow> None | Some ob \<Rightarrow> om_new_path ob)"

definition entity_or_none :: "u64 \<Rightarrow> u64 \<Rightarrow> entity_id option" where
  "entity_or_none dev ino = (if dev \<noteq> 0 \<or> ino \<noteq> 0 then Some (entity dev ino) else None)"

definition from_result_with_req ::
  "policy_result \<Rightarrow> ticket_payload \<Rightarrow> request \<Rightarrow> daemon \<Rightarrow> approved_ticket option" where
  "from_result_with_req res t req d =
     (case pr_rule_id res of
        None \<Rightarrow> None
      | Some i \<Rightarrow>
          (case find_rule (Some i) d of
             Inr (Some r, rule_epoch) \<Rightarrow>
               (if rule_epoch \<noteq> tk_epoch t then None
                else Some
                  \<lparr>at_ticket_id = tk_ticket_id t, at_epoch = rule_epoch, at_rule_id = cr_id r,
                   at_origin_program =
                     display_or (sm_origin_program (cr_subject r)) (rq_raw_program req),
                   at_origin_script =
                     display_or_else (sm_origin_script (cr_subject r)) (rq_raw_script req),
                   at_object = display_or (rule_object_path r) (rq_raw_target req),
                   at_new_object = display_or_else (rule_object_new_path r) (rq_raw_new_target req),
                   at_uid = tk_uid t,
                   at_origin_program_id = entity (tk_prog_dev t) (tk_prog_ino t),
                   at_origin_program_sha256 = rq_prog_sha256 req,
                   at_origin_script_id = entity_or_none (tk_script_dev t) (tk_script_ino t),
                   at_origin_applet =
                     (case sm_origin_applet (cr_subject r) of Some a \<Rightarrow> Some a | None \<Rightarrow> rq_raw_applet req),
                   at_object_id = entity (tk_target_dev t) (tk_target_ino t),
                   at_new_object_id = entity_or_none (tk_new_target_dev t) (tk_new_target_ino t),
                   at_op_mask = tk_op t, at_ttl_sec = cpa_ttl_sec (cr_pre_approval r),
                   at_max_uses = cr_max_uses r\<rparr>)
           | _ \<Rightarrow> None))"

definition ticket_from_draft :: "pre_approval_draft \<Rightarrow> daemon \<Rightarrow> approved_ticket option" where
  "ticket_from_draft dr d =
     (case find_rule (Some (dr_rule_id dr)) d of
        Inr (Some r, rule_epoch) \<Rightarrow>
          (if rule_epoch \<noteq> dr_epoch dr then None
           else Some
             \<lparr>at_ticket_id = dr_draft_id dr, at_epoch = dr_epoch dr, at_rule_id = cr_id r,
              at_origin_program = display_or (sm_origin_program (cr_subject r)) ''ANY'',
              at_origin_script = display_or_else (sm_origin_script (cr_subject r)) None,
              at_object = display_or (rule_object_path r) ''-'',
              at_new_object = display_or_else (rule_object_new_path r) None,
              at_uid = dr_uid dr, at_origin_program_id = dr_origin_program_id dr,
              at_origin_program_sha256 = None, at_origin_script_id = dr_origin_script_id dr,
              at_origin_applet = dr_origin_applet dr, at_object_id = dr_object_id dr,
              at_new_object_id = dr_new_object_id dr, at_op_mask = dr_op_mask dr,
              at_ttl_sec = cpa_ttl_sec (cr_pre_approval r), at_max_uses = cr_max_uses r\<rparr>)
      | _ \<Rightarrow> None)"

definition approved_from_entry :: "pending_entry \<Rightarrow> daemon \<Rightarrow> approved_ticket \<times> daemon" where
  "approved_from_entry e d =
     (let (tid, d1) = next_audit_ticket_id d; s = pe_subject e; ob = pe_object e
      in (\<lparr>at_ticket_id = tid, at_epoch = pe_policy_epoch e,
           at_rule_id = (case pe_rule_id e of Some i \<Rightarrow> i | None \<Rightarrow> []),
           at_origin_program = sc_program_path s, at_origin_script = sc_script_path s,
           at_object = oc_path ob, at_new_object = oc_new_path ob, at_uid = sc_uid s,
           at_origin_program_id = entity (sc_prog_dev s) (sc_prog_ino s),
           at_origin_program_sha256 = None,
           at_origin_script_id = entity_or_none (sc_script_dev s) (sc_script_ino s),
           at_origin_applet = sc_applet_name s,
           at_object_id = entity (oc_device_id ob) (oc_inode ob),
           at_new_object_id = new_object_entity ob, at_op_mask = pe_op e,
           at_ttl_sec = pe_ttl_seconds e, at_max_uses = pe_max_uses e\<rparr>, d1))"

section \<open>Caching an approved entry\<close>

definition entry_payload :: "compiled_rule \<Rightarrow> pending_entry \<Rightarrow> string \<Rightarrow> ticket_payload" where
  "entry_payload r e tid =
     (let s = pe_subject e; ob = pe_object e;
          script = (if sc_script_path s \<noteq> None then (sc_script_dev s, sc_script_ino s) else (0, 0));
          target = (if cr_rule_type r = RtSubjectOnly then (0, 0) else (oc_device_id ob, oc_inode ob));
          new_target = (if cr_rule_type r = RtSubjectOnly then (0, 0)
                        else (case oc_new_device_id ob of Some v \<Rightarrow> v | None \<Rightarrow> 0,
                              case oc_new_inode ob of Some v \<Rightarrow> v | None \<Rightarrow> 0))
      in \<lparr>tk_uid = sc_uid s, tk_op = action_matcher_to_u32 (cr_action_match r),
          tk_prog_dev = sc_prog_dev s, tk_prog_ino = sc_prog_ino s,
          tk_script_dev = fst script, tk_script_ino = snd script, tk_applet_hash = 0,
          tk_target_dev = fst target, tk_target_ino = snd target,
          tk_new_target_dev = fst new_target, tk_new_target_ino = snd new_target,
          tk_expires_in_sec = cpa_ttl_sec (cr_pre_approval r),
          tk_flags = tp_flags (cr_ticket_profile r), tk_uses_left = cr_max_uses r,
          tk_ticket_id = tid, tk_epoch = pe_policy_epoch e,
          tk_audit_flags = audit_level_to_u32 (cr_audit_level r)\<rparr>)"

definition is_cacheable ::
  "pending_entry \<Rightarrow> compiled_rule \<Rightarrow> u32 \<Rightarrow> daemon \<Rightarrow>
   (string + (bool \<times> ticket_payload option \<times> string)) \<times> daemon" where
  "is_cacheable e r epoch d =
     (if pe_policy_epoch e \<noteq> epoch \<or> epoch \<noteq> d_epoch d then
        (Inl (''Policy epoch mismatch: entry='' @ show_u32 (pe_policy_epoch e) @ '', rule='' @
              show_u32 epoch @ '', current='' @ show_u32 (d_epoch d)), d)
      else if cpa_ttl_sec (cr_pre_approval r) > 0 then
        (case is_ticketable r of
           Inl err \<Rightarrow> (Inl err, d)
         | Inr _ \<Rightarrow>
             (let (ticket, d1) = ticket_from_entry r e d
              in if has_draft_for_rule (cr_id r) d1 then
                   (Inl (''ticket is already in waiting list for approval (id= '' @ cr_id r @ '')''), d1)
                 else
                   (Inr (True, Some (entry_payload r e (at_ticket_id ticket)), at_ticket_id ticket),
                    d1\<lparr>d_active := hm_insert (at_ticket_id ticket) ticket (d_active d1)\<rparr>)))
      else (Inr (False, None, []), d))"

section \<open>Directory tickets\<close>

definition meta_kernel_id :: "file_meta \<Rightarrow> u64 \<times> u64" where
  "meta_kernel_id m = (ucast (to_kernel_dev (fm_dev m)), fm_ino m)"

definition preload_program_id :: "world \<Rightarrow> compiled_rule \<Rightarrow> u64 \<times> u64" where
  "preload_program_id w r =
     (if cr_rule_type r = RtSubjectOnly then (0, 0)
      else case sm_origin_program (cr_subject r) of
          None \<Rightarrow> (0, 0)
        | Some (PmGlob _) \<Rightarrow> (0, 0)
        | Some (PmExact p) \<Rightarrow> (case wd_metadata w p of Some m \<Rightarrow> meta_kernel_id m | None \<Rightarrow> (0, 0))
        | Some (PmPrefix p) \<Rightarrow> (case wd_metadata w p of Some m \<Rightarrow> meta_kernel_id m | None \<Rightarrow> (0, 0)))"

text \<open>The ticket one rule preloads, if any: the \<open>continue\<close>s of the loop are the \<open>None\<close> branches.\<close>

definition preload_ticket :: "world \<Rightarrow> u32 \<Rightarrow> compiled_rule \<Rightarrow> ticket_payload option" where
  "preload_ticket w epoch r =
     (if effect_as_str (cr_effect r) \<noteq> ''allow'' \<or> \<not> is_silent_io (cr_ticket_profile r) then None
      else if action_matcher_to_u32 (cr_action_match r) AND file_ops_mask = 0 then None
      else case rule_object_path r of
          Some (PmPrefix prefix_path) \<Rightarrow>
            (case wd_metadata w prefix_path of
               None \<Rightarrow> None
             | Some m \<Rightarrow>
                 (if \<not> fm_is_dir m then None
                  else Some
                    \<lparr>tk_uid = (case sm_uid (cr_subject r) of Some u \<Rightarrow> u | None \<Rightarrow> - 1),
                     tk_op = action_matcher_to_u32 (cr_action_match r),
                     tk_prog_dev = fst (preload_program_id w r),
                     tk_prog_ino = snd (preload_program_id w r),
                     tk_script_dev = 0, tk_script_ino = 0, tk_applet_hash = 0,
                     tk_target_dev = fst (meta_kernel_id m), tk_target_ino = snd (meta_kernel_id m),
                     tk_new_target_dev = 0, tk_new_target_ino = 0, tk_expires_in_sec = - 1,
                     tk_flags = TEAL_TICKET_FLG_PARENT_MATCH OR TEAL_TICKET_FLG_SILENT_IO,
                     tk_uses_left = - 1, tk_ticket_id = ''T-000000000'', tk_epoch = epoch,
                     tk_audit_flags = 1\<rparr>))
        | _ \<Rightarrow> None)"

fun preload_loop :: "world \<Rightarrow> u32 \<Rightarrow> compiled_rule list \<Rightarrow> daemon \<Rightarrow> daemon" where
  "preload_loop w epoch [] d = d"
| "preload_loop w epoch (r # rs) d =
     (case preload_ticket w epoch r of
        None \<Rightarrow> preload_loop w epoch rs d
      | Some t \<Rightarrow> preload_loop w epoch rs (snd (send_ticket_add t d)))"

definition preload_silent_directory_tickets :: "world \<Rightarrow> daemon \<Rightarrow> daemon" where
  "preload_silent_directory_tickets w d =
     preload_loop w (d_epoch d) (cp_rules (cb_policy (d_bundle d))) d"

end
