(* ===== verification/Decision.thy ===== *)
theory Decision
  imports Tickets
begin

text \<open>
  \<open>decide.rs\<close> and \<open>worker/decision.rs\<close>: the enforcement lane. One iteration of the worker takes a
  request, decides it under one policy snapshot, answers the kernel and reports the result. The
  phases that the source runs under separate locks (\<open>check_registered_session\<close>, the approval
  table, the sends) are separate definitions here, composed in the order of the code.
\<close>

section \<open>decide.rs\<close>

definition origin_program_from_req :: "request \<Rightarrow> path option" where
  "origin_program_from_req req =
     (let s = rust_trim (rq_raw_program req) in if s = [] then None else Some s)"

definition origin_script_from_req :: "request \<Rightarrow> path option" where
  "origin_script_from_req req =
     (case rq_raw_script req of
        None \<Rightarrow> None
      | Some raw \<Rightarrow> (let s = rust_trim raw in if s = [] then None else Some s))"

definition origin_applet_from_req :: "request \<Rightarrow> string option" where
  "origin_applet_from_req req =
     (case rq_raw_applet req of
        None \<Rightarrow> None
      | Some raw \<Rightarrow> (let s = rust_trim raw in if s = [] \<or> s = ''-'' then None else Some s))"

definition request_to_ctx ::
  "request \<Rightarrow> compiled_roles_core \<Rightarrow> registered_session option \<Rightarrow> access_context" where
  "request_to_ctx req roles session =
     \<lparr>ac_uid = rq_uid req,
      ac_subject_roles =
        (case hm_get (sri_uid_roles (crc_assignments roles)) (rq_uid req) of
           Some rs \<Rightarrow> rs | None \<Rightarrow> []),
      ac_origin_program = origin_program_from_req req,
      ac_origin_script = origin_script_from_req req,
      ac_origin_applet = origin_applet_from_req req,
      ac_action = (case action_parse (rq_raw_action req) of Inr a \<Rightarrow> a | Inl _ \<Rightarrow> Unknown),
      ac_object_path = rq_raw_target req, ac_object_new_path = rq_raw_new_target req,
      ac_object_kind = None, ac_session_tty = rq_session_tty req,
      ac_registered_session = session\<rparr>"

text \<open>\<open>ensure_program_hash\<close> of \<open>evidence/mod.rs\<close>: a hash already present is kept.\<close>

definition ensure_program_hash :: "world \<Rightarrow> request \<Rightarrow> request" where
  "ensure_program_hash w req =
     (if rq_prog_sha256 req \<noteq> None then req
      else req\<lparr>rq_prog_sha256 :=
        Some (case wd_program_hash w (rq_raw_program req) of
                Some h \<Rightarrow> h | None \<Rightarrow> ''HASH_CALC_FAILED'')\<rparr>)"

section \<open>Results\<close>

definition build_not_managed_result :: "request \<Rightarrow> u32 \<Rightarrow> policy_result" where
  "build_not_managed_result req epoch =
     \<lparr>pr_decision = PdNotManaged, pr_rule_id = None,
      pr_ticket = Some
        \<lparr>tk_uid = rq_uid req, tk_op = 0xFFFFFFFF, tk_prog_dev = rq_prog_dev req,
         tk_prog_ino = rq_prog_ino req, tk_script_dev = rq_script_dev req,
         tk_script_ino = rq_script_ino req, tk_applet_hash = 0,
         tk_target_dev = rq_target_dev req, tk_target_ino = rq_target_ino req,
         tk_new_target_dev = rq_new_target_dev req, tk_new_target_ino = rq_new_target_ino req,
         tk_expires_in_sec = - 1, tk_flags = 0, tk_uses_left = 1,
         tk_ticket_id = ''T-000000000'', tk_epoch = epoch,
         tk_audit_flags = audit_level_to_u32 AlSilent\<rparr>,
      pr_current_epoch = epoch\<rparr>"

definition build_no_match_result :: "u32 \<Rightarrow> policy_result" where
  "build_no_match_result epoch =
     \<lparr>pr_decision = PdNoRuleMatched, pr_rule_id = None, pr_ticket = None, pr_current_epoch = epoch\<rparr>"

definition generate_allow_ticket ::
  "world \<Rightarrow> compiled_rule \<Rightarrow> request \<Rightarrow> string \<Rightarrow> u32 \<Rightarrow> ticket_payload" where
  "generate_allow_ticket w r req ticket_seq epoch =
     (let flags0 = tp_flags (cr_ticket_profile r);
          silent = flags0 AND TEAL_TICKET_FLG_SILENT_IO \<noteq> 0;
          dir = (if silent then
                   (case rule_object_path r of
                      Some (PmPrefix prefix_path) \<Rightarrow>
                        (case wd_metadata w prefix_path of
                           Some m \<Rightarrow> if fm_is_dir m then Some m else None
                         | None \<Rightarrow> None)
                    | _ \<Rightarrow> None)
                 else None);
          ttl = cpa_ttl_sec (cr_pre_approval r)
      in \<lparr>tk_uid = rq_uid req, tk_op = action_matcher_to_u32 (cr_action_match r),
          tk_prog_dev = rq_prog_dev req, tk_prog_ino = rq_prog_ino req,
          tk_script_dev = rq_script_dev req, tk_script_ino = rq_script_ino req,
          tk_applet_hash = 0,
          tk_target_dev = (case dir of Some m \<Rightarrow> ucast (to_kernel_dev (fm_dev m)) | None \<Rightarrow> rq_target_dev req),
          tk_target_ino = (case dir of Some m \<Rightarrow> fm_ino m | None \<Rightarrow> rq_target_ino req),
          tk_new_target_dev = rq_new_target_dev req, tk_new_target_ino = rq_new_target_ino req,
          tk_expires_in_sec = (if dir \<noteq> None \<and> ttl = 0 then 86400 else ttl),
          tk_flags = (if dir \<noteq> None then flags0 OR TEAL_TICKET_FLG_PARENT_MATCH else flags0),
          tk_uses_left = (if dir \<noteq> None then - 1 else cr_max_uses r),
          tk_ticket_id = ticket_seq, tk_epoch = epoch,
          tk_audit_flags = audit_level_to_u32 (cr_audit_level r)\<rparr>)"

section \<open>NeedApproval\<close>

text \<open>
  The locked phase: take an approved ticket of the rule and make it active, or queue the entry.
  \<open>find\<close> runs over the map in iteration order, which the association list stands for.
\<close>

definition take_approved_or_enqueue ::
  "string \<Rightarrow> u64 \<Rightarrow> pending_entry \<Rightarrow> daemon \<Rightarrow> approved_ticket option \<times> daemon" where
  "take_approved_or_enqueue rid req_id entry d =
     (case hm_find_value (\<lambda>t. at_rule_id t = rid) (d_approved d) of
        Some t \<Rightarrow>
          (case hm_get (d_approved d) (at_ticket_id t) of
             Some approved \<Rightarrow>
               (Some approved,
                d\<lparr>d_approved := hm_remove (at_ticket_id t) (d_approved d),
                  d_active := hm_insert (at_ticket_id approved) approved (d_active d)\<rparr>)
           | None \<Rightarrow> (None, d))
      | None \<Rightarrow> (None, d\<lparr>d_pending := hm_insert req_id entry (d_pending d)\<rparr>))"

definition approved_payload ::
  "compiled_rule \<Rightarrow> request \<Rightarrow> approved_ticket \<Rightarrow> u32 \<Rightarrow> ticket_payload" where
  "approved_payload r req a epoch =
     \<lparr>tk_uid = rq_uid req, tk_op = at_op_mask a, tk_prog_dev = rq_prog_dev req,
      tk_prog_ino = rq_prog_ino req, tk_script_dev = rq_script_dev req,
      tk_script_ino = rq_script_ino req, tk_applet_hash = 0, tk_target_dev = rq_target_dev req,
      tk_target_ino = rq_target_ino req, tk_new_target_dev = rq_new_target_dev req,
      tk_new_target_ino = rq_new_target_ino req, tk_expires_in_sec = at_ttl_sec a,
      tk_flags = tp_flags (cr_ticket_profile r), tk_uses_left = at_max_uses a,
      tk_ticket_id = at_ticket_id a, tk_epoch = epoch,
      tk_audit_flags = audit_level_to_u32 (cr_audit_level r)\<rparr>"

definition process_need_approval ::
  "world \<Rightarrow> compiled_rule \<Rightarrow> request \<Rightarrow> u32 \<Rightarrow> daemon \<Rightarrow> policy_result \<times> daemon" where
  "process_need_approval w r req epoch d =
     (let entry = entry_from_rule w r req epoch;
          (approved_opt, d1) = take_approved_or_enqueue (cr_id r) (rq_id req) entry d
      in case approved_opt of
           Some a \<Rightarrow>
             (\<lparr>pr_decision = PdApproved a, pr_rule_id = Some (cr_id r),
               pr_ticket = Some (approved_payload r req a epoch), pr_current_epoch = epoch\<rparr>, d1)
         | None \<Rightarrow>
             (\<lparr>pr_decision = PdNeedApproval, pr_rule_id = Some (cr_id r), pr_ticket = None,
               pr_current_epoch = epoch\<rparr>, d1))"

section \<open>The decision\<close>

definition effect_decision :: "effect \<Rightarrow> policy_decision" where
  "effect_decision eff =
     (let s = effect_as_str eff
      in if s = ''allow'' then PdAllow else if s = ''deny'' then PdDeny
         else if s = ''audit_only'' then PdAuditOnly
         else if s = ''need_approval'' then PdNeedApproval else PdDeny)"

definition apply_matched_rule ::
  "world \<Rightarrow> compiled_rule \<Rightarrow> request \<Rightarrow> u32 \<Rightarrow> daemon \<Rightarrow> policy_result \<times> daemon" where
  "apply_matched_rule w r req epoch d =
     (let kind = effect_decision (cr_effect r)
      in if kind = PdAllow \<and> cpa_ttl_sec (cr_pre_approval r) > 0 then
           (let (tid, d1) = next_audit_ticket_id d
            in (\<lparr>pr_decision = kind, pr_rule_id = Some (cr_id r),
                 pr_ticket = Some (generate_allow_ticket w r req tid epoch),
                 pr_current_epoch = epoch\<rparr>, d1))
         else if kind = PdNeedApproval then process_need_approval w r req epoch d
         else (\<lparr>pr_decision = kind, pr_rule_id = Some (cr_id r), pr_ticket = None,
                pr_current_epoch = epoch\<rparr>, d))"

definition process_policy_decision ::
  "world \<Rightarrow> request \<Rightarrow> daemon \<Rightarrow> policy_result \<times> request \<times> daemon" where
  "process_policy_decision w req d =
     (let epoch = d_epoch d; compiled = d_bundle d;
          session = check_registered_session (rq_session_tty req) (rq_uid req) d;
          ctx = request_to_ctx req (cb_roles compiled) session
      in case evaluate (wd_eval w) compiled ctx of
           Pass \<Rightarrow> (build_not_managed_result req epoch, req, d)
         | NoMatchManaged \<Rightarrow> (build_no_match_result epoch, ensure_program_hash w req, d)
         | Matched r \<Rightarrow>
             (let req1 = (if \<not> is_silent_io (cr_ticket_profile r) then ensure_program_hash w req else req);
                  (res, d1) = apply_matched_rule w r req1 epoch d
              in (res, req1, d1)))"

section \<open>The answer\<close>

text \<open>\<open>send_approve\<close> followed by \<open>send_ticket_add\<close>, the first result being ignored.\<close>

definition approve_then_ticket :: "u64 \<Rightarrow> ticket_payload \<Rightarrow> daemon \<Rightarrow> string option \<times> daemon" where
  "approve_then_ticket tid t d = send_ticket_add t (snd (send_approve tid d))"

definition hydrate_approved :: "request \<Rightarrow> approved_ticket \<Rightarrow> approved_ticket" where
  "hydrate_approved req a =
     a\<lparr>at_origin_program := rq_raw_program req, at_origin_program_sha256 := rq_prog_sha256 req,
       at_origin_script := rq_raw_script req, at_object := rq_raw_target req,
       at_new_object := rq_raw_new_target req, at_uid := rq_uid req,
       at_origin_program_id := entity (rq_prog_dev req) (rq_prog_ino req),
       at_origin_script_id := Some (entity (rq_script_dev req) (rq_script_ino req)),
       at_origin_applet := rq_raw_applet req,
       at_object_id := entity (rq_target_dev req) (rq_target_ino req),
       at_new_object_id :=
         (if rq_new_target_dev req \<noteq> 0 \<or> rq_new_target_ino req \<noteq> 0
          then Some (entity (rq_new_target_dev req) (rq_new_target_ino req)) else None),
       at_op_mask := to_mask (case action_parse (rq_raw_action req) of Inr x \<Rightarrow> x | Inl _ \<Rightarrow> Unknown)\<rparr>"

definition reply_to_kernel ::
  "request \<Rightarrow> policy_result \<Rightarrow> daemon \<Rightarrow> string option \<times> policy_result \<times> daemon" where
  "reply_to_kernel req res d =
     (let taken = res\<lparr>pr_ticket := None\<rparr>
      in case pr_decision res of
           PdNotManaged \<Rightarrow>
             (case pr_ticket res of
                Some t \<Rightarrow> (let (e, d1) = approve_then_ticket (rq_id req) t d in (e, taken, d1))
              | None \<Rightarrow> (let (e, d1) = send_approve (rq_id req) d in (e, res, d1)))
         | PdAllow \<Rightarrow>
             (case pr_ticket res of
                Some t \<Rightarrow>
                  (case from_result_with_req taken t req d of
                     None \<Rightarrow> (Some ''Failed to create ApprovedTicket'', taken, d)
                   | Some approved \<Rightarrow>
                       (case send_approve (rq_id req) d of
                          (Some e, d1) \<Rightarrow> (Some e, taken, d1)
                        | (None, d1) \<Rightarrow>
                            (case send_ticket_add t d1 of
                               (Some e, d2) \<Rightarrow> (Some e, taken, d2)
                             | (None, d2) \<Rightarrow>
                                 (None, taken,
                                  d2\<lparr>d_active := hm_insert (at_ticket_id approved) approved (d_active d2)\<rparr>))))
              | None \<Rightarrow> (let (e, d1) = send_approve (rq_id req) d in (e, res, d1)))
         | PdApproved a \<Rightarrow>
             (let a1 = hydrate_approved req a; res1 = res\<lparr>pr_decision := PdApproved a1\<rparr>;
                  d1 = d\<lparr>d_active := hm_insert (at_ticket_id a1) a1 (d_active d)\<rparr>
              in case pr_ticket res of
                   Some t \<Rightarrow>
                     (let (e, d2) = approve_then_ticket (rq_id req) t d1
                      in (e, res1\<lparr>pr_ticket := None\<rparr>, d2))
                 | None \<Rightarrow> (let (e, d2) = send_approve (rq_id req) d1 in (e, res1, d2)))
         | PdAuditOnly \<Rightarrow> (let (e, d1) = send_approve (rq_id req) d in (e, res, d1))
         | PdNeedApproval \<Rightarrow> (None, res, d)
         | PdDeny \<Rightarrow> (let (e, d1) = send_deny (rq_id req) d in (e, res, d1))
         | PdNoRuleMatched \<Rightarrow> (let (e, d1) = send_deny (rq_id req) d in (e, res, d1)))"

text \<open>
  One iteration of \<open>decision_worker_loop\<close>: when the reply fails, a denial is queued as well. The
  reported event carries the request, where the source keeps its debug rendering.
\<close>

definition decision_worker_step :: "world \<Rightarrow> teal_req \<Rightarrow> daemon \<Rightarrow> daemon" where
  "decision_worker_step w nl_req d =
     (let (res, req, d1) = process_policy_decision w (from_enforce_teal_req nl_req) d;
          issued = (case pr_ticket res of Some t \<Rightarrow> Some (tk_ticket_id t) | None \<Rightarrow> None);
          (err, res1, d2) = reply_to_kernel req res d1;
          d3 = (if err \<noteq> None then snd (send_deny (rq_id req) d2) else d2)
      in d3\<lparr>d_events := d_events d3 @
           [IeResolved nl_req req (pr_decision res1) (pr_rule_id res1) issued (pr_current_epoch res1)]\<rparr>)"

fun decision_worker_loop :: "world \<Rightarrow> teal_req list \<Rightarrow> daemon \<Rightarrow> daemon" where
  "decision_worker_loop w [] d = d"
| "decision_worker_loop w (m # ms) d = decision_worker_loop w ms (decision_worker_step w m d)"

section \<open>A sample request\<close>

definition sample_req :: "string \<Rightarrow> string \<Rightarrow> teal_req" where
  "sample_req act target =
     \<lparr>tr_trans_id = 7, tr_pid = 100, tr_ppid = 1, tr_session_id = 1, tr_uid = 1000, tr_gid = 1000,
      tr_prog_dev = 1, tr_prog_ino = 2, tr_program = ''/bin/cat'', tr_action = act,
      tr_target_dev = 1, tr_target_ino = 3, tr_target = target, tr_new_target_dev = 0,
      tr_new_target_ino = 0, tr_new_target = [], tr_script_dev = 0, tr_script_ino = 0,
      tr_script = [], tr_applet = [], tr_lsm_label = [], tr_args_head = [], tr_flags = 0,
      tr_session_tty = ''-''\<rparr>"

end
