(* ===== verification/Bundle_Dir.thy ===== *)
theory Bundle_Dir
  imports Load Rust_Utf8 "HOL-Library.List_Lexorder" "HOL-Library.Char_ord"
begin

text \<open>
  The file half of \<open>bundle.rs\<close>: loading a bundle from its directory and the hash of a policy
  directory that an approved policy update is tied to. The schema of \<open>bundle.json\<close>, its
  deserialisation and SHA-256 are parameters; the directory is a tree of files.
\<close>

section \<open>Loading a bundle\<close>

record bundle_loader =
  bd_loader :: loader
  bd_validate_bundle :: "json \<Rightarrow> load_error + unit"
  bd_bundle_from_value :: "json \<Rightarrow> load_error + raw_bundle"

definition load_bundle_from_dir ::
  "platform \<Rightarrow> bundle_loader \<Rightarrow> path \<Rightarrow> load_error + compiled_bundle" where
  "load_bundle_from_dir pf bl base =
     (let bundle_path = path_join base ''bundle.json''; roles_path = path_join base ''roles.json'';
          policies_dir = path_join base ''policies''; ld = bd_loader bl
      in bindR (with_context (''load bundle json: '' @ bundle_path) (ld_json_file ld bundle_path)) (\<lambda>v.
         bindR (with_context (''bundle schema validation failed: '' @ bundle_path)
                  (bd_validate_bundle bl v)) (\<lambda>_.
         bindR (with_context (''deserialize bundle raw struct failed: '' @ bundle_path)
                  (bd_bundle_from_value bl v)) (\<lambda>raw.
         bindR (with_context (''load_roles failed: '' @ roles_path) (load_roles pf ld roles_path))
           (\<lambda>(roles, warnings).
         bindR (with_context ''load policies from bundle''
                  (load_policies_listed_in_bundle pf ld raw roles policies_dir)) (\<lambda>(policy, w2).
           Inr \<lparr>cb_policy = policy, cb_roles = cro_core roles,
                cb_warnings = extend_warnings warnings w2\<rparr>))))))"

text \<open>A bundle that loads is well-formed in all its parts.\<close>

lemma loaded_bundle:
  assumes "load_bundle_from_dir pf bl base = Inr b"
  shows "policy_wf (cb_policy b) \<and> scope_complete (cb_policy b) \<and>
    (\<exists>raw ws. compile_roles_v1 pf raw = Inr (cb_roles b, ws))"
proof -
  from assms obtain raw roles ws policy w2 where
    r: "load_roles pf (bd_loader bl) (path_join base ''roles.json'') = Inr (roles, ws)"
    and p: "load_policies_listed_in_bundle pf (bd_loader bl) raw roles (path_join base ''policies'') =
      Inr (policy, w2)"
    and b: "cb_policy b = policy" "cb_roles b = cro_core roles"
    by (auto simp: load_bundle_from_dir_def Let_def bindR_eq_Inr with_context_Inr)
  from p obtain rest where run: "foldR (bundle_step pf (bd_loader bl) roles (path_join base ''policies''))
      (rb_policy_files raw) (None, []) = Inr (Some policy, rest)"
    by (auto simp: load_policies_listed_in_bundle_def bindR_eq_Inr ok_or_eq_Inr)
  then have "bundle_inv pf (bd_loader bl) roles (path_join base ''policies'') (rb_policy_files raw)
      (Some policy, rest)"
    by (rule foldR_invariant_prefix) (auto simp: bundle_inv_def [of _ _ _ _ "[]"] intro: bundle_step_inv)
  then have "policy_wf policy \<and> scope_complete policy" by (simp add: bundle_inv_def) blast
  moreover from r have "\<exists>raw ws. compile_roles_v1 pf raw = Inr (cro_core roles, ws)"
    by (auto simp: load_roles_def bindR_eq_Inr with_context_Inr map_err_eq_Inr) blast
  ultimately show ?thesis by (simp add: b)
qed

section \<open>The hash of a directory\<close>

text \<open>\<open>None\<close> stands for a file or directory that cannot be read.\<close>

datatype fs_node =
    FsFile "string option"
  | FsDir "(string \<times> fs_node) list option"
  | FsOther

definition is_hidden :: "string \<Rightarrow> bool" where
  "is_hidden name \<longleftrightarrow> utf8_valid name \<and> prefix ''.'' name"

text \<open>\<open>Path::extension\<close> of a file name: what follows the last dot, if anything precedes it.\<close>

definition file_extension :: "string \<Rightarrow> string option" where
  "file_extension name =
     (let after = rev (takeWhile (\<lambda>c. c \<noteq> CHR ''.'') (rev name));
          before = rev (drop 1 (dropWhile (\<lambda>c. c \<noteq> CHR ''.'') (rev name)))
      in if CHR ''.'' \<notin> set name \<or> before = [] \<or> name = ''..'' then None else Some after)"

text \<open>The collected files: the names below the base directory, and the contents.\<close>

fun collect_node :: "string list \<Rightarrow> fs_node \<Rightarrow> string + (string list \<times> string option) list"
  and collect_entries :: "string list \<Rightarrow> (string \<times> fs_node) list \<Rightarrow>
    string + (string list \<times> string option) list" where
  "collect_node dir (FsDir (Some entries)) = collect_entries dir entries"
| "collect_node dir (FsDir None) = Inl ''Failed to read dir''"
| "collect_node dir (FsFile content) =
     (if dir \<noteq> [] \<and> file_extension (last dir) = Some ''json'' then Inr [(dir, content)] else Inr [])"
| "collect_node dir FsOther = Inr []"
| "collect_entries dir [] = Inr []"
| "collect_entries dir ((name, node) # es) =
     (if is_hidden name then collect_entries dir es
      else bindR (collect_node (dir @ [name]) node) (\<lambda>fs.
        bindR (collect_entries dir es) (\<lambda>gs. Inr (fs @ gs))))"

definition collect_policy_files :: "fs_node option \<Rightarrow> string + (string list \<times> string option) list" where
  "collect_policy_files dir =
     (case dir of
        None \<Rightarrow> Inr []
      | Some (FsDir es) \<Rightarrow> collect_node [] (FsDir es)
      | Some _ \<Rightarrow> Inl ''Failed to read dir'')"

definition hash_step :: "string list \<times> string option \<Rightarrow> string \<Rightarrow> string + string" where
  "hash_step f acc =
     (case snd f of None \<Rightarrow> Inl ''Failed to read policy file'' | Some content \<Rightarrow> Inr (acc @ content))"

text \<open>The hasher is fed the contents one after the other, in the order of the paths.\<close>

definition compute_directory_hash :: "(string \<Rightarrow> string) \<Rightarrow> fs_node option \<Rightarrow> string + string" where
  "compute_directory_hash sha256_hex dir =
     bindR (collect_policy_files dir) (\<lambda>files.
     bindR (foldR hash_step (sort_key fst files) []) (\<lambda>bytes. Inr (sha256_hex bytes)))"

lemma hash_contents:
  "foldR hash_step fs acc =
     (if \<forall>f \<in> set fs. snd f \<noteq> None then Inr (acc @ concat (map (\<lambda>f. the (snd f)) fs))
      else Inl ''Failed to read policy file'')"
  by (induction fs arbitrary: acc) (auto simp: hash_step_def split: option.splits)

section \<open>Sample directories\<close>

text \<open>Two policy directories that install different policies.\<close>

definition policy_tree :: "string \<Rightarrow> string \<Rightarrow> fs_node" where
  "policy_tree a b = FsDir (Some
     [(''bundle.json'', FsFile (Some ''{}'')), (''.stage.lock'', FsFile (Some ''x'')),
      (''policies'', FsDir (Some [(a, FsFile (Some ''{A}'')), (b, FsFile (Some ''{B}''))]))])"

text \<open>
  The hash an approved policy update is tied to does not bind the names of the files: renaming
  the files of a staged policy, as long as their order stays the same, keeps the hash whatever the
  hash function is, so a directory in which other files are in force passes the check.
\<close>

theorem directory_hash_ignores_names:
  "compute_directory_hash sha (Some (policy_tree ''10-base.json'' ''20-site.json'')) =
     compute_directory_hash sha (Some (policy_tree ''11-site.json'' ''12-base.json'')) \<and>
   policy_tree ''10-base.json'' ''20-site.json'' \<noteq> policy_tree ''11-site.json'' ''12-base.json'' \<and>
   compute_directory_hash sha (Some (policy_tree ''10-base.json'' ''20-site.json'')) = Inr (sha ''{}{A}{B}'')"
proof -
  have h: "is_hidden s \<longleftrightarrow> False" if "s \<noteq> []" "hd s \<noteq> CHR ''.''" for s
    using that by (cases s) (auto simp: is_hidden_def)
  have l: "is_hidden ''.stage.lock''"
    unfolding is_hidden_def by (intro conjI utf8_valid_ascii) (auto simp: byte_def)
  have "collect_policy_files (Some (policy_tree a b)) =
      Inr [([''bundle.json''], Some ''{}''), ([''policies'', a], Some ''{A}''), ([''policies'', b], Some ''{B}'')]"
    if "a \<noteq> []" "hd a \<noteq> CHR ''.''" "b \<noteq> []" "hd b \<noteq> CHR ''.''"
      "file_extension a = Some ''json''" "file_extension b = Some ''json''" for a b
    using that by (simp add: collect_policy_files_def policy_tree_def h l) (simp add: file_extension_def)
  then show ?thesis
    by (simp add: compute_directory_hash_def file_extension_def hash_step_def) (simp add: policy_tree_def)
qed

end
