(* ===== verification/Admin_Mgmt.thy ===== *)
theory Admin_Mgmt
  imports Decision Bundle_Dir
begin

text \<open>
  The execution of management commands in \<open>worker/admin.rs\<close>: start, stop, policy update and flush.
  The record \<open>adm\<close> adds to \<open>world\<close> what these handlers take from outside: the staged directory
  and its loader, the results of the file operations, the kernel's answer to an epoch
  synchronisation, account names and BLS. A handler runs as one step here; \<open>MGMT_EXEC_LOCK\<close> keeps
  management commands apart.
\<close>

section \<open>The environment\<close>

record adm =
  ax_world :: world
  ax_platform :: platform
  ax_account_name :: "u32 \<Rightarrow> string option"
  ax_uuid :: string
  ax_stage_tree :: "fs_node option"
  ax_sha256_hex :: "string \<Rightarrow> string"
  ax_loader :: bundle_loader
  ax_show_error :: "load_error \<Rightarrow> string"
  ax_backup_dir :: path
  ax_create_dir_all :: "path \<Rightarrow> string + unit"
  ax_rename :: "path \<Rightarrow> path \<Rightarrow> string + unit"
  ax_epoch_ack :: "u32 \<Rightarrow> string + unit"
  ax_public_key_ok :: "string \<Rightarrow> string + unit"
  ax_signature_bytes_ok :: "string \<Rightarrow> string + unit"
  ax_bls_verify :: "string \<Rightarrow> string \<Rightarrow> string \<Rightarrow> bool"
  ax_status_text :: "daemon \<Rightarrow> string"
  ax_netlink_status_text :: string

text \<open>\<open>resolve_account\<close>: the name of the user, or the number; the cache of names is not modelled.\<close>

definition resolve_account :: "adm \<Rightarrow> u32 \<Rightarrow> string" where
  "resolve_account ax uid = (case ax_account_name ax uid of Some n \<Rightarrow> n | None \<Rightarrow> show_u32 uid)"

definition line :: "string \<Rightarrow> string" where
  "line s = s @ [CHR 0x0A]"

definition DEFAULT_TEAL_DIR :: path where
  "DEFAULT_TEAL_DIR = ''/etc/teal.d''"

definition STAGE_TEAL_DIR :: path where
  "STAGE_TEAL_DIR = ''/etc/teal.d/new''"

text \<open>A management command fails, succeeds at an epoch, or the process exits.\<close>

datatype mgmt_result = MrErr string | MrOk u32 | MrExit

section \<open>Clearing\<close>

definition clear_ephemeral_state_for_enforce :: "daemon \<Rightarrow> daemon" where
  "clear_ephemeral_state_for_enforce d =
     d\<lparr>d_drafts := [], d_active := [], d_pending := [], d_pending_ctl := None\<rparr>"

definition invalidate_old_approvals :: "daemon \<Rightarrow> daemon" where
  "invalidate_old_approvals d =
     d\<lparr>d_drafts := [], d_approved := [], d_pending := [], d_pending_ctl := None, d_active := []\<rparr>"

section \<open>Start and stop\<close>

fun deny_all :: "u64 list \<Rightarrow> daemon \<Rightarrow> daemon" where
  "deny_all [] d = d"
| "deny_all (i # is) d = deny_all is (snd (send_deny i d))"

definition execute_start :: "adm \<Rightarrow> daemon \<Rightarrow> mgmt_result \<times> daemon" where
  "execute_start ax d =
     (case send_mode_switch 1 d of
        (Some e, d1) \<Rightarrow> (MrErr e, d1)
      | (None, d1) \<Rightarrow>
          (let ids = hm_keys (d_pending d1);
               d2 = (clear_ephemeral_state_for_enforce d1)\<lparr>d_is_flushed := False, d_mode := Enforce\<rparr>;
               d3 = preload_silent_directory_tickets (ax_world ax) (deny_all ids d2)
           in (MrOk (d_epoch d3), d3)))"

definition execute_stop :: "daemon \<Rightarrow> mgmt_result \<times> daemon" where
  "execute_stop d =
     (case send_mode_switch 0 d of
        (Some e, d1) \<Rightarrow> (MrErr e, d1)
      | (None, d1) \<Rightarrow>
          (let d2 = (clear_ephemeral_state_for_enforce d1)\<lparr>d_mode := Audit\<rparr>
           in (MrOk (d_epoch d2), d2)))"

section \<open>Synchronising the kernel\<close>

text \<open>\<open>send_sync_epoch\<close>: queue the request, then wait for the kernel's acknowledgement.\<close>

definition send_sync_epoch :: "adm \<Rightarrow> u32 \<Rightarrow> daemon \<Rightarrow> (string + unit) \<times> daemon" where
  "send_sync_epoch ax epoch d =
     (case enqueue (NsSyncEpoch epoch) ''Failed to queue SYNC_EPOCH'' d of
        (Some e, d1) \<Rightarrow> (Inl e, d1)
      | (None, d1) \<Rightarrow> (ax_epoch_ack ax epoch, d1))"

definition synchronize_kernel_epoch :: "adm \<Rightarrow> u32 \<Rightarrow> daemon \<Rightarrow> (string + unit) \<times> daemon" where
  "synchronize_kernel_epoch ax epoch d =
     (let (r, d1) = send_sync_epoch ax epoch d
      in (map_err (\<lambda>e. ''send epoch '' @ show_u32 epoch @ '': '' @ e) r, d1))"

section \<open>Policy update\<close>

record prepared_policy_update =
  pp_old_epoch :: u32
  pp_new_epoch :: u32
  pp_new_bundle :: compiled_bundle
  pp_new_management :: compiled_management
  pp_backup_dir :: path

definition validate_staged_policy :: "adm \<Rightarrow> string \<Rightarrow> string + unit" where
  "validate_staged_policy ax expected_hash =
     bindR (map_err (\<lambda>e. ''staged policy hash failed: '' @ e)
              (compute_directory_hash (ax_sha256_hex ax) (ax_stage_tree ax))) (\<lambda>actual.
       if actual \<noteq> expected_hash then Inl ''TOCTOU validation failed: hash mismatch'' else Inr ())"

definition compile_staged_bundle :: "adm \<Rightarrow> string + compiled_bundle" where
  "compile_staged_bundle ax =
     map_err (\<lambda>e. ''staged bundle compilation failed: '' @ ax_show_error ax e)
       (load_bundle_from_dir (ax_platform ax) (ax_loader ax) STAGE_TEAL_DIR)"

definition prepare_policy_update :: "adm \<Rightarrow> string \<Rightarrow> daemon \<Rightarrow> string + prepared_policy_update" where
  "prepare_policy_update ax target_hash d =
     (let old_epoch = d_epoch d
      in bindR (ok_or (checked_inc old_epoch) ''epoch overflow'') (\<lambda>new_epoch.
         bindR (validate_staged_policy ax target_hash) (\<lambda>_.
         bindR (compile_staged_bundle ax) (\<lambda>new_bundle.
         bindR (map_err (\<lambda>e. ''staged management validation failed: '' @ ax_show_error ax e)
                  (prepare_management (bd_loader (ax_loader ax))
                     (path_join STAGE_TEAL_DIR ''management.json'') (cb_roles new_bundle)))
           (\<lambda>(new_management, _).
            Inr \<lparr>pp_old_epoch = old_epoch, pp_new_epoch = new_epoch, pp_new_bundle = new_bundle,
                 pp_new_management = new_management, pp_backup_dir = ax_backup_dir ax\<rparr>)))))"

text \<open>What \<open>/etc/teal.d\<close> holds after the attempt to switch it.\<close>

datatype policy_dir = OldPolicy | NewPolicy | NoPolicy

definition switch_policy_directory ::
  "adm \<Rightarrow> prepared_policy_update \<Rightarrow> (string + unit) \<times> policy_dir" where
  "switch_policy_directory ax u =
     (let backup = pp_backup_dir u; base = DEFAULT_TEAL_DIR; stage_child = path_join backup ''new''
      in case ax_create_dir_all ax ''/var/lib/teal/epochs'' of
           Inl e \<Rightarrow> (Inl (''create backup parent: '' @ e), OldPolicy)
         | Inr _ \<Rightarrow>
             (case ax_rename ax base backup of
                Inl e \<Rightarrow> (Inl (''backup current policy: '' @ e), OldPolicy)
              | Inr _ \<Rightarrow>
                  (case ax_rename ax stage_child base of
                     Inr _ \<Rightarrow> (Inr (), NewPolicy)
                   | Inl e \<Rightarrow>
                       (case ax_rename ax backup base of
                          Inl rollback \<Rightarrow>
                            (Inl (''FATAL: apply failed ('' @ e @ ''), rollback failed ('' @ rollback @ '')''),
                             NoPolicy)
                        | Inr _ \<Rightarrow> (Inl (''apply staged policy: '' @ e), OldPolicy)))))"

definition commit_policy_snapshot ::
  "compiled_bundle \<Rightarrow> u32 \<Rightarrow> u32 \<Rightarrow> daemon \<Rightarrow> string + (u32 \<times> daemon)" where
  "commit_policy_snapshot new_bundle expected_old expected_new d =
     (if d_epoch d \<noteq> expected_old then Inl ''policy epoch changed during update''
      else bindR (update_bundle new_bundle expected_old d) (\<lambda>(actual, d1).
        if actual \<noteq> expected_new then
          Inl (''unexpected committed epoch '' @ show_u32 actual @ '' != '' @ show_u32 expected_new)
        else Inr (actual, d1)))"

text \<open>The gate taken at the start is released on every return; an exit leaves it closed.\<close>

definition execute_policy_update ::
  "adm \<Rightarrow> string \<Rightarrow> daemon \<Rightarrow> mgmt_result \<times> policy_dir \<times> daemon" where
  "execute_policy_update ax target_hash d =
     (case begin_ticket_transition d of
        Inl e \<Rightarrow> (MrErr e, OldPolicy, d)
      | Inr d1 \<Rightarrow>
          (case prepare_policy_update ax target_hash d1 of
             Inl e \<Rightarrow> (MrErr e, OldPolicy, drop_transition_guard d1)
           | Inr u \<Rightarrow>
               (case switch_policy_directory ax u of
                  (Inl e, dir) \<Rightarrow> (MrErr e, dir, drop_transition_guard d1)
                | (Inr _, dir) \<Rightarrow>
                    (case synchronize_kernel_epoch ax (pp_new_epoch u) d1 of
                       (Inl _, d2) \<Rightarrow> (MrExit, dir, d2)
                     | (Inr _, d2) \<Rightarrow>
                         (case commit_policy_snapshot (pp_new_bundle u) (pp_old_epoch u) (pp_new_epoch u) d2 of
                            Inl _ \<Rightarrow> (MrExit, dir, d2)
                          | Inr (new_epoch, d3) \<Rightarrow>
                              (let d4 = commit_management (pp_new_management u) d3;
                                   d5 = drop_transition_guard (invalidate_old_approvals d4)
                               in (MrOk new_epoch, dir,
                                   preload_silent_directory_tickets (ax_world ax) d5)))))))"

section \<open>Flush\<close>

definition execute_flush :: "adm \<Rightarrow> daemon \<Rightarrow> mgmt_result \<times> daemon" where
  "execute_flush ax d =
     (case begin_ticket_transition d of
        Inl e \<Rightarrow> (MrErr e, d)
      | Inr d1 \<Rightarrow>
          (let old_epoch = d_epoch d1
           in case checked_inc old_epoch of
                None \<Rightarrow> (MrErr ''epoch overflow'', drop_transition_guard d1)
              | Some new_epoch \<Rightarrow>
                  (case synchronize_kernel_epoch ax new_epoch d1 of
                     (Inl _, d2) \<Rightarrow> (MrExit, d2)
                   | (Inr _, d2) \<Rightarrow>
                       (case advance_epoch old_epoch d2 of
                          Inl _ \<Rightarrow> (MrExit, d2)
                        | Inr (epoch, d3) \<Rightarrow>
                            (if epoch \<noteq> new_epoch then (MrExit, d3)
                             else
                               (let d4 = (clear_ephemeral_state_for_enforce (d3\<lparr>d_is_flushed := True\<rparr>))
                                          \<lparr>d_approved := []\<rparr>
                                in (MrOk epoch, drop_transition_guard d4)))))))"

section \<open>The common core\<close>

definition execute_mgmt_ctl_core ::
  "adm \<Rightarrow> mgmt_ctl_kind \<Rightarrow> string \<Rightarrow> u32 \<Rightarrow> daemon \<Rightarrow> mgmt_result \<times> daemon" where
  "execute_mgmt_ctl_core ax kind target_hash expected_epoch d =
     (if d_epoch d \<noteq> expected_epoch then
        (MrErr (''Policy epoch changed before management execution: expected='' @
                show_u32 expected_epoch @ '', current='' @ show_u32 (d_epoch d)), d)
      else case kind of
          CtlStart \<Rightarrow> execute_start ax d
        | CtlStop \<Rightarrow> execute_stop d
        | CtlPolicyUpdate \<Rightarrow>
            (case execute_policy_update ax target_hash d of (r, _, d') \<Rightarrow> (r, d'))
        | CtlFlush \<Rightarrow> execute_flush ax d)"

text \<open>The reply to the client and the event, unless the process has exited.\<close>

datatype admin_reply = Reply string "internal_event option" | Exited

definition execute_mgmt_ctl ::
  "adm \<Rightarrow> mgmt_ctl_kind \<Rightarrow> u32 \<Rightarrow> string \<Rightarrow> daemon \<Rightarrow> admin_reply \<times> daemon" where
  "execute_mgmt_ctl ax kind uid target_hash d =
     (let request_epoch = d_epoch d;
          (result, d1) = execute_mgmt_ctl_core ax kind target_hash request_epoch d
      in case result of
           MrOk epoch \<Rightarrow>
             (Reply (line (''OK '' @ ctl_kind_as_str kind @ '' executed (Epoch: '' @ show_u32 epoch @ '')''))
                (Some (IeCtlApproved
                   \<lparr>pc_kind = kind, pc_initiator_uid = uid, pc_initiator_user = resolve_account ax uid,
                    pc_audit_id = ax_uuid ax, pc_target_hash = target_hash, pc_epoch = request_epoch,
                    pc_mpa_state = default_mpa_state, pc_timeout_minutes = 0\<rparr>)), d1)
         | MrErr e \<Rightarrow> (Reply (line (''ERR '' @ ctl_kind_as_str kind @ '': '' @ e)) None, d1)
         | MrExit \<Rightarrow> (Exited, d1))"

section \<open>Who may ask\<close>

definition control_of :: "compiled_management \<Rightarrow> mgmt_ctl_kind \<Rightarrow> mgmt_control option" where
  "control_of mgmt kind =
     (case kind of
        CtlStart \<Rightarrow> Some (cm_start mgmt)
      | CtlStop \<Rightarrow> Some (cm_stop mgmt)
      | CtlPolicyUpdate \<Rightarrow> cm_policy_update mgmt
      | CtlFlush \<Rightarrow> cm_flush mgmt)"

definition create_mgmt_pending ::
  "adm \<Rightarrow> mgmt_ctl_kind \<Rightarrow> u32 \<Rightarrow> string \<Rightarrow> mgmt_mpa_enabled \<Rightarrow> daemon \<Rightarrow> admin_reply \<times> daemon" where
  "create_mgmt_pending ax kind uid target_hash mpa d =
     (case d_pending_ctl d of
        Some existing \<Rightarrow>
          (Reply (line (''ERR '' @ ctl_kind_as_str (pc_kind existing) @ '' is already pending'')) None, d)
      | None \<Rightarrow>
          (Reply (line ''PENDING'') None,
           d\<lparr>d_pending_ctl := Some
             \<lparr>pc_kind = kind, pc_initiator_uid = uid, pc_initiator_user = resolve_account ax uid,
              pc_audit_id = ax_uuid ax, pc_target_hash = target_hash, pc_epoch = d_epoch d,
              pc_mpa_state =
                \<lparr>mp_threshold = mme_threshold mpa, mp_required_roles = mme_approver_roles mpa,
                 mp_approvals = [], mp_aggregated = None\<rparr>,
              pc_timeout_minutes = mme_timeout_minutes mpa\<rparr>\<rparr>))"

definition handle_mgmt_cmd ::
  "adm \<Rightarrow> mgmt_ctl_kind \<Rightarrow> compiled_management \<Rightarrow> u32 \<Rightarrow> string \<Rightarrow> daemon \<Rightarrow> admin_reply \<times> daemon" where
  "handle_mgmt_cmd ax kind mgmt uid target_hash d =
     (case (case control_of mgmt kind of Some c \<Rightarrow> mc_mpa c | None \<Rightarrow> MpaDisabled) of
        MpaDisabled \<Rightarrow> execute_mgmt_ctl ax kind uid target_hash d
      | MpaEnabled mpa \<Rightarrow> create_mgmt_pending ax kind uid target_hash mpa d)"

definition check_initiator_and_handle ::
  "adm \<Rightarrow> mgmt_ctl_kind \<Rightarrow> compiled_management \<Rightarrow> u32 \<Rightarrow> string \<Rightarrow> daemon \<Rightarrow> admin_reply \<times> daemon" where
  "check_initiator_and_handle ax kind mgmt uid target_hash d =
     (case control_of mgmt kind of
        None \<Rightarrow>
          (Reply (line (''ERR '' @ ctl_kind_as_str kind @ '' control is not configured in policy'')) None, d)
      | Some control \<Rightarrow>
          (if uid \<notin> set (mc_initiator_uids control) then
             (Reply (line (''ERR not permitted to '' @ ctl_kind_as_str kind)) None, d)
           else handle_mgmt_cmd ax kind mgmt uid target_hash d))"

end
