(* ===== verification/Rust_Text.thy ===== *)
theory Rust_Text
  imports Rust_Utf8 Engine_Types
begin

text \<open>
  More of \<open>str\<close>: splitting at white space, searching, hexadecimal digits.
\<close>

section \<open>split_whitespace\<close>

text \<open>The first argument is the word being read, reversed.\<close>

function split_ws :: "string \<Rightarrow> string \<Rightarrow> string list" where
  "split_ws cur s =
     (case s of
        [] \<Rightarrow> if cur = [] then [] else [rev cur]
      | c # cs \<Rightarrow>
          (case strip_any ws_seqs s of
             Some r \<Rightarrow> if cur = [] then split_ws [] r else rev cur # split_ws [] r
           | None \<Rightarrow> split_ws (c # cur) cs))"
  by pat_completeness auto
termination
  by (relation "measure (\<lambda>(cur, s). length s)") (auto dest: strip_any_shorter)

declare split_ws.simps [simp del]

definition split_whitespace :: "string \<Rightarrow> string list" where
  "split_whitespace s = split_ws [] s"

text \<open>A word of printable ASCII is read whole.\<close>

definition plain_word :: "string \<Rightarrow> bool" where
  "plain_word s \<longleftrightarrow> s \<noteq> [] \<and> list_all plain_byte s"

lemma strip_plain: "plain_byte c \<Longrightarrow> strip_any ws_seqs (c # cs) = None"
  using ws_seqs_heads by (fastforce simp: strip_any_None prefix_Cons neq_Nil_conv)

lemma strip_space: "strip_any ws_seqs (CHR '' '' # s) = Some s"
  by (simp add: ws_seqs_def)

lemma split_ws_plain:
  "list_all plain_byte s \<Longrightarrow> split_ws cur (s @ r) = split_ws (rev s @ cur) r"
proof (induction s arbitrary: cur)
  case (Cons c s)
  then show ?case by (subst split_ws.simps) (simp add: strip_plain)
qed simp

lemma split_ws_end: "split_ws cur [] = (if cur = [] then [] else [rev cur])"
  by (subst split_ws.simps) simp

lemma split_ws_space:
  "split_ws cur (CHR '' '' # r) = (if cur = [] then [] else [rev cur]) @ split_ws [] r"
  by (subst split_ws.simps) (simp add: strip_space)

lemma split_whitespace_words:
  assumes "list_all plain_word ws"
  shows "split_whitespace (join '' '' ws) = ws"
proof -
  have "split_ws [] (join '' '' ws) = ws"
    using assms
  proof (induction ws)
    case Nil
    then show ?case by (simp add: split_ws_end)
  next
    case (Cons s ws)
    then have s: "s \<noteq> []" "list_all plain_byte s" and IH: "split_ws [] (join '' '' ws) = ws"
      by (simp_all add: plain_word_def)
    show ?case
    proof (cases ws)
      case Nil
      then show ?thesis using split_ws_plain [OF s(2), of "[]" "[]"] s(1) by (simp add: split_ws_end)
    next
      case (Cons t ts)
      then show ?thesis using split_ws_plain [OF s(2), of "[]" "'' '' @ join '' '' (t # ts)"] s(1) IH
        by (simp add: split_ws_space)
    qed
  qed
  then show ?thesis by (simp add: split_whitespace_def)
qed

section \<open>Searching\<close>

text \<open>What follows the last occurrence of a character: \<open>rfind\<close> and the slice behind it.\<close>

definition after_last :: "char \<Rightarrow> string \<Rightarrow> string option" where
  "after_last c s = (if c \<in> set s then Some (rev (takeWhile (\<lambda>x. x \<noteq> c) (rev s))) else None)"

definition split_once :: "char \<Rightarrow> string \<Rightarrow> (string \<times> string) option" where
  "split_once c s =
     (if c \<in> set s then Some (takeWhile (\<lambda>x. x \<noteq> c) s, drop 1 (dropWhile (\<lambda>x. x \<noteq> c) s)) else None)"

lemma after_last_append: "c \<notin> set t \<Longrightarrow> after_last c (s @ c # t) = Some t"
proof -
  assume "c \<notin> set t"
  then have "takeWhile (\<lambda>x. x \<noteq> c) (rev t @ c # rev s) = rev t"
    by (subst takeWhile_append2) auto
  then show ?thesis by (simp add: after_last_def)
qed

end
