(* ===== verification/Admin_Approval.thy ===== *)
theory Admin_Approval
  imports Admin_Mgmt Rust_Text
begin

text \<open>
  Approvals, denials and ticket requests in \<open>worker/admin.rs\<close>, and the dispatch of a connection to
  the management socket. The finalisation of an approval takes the lock again after the vote was
  recorded; both phases are definitions of their own, run back to back by \<open>process_approval\<close>.
\<close>

section \<open>Signed commands\<close>

datatype decision_kind = DkApprove | DkDeny | DkTicket | DkStart | DkStop | DkPolicyUpdate

fun decision_kind_as_str :: "decision_kind \<Rightarrow> string" where
  "decision_kind_as_str DkApprove = ''APPROVE''"
| "decision_kind_as_str DkDeny = ''DENY''"
| "decision_kind_as_str DkTicket = ''TICKET''"
| "decision_kind_as_str DkStart = ''START''"
| "decision_kind_as_str DkStop = ''STOP''"
| "decision_kind_as_str DkPolicyUpdate = ''POLICY_UPDATE''"

definition has_id_arg :: "decision_kind \<Rightarrow> bool" where
  "has_id_arg kind \<longleftrightarrow>
     kind = DkApprove \<or> kind = DkDeny \<or> kind = DkTicket \<or> kind = DkPolicyUpdate"

definition is_mgmt_decision :: "decision_kind \<Rightarrow> string \<Rightarrow> bool" where
  "is_mgmt_decision kind i \<longleftrightarrow> (kind = DkApprove \<or> kind = DkDeny) \<and> is_mgmt_id i"

text \<open>\<open>it.next()\<close> on the words that are left.\<close>

definition next_word :: "string list \<Rightarrow> string option \<times> string list" where
  "next_word ws = (case ws of [] \<Rightarrow> (None, []) | x # xs \<Rightarrow> (Some x, xs))"

definition parse_args :: "string \<Rightarrow> decision_kind \<Rightarrow> u32 \<Rightarrow> string + signed_cmd_args" where
  "parse_args cmd kind uid =
     (let (head, w1) = next_word (split_whitespace cmd)
      in if (case head of Some h \<Rightarrow> h | None \<Rightarrow> []) \<noteq> decision_kind_as_str kind then
           Inl (line (''ERR bad cmd head (expected '' @ decision_kind_as_str kind @ '')''))
         else
           bindR (if has_id_arg kind then
                    (let (x, w2) = next_word w1
                     in bindR (ok_or x (line ''ERR missing id'')) (\<lambda>i. Inr (i, w2)))
                  else Inr ([], w1)) (\<lambda>(i, w2).
           bindR (if is_mgmt_decision kind i then
                    (let (x, w3) = next_word w2
                     in bindR (ok_or x (line ''ERR missing audit_id'')) (\<lambda>a. Inr (Some a, w3)))
                  else Inr (None, w2)) (\<lambda>(audit_id, w3).
             let (x, w4) = next_word w3
             in bindR (ok_or x (line ''ERR missing signature'')) (\<lambda>sig_hex.
                  if fst (next_word w4) \<noteq> None then Inl (line ''ERR too many args'')
                  else Inr \<lparr>sa_id = i, sa_uid = uid, sa_account = [], sa_sig_hex = sig_hex,
                            sa_audit_id = audit_id\<rparr>))))"

definition fetch_public_key :: "u32 \<Rightarrow> daemon \<Rightarrow> string + string" where
  "fetch_public_key uid d =
     ok_or (hm_get (d_registered_keys d) uid) (line ''ERR user not registered'')"

definition decision_message :: "decision_kind \<Rightarrow> signed_cmd_args \<Rightarrow> string + string" where
  "decision_message kind args =
     (if is_mgmt_decision kind (sa_id args) then
        bindR (ok_or (sa_audit_id args) ''Missing audit_id'') (\<lambda>audit_id.
          Inr (decision_kind_as_str kind @ '':'' @ sa_id args @ '':'' @ audit_id))
      else Inr (decision_kind_as_str kind @ '':'' @ sa_id args))"

definition verify_signature_message :: "adm \<Rightarrow> string \<Rightarrow> string \<Rightarrow> string \<Rightarrow> string + unit" where
  "verify_signature_message ax pubkey_hex msg sig_hex =
     bindR (map_err (\<lambda>_. ''Invalid public key hex format'') (wd_hex_decode (ax_world ax) pubkey_hex)) (\<lambda>pub_bytes.
     bindR (map_err (\<lambda>e. ''Invalid public key bytes: '' @ e) (ax_public_key_ok ax pub_bytes)) (\<lambda>_.
     bindR (map_err (\<lambda>_. ''Invalid signature hex format'') (wd_hex_decode (ax_world ax) sig_hex)) (\<lambda>sig_bytes.
     bindR (map_err (\<lambda>e. ''Invalid signature bytes: '' @ e) (ax_signature_bytes_ok ax sig_bytes)) (\<lambda>_.
       if ax_bls_verify ax pub_bytes msg sig_bytes then Inr ()
       else Inl ''Invalid BLS signature verification failed''))))"

definition verify_request :: "adm \<Rightarrow> string \<Rightarrow> decision_kind \<Rightarrow> signed_cmd_args \<Rightarrow> string + unit" where
  "verify_request ax pubkey_hex kind args =
     bindR (decision_message kind args) (\<lambda>message.
       map_err (\<lambda>_. line ''ERR invalid signature'')
         (verify_signature_message ax pubkey_hex message (sa_sig_hex args)))"

definition fetch_pubkey_and_verify ::
  "adm \<Rightarrow> u32 \<Rightarrow> decision_kind \<Rightarrow> signed_cmd_args \<Rightarrow> daemon \<Rightarrow> string + unit" where
  "fetch_pubkey_and_verify ax uid kind args d =
     bindR (fetch_public_key uid d) (\<lambda>key. verify_request ax key kind args)"

definition handle_register :: "string \<Rightarrow> u32 \<Rightarrow> daemon \<Rightarrow> admin_reply \<times> daemon" where
  "handle_register cmd uid d =
     (case split_whitespace cmd of
        [] \<Rightarrow> (Reply (line ''ERR bad cmd head (expected REGISTER)'') None, d)
      | head # rest \<Rightarrow>
          (if head \<noteq> ''REGISTER'' then (Reply (line ''ERR bad cmd head (expected REGISTER)'') None, d)
           else case rest of
               [h] \<Rightarrow>
                 (let hex = rust_trim h
                  in if hex = [] \<or> \<not> list_all is_ascii_hexdigit hex then
                       (Reply (line ''Invalid pubkey (expected hex)'') None, d)
                     else (Reply (line ''OK'') None,
                           d\<lparr>d_registered_keys := hm_insert uid hex (d_registered_keys d)\<rparr>))
             | _ \<Rightarrow> (Reply (line ''Usage: REGISTER <hex_pubkey>'') None, d)))"

section \<open>Recording an approval\<close>

definition is_draft_id :: "string \<Rightarrow> bool" where
  "is_draft_id i \<longleftrightarrow> prefix ''T-'' i"

definition check_fully_approved ::
  "world \<Rightarrow> daemon \<Rightarrow> signed_cmd_args \<Rightarrow> mpa_state \<Rightarrow> u32 \<Rightarrow> string + (bool \<times> mpa_state)" where
  "check_fully_approved w d args m expected_epoch =
     bindR (insert_approver w d args expected_epoch m) (\<lambda>m'. Inr (is_fulfilled m', m'))"

definition process_approve_entry ::
  "world \<Rightarrow> signed_cmd_args \<Rightarrow> daemon \<Rightarrow> string + (bool \<times> daemon)" where
  "process_approve_entry w args d =
     bindR (ok_or (parse_u64 (sa_id args)) ''ERR invalid pending id'') (\<lambda>i.
     bindR (ok_or (hm_get (d_pending d) i) ''ERR no such pending id'') (\<lambda>p.
     bindR (check_fully_approved w d args (pe_mpa_state p) (pe_policy_epoch p)) (\<lambda>(full, m).
       Inr (full, d\<lparr>d_pending := hm_insert i (p\<lparr>pe_mpa_state := m\<rparr>) (d_pending d)\<rparr>))))"

definition process_approve_draft ::
  "world \<Rightarrow> signed_cmd_args \<Rightarrow> daemon \<Rightarrow> string + (bool \<times> daemon)" where
  "process_approve_draft w args d =
     bindR (ok_or (hm_get (d_drafts d) (sa_id args)) ''ERR no such pending ticket'') (\<lambda>p.
       if d_epoch d \<noteq> dr_epoch p then Inl ''Policy epoch changed''
       else bindR (check_fully_approved w d args (dr_mpa_state p) (dr_epoch p)) (\<lambda>(full, m).
         Inr (full, d\<lparr>d_drafts := hm_insert (sa_id args) (p\<lparr>dr_mpa_state := m\<rparr>) (d_drafts d)\<rparr>)))"

definition process_approve_ctl ::
  "world \<Rightarrow> signed_cmd_args \<Rightarrow> daemon \<Rightarrow> string + (mgmt_pending_ctl option \<times> daemon)" where
  "process_approve_ctl w args d =
     bindR (ok_or (d_pending_ctl d) ''ERR no pending management command'') (\<lambda>p.
       if \<not> eq_ignore_ascii_case (sa_id args) (ctl_kind_as_str (pc_kind p)) then
         Inl ''Management command mismatch''
       else if sa_audit_id args \<noteq> Some (pc_audit_id p) then Inl ''Management audit_id mismatch''
       else bindR (check_fully_approved w d args (pc_mpa_state p) (pc_epoch p)) (\<lambda>(full, m).
         let p1 = p\<lparr>pc_mpa_state := m\<rparr>
         in if \<not> full then Inr (None, d\<lparr>d_pending_ctl := Some p1\<rparr>)
            else Inr (Some p1, d\<lparr>d_pending_ctl := None\<rparr>)))"

datatype approval_result = ArPending | ArCtlReady mgmt_pending_ctl | ArDraftReady | ArEntryReady

definition record_approval ::
  "world \<Rightarrow> signed_cmd_args \<Rightarrow> daemon \<Rightarrow> string + (approval_result \<times> daemon)" where
  "record_approval w args d =
     (if is_mgmt_id (sa_id args) then
        bindR (process_approve_ctl w args d) (\<lambda>(c, d1).
          Inr (case c of Some p \<Rightarrow> ArCtlReady p | None \<Rightarrow> ArPending, d1))
      else if is_draft_id (sa_id args) then
        bindR (process_approve_draft w args d) (\<lambda>(full, d1).
          Inr (if full then ArDraftReady else ArPending, d1))
      else
        bindR (process_approve_entry w args d) (\<lambda>(full, d1).
          Inr (if full then ArEntryReady else ArPending, d1)))"

section \<open>Finalising an approval\<close>

datatype ctl_final = CfErr string | CfEvent internal_event | CfExit

definition finalize_ctl_approval ::
  "adm \<Rightarrow> mgmt_pending_ctl \<Rightarrow> daemon \<Rightarrow> ctl_final \<times> daemon" where
  "finalize_ctl_approval ax c d =
     (if pc_epoch c \<noteq> d_epoch d then (CfErr ''Policy epoch changed'', d)
      else if \<not> is_fulfilled (pc_mpa_state c) then (CfErr ''MPA requirements are not fulfilled'', d)
      else case try_aggregate (ax_world ax) (pc_mpa_state c) of
          Inl e \<Rightarrow> (CfErr e, d)
        | Inr m \<Rightarrow>
            (let c1 = c\<lparr>pc_mpa_state := m\<rparr>;
                 (r, d1) = execute_mgmt_ctl_core ax (pc_kind c1) (pc_target_hash c1) (pc_epoch c1) d
             in case r of
                  MrErr e \<Rightarrow> (CfErr e, d1)
                | MrOk _ \<Rightarrow> (CfEvent (IeCtlApproved c1), d1)
                | MrExit \<Rightarrow> (CfExit, d1)))"

text \<open>\<open>finalize_draft_approval\<close>: take the draft out, make the ticket, put it in, under separate locks.\<close>

definition take_draft :: "string \<Rightarrow> daemon \<Rightarrow> pre_approval_draft option \<times> daemon" where
  "take_draft i d = (hm_get (d_drafts d) i, d\<lparr>d_drafts := hm_remove i (d_drafts d)\<rparr>)"

definition draft_to_ticket ::
  "world \<Rightarrow> pre_approval_draft \<Rightarrow> daemon \<Rightarrow> (pre_approval_draft \<times> approved_ticket) option" where
  "draft_to_ticket w dr d =
     (if d_mode d \<noteq> Enforce then None
      else case try_aggregate w (dr_mpa_state dr) of
          Inl _ \<Rightarrow> None
        | Inr m \<Rightarrow>
            (let dr1 = dr\<lparr>dr_mpa_state := m\<rparr>
             in case ticket_from_draft dr1 d of None \<Rightarrow> None | Some t \<Rightarrow> Some (dr1, t)))"

definition install_approved :: "pre_approval_draft \<Rightarrow> approved_ticket \<Rightarrow> daemon \<Rightarrow> daemon" where
  "install_approved dr t d = d\<lparr>d_approved := hm_insert (dr_draft_id dr) t (d_approved d)\<rparr>"

definition finalize_draft_approval ::
  "world \<Rightarrow> string \<Rightarrow> daemon \<Rightarrow> internal_event option \<times> daemon" where
  "finalize_draft_approval w i d =
     (case take_draft i d of
        (None, _) \<Rightarrow> (None, d)
      | (Some dr, d1) \<Rightarrow>
          (case draft_to_ticket w dr d1 of
             None \<Rightarrow> (None, d1)
           | Some (dr1, t) \<Rightarrow> (Some (IeMpaApproved dr1 t), install_approved dr1 t d1)))"

definition cache_outcome ::
  "pending_entry \<Rightarrow> daemon \<Rightarrow> (bool \<times> ticket_payload option \<times> string) \<times> daemon" where
  "cache_outcome e d =
     (case find_rule (Some (case pe_rule_id e of Some i \<Rightarrow> i | None \<Rightarrow> [])) d of
        Inr (Some r, epoch) \<Rightarrow>
          (case is_cacheable e r epoch d of
             (Inr t, d1) \<Rightarrow> (t, d1)
           | (Inl _, d1) \<Rightarrow> ((False, None, []), d1))
      | _ \<Rightarrow> ((False, None, []), d))"

definition send_entry_approval ::
  "u64 \<Rightarrow> bool \<Rightarrow> ticket_payload option \<Rightarrow> daemon \<Rightarrow> daemon" where
  "send_entry_approval i cacheable payload d =
     (if d_mode d = Enforce then
        (let d1 = snd (send_approve i d)
         in if cacheable then (case payload of Some t \<Rightarrow> snd (send_ticket_add t d1) | None \<Rightarrow> d1)
            else d1)
      else d)"

definition finalize_entry_approval ::
  "world \<Rightarrow> signed_cmd_args \<Rightarrow> daemon \<Rightarrow> internal_event option \<times> daemon" where
  "finalize_entry_approval w args d =
     (let i = (case parse_u64 (sa_id args) of Some v \<Rightarrow> v | None \<Rightarrow> 0);
          d1 = d\<lparr>d_pending := hm_remove i (d_pending d)\<rparr>
      in case hm_get (d_pending d) i of
           Some e \<Rightarrow>
             (let ((cacheable, payload, tid), d2) = cache_outcome e d1;
                  e1 = (case try_aggregate w (pe_mpa_state e) of
                          Inr m \<Rightarrow> e\<lparr>pe_mpa_state := m\<rparr> | Inl _ \<Rightarrow> e)
              in (Some (IeEntryApproved e1 cacheable tid), send_entry_approval i cacheable payload d2))
         | None \<Rightarrow> (None, send_entry_approval i False None d1))"

definition process_approval :: "adm \<Rightarrow> signed_cmd_args \<Rightarrow> daemon \<Rightarrow> admin_reply \<times> daemon" where
  "process_approval ax args d =
     (let w = ax_world ax;
          finish = (\<lambda>ev. case ev of
             Some e \<Rightarrow> Reply (line ''OK'') (Some e)
           | None \<Rightarrow> Reply (line ''ERR approval finalization failed'') None)
      in case record_approval w args d of
           Inl e \<Rightarrow> (Reply (line (''ERR '' @ e)) None, d)
         | Inr (ArPending, d1) \<Rightarrow> (Reply (line ''PENDING'') None, d1)
         | Inr (ArCtlReady c, d1) \<Rightarrow>
             (case finalize_ctl_approval ax c d1 of
                (CfEvent ev, d2) \<Rightarrow> (Reply (line ''OK'') (Some ev), d2)
              | (CfErr e, d2) \<Rightarrow> (Reply (line (''ERR '' @ e)) None, d2)
              | (CfExit, d2) \<Rightarrow> (Exited, d2))
         | Inr (ArDraftReady, d1) \<Rightarrow>
             (let (ev, d2) = finalize_draft_approval w (sa_id args) d1 in (finish ev, d2))
         | Inr (ArEntryReady, d1) \<Rightarrow>
             (let (ev, d2) = finalize_entry_approval w args d1 in (finish ev, d2)))"

section \<open>Denials\<close>

definition check_permission ::
  "u32 \<Rightarrow> string hset \<Rightarrow> u32 \<Rightarrow> daemon \<Rightarrow> string + (bool \<times> string hset)" where
  "check_permission uid required_roles expected_epoch d =
     (if d_epoch d \<noteq> expected_epoch then Inl (epoch_changed expected_epoch (d_epoch d))
      else (let user_roles = uid_roles_of d uid
            in Inr (\<exists>r \<in> set user_roles. r \<in> set required_roles, user_roles)))"

definition process_deny_ctl :: "signed_cmd_args \<Rightarrow> daemon \<Rightarrow> admin_reply \<times> daemon" where
  "process_deny_ctl args d =
     (case d_pending_ctl d of
        None \<Rightarrow> (Reply (line ''ERR no pending management command'') None, d)
      | Some p \<Rightarrow>
          (if \<not> eq_ignore_ascii_case (sa_id args) (ctl_kind_as_str (pc_kind p)) then
             (Reply (line (''ERR pending command is '' @ ctl_kind_as_str (pc_kind p) @ '', not '' @
                      sa_id args)) None, d)
           else if sa_audit_id args \<noteq> Some (pc_audit_id p) then
             (Reply (line ''ERR management audit_id mismatch'') None, d)
           else case check_permission (sa_uid args) (mp_required_roles (pc_mpa_state p)) (pc_epoch p) d of
               Inl e \<Rightarrow> (Reply (line (''ERR '' @ e)) None, d)
             | Inr (permitted, _) \<Rightarrow>
                 (if \<not> permitted then (Reply (line ''ERR user is not allowed to deny'') None, d)
                  else (Reply (line (''OK '' @ ctl_kind_as_str (pc_kind p) @ '' denied''))
                          (Some (IeCtlDenied p (sa_uid args))), d\<lparr>d_pending_ctl := None\<rparr>))))"

definition default_ticket :: approved_ticket where
  "default_ticket =
     \<lparr>at_ticket_id = [], at_epoch = 0, at_rule_id = [], at_origin_program = [],
      at_origin_script = None, at_object = [], at_new_object = None, at_uid = 0,
      at_origin_program_id = entity 0 0, at_origin_program_sha256 = None, at_origin_script_id = None,
      at_origin_applet = None, at_object_id = entity 0 0, at_new_object_id = None, at_op_mask = 0,
      at_ttl_sec = 0, at_max_uses = 0\<rparr>"

definition process_deny_draft :: "string \<Rightarrow> u32 \<Rightarrow> daemon \<Rightarrow> admin_reply \<times> daemon" where
  "process_deny_draft i uid d =
     (case hm_get (d_drafts d) i of
        None \<Rightarrow> (Reply (line ''ERR no such pending ticket'') None, d)
      | Some dr \<Rightarrow>
          (case check_permission uid (mp_required_roles (dr_mpa_state dr)) (dr_epoch dr) d of
             Inl e \<Rightarrow> (Reply (line (''ERR '' @ e)) None, d)
           | Inr (permitted, _) \<Rightarrow>
               (if \<not> permitted then (Reply (line ''ERR user are not allowed to deny'') None, d)
                else
                  (let ticket = (case hm_get (d_active d) i of Some t \<Rightarrow> t | None \<Rightarrow> default_ticket)
                   in (Reply (line ''DENIED'') (Some (IeDraftDenied dr ticket uid)),
                       d\<lparr>d_drafts := hm_remove i (d_drafts d), d_active := hm_remove i (d_active d)\<rparr>)))))"

definition process_deny_entry :: "signed_cmd_args \<Rightarrow> daemon \<Rightarrow> admin_reply \<times> daemon" where
  "process_deny_entry args d =
     (let i = (case parse_u64 (sa_id args) of Some v \<Rightarrow> v | None \<Rightarrow> 0)
      in case hm_get (d_pending d) i of
           None \<Rightarrow> (Reply (line ''ERR no such pending ticket'') None, d)
         | Some p \<Rightarrow>
             (case check_permission (sa_uid args) (mp_required_roles (pe_mpa_state p)) (pe_policy_epoch p) d of
                Inl e \<Rightarrow> (Reply (line (''ERR '' @ e)) None, d)
              | Inr (permitted, _) \<Rightarrow>
                  (if \<not> permitted then (Reply (line ''ERR user are not allowed to deny'') None, d)
                   else
                     (let d1 = d\<lparr>d_pending := hm_remove i (d_pending d)\<rparr>;
                          d2 = (if d_mode d1 = Enforce then snd (send_deny i d1) else d1)
                      in (Reply (line ''DENIED'') (Some (IeEntryDenied p (sa_uid args))), d2)))))"

definition process_deny :: "signed_cmd_args \<Rightarrow> daemon \<Rightarrow> admin_reply \<times> daemon" where
  "process_deny args d =
     (if is_mgmt_id (sa_id args) then process_deny_ctl args d
      else if is_draft_id (sa_id args) then process_deny_draft (sa_id args) (sa_uid args) d
      else process_deny_entry args d)"

section \<open>Asking for a ticket\<close>

definition is_allowed_user :: "u32 \<Rightarrow> compiled_rule \<Rightarrow> u32 \<Rightarrow> daemon \<Rightarrow> string + bool" where
  "is_allowed_user uid r expected_epoch d =
     (if d_epoch d \<noteq> expected_epoch then Inl (epoch_changed expected_epoch (d_epoch d))
      else
        (let m = cr_subject r; subject_roles = uid_roles_of d uid
         in if (case sm_uid m of Some u \<Rightarrow> uid \<noteq> u | None \<Rightarrow> False) then Inr False
            else if sm_required_roles m \<noteq> [] then
              Inr (\<exists>x \<in> set (sm_required_roles m). x \<in> set subject_roles)
            else Inr True))"

definition process_ticket :: "world \<Rightarrow> string \<Rightarrow> u32 \<Rightarrow> daemon \<Rightarrow> admin_reply \<times> daemon" where
  "process_ticket w i uid d =
     (let err = (\<lambda>e. Reply (line (''ERR '' @ e)) None);
          busy = err ''policy epoch transition in progress''
      in if d_transition d then (busy, d)
         else case find_rule (Some i) d of
             Inl e \<Rightarrow> (err e, d)
           | Inr (None, epoch) \<Rightarrow>
               (err (''Rule id='' @ i @ '' is None in policy epoch='' @ show_u32 epoch), d)
           | Inr (Some r, epoch) \<Rightarrow>
               (case is_ticketable r of
                  Inl e \<Rightarrow> (err e, d)
                | Inr _ \<Rightarrow>
                    (let (draft, d1) = draft_from_rule w r uid epoch d
                     in case is_allowed_user uid r epoch d1 of
                          Inl e \<Rightarrow> (err e, d1)
                        | Inr False \<Rightarrow> (err ''user is not allowed to ticket this rule'', d1)
                        | Inr True \<Rightarrow>
                            (if has_draft_for_rule (cr_id r) d1 then
                               (err ''ticket is already in waiting list for approval'', d1)
                             else if d_epoch d1 \<noteq> epoch \<or> d_transition d1 then (busy, d1)
                             else (Reply (line ''OK'') None,
                                   d1\<lparr>d_drafts := hm_insert (dr_draft_id draft) draft (d_drafts d1)\<rparr>)))))"

section \<open>A connection\<close>

definition apply_decision ::
  "adm \<Rightarrow> decision_kind \<Rightarrow> signed_cmd_args \<Rightarrow> daemon \<Rightarrow> admin_reply \<times> daemon" where
  "apply_decision ax kind args d =
     (case kind of
        DkApprove \<Rightarrow> process_approval ax args d
      | DkDeny \<Rightarrow> process_deny args d
      | DkTicket \<Rightarrow> process_ticket (ax_world ax) (sa_id args) (sa_uid args) d
      | DkStart \<Rightarrow> check_initiator_and_handle ax CtlStart (d_management d) (sa_uid args) [] d
      | DkStop \<Rightarrow> check_initiator_and_handle ax CtlStop (d_management d) (sa_uid args) [] d
      | DkPolicyUpdate \<Rightarrow>
          check_initiator_and_handle ax CtlPolicyUpdate (d_management d) (sa_uid args) (sa_id args) d)"

definition handle_signed_decision ::
  "adm \<Rightarrow> string \<Rightarrow> decision_kind \<Rightarrow> u32 \<Rightarrow> daemon \<Rightarrow> admin_reply \<times> daemon" where
  "handle_signed_decision ax cmd kind uid d =
     (case parse_args cmd kind uid of
        Inl e \<Rightarrow> (Reply e None, d)
      | Inr args \<Rightarrow>
          (case fetch_pubkey_and_verify ax uid kind args d of
             Inl e \<Rightarrow> (Reply e None, d)
           | Inr _ \<Rightarrow> apply_decision ax kind (args\<lparr>sa_account := resolve_account ax uid\<rparr>) d))"

definition handle_ticket :: "adm \<Rightarrow> string \<Rightarrow> u32 \<Rightarrow> daemon \<Rightarrow> admin_reply \<times> daemon" where
  "handle_ticket ax cmd uid d =
     (if d_transition d then (Reply (line ''ERR policy epoch transition in progress'') None, d)
      else handle_signed_decision ax cmd DkTicket uid d)"

text \<open>\<open>LIST\<close> and the status queries only read; the texts of the latter are parameters.\<close>

definition show_bool :: "bool \<Rightarrow> string" where
  "show_bool b = (if b then ''true'' else ''false'')"

definition debug_set :: "string hset \<Rightarrow> string" where
  "debug_set xs = ''{'' @ join '', '' (map (\<lambda>x. [CHR 0x22] @ x @ [CHR 0x22]) xs) @ ''}''"

definition mpa_summary :: "mpa_state \<Rightarrow> string" where
  "mpa_summary m =
     ''MPA: '' @ show_nat (length (mp_approvals m)) @ ''/'' @ show_u32 (mp_threshold m) @
     '' | Roles: '' @ debug_set (mp_required_roles m)"

definition handle_list :: "daemon \<Rightarrow> string" where
  "handle_list d =
     (if d_drafts d = [] \<and> d_pending d = [] \<and> d_pending_ctl d = None then line ''No pending requests.''
      else
        concat (map (\<lambda>(i, dr). line (''DRAFT ID: '' @ i @ '' | Rule-ID: '' @ dr_rule_id dr @
            '' | Status: '' @ show_bool (is_fulfilled (dr_mpa_state dr)) @ '' | '' @
            mpa_summary (dr_mpa_state dr) @ '' | timeout_minutes: '' @ show_u64 (dr_ttl_sec dr) @
            '' | max_uses = '' @ show_u32 (dr_max_uses dr))) (d_drafts d)) @
        (case d_pending_ctl d of
           None \<Rightarrow> []
         | Some c \<Rightarrow> line (''ID: '' @ ctl_kind_as_str (pc_kind c) @ '' | audit_id: '' @ pc_audit_id c @
             '' | UID: '' @ show_u32 (pc_initiator_uid c) @ '' | Status: '' @
             show_bool (is_fulfilled (pc_mpa_state c)) @ '' | '' @ mpa_summary (pc_mpa_state c) @
             '' | timeout_minutes: '' @ show_u32 (pc_timeout_minutes c))) @
        concat (map (\<lambda>(i, e). line (''ID: '' @ show_u64 i @ '' | PID: '' @ show_u32 (sc_pid (pe_subject e)) @
            '' | Target: '' @ oc_path (pe_object e) @ '' | Status: '' @
            show_bool (is_fulfilled (pe_mpa_state e)) @ '' | Reason: '' @ pe_reason e @ '' | '' @
            mpa_summary (pe_mpa_state e))) (d_pending d)))"

definition admin_command :: "adm \<Rightarrow> string \<Rightarrow> u32 \<Rightarrow> daemon \<Rightarrow> admin_reply \<times> daemon" where
  "admin_command ax cmd uid d =
     (let name = (case split_whitespace cmd of [] \<Rightarrow> [] | x # _ \<Rightarrow> x)
      in if name = ''STATUS'' then (Reply (ax_status_text ax d) None, d)
         else if name = ''NETLINK_STATUS'' then (Reply (ax_netlink_status_text ax) None, d)
         else if name = ''LIST'' then (Reply (handle_list d) None, d)
         else if name = ''REGISTER'' then handle_register cmd uid d
         else if name = ''TICKET'' then handle_ticket ax cmd uid d
         else if name = ''APPROVE'' then handle_signed_decision ax cmd DkApprove uid d
         else if name = ''DENY'' then handle_signed_decision ax cmd DkDeny uid d
         else if name = ''START'' then handle_signed_decision ax cmd DkStart uid d
         else if name = ''STOP'' then handle_signed_decision ax cmd DkStop uid d
         else if name = ''POLICY_UPDATE'' then handle_signed_decision ax cmd DkPolicyUpdate uid d
         else if name = ''FLUSH'' then
           check_initiator_and_handle ax CtlFlush (d_management d) uid [] d
         else (Reply (line ''ERR unknown cmd'') None, d))"

text \<open>
  The peer's uid, if the kernel gives it, and the bytes of the first read, if it succeeds. The
  event goes to the audit worker's channel.
\<close>

definition handle_admin_connection ::
  "adm \<Rightarrow> u32 option \<Rightarrow> string option \<Rightarrow> daemon \<Rightarrow> string option \<times> daemon" where
  "handle_admin_connection ax peer input d =
     (case peer of
        None \<Rightarrow> (Some (line ''ERR cannot get peer credential''), d)
      | Some uid \<Rightarrow>
          (case input of
             None \<Rightarrow> (None, d)
           | Some bytes \<Rightarrow>
               (if bytes = [] then (None, d)
                else case admin_command ax (rust_trim (utf8_lossy (take 1024 bytes))) uid d of
                    (Exited, d1) \<Rightarrow> (None, d1)
                  | (Reply text None, d1) \<Rightarrow> (Some text, d1)
                  | (Reply text (Some ev), d1) \<Rightarrow> (Some text, d1\<lparr>d_events := d_events d1 @ [ev]\<rparr>))))"

end
