(* ===== verification/Admin_Facts.thy ===== *)
theory Admin_Facts
  imports Admin_Approval
begin

text \<open>
  What the management commands guarantee: an update or a flush happens completely or not at all,
  nobody changes the policy, the mode or the management configuration without the rights the
  configuration asks for, and the kernel is told to let a waiting request through only after a
  completed vote.
\<close>

section \<open>What a command queues\<close>

text \<open>The queue only grows; the approvals in the new part are among \<open>S\<close>.\<close>

definition queues :: "u64 set \<Rightarrow> daemon \<Rightarrow> daemon \<Rightarrow> bool" where
  "queues S d d' \<longleftrightarrow> (\<exists>ms. d_queue d' = d_queue d @ ms \<and> (\<forall>i. NsApprove i \<in> set ms \<longrightarrow> i \<in> S))"

named_theorems queue_intros "how the commands grow the queue"

lemma queues_same [queue_intros]: "d_queue d' = d_queue d \<Longrightarrow> queues S d d'"
  by (simp add: queues_def)

lemma queues_trans: "queues S d d1 \<Longrightarrow> queues S d1 d2 \<Longrightarrow> queues S d d2"
  unfolding queues_def
proof (elim exE conjE)
  fix ms ns
  assume "d_queue d1 = d_queue d @ ms" "\<forall>i. NsApprove i \<in> set ms \<longrightarrow> i \<in> S"
    "d_queue d2 = d_queue d1 @ ns" "\<forall>i. NsApprove i \<in> set ns \<longrightarrow> i \<in> S"
  then show "\<exists>ms. d_queue d2 = d_queue d @ ms \<and> (\<forall>i. NsApprove i \<in> set ms \<longrightarrow> i \<in> S)"
    by (intro exI [of _ "ms @ ns"]) auto
qed

lemma queues_mono: "queues S d d' \<Longrightarrow> S \<subseteq> T \<Longrightarrow> queues T d d'"
  by (auto simp: queues_def)

lemma enqueue_state:
  "snd (enqueue m e d) = d\<lparr>d_queue := d_queue d @ (if d_channel_open d then [m] else [])\<rparr>"
  by (simp add: enqueue_def)

lemma send_states:
  "snd (send_approve i d) = d\<lparr>d_queue := d_queue d @ (if d_channel_open d then [NsApprove i] else [])\<rparr>"
  "snd (send_deny i d) = d\<lparr>d_queue := d_queue d @ (if d_channel_open d then [NsDeny i] else [])\<rparr>"
  "snd (send_ticket_add t d) =
     d\<lparr>d_queue := d_queue d @ (if \<not> d_transition d \<and> d_channel_open d then [NsTicketAdd t] else [])\<rparr>"
  "snd (send_mode_switch n d) = d\<lparr>d_queue := d_queue d @ (if d_channel_open d then [NsModeSwitch n] else [])\<rparr>"
  by (simp_all add: send_approve_def send_deny_def send_ticket_add_def send_mode_switch_def enqueue_def)

lemma deny_all_state:
  "deny_all is d = d\<lparr>d_queue := d_queue d @ (if d_channel_open d then map NsDeny is else [])\<rparr>"
  by (induction "is" arbitrary: d) (simp_all add: send_states)

lemma preload_loop_state:
  "\<exists>ts. preload_loop w e rs d = d\<lparr>d_queue := d_queue d @ map NsTicketAdd ts\<rparr> \<and>
     (\<forall>t \<in> set ts. tk_epoch t = e)"
proof (induction rs arbitrary: d)
  case Nil
  show ?case by (intro exI [of _ "[]"]) simp
next
  case (Cons r rs)
  show ?case
  proof (cases "preload_ticket w e r")
    case None
    with Cons.IH [of d] show ?thesis by simp
  next
    case (Some t)
    then have t: "tk_epoch t = e"
      by (auto simp: preload_ticket_def split: if_splits option.splits path_matcher.splits)
    let ?ts = "if \<not> d_transition d \<and> d_channel_open d then [t] else []"
    let ?d = "snd (send_ticket_add t d)"
    from Cons.IH [of ?d] obtain ts where
      ts: "preload_loop w e rs ?d = ?d\<lparr>d_queue := d_queue ?d @ map NsTicketAdd ts\<rparr>"
      "\<forall>t \<in> set ts. tk_epoch t = e" by blast
    with t Some show ?thesis by (intro exI [of _ "?ts @ ts"]) (auto simp: send_states)
  qed
qed

lemma preload_state:
  obtains ts where "preload_silent_directory_tickets w d = d\<lparr>d_queue := d_queue d @ map NsTicketAdd ts\<rparr>"
    "\<forall>t \<in> set ts. tk_epoch t = d_epoch d"
  using preload_loop_state [of w "d_epoch d" "cp_rules (cb_policy (d_bundle d))" d]
  by (auto simp: preload_silent_directory_tickets_def)

section \<open>Policy update\<close>

lemma transition_restored: "\<not> d_transition d \<Longrightarrow> d\<lparr>d_transition := False\<rparr> = d"
  by (cases d) simp

lemma commit_policy_snapshot_fresh:
  assumes "d_epoch d = e" and "e \<noteq> - 1"
  shows "commit_policy_snapshot b e (e + 1) d =
    Inr (e + 1, d\<lparr>d_snapshot := \<lparr>ps_epoch = e + 1, ps_bundle = b\<rparr>\<rparr>)"
proof -
  have "update_bundle b e d = Inr (e + 1, d\<lparr>d_snapshot := \<lparr>ps_epoch = e + 1, ps_bundle = b\<rparr>\<rparr>)"
    using assms by (simp add: update_bundle_Inr)
  with assms(1) show ?thesis by (simp add: commit_policy_snapshot_def)
qed

definition staged_ok :: "adm \<Rightarrow> string \<Rightarrow> compiled_bundle \<Rightarrow> compiled_management \<Rightarrow> bool" where
  "staged_ok ax h b m \<longleftrightarrow>
     compute_directory_hash (ax_sha256_hex ax) (ax_stage_tree ax) = Inr h \<and>
     load_bundle_from_dir (ax_platform ax) (ax_loader ax) STAGE_TEAL_DIR = Inr b \<and>
     (\<exists>ws. prepare_management (bd_loader (ax_loader ax)) (path_join STAGE_TEAL_DIR ''management.json'')
        (cb_roles b) = Inr (m, ws))"

lemma prepare_policy_update_Inr:
  assumes "prepare_policy_update ax h d = Inr u"
  shows "d_epoch d \<noteq> - 1 \<and> pp_old_epoch u = d_epoch d \<and> pp_new_epoch u = d_epoch d + 1 \<and>
    staged_ok ax h (pp_new_bundle u) (pp_new_management u)"
  using assms
  by (auto simp: prepare_policy_update_def Let_def bindR_eq_Inr map_err_eq_Inr checked_inc_ok_or
      validate_staged_policy_def compile_staged_bundle_def staged_ok_def split: if_splits)

lemma switch_directory_cases:
  assumes "switch_policy_directory ax u = (r, dir)"
  shows "(r = Inr () \<and> dir = NewPolicy) \<or> (\<exists>e. r = Inl e) \<and> dir \<noteq> NewPolicy"
  using assms by (auto simp: switch_policy_directory_def Let_def split: sum.splits)

definition updated :: "compiled_bundle \<Rightarrow> compiled_management \<Rightarrow> netlink_send list \<Rightarrow> daemon \<Rightarrow> daemon" where
  "updated b m ms d =
     d\<lparr>d_snapshot := \<lparr>ps_epoch = d_epoch d + 1, ps_bundle = b\<rparr>, d_management := m, d_drafts := [],
       d_approved := [], d_pending := [], d_pending_ctl := None, d_active := [],
       d_queue := d_queue d @ ms\<rparr>"

lemma synchronize_state:
  "snd (synchronize_kernel_epoch ax e d) =
     d\<lparr>d_queue := d_queue d @ (if d_channel_open d then [NsSyncEpoch e] else [])\<rparr>"
  "fst (synchronize_kernel_epoch ax e d) = Inr () \<Longrightarrow> d_channel_open d \<and> ax_epoch_ack ax e = Inr ()"
  by (auto simp: synchronize_kernel_epoch_def send_sync_epoch_def enqueue_def case_prod_beta
      map_err_eq_Inr split: if_splits)

text \<open>The three outcomes of an update, each with the state it leaves.\<close>

lemma policy_update_cases:
  assumes "execute_policy_update ax h d = (r, dir, d')" and tr: "\<not> d_transition d"
  obtains (failed) e where "r = MrErr e" "d' = d" "dir \<noteq> NewPolicy"
  | (exited) u where "r = MrExit" "dir = NewPolicy" "prepare_policy_update ax h d = Inr u"
      "d' = d\<lparr>d_transition := True,
         d_queue := d_queue d @ (if d_channel_open d then [NsSyncEpoch (d_epoch d + 1)] else [])\<rparr>"
      "fst (synchronize_kernel_epoch ax (d_epoch d + 1) d) \<noteq> Inr ()"
  | (committed) u ts where "r = MrOk (d_epoch d + 1)" "dir = NewPolicy" "prepare_policy_update ax h d = Inr u"
      "d' = updated (pp_new_bundle u) (pp_new_management u)
         (NsSyncEpoch (d_epoch d + 1) # map NsTicketAdd ts) d"
      "\<forall>t \<in> set ts. tk_epoch t = d_epoch d + 1" "d_channel_open d" "ax_epoch_ack ax (d_epoch d + 1) = Inr ()"
proof -
  let ?d1 = "d\<lparr>d_transition := True\<rparr>"
  have b: "begin_ticket_transition d = Inr ?d1" using tr by (simp add: begin_ticket_transition_def)
  have dr: "drop_transition_guard ?d1 = d" using transition_restored [OF tr]
    by (simp add: drop_transition_guard_def)
  have p: "prepare_policy_update ax h ?d1 = prepare_policy_update ax h d"
    by (simp add: prepare_policy_update_def)
  show ?thesis
  proof (cases "prepare_policy_update ax h d")
    case (Inl e)
    with assms(1) b p dr failed show ?thesis by (auto simp: execute_policy_update_def)
  next
    case (Inr u)
    note u = prepare_policy_update_Inr [OF Inr]
    obtain s sd where sw: "switch_policy_directory ax u = (s, sd)" by fastforce
    from switch_directory_cases [OF sw] show ?thesis
    proof (elim disjE conjE exE)
      fix e assume "s = Inl e" "sd \<noteq> NewPolicy"
      with assms(1) b p dr sw Inr failed show ?thesis by (auto simp: execute_policy_update_def)
    next
      assume s: "s = Inr ()" "sd = NewPolicy"
      let ?sync = "synchronize_kernel_epoch ax (d_epoch d + 1) ?d1"
      have fs: "fst (synchronize_kernel_epoch ax (d_epoch d + 1) d) = fst ?sync"
        by (simp add: synchronize_kernel_epoch_def send_sync_epoch_def enqueue_def)
      let ?d2 = "?d1\<lparr>d_queue := d_queue d @ (if d_channel_open d then [NsSyncEpoch (d_epoch d + 1)] else [])\<rparr>"
      have sync: "?sync = (fst ?sync, ?d2)"
        using synchronize_state(1) [of ax "d_epoch d + 1" ?d1] by (simp add: prod_eq_iff)
      show ?thesis
      proof (cases "fst ?sync")
        case (Inl e)
        with sync have "?sync = (Inl e, ?d2)" by simp
        with assms(1) b p sw s Inr u have "r = MrExit" "dir = NewPolicy" "d' = ?d2"
          by (auto simp: execute_policy_update_def)
        with Inl fs Inr show ?thesis by (intro exited) auto
      next
        case (Inr v)
        then have ok: "d_channel_open d" "ax_epoch_ack ax (d_epoch d + 1) = Inr ()"
          using synchronize_state(2) [of ax "d_epoch d + 1" ?d1] by auto
        let ?d3 = "?d2\<lparr>d_snapshot := \<lparr>ps_epoch = d_epoch d + 1, ps_bundle = pp_new_bundle u\<rparr>\<rparr>"
        let ?d5 = "drop_transition_guard (invalidate_old_approvals (commit_management (pp_new_management u) ?d3))"
        have "commit_policy_snapshot (pp_new_bundle u) (d_epoch d) (d_epoch d + 1) ?d2 = Inr (d_epoch d + 1, ?d3)"
          using u by (intro commit_policy_snapshot_fresh) simp_all
        with assms(1) b p sw s sync Inr \<open>prepare_policy_update ax h d = Inr u\<close> u
        have r: "r = MrOk (d_epoch d + 1)" "dir = NewPolicy"
          "d' = preload_silent_directory_tickets (ax_world ax) ?d5"
          by (auto simp: execute_policy_update_def Let_def)
        from preload_state obtain ts where
          "d' = ?d5\<lparr>d_queue := d_queue ?d5 @ map NsTicketAdd ts\<rparr>" "\<forall>t \<in> set ts. tk_epoch t = d_epoch ?d5"
          unfolding r(3) by blast
        moreover have "?d5\<lparr>d_queue := d_queue ?d5 @ map NsTicketAdd ts\<rparr> =
          updated (pp_new_bundle u) (pp_new_management u)
            (NsSyncEpoch (d_epoch d + 1) # map NsTicketAdd ts) (d\<lparr>d_transition := False\<rparr>)"
          using ok(1) by (simp add: updated_def drop_transition_guard_def invalidate_old_approvals_def
              commit_management_def)
        ultimately show ?thesis
          using r \<open>prepare_policy_update ax h d = Inr u\<close> ok transition_restored [OF tr]
          by (intro committed [of u ts])
            (simp_all add: drop_transition_guard_def invalidate_old_approvals_def commit_management_def)
      qed
    qed
  qed
qed

text \<open>
  C5. A policy update is all or nothing. If it reports an error the daemon is exactly as before,
  still running the old policy, and the staged files were not installed. If it succeeds, the epoch
  went up by one, the kernel acknowledged it, the bundle and the management configuration in force
  are those compiled from the staged directory, whose hash is the approved one, and no approval,
  draft, pending request, pending command or active ticket of the old policy is left. When the
  kernel's answer is missing the process exits with the staged files installed and the policy it
  ran on unchanged.
\<close>

theorem policy_update_atomic:
  assumes "execute_policy_update ax h d = (r, dir, d')" and "\<not> d_transition d"
  shows "(\<exists>e. r = MrErr e \<and> d' = d \<and> dir \<noteq> NewPolicy) \<or>
    (\<exists>n. r = MrOk n \<and> dir = NewPolicy \<and> unat n = Suc (unat (d_epoch d)) \<and> d_epoch d' = n \<and>
       ax_epoch_ack ax n = Inr () \<and> staged_ok ax h (d_bundle d') (d_management d') \<and>
       d_approved d' = [] \<and> d_drafts d' = [] \<and> d_pending d' = [] \<and> d_pending_ctl d' = None \<and>
       d_active d' = [] \<and> \<not> d_transition d' \<and> d_mode d' = d_mode d) \<or>
    (r = MrExit \<and> dir = NewPolicy \<and> d_snapshot d' = d_snapshot d \<and> d_transition d' \<and>
       (d_channel_open d \<longrightarrow> ax_epoch_ack ax (d_epoch d + 1) \<noteq> Inr ()))"
  using assms
proof (cases rule: policy_update_cases)
  case (failed e)
  then show ?thesis by simp
next
  case (exited u)
  then have "d_channel_open d \<longrightarrow> ax_epoch_ack ax (d_epoch d + 1) \<noteq> Inr ()"
    by (auto simp: synchronize_kernel_epoch_def send_sync_epoch_def enqueue_def)
  with exited show ?thesis by simp
next
  case (committed u ts)
  note u = prepare_policy_update_Inr [OF committed(3)]
  have "unat (d_epoch d + 1) = Suc (unat (d_epoch d))" using u unat_inc by blast
  with committed u assms(2) show ?thesis by (simp add: updated_def)
qed

section \<open>Flush\<close>

definition flushed :: "netlink_send list \<Rightarrow> daemon \<Rightarrow> daemon" where
  "flushed ms d =
     d\<lparr>d_snapshot := \<lparr>ps_epoch = d_epoch d + 1, ps_bundle = d_bundle d\<rparr>, d_is_flushed := True,
       d_drafts := [], d_approved := [], d_pending := [], d_pending_ctl := None, d_active := [],
       d_queue := d_queue d @ ms\<rparr>"

lemma flush_cases:
  assumes "execute_flush ax d = (r, d')" and tr: "\<not> d_transition d"
  obtains (failed) e where "r = MrErr e" "d' = d"
  | (exited) "r = MrExit"
      "d' = d\<lparr>d_transition := True,
         d_queue := d_queue d @ (if d_channel_open d then [NsSyncEpoch (d_epoch d + 1)] else [])\<rparr>"
  | (committed) "r = MrOk (d_epoch d + 1)" "d_epoch d \<noteq> - 1"
      "d' = flushed [NsSyncEpoch (d_epoch d + 1)] d" "ax_epoch_ack ax (d_epoch d + 1) = Inr ()"
proof -
  let ?d1 = "d\<lparr>d_transition := True\<rparr>"
  have b: "begin_ticket_transition d = Inr ?d1" using tr by (simp add: begin_ticket_transition_def)
  note tr' = transition_restored [OF tr]
  show ?thesis
  proof (cases "d_epoch d = - 1")
    case True
    with assms(1) b tr' failed show ?thesis
      by (auto simp: execute_flush_def checked_inc_def drop_transition_guard_def)
  next
    case False
    then have ci: "checked_inc (d_epoch ?d1) = Some (d_epoch d + 1)" by (simp add: checked_inc_def)
    let ?sync = "synchronize_kernel_epoch ax (d_epoch d + 1) ?d1"
    let ?d2 = "?d1\<lparr>d_queue := d_queue d @ (if d_channel_open d then [NsSyncEpoch (d_epoch d + 1)] else [])\<rparr>"
    have sync: "?sync = (fst ?sync, ?d2)"
      using synchronize_state(1) [of ax "d_epoch d + 1" ?d1] by (simp add: prod_eq_iff)
    show ?thesis
    proof (cases "fst ?sync")
      case (Inl e)
      with sync have "?sync = (Inl e, ?d2)" by simp
      with assms(1) b ci show ?thesis by (intro exited) (auto simp: execute_flush_def)
    next
      case (Inr v)
      then have ok: "d_channel_open d" "ax_epoch_ack ax (d_epoch d + 1) = Inr ()"
        using synchronize_state(2) [of ax "d_epoch d + 1" ?d1] by auto
      let ?d3 = "?d2\<lparr>d_snapshot := \<lparr>ps_epoch = d_epoch d + 1, ps_bundle = d_bundle d\<rparr>\<rparr>"
      have "advance_epoch (d_epoch d) ?d2 = Inr (d_epoch d + 1, ?d3)"
        using False by (simp add: advance_epoch_Inr)
      with assms(1) b ci sync Inr have r: "r = MrOk (d_epoch d + 1)"
        "d' = drop_transition_guard ((clear_ephemeral_state_for_enforce (?d3\<lparr>d_is_flushed := True\<rparr>))\<lparr>d_approved := []\<rparr>)"
        by (auto simp: execute_flush_def Let_def)
      have "drop_transition_guard ((clear_ephemeral_state_for_enforce (?d3\<lparr>d_is_flushed := True\<rparr>))\<lparr>d_approved := []\<rparr>) =
          flushed [NsSyncEpoch (d_epoch d + 1)] (d\<lparr>d_transition := False\<rparr>)"
        using ok(1) by (simp add: flushed_def drop_transition_guard_def clear_ephemeral_state_for_enforce_def)
      with r False ok tr' show ?thesis by (intro committed) simp_all
    qed
  qed
qed

text \<open>
  C12. A flush raises the epoch under the same policy and leaves nothing that was granted under the
  old one: no active or approved ticket, no draft, no pending request, no pending command. If it
  fails, nothing has changed; if the kernel does not confirm the new epoch, the process exits.
\<close>

theorem flush_locks_down:
  assumes "execute_flush ax d = (r, d')" and "\<not> d_transition d"
  shows "(\<exists>e. r = MrErr e \<and> d' = d) \<or> (r = MrExit \<and> d_snapshot d' = d_snapshot d) \<or>
    (\<exists>n. r = MrOk n \<and> unat n = Suc (unat (d_epoch d)) \<and> d_epoch d' = n \<and> ax_epoch_ack ax n = Inr () \<and>
       d_bundle d' = d_bundle d \<and> d_management d' = d_management d \<and> d_is_flushed d' \<and>
       d_approved d' = [] \<and> d_drafts d' = [] \<and> d_pending d' = [] \<and> d_pending_ctl d' = None \<and>
       d_active d' = [] \<and> \<not> d_transition d')"
  using assms
proof (cases rule: flush_cases)
  case committed
  moreover have "unat (d_epoch d + 1) = Suc (unat (d_epoch d))" using committed(2) unat_inc by blast
  ultimately show ?thesis using assms(2) by (simp add: flushed_def)
qed simp_all

section \<open>Start and stop\<close>

definition started :: "netlink_send list \<Rightarrow> daemon \<Rightarrow> daemon" where
  "started ms d =
     d\<lparr>d_drafts := [], d_active := [], d_pending := [], d_pending_ctl := None, d_is_flushed := False,
       d_mode := Enforce, d_queue := d_queue d @ ms\<rparr>"

definition stopped :: "netlink_send list \<Rightarrow> daemon \<Rightarrow> daemon" where
  "stopped ms d =
     d\<lparr>d_drafts := [], d_active := [], d_pending := [], d_pending_ctl := None, d_mode := Audit,
       d_queue := d_queue d @ ms\<rparr>"

lemma start_cases:
  assumes "execute_start ax d = (r, d')"
  obtains (failed) e where "r = MrErr e" "d' = d"
  | (committed) ts where "r = MrOk (d_epoch d)"
      "d' = started (NsModeSwitch 1 # map NsDeny (hm_keys (d_pending d)) @ map NsTicketAdd ts) d"
proof (cases "d_channel_open d")
  case False
  with assms failed show ?thesis by (auto simp: execute_start_def send_mode_switch_def enqueue_def)
next
  case True
  let ?d1 = "d\<lparr>d_queue := d_queue d @ [NsModeSwitch 1]\<rparr>"
  let ?d2 = "(clear_ephemeral_state_for_enforce ?d1)\<lparr>d_is_flushed := False, d_mode := Enforce\<rparr>"
  let ?d3 = "deny_all (hm_keys (d_pending d)) ?d2"
  have "send_mode_switch 1 d = (None, ?d1)" using True by (simp add: send_mode_switch_def enqueue_def)
  with assms have r: "r = MrOk (d_epoch d')" "d' = preload_silent_directory_tickets (ax_world ax) ?d3"
    by (auto simp: execute_start_def Let_def)
  from preload_state obtain ts where ts: "d' = ?d3\<lparr>d_queue := d_queue ?d3 @ map NsTicketAdd ts\<rparr>"
    unfolding r(2) by blast
  have "?d3\<lparr>d_queue := d_queue ?d3 @ map NsTicketAdd ts\<rparr> =
      started (NsModeSwitch 1 # map NsDeny (hm_keys (d_pending d)) @ map NsTicketAdd ts) d"
    using True by (simp add: deny_all_state started_def clear_ephemeral_state_for_enforce_def)
  with ts have d': "d' = started (NsModeSwitch 1 # map NsDeny (hm_keys (d_pending d)) @ map NsTicketAdd ts) d"
    by simp
  moreover from this r(1) have "r = MrOk (d_epoch d)" by (simp add: started_def)
  ultimately show ?thesis by (intro committed)
qed

lemma stop_cases:
  assumes "execute_stop d = (r, d')"
  obtains (failed) e where "r = MrErr e" "d' = d"
  | (committed) "r = MrOk (d_epoch d)" "d' = stopped [NsModeSwitch 0] d"
proof (cases "d_channel_open d")
  case False
  with assms failed show ?thesis by (auto simp: execute_stop_def send_mode_switch_def enqueue_def)
next
  case True
  with assms show ?thesis
    by (intro committed)
      (auto simp: execute_stop_def send_mode_switch_def enqueue_def stopped_def Let_def
        clear_ephemeral_state_for_enforce_def)
qed

text \<open>
  Stopping enforcement is not a clean slate: approved tickets that were not used yet survive
  both \<open>STOP\<close> and \<open>START\<close>, while drafts, pending requests and active tickets are dropped.
\<close>

theorem approved_survive_restart:
  assumes "execute_stop d = (MrOk n, d1)" and "execute_start ax d1 = (MrOk m, d2)"
  shows "d_approved d2 = d_approved d \<and> d_drafts d2 = [] \<and> d_pending d2 = [] \<and> d_mode d2 = Enforce"
  using assms
  by (elim stop_cases start_cases) (auto simp: stopped_def started_def)

section \<open>Who may change what\<close>

definition mgmt_state :: "daemon \<Rightarrow> policy_snapshot \<times> compiled_management \<times> daemon_mode \<times> bool" where
  "mgmt_state d = (d_snapshot d, d_management d, d_mode d, d_is_flushed d)"

text \<open>A signature of the user over the command, made with the key registered for his uid.\<close>

definition signed_by :: "adm \<Rightarrow> u32 \<Rightarrow> decision_kind \<Rightarrow> signed_cmd_args \<Rightarrow> daemon \<Rightarrow> bool" where
  "signed_by ax uid kind args d \<longleftrightarrow>
     sa_uid args = uid \<and> fetch_pubkey_and_verify ax uid kind args d = Inr ()"

definition quorum_approved :: "adm \<Rightarrow> u32 \<Rightarrow> daemon \<Rightarrow> u64 \<Rightarrow> bool" where
  "quorum_approved ax uid d i \<longleftrightarrow>
     (\<exists>e args m. hm_get (d_pending d) i = Some e \<and> parse_u64 (sa_id args) = Some i \<and>
        signed_by ax uid DkApprove args d \<and>
        insert_approver (ax_world ax) d args (pe_policy_epoch e) (pe_mpa_state e) = Inr m \<and>
        is_fulfilled m \<and> d_mode d = Enforce)"

definition ctl_approved :: "adm \<Rightarrow> u32 \<Rightarrow> daemon \<Rightarrow> bool" where
  "ctl_approved ax uid d \<longleftrightarrow>
     (\<exists>c args m. d_pending_ctl d = Some c \<and> signed_by ax uid DkApprove args d \<and>
        sa_audit_id args = Some (pc_audit_id c) \<and>
        insert_approver (ax_world ax) d args (pc_epoch c) (pc_mpa_state c) = Inr m \<and> is_fulfilled m)"

definition direct_control :: "u32 \<Rightarrow> daemon \<Rightarrow> bool" where
  "direct_control uid d \<longleftrightarrow>
     (\<exists>kind ctl. control_of (d_management d) kind = Some ctl \<and> uid \<in> set (mc_initiator_uids ctl) \<and>
        mc_mpa ctl = MpaDisabled)"

definition lawful :: "adm \<Rightarrow> u32 \<Rightarrow> daemon \<Rightarrow> daemon \<Rightarrow> bool" where
  "lawful ax uid d d' \<longleftrightarrow>
     queues {i. quorum_approved ax uid d i} d d' \<and>
     (mgmt_state d' \<noteq> mgmt_state d \<longrightarrow> direct_control uid d \<or> ctl_approved ax uid d)"

lemma lawful_same: "d_queue d' = d_queue d \<Longrightarrow> mgmt_state d' = mgmt_state d \<Longrightarrow> lawful ax uid d d'"
  by (simp add: lawful_def queues_same)

lemma lawful_refl [simp]: "lawful ax uid d d"
  by (simp add: lawful_same)

lemma fetch_account [simp]:
  "fetch_pubkey_and_verify ax uid kind (args\<lparr>sa_account := n\<rparr>) d = fetch_pubkey_and_verify ax uid kind args d"
  by (simp add: fetch_pubkey_and_verify_def verify_request_def decision_message_def)

lemma queues_appended: "d_queue d' = d_queue d @ ms \<Longrightarrow> \<forall>i. NsApprove i \<notin> set ms \<Longrightarrow> queues S d d'"
  by (auto simp: queues_def)

subsection \<open>Management commands\<close>

lemma execute_mgmt_ctl_core_queues:
  assumes "execute_mgmt_ctl_core ax kind h e d = (r, d')"
  shows "queues S d d'"
proof (cases "d_epoch d = e")
  case False
  with assms have "d' = d" by (simp add: execute_mgmt_ctl_core_def)
  then show ?thesis by (simp add: queues_same)
next
  case True
  show ?thesis
  proof (cases kind)
    case CtlStart
    with assms True have "execute_start ax d = (r, d')" by (simp add: execute_mgmt_ctl_core_def)
    then show ?thesis
      by (cases rule: start_cases)
        (auto intro: queues_same intro!: queues_appended simp: started_def)
  next
    case CtlStop
    with assms True have "execute_stop d = (r, d')" by (simp add: execute_mgmt_ctl_core_def)
    then show ?thesis
      by (cases rule: stop_cases) (auto intro: queues_same intro!: queues_appended simp: stopped_def)
  next
    case CtlPolicyUpdate
    with assms True obtain dir where u: "execute_policy_update ax h d = (r, dir, d')"
      by (auto simp: execute_mgmt_ctl_core_def split: prod.splits)
    show ?thesis
    proof (cases "d_transition d")
      case True
      with u show ?thesis
        by (auto simp: execute_policy_update_def begin_ticket_transition_def intro: queues_same)
    next
      case False
      from u False show ?thesis
        by (cases rule: policy_update_cases)
          (auto intro: queues_same intro!: queues_appended simp: updated_def)
    qed
  next
    case CtlFlush
    with assms True have u: "execute_flush ax d = (r, d')" by (simp add: execute_mgmt_ctl_core_def)
    show ?thesis
    proof (cases "d_transition d")
      case True
      with u show ?thesis
        by (auto simp: execute_flush_def begin_ticket_transition_def intro: queues_same)
    next
      case False
      from u False show ?thesis
        by (cases rule: flush_cases)
          (auto intro: queues_same intro!: queues_appended simp: flushed_def)
    qed
  qed
qed

lemma execute_mgmt_ctl_queues:
  assumes "execute_mgmt_ctl ax kind uid h d = (r, d')"
  shows "queues S d d'"
proof -
  obtain q d1 where c: "execute_mgmt_ctl_core ax kind h (d_epoch d) d = (q, d1)" by fastforce
  with assms have "d' = d1" by (auto simp: execute_mgmt_ctl_def split: mgmt_result.splits)
  with execute_mgmt_ctl_core_queues [OF c] show ?thesis by simp
qed

lemma check_initiator_lawful:
  assumes "check_initiator_and_handle ax kind (d_management d) uid h d = (r, d')"
  shows "lawful ax uid d d'"
proof (cases "control_of (d_management d) kind")
  case None
  with assms show ?thesis by (simp add: check_initiator_and_handle_def)
next
  case (Some c)
  show ?thesis
  proof (cases "uid \<in> set (mc_initiator_uids c)")
    case False
    with assms Some show ?thesis by (simp add: check_initiator_and_handle_def)
  next
    case True
    with assms Some have h: "handle_mgmt_cmd ax kind (d_management d) uid h d = (r, d')"
      by (simp add: check_initiator_and_handle_def)
    show ?thesis
    proof (cases "mc_mpa c")
      case MpaDisabled
      with h Some have e: "execute_mgmt_ctl ax kind uid h d = (r, d')" by (simp add: handle_mgmt_cmd_def)
      from True Some MpaDisabled have "direct_control uid d" by (auto simp: direct_control_def)
      with execute_mgmt_ctl_queues [OF e] show ?thesis by (simp add: lawful_def)
    next
      case (MpaEnabled mpa)
      with h Some have "create_mgmt_pending ax kind uid h mpa d = (r, d')" by (simp add: handle_mgmt_cmd_def)
      then show ?thesis
        by (intro lawful_same) (auto simp: create_mgmt_pending_def mgmt_state_def split: option.splits)
    qed
  qed
qed

subsection \<open>Approvals\<close>

lemma check_fully_approved_Inr:
  "check_fully_approved w d args m e = Inr (full, m') \<longleftrightarrow>
     insert_approver w d args e m = Inr m' \<and> full = is_fulfilled m'"
  by (auto simp: check_fully_approved_def bindR_eq_Inr)

lemma process_approve_entry_Inr:
  assumes "process_approve_entry w args d = Inr (full, d1)"
  shows "\<exists>i p m. parse_u64 (sa_id args) = Some i \<and> hm_get (d_pending d) i = Some p \<and>
    insert_approver w d args (pe_policy_epoch p) (pe_mpa_state p) = Inr m \<and> full = is_fulfilled m \<and>
    d1 = d\<lparr>d_pending := hm_insert i (p\<lparr>pe_mpa_state := m\<rparr>) (d_pending d)\<rparr>"
  using assms
  by (auto simp: process_approve_entry_def bindR_eq_Inr ok_or_eq_Inr check_fully_approved_Inr)

lemma process_approve_draft_Inr:
  assumes "process_approve_draft w args d = Inr (full, d1)"
  shows "\<exists>p m. hm_get (d_drafts d) (sa_id args) = Some p \<and> dr_epoch p = d_epoch d \<and>
    insert_approver w d args (dr_epoch p) (dr_mpa_state p) = Inr m \<and> full = is_fulfilled m \<and>
    d1 = d\<lparr>d_drafts := hm_insert (sa_id args) (p\<lparr>dr_mpa_state := m\<rparr>) (d_drafts d)\<rparr>"
  using assms
  by (auto simp: process_approve_draft_def bindR_eq_Inr ok_or_eq_Inr check_fully_approved_Inr split: if_splits)

lemma process_approve_ctl_Inr:
  assumes "process_approve_ctl w args d = Inr (c, d1)"
  shows "\<exists>p m. d_pending_ctl d = Some p \<and> sa_audit_id args = Some (pc_audit_id p) \<and>
    eq_ignore_ascii_case (sa_id args) (ctl_kind_as_str (pc_kind p)) \<and>
    insert_approver w d args (pc_epoch p) (pc_mpa_state p) = Inr m \<and>
    (if is_fulfilled m then c = Some (p\<lparr>pc_mpa_state := m\<rparr>) \<and> d1 = d\<lparr>d_pending_ctl := None\<rparr>
     else c = None \<and> d1 = d\<lparr>d_pending_ctl := Some (p\<lparr>pc_mpa_state := m\<rparr>)\<rparr>)"
  using assms
  by (auto simp: process_approve_ctl_def bindR_eq_Inr ok_or_eq_Inr check_fully_approved_Inr Let_def
      split: if_splits)

lemma record_approval_Inr:
  assumes "record_approval w args d = Inr (ar, d1)"
  obtains (ctl) c where "process_approve_ctl w args d = Inr (c, d1)"
      "ar = (case c of Some p \<Rightarrow> ArCtlReady p | None \<Rightarrow> ArPending)"
  | (draft) full where "process_approve_draft w args d = Inr (full, d1)"
      "ar = (if full then ArDraftReady else ArPending)"
  | (entry) full where "process_approve_entry w args d = Inr (full, d1)"
      "ar = (if full then ArEntryReady else ArPending)"
  using assms by (auto simp: record_approval_def bindR_eq_Inr split: if_splits)

lemma record_approval_frame:
  assumes "record_approval w args d = Inr (ar, d1)"
  shows "d_queue d1 = d_queue d \<and> mgmt_state d1 = mgmt_state d \<and> d_transition d1 = d_transition d \<and>
    d_channel_open d1 = d_channel_open d \<and> d_approved d1 = d_approved d"
  using assms
proof (cases rule: record_approval_Inr)
  case (ctl c)
  with process_approve_ctl_Inr [OF ctl(1)] show ?thesis by (auto simp: mgmt_state_def split: if_splits)
next
  case (draft full)
  with process_approve_draft_Inr [OF draft(1)] show ?thesis by (auto simp: mgmt_state_def)
next
  case (entry full)
  with process_approve_entry_Inr [OF entry(1)] show ?thesis by (auto simp: mgmt_state_def)
qed

lemma record_ready:
  assumes "record_approval w args d = Inr (ar, d1)"
  shows "ar = ArCtlReady c \<Longrightarrow> process_approve_ctl w args d = Inr (Some c, d1)"
    and "ar = ArDraftReady \<Longrightarrow> process_approve_draft w args d = Inr (True, d1)"
    and "ar = ArEntryReady \<Longrightarrow> process_approve_entry w args d = Inr (True, d1)"
  using assms by (cases rule: record_approval_Inr; auto split: option.splits if_splits)+

lemma finalize_draft_frame:
  assumes "finalize_draft_approval w i d = (ev, d')"
  shows "d_queue d' = d_queue d \<and> mgmt_state d' = mgmt_state d"
  using assms
  by (auto simp: finalize_draft_approval_def take_draft_def install_approved_def mgmt_state_def
      split: option.splits)

lemma unchanged_fields: "\<exists>seq act. d = d\<lparr>d_ticket_seq := seq, d_active := act\<rparr>"
  by (intro exI [of _ "d_ticket_seq d"] exI [of _ "d_active d"]) simp

lemma changed_seq: "\<exists>seq act. d\<lparr>d_ticket_seq := n\<rparr> = d\<lparr>d_ticket_seq := seq, d_active := act\<rparr>"
  by (intro exI [of _ n] exI [of _ "d_active d"]) simp

lemma is_cacheable_frame:
  assumes "is_cacheable e r epoch d = (res, d')"
  shows "\<exists>seq act. d' = d\<lparr>d_ticket_seq := seq, d_active := act\<rparr>"
  using assms
  by (auto simp: is_cacheable_def ticket_from_entry_def next_audit_ticket_id_def Let_def
      unchanged_fields changed_seq split: if_splits sum.splits)

lemma cache_outcome_frame:
  assumes "cache_outcome e d = (res, d')"
  shows "\<exists>seq act. d' = d\<lparr>d_ticket_seq := seq, d_active := act\<rparr>"
  using assms is_cacheable_frame unchanged_fields
  by (auto simp: cache_outcome_def split: sum.splits option.splits prod.splits)

lemma send_entry_approval_state:
  "\<exists>ms. send_entry_approval i c p d = d\<lparr>d_queue := d_queue d @ ms\<rparr> \<and>
     (\<forall>j. NsApprove j \<in> set ms \<longrightarrow> j = i \<and> d_mode d = Enforce) \<and> (\<forall>j. NsDeny j \<notin> set ms)"
proof (cases "d_mode d = Enforce")
  case False
  then show ?thesis by (intro exI [of _ "[]"]) (simp add: send_entry_approval_def)
next
  case True
  let ?a = "if d_channel_open d then [NsApprove i] else []"
  let ?t = "case p of Some t \<Rightarrow> if c \<and> \<not> d_transition d \<and> d_channel_open d then [NsTicketAdd t] else [] | None \<Rightarrow> []"
  have "send_entry_approval i c p d = d\<lparr>d_queue := d_queue d @ ?a @ ?t\<rparr>"
    using True by (cases p; cases c) (simp_all add: send_entry_approval_def send_states)
  with True show ?thesis by (intro exI [of _ "?a @ ?t"]) (auto split: option.splits if_splits)
qed

lemma finalize_entry_frame:
  assumes "finalize_entry_approval w args d = (ev, d')"
  defines "i \<equiv> (case parse_u64 (sa_id args) of Some v \<Rightarrow> v | None \<Rightarrow> 0)"
  shows "\<exists>seq act ms. d' = d\<lparr>d_pending := hm_remove i (d_pending d), d_ticket_seq := seq, d_active := act,
      d_queue := d_queue d @ ms\<rparr> \<and> (\<forall>j. NsApprove j \<in> set ms \<longrightarrow> j = i \<and> d_mode d = Enforce)"
proof -
  let ?d1 = "d\<lparr>d_pending := hm_remove i (d_pending d)\<rparr>"
  obtain seq act d2 c p where d2: "d2 = ?d1\<lparr>d_ticket_seq := seq, d_active := act\<rparr>"
    and d': "d' = send_entry_approval i c p d2"
  proof (cases "hm_get (d_pending d) i")
    case None
    with assms(1) have "d' = send_entry_approval i False None ?d1"
      by (simp add: finalize_entry_approval_def i_def Let_def)
    then show ?thesis
      by (intro that [where seq = "d_ticket_seq d" and act = "d_active d" and ?d2.0 = ?d1]) simp_all
  next
    case (Some e)
    obtain c p t d2 where co: "cache_outcome e ?d1 = ((c, p, t), d2)"
      by (cases "cache_outcome e ?d1") auto
    with assms(1) Some have "d' = send_entry_approval i c p d2"
      by (auto simp: finalize_entry_approval_def i_def Let_def)
    moreover from cache_outcome_frame [OF co] obtain seq act where
      "d2 = ?d1\<lparr>d_ticket_seq := seq, d_active := act\<rparr>" by blast
    ultimately show ?thesis by (intro that)
  qed
  from send_entry_approval_state [of i c p d2] obtain ms where
    "d' = d2\<lparr>d_queue := d_queue d2 @ ms\<rparr>" "\<forall>j. NsApprove j \<in> set ms \<longrightarrow> j = i \<and> d_mode d2 = Enforce"
    unfolding d' by blast
  with d2 show ?thesis by (intro exI [of _ seq] exI [of _ act] exI [of _ ms]) simp
qed

lemma finalize_ctl_queues:
  assumes "finalize_ctl_approval ax c d = (r, d')"
  shows "queues S d d'"
proof (cases "pc_epoch c \<noteq> d_epoch d \<or> \<not> is_fulfilled (pc_mpa_state c)")
  case True
  with assms have "d' = d" by (auto simp: finalize_ctl_approval_def split: if_splits)
  then show ?thesis by (simp add: queues_same)
next
  case False
  show ?thesis
  proof (cases "try_aggregate (ax_world ax) (pc_mpa_state c)")
    case (Inl e)
    with False assms have "d' = d" by (auto simp: finalize_ctl_approval_def)
    then show ?thesis by (simp add: queues_same)
  next
    case (Inr m)
    obtain q d1 where e: "execute_mgmt_ctl_core ax (pc_kind c) (pc_target_hash c) (pc_epoch c) d = (q, d1)"
      by fastforce
    with False assms Inr have "d' = d1"
      by (auto simp: finalize_ctl_approval_def Let_def split: mgmt_result.splits)
    with execute_mgmt_ctl_core_queues [OF e] show ?thesis by simp
  qed
qed

lemma process_approval_lawful:
  assumes "process_approval ax args d = (r, d')" and sg: "signed_by ax uid DkApprove args d"
  shows "lawful ax uid d d'"
proof (cases "record_approval (ax_world ax) args d")
  case (Inl e)
  with assms(1) show ?thesis by (simp add: process_approval_def)
next
  case (Inr v)
  then obtain ar d1 where rec: "record_approval (ax_world ax) args d = Inr (ar, d1)" by (cases v) simp
  note fr = record_approval_frame [OF rec]
  show ?thesis
  proof (cases ar)
    case ArPending
    with assms(1) rec fr show ?thesis by (intro lawful_same) (auto simp: process_approval_def)
  next
    case (ArCtlReady c)
    obtain q d2 where f: "finalize_ctl_approval ax c d1 = (q, d2)" by fastforce
    with assms(1) rec ArCtlReady have "d' = d2"
      by (auto simp: process_approval_def split: ctl_final.splits)
    with finalize_ctl_queues [OF f] have "queues {i. quorum_approved ax uid d i} d1 d'" by simp
    then have "queues {i. quorum_approved ax uid d i} d d'" using fr by (simp add: queues_def)
    moreover have "ctl_approved ax uid d"
      using process_approve_ctl_Inr [OF record_ready(1) [OF rec ArCtlReady]] sg
      by (auto simp: ctl_approved_def split: if_splits)
    ultimately show ?thesis by (simp add: lawful_def)
  next
    case ArDraftReady
    obtain ev d2 where f: "finalize_draft_approval (ax_world ax) (sa_id args) d1 = (ev, d2)" by fastforce
    with assms(1) rec ArDraftReady have "d' = d2" by (auto simp: process_approval_def)
    with finalize_draft_frame [OF f] fr show ?thesis by (intro lawful_same) simp_all
  next
    case ArEntryReady
    obtain ev d2 where f: "finalize_entry_approval (ax_world ax) args d1 = (ev, d2)" by fastforce
    with assms(1) rec ArEntryReady have d': "d' = d2" by (auto simp: process_approval_def)
    from process_approve_entry_Inr [OF record_ready(3) [OF rec ArEntryReady]] obtain i p m where
      i: "parse_u64 (sa_id args) = Some i" "hm_get (d_pending d) i = Some p"
        "insert_approver (ax_world ax) d args (pe_policy_epoch p) (pe_mpa_state p) = Inr m" "is_fulfilled m"
      by auto
    from finalize_entry_frame [OF f] i(1) obtain seq act ms where
      d2: "d2 = d1\<lparr>d_pending := hm_remove i (d_pending d1), d_ticket_seq := seq, d_active := act,
        d_queue := d_queue d1 @ ms\<rparr>" and ms: "\<forall>j. NsApprove j \<in> set ms \<longrightarrow> j = i \<and> d_mode d1 = Enforce"
      by auto
    have mode: "d_mode d1 = d_mode d" using fr by (simp add: mgmt_state_def)
    have "quorum_approved ax uid d i" if "d_mode d = Enforce"
      using i sg that by (auto simp: quorum_approved_def)
    then have "queues {i. quorum_approved ax uid d i} d d'"
      using d' d2 ms fr mode by (auto simp: queues_def)
    moreover have "mgmt_state d' = mgmt_state d" using d' d2 fr by (simp add: mgmt_state_def)
    ultimately show ?thesis by (simp add: lawful_def)
  qed
qed

subsection \<open>The other commands\<close>

lemma process_deny_lawful:
  assumes "process_deny args d = (r, d')"
  shows "lawful ax uid d d'"
proof -
  have "queues S d d' \<and> mgmt_state d' = mgmt_state d" for S
    using assms
    by (auto simp: process_deny_def process_deny_ctl_def process_deny_draft_def process_deny_entry_def
        Let_def mgmt_state_def send_states queues_def
        split: if_splits option.splits sum.splits)
  then show ?thesis by (simp add: lawful_def)
qed

lemma process_ticket_lawful:
  assumes "process_ticket w i u d = (r, d')"
  shows "lawful ax uid d d'"
proof -
  have s: "d_queue (snd (draft_from_rule w q u e d)) = d_queue d"
    "mgmt_state (snd (draft_from_rule w q u e d)) = mgmt_state d" for q e
    by (simp_all add: draft_from_rule_def next_audit_ticket_id_def mgmt_state_def)
  have "d_queue d' = d_queue d \<and> mgmt_state d' = mgmt_state d"
    using assms s
    by (auto simp: process_ticket_def Let_def case_prod_beta mgmt_state_def
        split: if_splits option.splits sum.splits prod.splits bool.splits)
  then show ?thesis by (intro lawful_same) simp_all
qed

lemma apply_decision_lawful:
  assumes "apply_decision ax kind args d = (r, d')" and "signed_by ax uid kind args d"
  shows "lawful ax uid d d'"
  using assms check_initiator_lawful [of ax _ d uid]
  by (cases kind)
    (auto simp: apply_decision_def signed_by_def process_deny_lawful process_ticket_lawful
      intro: process_approval_lawful)

lemma handle_signed_lawful:
  assumes "handle_signed_decision ax cmd kind uid d = (r, d')"
  shows "lawful ax uid d d'"
proof (cases "parse_args cmd kind uid")
  case (Inl e)
  with assms show ?thesis by (simp add: handle_signed_decision_def)
next
  case (Inr args)
  then have u: "sa_uid args = uid"
    by (auto simp: parse_args_def Let_def bindR_eq_Inr case_prod_beta split: if_splits)
  show ?thesis
  proof (cases "fetch_pubkey_and_verify ax uid kind args d")
    case (Inl e)
    with assms Inr show ?thesis by (simp add: handle_signed_decision_def)
  next
    case (Inr v)
    then have v: "fetch_pubkey_and_verify ax uid kind args d = Inr ()" by simp
    with assms \<open>parse_args cmd kind uid = Inr args\<close>
    have "apply_decision ax kind (args\<lparr>sa_account := resolve_account ax uid\<rparr>) d = (r, d')"
      by (simp add: handle_signed_decision_def)
    then show ?thesis
      by (rule apply_decision_lawful) (simp add: signed_by_def u v)
  qed
qed

lemma if_eqE: "(if b then x else y) = z \<Longrightarrow> (x = z \<Longrightarrow> P) \<Longrightarrow> (y = z \<Longrightarrow> P) \<Longrightarrow> P"
  by (cases b) simp_all

lemma admin_command_lawful:
  assumes "admin_command ax cmd uid d = (r, d')"
  shows "lawful ax uid d d'"
proof -
  have reg: "lawful ax uid d d'" if "handle_register cmd uid d = (r, d')"
    using that
    by (intro lawful_same)
      (auto simp: handle_register_def Let_def mgmt_state_def split: list.splits if_splits)
  have tick: "lawful ax uid d d'" if "handle_ticket ax cmd uid d = (r, d')"
    using that handle_signed_lawful by (auto simp: handle_ticket_def split: if_splits)
  have q: "lawful ax uid d d'" if "(Reply t None, d) = (r, d')" for t using that by simp
  note sg = handle_signed_lawful [of ax cmd _ uid d r d']
    and ck = check_initiator_lawful [of ax _ d uid _ r d']
  from assms show ?thesis
    unfolding admin_command_def Let_def by (elim if_eqE) (erule q reg tick sg ck)+
qed

lemma handle_admin_connection_cases:
  assumes "handle_admin_connection ax peer input d = (text, d')"
  obtains (ignored) "d' = d"
  | (command) uid cmd r d1 evs where "peer = Some uid" "admin_command ax cmd uid d = (r, d1)"
      "d' = d1\<lparr>d_events := d_events d1 @ evs\<rparr>"
proof (cases "\<exists>uid bytes. peer = Some uid \<and> input = Some bytes \<and> bytes \<noteq> []")
  case False
  with assms have "d' = d"
    by (cases peer; cases input) (simp_all add: handle_admin_connection_def split: if_splits)
  then show ?thesis by (rule ignored)
next
  case True
  then obtain uid bytes where p: "peer = Some uid" "input = Some bytes" "bytes \<noteq> []" by blast
  define cmd where "cmd = rust_trim (utf8_lossy (take 1024 bytes))"
  obtain r d1 where c: "admin_command ax cmd uid d = (r, d1)" by fastforce
  with assms p have h: "(case (r, d1) of (Exited, d1) \<Rightarrow> (None, d1) | (Reply text None, d1) \<Rightarrow> (Some text, d1)
      | (Reply text (Some ev), d1) \<Rightarrow> (Some text, d1\<lparr>d_events := d_events d1 @ [ev]\<rparr>)) = (text, d')"
    by (simp add: handle_admin_connection_def cmd_def)
  have "\<exists>evs. d' = d1\<lparr>d_events := d_events d1 @ evs\<rparr>"
  proof (cases "\<exists>t ev. r = Reply t (Some ev)")
    case True
    with h show ?thesis by auto
  next
    case False
    with h have "d' = d1" by (auto split: admin_reply.splits option.splits)
    then show ?thesis by (intro exI [of _ "[]"]) simp
  qed
  with command [OF p(1) c] show ?thesis by blast
qed

lemma handle_admin_connection_lawful:
  assumes "handle_admin_connection ax (Some uid) input d = (text, d')"
  shows "lawful ax uid d d'"
  using assms
proof (cases rule: handle_admin_connection_cases)
  case (command u cmd r d1 evs)
  with admin_command_lawful [OF command(2)] show ?thesis
    by (auto simp: lawful_def queues_def mgmt_state_def)
qed simp

end
