(* ===== verification/Decision_Facts.thy ===== *)
theory Decision_Facts
  imports Decision "HOL-Library.Multiset"
begin

text \<open>
  What the enforcement lane guarantees: an approval is sent only for a request the policy allows,
  each request gets at most one verdict, an approved ticket is spent exactly once, tickets carry
  the epoch they were decided under. Three theorems record defects: two contradictory verdicts
  during a policy transition, an approved ticket spent by a user it was not drafted for, and the
  configured default effect, which is never consulted.
\<close>

section \<open>Sends\<close>

lemma send_simps [simp]:
  "d_channel_open d \<Longrightarrow> send_approve i d = (None, d\<lparr>d_queue := d_queue d @ [NsApprove i]\<rparr>)"
  "d_channel_open d \<Longrightarrow> send_deny i d = (None, d\<lparr>d_queue := d_queue d @ [NsDeny i]\<rparr>)"
  "d_channel_open d \<Longrightarrow> \<not> d_transition d \<Longrightarrow>
     send_ticket_add t d = (None, d\<lparr>d_queue := d_queue d @ [NsTicketAdd t]\<rparr>)"
  "d_transition d \<Longrightarrow>
     send_ticket_add t d = (Some ''TICKET_ADD suspended during epoch transition'', d)"
  by (simp_all add: send_approve_def send_deny_def send_ticket_add_def enqueue_def)

section \<open>The decision\<close>

text \<open>The request and its context, as one step of the worker sees them.\<close>

definition worker_request :: "teal_req \<Rightarrow> request" where
  "worker_request n = from_enforce_teal_req n"

definition worker_context :: "teal_req \<Rightarrow> daemon \<Rightarrow> access_context" where
  "worker_context n d =
     request_to_ctx (worker_request n) (cb_roles (d_bundle d))
       (check_registered_session (tr_session_tty n) (tr_uid n) d)"

definition worker_evaluate :: "world \<Rightarrow> teal_req \<Rightarrow> daemon \<Rightarrow> decision" where
  "worker_evaluate w n d = evaluate (wd_eval w) (d_bundle d) (worker_context n d)"

lemma worker_request_simps [simp]:
  "rq_id (worker_request n) = tr_trans_id n" "rq_uid (worker_request n) = tr_uid n"
  "rq_session_tty (worker_request n) = tr_session_tty n"
  by (simp_all add: worker_request_def from_enforce_teal_req_def request_from_teal_req_def)

lemma ensure_program_hash_simps [simp]:
  "rq_id (ensure_program_hash w req) = rq_id req" "rq_uid (ensure_program_hash w req) = rq_uid req"
  by (simp_all add: ensure_program_hash_def)

lemma process_policy_decision_alt:
  "process_policy_decision w (worker_request n) d =
     (case worker_evaluate w n d of
        Pass \<Rightarrow> (build_not_managed_result (worker_request n) (d_epoch d), worker_request n, d)
      | NoMatchManaged \<Rightarrow>
          (build_no_match_result (d_epoch d), ensure_program_hash w (worker_request n), d)
      | Matched r \<Rightarrow>
          (let req1 = (if \<not> is_silent_io (cr_ticket_profile r)
                       then ensure_program_hash w (worker_request n) else worker_request n);
               (res, d1) = apply_matched_rule w r req1 (d_epoch d) d
           in (res, req1, d1)))"
  by (simp add: process_policy_decision_def worker_evaluate_def worker_context_def Let_def)

lemma effect_decision_simps [simp]:
  "effect_decision Allow = PdAllow" "effect_decision Deny = PdDeny"
  "effect_decision AuditOnly = PdAuditOnly" "effect_decision NeedApproval = PdNeedApproval"
  by (simp_all add: effect_decision_def)

lemma matched_in_rules:
  assumes "evaluate ev b ctx = Matched r"
  shows "r \<in> set (cp_rules (cb_policy b))"
  using assms by (auto simp: evaluate_alt first_match_Matched split: if_splits)

text \<open>What deciding a matched rule does, by effect.\<close>

lemma apply_matched_rule_deny:
  "cr_effect r = Deny \<Longrightarrow> apply_matched_rule w r req e d =
     (\<lparr>pr_decision = PdDeny, pr_rule_id = Some (cr_id r), pr_ticket = None, pr_current_epoch = e\<rparr>, d)"
  by (simp add: apply_matched_rule_def)

lemma apply_matched_rule_audit:
  "cr_effect r = AuditOnly \<Longrightarrow> apply_matched_rule w r req e d =
     (\<lparr>pr_decision = PdAuditOnly, pr_rule_id = Some (cr_id r), pr_ticket = None, pr_current_epoch = e\<rparr>, d)"
  by (simp add: apply_matched_rule_def)

lemma apply_matched_rule_allow:
  "cr_effect r = Allow \<Longrightarrow> apply_matched_rule w r req e d =
     (if cpa_ttl_sec (cr_pre_approval r) > 0 then
        (\<lparr>pr_decision = PdAllow, pr_rule_id = Some (cr_id r),
          pr_ticket = Some (generate_allow_ticket w r req (fst (next_audit_ticket_id d)) e),
          pr_current_epoch = e\<rparr>, snd (next_audit_ticket_id d))
      else (\<lparr>pr_decision = PdAllow, pr_rule_id = Some (cr_id r), pr_ticket = None,
             pr_current_epoch = e\<rparr>, d))"
  by (simp add: apply_matched_rule_def case_prod_beta Let_def)

lemma apply_matched_rule_need:
  "cr_effect r = NeedApproval \<Longrightarrow> apply_matched_rule w r req e d = process_need_approval w r req e d"
  by (simp add: apply_matched_rule_def)

lemma next_audit_ticket_id_simps [simp]:
  "snd (next_audit_ticket_id d) = d\<lparr>d_ticket_seq := d_ticket_seq d + 1\<rparr>"
  by (simp add: next_audit_ticket_id_def)

lemma generate_allow_ticket_simps [simp]:
  "tk_epoch (generate_allow_ticket w r req tid e) = e"
  "tk_uid (generate_allow_ticket w r req tid e) = rq_uid req"
  "tk_op (generate_allow_ticket w r req tid e) = action_matcher_to_u32 (cr_action_match r)"
  "tk_ticket_id (generate_allow_ticket w r req tid e) = tid"
  by (simp_all add: generate_allow_ticket_def Let_def)

text \<open>A rule of the current bundle can always be found again under the same snapshot.\<close>

lemma find_rule_member:
  assumes "r \<in> set (cp_rules (cb_policy (d_bundle d)))"
  shows "\<exists>q. find_rule (Some (cr_id r)) d = Inr (Some q, d_epoch d)"
proof -
  have "List.find (\<lambda>x. cr_id x = cr_id r) (cp_rules (cb_policy (d_bundle d))) \<noteq> None"
    using assms by (auto simp: find_None_iff)
  then show ?thesis by (auto simp: find_rule_def)
qed

lemma from_result_with_req_Some:
  assumes "r \<in> set (cp_rules (cb_policy (d_bundle d)))" and "pr_rule_id res = Some (cr_id r)"
    and "tk_epoch t = d_epoch d"
  shows "\<exists>a. from_result_with_req res t req d = Some a"
  using find_rule_member [OF assms(1)] assms(2,3) by (auto simp: from_result_with_req_def)

section \<open>One step of the worker\<close>

text \<open>The outcome of one step while the kernel channel is open and no transition runs.\<close>

lemma step_not_managed:
  assumes "worker_evaluate w n d = Pass" and "d_channel_open d" and "\<not> d_transition d"
  shows "\<exists>t. tk_epoch t = d_epoch d \<and> tk_uid t = tr_uid n \<and>
    decision_worker_step w n d = d\<lparr>d_queue := d_queue d @ [NsApprove (tr_trans_id n), NsTicketAdd t],
      d_events := d_events d @ [IeResolved n (worker_request n) PdNotManaged None
        (Some (tk_ticket_id t)) (d_epoch d)]\<rparr>"
  using assms
  by (intro exI [of _ "the (pr_ticket (build_not_managed_result (worker_request n) (d_epoch d)))"])
    (simp add: decision_worker_step_def process_policy_decision_alt reply_to_kernel_def
      build_not_managed_result_def approve_then_ticket_def flip: worker_request_def)

lemma step_no_match:
  assumes "worker_evaluate w n d = NoMatchManaged" and "d_channel_open d"
  shows "decision_worker_step w n d = d\<lparr>d_queue := d_queue d @ [NsDeny (tr_trans_id n)],
      d_events := d_events d @ [IeResolved n (ensure_program_hash w (worker_request n)) PdNoRuleMatched
        None None (d_epoch d)]\<rparr>"
  using assms
  by (simp add: decision_worker_step_def process_policy_decision_alt reply_to_kernel_def
      build_no_match_result_def flip: worker_request_def)

definition hashed_request :: "world \<Rightarrow> compiled_rule \<Rightarrow> teal_req \<Rightarrow> request" where
  "hashed_request w r n =
     (if \<not> is_silent_io (cr_ticket_profile r)
      then ensure_program_hash w (worker_request n) else worker_request n)"

lemma hashed_request_simps [simp]:
  "rq_id (hashed_request w r n) = tr_trans_id n" "rq_uid (hashed_request w r n) = tr_uid n"
  by (simp_all add: hashed_request_def)

lemma step_matched:
  assumes "worker_evaluate w n d = Matched r"
    and "apply_matched_rule w r (hashed_request w r n) (d_epoch d) d = (res, d1)"
    and "reply_to_kernel (hashed_request w r n) res d1 = (None, res1, d2)"
  shows "decision_worker_step w n d = d2\<lparr>d_events := d_events d2 @
    [IeResolved n (hashed_request w r n) (pr_decision res1) (pr_rule_id res1)
       (case pr_ticket res of Some t \<Rightarrow> Some (tk_ticket_id t) | None \<Rightarrow> None) (pr_current_epoch res1)]\<rparr>"
  using assms
  by (simp add: decision_worker_step_def process_policy_decision_alt Let_def
      flip: worker_request_def hashed_request_def)

text \<open>The answers without a ticket.\<close>

lemma reply_plain:
  assumes "d_channel_open d" and "pr_ticket res = None"
  shows "pr_decision res = PdDeny \<Longrightarrow>
      reply_to_kernel req res d = (None, res, d\<lparr>d_queue := d_queue d @ [NsDeny (rq_id req)]\<rparr>)"
    and "pr_decision res = PdAuditOnly \<Longrightarrow>
      reply_to_kernel req res d = (None, res, d\<lparr>d_queue := d_queue d @ [NsApprove (rq_id req)]\<rparr>)"
    and "pr_decision res = PdAllow \<Longrightarrow>
      reply_to_kernel req res d = (None, res, d\<lparr>d_queue := d_queue d @ [NsApprove (rq_id req)]\<rparr>)"
    and "pr_decision res = PdNeedApproval \<Longrightarrow> reply_to_kernel req res d = (None, res, d)"
  using assms by (simp_all add: reply_to_kernel_def)

text \<open>The answers with one.\<close>

lemma reply_allow_ticket:
  assumes "d_channel_open d" and "\<not> d_transition d" and "pr_decision res = PdAllow"
    and "pr_ticket res = Some t" and "from_result_with_req (res\<lparr>pr_ticket := None\<rparr>) t req d = Some a"
  shows "reply_to_kernel req res d = (None, res\<lparr>pr_ticket := None\<rparr>,
    d\<lparr>d_queue := d_queue d @ [NsApprove (rq_id req), NsTicketAdd t],
      d_active := hm_insert (at_ticket_id a) a (d_active d)\<rparr>)"
  using assms by (simp add: reply_to_kernel_def)

lemma hydrate_approved_simps [simp]:
  "at_ticket_id (hydrate_approved req a) = at_ticket_id a"
  "at_rule_id (hydrate_approved req a) = at_rule_id a"
  "at_epoch (hydrate_approved req a) = at_epoch a"
  "at_uid (hydrate_approved req a) = rq_uid req"
  by (simp_all add: hydrate_approved_def)

lemma reply_approved:
  assumes "d_channel_open d" and "\<not> d_transition d" and "pr_decision res = PdApproved a"
    and "pr_ticket res = Some t"
  shows "reply_to_kernel req res d =
    (None, res\<lparr>pr_decision := PdApproved (hydrate_approved req a), pr_ticket := None\<rparr>,
     d\<lparr>d_queue := d_queue d @ [NsApprove (rq_id req), NsTicketAdd t],
       d_active := hm_insert (at_ticket_id a) (hydrate_approved req a) (d_active d)\<rparr>)"
  using assms by (simp add: reply_to_kernel_def approve_then_ticket_def Let_def)

lemma step_deny:
  assumes "worker_evaluate w n d = Matched r" and "cr_effect r = Deny" and "d_channel_open d"
  shows "decision_worker_step w n d = d\<lparr>d_queue := d_queue d @ [NsDeny (tr_trans_id n)],
    d_events := d_events d @ [IeResolved n (hashed_request w r n) PdDeny (Some (cr_id r)) None (d_epoch d)]\<rparr>"
  using step_matched [OF assms(1) apply_matched_rule_deny [OF assms(2)] reply_plain(1) [OF assms(3)]]
  by simp

lemma step_audit_only:
  assumes "worker_evaluate w n d = Matched r" and "cr_effect r = AuditOnly" and "d_channel_open d"
  shows "decision_worker_step w n d = d\<lparr>d_queue := d_queue d @ [NsApprove (tr_trans_id n)],
    d_events := d_events d @ [IeResolved n (hashed_request w r n) PdAuditOnly (Some (cr_id r)) None (d_epoch d)]\<rparr>"
  using step_matched [OF assms(1) apply_matched_rule_audit [OF assms(2)] reply_plain(2) [OF assms(3)]]
  by simp

lemma step_allow_plain:
  assumes "worker_evaluate w n d = Matched r" and "cr_effect r = Allow" and "d_channel_open d"
    and "cpa_ttl_sec (cr_pre_approval r) = 0"
  shows "decision_worker_step w n d = d\<lparr>d_queue := d_queue d @ [NsApprove (tr_trans_id n)],
    d_events := d_events d @ [IeResolved n (hashed_request w r n) PdAllow (Some (cr_id r)) None (d_epoch d)]\<rparr>"
proof -
  have "apply_matched_rule w r (hashed_request w r n) (d_epoch d) d =
    (\<lparr>pr_decision = PdAllow, pr_rule_id = Some (cr_id r), pr_ticket = None,
      pr_current_epoch = d_epoch d\<rparr>, d)"
    using assms(4) by (simp add: apply_matched_rule_allow [OF assms(2)])
  from step_matched [OF assms(1) this reply_plain(3) [OF assms(3)]] show ?thesis by simp
qed

lemma step_allow_ticket:
  assumes ev: "worker_evaluate w n d = Matched r" and eff: "cr_effect r = Allow"
    and ch: "d_channel_open d" and tr: "\<not> d_transition d"
    and ttl: "cpa_ttl_sec (cr_pre_approval r) > 0"
  defines "t \<equiv> generate_allow_ticket w r (hashed_request w r n) (fst (next_audit_ticket_id d)) (d_epoch d)"
  shows "\<exists>a. decision_worker_step w n d = d\<lparr>d_ticket_seq := d_ticket_seq d + 1,
    d_queue := d_queue d @ [NsApprove (tr_trans_id n), NsTicketAdd t],
    d_active := hm_insert (at_ticket_id a) a (d_active d),
    d_events := d_events d @ [IeResolved n (hashed_request w r n) PdAllow (Some (cr_id r))
      (Some (tk_ticket_id t)) (d_epoch d)]\<rparr>"
proof -
  let ?d1 = "d\<lparr>d_ticket_seq := d_ticket_seq d + 1\<rparr>"
  let ?res = "\<lparr>pr_decision = PdAllow, pr_rule_id = Some (cr_id r), pr_ticket = Some t,
    pr_current_epoch = d_epoch d\<rparr>"
  have ap: "apply_matched_rule w r (hashed_request w r n) (d_epoch d) d = (?res, ?d1)"
    using ttl by (simp add: apply_matched_rule_allow [OF eff] t_def)
  have "r \<in> set (cp_rules (cb_policy (d_bundle ?d1)))"
    using ev matched_in_rules by (auto simp: worker_evaluate_def)
  moreover have "pr_rule_id (?res\<lparr>pr_ticket := None\<rparr>) = Some (cr_id r)" "tk_epoch t = d_epoch ?d1"
    by (simp_all add: t_def)
  ultimately obtain a where
    "from_result_with_req (?res\<lparr>pr_ticket := None\<rparr>) t (hashed_request w r n) ?d1 = Some a"
    using from_result_with_req_Some by blast
  then have "reply_to_kernel (hashed_request w r n) ?res ?d1 = (None, ?res\<lparr>pr_ticket := None\<rparr>,
    ?d1\<lparr>d_queue := d_queue ?d1 @ [NsApprove (rq_id (hashed_request w r n)), NsTicketAdd t],
      d_active := hm_insert (at_ticket_id a) a (d_active ?d1)\<rparr>)"
    using ch tr by (intro reply_allow_ticket) simp_all
  from step_matched [OF ev ap this] show ?thesis by (intro exI [of _ a]) simp
qed

text \<open>The ticket issued with an \<open>Allow\<close>: bound to the requesting uid, the rule's operations and
  the epoch of the decision.\<close>

definition allow_ticket_ok :: "daemon \<Rightarrow> teal_req \<Rightarrow> compiled_rule \<Rightarrow> ticket_payload \<Rightarrow> bool" where
  "allow_ticket_ok d n r t \<longleftrightarrow>
     tk_epoch t = d_epoch d \<and> tk_uid t = tr_uid n \<and>
     tk_op t = action_matcher_to_u32 (cr_action_match r)"

text \<open>The table of approved tickets is keyed by ticket id.\<close>

definition approved_wf :: "daemon \<Rightarrow> bool" where
  "approved_wf d \<longleftrightarrow> hm_wf (d_approved d) \<and>
     (\<forall>k t. hm_get (d_approved d) k = Some t \<longrightarrow> at_ticket_id t = k)"

definition has_approved :: "daemon \<Rightarrow> string \<Rightarrow> bool" where
  "has_approved d rid \<longleftrightarrow> (\<exists>t \<in> set (hm_values (d_approved d)). at_rule_id t = rid)"

lemma take_approved_Some:
  assumes "approved_wf d" and "has_approved d rid"
  shows "\<exists>t. at_rule_id t = rid \<and> hm_get (d_approved d) (at_ticket_id t) = Some t \<and>
    take_approved_or_enqueue rid i e d =
      (Some t, d\<lparr>d_approved := hm_remove (at_ticket_id t) (d_approved d),
                 d_active := hm_insert (at_ticket_id t) t (d_active d)\<rparr>)"
proof -
  from assms(2) obtain t where f: "hm_find_value (\<lambda>t. at_rule_id t = rid) (d_approved d) = Some t"
    using hm_find_value_None [of "\<lambda>t. at_rule_id t = rid" "d_approved d"]
    by (cases "hm_find_value (\<lambda>t. at_rule_id t = rid) (d_approved d)") (auto simp: has_approved_def)
  then have t: "t \<in> set (hm_values (d_approved d))" "at_rule_id t = rid"
    using hm_find_value_Some [OF f] by simp_all
  with assms(1) have "hm_get (d_approved d) (at_ticket_id t) = Some t"
    unfolding approved_wf_def using hm_values_iff by fastforce
  with f t(2) show ?thesis by (auto simp: take_approved_or_enqueue_def)
qed

lemma take_approved_None:
  assumes "\<not> has_approved d rid"
  shows "take_approved_or_enqueue rid i e d = (None, d\<lparr>d_pending := hm_insert i e (d_pending d)\<rparr>)"
  using assms hm_find_value_None [of "\<lambda>t. at_rule_id t = rid" "d_approved d"]
  by (auto simp: take_approved_or_enqueue_def has_approved_def)

lemma hm_remove_only: "hm_get [(k, v)] x = Some t \<Longrightarrow> hm_remove x [(k, v)] = []"
  by (cases "k = x") (simp_all add: hm_get_def hm_remove_def)

lemma hm_remove_mset:
  "hm_wf m \<Longrightarrow> hm_get m k = Some v \<Longrightarrow> add_mset k (mset (map fst (hm_remove k m))) = mset (map fst m)"
proof (induction m)
  case (Cons p m)
  show ?case
  proof (cases "fst p = k")
    case True
    with Cons.prems(1) have "k \<notin> fst ` set m" by (auto simp: hm_wf_def)
    then have "hm_remove k m = m"
      by (force simp: hm_remove_def AList.delete_eq intro!: filter_True)
    with True show ?thesis by (cases p) (simp add: hm_remove_def AList.delete_eq)
  next
    case False
    with Cons.prems have "hm_wf m" "hm_get m k = Some v"
      by (auto simp: hm_wf_def hm_get_def split: if_splits)
    from Cons.IH [OF this] False show ?thesis by (cases p) (simp add: hm_remove_def AList.delete_eq)
  qed
qed (simp add: hm_get_def)

text \<open>The two outcomes of a rule that needs an approval.\<close>

lemma step_need_approved:
  assumes ev: "worker_evaluate w n d = Matched r" and eff: "cr_effect r = NeedApproval"
    and ch: "d_channel_open d" and tr: "\<not> d_transition d"
    and wf: "approved_wf d" and ex: "has_approved d (cr_id r)"
  shows "\<exists>t p. at_rule_id t = cr_id r \<and> hm_get (d_approved d) (at_ticket_id t) = Some t \<and>
    tk_epoch p = d_epoch d \<and> tk_uid p = tr_uid n \<and>
    decision_worker_step w n d = d\<lparr>
      d_approved := hm_remove (at_ticket_id t) (d_approved d),
      d_active := hm_insert (at_ticket_id t) (hydrate_approved (hashed_request w r n) t)
        (hm_insert (at_ticket_id t) t (d_active d)),
      d_queue := d_queue d @ [NsApprove (tr_trans_id n), NsTicketAdd p],
      d_events := d_events d @ [IeResolved n (hashed_request w r n)
        (PdApproved (hydrate_approved (hashed_request w r n) t)) (Some (cr_id r))
        (Some (tk_ticket_id p)) (d_epoch d)]\<rparr>"
proof -
  let ?req = "hashed_request w r n"
  let ?e = "entry_from_rule w r ?req (d_epoch d)"
  from take_approved_Some [OF wf ex] obtain t where
    t: "at_rule_id t = cr_id r" "hm_get (d_approved d) (at_ticket_id t) = Some t" and
    take: "take_approved_or_enqueue (cr_id r) (rq_id ?req) ?e d =
      (Some t, d\<lparr>d_approved := hm_remove (at_ticket_id t) (d_approved d),
                 d_active := hm_insert (at_ticket_id t) t (d_active d)\<rparr>)" by blast
  let ?d1 = "d\<lparr>d_approved := hm_remove (at_ticket_id t) (d_approved d),
    d_active := hm_insert (at_ticket_id t) t (d_active d)\<rparr>"
  let ?p = "approved_payload r ?req t (d_epoch d)"
  let ?res = "\<lparr>pr_decision = PdApproved t, pr_rule_id = Some (cr_id r), pr_ticket = Some ?p,
    pr_current_epoch = d_epoch d\<rparr>"
  have ap: "apply_matched_rule w r ?req (d_epoch d) d = (?res, ?d1)"
    by (simp only: apply_matched_rule_need [OF eff] process_need_approval_def take Let_def
        prod.case option.case)
  have "d_channel_open ?d1" "\<not> d_transition ?d1" "pr_decision ?res = PdApproved t"
    "pr_ticket ?res = Some ?p" using ch tr by simp_all
  note st = step_matched [OF ev ap reply_approved [OF this]]
  have "tk_epoch ?p = d_epoch d" "tk_uid ?p = tr_uid n" by (simp_all add: approved_payload_def)
  with t st show ?thesis by (intro exI [of _ t] exI [of _ ?p]) simp
qed

lemma step_need_pending:
  assumes ev: "worker_evaluate w n d = Matched r" and eff: "cr_effect r = NeedApproval"
    and ch: "d_channel_open d" and ex: "\<not> has_approved d (cr_id r)"
  shows "decision_worker_step w n d = d\<lparr>
      d_pending := hm_insert (tr_trans_id n)
        (entry_from_rule w r (hashed_request w r n) (d_epoch d)) (d_pending d),
      d_events := d_events d @ [IeResolved n (hashed_request w r n) PdNeedApproval (Some (cr_id r))
        None (d_epoch d)]\<rparr>"
proof -
  let ?req = "hashed_request w r n"
  let ?e = "entry_from_rule w r ?req (d_epoch d)"
  let ?d1 = "d\<lparr>d_pending := hm_insert (tr_trans_id n) ?e (d_pending d)\<rparr>"
  have ap: "apply_matched_rule w r ?req (d_epoch d) d =
    (\<lparr>pr_decision = PdNeedApproval, pr_rule_id = Some (cr_id r), pr_ticket = None,
      pr_current_epoch = d_epoch d\<rparr>, ?d1)"
    by (simp add: apply_matched_rule_need [OF eff] process_need_approval_def take_approved_None [OF ex])
  have "d_channel_open ?d1" using ch by simp
  from step_matched [OF ev ap reply_plain(4) [OF this]] show ?thesis by simp
qed

section \<open>The abstract verdict\<close>

text \<open>
  What the policy says about a request: it may go ahead, it is refused, or it waits. The worker
  has no other source of decisions.
\<close>

definition authorised :: "world \<Rightarrow> teal_req \<Rightarrow> daemon \<Rightarrow> bool" where
  "authorised w n d =
     (case worker_evaluate w n d of
        Pass \<Rightarrow> True
      | NoMatchManaged \<Rightarrow> False
      | Matched r \<Rightarrow> cr_effect r = Allow \<or> cr_effect r = AuditOnly \<or>
          cr_effect r = NeedApproval \<and> has_approved d (cr_id r))"

definition refused :: "world \<Rightarrow> teal_req \<Rightarrow> daemon \<Rightarrow> bool" where
  "refused w n d =
     (case worker_evaluate w n d of
        Pass \<Rightarrow> False | NoMatchManaged \<Rightarrow> True | Matched r \<Rightarrow> cr_effect r = Deny)"

definition verdict_for :: "world \<Rightarrow> teal_req \<Rightarrow> daemon \<Rightarrow> netlink_send list" where
  "verdict_for w n d =
     (if authorised w n d then [NsApprove (tr_trans_id n)]
      else if refused w n d then [NsDeny (tr_trans_id n)] else [])"

text \<open>The ids of the approved tickets that reported decisions spent.\<close>

fun spent_by :: "internal_event \<Rightarrow> string list" where
  "spent_by (IeResolved n req (PdApproved a) rid tid e) = [at_ticket_id a]"
| "spent_by _ = []"

definition spent :: "daemon \<Rightarrow> string list" where
  "spent d = concat (map spent_by (d_events d))"

definition ticket_conforms :: "daemon \<Rightarrow> teal_req \<Rightarrow> ticket_payload \<Rightarrow> bool" where
  "ticket_conforms d n t \<longleftrightarrow> tk_epoch t = d_epoch d \<and> tk_uid t = tr_uid n"

text \<open>The worker is ready for a request: the kernel listens and no policy transition runs.\<close>

definition lane_open :: "daemon \<Rightarrow> bool" where
  "lane_open d \<longleftrightarrow> d_channel_open d \<and> \<not> d_transition d \<and> approved_wf d"

text \<open>Everything a step does that the properties below need, in one description.\<close>

definition step_refines :: "world \<Rightarrow> teal_req \<Rightarrow> daemon \<Rightarrow> daemon \<Rightarrow> bool" where
  "step_refines w n d d' \<longleftrightarrow>
     (\<exists>ts. d_queue d' = d_queue d @ verdict_for w n d @ map NsTicketAdd ts \<and>
        (\<forall>t \<in> set ts. ticket_conforms d n t) \<and> (ts \<noteq> [] \<longrightarrow> authorised w n d)) \<and>
     (\<exists>ev. d_events d' = d_events d @ [ev]) \<and>
     lane_open d' \<and> d_snapshot d' = d_snapshot d \<and>
     mset (spent d') + mset (map fst (d_approved d')) =
       mset (spent d) + mset (map fst (d_approved d))"

lemma step_refinesI:
  assumes "lane_open d" and "d_queue d' = d_queue d @ verdict_for w n d @ map NsTicketAdd ts"
    and "\<forall>t \<in> set ts. ticket_conforms d n t" and "ts \<noteq> [] \<Longrightarrow> authorised w n d"
    and "spent_by ev = []" and "d_events d' = d_events d @ [ev]"
    and "d_snapshot d' = d_snapshot d" and "d_approved d' = d_approved d"
    and "d_channel_open d' = d_channel_open d" and "d_transition d' = d_transition d"
  shows "step_refines w n d d'"
  using assms by (auto simp: step_refines_def lane_open_def approved_wf_def spent_def)

lemma approved_wf_remove:
  assumes "approved_wf d" and "d_approved d' = hm_remove k (d_approved d)"
  shows "approved_wf d'"
  using assms hm.invar_remove [of "d_approved d" k] hm.lookup_remove [of "d_approved d" k]
  by (auto simp: approved_wf_def split: if_splits)

lemma step_refines_worker:
  assumes "lane_open d"
  shows "step_refines w n d (decision_worker_step w n d)"
proof -
  from assms have ch: "d_channel_open d" and tr: "\<not> d_transition d" and wf: "approved_wf d"
    by (simp_all add: lane_open_def)
  show ?thesis
  proof (cases "worker_evaluate w n d")
    case Pass
    then have v: "verdict_for w n d = [NsApprove (tr_trans_id n)]" "authorised w n d"
      by (simp_all add: verdict_for_def authorised_def)
    from step_not_managed [OF Pass ch tr] obtain t where
      "tk_epoch t = d_epoch d" "tk_uid t = tr_uid n" and st: "decision_worker_step w n d =
        d\<lparr>d_queue := d_queue d @ [NsApprove (tr_trans_id n), NsTicketAdd t],
          d_events := d_events d @ [IeResolved n (worker_request n) PdNotManaged None
            (Some (tk_ticket_id t)) (d_epoch d)]\<rparr>" by blast
    then show ?thesis unfolding st
      by (intro step_refinesI [OF assms, of _ _ _ "[t]"]) (simp_all add: v ticket_conforms_def)
  next
    case NoMatchManaged
    then have "verdict_for w n d = [NsDeny (tr_trans_id n)]"
      by (simp add: verdict_for_def authorised_def refused_def)
    then show ?thesis unfolding step_no_match [OF NoMatchManaged ch]
      by (intro step_refinesI [OF assms, of _ _ _ "[]"]) simp_all
  next
    case (Matched r)
    note v = verdict_for_def authorised_def refused_def Matched
    show ?thesis
    proof (cases "cr_effect r")
      case Deny
      then show ?thesis unfolding step_deny [OF Matched Deny ch]
        by (intro step_refinesI [OF assms, of _ _ _ "[]"]) (simp_all add: v)
    next
      case AuditOnly
      then show ?thesis unfolding step_audit_only [OF Matched AuditOnly ch]
        by (intro step_refinesI [OF assms, of _ _ _ "[]"]) (simp_all add: v)
    next
      case Allow
      show ?thesis
      proof (cases "cpa_ttl_sec (cr_pre_approval r) = 0")
        case True
        with Allow show ?thesis unfolding step_allow_plain [OF Matched Allow ch True]
          by (intro step_refinesI [OF assms, of _ _ _ "[]"]) (simp_all add: v)
      next
        case False
        then have "cpa_ttl_sec (cr_pre_approval r) > 0" by (simp add: word_gt_0)
        from step_allow_ticket [OF Matched Allow ch tr this] obtain a where
          st: "decision_worker_step w n d = d\<lparr>d_ticket_seq := d_ticket_seq d + 1,
            d_queue := d_queue d @ [NsApprove (tr_trans_id n), NsTicketAdd (generate_allow_ticket w r
              (hashed_request w r n) (fst (next_audit_ticket_id d)) (d_epoch d))],
            d_active := hm_insert (at_ticket_id a) a (d_active d),
            d_events := d_events d @ [IeResolved n (hashed_request w r n) PdAllow (Some (cr_id r))
              (Some (fst (next_audit_ticket_id d))) (d_epoch d)]\<rparr>" by auto
        let ?t = "generate_allow_ticket w r (hashed_request w r n) (fst (next_audit_ticket_id d)) (d_epoch d)"
        show ?thesis unfolding st using Allow
          by (intro step_refinesI [OF assms, of _ _ _ "[?t]"]) (simp_all add: v ticket_conforms_def)
      qed
    next
      case NeedApproval
      show ?thesis
      proof (cases "has_approved d (cr_id r)")
        case False
        with NeedApproval show ?thesis unfolding step_need_pending [OF Matched NeedApproval ch False]
          by (intro step_refinesI [OF assms, of _ _ _ "[]"]) (simp_all add: v)
      next
        case True
        from step_need_approved [OF Matched NeedApproval ch tr wf True] obtain t p where
          t: "hm_get (d_approved d) (at_ticket_id t) = Some t"
          "tk_epoch p = d_epoch d" "tk_uid p = tr_uid n" and
          st: "decision_worker_step w n d = d\<lparr>
            d_approved := hm_remove (at_ticket_id t) (d_approved d),
            d_active := hm_insert (at_ticket_id t) (hydrate_approved (hashed_request w r n) t)
              (hm_insert (at_ticket_id t) t (d_active d)),
            d_queue := d_queue d @ [NsApprove (tr_trans_id n), NsTicketAdd p],
            d_events := d_events d @ [IeResolved n (hashed_request w r n)
              (PdApproved (hydrate_approved (hashed_request w r n) t)) (Some (cr_id r))
              (Some (tk_ticket_id p)) (d_epoch d)]\<rparr>" by blast
        let ?d' = "decision_worker_step w n d"
        have "lane_open ?d'"
          using ch tr approved_wf_remove [OF wf, of ?d' "at_ticket_id t"] by (simp add: lane_open_def st)
        moreover have "mset (spent ?d') + mset (map fst (d_approved ?d')) =
            mset (spent d) + mset (map fst (d_approved d))"
          using hm_remove_mset [OF _ t(1)] wf
          by (simp add: st spent_def approved_wf_def flip: mset_map)
        ultimately show ?thesis using NeedApproval True t(2,3)
          by (auto simp: step_refines_def st v ticket_conforms_def intro!: exI [of _ "[p]"])
      qed
    qed
  qed
qed

section \<open>Properties of the lane\<close>

text \<open>
  C3. What reaches the kernel is exactly what the policy says. For every request a ready worker
  queues the approval when the policy lets the request go ahead, the denial when it refuses it,
  and nothing yet when it waits for people; one verdict at most, always for that request; and the
  only other messages are tickets, sent only for a request that was let through.
\<close>

theorem worker_verdict_is_policy:
  assumes "lane_open d"
  shows "\<exists>ts. d_queue (decision_worker_step w n d) =
      d_queue d @ verdict_for w n d @ map NsTicketAdd ts \<and> (ts \<noteq> [] \<longrightarrow> authorised w n d)"
  using step_refines_worker [OF assms, of w n] by (auto simp: step_refines_def)

text \<open>
  Every ticket the worker sends for a request carries the epoch of the policy snapshot the
  request was decided under and the uid of the requesting process.
\<close>

theorem worker_tickets_conform:
  assumes "lane_open d"
    and "d_queue (decision_worker_step w n d) = d_queue d @ new" and "NsTicketAdd t \<in> set new"
  shows "tk_epoch t = d_epoch d \<and> tk_uid t = tr_uid n"
  using step_refines_worker [OF assms(1), of w n] assms(2,3)
  by (auto simp: step_refines_def verdict_for_def ticket_conforms_def split: if_splits)

lemma loop_conserves:
  "lane_open d \<Longrightarrow> lane_open (decision_worker_loop w ns d) \<and>
     mset (spent (decision_worker_loop w ns d)) + mset (map fst (d_approved (decision_worker_loop w ns d))) =
       mset (spent d) + mset (map fst (d_approved d)) \<and>
     length (d_events (decision_worker_loop w ns d)) = length (d_events d) + length ns"
proof (induction ns arbitrary: d)
  case (Cons n ns)
  have "step_refines w n d (decision_worker_step w n d)"
    using Cons.prems by (rule step_refines_worker)
  then show ?case using Cons.IH [of "decision_worker_step w n d"] by (auto simp: step_refines_def)
qed simp

text \<open>
  C8. An approval is spent once. Over any sequence of requests the approved tickets still in the
  table and those reported as spent are together exactly the tickets there were at the start: none
  is used twice, none is lost.
\<close>

theorem approvals_spent_once:
  assumes "lane_open d" and "spent d = []"
  shows "mset (spent (decision_worker_loop w ns d)) +
      mset (map fst (d_approved (decision_worker_loop w ns d))) = mset (map fst (d_approved d)) \<and>
    distinct (spent (decision_worker_loop w ns d))"
proof -
  let ?d' = "decision_worker_loop w ns d"
  have c: "mset (spent ?d') + mset (map fst (d_approved ?d')) = mset (map fst (d_approved d))"
    using loop_conserves [OF assms(1), of w ns] assms(2) by simp
  have "distinct (map fst (d_approved d))"
    using assms(1) by (simp add: lane_open_def approved_wf_def hm_wf_def)
  then have "distinct (spent ?d' @ map fst (d_approved ?d'))"
    by (metis c mset_append mset_eq_imp_distinct_iff)
  with c show ?thesis by simp
qed

section \<open>Defects\<close>

text \<open>
  During a policy transition one request gets two contradictory verdicts. \<open>TICKET_ADD\<close> is
  suspended then, the error of sending the ticket makes the worker deny as well, and the approval
  sent just before stays in the queue.
\<close>

theorem transition_double_verdict:
  assumes "worker_evaluate w n d = Pass" and "d_channel_open d" and "d_transition d"
  shows "d_queue (decision_worker_step w n d) =
    d_queue d @ [NsApprove (tr_trans_id n), NsDeny (tr_trans_id n)]"
  using assms
  by (simp add: decision_worker_step_def process_policy_decision_alt reply_to_kernel_def Let_def
      build_not_managed_result_def approve_then_ticket_def flip: worker_request_def)

text \<open>
  An approved ticket is spent by whoever asks first. The worker looks it up by the rule alone,
  so a ticket approved for one uid lets a process of any other uid through.
\<close>

theorem approved_ticket_for_any_uid:
  assumes "worker_evaluate w n d = Matched r" and "cr_effect r = NeedApproval" and "lane_open d"
    and "d_approved d = [(at_ticket_id a, a)]" and "at_rule_id a = cr_id r" and "at_uid a \<noteq> tr_uid n"
  shows "\<exists>p. d_queue (decision_worker_step w n d) =
      d_queue d @ [NsApprove (tr_trans_id n), NsTicketAdd p] \<and> tk_uid p = tr_uid n \<and>
      d_approved (decision_worker_step w n d) = []"
proof -
  have ex: "has_approved d (cr_id r)" using assms by (simp add: has_approved_def hm_values_def)
  from assms(3) have "d_channel_open d" "\<not> d_transition d" "approved_wf d"
    by (simp_all add: lane_open_def)
  note st = step_need_approved [OF assms(1,2) this ex]
  let ?new = "\<lambda>t p. d_queue (decision_worker_step w n d) =
      d_queue d @ [NsApprove (tr_trans_id n), NsTicketAdd p] \<and>
    d_approved (decision_worker_step w n d) = hm_remove (at_ticket_id t) (d_approved d)"
  from st obtain t p where t: "hm_get (d_approved d) (at_ticket_id t) = Some t" "tk_uid p = tr_uid n"
    and new: "?new t p" by (elim exE conjE) (rule that, assumption+, simp)
  have "hm_remove (at_ticket_id t) (d_approved d) = []"
    using t(1) unfolding assms(4) by (rule hm_remove_only)
  with t(2) new show ?thesis by auto
qed

text \<open>
  The configured default effect has no effect: a managed request no rule matches is denied
  whatever \<open>default_effect\<close> the policy declares.
\<close>

theorem default_effect_ignored:
  assumes "worker_evaluate w n d = NoMatchManaged" and "lane_open d"
    and "d' = d\<lparr>d_snapshot := (d_snapshot d)\<lparr>ps_bundle := (d_bundle d)
          \<lparr>cb_policy := (cb_policy (d_bundle d))\<lparr>cp_default_effect := eff\<rparr>\<rparr>\<rparr>\<rparr>"
  shows "d_queue (decision_worker_step w n d') = d_queue d @ [NsDeny (tr_trans_id n)]"
proof -
  have "check_registered_session s u d' = check_registered_session s u d" for s u
    using assms(3) by (simp add: check_registered_session_def)
  then have "worker_context n d' = worker_context n d"
    using assms(3) by (simp add: worker_context_def)
  moreover have "evaluate ev (d_bundle d') ctx = evaluate ev (d_bundle d) ctx" for ev ctx
    using assms(3) by (simp add: evaluate_def)
  ultimately have "worker_evaluate w n d' = NoMatchManaged"
    using assms(1) by (simp add: worker_evaluate_def)
  moreover have "d_channel_open d'" "d_queue d' = d_queue d"
    using assms by (simp_all add: lane_open_def)
  ultimately show ?thesis using step_no_match by simp
qed

text \<open>
  A silent directory ticket drops conditions of its rule: the ticket that is preloaded for a
  rule is the same whatever roles, login context, script, applet and time window the rule asks for.
\<close>

theorem preload_ignores_conditions:
  "preload_ticket w e (r\<lparr>cr_time_constraints := tcs,
      cr_subject := (cr_subject r)\<lparr>sm_required_roles := roles, sm_origin_script := script,
        sm_origin_applet := applet, sm_login_context := login\<rparr>\<rparr>) = preload_ticket w e r"
proof -
  let ?r = "r\<lparr>cr_time_constraints := tcs, cr_subject := (cr_subject r)\<lparr>sm_required_roles := roles,
    sm_origin_script := script, sm_origin_applet := applet, sm_login_context := login\<rparr>\<rparr>"
  have "preload_program_id w ?r = preload_program_id w r" "rule_object_path ?r = rule_object_path r"
    "cr_effect ?r = cr_effect r" "cr_ticket_profile ?r = cr_ticket_profile r"
    "cr_action_match ?r = cr_action_match r" "sm_uid (cr_subject ?r) = sm_uid (cr_subject r)"
    by (simp_all add: preload_program_id_def rule_object_path_def)
  then show ?thesis unfolding preload_ticket_def by presburger
qed

section \<open>Sample requests\<close>

definition approval_rule :: compiled_rule where
  "approval_rule = sample_rule\<lparr>cr_effect := NeedApproval\<rparr>"

definition approval_daemon :: daemon where
  "approval_daemon = sample_daemon
     \<lparr>d_snapshot := \<lparr>ps_epoch = 1, ps_bundle = sample_bundle
        \<lparr>cb_policy := default_policy
          \<lparr>cp_rules := [approval_rule], cp_scope := scope_from_rules [approval_rule]\<rparr>\<rparr>\<rparr>\<rparr>"

definition foreign_ticket :: approved_ticket where
  "foreign_ticket =
     \<lparr>at_ticket_id = ''T-000000001'', at_epoch = 1, at_rule_id = ''R1'',
      at_origin_program = ''/bin/cat'', at_origin_script = None, at_object = ''/etc/shadow'',
      at_new_object = None, at_uid = 500, at_origin_program_id = entity 1 2,
      at_origin_program_sha256 = None, at_origin_script_id = None, at_origin_applet = None,
      at_object_id = entity 1 3, at_new_object_id = None, at_op_mask = 1, at_ttl_sec = 60,
      at_max_uses = 1\<rparr>"

definition approved_daemon :: daemon where
  "approved_daemon = approval_daemon\<lparr>d_approved := [(at_ticket_id foreign_ticket, foreign_ticket)]\<rparr>"

lemma sample_evaluations:
  "worker_evaluate sample_world (sample_req ''READ'' ''/etc/shadow'') approval_daemon = Matched approval_rule"
  "worker_evaluate sample_world (sample_req ''WRITE'' ''/etc/shadow'') approval_daemon = NoMatchManaged"
  "worker_evaluate sample_world (sample_req ''READ'' ''/etc/motd'') approval_daemon = Pass"
  by code_simp+

lemma worker_evaluate_cong:
  "d_snapshot d' = d_snapshot d \<Longrightarrow> d_tty_sessions d' = d_tty_sessions d \<Longrightarrow>
   worker_evaluate w n d' = worker_evaluate w n d"
  by (simp add: worker_evaluate_def worker_context_def check_registered_session_def)

lemma sample_lanes: "lane_open approval_daemon" "lane_open approved_daemon"
  by (simp_all add: lane_open_def approved_wf_def hm_wf_def hm_get_def approved_daemon_def
      approval_daemon_def sample_daemon_def)

lemma worker_verdict_is_policy_witness:
  "\<exists>ts. d_queue (decision_worker_step sample_world (sample_req ''READ'' ''/etc/motd'') approval_daemon) =
     NsApprove 7 # map NsTicketAdd ts"
proof -
  let ?n = "sample_req ''READ'' ''/etc/motd''"
  have "d_queue approval_daemon @ verdict_for sample_world ?n approval_daemon @ ts = NsApprove 7 # ts" for ts
    by (simp add: verdict_for_def authorised_def sample_evaluations)
      (simp add: approval_daemon_def sample_daemon_def sample_req_def)
  with worker_verdict_is_policy [OF sample_lanes(1), of sample_world ?n] show ?thesis by auto
qed

lemma worker_tickets_conform_witness:
  "\<exists>t. NsTicketAdd t \<in> set (d_queue (decision_worker_step sample_world
      (sample_req ''READ'' ''/etc/motd'') approval_daemon)) \<and> tk_epoch t = 1 \<and> tk_uid t = 1000"
proof -
  let ?n = "sample_req ''READ'' ''/etc/motd''"
  have "d_channel_open approval_daemon" "\<not> d_transition approval_daemon"
    using sample_lanes(1) by (simp_all add: lane_open_def)
  from step_not_managed [OF sample_evaluations(3) this] obtain t where
    q: "d_queue (decision_worker_step sample_world ?n approval_daemon) =
      d_queue approval_daemon @ [NsApprove (tr_trans_id ?n), NsTicketAdd t]" by force
  have "tk_epoch t = d_epoch approval_daemon \<and> tk_uid t = tr_uid ?n"
    by (rule worker_tickets_conform [OF sample_lanes(1) q]) simp
  with q show ?thesis
    by (intro exI [of _ t]) (simp add: approval_daemon_def sample_daemon_def sample_req_def)
qed

lemma approvals_spent_once_witness:
  "distinct (spent (decision_worker_loop sample_world
     [sample_req ''READ'' ''/etc/shadow'', sample_req ''READ'' ''/etc/shadow''] approved_daemon))"
proof -
  have "spent approved_daemon = []"
    by (simp add: spent_def approved_daemon_def approval_daemon_def sample_daemon_def)
  with approvals_spent_once [OF sample_lanes(2)] show ?thesis by blast
qed

lemma transition_double_verdict_witness:
  "d_queue (decision_worker_step sample_world (sample_req ''READ'' ''/etc/motd'')
     (approval_daemon\<lparr>d_transition := True\<rparr>)) = [NsApprove 7, NsDeny 7]"
proof -
  let ?d = "approval_daemon\<lparr>d_transition := True\<rparr>" and ?n = "sample_req ''READ'' ''/etc/motd''"
  have "worker_evaluate sample_world ?n ?d = Pass"
    using worker_evaluate_cong [of ?d approval_daemon] sample_evaluations(3) by simp
  from transition_double_verdict [OF this] show ?thesis
    by (simp add: approval_daemon_def sample_daemon_def sample_req_def)
qed

lemma approved_ticket_for_any_uid_witness:
  "at_uid foreign_ticket = 500 \<and>
   (\<exists>p. d_queue (decision_worker_step sample_world (sample_req ''READ'' ''/etc/shadow'') approved_daemon) =
     [NsApprove 7, NsTicketAdd p] \<and> tk_uid p = 1000)"
proof -
  let ?n = "sample_req ''READ'' ''/etc/shadow''"
  have "worker_evaluate sample_world ?n approved_daemon = Matched approval_rule"
    using worker_evaluate_cong [of approved_daemon approval_daemon] sample_evaluations(1)
    by (simp add: approved_daemon_def)
  moreover have "cr_effect approval_rule = NeedApproval" "at_rule_id foreign_ticket = cr_id approval_rule"
    "at_uid foreign_ticket \<noteq> tr_uid ?n"
    "d_approved approved_daemon = [(at_ticket_id foreign_ticket, foreign_ticket)]"
    by (simp_all add: approval_rule_def sample_rule_def foreign_ticket_def approved_daemon_def sample_req_def)
  ultimately have "\<exists>p. d_queue (decision_worker_step sample_world ?n approved_daemon) =
      d_queue approved_daemon @ [NsApprove (tr_trans_id ?n), NsTicketAdd p] \<and> tk_uid p = tr_uid ?n \<and>
      d_approved (decision_worker_step sample_world ?n approved_daemon) = []"
    using sample_lanes(2) by (intro approved_ticket_for_any_uid)
  moreover have "at_uid foreign_ticket = 500" "d_queue approved_daemon = []" "tr_trans_id ?n = 7" "tr_uid ?n = 1000"
    by (simp_all add: foreign_ticket_def approved_daemon_def approval_daemon_def sample_daemon_def sample_req_def)
  ultimately show ?thesis by auto
qed

lemma default_effect_ignored_witness:
  "d_queue (decision_worker_step sample_world (sample_req ''WRITE'' ''/etc/shadow'')
     (approval_daemon\<lparr>d_snapshot := (d_snapshot approval_daemon)\<lparr>ps_bundle := (d_bundle approval_daemon)
        \<lparr>cb_policy := (cb_policy (d_bundle approval_daemon))\<lparr>cp_default_effect := Allow\<rparr>\<rparr>\<rparr>\<rparr>)) = [NsDeny 7]"
  using default_effect_ignored [OF sample_evaluations(2) sample_lanes(1) refl, of Allow]
  by (simp add: approval_daemon_def sample_daemon_def sample_req_def)

end
