(* ===== verification/Admin_Props.thy ===== *)
theory Admin_Props
  imports Admin_Facts Decision_Facts
begin

text \<open>
  The properties of the management socket, with their samples: who can change what, what a
  command line means, and the ways in which the separately locked phases of an approval can go
  wrong.
\<close>

section \<open>Rights\<close>

text \<open>
  Nobody changes the policy, the epoch, the management configuration, the mode or the lockdown
  flag without the right to: if a connection changes one of them, the peer is an initiator of a
  control that needs no approval, or his vote, signed with the key registered for his uid over
  this very command, completes the quorum the pending command asked for.
\<close>

theorem mgmt_change_authorised:
  assumes "handle_admin_connection ax (Some uid) input d = (text, d')"
    and "mgmt_state d' \<noteq> mgmt_state d"
  shows "direct_control uid d \<or> ctl_approved ax uid d"
  using handle_admin_connection_lawful [OF assms(1)] assms(2) by (simp add: lawful_def)

text \<open>
  The kernel is told to let a waiting request through only when people agreed: whatever a
  connection queues, an approval in it is for a pending request, was asked for by a signed command
  of the peer, and his vote completes the quorum of the rule under the policy in force.
\<close>

theorem kernel_approval_needs_quorum:
  assumes "handle_admin_connection ax (Some uid) input d = (text, d')"
    and "d_queue d' = d_queue d @ new" and "NsApprove i \<in> set new"
  shows "quorum_approved ax uid d i"
  using handle_admin_connection_lawful [OF assms(1)] assms(2,3) by (auto simp: lawful_def queues_def)

text \<open>What a denial removed, and the roles that were required for it.\<close>

definition denied_roles :: "internal_event \<Rightarrow> string list" where
  "denied_roles ev =
     (case ev of
        IeCtlDenied c _ \<Rightarrow> mp_required_roles (pc_mpa_state c)
      | IeDraftDenied dr _ _ \<Rightarrow> mp_required_roles (dr_mpa_state dr)
      | IeEntryDenied e _ \<Rightarrow> mp_required_roles (pe_mpa_state e)
      | _ \<Rightarrow> [])"

lemma check_permission_True:
  "check_permission uid roles e d = Inr (True, rs) \<Longrightarrow>
     d_epoch d = e \<and> set (uid_roles_of d uid) \<inter> set roles \<noteq> {}"
  by (auto simp: check_permission_def Let_def split: if_splits)

text \<open>
  C31. Denying takes a role too: \<open>DENY\<close> changes the daemon only if the user holds, under the policy
  the request was made under, one of the roles its approval requires, and then it removes exactly
  that request.
\<close>

theorem deny_needs_role:
  assumes "process_deny args d = (r, d')"
  shows "d' = d \<or>
    (\<exists>t ev. r = Reply t (Some ev) \<and> set (uid_roles_of d (sa_uid args)) \<inter> set (denied_roles ev) \<noteq> {} \<and>
      (case ev of
         IeCtlDenied c u \<Rightarrow> u = sa_uid args \<and> d_pending_ctl d = Some c \<and> pc_epoch c = d_epoch d \<and>
           d' = d\<lparr>d_pending_ctl := None\<rparr>
       | IeDraftDenied dr _ u \<Rightarrow> u = sa_uid args \<and> hm_get (d_drafts d) (sa_id args) = Some dr \<and>
           dr_epoch dr = d_epoch d \<and> d' = d\<lparr>d_drafts := hm_remove (sa_id args) (d_drafts d),
             d_active := hm_remove (sa_id args) (d_active d)\<rparr>
       | IeEntryDenied e u \<Rightarrow> u = sa_uid args \<and> pe_policy_epoch e = d_epoch d \<and>
           (\<exists>i ms. hm_get (d_pending d) i = Some e \<and> set ms \<subseteq> {NsDeny i} \<and>
              d' = d\<lparr>d_pending := hm_remove i (d_pending d), d_queue := d_queue d @ ms\<rparr>)
       | _ \<Rightarrow> False))"
proof -
  consider (ctl) "process_deny_ctl args d = (r, d')"
    | (draft) "process_deny_draft (sa_id args) (sa_uid args) d = (r, d')"
    | (entry) "process_deny_entry args d = (r, d')"
    using assms by (auto simp: process_deny_def split: if_splits)
  then show ?thesis
  proof cases
    case ctl
    then show ?thesis
      by (auto simp: process_deny_ctl_def denied_roles_def dest!: check_permission_True
          split: option.splits if_splits sum.splits) blast+
  next
    case draft
    then show ?thesis
      by (auto simp: process_deny_draft_def denied_roles_def dest!: check_permission_True
          split: option.splits if_splits sum.splits) blast+
  next
    case entry
    define i where "i = (case parse_u64 (sa_id args) of Some v \<Rightarrow> v | None \<Rightarrow> 0)"
    let ?ms = "if d_mode d = Enforce \<and> d_channel_open d then [NsDeny i] else []"
    show ?thesis
    proof (cases "d' = d")
      case False
      with entry obtain e rs where e: "hm_get (d_pending d) i = Some e"
        "check_permission (sa_uid args) (mp_required_roles (pe_mpa_state e)) (pe_policy_epoch e) d = Inr (True, rs)"
        and r: "r = Reply (line ''DENIED'') (Some (IeEntryDenied e (sa_uid args)))"
        and d': "d' = (let d1 = d\<lparr>d_pending := hm_remove i (d_pending d)\<rparr>
           in if d_mode d1 = Enforce then snd (send_deny i d1) else d1)"
        by (auto simp: process_deny_entry_def i_def [symmetric] Let_def split: option.splits if_splits sum.splits)
      have "d' = d\<lparr>d_pending := hm_remove i (d_pending d), d_queue := d_queue d @ ?ms\<rparr>"
        by (simp add: d' send_states Let_def)
      moreover have "set ?ms \<subseteq> {NsDeny i}" by auto
      ultimately have "\<exists>i ms. hm_get (d_pending d) i = Some e \<and> set ms \<subseteq> {NsDeny i} \<and>
          d' = d\<lparr>d_pending := hm_remove i (d_pending d), d_queue := d_queue d @ ms\<rparr>"
        using e(1) by blast
      with check_permission_True [OF e(2)] r show ?thesis by (simp add: denied_roles_def)
    qed simp
  qed
qed

section \<open>The command line\<close>

definition signed_words :: "decision_kind \<Rightarrow> signed_cmd_args \<Rightarrow> string list" where
  "signed_words kind a =
     decision_kind_as_str kind # (if has_id_arg kind then [sa_id a] else []) @
     (case sa_audit_id a of Some x \<Rightarrow> [x] | None \<Rightarrow> []) @ [sa_sig_hex a]"

text \<open>The arguments a client can mean with a command: what the command has no place for is absent.\<close>

definition proper_args :: "decision_kind \<Rightarrow> u32 \<Rightarrow> signed_cmd_args \<Rightarrow> bool" where
  "proper_args kind uid a \<longleftrightarrow>
     sa_uid a = uid \<and> sa_account a = [] \<and> (has_id_arg kind \<or> sa_id a = []) \<and>
     (sa_audit_id a \<noteq> None \<longleftrightarrow> is_mgmt_decision kind (sa_id a)) \<and>
     list_all plain_word (signed_words kind a)"

text \<open>
  A signed command is read as it was meant: writing its words with single spaces and parsing
  the line gives back the id, the audit id and the signature, for each command; and one word more
  makes the line an error.
\<close>

theorem signed_command_roundtrip:
  assumes "proper_args kind uid a"
  shows "parse_args (join '' '' (signed_words kind a)) kind uid = Inr a \<and>
    (plain_word x \<longrightarrow> (\<exists>e. parse_args (join '' '' (signed_words kind a @ [x])) kind uid = Inl e))"
proof
  have w: "split_whitespace (join '' '' (signed_words kind a)) = signed_words kind a"
    using assms by (intro split_whitespace_words) (simp add: proper_args_def)
  have id: "\<not> has_id_arg kind \<Longrightarrow> \<not> is_mgmt_decision kind i" for i
    by (simp add: has_id_arg_def is_mgmt_decision_def)
  note defs = parse_args_def signed_words_def next_word_def proper_args_def
  show "parse_args (join '' '' (signed_words kind a)) kind uid = Inr a"
    using assms id w by (cases "sa_audit_id a"; cases "has_id_arg kind") (auto simp: defs)
  show "plain_word x \<longrightarrow> (\<exists>e. parse_args (join '' '' (signed_words kind a @ [x])) kind uid = Inl e)"
  proof
    assume "plain_word x"
    with assms have "split_whitespace (join '' '' (signed_words kind a @ [x])) = signed_words kind a @ [x]"
      by (intro split_whitespace_words) (simp add: proper_args_def)
    then show "\<exists>e. parse_args (join '' '' (signed_words kind a @ [x])) kind uid = Inl e"
      using assms id by (cases "sa_audit_id a"; cases "has_id_arg kind") (auto simp: defs)
  qed
qed

section \<open>Defects\<close>

text \<open>
  Two administrators, two answers. When one completes the approval of a pending request and
  the other denies it before the approval is finalised, the finalisation does not look whether the
  request is still there: the kernel gets the denial and then an approval for the same request.
\<close>

theorem denied_then_approved:
  assumes "record_approval w args d = Inr (ArEntryReady, d1)"
    and "process_deny_entry args1 d1 = (Reply t (Some ev), d2)" and "sa_id args1 = sa_id args"
    and "d_mode d = Enforce" and "d_channel_open d" and "hm_wf (d_pending d)"
  shows "\<exists>i. d_queue (snd (finalize_entry_approval w args d2)) = d_queue d @ [NsDeny i, NsApprove i]"
proof -
  from process_approve_entry_Inr [OF record_ready(3) [OF assms(1) refl]] obtain i p m where
    i: "parse_u64 (sa_id args) = Some i" and
    d1: "d1 = d\<lparr>d_pending := hm_insert i (p\<lparr>pe_mpa_state := m\<rparr>) (d_pending d)\<rparr>" by blast
  have d2: "d2 = d1\<lparr>d_pending := hm_remove i (d_pending d1), d_queue := d_queue d1 @ [NsDeny i]\<rparr>"
    using assms(2,3) i assms(4,5) d1
    by (auto simp: process_deny_entry_def Let_def send_states split: option.splits if_splits sum.splits)
  have "hm_get (d_pending d2) i = None" using d2 d1 assms(6) by simp
  then have "snd (finalize_entry_approval w args d2) =
      send_entry_approval i False None (d2\<lparr>d_pending := hm_remove i (d_pending d2)\<rparr>)"
    using i by (simp add: finalize_entry_approval_def Let_def)
  then show ?thesis using d2 d1 assms(4,5) by (intro exI [of _ i]) (simp add: send_entry_approval_def send_states)
qed

lemma ticket_from_draft_fields:
  "ticket_from_draft dr d = Some t \<Longrightarrow> at_ticket_id t = dr_draft_id dr \<and> at_epoch t = d_epoch d"
  by (auto simp: ticket_from_draft_def find_rule_def split: sum.splits option.splits if_splits)

lemma draft_to_ticket_Some:
  assumes "draft_to_ticket w dr d = Some (dr1, t)"
  shows "at_ticket_id t = dr_draft_id dr1 \<and> at_epoch t = d_epoch d \<and> is_fulfilled (dr_mpa_state dr)"
  using assms ticket_from_draft_fields
  by (auto simp: draft_to_ticket_def try_aggregate_def Let_def
      split: if_splits sum.splits option.splits)

text \<open>
  A lockdown can be outlived. The finalisation of a draft makes the ticket under one lock and
  stores it under another without looking at the epoch again; when a flush runs in between, the
  ticket of the old epoch is stored after the flush has removed all others, and the next matching
  request is let through with it.
\<close>

theorem approval_outlives_flush:
  assumes "draft_to_ticket w dr d = Some (dr1, t)" and "execute_flush ax d = (MrOk n, d2)"
    and "\<not> d_transition d" and "d_channel_open d"
    and "worker_evaluate w req (install_approved dr1 t d2) = Matched r"
    and "cr_effect r = NeedApproval" and "cr_id r = at_rule_id t"
  shows "at_epoch t \<noteq> d_epoch d2 \<and>
    (\<exists>p. d_queue (decision_worker_step w req (install_approved dr1 t d2)) =
       d_queue d2 @ [NsApprove (tr_trans_id req), NsTicketAdd p])"
  using assms(2,3)
proof (cases rule: flush_cases)
  case committed
  let ?d3 = "install_approved dr1 t d2"
  have d3: "d_approved ?d3 = [(dr_draft_id dr1, t)]" "d_channel_open ?d3" "\<not> d_transition ?d3"
    "d_queue ?d3 = d_queue d2"
    using committed assms(3,4) by (simp_all add: install_approved_def flushed_def hm_insert_def)
  note t = draft_to_ticket_Some [OF assms(1)]
  have "approved_wf ?d3" using d3 t by (simp add: approved_wf_def hm_wf_def hm_get_def)
  moreover have "has_approved ?d3 (cr_id r)"
    using d3 assms(7) by (simp add: has_approved_def hm_values_def)
  ultimately obtain p where
    "d_queue (decision_worker_step w req ?d3) = d_queue d2 @ [NsApprove (tr_trans_id req), NsTicketAdd p]"
    using step_need_approved [OF assms(5,6) d3(2,3)] d3(4) by force
  moreover have "at_epoch t \<noteq> d_epoch d2" using t committed by (simp add: flushed_def)
  ultimately show ?thesis by blast
qed (use assms(2) in simp_all)

text \<open>
  The time limit of an approval is not enforced. Whether a vote on a pending management command
  is accepted depends neither on the configured \<open>timeout_minutes\<close> nor on the time that has passed.
\<close>

theorem approval_window_not_enforced:
  "(\<exists>x. process_approve_ctl (w\<lparr>wd_now := now\<rparr>) args
          (d\<lparr>d_pending_ctl := Some (c\<lparr>pc_timeout_minutes := minutes\<rparr>)\<rparr>) = Inr x) \<longleftrightarrow>
   (\<exists>x. process_approve_ctl w args (d\<lparr>d_pending_ctl := Some c\<rparr>) = Inr x)"
proof -
  have u: "uid_roles_of (d\<lparr>d_pending_ctl := p\<rparr>) u = uid_roles_of d u" for p u
    by (simp add: uid_roles_of_def)
  have A: "(\<exists>m. insert_approver (w\<lparr>wd_now := now\<rparr>) (d\<lparr>d_pending_ctl := p\<rparr>) args e s = Inr m) \<longleftrightarrow>
      (\<exists>m. insert_approver w (d\<lparr>d_pending_ctl := q\<rparr>) args e s = Inr m)" for p q e s
    by (auto simp: insert_approver_def u Let_def bindR_eq_Inr map_err_eq_Inr)
  have B: "(\<exists>x. process_approve_ctl v args (d\<lparr>d_pending_ctl := Some b\<rparr>) = Inr x) \<longleftrightarrow>
      eq_ignore_ascii_case (sa_id args) (ctl_kind_as_str (pc_kind b)) \<and>
      sa_audit_id args = Some (pc_audit_id b) \<and>
      (\<exists>m. insert_approver v (d\<lparr>d_pending_ctl := Some b\<rparr>) args (pc_epoch b) (pc_mpa_state b) = Inr m)" for v b
    by (auto simp: process_approve_ctl_def check_fully_approved_def Let_def bindR_eq_Inr split: if_splits)
      (metis)+
  show ?thesis unfolding B
    using A [of "Some (c\<lparr>pc_timeout_minutes := minutes\<rparr>)" "pc_epoch c" "pc_mpa_state c" "Some c"] by simp
qed

end
