(* ===== verification/Evidence_Log.thy ===== *)
theory Evidence_Log
  imports Tickets Rust_Text
begin

text \<open>
  Evidence: \<open>evidence/schema.rs\<close>, the entries that \<open>evidence/mod.rs\<close> builds and the context that
  \<open>evidence/context.rs\<close> reads from \<open>/proc\<close>. Clock, host name, UUIDs, the user database and the
  files of \<open>/proc\<close> are parameters; the channel to the writer task is the list of entries sent.
\<close>

section \<open>Entries\<close>

datatype log_type =
    InteractiveDecision | AccessAllowed | AccessDenied | TicketIssued | TicketConsumed
  | TicketExpired | LogNotManaged

record subject_info =
  si_path :: string
  si_hash :: string
  si_applet :: "string option"
  si_script_path :: "string option"
  si_args :: "string option"
  si_session_tty :: "string option"

record object_info =
  oi_kind :: string
  oi_path :: string
  oi_inode :: u64
  oi_device_id :: u64
  oi_new_path :: "string option"
  oi_new_inode :: "u64 option"
  oi_new_device_id :: "u64 option"

record syscall_context =
  sy_uid :: u32
  sy_user :: string
  sy_pid :: u32
  sy_action :: string
  sy_subject :: subject_info
  sy_object :: object_info

record environment_context =
  en_tty :: string
  en_ssh_client :: "string option"
  en_login_method :: string

record issued_ticket_info =
  it_ticket_id :: string
  it_ttl_sec :: u64

record policy_eval_result =
  pv_rule_id :: string
  pv_matched_file :: string
  pv_mpa_level :: u32
  pv_decision :: effect
  pv_issued_ticket :: "issued_ticket_info option"

record ticket_ref =
  tf_ticket_id :: string
  tf_uses_left :: u32
  tf_policy_rule :: string

datatype auth_info =
    SlowPath policy_eval_result mpa_state
  | FastPath ticket_ref

record audit_log_entry =
  al_ver :: string
  al_id :: string
  al_log_type :: log_type
  al_ts :: u64
  al_host :: string
  al_epoch :: u32
  al_syscall :: syscall_context
  al_environment :: "environment_context option"
  al_auth :: auth_info

record kernel_event_log =
  kl_ticket_id :: u64
  kl_uid :: u32
  kl_uses_left :: u32
  kl_obj_dev :: u64
  kl_obj_ino :: u64
  kl_new_obj_dev :: "u64 option"
  kl_new_obj_ino :: "u64 option"

section \<open>The context of a process\<close>

text \<open>Files of \<open>/proc/<pid>\<close>; \<open>None\<close> when they cannot be read (as text, for \<open>stat\<close>).\<close>

record proc_fs =
  pf_environ :: "u32 \<Rightarrow> string option"
  pf_stat :: "u32 \<Rightarrow> string option"
  pf_fd0 :: "u32 \<Rightarrow> string option"

definition get_ppid :: "proc_fs \<Rightarrow> u32 \<Rightarrow> u32 option" where
  "get_ppid pf pid =
     Option.bind (pf_stat pf pid) (\<lambda>stat.
     Option.bind (after_last (CHR '')'') stat) (\<lambda>rest.
       let ws = split_whitespace rest in if 1 < length ws then parse_u32 (ws ! 1) else None))"

text \<open>The first variable whose text starts with the key decides, even if it has no value.\<close>

definition read_env_var :: "proc_fs \<Rightarrow> u32 \<Rightarrow> string \<Rightarrow> string option" where
  "read_env_var pf pid key =
     Option.bind (pf_environ pf pid) (\<lambda>content.
     Option.bind (List.find (\<lambda>s. prefix key s) (map utf8_lossy (split_on (CHR 0x00) content))) (\<lambda>s.
       let ps = split_on (CHR ''='') s in if 1 < length ps then Some (ps ! 1) else None))"

fun ssh_client_walk :: "proc_fs \<Rightarrow> nat \<Rightarrow> u32 \<Rightarrow> string option" where
  "ssh_client_walk pf 0 pid = None"
| "ssh_client_walk pf (Suc n) pid =
     (if pid = 0 \<or> pid = 1 then None
      else case read_env_var pf pid ''SSH_CLIENT'' of
          Some client \<Rightarrow> Some client
        | None \<Rightarrow>
            (case get_ppid pf pid of
               Some ppid \<Rightarrow> if ppid \<noteq> pid then ssh_client_walk pf n ppid else None
             | None \<Rightarrow> None))"

definition resolve_ssh_client :: "proc_fs \<Rightarrow> u32 \<Rightarrow> string option" where
  "resolve_ssh_client pf pid = ssh_client_walk pf 10 pid"

definition context_resolve :: "proc_fs \<Rightarrow> u32 \<Rightarrow> environment_context" where
  "context_resolve pf pid =
     \<lparr>en_tty = (case pf_fd0 pf pid of Some p \<Rightarrow> utf8_lossy p | None \<Rightarrow> ''none''),
      en_ssh_client = resolve_ssh_client pf pid, en_login_method = ''unknown''\<rparr>"

section \<open>Building entries\<close>

record log_env =
  le_world :: world
  le_proc :: proc_fs
  le_host :: string
  le_uid_to_name :: "u32 \<Rightarrow> string + string"
  le_file_hash :: "path \<Rightarrow> string + string"

definition user_name_or_empty :: "log_env \<Rightarrow> u32 \<Rightarrow> string" where
  "user_name_or_empty le uid = (case le_uid_to_name le uid of Inr n \<Rightarrow> n | Inl _ \<Rightarrow> [])"

definition hash_or_default :: "string option \<Rightarrow> string" where
  "hash_or_default h = (case h of Some x \<Rightarrow> x | None \<Rightarrow> ''HASH_NOT_CALCULATED'')"

definition orelse :: "'a option \<Rightarrow> 'a option \<Rightarrow> 'a option" where
  "orelse a b = (case a of Some x \<Rightarrow> Some x | None \<Rightarrow> b)"

definition enqueue_fast_path ::
  "log_env \<Rightarrow> log_type \<Rightarrow> kernel_event_log \<Rightarrow> approved_ticket \<Rightarrow> audit_log_entry" where
  "enqueue_fast_path le ty ev t =
     \<lparr>al_ver = ''1.5'', al_id = wd_uuid (le_world le), al_log_type = ty, al_ts = wd_now (le_world le),
      al_host = le_host le, al_epoch = at_epoch t,
      al_syscall =
        \<lparr>sy_uid = kl_uid ev, sy_user = user_name_or_empty le (kl_uid ev), sy_pid = 0, sy_action = ''-'',
         sy_subject =
           \<lparr>si_path = at_origin_program t, si_hash = hash_or_default (at_origin_program_sha256 t),
            si_applet = at_origin_applet t, si_script_path = at_origin_script t, si_args = None,
            si_session_tty = None\<rparr>,
         sy_object =
           \<lparr>oi_kind = u32_to_str (at_op_mask t), oi_path = at_object t, oi_inode = kl_obj_ino ev,
            oi_device_id = kl_obj_dev ev, oi_new_path = at_new_object t,
            oi_new_inode = orelse (kl_new_obj_ino ev) (map_option ei_ino (at_new_object_id t)),
            oi_new_device_id = orelse (kl_new_obj_dev ev) (map_option ei_dev (at_new_object_id t))\<rparr>\<rparr>,
      al_environment = None,
      al_auth = FastPath
        \<lparr>tf_ticket_id = ''T-'' @ pad_nat 9 (unat (kl_ticket_id ev)), tf_uses_left = kl_uses_left ev,
         tf_policy_rule = ''cached''\<rparr>\<rparr>"

definition enqueue_slow_path ::
  "log_env \<Rightarrow> log_type \<Rightarrow> effect \<Rightarrow> bool \<Rightarrow> string \<Rightarrow> pending_entry \<Rightarrow> audit_log_entry" where
  "enqueue_slow_path le ty decision is_cache tid p =
     (let s = pe_subject p; ob = pe_object p
      in \<lparr>al_ver = ''1.5'', al_id = pe_audit_id p, al_log_type = ty, al_ts = wd_now (le_world le),
          al_host = le_host le, al_epoch = pe_policy_epoch p,
          al_syscall =
            \<lparr>sy_uid = sc_uid s, sy_user = user_name_or_empty le (sc_uid s), sy_pid = sc_pid s,
             sy_action = u32_to_str (pe_op p),
             sy_subject =
               \<lparr>si_path = sc_program_path s, si_hash = hash_or_default (sc_program_hash s),
                si_applet = sc_applet_name s, si_script_path = sc_script_path s,
                si_args = sc_cmd_args s,
                si_session_tty = (if sc_session_tty s = [] then None else Some (sc_session_tty s))\<rparr>,
             sy_object =
               \<lparr>oi_kind = ''unknown'', oi_path = oc_path ob, oi_inode = oc_inode ob,
                oi_device_id = oc_device_id ob, oi_new_path = oc_new_path ob,
                oi_new_inode = oc_new_inode ob, oi_new_device_id = oc_new_device_id ob\<rparr>\<rparr>,
          al_environment = Some (context_resolve (le_proc le) (sc_pid s)),
          al_auth = SlowPath
            \<lparr>pv_rule_id = (case pe_rule_id p of Some i \<Rightarrow> i | None \<Rightarrow> []), pv_matched_file = ''unknown'',
             pv_mpa_level = mp_threshold (pe_mpa_state p), pv_decision = decision,
             pv_issued_ticket =
               (if is_cache then Some \<lparr>it_ticket_id = tid, it_ttl_sec = pe_ttl_seconds p\<rparr> else None)\<rparr>
            (pe_mpa_state p)\<rparr>)"

definition enqueue_ticket_add ::
  "log_env \<Rightarrow> log_type \<Rightarrow> effect \<Rightarrow> pre_approval_draft \<Rightarrow> approved_ticket \<Rightarrow> audit_log_entry" where
  "enqueue_ticket_add le ty decision dr t =
     \<lparr>al_ver = ''1.5'', al_id = dr_audit_id dr, al_log_type = ty, al_ts = wd_now (le_world le),
      al_host = le_host le, al_epoch = at_epoch t,
      al_syscall =
        \<lparr>sy_uid = dr_uid dr, sy_user = user_name_or_empty le (at_uid t), sy_pid = 0,
         sy_action = u32_to_str (dr_op_mask dr),
         sy_subject =
           \<lparr>si_path = at_origin_program t, si_hash = hash_or_default (at_origin_program_sha256 t),
            si_applet = at_origin_applet t, si_script_path = at_origin_script t, si_args = None,
            si_session_tty = None\<rparr>,
         sy_object =
           \<lparr>oi_kind = u32_to_str (at_op_mask t), oi_path = at_object t,
            oi_inode = ei_ino (at_object_id t), oi_device_id = ei_dev (at_object_id t),
            oi_new_path = at_new_object t, oi_new_inode = map_option ei_ino (at_new_object_id t),
            oi_new_device_id = map_option ei_dev (at_new_object_id t)\<rparr>\<rparr>,
      al_environment = None,
      al_auth = SlowPath
        \<lparr>pv_rule_id = dr_rule_id dr, pv_matched_file = ''unknown'',
         pv_mpa_level = mp_threshold (dr_mpa_state dr), pv_decision = decision,
         pv_issued_ticket = Some \<lparr>it_ticket_id = at_ticket_id t, it_ttl_sec = at_ttl_sec t\<rparr>\<rparr>
        (dr_mpa_state dr)\<rparr>"

definition ctl_log_strings :: "mgmt_pending_ctl \<Rightarrow> string \<times> string \<times> string" where
  "ctl_log_strings c =
     (case pc_kind c of
        CtlStart \<Rightarrow> (''enable enforce mode'', ''system:mode/enforce'', ''start'')
      | CtlStop \<Rightarrow> (''disable enforce mode'', ''system:mode/audit'', ''stop'')
      | CtlPolicyUpdate \<Rightarrow>
          (''update policies'', ''system:policy/update'', ''policy-update '' @ pc_target_hash c)
      | CtlFlush \<Rightarrow> (''flush caches and lockdown'', ''system:network/lockdown'', ''flush''))"

definition enqueue_mgmt_ctl ::
  "log_env \<Rightarrow> log_type \<Rightarrow> effect \<Rightarrow> mgmt_pending_ctl \<Rightarrow> audit_log_entry" where
  "enqueue_mgmt_ctl le ty decision c =
     (let (action_str, object_path, arg_str) = ctl_log_strings c
      in \<lparr>al_ver = ''1.5'', al_id = pc_audit_id c, al_log_type = ty, al_ts = wd_now (le_world le),
          al_host = le_host le, al_epoch = pc_epoch c,
          al_syscall =
            \<lparr>sy_uid = pc_initiator_uid c, sy_user = pc_initiator_user c, sy_pid = 0,
             sy_action = action_str,
             sy_subject =
               \<lparr>si_path = ''/bin/teal-cli'',
                si_hash = (case le_file_hash le ''/bin/teal-cli'' of
                             Inr h \<Rightarrow> h | Inl _ \<Rightarrow> ''HASH_CALC_FAILED''),
                si_applet = None, si_script_path = None, si_args = Some arg_str,
                si_session_tty = None\<rparr>,
             sy_object =
               \<lparr>oi_kind = ''unknown'', oi_path = object_path, oi_inode = 0, oi_device_id = 0,
                oi_new_path = None, oi_new_inode = None, oi_new_device_id = None\<rparr>\<rparr>,
          al_environment = None,
          al_auth = SlowPath
            \<lparr>pv_rule_id = [], pv_matched_file = ''management.json'',
             pv_mpa_level = mp_threshold (pc_mpa_state c), pv_decision = decision,
             pv_issued_ticket = None\<rparr>
            (pc_mpa_state c)\<rparr>)"

section \<open>Facts\<close>

definition entry_decision :: "audit_log_entry \<Rightarrow> effect option" where
  "entry_decision e = (case al_auth e of SlowPath p _ \<Rightarrow> Some (pv_decision p) | FastPath _ \<Rightarrow> None)"

definition entry_proof :: "audit_log_entry \<Rightarrow> mpa_state option" where
  "entry_proof e = (case al_auth e of SlowPath _ m \<Rightarrow> Some m | FastPath _ \<Rightarrow> None)"

lemma entry_facts [simp]:
  "entry_decision (enqueue_slow_path le ty d c i p) = Some d"
  "entry_decision (enqueue_ticket_add le ty d dr t) = Some d"
  "entry_decision (enqueue_mgmt_ctl le ty d pc) = Some d"
  "entry_decision (enqueue_fast_path le ty ev t) = None"
  "entry_proof (enqueue_slow_path le ty d c i p) = Some (pe_mpa_state p)"
  "entry_proof (enqueue_ticket_add le ty d dr t) = Some (dr_mpa_state dr)"
  "entry_proof (enqueue_mgmt_ctl le ty d pc) = Some (pc_mpa_state pc)"
  "al_log_type (enqueue_slow_path le ty d c i p) = ty"
  "al_log_type (enqueue_ticket_add le ty d dr t) = ty"
  "al_log_type (enqueue_mgmt_ctl le ty d pc) = ty"
  "al_log_type (enqueue_fast_path le ty ev t) = ty"
  "al_epoch (enqueue_slow_path le ty d c i p) = pe_policy_epoch p"
  "al_epoch (enqueue_ticket_add le ty d dr t) = at_epoch t"
  "al_epoch (enqueue_mgmt_ctl le ty d pc) = pc_epoch pc"
  "al_epoch (enqueue_fast_path le ty ev t) = at_epoch t"
  "sy_uid (al_syscall (enqueue_slow_path le ty d c i p)) = sc_uid (pe_subject p)"
  by (simp_all add: entry_decision_def entry_proof_def enqueue_slow_path_def enqueue_ticket_add_def
      enqueue_mgmt_ctl_def enqueue_fast_path_def Let_def case_prod_beta)

text \<open>The parent is read after the last parenthesis, so no process name can change it.\<close>

lemma get_ppid_stat:
  assumes "pf_stat pf pid = Some (show_nat n @ '' ('' @ name @ '') '' @ st @ '' '' @ show_nat p @ '' '' @ tl_fields)"
    and "plain_word st" and "CHR '')'' \<notin> set st" and "CHR '')'' \<notin> set tl_fields" and "p < 2 ^ 32"
  shows "get_ppid pf pid = Some (of_nat p)"
proof -
  have dig: "list_all is_digit (show_nat k)" for k using show_nat_digits by blast
  have "CHR '')'' \<notin> set (show_nat k)" for k
    using dig [of k] by (auto simp: list_all_iff is_digit_def byte_def)
  then have "CHR '')'' \<notin> set ('' '' @ st @ '' '' @ show_nat p @ '' '' @ tl_fields)" using assms(3,4) by simp
  from after_last_append [OF this, of "show_nat n @ '' ('' @ name"]
  have al: "after_last (CHR '')'') (show_nat n @ '' ('' @ name @ '') '' @ st @ '' '' @ show_nat p @ '' '' @ tl_fields) =
      Some ('' '' @ st @ '' '' @ show_nat p @ '' '' @ tl_fields)" by simp
  have pl: "list_all plain_byte (show_nat p)"
    using dig [of p] by (auto simp: list_all_iff is_digit_def plain_byte_def)
  have st: "st \<noteq> []" "list_all plain_byte st" using assms(2) by (simp_all add: plain_word_def)
  have "split_whitespace ('' '' @ st @ '' '' @ show_nat p @ '' '' @ tl_fields) =
      st # show_nat p # split_ws [] tl_fields"
    using split_ws_plain [OF st(2), of "[]" "'' '' @ show_nat p @ '' '' @ tl_fields"]
      split_ws_plain [OF pl, of "[]" "'' '' @ tl_fields"] st(1) show_nat_digits [of p]
    by (simp add: split_whitespace_def split_ws_space)
  moreover have "parse_u32 (show_nat p) = Some (of_nat p)"
    using parse_uint_digits [of "show_nat p" 32] show_nat_digits [of p] digits_value_show_nat [of p] assms(5)
    by (simp add: parse_u32_def)
  ultimately show ?thesis unfolding get_ppid_def assms(1) Option.bind.bind_lunit al by simp
qed

end
