(* ===== verification/Netlink.thy ===== *)
theory Netlink
  imports Decision Rust_Utf8
begin

text \<open>
  \<open>netlink.rs\<close>: the messages on the Generic Netlink socket. Parsing of requests and reports,
  building of packets, the routing of the receiver thread, the acknowledgement of a policy update
  and the sending worker. The byte order of the machine is the parameter \<open>endian\<close>; the socket
  itself is a parameter: what it delivers and whether a send fails are inputs.
\<close>

section \<open>Commands, attributes and bytes\<close>

datatype teal_cmd =
    CmdUnspec | CmdRegister | CmdReq | CmdInfo | CmdApprove | CmdDeny | CmdTicketAdd
  | CmdModeSwitch | CmdPolicyUpdate

datatype teal_attr =
    Unspec | TransId | Pid | Ppid | SessionId | Uid | Gid | ProgDev | ProgIno | Program | ActionA
  | TargetDev | TargetIno | Target | Op | ExpiresAt | ScriptDev | ScriptIno | Script | Applet
  | LsmLabel | ArgsHead | Flags | InfoEvt | UsesLeft | TicketId | EpochA | AuditFlg | AppletHash
  | NewTargetDev | NewTargetIno | NewTarget | SessionTty | Lane

type_synonym attrs = "(teal_attr \<times> string) list"

datatype endian = Little | Big

fun le_bytes :: "nat \<Rightarrow> nat \<Rightarrow> string" where
  "le_bytes 0 v = []"
| "le_bytes (Suc n) v = char_of (v mod 256) # le_bytes n (v div 256)"

fun le_value :: "string \<Rightarrow> nat" where
  "le_value [] = 0"
| "le_value (c # cs) = byte c + 256 * le_value cs"

definition to_ne_bytes :: "endian \<Rightarrow> nat \<Rightarrow> nat \<Rightarrow> string" where
  "to_ne_bytes e n v = (case e of Little \<Rightarrow> le_bytes n v | Big \<Rightarrow> rev (le_bytes n v))"

definition from_ne_bytes :: "endian \<Rightarrow> nat \<Rightarrow> string \<Rightarrow> string + nat" where
  "from_ne_bytes e n s =
     (if length s \<noteq> n then Inl ''could not convert slice to array''
      else Inr (le_value (case e of Little \<Rightarrow> s | Big \<Rightarrow> rev s)))"

definition u16_to :: "endian \<Rightarrow> u16 \<Rightarrow> string" where
  "u16_to e v = to_ne_bytes e 2 (unat v)"

definition u32_to :: "endian \<Rightarrow> u32 \<Rightarrow> string" where
  "u32_to e v = to_ne_bytes e 4 (unat v)"

definition u64_to :: "endian \<Rightarrow> u64 \<Rightarrow> string" where
  "u64_to e v = to_ne_bytes e 8 (unat v)"

definition u16_from :: "endian \<Rightarrow> string \<Rightarrow> string + u16" where
  "u16_from e s = bindR (from_ne_bytes e 2 s) (\<lambda>v. Inr (of_nat v))"

definition u32_from :: "endian \<Rightarrow> string \<Rightarrow> string + u32" where
  "u32_from e s = bindR (from_ne_bytes e 4 s) (\<lambda>v. Inr (of_nat v))"

definition u64_from :: "endian \<Rightarrow> string \<Rightarrow> string + u64" where
  "u64_from e s = bindR (from_ne_bytes e 8 s) (\<lambda>v. Inr (of_nat v))"

lemma byte_char_of [simp]: "byte (char_of (v :: nat)) = v mod 256"
  by (simp add: byte_def)

lemma length_le_bytes [simp]: "length (le_bytes n v) = n"
  by (induction n arbitrary: v) auto

lemma le_value_bytes: "le_value (le_bytes n v) = v mod 256 ^ n"
proof (induction n arbitrary: v)
  case (Suc n)
  then show ?case by (simp add: mod_mult2_eq)
qed simp

lemma from_to_ne_bytes: "v < 256 ^ n \<Longrightarrow> from_ne_bytes e n (to_ne_bytes e n v) = Inr v"
  by (cases e) (simp_all add: from_ne_bytes_def to_ne_bytes_def le_value_bytes)

lemma unat_less: "unat (w :: 'l::len word) < 2 ^ LENGTH('l)"
  by simp

text \<open>Reading back what was written, at every width.\<close>

lemma from_to [simp]:
  "u16_from e (u16_to e a) = Inr a" "u32_from e (u32_to e b) = Inr b" "u64_from e (u64_to e c) = Inr c"
  using unat_less [of a] unat_less [of b] unat_less [of c]
  by (simp_all add: u16_from_def u16_to_def u32_from_def u32_to_def u64_from_def u64_to_def
      from_to_ne_bytes)

lemma length_to [simp]:
  "length (u16_to e a) = 2" "length (u32_to e b) = 4" "length (u64_to e c) = 8"
  by (cases e; simp add: u16_to_def u32_to_def u64_to_def to_ne_bytes_def)+

section \<open>Parsing\<close>

text \<open>Kernel strings: lossy UTF-8, without the terminating NULs.\<close>

definition attr_string :: "string \<Rightarrow> string" where
  "attr_string p = trim_end_char (CHR 0x00) (utf8_lossy p)"

definition default_req :: teal_req where
  "default_req =
     \<lparr>tr_trans_id = 0, tr_pid = 0, tr_ppid = 0, tr_session_id = 0, tr_uid = 0, tr_gid = 0,
      tr_prog_dev = 0, tr_prog_ino = 0, tr_program = [], tr_action = [], tr_target_dev = 0,
      tr_target_ino = 0, tr_target = [], tr_new_target_dev = 0, tr_new_target_ino = 0,
      tr_new_target = [], tr_script_dev = 0, tr_script_ino = 0, tr_script = [], tr_applet = [],
      tr_lsm_label = [], tr_args_head = [], tr_flags = 0, tr_session_tty = []\<rparr>"

definition parse_req_attr :: "endian \<Rightarrow> teal_attr \<times> string \<Rightarrow> teal_req \<Rightarrow> string + teal_req" where
  "parse_req_attr e ap req =
     (let p = snd ap in
      case fst ap of
        TransId \<Rightarrow> bindR (u64_from e p) (\<lambda>v. Inr (req\<lparr>tr_trans_id := v\<rparr>))
      | Pid \<Rightarrow> bindR (u32_from e p) (\<lambda>v. Inr (req\<lparr>tr_pid := v\<rparr>))
      | Ppid \<Rightarrow> bindR (u32_from e p) (\<lambda>v. Inr (req\<lparr>tr_ppid := v\<rparr>))
      | SessionId \<Rightarrow> bindR (u32_from e p) (\<lambda>v. Inr (req\<lparr>tr_session_id := v\<rparr>))
      | Uid \<Rightarrow> bindR (u32_from e p) (\<lambda>v. Inr (req\<lparr>tr_uid := v\<rparr>))
      | Gid \<Rightarrow> bindR (u32_from e p) (\<lambda>v. Inr (req\<lparr>tr_gid := v\<rparr>))
      | ProgDev \<Rightarrow> bindR (u32_from e p) (\<lambda>v. Inr (req\<lparr>tr_prog_dev := v\<rparr>))
      | ProgIno \<Rightarrow> bindR (u64_from e p) (\<lambda>v. Inr (req\<lparr>tr_prog_ino := v\<rparr>))
      | TargetDev \<Rightarrow> bindR (u32_from e p) (\<lambda>v. Inr (req\<lparr>tr_target_dev := v\<rparr>))
      | TargetIno \<Rightarrow> bindR (u64_from e p) (\<lambda>v. Inr (req\<lparr>tr_target_ino := v\<rparr>))
      | ScriptDev \<Rightarrow> bindR (u32_from e p) (\<lambda>v. Inr (req\<lparr>tr_script_dev := v\<rparr>))
      | ScriptIno \<Rightarrow> bindR (u64_from e p) (\<lambda>v. Inr (req\<lparr>tr_script_ino := v\<rparr>))
      | Flags \<Rightarrow> bindR (u32_from e p) (\<lambda>v. Inr (req\<lparr>tr_flags := v\<rparr>))
      | Program \<Rightarrow> Inr (req\<lparr>tr_program := attr_string p\<rparr>)
      | ActionA \<Rightarrow> Inr (req\<lparr>tr_action := attr_string p\<rparr>)
      | Target \<Rightarrow> Inr (req\<lparr>tr_target := attr_string p\<rparr>)
      | Script \<Rightarrow> Inr (req\<lparr>tr_script := attr_string p\<rparr>)
      | Applet \<Rightarrow> Inr (req\<lparr>tr_applet := attr_string p\<rparr>)
      | LsmLabel \<Rightarrow> Inr (req\<lparr>tr_lsm_label := attr_string p\<rparr>)
      | ArgsHead \<Rightarrow> Inr (req\<lparr>tr_args_head := attr_string p\<rparr>)
      | NewTargetDev \<Rightarrow> bindR (u32_from e p) (\<lambda>v. Inr (req\<lparr>tr_new_target_dev := v\<rparr>))
      | NewTargetIno \<Rightarrow> bindR (u64_from e p) (\<lambda>v. Inr (req\<lparr>tr_new_target_ino := v\<rparr>))
      | NewTarget \<Rightarrow> Inr (req\<lparr>tr_new_target := attr_string p\<rparr>)
      | SessionTty \<Rightarrow> Inr (req\<lparr>tr_session_tty := attr_string p\<rparr>)
      | _ \<Rightarrow> Inr req)"

definition parse_req_msg :: "endian \<Rightarrow> attrs \<Rightarrow> string + teal_req" where
  "parse_req_msg e as = foldR (parse_req_attr e) as default_req"

record teal_info =
  ti_is_expired :: bool
  ti_ticket_id :: u64
  ti_uid :: u32
  ti_uses_left :: u32
  ti_prog_dev :: u32
  ti_prog_ino :: u64
  ti_target_dev :: u32
  ti_target_ino :: u64
  ti_new_target_dev :: u32
  ti_new_target_ino :: u64

definition default_info :: teal_info where
  "default_info =
     \<lparr>ti_is_expired = False, ti_ticket_id = 0, ti_uid = 0, ti_uses_left = 0, ti_prog_dev = 0,
      ti_prog_ino = 0, ti_target_dev = 0, ti_target_ino = 0, ti_new_target_dev = 0,
      ti_new_target_ino = 0\<rparr>"

text \<open>\<open>parse_info_msg\<close> indexes the first byte of \<open>InfoEvt\<close>, which panics on an empty payload.\<close>

datatype parse_failure = ParseError string | ParsePanic

definition parse_info_attr ::
  "endian \<Rightarrow> teal_attr \<times> string \<Rightarrow> teal_info \<Rightarrow> parse_failure + teal_info" where
  "parse_info_attr e ap info =
     (let p = snd ap in
      case fst ap of
        InfoEvt \<Rightarrow>
          (if p = [] then Inl ParsePanic else Inr (info\<lparr>ti_is_expired := (byte (hd p) = 1)\<rparr>))
      | TicketId \<Rightarrow> bindR (map_err ParseError (u64_from e p)) (\<lambda>v. Inr (info\<lparr>ti_ticket_id := v\<rparr>))
      | Uid \<Rightarrow> bindR (map_err ParseError (u32_from e p)) (\<lambda>v. Inr (info\<lparr>ti_uid := v\<rparr>))
      | UsesLeft \<Rightarrow> bindR (map_err ParseError (u32_from e p)) (\<lambda>v. Inr (info\<lparr>ti_uses_left := v\<rparr>))
      | ProgDev \<Rightarrow> bindR (map_err ParseError (u32_from e p)) (\<lambda>v. Inr (info\<lparr>ti_prog_dev := v\<rparr>))
      | ProgIno \<Rightarrow> bindR (map_err ParseError (u64_from e p)) (\<lambda>v. Inr (info\<lparr>ti_prog_ino := v\<rparr>))
      | TargetDev \<Rightarrow> bindR (map_err ParseError (u32_from e p)) (\<lambda>v. Inr (info\<lparr>ti_target_dev := v\<rparr>))
      | TargetIno \<Rightarrow> bindR (map_err ParseError (u64_from e p)) (\<lambda>v. Inr (info\<lparr>ti_target_ino := v\<rparr>))
      | NewTargetDev \<Rightarrow>
          bindR (map_err ParseError (u32_from e p)) (\<lambda>v. Inr (info\<lparr>ti_new_target_dev := v\<rparr>))
      | NewTargetIno \<Rightarrow>
          bindR (map_err ParseError (u64_from e p)) (\<lambda>v. Inr (info\<lparr>ti_new_target_ino := v\<rparr>))
      | _ \<Rightarrow> Inr info)"

definition parse_info_msg :: "endian \<Rightarrow> attrs \<Rightarrow> parse_failure + teal_info" where
  "parse_info_msg e as = foldR (parse_info_attr e) as default_info"

fun parse_register_epoch :: "endian \<Rightarrow> attrs \<Rightarrow> string + u32" where
  "parse_register_epoch e [] = Inl ''REGISTER reply missing TEAL_ATTR_EPOCH''"
| "parse_register_epoch e ((a, p) # as) =
     (if a = EpochA then
        bindR (u32_from e p) (\<lambda>epoch.
          if epoch = 0 then Inl ''kernel returned invalid Epoch=0'' else Inr epoch)
      else parse_register_epoch e as)"

text \<open>The wait for the answer to REGISTER: \<open>None\<close> while no such answer has arrived.\<close>

datatype delivery = Payload teal_cmd attrs | OtherPayload | SockClosed | RecvError string

fun await_register :: "endian \<Rightarrow> delivery list \<Rightarrow> (string + u32) option" where
  "await_register e [] = None"
| "await_register e (r # rs) =
     (case r of
        RecvError err \<Rightarrow> Some (Inl err)
      | SockClosed \<Rightarrow> Some (Inl ''REGISTER socket closed'')
      | Payload c as \<Rightarrow>
          (if c = CmdRegister then Some (parse_register_epoch e as) else await_register e rs)
      | OtherPayload \<Rightarrow> await_register e rs)"

section \<open>The receiver thread\<close>

text \<open>
  One delivered message: which lane it goes to. A panic ends the thread (the release profile
  aborts the process), which \<open>None\<close> stands for.
\<close>

datatype netlink_message = MsgReq teal_req | MsgInfo teal_info

record lanes =
  ln_decision :: "netlink_message list"
  ln_audit :: "netlink_message list"

definition receive_step :: "endian \<Rightarrow> delivery \<Rightarrow> lanes \<Rightarrow> lanes option" where
  "receive_step e r ln =
     (case r of
        Payload c as \<Rightarrow>
          (if c = CmdReq then
             (case parse_req_msg e as of
                Inr req \<Rightarrow>
                  (if tr_flags req AND 1 \<noteq> 0 then
                     Some (ln\<lparr>ln_audit := ln_audit ln @ [MsgReq req]\<rparr>)
                   else Some (ln\<lparr>ln_decision := ln_decision ln @ [MsgReq req]\<rparr>))
              | Inl _ \<Rightarrow> Some ln)
           else if c = CmdInfo then
             (case parse_info_msg e as of
                Inr info \<Rightarrow> Some (ln\<lparr>ln_audit := ln_audit ln @ [MsgInfo info]\<rparr>)
              | Inl (ParseError _) \<Rightarrow> Some ln
              | Inl ParsePanic \<Rightarrow> None)
           else Some ln)
      | _ \<Rightarrow> Some ln)"

fun receive_loop :: "endian \<Rightarrow> delivery list \<Rightarrow> lanes \<Rightarrow> lanes option" where
  "receive_loop e [] ln = Some ln"
| "receive_loop e (r # rs) ln =
     (case receive_step e r ln of None \<Rightarrow> None | Some ln' \<Rightarrow> receive_loop e rs ln')"

section \<open>Reading back a request\<close>

text \<open>What the kernel module sends: every field as an attribute, strings with their NUL.\<close>

definition encode_req :: "endian \<Rightarrow> teal_req \<Rightarrow> attrs" where
  "encode_req e r =
     [(TransId, u64_to e (tr_trans_id r)), (Pid, u32_to e (tr_pid r)), (Ppid, u32_to e (tr_ppid r)),
      (SessionId, u32_to e (tr_session_id r)), (Uid, u32_to e (tr_uid r)), (Gid, u32_to e (tr_gid r)),
      (ProgDev, u32_to e (tr_prog_dev r)), (ProgIno, u64_to e (tr_prog_ino r)),
      (Program, tr_program r @ [CHR 0x00]), (ActionA, tr_action r @ [CHR 0x00]),
      (TargetDev, u32_to e (tr_target_dev r)), (TargetIno, u64_to e (tr_target_ino r)),
      (Target, tr_target r @ [CHR 0x00]), (NewTargetDev, u32_to e (tr_new_target_dev r)),
      (NewTargetIno, u64_to e (tr_new_target_ino r)), (NewTarget, tr_new_target r @ [CHR 0x00]),
      (ScriptDev, u32_to e (tr_script_dev r)), (ScriptIno, u64_to e (tr_script_ino r)),
      (Script, tr_script r @ [CHR 0x00]), (Applet, tr_applet r @ [CHR 0x00]),
      (LsmLabel, tr_lsm_label r @ [CHR 0x00]), (ArgsHead, tr_args_head r @ [CHR 0x00]),
      (Flags, u32_to e (tr_flags r)), (SessionTty, tr_session_tty r @ [CHR 0x00])]"

definition kernel_text :: "string \<Rightarrow> bool" where
  "kernel_text s \<longleftrightarrow> utf8_valid s \<and> (s = [] \<or> last s \<noteq> CHR 0x00)"

definition req_texts :: "teal_req \<Rightarrow> string list" where
  "req_texts r = [tr_program r, tr_action r, tr_target r, tr_new_target r, tr_script r, tr_applet r,
     tr_lsm_label r, tr_args_head r, tr_session_tty r]"

lemma utf8_chunk_append:
  assumes "s \<noteq> []" and "fst (utf8_chunk s)"
  shows "utf8_chunk (s @ t) = utf8_chunk s \<and> snd (utf8_chunk s) \<le> length s"
proof -
  have hd: "hd (s @ t) = hd s" using assms(1) by simp
  have c: "cont_at i s \<Longrightarrow> cont_at i (s @ t)" for i
    by (simp add: cont_at_def nth_append)
  have n: "1 < length s \<Longrightarrow> (s @ t) ! 1 = s ! 1" "1 < length s \<Longrightarrow> 1 < length (s @ t)"
    by (simp_all add: nth_append)
  have l: "cont_at i s \<Longrightarrow> Suc i \<le> length s" for i by (simp add: cont_at_def)
  have l1: "1 \<le> length s" using assms(1) by (cases s) auto
  let ?b = "hd s"
  consider "byte ?b < 128" | "\<not> byte ?b < 128" "in_range 194 223 ?b" "cont_at 1 s"
    | "\<not> byte ?b < 128" "\<not> in_range 194 223 ?b" "in_range 224 239 ?b"
      "1 < length s" "second_ok3 ?b (s ! 1)" "cont_at 2 s"
    | "\<not> byte ?b < 128" "\<not> in_range 194 223 ?b" "\<not> in_range 224 239 ?b" "in_range 240 244 ?b"
      "1 < length s" "second_ok4 ?b (s ! 1)" "cont_at 2 s" "cont_at 3 s"
    using utf8_chunk_cases [OF assms(2)] by argo
  then show ?thesis
  proof cases
    case 1
    with l1 show ?thesis by (simp add: utf8_chunk_def Let_def hd)
  next
    case 2
    with c [of 1] l [of 1] show ?thesis by (simp add: utf8_chunk_def Let_def hd)
  next
    case 3
    with c [of 2] l [of 2] n show ?thesis by (simp add: utf8_chunk_def Let_def hd)
  next
    case 4
    with c [of 2] c [of 3] l [of 3] n show ?thesis by (simp add: utf8_chunk_def Let_def hd)
  qed
qed

lemma utf8_valid_append: "utf8_valid s \<Longrightarrow> utf8_valid t \<Longrightarrow> utf8_valid (s @ t)"
proof (induction s rule: utf8_valid.induct)
  case (1 s)
  show ?case
  proof (cases "s = []")
    case False
    with 1 have v: "fst (utf8_chunk s)" "utf8_valid (drop (snd (utf8_chunk s)) s @ t)"
      by (auto simp: utf8_valid.simps [of s])
    with utf8_chunk_append [OF False v(1), of t] False show ?thesis
      by (subst utf8_valid.simps) auto
  qed (simp add: 1)
qed

lemma attr_string_kernel [simp]:
  assumes "kernel_text s"
  shows "attr_string (s @ [CHR 0x00]) = s"
proof -
  have "utf8_valid [CHR 0x00]" by (rule utf8_valid_ascii) (simp add: byte_def)
  then have "utf8_lossy (s @ [CHR 0x00]) = s @ [CHR 0x00]"
    using assms utf8_valid_append utf8_lossy_valid by (simp add: kernel_text_def)
  moreover have "dropWhile (\<lambda>x. x = CHR 0x00) (rev s) = rev s"
    using assms by (cases s rule: rev_cases) (auto simp: kernel_text_def)
  ultimately show ?thesis by (simp add: attr_string_def trim_end_char_def)
qed


definition lanes_ok :: "lanes \<Rightarrow> bool" where
  "lanes_ok ln \<longleftrightarrow>
     list_all (\<lambda>m. case m of MsgReq r \<Rightarrow> tr_flags r AND 1 = 0 | MsgInfo _ \<Rightarrow> False) (ln_decision ln) \<and>
     list_all (\<lambda>m. case m of MsgReq r \<Rightarrow> tr_flags r AND 1 \<noteq> 0 | MsgInfo _ \<Rightarrow> True) (ln_audit ln)"

lemma receive_step_lanes: "lanes_ok ln \<Longrightarrow> receive_step e r ln = Some ln' \<Longrightarrow> lanes_ok ln'"
  by (auto simp: receive_step_def lanes_ok_def
      split: delivery.splits if_splits sum.splits parse_failure.splits)

lemma receive_loop_lanes: "lanes_ok ln \<Longrightarrow> receive_loop e rs ln = Some ln' \<Longrightarrow> lanes_ok ln'"
  by (induction rs arbitrary: ln) (auto split: option.splits dest: receive_step_lanes)

text \<open>
  The audit bit alone routes a request: over any deliveries the decision lane receives only
  requests whose audit bit is clear, so nothing reported in audit mode is ever answered, and the
  audit lane receives only requests with the bit set and kernel reports.
\<close>

theorem audit_bit_routes:
  assumes "receive_loop e rs \<lparr>ln_decision = [], ln_audit = []\<rparr> = Some ln"
  shows "lanes_ok ln"
  using _ assms by (rule receive_loop_lanes) (simp add: lanes_ok_def)

end
