(* ===== verification/Audit_Worker.thy ===== *)
theory Audit_Worker
  imports Evidence_Log Decision Netlink
begin

text \<open>
  \<open>worker/audit.rs\<close>: the lane that only records. It evaluates requests that the kernel let through
  in audit mode, keeps the table of active tickets up to date with the kernel's reports, and turns
  the events of the other workers into log entries. Every handler is spawned, so a handler that
  reads the global policy twice takes two daemon states: \<open>d\<close> at its start and \<open>d2\<close> when it builds
  its result. A handler returns the entries it writes and the daemon it leaves.
\<close>

section \<open>Enrichment\<close>

text \<open>One variable of an environment: client address and authentication method, first one wins.\<close>

definition first_word :: "string \<Rightarrow> string" where
  "first_word val = (case split_whitespace val of [] \<Rightarrow> val | x # _ \<Rightarrow> x)"

definition enrich_var :: "string \<Rightarrow> string option \<times> string option \<Rightarrow> string option \<times> string option" where
  "enrich_var kv s =
     (if prefix ''SSH_CLIENT='' kv \<or> prefix ''SSH_CONNECTION='' kv then
        (case split_once (CHR ''='') kv of
           Some (_, val) \<Rightarrow> (orelse (fst s) (Some (first_word val)), snd s)
         | None \<Rightarrow> s)
      else if prefix ''SSH_USER_AUTH='' kv then
        (case split_once (CHR ''='') kv of
           Some (_, val) \<Rightarrow> (fst s, orelse (snd s) (Some val))
         | None \<Rightarrow> s)
      else s)"

text \<open>The parent as \<open>enrich_pending_entry\<close> reads it: the fourth word of \<open>stat\<close>.\<close>

definition enrich_ppid :: "proc_fs \<Rightarrow> u32 \<Rightarrow> u32 option" where
  "enrich_ppid pf pid =
     (case pf_stat pf pid of
        None \<Rightarrow> None
      | Some stat \<Rightarrow>
          (let parts = split_whitespace stat
           in if 3 < length parts then parse_u32 (parts ! 3) else None))"

fun enrich_walk ::
  "proc_fs \<Rightarrow> nat \<Rightarrow> u32 \<Rightarrow> string option \<times> string option \<Rightarrow> string option \<times> string option" where
  "enrich_walk pf 0 pid s = s"
| "enrich_walk pf (Suc n) pid s =
     (if pid = 0 \<or> pid = 1 then s
      else
        (let s1 = (case pf_environ pf pid of
                     Some env \<Rightarrow> fold enrich_var (split_on (CHR 0x00) (utf8_lossy env)) s
                   | None \<Rightarrow> s)
         in if fst s1 \<noteq> None \<and> snd s1 \<noteq> None then s1
            else case enrich_ppid pf pid of
                Some ppid \<Rightarrow> if ppid = pid then s1 else enrich_walk pf n ppid s1
              | None \<Rightarrow> s1))"

definition enrich_pending_entry :: "proc_fs \<Rightarrow> pending_entry \<Rightarrow> pending_entry" where
  "enrich_pending_entry pf e =
     (let sj = pe_subject e;
          s = enrich_walk pf 10 (sc_pid sj) (sc_client_ip sj, sc_auth_method sj)
      in e\<lparr>pe_subject := sj\<lparr>sc_client_ip := fst s,
           sc_auth_method := orelse (snd s) (Some ''unknown'')\<rparr>\<rparr>)"

section \<open>Requests in audit mode\<close>

record audit_eval_result =
  ae_effect :: effect
  ae_rule :: "compiled_rule option"
  ae_ticket_to_send :: "ticket_payload option"
  ae_issued_ticket_id :: string
  ae_epoch :: u32

definition create_not_managed_ticket :: "request \<Rightarrow> daemon \<Rightarrow> ticket_payload" where
  "create_not_managed_ticket req d2 =
     \<lparr>tk_uid = rq_uid req, tk_op = 0xFFFFFFFF, tk_prog_dev = rq_prog_dev req,
      tk_prog_ino = rq_prog_ino req, tk_script_dev = rq_script_dev req,
      tk_script_ino = rq_script_ino req, tk_applet_hash = 0, tk_target_dev = rq_target_dev req,
      tk_target_ino = rq_target_ino req, tk_new_target_dev = rq_new_target_dev req,
      tk_new_target_ino = rq_new_target_ino req, tk_expires_in_sec = - 1, tk_flags = 0,
      tk_uses_left = 1, tk_ticket_id = ''T-000000000'', tk_epoch = d_epoch d2,
      tk_audit_flags = TEAL_TICKET_FLG_SILENT_IO\<rparr>"

definition build_audit_not_managed_result :: "request \<Rightarrow> u32 \<Rightarrow> daemon \<Rightarrow> audit_eval_result" where
  "build_audit_not_managed_result req epoch d2 =
     (let payload = create_not_managed_ticket req d2
      in \<lparr>ae_effect = Allow, ae_rule = None, ae_ticket_to_send = Some payload,
          ae_issued_ticket_id = tk_ticket_id payload, ae_epoch = epoch\<rparr>)"

definition build_audit_no_match_result :: "u32 \<Rightarrow> audit_eval_result" where
  "build_audit_no_match_result epoch =
     \<lparr>ae_effect = Deny, ae_rule = None, ae_ticket_to_send = None, ae_issued_ticket_id = ''0'',
      ae_epoch = epoch\<rparr>"

definition audit_effect :: "compiled_rule \<Rightarrow> effect" where
  "audit_effect r =
     (let s = effect_as_str (cr_effect r)
      in if s = ''allow'' then Allow else if s = ''deny'' then Deny
         else if s = ''need_approval'' then NeedApproval
         else if s = ''audit_only'' then AuditOnly else Deny)"

definition safe_flags :: "u32 \<Rightarrow> u32" where
  "safe_flags f =
     (if f AND TEAL_TICKET_FLG_INHERIT \<noteq> 0 \<and> f AND TEAL_TICKET_FLG_SILENT_IO = 0
      then f OR TEAL_TICKET_FLG_SILENT_IO else f)"

definition audit_payload :: "compiled_rule \<Rightarrow> request \<Rightarrow> string \<Rightarrow> u32 \<Rightarrow> ticket_payload" where
  "audit_payload r req tid epoch =
     (let free = cr_rule_type r = RtSubjectOnly
      in \<lparr>tk_uid = rq_uid req, tk_op = action_matcher_to_u32 (cr_action_match r),
          tk_prog_dev = rq_prog_dev req, tk_prog_ino = rq_prog_ino req,
          tk_script_dev = rq_script_dev req, tk_script_ino = rq_script_ino req,
          tk_applet_hash = 0,
          tk_target_dev = (if free then 0 else rq_target_dev req),
          tk_target_ino = (if free then 0 else rq_target_ino req),
          tk_new_target_dev = (if free then 0 else rq_new_target_dev req),
          tk_new_target_ino = (if free then 0 else rq_new_target_ino req),
          tk_expires_in_sec = cpa_ttl_sec (cr_pre_approval r),
          tk_flags = safe_flags (tp_flags (cr_ticket_profile r)), tk_uses_left = cr_max_uses r,
          tk_ticket_id = tid, tk_epoch = epoch,
          tk_audit_flags = audit_level_to_u32 (cr_audit_level r)\<rparr>)"

definition audit_ticket :: "compiled_rule \<Rightarrow> request \<Rightarrow> string \<Rightarrow> u32 \<Rightarrow> approved_ticket" where
  "audit_ticket r req tid epoch =
     \<lparr>at_ticket_id = tid, at_epoch = epoch, at_rule_id = cr_id r,
      at_origin_program = rq_raw_program req, at_origin_script = rq_raw_script req,
      at_object = rq_raw_target req, at_new_object = rq_raw_new_target req, at_uid = rq_uid req,
      at_origin_program_id = entity (rq_prog_dev req) (rq_prog_ino req),
      at_origin_program_sha256 = rq_prog_sha256 req,
      at_origin_script_id = entity_or_none (rq_script_dev req) (rq_script_ino req),
      at_origin_applet = rq_raw_applet req,
      at_object_id = entity (rq_target_dev req) (rq_target_ino req),
      at_new_object_id = entity_or_none (rq_new_target_dev req) (rq_new_target_ino req),
      at_op_mask = action_matcher_to_u32 (cr_action_match r),
      at_ttl_sec = cpa_ttl_sec (cr_pre_approval r), at_max_uses = cr_max_uses r\<rparr>"

definition audit_wants_ticket :: "compiled_rule \<Rightarrow> bool" where
  "audit_wants_ticket r \<longleftrightarrow>
     (audit_effect r = Allow \<or> audit_effect r = AuditOnly) \<and>
     tp_flags (cr_ticket_profile r) \<noteq> 0 \<and> cpa_ttl_sec (cr_pre_approval r) > 0"

definition build_audit_matched_result ::
  "request \<Rightarrow> compiled_rule \<Rightarrow> u32 \<Rightarrow> daemon \<Rightarrow> audit_eval_result \<times> daemon" where
  "build_audit_matched_result req r epoch d =
     (if audit_wants_ticket r then
        (let (tid, d1) = next_audit_ticket_id d
         in (\<lparr>ae_effect = audit_effect r, ae_rule = Some r,
              ae_ticket_to_send = Some (audit_payload r req tid epoch), ae_issued_ticket_id = tid,
              ae_epoch = epoch\<rparr>,
             d1\<lparr>d_active := hm_insert tid (audit_ticket r req tid epoch) (d_active d1)\<rparr>))
      else
        (\<lparr>ae_effect = audit_effect r, ae_rule = Some r, ae_ticket_to_send = None,
          ae_issued_ticket_id = ''0'', ae_epoch = epoch\<rparr>, d))"

text \<open>
  \<open>evaluate_audit_request\<close>: the policy and the session are read from \<open>d\<close>, the result is built
  against \<open>d2\<close>.
\<close>

definition evaluate_audit_request ::
  "world \<Rightarrow> request \<Rightarrow> daemon \<Rightarrow> daemon \<Rightarrow> audit_eval_result \<times> request \<times> daemon" where
  "evaluate_audit_request w req d d2 =
     (let compiled = d_bundle d; epoch = d_epoch d;
          session = check_registered_session (rq_session_tty req) (rq_uid req) d;
          ctx = request_to_ctx req (cb_roles compiled) session
      in case evaluate (wd_eval w) compiled ctx of
           Pass \<Rightarrow> (build_audit_not_managed_result req epoch d2, req, d2)
         | NoMatchManaged \<Rightarrow> (build_audit_no_match_result epoch, ensure_program_hash w req, d2)
         | Matched r \<Rightarrow>
             (let req1 = (if \<not> is_silent_io (cr_ticket_profile r) then ensure_program_hash w req else req);
                  (res, d3) = build_audit_matched_result req1 r epoch d2
              in (res, req1, d3)))"

definition process_audit_log ::
  "log_env \<Rightarrow> request \<Rightarrow> compiled_rule option \<Rightarrow> effect \<Rightarrow> string \<Rightarrow> bool \<Rightarrow> u32 \<Rightarrow> audit_log_entry list" where
  "process_audit_log le req rule eff tid is_cache epoch =
     [enqueue_slow_path le AccessAllowed eff is_cache tid
        (enrich_pending_entry (le_proc le) (entry_from_audit (le_world le) req rule eff epoch))]"

definition handle_audit_req ::
  "log_env \<Rightarrow> teal_req \<Rightarrow> daemon \<Rightarrow> daemon \<Rightarrow> audit_log_entry list \<times> daemon" where
  "handle_audit_req le nl_req d d2 =
     (let (res, req, d3) = evaluate_audit_request (le_world le) (from_audit_teal_req nl_req) d d2;
          d4 = (case ae_ticket_to_send res of Some p \<Rightarrow> snd (send_ticket_add p d3) | None \<Rightarrow> d3)
      in (process_audit_log le req (ae_rule res) (ae_effect res) (ae_issued_ticket_id res)
            (ae_ticket_to_send res \<noteq> None) (ae_epoch res), d4))"

section \<open>Reports of the kernel\<close>

definition kernel_ticket_name :: "teal_info \<Rightarrow> string" where
  "kernel_ticket_name i = ''T-'' @ pad_nat 9 (unat (ti_ticket_id i))"

definition kernel_event_of :: "teal_info \<Rightarrow> kernel_event_log" where
  "kernel_event_of i =
     \<lparr>kl_ticket_id = ti_ticket_id i, kl_uid = ti_uid i, kl_uses_left = ti_uses_left i,
      kl_obj_dev = ucast (ti_target_dev i), kl_obj_ino = ti_target_ino i,
      kl_new_obj_dev = (if ti_new_target_dev i \<noteq> 0 then Some (ucast (ti_new_target_dev i)) else None),
      kl_new_obj_ino = (if ti_new_target_ino i \<noteq> 0 then Some (ti_new_target_ino i) else None)\<rparr>"

definition handle_kernel_info :: "log_env \<Rightarrow> teal_info \<Rightarrow> daemon \<Rightarrow> audit_log_entry list \<times> daemon" where
  "handle_kernel_info le i d =
     (let tid = kernel_ticket_name i
      in case hm_get (d_active d) tid of
           None \<Rightarrow> ([], d)
         | Some t \<Rightarrow>
             ([enqueue_fast_path le (if ti_is_expired i then TicketExpired else TicketConsumed)
                 (kernel_event_of i) t],
              if ti_is_expired i \<or> ti_uses_left i = 0
              then d\<lparr>d_active := hm_remove tid (d_active d)\<rparr> else d))"

section \<open>Events of the other workers\<close>

definition resolved_outcome :: "policy_decision \<Rightarrow> (effect \<times> log_type) option" where
  "resolved_outcome p =
     (case p of
        PdAllow \<Rightarrow> Some (Allow, AccessAllowed)
      | PdNotManaged \<Rightarrow> Some (Allow, AccessAllowed)
      | PdAuditOnly \<Rightarrow> Some (AuditOnly, AccessAllowed)
      | PdDeny \<Rightarrow> Some (Deny, AccessDenied)
      | PdNoRuleMatched \<Rightarrow> Some (Deny, AccessDenied)
      | PdNeedApproval \<Rightarrow> None
      | PdApproved _ \<Rightarrow> None)"

definition process_resolved_event ::
  "log_env \<Rightarrow> request \<Rightarrow> policy_decision \<Rightarrow> string option \<Rightarrow> string option \<Rightarrow> u32 \<Rightarrow> daemon \<Rightarrow>
   string + audit_log_entry list" where
  "process_resolved_event le req p rid tid epoch d =
     (case resolved_outcome p of
        None \<Rightarrow> Inr []
      | Some (eff, ty) \<Rightarrow>
          bindR (find_rule rid d) (\<lambda>(rule, current_epoch).
            if epoch \<noteq> current_epoch then
              Inl (''Policy is updated, Rule id='' @
                   (case rid of Some i \<Rightarrow> ''Some('' @ [CHR 0x22] @ i @ [CHR 0x22] @ '')'' | None \<Rightarrow> ''None'') @
                   '' is not applied.'')
            else
              Inr [enqueue_slow_path le ty eff (tid \<noteq> None) (case tid of Some i \<Rightarrow> i | None \<Rightarrow> ''0'')
                     (enrich_pending_entry (le_proc le)
                       (entry_from_audit (le_world le) req rule eff current_epoch))]))"

definition handle_internal_event :: "log_env \<Rightarrow> internal_event \<Rightarrow> daemon \<Rightarrow> audit_log_entry list" where
  "handle_internal_event le ev d =
     (case ev of
        IeResolved _ req p rid tid epoch \<Rightarrow>
          (case process_resolved_event le req p rid tid epoch d of Inr es \<Rightarrow> es | Inl _ \<Rightarrow> [])
      | IeMpaApproved dr t \<Rightarrow> [enqueue_ticket_add le TicketIssued Allow dr t]
      | IeEntryApproved e cacheable tid \<Rightarrow>
          [enqueue_slow_path le InteractiveDecision Allow cacheable tid e]
      | IeDraftDenied dr t _ \<Rightarrow> [enqueue_ticket_add le InteractiveDecision Deny dr t]
      | IeEntryDenied e _ \<Rightarrow> [enqueue_slow_path le InteractiveDecision Deny False [] e]
      | IeCtlApproved c \<Rightarrow> [enqueue_mgmt_ctl le InteractiveDecision Allow c]
      | IeCtlDenied c _ \<Rightarrow> [enqueue_mgmt_ctl le AccessDenied Deny c])"

text \<open>One round of \<open>audit_worker_loop\<close>, each spawned handler running before the next message.\<close>

datatype audit_input = FromKernel netlink_message | FromWorkers internal_event

definition audit_worker_step ::
  "log_env \<Rightarrow> audit_input \<Rightarrow> daemon \<Rightarrow> audit_log_entry list \<times> daemon" where
  "audit_worker_step le i d =
     (case i of
        FromKernel m \<Rightarrow>
          (if d_mode d = Drain then ([], d)
           else case m of
               MsgReq r \<Rightarrow> handle_audit_req le r d d
             | MsgInfo i \<Rightarrow> handle_kernel_info le i d)
      | FromWorkers ev \<Rightarrow> (handle_internal_event le ev d, d))"

fun audit_worker_loop ::
  "log_env \<Rightarrow> audit_input list \<Rightarrow> daemon \<Rightarrow> audit_log_entry list \<times> daemon" where
  "audit_worker_loop le [] d = ([], d)"
| "audit_worker_loop le (i # is) d =
     (let (es, d1) = audit_worker_step le i d; (fs, d2) = audit_worker_loop le is d1 in (es @ fs, d2))"

section \<open>What the lane may do\<close>

lemma audit_effect_id [simp]: "audit_effect r = cr_effect r"
  by (cases "cr_effect r") (simp_all add: audit_effect_def)

lemma safe_flags_inherit:
  "safe_flags f AND TEAL_TICKET_FLG_INHERIT \<noteq> 0 \<Longrightarrow> safe_flags f AND TEAL_TICKET_FLG_SILENT_IO \<noteq> 0"
  by (auto simp: safe_flags_def word_ao_dist flag_values split: if_splits)

lemma snd_send_ticket_add:
  "snd (send_ticket_add p d) =
     d\<lparr>d_queue := d_queue d @ (if d_transition d \<or> \<not> d_channel_open d then [] else [NsTicketAdd p])\<rparr>"
  by (simp add: send_ticket_add_def enqueue_def)

text \<open>
  The lane changes only the ticket counter, the active tickets and the queue, and what it queues
  are tickets of the current epoch.
\<close>

definition lane_effect :: "daemon \<Rightarrow> daemon \<Rightarrow> bool" where
  "lane_effect d d' \<longleftrightarrow>
     (\<exists>ts seq act. d' = d\<lparr>d_queue := d_queue d @ map NsTicketAdd ts, d_ticket_seq := seq, d_active := act\<rparr> \<and>
        (\<forall>t \<in> set ts. tk_epoch t = d_epoch d))"

lemma lane_effectI:
  "d' = d\<lparr>d_queue := d_queue d @ map NsTicketAdd ts, d_ticket_seq := seq, d_active := act\<rparr> \<Longrightarrow>
   \<forall>t \<in> set ts. tk_epoch t = d_epoch d \<Longrightarrow> lane_effect d d'"
  by (auto simp: lane_effect_def)

lemma lane_effect_refl: "lane_effect d d"
  by (rule lane_effectI [where ts = "[]" and seq = "d_ticket_seq d" and act = "d_active d"]) simp_all

lemma lane_effect_trans: "lane_effect d d1 \<Longrightarrow> lane_effect d1 d2 \<Longrightarrow> lane_effect d d2"
  unfolding lane_effect_def
proof (elim exE conjE)
  fix ts seq act us sq ac
  assume a: "d1 = d\<lparr>d_queue := d_queue d @ map NsTicketAdd ts, d_ticket_seq := seq, d_active := act\<rparr>"
    "\<forall>t \<in> set ts. tk_epoch t = d_epoch d"
    "d2 = d1\<lparr>d_queue := d_queue d1 @ map NsTicketAdd us, d_ticket_seq := sq, d_active := ac\<rparr>"
    "\<forall>t \<in> set us. tk_epoch t = d_epoch d1"
  then show "\<exists>ts seq act. d2 = d\<lparr>d_queue := d_queue d @ map NsTicketAdd ts, d_ticket_seq := seq, d_active := act\<rparr> \<and>
        (\<forall>t \<in> set ts. tk_epoch t = d_epoch d)"
    by (intro exI [of _ "ts @ us"] exI [of _ sq] exI [of _ ac]) auto
qed

lemma build_matched_effect:
  assumes "build_audit_matched_result req r e d = (res, d1)"
  shows "(\<exists>seq act. d1 = d\<lparr>d_ticket_seq := seq, d_active := act\<rparr>) \<and>
    (\<forall>t. ae_ticket_to_send res = Some t \<longrightarrow>
       audit_wants_ticket r \<and> (\<exists>tid. t = audit_payload r req tid e))"
proof (cases "audit_wants_ticket r")
  case True
  let ?tid = "fst (next_audit_ticket_id d)"
  from True assms have "d1 = d\<lparr>d_ticket_seq := d_ticket_seq d + 1,
      d_active := hm_insert ?tid (audit_ticket r req ?tid e) (d_active d)\<rparr>"
    "ae_ticket_to_send res = Some (audit_payload r req ?tid e)"
    by (auto simp: build_audit_matched_result_def next_audit_ticket_id_def)
  with True show ?thesis by (intro conjI exI) auto
next
  case False
  with assms have "d = d1" and n: "ae_ticket_to_send res = None"
    by (auto simp: build_audit_matched_result_def)
  then have "d1 = d\<lparr>d_ticket_seq := d_ticket_seq d, d_active := d_active d\<rparr>" by simp
  then have "\<exists>seq act. d1 = d\<lparr>d_ticket_seq := seq, d_active := act\<rparr>" by (intro exI)
  with n show ?thesis by simp
qed

lemma audit_payload_simps [simp]:
  "tk_epoch (audit_payload r req tid e) = e" "tk_uid (audit_payload r req tid e) = rq_uid req"
  "tk_flags (audit_payload r req tid e) = safe_flags (tp_flags (cr_ticket_profile r))"
  by (simp_all add: audit_payload_def Let_def)

lemma evaluate_audit_request_effect:
  assumes "evaluate_audit_request w req d d = (res, req1, d1)"
  shows "(\<exists>seq act. d1 = d\<lparr>d_ticket_seq := seq, d_active := act\<rparr>) \<and>
    (\<forall>t. ae_ticket_to_send res = Some t \<longrightarrow> tk_epoch t = d_epoch d)"
proof -
  let ?ctx = "request_to_ctx req (cb_roles (d_bundle d))
    (check_registered_session (rq_session_tty req) (rq_uid req) d)"
  show ?thesis
  proof (cases "evaluate (wd_eval w) (d_bundle d) ?ctx")
    case Pass
    with assms have "d1 = d" "res = build_audit_not_managed_result req (d_epoch d) d"
      by (auto simp: evaluate_audit_request_def)
    then show ?thesis
      by (intro conjI exI [of _ "d_ticket_seq d"] exI [of _ "d_active d"])
        (auto simp: build_audit_not_managed_result_def create_not_managed_ticket_def)
  next
    case NoMatchManaged
    with assms have "d1 = d" "res = build_audit_no_match_result (d_epoch d)"
      by (auto simp: evaluate_audit_request_def)
    then show ?thesis
      by (intro conjI exI [of _ "d_ticket_seq d"] exI [of _ "d_active d"])
        (auto simp: build_audit_no_match_result_def)
  next
    case (Matched r)
    with assms have "build_audit_matched_result req1 r (d_epoch d) d = (res, d1)"
      by (auto simp: evaluate_audit_request_def Let_def case_prod_beta)
    from build_matched_effect [OF this] show ?thesis by auto
  qed
qed

lemma handle_audit_req_effect:
  assumes "handle_audit_req le n d d = (es, d')"
  shows "lane_effect d d'"
proof -
  obtain res req1 d1 where e: "evaluate_audit_request (le_world le) (from_audit_teal_req n) d d = (res, req1, d1)"
    by (metis prod_cases3)
  from evaluate_audit_request_effect [OF e] obtain seq act where
    d1: "d1 = d\<lparr>d_ticket_seq := seq, d_active := act\<rparr>" and
    t: "\<And>t. ae_ticket_to_send res = Some t \<Longrightarrow> tk_epoch t = d_epoch d" by blast
  have d': "d' = (case ae_ticket_to_send res of Some p \<Rightarrow> snd (send_ticket_add p d1) | None \<Rightarrow> d1)"
    using assms by (simp add: handle_audit_req_def e)
  show ?thesis
  proof (cases "ae_ticket_to_send res")
    case None
    with d' d1 show ?thesis by (intro lane_effectI [where ts = "[]" and seq = seq and act = act]) simp_all
  next
    case (Some p)
    let ?ts = "if d_transition d \<or> \<not> d_channel_open d then [] else [p]"
    from Some d' d1 have "d' = d\<lparr>d_queue := d_queue d @ map NsTicketAdd ?ts, d_ticket_seq := seq, d_active := act\<rparr>"
      by (simp add: snd_send_ticket_add)
    with t [OF Some] show ?thesis by (intro lane_effectI [where ts = ?ts and seq = seq and act = act]) (simp_all split: if_splits)
  qed
qed

lemma handle_kernel_info_effect:
  assumes "handle_kernel_info le i d = (es, d')"
  shows "lane_effect d d'"
proof (intro lane_effectI [where ts = "[]" and seq = "d_ticket_seq d" and act = "d_active d'"])
  show "d' = d\<lparr>d_queue := d_queue d @ map NsTicketAdd [], d_ticket_seq := d_ticket_seq d,
      d_active := d_active d'\<rparr>"
    using assms
    by (cases "hm_get (d_active d) (kernel_ticket_name i)")
      (auto simp: handle_kernel_info_def Let_def)
qed simp

lemma audit_worker_step_effect: "audit_worker_step le i d = (es, d') \<Longrightarrow> lane_effect d d'"
  by (auto simp: audit_worker_step_def lane_effect_refl
      split: audit_input.splits netlink_message.splits if_splits
      intro: handle_audit_req_effect handle_kernel_info_effect)

lemma audit_worker_loop_effect: "audit_worker_loop le is d = (es, d') \<Longrightarrow> lane_effect d d'"
proof (induction "is" arbitrary: d es d')
  case (Cons i "is")
  obtain fs d1 where s: "audit_worker_step le i d = (fs, d1)" by fastforce
  obtain gs d2 where l: "audit_worker_loop le is d1 = (gs, d2)" by fastforce
  from Cons.prems s l have "d' = d2" by simp
  with lane_effect_trans [OF audit_worker_step_effect [OF s] Cons.IH [OF l]] show ?case by simp
qed (simp add: lane_effect_refl)

section \<open>Properties\<close>

text \<open>
  The audit lane never decides. Whatever it receives, from the kernel or from the other
  workers, it queues no approval and no denial but only tickets, each stamped with the epoch in
  force; the policy, the pending entries, the drafts, the approved tickets and the mode stay as
  they are.
\<close>

theorem audit_lane_only_tickets:
  assumes "audit_worker_loop le is d = (es, d')"
  shows "(\<exists>ts. d_queue d' = d_queue d @ map NsTicketAdd ts \<and> (\<forall>t \<in> set ts. tk_epoch t = d_epoch d)) \<and>
    d_snapshot d' = d_snapshot d \<and> d_pending d' = d_pending d \<and> d_drafts d' = d_drafts d \<and>
    d_approved d' = d_approved d \<and> d_pending_ctl d' = d_pending_ctl d \<and> d_mode d' = d_mode d"
  using audit_worker_loop_effect [OF assms] by (auto simp: lane_effect_def)

text \<open>
  C33. In audit mode a kernel ticket is issued only where the policy would let the request go
  ahead: the object is not managed, or the first matching rule allows it (or only audits it) and
  gives a time to live. The ticket is bound to the requesting uid, and one that child processes
  inherit is always silent.
\<close>

theorem audit_ticket_only_if_permitted:
  assumes "evaluate_audit_request w req d d2 = (res, req1, d3)" and "ae_ticket_to_send res = Some t"
  defines "ctx \<equiv> request_to_ctx req (cb_roles (d_bundle d))
      (check_registered_session (rq_session_tty req) (rq_uid req) d)"
  shows "(evaluate (wd_eval w) (d_bundle d) ctx = Pass \<or>
      (\<exists>r. evaluate (wd_eval w) (d_bundle d) ctx = Matched r \<and>
        (cr_effect r = Allow \<or> cr_effect r = AuditOnly) \<and> cpa_ttl_sec (cr_pre_approval r) > 0)) \<and>
    tk_uid t = rq_uid req \<and>
    (tk_flags t AND TEAL_TICKET_FLG_INHERIT \<noteq> 0 \<longrightarrow> tk_flags t AND TEAL_TICKET_FLG_SILENT_IO \<noteq> 0)"
proof (cases "evaluate (wd_eval w) (d_bundle d) ctx")
  case Pass
  with assms have "t = create_not_managed_ticket req d2"
    by (auto simp: evaluate_audit_request_def build_audit_not_managed_result_def Let_def)
  with Pass show ?thesis by (simp add: create_not_managed_ticket_def)
next
  case NoMatchManaged
  with assms show ?thesis by (auto simp: evaluate_audit_request_def build_audit_no_match_result_def)
next
  case (Matched r)
  with assms(1) have b: "build_audit_matched_result req1 r (d_epoch d) d2 = (res, d3)"
    and u: "rq_uid req1 = rq_uid req"
    by (auto simp: evaluate_audit_request_def Let_def case_prod_beta ctx_def ensure_program_hash_def)
  from build_matched_effect [OF b] assms(2) obtain tid where
    "audit_wants_ticket r" "t = audit_payload r req1 tid (d_epoch d)" by blast
  with Matched u safe_flags_inherit show ?thesis by (auto simp: audit_wants_ticket_def)
qed

text \<open>
  A kernel report is accounted for exactly: the active ticket it names, and no other, is
  dropped when it expired or has no uses left and kept otherwise; one entry is logged, for the
  recorded ticket, if the ticket is known, and none if it is not.
\<close>

theorem kernel_report_accounting:
  assumes "handle_kernel_info le i d = (es, d')" and "hm_wf (d_active d)"
  shows "(\<forall>k. hm_get (d_active d') k =
      (if k = kernel_ticket_name i \<and> (ti_is_expired i \<or> ti_uses_left i = 0) then None
       else hm_get (d_active d) k)) \<and>
    es = (case hm_get (d_active d) (kernel_ticket_name i) of None \<Rightarrow> []
          | Some t \<Rightarrow> [enqueue_fast_path le (if ti_is_expired i then TicketExpired else TicketConsumed)
                        (kernel_event_of i) t])"
  using assms by (auto simp: handle_kernel_info_def Let_def split: option.splits if_splits)

text \<open>
  In drain mode everything the kernel sends on this lane is discarded: no entry, no ticket, no
  change, in particular no expiry of active tickets.
\<close>

theorem drain_discards_kernel_messages:
  assumes "d_mode d = Drain"
  shows "audit_worker_loop le (map FromKernel ms) d = ([], d)"
  using assms by (induction ms) (simp_all add: audit_worker_step_def)

text \<open>
  A policy update between the evaluation of an audited request and the construction of its
  ticket goes unnoticed for requests outside the managed scope: the ticket carries the new epoch
  although the scope was checked, and the log entry stamped, under the old one.
\<close>

theorem audit_ticket_newer_than_decision:
  assumes "evaluate (wd_eval w) (d_bundle d) (request_to_ctx req (cb_roles (d_bundle d))
      (check_registered_session (rq_session_tty req) (rq_uid req) d)) = Pass"
    and "update_bundle b (d_epoch d) d = Inr (n, d2)"
  shows "\<exists>t. ae_ticket_to_send (fst (evaluate_audit_request w req d d2)) = Some t \<and>
    tk_epoch t = n \<and> ae_epoch (fst (evaluate_audit_request w req d d2)) = d_epoch d \<and> n \<noteq> d_epoch d"
  using assms
  by (auto simp: evaluate_audit_request_def build_audit_not_managed_result_def Let_def
      create_not_managed_ticket_def update_bundle_Inr)

text \<open>
  The parent that the enrichment of a log entry follows can be forged: it splits the whole
  line of \<open>/proc/<pid>/stat\<close> at white space, so a process that calls itself \<open>a b <q> c\<close> makes it
  read the client address from the environment of process \<open>q\<close>. The other walk over the same file
  reads the true parent.
\<close>

theorem forged_parent_process:
  assumes "pf_stat pf pid = Some (show_nat n @ '' ('' @
      (a @ '' '' @ b @ '' '' @ show_nat q @ '' '' @ c) @ '') '' @ st @ '' '' @ show_nat p @ '' '' @ tl_fields)"
    and "plain_word a" and "plain_word b" and "plain_word st"
    and "CHR '')'' \<notin> set st" and "CHR '')'' \<notin> set tl_fields" and "p < 2 ^ 32" and "q < 2 ^ 32"
  shows "enrich_ppid pf pid = Some (of_nat q) \<and> get_ppid pf pid = Some (of_nat p)"
proof
  show "get_ppid pf pid = Some (of_nat p)" by (rule get_ppid_stat [OF assms(1,4,5,6,7)])
  have dig: "list_all plain_byte (show_nat k)" "show_nat k \<noteq> []" for k
    using show_nat_digits [of k] by (auto simp: list_all_iff is_digit_def plain_byte_def)
  let ?r = "c @ '') '' @ st @ '' '' @ show_nat p @ '' '' @ tl_fields"
  have w: "list_all plain_byte (CHR ''('' # a)" "list_all plain_byte b" "b \<noteq> []"
    using assms(2,3) by (simp_all add: plain_word_def plain_byte_def byte_def)
  have "split_ws [] (show_nat n @ '' '' @ (CHR ''('' # a) @ '' '' @ b @ '' '' @ show_nat q @ '' '' @ ?r) =
      show_nat n # (CHR ''('' # a) # b # show_nat q # split_ws [] ?r"
    using split_ws_plain [OF dig(1) [of n], of "[]"] split_ws_plain [OF w(1), of "[]"]
      split_ws_plain [OF w(2), of "[]"] split_ws_plain [OF dig(1) [of q], of "[]"]
    by (simp add: split_ws_space dig(2) w(3))
  moreover have "parse_u32 (show_nat q) = Some (of_nat q)"
    using parse_uint_digits [of "show_nat q" 32] show_nat_digits [of q] digits_value_show_nat [of q] assms(8)
    by (simp add: parse_u32_def)
  ultimately show "enrich_ppid pf pid = Some (of_nat q)"
    by (simp add: enrich_ppid_def assms(1) split_whitespace_def)
qed

end
