(* ===== verification/Audit_Facts.thy ===== *)
theory Audit_Facts
  imports Audit_Worker Decision_Facts
begin

text \<open>
  The enforcement lane and the audit lane together: what is logged about a decision agrees with
  the decision, and the cases in which nothing is logged. The samples of both lanes are here.
\<close>

lemma enrich_simps [simp]:
  "sc_uid (pe_subject (enrich_pending_entry pf e)) = sc_uid (pe_subject e)"
  "pe_policy_epoch (enrich_pending_entry pf e) = pe_policy_epoch e"
  by (simp_all add: enrich_pending_entry_def Let_def)

lemma entry_from_audit_simps [simp]:
  "sc_uid (pe_subject (entry_from_audit w req rule eff e)) = rq_uid req"
  "pe_policy_epoch (entry_from_audit w req rule eff e) = e"
  by (cases rule; simp add: entry_from_audit_def from_base_req_def Let_def)+

text \<open>What one reported decision adds to the log when the policy is still the same.\<close>

definition logged_as :: "log_env \<Rightarrow> internal_event \<Rightarrow> daemon \<Rightarrow> log_type \<Rightarrow> u32 \<Rightarrow> bool" where
  "logged_as le ev d ty uid \<longleftrightarrow>
     (\<exists>e. handle_internal_event le ev d = [e] \<and> al_log_type e = ty \<and>
        sy_uid (al_syscall e) = uid \<and> al_epoch e = d_epoch d)"

lemma resolved_logged:
  assumes "resolved_outcome p = Some (eff, ty)"
    and "rid = None \<or> (\<exists>r \<in> set (cp_rules (cb_policy (d_bundle d))). rid = Some (cr_id r))"
  shows "logged_as le (IeResolved n req p rid tid (d_epoch d)) d ty (rq_uid req)"
proof -
  obtain rule where "find_rule rid d = Inr (rule, d_epoch d)"
    using assms(2) find_rule_member by (fastforce simp: find_rule_def)
  then show ?thesis using assms(1)
    by (simp add: logged_as_def handle_internal_event_def process_resolved_event_def)
qed

lemma logged_as_cong:
  assumes "d_snapshot d2 = d_snapshot d"
  shows "logged_as le (IeResolved n req p rid tid e) d2 = logged_as le (IeResolved n req p rid tid e) d"
proof -
  have f: "find_rule rid d2 = find_rule rid d" unfolding find_rule_def assms ..
  show ?thesis
    unfolding logged_as_def handle_internal_event_def process_resolved_event_def internal_event.case f assms ..
qed

definition waits_for_people :: "world \<Rightarrow> teal_req \<Rightarrow> daemon \<Rightarrow> bool" where
  "waits_for_people w n d =
     (case worker_evaluate w n d of Matched r \<Rightarrow> cr_effect r = NeedApproval | _ \<Rightarrow> False)"

abbreviation step_logged ::
  "log_env \<Rightarrow> world \<Rightarrow> teal_req \<Rightarrow> daemon \<Rightarrow> daemon \<Rightarrow> bool" where
  "step_logged le w n d d2 \<equiv> \<exists>ev. d_events (decision_worker_step w n d) = d_events d @ [ev] \<and>
    (if waits_for_people w n d then handle_internal_event le ev d2 = []
     else logged_as le ev d2 (if authorised w n d then AccessAllowed else AccessDenied) (tr_uid n))"

lemmas verdict_logged = waits_for_people_def authorised_def resolved_outcome_def

lemma waiting_not_logged:
  "handle_internal_event le (IeResolved n req PdNeedApproval rid tid e) d2 = []"
  "handle_internal_event le (IeResolved n req (PdApproved a) rid tid e) d2 = []"
  by (simp_all add: handle_internal_event_def process_resolved_event_def resolved_outcome_def)

lemma unmanaged_step_logged:
  assumes ch: "d_channel_open d" and tr: "\<not> d_transition d" and s: "d_snapshot d2 = d_snapshot d"
    and p: "worker_evaluate w n d = Pass"
  shows "step_logged le w n d d2"
proof -
  from step_not_managed [OF p ch tr] obtain t where
    "decision_worker_step w n d = d\<lparr>d_queue := d_queue d @ [NsApprove (tr_trans_id n), NsTicketAdd t],
      d_events := d_events d @ [IeResolved n (worker_request n) PdNotManaged None
        (Some (tk_ticket_id t)) (d_epoch d)]\<rparr>" by blast
  then have "d_events (decision_worker_step w n d) = d_events d @
       [IeResolved n (worker_request n) PdNotManaged None (Some (tk_ticket_id t)) (d_epoch d)]"
    by simp
  then show ?thesis
    using resolved_logged [of PdNotManaged Allow AccessAllowed None d le n "worker_request n"]
    by (simp add: verdict_logged logged_as_cong [OF s] p)
qed

lemma unmatched_step_logged:
  assumes ch: "d_channel_open d" and s: "d_snapshot d2 = d_snapshot d"
    and p: "worker_evaluate w n d = NoMatchManaged"
  shows "step_logged le w n d d2"
  using resolved_logged [of PdNoRuleMatched Deny AccessDenied None d le n
      "ensure_program_hash w (worker_request n)" None]
  by (simp add: step_no_match [OF p ch] verdict_logged logged_as_cong [OF s] p)

lemma matched_logged:
  assumes m: "worker_evaluate w n d = Matched r" and o: "resolved_outcome p = Some (eff, ty)"
  shows "logged_as le (IeResolved n (hashed_request w r n) p (Some (cr_id r)) tid (d_epoch d)) d ty (tr_uid n)"
proof -
  from m have "None = Some (cr_id r) \<or>
      (\<exists>q \<in> set (cp_rules (cb_policy (d_bundle d))). Some (cr_id r) = Some (cr_id q))"
    using matched_in_rules by (auto simp: worker_evaluate_def)
  with resolved_logged [of p eff ty "Some (cr_id r)" d le n "hashed_request w r n" tid] o show ?thesis by simp
qed

lemma allowed_step_logged:
  assumes ch: "d_channel_open d" and tr: "\<not> d_transition d" and s: "d_snapshot d2 = d_snapshot d"
    and m: "worker_evaluate w n d = Matched r" and a: "cr_effect r = Allow"
  shows "step_logged le w n d d2"
proof (cases "cpa_ttl_sec (cr_pre_approval r) = 0")
  case True
  with a matched_logged [OF m, of PdAllow Allow AccessAllowed] show ?thesis
    by (simp add: step_allow_plain [OF m a ch] verdict_logged logged_as_cong [OF s] m)
next
  case False
  then have "cpa_ttl_sec (cr_pre_approval r) > 0" by (simp add: word_gt_0)
  from step_allow_ticket [OF m a ch tr this] obtain tid where
    "d_events (decision_worker_step w n d) = d_events d @
       [IeResolved n (hashed_request w r n) PdAllow (Some (cr_id r)) tid (d_epoch d)]"
    by (elim exE conjE) (rule that, simp)
  with a matched_logged [OF m, of PdAllow Allow AccessAllowed] show ?thesis
    by (simp add: verdict_logged logged_as_cong [OF s] m)
qed

lemma approval_step_logged:
  assumes ch: "d_channel_open d" and tr: "\<not> d_transition d" and wf: "approved_wf d"
    and m: "worker_evaluate w n d = Matched r" and a: "cr_effect r = NeedApproval"
  shows "step_logged le w n d d2"
proof (cases "has_approved d (cr_id r)")
  case False
  from step_need_pending [OF m a ch this] show ?thesis
    by (simp add: waits_for_people_def m a waiting_not_logged)
next
  case True
  from step_need_approved [OF m a ch tr wf True] obtain aid tid where
    "d_events (decision_worker_step w n d) = d_events d @
       [IeResolved n (hashed_request w r n) (PdApproved aid) (Some (cr_id r)) tid (d_epoch d)]"
    by (elim exE conjE) (rule that, simp)
  then show ?thesis by (simp add: waits_for_people_def m a waiting_not_logged)
qed

text \<open>
  C28. The log tells the truth about decisions. A ready worker reports each request once; as long
  as the policy has not been replaced in between, the report becomes exactly one entry, of the
  requesting uid and the deciding epoch, that says \<open>allowed\<close> exactly when the request was let
  through. The exception are requests of rules that need approval: no entry is written for them,
  not even when an approved ticket lets the request through.
\<close>

theorem decisions_logged_truthfully:
  assumes "lane_open d" and "d_snapshot d2 = d_snapshot d"
  shows "\<exists>ev. d_events (decision_worker_step w n d) = d_events d @ [ev] \<and>
    (if waits_for_people w n d then handle_internal_event le ev d2 = []
     else logged_as le ev d2 (if authorised w n d then AccessAllowed else AccessDenied) (tr_uid n))"
proof -
  from assms(1) have ch: "d_channel_open d" and tr: "\<not> d_transition d" and wf: "approved_wf d"
    by (simp_all add: lane_open_def)
  note v = verdict_logged logged_as_cong [OF assms(2)]
  show ?thesis
  proof (cases "worker_evaluate w n d")
    case (Matched r)
    note l = matched_logged [OF Matched]
    show ?thesis
    proof (cases "cr_effect r")
      case Deny
      with l [of PdDeny Deny AccessDenied] show ?thesis by (simp add: step_deny [OF Matched Deny ch] v Matched)
    next
      case AuditOnly
      with l [of PdAuditOnly AuditOnly AccessAllowed] show ?thesis
        by (simp add: step_audit_only [OF Matched AuditOnly ch] v Matched)
    qed (rule allowed_step_logged [OF ch tr assms(2) Matched] approval_step_logged [OF ch tr wf Matched]; assumption)+
  qed (rule unmanaged_step_logged [OF ch tr assms(2)] unmatched_step_logged [OF ch assms(2)]; assumption)+
qed

text \<open>
  Reports that are still in the channel when the policy is replaced are lost: whatever was
  decided under an earlier epoch leaves no entry.
\<close>

theorem stale_reports_lost:
  assumes "epoch \<noteq> d_epoch d"
  shows "handle_internal_event le (IeResolved n req p rid tid epoch) d = []"
  using assms
  by (auto simp: handle_internal_event_def process_resolved_event_def find_rule_def bindR_def
      split: option.splits sum.splits)

section \<open>Samples\<close>

definition sample_proc :: proc_fs where
  "sample_proc =
     \<lparr>pf_environ = (\<lambda>p. if p = 50 then Some (''SSH_CLIENT=10.0.0.9 5 22'' @ [CHR 0x00]) else None),
      pf_stat = (\<lambda>p. if p = 100 then Some (''100 (a b 50 c) S 7 100 100 0'') else None),
      pf_fd0 = (\<lambda>_. None)\<rparr>"

definition sample_log_env :: log_env where
  "sample_log_env =
     \<lparr>le_world = sample_world, le_proc = sample_proc, le_host = ''host'',
      le_uid_to_name = (\<lambda>_. Inr ''alice''), le_file_hash = (\<lambda>_. Inr ''00'')\<rparr>"

definition sample_info :: teal_info where
  "sample_info = default_info\<lparr>ti_is_expired := True, ti_ticket_id := 1\<rparr>"

lemma decisions_logged_truthfully_witness:
  "\<exists>ev. d_events (decision_worker_step sample_world (sample_req ''READ'' ''/etc/motd'') approval_daemon) = [ev] \<and>
     logged_as sample_log_env ev approval_daemon AccessAllowed 1000"
proof -
  let ?n = "sample_req ''READ'' ''/etc/motd''"
  have "d_events approval_daemon = []" "tr_uid ?n = 1000"
    by (simp_all add: approval_daemon_def sample_daemon_def sample_req_def)
  with decisions_logged_truthfully [OF sample_lanes(1) refl, of sample_world ?n sample_log_env]
  show ?thesis by (simp add: waits_for_people_def authorised_def sample_evaluations)
qed

lemma stale_reports_lost_witness:
  "handle_internal_event sample_log_env (IeResolved (sample_req ''READ'' ''/x'')
     (from_enforce_teal_req (sample_req ''READ'' ''/x'')) PdNotManaged None None 2) sample_daemon = []"
  by (rule stale_reports_lost) (simp add: sample_daemon_def)

lemma audit_lane_only_tickets_witness:
  "\<exists>es d'. audit_worker_loop sample_log_env
      [FromKernel (MsgReq (sample_req ''READ'' ''/etc/motd'')), FromKernel (MsgInfo sample_info)]
      approval_daemon = (es, d') \<and> d_pending d' = []"
proof -
  obtain es d' where r: "audit_worker_loop sample_log_env
      [FromKernel (MsgReq (sample_req ''READ'' ''/etc/motd'')), FromKernel (MsgInfo sample_info)]
      approval_daemon = (es, d')" by fastforce
  with audit_lane_only_tickets [OF r] show ?thesis
    by (simp add: approval_daemon_def sample_daemon_def)
qed

lemma sample_audit_evaluation:
  "evaluate (wd_eval sample_world) (d_bundle approval_daemon)
     (request_to_ctx (worker_request (sample_req ''READ'' ''/etc/motd'')) (cb_roles (d_bundle approval_daemon))
       (check_registered_session (rq_session_tty (worker_request (sample_req ''READ'' ''/etc/motd'')))
         (rq_uid (worker_request (sample_req ''READ'' ''/etc/motd''))) approval_daemon)) = Pass"
  using sample_evaluations(3) by (simp add: worker_evaluate_def worker_context_def)

lemma audit_ticket_only_if_permitted_witness:
  "\<exists>t. ae_ticket_to_send (fst (evaluate_audit_request sample_world
      (worker_request (sample_req ''READ'' ''/etc/motd'')) approval_daemon approval_daemon)) = Some t \<and>
     tk_uid t = 1000"
proof -
  let ?n = "sample_req ''READ'' ''/etc/motd''"
  let ?r = "worker_request ?n"
  let ?res = "build_audit_not_managed_result ?r (d_epoch approval_daemon) approval_daemon"
  have e: "evaluate_audit_request sample_world ?r approval_daemon approval_daemon = (?res, ?r, approval_daemon)"
    using sample_audit_evaluation by (simp add: evaluate_audit_request_def Let_def)
  have "ae_ticket_to_send ?res = Some (create_not_managed_ticket ?r approval_daemon)"
    by (simp add: build_audit_not_managed_result_def Let_def)
  with audit_ticket_only_if_permitted [OF e this] e show ?thesis by (simp add: sample_req_def)
qed

lemma kernel_report_accounting_witness:
  "hm_get (d_active (snd (handle_kernel_info sample_log_env sample_info
     (sample_daemon\<lparr>d_active := [(''T-000000001'', foreign_ticket)]\<rparr>)))) ''T-000000001'' = None"
proof -
  let ?d = "sample_daemon\<lparr>d_active := [(''T-000000001'', foreign_ticket)]\<rparr>"
  obtain es d' where h: "handle_kernel_info sample_log_env sample_info ?d = (es, d')" by fastforce
  have n: "kernel_ticket_name sample_info = ''T-000000001''"
    by code_simp
  have "hm_wf (d_active ?d)" by (simp add: hm_wf_def)
  from kernel_report_accounting [OF h this] n h show ?thesis by (simp add: sample_info_def)
qed

lemma drain_discards_kernel_messages_witness:
  "audit_worker_loop sample_log_env (map FromKernel [MsgInfo sample_info]) (sample_daemon\<lparr>d_mode := Drain\<rparr>) =
     ([], sample_daemon\<lparr>d_mode := Drain\<rparr>)"
  by (rule drain_discards_kernel_messages) simp

lemma audit_ticket_newer_than_decision_witness:
  "\<exists>d2 t. ae_ticket_to_send (fst (evaluate_audit_request sample_world
      (worker_request (sample_req ''READ'' ''/etc/motd'')) approval_daemon d2)) = Some t \<and>
     tk_epoch t = 2"
proof -
  let ?d2 = "approval_daemon\<lparr>d_snapshot := \<lparr>ps_epoch = 2, ps_bundle = sample_bundle\<rparr>\<rparr>"
  have "update_bundle sample_bundle (d_epoch approval_daemon) approval_daemon = Inr (2, ?d2)"
    by (simp add: update_bundle_Inr approval_daemon_def)
  from audit_ticket_newer_than_decision [OF sample_audit_evaluation this] show ?thesis by blast
qed

lemma forged_parent_process_witness:
  "enrich_ppid sample_proc 100 = Some 50 \<and> get_ppid sample_proc 100 = Some 7"
proof -
  have n: "show_nat 100 = ''100''" "show_nat 50 = ''50''" "show_nat 7 = ''7''"
    by code_simp+
  have "enrich_ppid sample_proc 100 = Some (of_nat 50) \<and> get_ppid sample_proc 100 = Some (of_nat 7)"
    by (rule forged_parent_process [of sample_proc 100 100 "''a''" "''b''" 50 "''c''" "''S''" 7 "''100 100 0''"])
      (simp_all add: n sample_proc_def plain_word_def plain_byte_def byte_def)
  then show ?thesis by simp
qed


lemma audit_bit_routes_witness:
  "lanes_ok (the (receive_loop Little
     [Payload CmdReq (encode_req Little ((sample_req ''READ'' ''/x'')\<lparr>tr_flags := 1\<rparr>)), OtherPayload]
     \<lparr>ln_decision = [], ln_audit = []\<rparr>))"
proof -
  let ?r = "(sample_req ''READ'' ''/x'')\<lparr>tr_flags := 1\<rparr>"
  let ?ln = "\<lparr>ln_decision = [], ln_audit = []\<rparr>"
  have "\<exists>ln. receive_step Little (Payload CmdReq as) ?ln = Some ln" for as
    by (simp add: receive_step_def split: sum.splits)
  then obtain ln where "receive_step Little (Payload CmdReq (encode_req Little ?r)) ?ln = Some ln" by blast
  moreover have "receive_step Little OtherPayload ln = Some ln" by (simp add: receive_step_def)
  ultimately have "receive_loop Little [Payload CmdReq (encode_req Little ?r), OtherPayload] ?ln = Some ln"
    by simp
  with audit_bit_routes [OF this] show ?thesis by simp
qed

end
