(* ===== verification/Pam_Session.thy ===== *)
theory Pam_Session
  imports Decision Rust_Utf8
begin

text \<open>
  Login sessions: \<open>pam_teal/src/lib.rs\<close>, the notification of \<open>teal_common\<close> and
  \<open>teald/src/pam_server.rs\<close>. Linux-PAM, the user database and the JSON encoding are parameters.
  A PAM handle keeps its items and the two values the module stores in it; a stored value that
  fails to be set is not stored.
\<close>

section \<open>The notification\<close>

record pam_event =
  pn_action :: string
  pn_uid :: u32
  pn_session_tty :: string
  pn_source_ip :: "string option"
  pn_auth_method :: "string option"

section \<open>Printing addresses\<close>

text \<open>\<open>Display\<close> of \<open>IpAddr\<close>: the longest run of zero groups of an IPv6 address is shortened.\<close>

definition octets_of :: "u32 \<Rightarrow> nat list" where
  "octets_of w = map (\<lambda>i. unat (drop_bit (8 * i) w) mod 256) [3, 2, 1, 0]"

definition show_ipv4 :: "u32 \<Rightarrow> string" where
  "show_ipv4 w = join ''.'' (map show_nat (octets_of w))"

definition groups_of :: "128 word \<Rightarrow> nat list" where
  "groups_of w = map (\<lambda>i. unat (drop_bit (16 * i) w) mod 65536) [7, 6, 5, 4, 3, 2, 1, 0]"

definition hex_char :: "nat \<Rightarrow> char" where
  "hex_char d = ''0123456789abcdef'' ! d"

fun show_hex :: "nat \<Rightarrow> string" where
  "show_hex n = (if n < 16 then [hex_char n] else show_hex (n div 16) @ [hex_char (n mod 16)])"

declare show_hex.simps [simp del]

definition zero_run :: "nat list \<Rightarrow> nat" where
  "zero_run gs = length (takeWhile (\<lambda>g. g = 0) gs)"

text \<open>The first longest run: its start and its length.\<close>

fun longest_run :: "nat \<Rightarrow> nat list \<Rightarrow> nat \<times> nat" where
  "longest_run i [] = (0, 0)"
| "longest_run i (g # gs) =
     (let here = zero_run (g # gs); (start, len) = longest_run (Suc i) gs
      in if len \<le> here \<and> 0 < here then (i, here) else (start, len))"

definition show_ipv6 :: "128 word \<Rightarrow> string" where
  "show_ipv6 w =
     (let gs = groups_of w
      in if take 6 gs = [0, 0, 0, 0, 0, 65535] then ''::ffff:'' @ show_ipv4 (ucast w)
         else
           (let (start, len) = longest_run 0 gs
            in if 1 < len then
                 join '':'' (map show_hex (take start gs)) @ ''::'' @
                 join '':'' (map show_hex (drop (start + len) gs))
               else join '':'' (map show_hex gs)))"

fun show_ip :: "ipaddr \<Rightarrow> string" where
  "show_ip (V4 w) = show_ipv4 w"
| "show_ip (V6 w) = show_ipv6 w"

section \<open>The PAM module\<close>

record pam_handle =
  ph_user :: "string option"
  ph_tty :: "string option"
  ph_rhost :: "string option"
  ph_auth_method :: "string option"
  ph_session_uid :: "u32 option"

datatype pam_code = PamIgnore | PamSuccess | PamSessionErr

text \<open>What the environment does during a call: the user database and whether data can be stored.\<close>

record pam_env =
  pv_user_db :: user_db
  pv_set_data :: bool

definition get_session_tty :: "pam_handle \<Rightarrow> string" where
  "get_session_tty h = (case ph_tty h of Some t \<Rightarrow> utf8_lossy t | None \<Rightarrow> ''unknown'')"

definition session_source_ip :: "pam_handle \<Rightarrow> string option" where
  "session_source_ip h =
     (let raw = (case ph_rhost h of
                   None \<Rightarrow> None
                 | Some r \<Rightarrow> (let s = rust_trim (utf8_lossy r) in if s \<noteq> [] then Some s else None))
      in case raw of
           None \<Rightarrow> None
         | Some s \<Rightarrow> (case parse_ip s of Some ip \<Rightarrow> Some (show_ip ip) | None \<Rightarrow> None))"

definition get_session_info ::
  "pam_env \<Rightarrow> pam_handle \<Rightarrow> u32 option \<times> string \<times> string \<times> string option" where
  "get_session_info pv h =
     (let (uid, user) =
        (case ph_user h of
           Some u \<Rightarrow>
             (let name = utf8_lossy u
              in (case ok_opt (pv_user_db pv name) of Some x \<Rightarrow> x | None \<Rightarrow> None, name))
         | None \<Rightarrow> (None, ''unknown''))
      in (uid, user, get_session_tty h, session_source_ip h))"

definition pam_sm_authenticate :: "pam_env \<Rightarrow> pam_handle \<Rightarrow> pam_code \<times> pam_handle" where
  "pam_sm_authenticate pv h =
     (PamIgnore, if pv_set_data pv then h\<lparr>ph_auth_method := Some ''password''\<rparr> else h)"

text \<open>The third component is the notification sent to the daemon, if any.\<close>

definition pam_sm_open_session ::
  "pam_env \<Rightarrow> pam_handle \<Rightarrow> pam_code \<times> pam_handle \<times> pam_event option" where
  "pam_sm_open_session pv h =
     (let (uid_opt, user, tty, source_ip) = get_session_info pv h
      in case uid_opt of
           None \<Rightarrow> (PamSessionErr, h, None)
         | Some uid \<Rightarrow>
             (if \<not> pv_set_data pv then (PamSessionErr, h, None)
              else
                (let h1 = h\<lparr>ph_session_uid := Some uid\<rparr>;
                     auth_method = map_option utf8_lossy (ph_auth_method h1)
                 in (PamSuccess, h1, Some
                      \<lparr>pn_action = ''login'', pn_uid = uid, pn_session_tty = tty,
                       pn_source_ip = source_ip, pn_auth_method = auth_method\<rparr>))))"

definition pam_sm_close_session :: "pam_handle \<Rightarrow> pam_code \<times> pam_event option" where
  "pam_sm_close_session h =
     (let tty = get_session_tty h
      in case ph_session_uid h of
           None \<Rightarrow> (PamSessionErr, None)
         | Some uid \<Rightarrow> (PamSuccess, Some
             \<lparr>pn_action = ''logout'', pn_uid = uid, pn_session_tty = tty, pn_source_ip = None,
              pn_auth_method = None\<rparr>))"

section \<open>The daemon\<close>

definition process_pam_event :: "pam_event \<Rightarrow> daemon \<Rightarrow> daemon" where
  "process_pam_event ev d =
     (let key = normalize_tty_name (pn_session_tty ev)
      in if pn_action ev = ''login'' then
           d\<lparr>d_tty_sessions := hm_insert key
             \<lparr>rs_uid = pn_uid ev, rs_source_ip = pn_source_ip ev, rs_auth_method = pn_auth_method ev\<rparr>
             (d_tty_sessions d)\<rparr>
         else if pn_action ev = ''logout'' then
           d\<lparr>d_tty_sessions := hm_remove key (d_tty_sessions d)\<rparr>
         else d)"

text \<open>
  One connection: the whole stream is read and parsed. The source takes no peer credentials; the
  uid of the process at the other end is an argument here to say so.
\<close>

definition handle_pam_connection ::
  "(string \<Rightarrow> string + pam_event) \<Rightarrow> u32 \<Rightarrow> string option \<Rightarrow> daemon \<Rightarrow> daemon" where
  "handle_pam_connection from_json peer_uid stream d =
     (case stream of
        None \<Rightarrow> d
      | Some buffer \<Rightarrow>
          (case from_json buffer of Inr ev \<Rightarrow> process_pam_event ev d | Inl _ \<Rightarrow> d))"

definition notify_teald :: "(pam_event \<Rightarrow> string + string) \<Rightarrow> pam_event \<Rightarrow> string option" where
  "notify_teald to_json ev =
     (case to_json ev of Inl _ \<Rightarrow> None | Inr json \<Rightarrow> Some (json @ [CHR 0x0A]))"

section \<open>The session a process is checked against\<close>

lemma check_session_tty:
  "check_registered_session tty uid d =
     (if tty = [] \<or> tty = ''-'' then None
      else case hm_get (d_tty_sessions d) (normalize_tty_name tty) of
          None \<Rightarrow> None | Some s \<Rightarrow> if uid = rs_uid s then Some s else None)"
  by (auto simp: check_registered_session_def split: option.splits)

lemma check_session_login:
  assumes "pn_action ev = ''login''"
  shows "check_registered_session tty uid (process_pam_event ev d) =
    (if tty = [] \<or> tty = ''-'' then None
     else if normalize_tty_name tty = normalize_tty_name (pn_session_tty ev) then
       (if uid = pn_uid ev then Some \<lparr>rs_uid = pn_uid ev, rs_source_ip = pn_source_ip ev,
          rs_auth_method = pn_auth_method ev\<rparr> else None)
     else check_registered_session tty uid d)"
  using assms by (simp add: check_session_tty process_pam_event_def Let_def hm.lookup_insert)

lemma check_session_logout:
  assumes "pn_action ev = ''logout''" and "hm_wf (d_tty_sessions d)"
  shows "check_registered_session tty uid (process_pam_event ev d) =
    (if normalize_tty_name tty = normalize_tty_name (pn_session_tty ev) then None
     else check_registered_session tty uid d)"
  using assms by (simp add: check_session_tty process_pam_event_def Let_def hm.lookup_remove)

lemma sessions_wf: "hm_wf (d_tty_sessions d) \<Longrightarrow> hm_wf (d_tty_sessions (process_pam_event ev d))"
  by (simp add: process_pam_event_def Let_def hm.invar_insert hm.invar_remove)

text \<open>
  C38. A session lives exactly from login to logout. What the PAM module reports for a handle, sent
  through any JSON encoding that reads back what it wrote, makes the daemon vouch for that uid on
  that terminal with the address and method of the login and for nobody else there; closing the
  session withdraws it, and other terminals are never touched.
\<close>

theorem pam_session_lifetime:
  assumes "pam_sm_open_session pv h = (PamSuccess, h1, Some login)"
    and "pam_sm_close_session h1 = (PamSuccess, Some logout)"
    and "notify_teald to_json login = Some m1" and "notify_teald to_json logout = Some m2"
    and "from_json m1 = Inr login" and "from_json m2 = Inr logout"
    and "hm_wf (d_tty_sessions d)" and "tty \<noteq> []" and "tty \<noteq> ''-''"
    and "d1 = handle_pam_connection from_json p1 (Some m1) d"
    and "d2 = handle_pam_connection from_json p2 (Some m2) d1"
  shows "if normalize_tty_name tty = normalize_tty_name (get_session_tty h) then
      (\<forall>uid. check_registered_session tty uid d1 =
        (if ph_session_uid h1 = Some uid then
           Some \<lparr>rs_uid = uid, rs_source_ip = session_source_ip h,
                 rs_auth_method = map_option utf8_lossy (ph_auth_method h)\<rparr> else None) \<and>
       check_registered_session tty uid d2 = None)
    else (\<forall>uid. check_registered_session tty uid d1 = check_registered_session tty uid d \<and>
       check_registered_session tty uid d2 = check_registered_session tty uid d)"
proof -
  from assms(1) obtain uid where u: "ph_session_uid h1 = Some uid" and tty1: "ph_tty h1 = ph_tty h"
    and login: "login = \<lparr>pn_action = ''login'', pn_uid = uid, pn_session_tty = get_session_tty h,
      pn_source_ip = session_source_ip h, pn_auth_method = map_option utf8_lossy (ph_auth_method h)\<rparr>"
    by (auto simp: pam_sm_open_session_def get_session_info_def Let_def split: option.splits if_splits)
  from assms(2) u have logout: "pn_action logout = ''logout''"
    "pn_session_tty logout = get_session_tty h"
    by (auto simp: pam_sm_close_session_def get_session_tty_def Let_def tty1)
  have d1: "d1 = process_pam_event login d" and d2: "d2 = process_pam_event logout d1"
    using assms(5,6,10,11) by (simp_all add: handle_pam_connection_def)
  have l: "pn_action login = ''login''" by (simp add: login)
  note in1 = check_session_login [OF l, of tty _ d, folded d1]
  have wf1: "hm_wf (d_tty_sessions d1)" using sessions_wf assms(7) d1 by simp
  note out = check_session_logout [OF logout(1) wf1, of tty, folded d2]
  show ?thesis using assms(8,9) u logout(2) by (auto simp: in1 out login)
qed

text \<open>
  Anyone can register a session. The daemon believes the notification, not the process that
  sends it: a well-formed login message from a process of any uid makes the daemon vouch for the
  uid, address and authentication method the message names, and puts out of force the genuine
  session of that terminal.
\<close>

theorem pam_login_unauthenticated:
  assumes "from_json m = Inr ev" and "pn_action ev = ''login''" and "tty \<noteq> []" and "tty \<noteq> ''-''"
    and "normalize_tty_name tty = normalize_tty_name (pn_session_tty ev)"
  shows "check_registered_session tty (pn_uid ev) (handle_pam_connection from_json peer (Some m) d) =
      Some \<lparr>rs_uid = pn_uid ev, rs_source_ip = pn_source_ip ev, rs_auth_method = pn_auth_method ev\<rparr> \<and>
    (\<forall>uid. uid \<noteq> pn_uid ev \<longrightarrow>
      check_registered_session tty uid (handle_pam_connection from_json peer (Some m) d) = None)"
  using assms check_session_login [OF assms(2), of tty _ d] by (simp add: handle_pam_connection_def)

section \<open>Witnesses\<close>

definition sample_pam_env :: pam_env where
  "sample_pam_env = \<lparr>pv_user_db = user_from_name sample_platform, pv_set_data = True\<rparr>"

definition sample_handle :: pam_handle where
  "sample_handle = \<lparr>ph_user = Some ''alice'', ph_tty = Some ''pts/0'', ph_rhost = Some ''10.1.2.3'',
     ph_auth_method = None, ph_session_uid = None\<rparr>"

text \<open>A toy encoding of notifications that distinguishes the two kinds.\<close>

definition sample_to_json :: "pam_event \<Rightarrow> string + string" where
  "sample_to_json ev = Inr (if pn_action ev = ''login'' then ''in'' else ''out'')"

definition forged_login :: pam_event where
  "forged_login = \<lparr>pn_action = ''login'', pn_uid = 0, pn_session_tty = ''pts/0'', pn_source_ip = None,
     pn_auth_method = Some ''publickey''\<rparr>"

lemma pam_login_unauthenticated_witness:
  "check_registered_session ''pts/0'' 0
     (handle_pam_connection (\<lambda>_. Inr forged_login) 1000 (Some ''m'') sample_daemon) \<noteq> None"
  using pam_login_unauthenticated [of "\<lambda>_. Inr forged_login" "''m''" forged_login "''pts/0''" 1000 sample_daemon]
  by (simp add: forged_login_def)

lemma pam_session_lifetime_witness:
  "\<exists>login logout.
    (let from_json = (\<lambda>m. Inr (if m = ''in'' @ [CHR 0x0A] then login else logout));
         d1 = handle_pam_connection from_json 0 (Some (''in'' @ [CHR 0x0A])) sample_daemon;
         d2 = handle_pam_connection from_json 0 (Some (''out'' @ [CHR 0x0A])) d1
     in check_registered_session ''pts/0'' 1000 d1 \<noteq> None \<and>
        check_registered_session ''pts/0'' 1000 d2 = None)"
proof -
  let ?r = "pam_sm_open_session sample_pam_env sample_handle"
  let ?h1 = "sample_handle\<lparr>ph_session_uid := Some 1000\<rparr>"
  have lossy: "utf8_lossy s = s" if "\<forall>c \<in> set s. byte c < 128" for s
    using that by (intro utf8_lossy_valid utf8_valid_ascii)
  have n: "utf8_lossy ''alice'' = ''alice''" "utf8_lossy ''pts/0'' = ''pts/0''"
    by (rule lossy; simp add: byte_def)+
  have open_ok: "\<exists>login. ?r = (PamSuccess, ?h1, Some login) \<and> pn_action login = ''login''"
    by (simp add: pam_sm_open_session_def get_session_info_def sample_handle_def sample_pam_env_def
        sample_platform_def Let_def n get_session_tty_def)
  then obtain login where login: "?r = (PamSuccess, ?h1, Some login)" "pn_action login = ''login''" by blast
  have "\<exists>logout. pam_sm_close_session ?h1 = (PamSuccess, Some logout) \<and> pn_action logout = ''logout''"
    by (simp add: pam_sm_close_session_def sample_handle_def Let_def)
  then obtain logout where logout: "pam_sm_close_session ?h1 = (PamSuccess, Some logout)"
    "pn_action logout = ''logout''" by blast
  let ?fj = "\<lambda>m. Inr (if m = ''in'' @ [CHR 0x0A] then login else logout) :: string + pam_event"
  have m: "notify_teald sample_to_json login = Some (''in'' @ [CHR 0x0A])"
    "notify_teald sample_to_json logout = Some (''out'' @ [CHR 0x0A])"
    using login(2) logout(2) by (simp_all add: notify_teald_def sample_to_json_def)
  have "hm_wf (d_tty_sessions sample_daemon)" by (simp add: sample_daemon_def hm_wf_def)
  note life = pam_session_lifetime [OF login(1) logout(1) m, of ?fj, OF _ _ this, of "''pts/0''", OF _ _ _ _ refl refl]
  have "get_session_tty sample_handle = ''pts/0''" by (simp add: get_session_tty_def sample_handle_def n)
  with life show ?thesis by (intro exI [of _ login] exI [of _ logout]) (simp add: Let_def sample_handle_def)
qed

end
