(* ===== verification/Start_Up.thy ===== *)
theory Start_Up
  imports Complex_Main Admin_Facts Netlink
begin

text \<open>
  \<open>main.rs\<close> and what it starts from: the boot sequence up to the first state of the daemon, the
  monitor that ends the drain mode, and the status queries, with the socket metrics they share
  (\<open>netlink.rs\<close>). Percentages are rationals here; parsing a floating-point number and printing
  JSON are parameters.
\<close>

section \<open>Socket metrics\<close>

record socket_metrics =
  nm_usage_pct :: rat
  nm_drops :: u64

definition no_metrics :: socket_metrics where
  "no_metrics = \<lparr>nm_usage_pct = 0, nm_drops = 0\<rparr>"

definition NETLINK_EFFECTIVE_RCVBUF_BYTES :: rat where
  "NETLINK_EFFECTIVE_RCVBUF_BYTES = 32 * 1024 * 1024"

text \<open>One line of \<open>/proc/net/netlink\<close>: the row of our own Generic Netlink port.\<close>

definition metrics_of_line ::
  "(string \<Rightarrow> rat option) \<Rightarrow> u32 \<Rightarrow> string \<Rightarrow> socket_metrics option" where
  "metrics_of_line parse_f64 portid l =
     (let fields = split_whitespace l
      in if length fields < 9 \<or> fields ! 0 = ''sk'' then None
         else
           (let eth = fields ! 1;
                portid_val = (case parse_u32 (fields ! 2) of Some v \<Rightarrow> v | None \<Rightarrow> 0)
            in if eth = ''16'' \<and> portid_val = portid then
                 (let rmem = (case parse_f64 (fields ! 4) of Some x \<Rightarrow> x | None \<Rightarrow> 0);
                      drops = (case parse_u64 (fields ! 8) of Some v \<Rightarrow> v | None \<Rightarrow> 0)
                  in Some \<lparr>nm_usage_pct = min (rmem / NETLINK_EFFECTIVE_RCVBUF_BYTES * 100) 100,
                           nm_drops = drops\<rparr>)
               else None))"

fun first_metrics ::
  "(string \<Rightarrow> rat option) \<Rightarrow> u32 \<Rightarrow> string list \<Rightarrow> socket_metrics" where
  "first_metrics parse_f64 portid [] = no_metrics"
| "first_metrics parse_f64 portid (l # ls) =
     (case metrics_of_line parse_f64 portid l of
        Some m \<Rightarrow> m | None \<Rightarrow> first_metrics parse_f64 portid ls)"

definition get_netlink_socket_metrics ::
  "(string \<Rightarrow> rat option) \<Rightarrow> u32 \<Rightarrow> string list option \<Rightarrow> socket_metrics" where
  "get_netlink_socket_metrics parse_f64 portid file =
     (if portid = 0 then no_metrics
      else case file of None \<Rightarrow> no_metrics | Some ls \<Rightarrow> first_metrics parse_f64 portid ls)"

section \<open>Status\<close>

text \<open>The queue lengths and the receive rate are constants in the code and left out.\<close>

record teal_status =
  ts_is_enforce :: bool
  ts_is_flushed :: bool
  ts_current_epoch :: u32
  ts_metrics :: socket_metrics
  ts_pending_requests_len :: nat
  ts_is_storming :: bool

text \<open>The difference to the last call, and the new value of \<open>PREV_DROPS\<close>.\<close>

definition record_drops_and_calc_delta :: "u64 \<Rightarrow> u64 \<Rightarrow> u64 \<times> u64" where
  "record_drops_and_calc_delta current_drops prev = (saturating_sub current_drops prev, current_drops)"

definition handle_status :: "socket_metrics \<Rightarrow> daemon \<Rightarrow> u64 \<Rightarrow> teal_status \<times> u64" where
  "handle_status m d prev =
     (let (drops_delta, prev') = record_drops_and_calc_delta (nm_drops m) prev
      in (\<lparr>ts_is_enforce = (d_mode d = Enforce), ts_is_flushed = d_is_flushed d,
           ts_current_epoch = d_epoch d, ts_metrics = m,
           ts_pending_requests_len = length (d_pending d),
           ts_is_storming = (nm_usage_pct m > 50 \<or> drops_delta > 0)\<rparr>, prev'))"

definition handle_netlink_status :: "socket_metrics \<Rightarrow> u64 \<Rightarrow> socket_metrics \<times> u64" where
  "handle_netlink_status m prev = (m, snd (record_drops_and_calc_delta (nm_drops m) prev))"

section \<open>Boot\<close>

text \<open>The wait for the acknowledgement of the sending socket; \<open>None\<close> while it has not come.\<close>

datatype tx_reply = TxAck u32 | TxError u32 string | TxOther u32 | TxClosed | TxRecvError string

fun await_tx_register :: "u32 \<Rightarrow> tx_reply list \<Rightarrow> (string + unit) option" where
  "await_tx_register seq [] = None"
| "await_tx_register seq (r # rs) =
     (case r of
        TxRecvError e \<Rightarrow> Some (Inl e)
      | TxClosed \<Rightarrow> Some (Inl ''TX REGISTER socket closed'')
      | TxAck s \<Rightarrow> if s \<noteq> seq then await_tx_register seq rs else Some (Inr ())
      | TxError s e \<Rightarrow>
          if s \<noteq> seq then await_tx_register seq rs else Some (Inl (''TX REGISTER failed: '' @ e))
      | TxOther s \<Rightarrow> await_tx_register seq rs)"

text \<open>
  The two registrations of \<open>init_socket\<close>. The first sequence number is 1000. The result is the
  epoch the kernel proposes.
\<close>

definition init_socket ::
  "endian \<Rightarrow> delivery list \<Rightarrow> u32 \<Rightarrow> tx_reply list \<Rightarrow> (string + u32) option" where
  "init_socket e rx rx_portid tx =
     (case await_register e rx of
        None \<Rightarrow> None
      | Some (Inl err) \<Rightarrow> Some (Inl err)
      | Some (Inr next_epoch) \<Rightarrow>
          (if rx_portid = 0 then Some (Inl ''Netlink PortID missing'')
           else case await_tx_register 1000 tx of
               None \<Rightarrow> None
             | Some (Inl err) \<Rightarrow> Some (Inl err)
             | Some (Inr _) \<Rightarrow> Some (Inr next_epoch)))"

text \<open>\<open>init_state\<close> and the initial values of the other globals; the mode switch is already queued.\<close>

definition init_state :: "policy_snapshot \<Rightarrow> compiled_management \<Rightarrow> daemon" where
  "init_state snapshot mgmt =
     \<lparr>d_snapshot = snapshot, d_management = mgmt, d_ticket_seq = 1, d_active = [], d_mode = Drain,
      d_drafts = [], d_approved = [], d_pending = [], d_registered_keys = [], d_pending_ctl = None,
      d_tty_sessions = [], d_is_flushed = False, d_transition = False, d_channel_open = True,
      d_queue = [NsModeSwitch 0], d_events = []\<rparr>"

definition MANAGEMENT_PATH :: path where
  "MANAGEMENT_PATH = ''/etc/teal.d/management.json''"

text \<open>What follows the registration: publish the policy, load the management file, synchronise.\<close>

definition publish_policy :: "adm \<Rightarrow> compiled_bundle \<Rightarrow> u32 \<Rightarrow> string + daemon" where
  "publish_policy ax compiled next_epoch =
     (if next_epoch = 0 then Inl ''REGISTER did not return a valid Epoch''
      else
        bindR (init_bundle_at_epoch compiled next_epoch None) (\<lambda>snapshot.
        bindR (map_err (ax_show_error ax)
                 (prepare_management (bd_loader (ax_loader ax)) MANAGEMENT_PATH (cb_roles compiled)))
          (\<lambda>(mgmt, _).
             let (r, d) = send_sync_epoch ax next_epoch (init_state snapshot mgmt)
             in bindR (map_err (\<lambda>_. ''Kernel POLICY_UPDATE ACK failed for Epoch '' @ show_u32 next_epoch) r)
                  (\<lambda>_. if d_epoch d \<noteq> next_epoch then Inl ''PolicySnapshot Epoch mismatch after kernel ACK''
                       else Inr d))))"

definition boot ::
  "endian \<Rightarrow> adm \<Rightarrow> delivery list \<Rightarrow> u32 \<Rightarrow> tx_reply list \<Rightarrow> (string + daemon) option" where
  "boot e ax rx rx_portid tx =
     (case load_bundle_from_dir (ax_platform ax) (ax_loader ax) DEFAULT_TEAL_DIR of
        Inl _ \<Rightarrow> Some (Inl ''Failed to load and compile TEAL bundle'')
      | Inr compiled \<Rightarrow>
          (case init_socket e rx rx_portid tx of
             None \<Rightarrow> None
           | Some (Inl _) \<Rightarrow> Some (Inl ''Failed to initialize Netlink socket'')
           | Some (Inr next_epoch) \<Rightarrow> Some (publish_policy ax compiled next_epoch)))"

section \<open>The end of the drain mode\<close>

text \<open>Three consecutive polls with little in the buffer and no new drops end the drain mode.\<close>

definition quiet :: "u64 \<Rightarrow> socket_metrics \<Rightarrow> bool" where
  "quiet prev_drops m \<longleftrightarrow> nm_usage_pct m < 5 \<and> saturating_sub (nm_drops m) prev_drops = 0"

text \<open>The number of polls after which the monitor switches the mode.\<close>

fun monitor_loop :: "u64 \<Rightarrow> u32 \<Rightarrow> socket_metrics list \<Rightarrow> nat option" where
  "monitor_loop prev_drops settled [] = None"
| "monitor_loop prev_drops settled (m # ms) =
     (if quiet prev_drops m then
        (if 3 \<le> settled + 1 then Some 1
         else map_option Suc (monitor_loop (nm_drops m) (settled + 1) ms))
      else map_option Suc (monitor_loop (nm_drops m) 0 ms))"

definition end_drain :: "daemon \<Rightarrow> daemon" where
  "end_drain d = d\<lparr>d_mode := Audit\<rparr>"

section \<open>Booting\<close>

lemma boot_Inr:
  assumes "boot e ax rx port tx = Some (Inr d)"
  shows "await_register e rx = Some (Inr (d_epoch d)) \<and> await_tx_register 1000 tx = Some (Inr ()) \<and>
    d_epoch d \<noteq> 0 \<and> ax_epoch_ack ax (d_epoch d) = Inr () \<and>
    load_bundle_from_dir (ax_platform ax) (ax_loader ax) DEFAULT_TEAL_DIR = Inr (d_bundle d) \<and>
    (\<exists>ws. prepare_management (bd_loader (ax_loader ax)) MANAGEMENT_PATH (cb_roles (d_bundle d)) =
       Inr (d_management d, ws)) \<and>
    d = (init_state (d_snapshot d) (d_management d))\<lparr>d_queue := [NsModeSwitch 0, NsSyncEpoch (d_epoch d)]\<rparr>"
  using assms
  by (auto simp: boot_def init_socket_def publish_policy_def init_bundle_at_epoch_def init_state_def
      send_sync_epoch_def enqueue_def bindR_eq_Inr map_err_eq_Inr Let_def
      split: sum.splits option.splits if_splits)

section \<open>When the drain mode ends\<close>

fun quiets :: "u64 \<Rightarrow> socket_metrics list \<Rightarrow> bool list" where
  "quiets prev [] = []"
| "quiets prev (m # ms) = quiet prev m # quiets (nm_drops m) ms"

text \<open>The length of the run of quiet polls that ends the list, started from a run of \<open>n\<close>.\<close>

fun streak :: "nat \<Rightarrow> bool list \<Rightarrow> nat" where
  "streak n [] = n"
| "streak n (q # qs) = streak (if q then Suc n else 0) qs"

lemma length_quiets [simp]: "length (quiets prev ms) = length ms"
  by (induction ms arbitrary: prev) simp_all

lemma streak_snoc: "streak n (qs @ [q]) = (if q then Suc (streak n qs) else 0)"
  by (induction qs arbitrary: n) simp_all

lemma streak_quiet: "k \<le> streak 0 qs \<longleftrightarrow> suffix (replicate k True) qs"
proof (induction qs arbitrary: k rule: rev_induct)
  case Nil
  show ?case by (cases k) simp_all
next
  case (snoc q qs)
  show ?case
  proof (cases k)
    case (Suc j)
    have "replicate (Suc j) True = replicate j True @ [True]" by (simp add: replicate_append_same)
    then have "suffix (replicate (Suc j) True) (qs @ [q]) \<longleftrightarrow> q \<and> suffix (replicate j True) qs"
      by (auto simp del: replicate_Suc)
    with snoc Suc show ?thesis by (simp add: streak_snoc)
  qed simp
qed

text \<open>The counter of the monitor is the streak, so it stops at the first streak of three.\<close>

lemma monitor_loop_streak:
  assumes "n < 3"
  shows "case monitor_loop prev (of_nat n) ms of
      Some k \<Rightarrow> k \<le> length ms \<and> 3 \<le> streak n (take k (quiets prev ms)) \<and>
        (\<forall>j < k. streak n (take j (quiets prev ms)) < 3)
    | None \<Rightarrow> \<forall>j \<le> length ms. streak n (take j (quiets prev ms)) < 3"
  using assms
proof (induction ms arbitrary: prev n)
  case (Cons m ms)
  have all_Suc: "(\<forall>j < Suc k. P j) \<longleftrightarrow> P 0 \<and> (\<forall>j < k. P (Suc j))" for k and P :: "nat \<Rightarrow> bool"
    using less_Suc_eq_0_disj by auto
  have all_Suc_le: "(\<forall>j \<le> Suc k. P j) \<longleftrightarrow> P 0 \<and> (\<forall>j \<le> k. P (Suc j))" for k and P :: "nat \<Rightarrow> bool"
    using all_Suc [of "Suc k" P] by (simp add: less_Suc_eq_le)
  have last: "3 \<le> (of_nat n :: u32) + 1 \<longleftrightarrow> n = 2"
  proof -
    from Cons.prems have "n = 0 \<or> n = 1 \<or> n = 2" by arith
    then show ?thesis by (auto simp: word_le_nat_alt)
  qed
  show ?case
  proof (cases "quiet prev m \<and> n = 2")
    case True
    then show ?thesis using last by (simp add: all_Suc)
  next
    case False
    define i where "i = (if quiet prev m then Suc n else 0)"
    from False Cons.prems have "i < 3" by (auto simp: i_def)
    moreover have "monitor_loop prev (of_nat n) (m # ms) =
        map_option Suc (monitor_loop (nm_drops m) (of_nat i) ms)"
      using False last by (auto simp: i_def add.commute)
    ultimately show ?thesis
      using Cons.IH [of i "nm_drops m"] Cons.prems
      by (auto simp: i_def [symmetric] all_Suc all_Suc_le split: option.splits)
  qed
qed simp

text \<open>
  The drain mode ends exactly after the first three quiet polls in a row: the monitor switches
  after the shortest prefix of the polls that ends with three quiet ones, and it goes on polling
  as long as there is none.
\<close>

theorem drain_ends_after_three_quiet_polls:
  "monitor_loop prev 0 ms =
     (if \<exists>k. suffix [True, True, True] (take k (quiets prev ms))
      then Some (LEAST k. suffix [True, True, True] (take k (quiets prev ms))) else None)"
proof -
  have three: "suffix [True, True, True] qs \<longleftrightarrow> 3 \<le> streak 0 qs" for qs
    by (simp add: streak_quiet numeral_3_eq_3)
  have spec: "case monitor_loop prev 0 ms of
      Some k \<Rightarrow> 3 \<le> streak 0 (take k (quiets prev ms)) \<and>
        (\<forall>j < k. \<not> 3 \<le> streak 0 (take j (quiets prev ms)))
    | None \<Rightarrow> \<forall>j \<le> length ms. \<not> 3 \<le> streak 0 (take j (quiets prev ms))"
    using monitor_loop_streak [where n = 0 and prev = prev and ms = ms] by (auto split: option.splits simp: not_le)
  show ?thesis
  proof (cases "monitor_loop prev 0 ms")
    case None
    have "\<not> 3 \<le> streak 0 (take j (quiets prev ms))" for j
      using spec None by (cases "j \<le> length ms") (auto simp: take_all [of "quiets prev ms" j])
    with None show ?thesis by (simp add: three)
  next
    case (Some k)
    with spec have "(LEAST k. 3 \<le> streak 0 (take k (quiets prev ms))) = k"
      by (intro Least_equality) (auto simp: not_less [symmetric])
    with spec Some show ?thesis by (auto simp: three)
  qed
qed

text \<open>
  C40. Enforcement that is started while the daemon still drains is undone by half. The monitor
  sets the audit mode without looking at the mode, so after \<open>START\<close> the kernel has been told to
  enforce while the daemon takes itself for auditing: requests that people approve from then on
  are never answered, and approved drafts are dropped.
\<close>

theorem start_undone_by_monitor:
  assumes "execute_start ax d = (MrOk n, d1)"
  shows "filter (\<lambda>m. case m of NsModeSwitch _ \<Rightarrow> True | _ \<Rightarrow> False) (d_queue (end_drain d1)) =
      filter (\<lambda>m. case m of NsModeSwitch _ \<Rightarrow> True | _ \<Rightarrow> False) (d_queue d) @ [NsModeSwitch 1] \<and>
    d_mode (end_drain d1) = Audit \<and>
    (\<forall>d2. d_mode d2 = d_mode (end_drain d1) \<longrightarrow>
       d_queue (snd (finalize_entry_approval w args d2)) = d_queue d2 \<and>
       fst (finalize_draft_approval w i d2) = None)"
proof -
  have mode: "filter (\<lambda>m. case m of NsModeSwitch _ \<Rightarrow> True | _ \<Rightarrow> False)
      (map NsDeny is @ map NsTicketAdd ts) = []" for "is" ts
    by (auto simp: filter_empty_conv)
  have entry: "d_queue (snd (finalize_entry_approval w args d2)) = d_queue d2" if "d_mode d2 = Audit" for d2
  proof (cases "hm_get (d_pending d2) (case parse_u64 (sa_id args) of Some v \<Rightarrow> v | None \<Rightarrow> 0)")
    case None
    with that show ?thesis by (simp add: finalize_entry_approval_def send_entry_approval_def Let_def)
  next
    case (Some e)
    let ?d = "d2\<lparr>d_pending := hm_remove (case parse_u64 (sa_id args) of Some v \<Rightarrow> v | None \<Rightarrow> 0) (d_pending d2)\<rparr>"
    obtain c p t d3 where co: "cache_outcome e ?d = ((c, p, t), d3)" by (cases "cache_outcome e ?d") auto
    from cache_outcome_frame [OF co] that Some co show ?thesis
      by (auto simp: finalize_entry_approval_def send_entry_approval_def Let_def)
  qed
  have draft: "fst (finalize_draft_approval w i d2) = None" if "d_mode d2 = Audit" for d2
    using that by (auto simp: finalize_draft_approval_def take_draft_def draft_to_ticket_def split: option.splits)
  from assms show ?thesis
  proof (cases rule: start_cases)
    case (committed ts)
    then show ?thesis using mode entry draft by (simp add: end_drain_def started_def)
  qed simp
qed

end
