(* ===== verification/System.thy ===== *)
theory System
  imports Admin_Props Audit_Facts Pam_Session Start_Up
begin

text \<open>
  The whole daemon as a transition system. A step is one request decided by the enforcement lane,
  one connection to the management socket, one message of the audit lane, one report of the PAM
  module, the preloading of tickets at the start or the end of the drain mode; the worker of each lane is one thread, and a handler is taken as one step. What the
  separately locked phases of two handlers can do to each other is in \<open>Admin_Props\<close>. The invariant
  ties everything that was granted or is waiting to the policy in force.
\<close>

section \<open>Steps\<close>

inductive daemon_step :: "daemon \<Rightarrow> daemon \<Rightarrow> bool" where
  decide: "daemon_step d (decision_worker_step w n d)"
| administer: "handle_admin_connection ax peer input d = (Some text, d') \<Longrightarrow> daemon_step d d'"
| audit: "audit_worker_step le i d = (es, d') \<Longrightarrow> daemon_step d d'"
| login: "daemon_step d (handle_pam_connection from_json peer_uid stream d)"
| preload: "daemon_step d (preload_silent_directory_tickets w d)"
| settled: "daemon_step d (end_drain d)"

text \<open>The daemon as it starts: a policy, a management configuration, no grants and no verdicts.\<close>

definition fresh :: "daemon \<Rightarrow> bool" where
  "fresh d \<longleftrightarrow> d_drafts d = [] \<and> d_approved d = [] \<and> d_pending d = [] \<and> d_pending_ctl d = None \<and>
     d_active d = [] \<and> d_channel_open d \<and> \<not> d_transition d \<and> d_events d = [] \<and>
     (\<forall>i. NsApprove i \<notin> set (d_queue d) \<and> NsDeny i \<notin> set (d_queue d))"

inductive reachable :: "daemon \<Rightarrow> bool" where
  start: "fresh d \<Longrightarrow> reachable d"
| step: "reachable d \<Longrightarrow> daemon_step d d' \<Longrightarrow> reachable d'"

inductive_cases daemon_stepE: "daemon_step d d'"

section \<open>The invariant\<close>

text \<open>Every vote was given by somebody who holds, under the policy in force, a required role.\<close>

definition votes_ok :: "daemon \<Rightarrow> mpa_state \<Rightarrow> bool" where
  "votes_ok d m \<longleftrightarrow> mpa_wf m \<and>
     (\<forall>u a. hm_get (mp_approvals m) u = Some a \<longrightarrow>
        aa_roles a \<noteq> [] \<and> set (aa_roles a) \<subseteq> set (uid_roles_of d u) \<inter> set (mp_required_roles m))"

definition approved_ok :: "daemon \<Rightarrow> bool" where
  "approved_ok d \<longleftrightarrow> approved_wf d \<and> (\<forall>k t. hm_get (d_approved d) k = Some t \<longrightarrow> at_epoch t = d_epoch d)"

definition drafts_ok :: "daemon \<Rightarrow> bool" where
  "drafts_ok d \<longleftrightarrow> hm_wf (d_drafts d) \<and>
     (\<forall>k dr. hm_get (d_drafts d) k = Some dr \<longrightarrow> dr_draft_id dr = k \<and> dr_epoch dr = d_epoch d)"

definition entry_backed :: "daemon \<Rightarrow> pending_entry \<Rightarrow> bool" where
  "entry_backed d e \<longleftrightarrow> pe_policy_epoch e = d_epoch d \<and> votes_ok d (pe_mpa_state e) \<and>
     (\<exists>r \<in> set (cp_rules (cb_policy (d_bundle d))). cr_effect r = NeedApproval \<and>
        pe_rule_id e = Some (cr_id r) \<and> mp_threshold (pe_mpa_state e) = rule_threshold r \<and>
        mp_required_roles (pe_mpa_state e) = approver_roles r)"

definition pending_ok :: "daemon \<Rightarrow> bool" where
  "pending_ok d \<longleftrightarrow> hm_wf (d_pending d) \<and>
     (\<forall>i e. hm_get (d_pending d) i = Some e \<longrightarrow> entry_backed d e)"

definition ctl_backed :: "daemon \<Rightarrow> mgmt_pending_ctl \<Rightarrow> bool" where
  "ctl_backed d c \<longleftrightarrow> pc_epoch c = d_epoch d \<and> votes_ok d (pc_mpa_state c) \<and>
     (\<exists>ctl mpa. control_of (d_management d) (pc_kind c) = Some ctl \<and>
        pc_initiator_uid c \<in> set (mc_initiator_uids ctl) \<and> mc_mpa ctl = MpaEnabled mpa \<and>
        mp_threshold (pc_mpa_state c) = mme_threshold mpa \<and>
        mp_required_roles (pc_mpa_state c) = mme_approver_roles mpa)"

definition ctl_ok :: "daemon \<Rightarrow> bool" where
  "ctl_ok d \<longleftrightarrow> (\<forall>c. d_pending_ctl d = Some c \<longrightarrow> ctl_backed d c)"

definition daemon_inv :: "daemon \<Rightarrow> bool" where
  "daemon_inv d \<longleftrightarrow> d_channel_open d \<and> \<not> d_transition d \<and>
     approved_ok d \<and> drafts_ok d \<and> pending_ok d \<and> ctl_ok d"

lemmas inv_defs = daemon_inv_def approved_ok_def approved_wf_def drafts_ok_def pending_ok_def ctl_ok_def

lemma daemon_inv_lane: "daemon_inv d \<Longrightarrow> lane_open d"
  by (simp add: daemon_inv_def lane_open_def approved_ok_def)

text \<open>The fields the invariant looks at.\<close>

definition inv_fields where
  "inv_fields d = (d_snapshot d, d_management d, d_drafts d, d_pending d, d_approved d,
     d_pending_ctl d, d_transition d, d_channel_open d)"

lemma backed_cong:
  assumes "d_snapshot d' = d_snapshot d" and "d_management d' = d_management d"
  shows "votes_ok d' m = votes_ok d m" "entry_backed d' e = entry_backed d e"
    "ctl_backed d' c = ctl_backed d c"
proof -
  have u: "uid_roles_of d' u = uid_roles_of d u" for u using assms by (simp add: uid_roles_of_def)
  then show v: "votes_ok d' m = votes_ok d m" for m by (simp add: votes_ok_def)
  show "entry_backed d' e = entry_backed d e" "ctl_backed d' c = ctl_backed d c"
    using assms by (simp_all add: entry_backed_def ctl_backed_def v)
qed

lemma daemon_inv_cong:
  assumes "inv_fields d' = inv_fields d"
  shows "daemon_inv d' = daemon_inv d"
proof -
  from assms have s: "d_snapshot d' = d_snapshot d" "d_management d' = d_management d"
    "d_drafts d' = d_drafts d" "d_pending d' = d_pending d" "d_approved d' = d_approved d"
    "d_pending_ctl d' = d_pending_ctl d" "d_transition d' = d_transition d"
    "d_channel_open d' = d_channel_open d"
    by (simp_all add: inv_fields_def)
  show ?thesis unfolding inv_defs backed_cong [OF s(1,2)] s ..
qed

lemma daemon_inv_same: "daemon_inv d \<Longrightarrow> inv_fields d' = inv_fields d \<Longrightarrow> daemon_inv d'"
  using daemon_inv_cong by blast

text \<open>A change of one part under the same policy keeps the other parts.\<close>

lemma daemon_inv_part:
  assumes "daemon_inv d" and "d_snapshot d' = d_snapshot d" and "d_management d' = d_management d"
    and "d_transition d' = d_transition d" and "d_channel_open d' = d_channel_open d"
    and "d_drafts d' = d_drafts d \<or> drafts_ok d'" and "d_pending d' = d_pending d \<or> pending_ok d'"
    and "d_approved d' = d_approved d \<or> approved_ok d'"
    and "d_pending_ctl d' = d_pending_ctl d \<or> ctl_ok d'"
  shows "daemon_inv d'"
proof -
  note c = backed_cong [OF assms(2,3)]
  have "drafts_ok d'" using assms(1,2,6) by (auto simp: inv_defs)
  moreover have "pending_ok d'" using assms(1,2,7) c by (auto simp: inv_defs)
  moreover have "approved_ok d'" using assms(1,2,8) by (auto simp: inv_defs)
  moreover have "ctl_ok d'" using assms(1,2,9) c by (auto simp: inv_defs)
  ultimately show ?thesis using assms(1,4,5) by (simp add: daemon_inv_def)
qed

lemma empty_ok:
  "d_drafts d = [] \<Longrightarrow> drafts_ok d" "d_pending d = [] \<Longrightarrow> pending_ok d"
  "d_approved d = [] \<Longrightarrow> approved_ok d" "d_pending_ctl d = None \<Longrightarrow> ctl_ok d"
  by (simp_all add: inv_defs)

lemma fresh_inv: "fresh d \<Longrightarrow> daemon_inv d"
  by (simp add: fresh_def daemon_inv_def empty_ok)

section \<open>Votes\<close>

lemma votes_ok_start: "mp_approvals m = [] \<Longrightarrow> votes_ok d m"
  by (simp add: votes_ok_def mpa_wf_def)

lemma votes_ok_insert:
  assumes "insert_approver w d args e m = Inr m'" and "votes_ok d m"
  shows "votes_ok d m'" "mp_threshold m' = mp_threshold m" "mp_required_roles m' = mp_required_roles m"
    "d_epoch d = e"
proof -
  note i = insert_approver_Inr [OF assms(1)]
  show "mp_threshold m' = mp_threshold m" "mp_required_roles m' = mp_required_roles m" "d_epoch d = e"
    using i by simp_all
  from i(5) obtain a where a: "hm_get (mp_approvals m') = (hm_get (mp_approvals m))(sa_uid args \<mapsto> a)"
    "set (aa_roles a) = set (mp_required_roles m) \<inter> set (uid_roles_of d (sa_uid args))" "aa_roles a \<noteq> []"
    by blast
  with assms(2) i(3,6) show "votes_ok d m'" by (auto simp: votes_ok_def split: if_splits)
qed

text \<open>A completed vote is a crowd: as many people as the threshold, each with a required role.\<close>

definition people_agree :: "daemon \<Rightarrow> u32 \<Rightarrow> string hset \<Rightarrow> u32 set \<Rightarrow> bool" where
  "people_agree d threshold roles us \<longleftrightarrow> finite us \<and> unat threshold \<le> card us \<and>
     (\<forall>u \<in> us. set (uid_roles_of d u) \<inter> set roles \<noteq> {}) \<and>
     (\<forall>r \<in> set roles. \<exists>u \<in> us. r \<in> set (uid_roles_of d u))"

lemma fulfilled_people:
  assumes "votes_ok d m" and "is_fulfilled m"
  shows "people_agree d (mp_threshold m) (mp_required_roles m) (voters m)"
proof -
  have wf: "mpa_wf m" using assms(1) by (simp add: votes_ok_def)
  have "finite (voters m)" by (simp add: voters_def flip: set_hm_keys)
  moreover have "unat (mp_threshold m) \<le> card (voters m)"
    using assms(2) length_approvals [OF wf] by (simp add: is_fulfilled_def split: if_splits)
  moreover have "set (uid_roles_of d u) \<inter> set (mp_required_roles m) \<noteq> {}" if u: "u \<in> voters m" for u
  proof -
    from u obtain a where "hm_get (mp_approvals m) u = Some a" by (auto simp: voters_def)
    with assms(1) have "aa_roles a \<noteq> []" "set (aa_roles a) \<subseteq> set (uid_roles_of d u) \<inter> set (mp_required_roles m)"
      by (auto simp: votes_ok_def)
    then show ?thesis by (cases "aa_roles a") auto
  qed
  moreover have "\<exists>u \<in> voters m. r \<in> set (uid_roles_of d u)" if r: "r \<in> set (mp_required_roles m)" for r
  proof -
    from assms(2) r obtain a where "a \<in> set (hm_values (mp_approvals m))" "r \<in> set (aa_roles a)"
      by (auto simp: is_fulfilled_def split: if_splits)
    moreover from wf have "hm_wf (mp_approvals m)" by (simp add: mpa_wf_def)
    ultimately obtain u where "hm_get (mp_approvals m) u = Some a" "r \<in> set (aa_roles a)"
      by (auto simp: hm_values_iff)
    with assms(1) show ?thesis by (auto simp: votes_ok_def voters_def)
  qed
  ultimately show ?thesis by (simp add: people_agree_def)
qed

section \<open>The lanes\<close>

lemma from_base_req_simps [simp]:
  "pe_policy_epoch (entry_from_rule w r req e) = e" "pe_rule_id (entry_from_rule w r req e) = Some (cr_id r)"
  "pe_mpa_state (entry_from_rule w r req e) = mpa_state_for_rule r"
  by (simp_all add: entry_from_rule_def from_base_req_def)

lemma entry_backed_new:
  "r \<in> set (cp_rules (cb_policy (d_bundle d))) \<Longrightarrow> cr_effect r = NeedApproval \<Longrightarrow>
   entry_backed d (entry_from_rule w r req (d_epoch d))"
  by (auto simp: entry_backed_def mpa_state_for_rule_def intro: votes_ok_start)

lemma approved_ok_remove:
  assumes "approved_ok d" and "d_approved d' = hm_remove k (d_approved d)" and "d_epoch d' = d_epoch d"
  shows "approved_ok d'"
  using assms approved_wf_remove [of d d' k] by (auto simp: approved_ok_def approved_wf_def split: if_splits)

lemma decision_step_inv:
  assumes inv: "daemon_inv d"
  shows "daemon_inv (decision_worker_step w n d)"
proof -
  from inv have ch: "d_channel_open d" and tr: "\<not> d_transition d" and wf: "approved_wf d"
    by (simp_all add: daemon_inv_def approved_ok_def)
  show ?thesis
  proof (cases "worker_evaluate w n d")
    case Pass
    from step_not_managed [OF this ch tr] show ?thesis
      by (elim exE conjE) (rule daemon_inv_same [OF inv], simp add: inv_fields_def)
  next
    case NoMatchManaged
    from step_no_match [OF this ch] show ?thesis by (intro daemon_inv_same [OF inv]) (simp add: inv_fields_def)
  next
    case (Matched r)
    then have r: "r \<in> set (cp_rules (cb_policy (d_bundle d)))"
      using matched_in_rules by (auto simp: worker_evaluate_def)
    show ?thesis
    proof (cases "cr_effect r")
      case Deny
      from step_deny [OF Matched this ch] show ?thesis by (intro daemon_inv_same [OF inv]) (simp add: inv_fields_def)
    next
      case AuditOnly
      from step_audit_only [OF Matched this ch] show ?thesis
        by (intro daemon_inv_same [OF inv]) (simp add: inv_fields_def)
    next
      case Allow
      show ?thesis
      proof (cases "cpa_ttl_sec (cr_pre_approval r) = 0")
        case True
        from step_allow_plain [OF Matched Allow ch this] show ?thesis
          by (intro daemon_inv_same [OF inv]) (simp add: inv_fields_def)
      next
        case False
        then have "cpa_ttl_sec (cr_pre_approval r) > 0" by (simp add: word_gt_0)
        from step_allow_ticket [OF Matched Allow ch tr this] show ?thesis
          by (elim exE) (rule daemon_inv_same [OF inv], simp add: inv_fields_def)
      qed
    next
      case NeedApproval
      show ?thesis
      proof (cases "has_approved d (cr_id r)")
        case False
        let ?d' = "decision_worker_step w n d"
        have "entry_backed d (entry_from_rule w r (hashed_request w r n) (d_epoch d))"
          using r NeedApproval by (rule entry_backed_new)
        then have "pending_ok ?d'"
          using inv backed_cong [of ?d' d] by (auto simp: step_need_pending [OF Matched NeedApproval ch False] inv_defs)
        then show ?thesis
          by (intro daemon_inv_part [OF inv])
            (simp_all add: step_need_pending [OF Matched NeedApproval ch False])
      next
        case True
        let ?d' = "decision_worker_step w n d"
        from step_need_approved [OF Matched NeedApproval ch tr wf True] obtain t p where
          st: "?d' = d\<lparr>d_approved := hm_remove (at_ticket_id t) (d_approved d),
            d_active := hm_insert (at_ticket_id t) (hydrate_approved (hashed_request w r n) t)
              (hm_insert (at_ticket_id t) t (d_active d)),
            d_queue := d_queue d @ [NsApprove (tr_trans_id n), NsTicketAdd p],
            d_events := d_events d @ [IeResolved n (hashed_request w r n)
              (PdApproved (hydrate_approved (hashed_request w r n) t)) (Some (cr_id r))
              (Some (tk_ticket_id p)) (d_epoch d)]\<rparr>" by blast
        have k: "d_approved ?d' = hm_remove (at_ticket_id t) (d_approved d)" and
            f: "d_snapshot ?d' = d_snapshot d" "d_management ?d' = d_management d"
              "d_transition ?d' = d_transition d" "d_channel_open ?d' = d_channel_open d"
              "d_drafts ?d' = d_drafts d" "d_pending ?d' = d_pending d" "d_pending_ctl ?d' = d_pending_ctl d"
          unfolding st by simp_all
        have "approved_ok d" using inv by (simp add: daemon_inv_def)
        then have "approved_ok ?d'" by (rule approved_ok_remove [OF _ k]) (simp add: f(1))
        with f show ?thesis by (intro daemon_inv_part [OF inv]) simp_all
      qed
    qed
  qed
qed

lemma audit_step_inv:
  assumes "audit_worker_step le i d = (es, d')" and "daemon_inv d"
  shows "daemon_inv d'"
proof -
  from audit_worker_step_effect [OF assms(1)] have "inv_fields d' = inv_fields d"
    by (auto simp: lane_effect_def inv_fields_def)
  with assms(2) show ?thesis by (rule daemon_inv_same)
qed

lemma pam_step_inv:
  assumes "daemon_inv d"
  shows "daemon_inv (handle_pam_connection from_json u stream d)"
proof -
  have "inv_fields (handle_pam_connection from_json u stream d) = inv_fields d"
    by (auto simp: handle_pam_connection_def process_pam_event_def Let_def inv_fields_def
        split: option.splits sum.splits)
  with assms show ?thesis by (rule daemon_inv_same)
qed

section \<open>The management socket\<close>

text \<open>States in which nothing granted or waiting is left satisfy the invariant trivially.\<close>

lemma cleared_inv:
  assumes "daemon_inv d" and "d_drafts d' = []" and "d_pending d' = []" and "d_pending_ctl d' = None"
    and "d_transition d' = d_transition d" and "d_channel_open d' = d_channel_open d"
    and "d_approved d' = [] \<or> d_approved d' = d_approved d \<and> d_snapshot d' = d_snapshot d"
  shows "daemon_inv d'"
  using assms by (auto simp: inv_defs hm_wf_def)

lemma mgmt_core_inv:
  assumes "execute_mgmt_ctl_core ax kind h e d = (r, d')" and "r \<noteq> MrExit" and inv: "daemon_inv d"
  shows "daemon_inv d'"
proof (cases "d_epoch d = e")
  case False
  with assms(1) inv show ?thesis by (simp add: execute_mgmt_ctl_core_def)
next
  case True
  from inv have tr: "\<not> d_transition d" by (simp add: daemon_inv_def)
  show ?thesis
  proof (cases kind)
    case CtlStart
    with assms(1) True have "execute_start ax d = (r, d')" by (simp add: execute_mgmt_ctl_core_def)
    then show ?thesis
      by (cases rule: start_cases) (simp_all add: inv cleared_inv [OF inv] started_def)
  next
    case CtlStop
    with assms(1) True have "execute_stop d = (r, d')" by (simp add: execute_mgmt_ctl_core_def)
    then show ?thesis
      by (cases rule: stop_cases) (simp_all add: inv cleared_inv [OF inv] stopped_def)
  next
    case CtlPolicyUpdate
    with assms(1) True obtain dir where "execute_policy_update ax h d = (r, dir, d')"
      by (auto simp: execute_mgmt_ctl_core_def split: prod.splits)
    from this tr show ?thesis
      by (cases rule: policy_update_cases)
        (use assms(2) in \<open>simp_all add: inv cleared_inv [OF inv] updated_def\<close>)
  next
    case CtlFlush
    with assms(1) True have "execute_flush ax d = (r, d')" by (simp add: execute_mgmt_ctl_core_def)
    from this tr show ?thesis
      by (cases rule: flush_cases)
        (use assms(2) in \<open>simp_all add: inv cleared_inv [OF inv] flushed_def\<close>)
  qed
qed

lemma check_initiator_inv:
  assumes "check_initiator_and_handle ax kind (d_management d) uid h d = (Reply t ev, d')"
    and inv: "daemon_inv d"
  shows "daemon_inv d'"
proof (cases "d' = d")
  case False
  with assms(1) obtain c where c: "control_of (d_management d) kind = Some c" "uid \<in> set (mc_initiator_uids c)"
    and h: "handle_mgmt_cmd ax kind (d_management d) uid h d = (Reply t ev, d')"
    by (auto simp: check_initiator_and_handle_def split: option.splits if_splits)
  show ?thesis
  proof (cases "mc_mpa c")
    case MpaDisabled
    with h c have e: "execute_mgmt_ctl ax kind uid h d = (Reply t ev, d')" by (simp add: handle_mgmt_cmd_def)
    obtain q d1 where q: "execute_mgmt_ctl_core ax kind h (d_epoch d) d = (q, d1)" by fastforce
    with e have "d' = d1 \<and> q \<noteq> MrExit" by (auto simp: execute_mgmt_ctl_def split: mgmt_result.splits)
    with mgmt_core_inv [OF q _ inv] show ?thesis by simp
  next
    case (MpaEnabled mpa)
    with h c have "create_mgmt_pending ax kind uid h mpa d = (Reply t ev, d')" by (simp add: handle_mgmt_cmd_def)
    with False obtain p where p: "d' = d\<lparr>d_pending_ctl := Some p\<rparr>" and
      f: "pc_epoch p = d_epoch d" "pc_kind p = kind" "pc_initiator_uid p = uid"
        "mp_threshold (pc_mpa_state p) = mme_threshold mpa"
        "mp_required_roles (pc_mpa_state p) = mme_approver_roles mpa" "mp_approvals (pc_mpa_state p) = []"
      by (auto simp: create_mgmt_pending_def split: option.splits)
    have "ctl_backed d p" using c MpaEnabled f votes_ok_start by (auto simp: ctl_backed_def)
    then have "ctl_ok d'" using backed_cong [of d' d] p by (simp add: ctl_ok_def)
    then show ?thesis by (intro daemon_inv_part [OF inv]) (simp_all add: p)
  qed
qed (simp add: inv)

lemma record_approval_inv:
  assumes "record_approval w args d = Inr (ar, d1)" and inv: "daemon_inv d"
  shows "daemon_inv d1"
  using assms(1)
proof (cases rule: record_approval_Inr)
  case (ctl c)
  from process_approve_ctl_Inr [OF ctl(1)] obtain p m where
    p: "d_pending_ctl d = Some p" "insert_approver w d args (pc_epoch p) (pc_mpa_state p) = Inr m"
    and d1: "d1 = d\<lparr>d_pending_ctl := None\<rparr> \<or> d1 = d\<lparr>d_pending_ctl := Some (p\<lparr>pc_mpa_state := m\<rparr>)\<rparr>"
    by (auto split: if_splits)
  have b: "ctl_backed d p" using inv p(1) by (simp add: inv_defs)
  then have "votes_ok d (pc_mpa_state p)" by (simp add: ctl_backed_def)
  from votes_ok_insert [OF p(2) this] b have "ctl_backed d (p\<lparr>pc_mpa_state := m\<rparr>)"
    by (auto simp: ctl_backed_def)
  with d1 have "ctl_ok d1" using backed_cong [of d1 d] by (auto simp: ctl_ok_def)
  with d1 show ?thesis by (intro daemon_inv_part [OF inv]) auto
next
  case (draft full)
  from process_approve_draft_Inr [OF draft(1)] obtain p m where
    p: "hm_get (d_drafts d) (sa_id args) = Some p" and
    d1: "d1 = d\<lparr>d_drafts := hm_insert (sa_id args) (p\<lparr>dr_mpa_state := m\<rparr>) (d_drafts d)\<rparr>" by blast
  have "drafts_ok d1" using inv p d1 by (auto simp: inv_defs)
  with d1 show ?thesis by (intro daemon_inv_part [OF inv]) simp_all
next
  case (entry full)
  from process_approve_entry_Inr [OF entry(1)] obtain i p m where
    p: "hm_get (d_pending d) i = Some p"
      "insert_approver w d args (pe_policy_epoch p) (pe_mpa_state p) = Inr m" and
    d1: "d1 = d\<lparr>d_pending := hm_insert i (p\<lparr>pe_mpa_state := m\<rparr>) (d_pending d)\<rparr>" by blast
  have b: "entry_backed d p" using inv p(1) by (simp add: inv_defs)
  then have "votes_ok d (pe_mpa_state p)" by (simp add: entry_backed_def)
  from votes_ok_insert [OF p(2) this] b have "entry_backed d (p\<lparr>pe_mpa_state := m\<rparr>)"
    by (auto simp: entry_backed_def)
  with d1 inv have "pending_ok d1" using backed_cong [of d1 d] by (auto simp: inv_defs)
  with d1 show ?thesis by (intro daemon_inv_part [OF inv]) simp_all
qed

lemma drafts_ok_remove:
  assumes "drafts_ok d" and "d_drafts d' = hm_remove i (d_drafts d)" and "d_epoch d' = d_epoch d"
  shows "drafts_ok d'"
  using assms by (auto simp: drafts_ok_def split: if_splits)

lemma finalize_draft_inv:
  assumes "finalize_draft_approval w i d = (ev, d')" and inv: "daemon_inv d"
  shows "daemon_inv d'"
proof (cases "hm_get (d_drafts d) i")
  case None
  with assms(1) inv show ?thesis by (simp add: finalize_draft_approval_def take_draft_def)
next
  case (Some dr)
  let ?d1 = "d\<lparr>d_drafts := hm_remove i (d_drafts d)\<rparr>"
  have "drafts_ok ?d1" using inv by (intro drafts_ok_remove [of d ?d1 i]) (simp_all add: daemon_inv_def)
  then have i1: "daemon_inv ?d1" by (intro daemon_inv_part [OF inv]) simp_all
  show ?thesis
  proof (cases "draft_to_ticket w dr ?d1")
    case None
    with assms(1) Some i1 show ?thesis by (simp add: finalize_draft_approval_def take_draft_def)
  next
    case t: (Some v)
    obtain dr1 tk where v: "v = (dr1, tk)" by (cases v)
    with t have t: "draft_to_ticket w dr ?d1 = Some (dr1, tk)" by simp
    with assms(1) Some have d': "d' = install_approved dr1 tk ?d1"
      by (simp add: finalize_draft_approval_def take_draft_def)
    from draft_to_ticket_Some [OF t] have "approved_ok d'"
      using i1 d' by (auto simp: install_approved_def inv_defs)
    with d' show ?thesis by (intro daemon_inv_part [OF i1]) (simp_all add: install_approved_def)
  qed
qed

lemma pending_ok_remove:
  assumes "pending_ok d" and "d_pending d' = hm_remove i (d_pending d)"
    and "d_snapshot d' = d_snapshot d" and "d_management d' = d_management d"
  shows "pending_ok d'"
  using assms backed_cong [of d' d] by (auto simp: pending_ok_def split: if_splits)

lemma pending_removed_inv:
  assumes "daemon_inv d" and "inv_fields d' = inv_fields (d\<lparr>d_pending := hm_remove i (d_pending d)\<rparr>)"
  shows "daemon_inv d'"
proof -
  let ?d1 = "d\<lparr>d_pending := hm_remove i (d_pending d)\<rparr>"
  have "pending_ok ?d1" using assms(1) by (intro pending_ok_remove [of d ?d1 i]) (simp_all add: daemon_inv_def)
  then have "daemon_inv ?d1" by (intro daemon_inv_part [OF assms(1)]) simp_all
  then show ?thesis using assms(2) by (rule daemon_inv_same)
qed

lemma finalize_entry_inv:
  assumes "finalize_entry_approval w args d = (ev, d')" and "daemon_inv d"
  shows "daemon_inv d'"
proof -
  from finalize_entry_frame [OF assms(1)] obtain i seq act ms where
    "d' = d\<lparr>d_pending := hm_remove i (d_pending d), d_ticket_seq := seq, d_active := act,
      d_queue := d_queue d @ ms\<rparr>" by blast
  then show ?thesis by (intro pending_removed_inv [OF assms(2), of _ i]) (simp add: inv_fields_def)
qed

lemma process_approval_inv:
  assumes "process_approval ax args d = (Reply t ev, d')" and inv: "daemon_inv d"
  shows "daemon_inv d'"
proof (cases "record_approval (ax_world ax) args d")
  case (Inl e)
  with assms show ?thesis by (simp add: process_approval_def)
next
  case (Inr v)
  then obtain ar d1 where rec: "record_approval (ax_world ax) args d = Inr (ar, d1)" by (cases v) simp
  note i1 = record_approval_inv [OF rec inv]
  show ?thesis
  proof (cases ar)
    case ArPending
    with assms(1) rec i1 show ?thesis by (simp add: process_approval_def)
  next
    case (ArCtlReady c)
    with assms(1) rec obtain q where f: "finalize_ctl_approval ax c d1 = (q, d')" "q \<noteq> CfExit"
      by (auto simp: process_approval_def split: prod.splits ctl_final.splits)
    show ?thesis
    proof (cases "d' = d1")
      case False
      with f(1) obtain m r where "execute_mgmt_ctl_core ax (pc_kind c) (pc_target_hash c) (pc_epoch c) d1 = (r, d')"
        "r = MrExit \<longrightarrow> q = CfExit"
        by (auto simp: finalize_ctl_approval_def Let_def
            split: if_splits sum.splits prod.splits mgmt_result.splits)
      with f(2) mgmt_core_inv i1 show ?thesis by blast
    qed (simp add: i1)
  next
    case ArDraftReady
    obtain e d2 where f: "finalize_draft_approval (ax_world ax) (sa_id args) d1 = (e, d2)" by fastforce
    with assms(1) rec ArDraftReady have "d' = d2" by (auto simp: process_approval_def)
    with finalize_draft_inv [OF f i1] show ?thesis by simp
  next
    case ArEntryReady
    obtain e d2 where f: "finalize_entry_approval (ax_world ax) args d1 = (e, d2)" by fastforce
    with assms(1) rec ArEntryReady have "d' = d2" by (auto simp: process_approval_def)
    with finalize_entry_inv [OF f i1] show ?thesis by simp
  qed
qed

lemma process_deny_inv:
  assumes "process_deny args d = (r, d')" and inv: "daemon_inv d"
  shows "daemon_inv d'"
proof -
  consider (ctl) "process_deny_ctl args d = (r, d')"
    | (draft) "process_deny_draft (sa_id args) (sa_uid args) d = (r, d')"
    | (entry) "process_deny_entry args d = (r, d')"
    using assms by (auto simp: process_deny_def split: if_splits)
  then show ?thesis
  proof cases
    case ctl
    then have "d' = d \<or> d' = d\<lparr>d_pending_ctl := None\<rparr>"
      by (auto simp: process_deny_ctl_def split: option.splits if_splits sum.splits)
    then show ?thesis using inv by (auto intro!: daemon_inv_part [OF inv] empty_ok)
  next
    case draft
    then have "d' = d \<or> d' = d\<lparr>d_drafts := hm_remove (sa_id args) (d_drafts d),
        d_active := hm_remove (sa_id args) (d_active d)\<rparr>"
      by (auto simp: process_deny_draft_def Let_def split: option.splits if_splits sum.splits)
    then show ?thesis
    proof
      assume d': "d' = d\<lparr>d_drafts := hm_remove (sa_id args) (d_drafts d),
        d_active := hm_remove (sa_id args) (d_active d)\<rparr>"
      have "drafts_ok d" using inv by (simp add: daemon_inv_def)
      then have "drafts_ok d'" using d' by (intro drafts_ok_remove [of d d' "sa_id args"]) simp_all
      then show ?thesis using d' by (intro daemon_inv_part [OF inv]) simp_all
    qed (simp add: inv)
  next
    case entry
    define i where "i = (case parse_u64 (sa_id args) of Some v \<Rightarrow> v | None \<Rightarrow> 0)"
    from entry have "d' = d \<or> inv_fields d' = inv_fields (d\<lparr>d_pending := hm_remove i (d_pending d)\<rparr>)"
      by (auto simp: process_deny_entry_def i_def [symmetric] Let_def send_states inv_fields_def
          split: option.splits if_splits sum.splits)
    then show ?thesis using inv pending_removed_inv by blast
  qed
qed

lemma process_ticket_inv:
  assumes "process_ticket w i uid d = (r, d')" and inv: "daemon_inv d"
  shows "daemon_inv d'"
proof -
  define f where "f q = draft_from_rule w q uid (d_epoch d) d" for q
  have f: "d_epoch (snd (f q)) = d_epoch d" "inv_fields (snd (f q)) = inv_fields d"
    "dr_epoch (fst (f q)) = d_epoch d" for q
    by (simp_all add: f_def draft_from_rule_def next_audit_ticket_id_def inv_fields_def)
  have "d' = d \<or> (\<exists>q. d' = snd (f q)) \<or> (\<exists>q. d' = (snd (f q))\<lparr>d_drafts :=
      hm_insert (dr_draft_id (fst (f q))) (fst (f q)) (d_drafts (snd (f q)))\<rparr>)"
  proof (cases "d_transition d")
    case True
    with assms(1) show ?thesis by (simp add: process_ticket_def)
  next
    case tr: False
    show ?thesis
    proof (cases "find_rule (Some i) d")
      case (Inl e)
      with assms(1) tr show ?thesis by (simp add: process_ticket_def Let_def)
    next
      case (Inr v)
      obtain q ep where v: "v = (q, ep)" by (cases v)
      have ep: "ep = d_epoch d" using Inr v by (auto simp: find_rule_def split: option.splits)
      show ?thesis
      proof (cases q)
        case None
        with assms(1) tr Inr v show ?thesis by (simp add: process_ticket_def Let_def)
      next
        case (Some p)
        obtain dr d1 where dr: "f p = (dr, d1)" by (cases "f p")
        then have "draft_from_rule w p uid ep d = (dr, d1)" by (simp add: f_def ep)
        with assms(1) tr Inr v Some have "d' = d \<or> d' = d1 \<or>
            d' = d1\<lparr>d_drafts := hm_insert (dr_draft_id dr) dr (d_drafts d1)\<rparr>"
          by (auto simp: process_ticket_def Let_def split: sum.splits if_splits bool.splits)
        then show ?thesis using dr by (metis fst_conv snd_conv)
      qed
    qed
  qed
  then show ?thesis
  proof (elim disjE exE)
    fix q assume "d' = snd (f q)"
    with daemon_inv_same [OF inv f(2)] show ?thesis by simp
  next
    fix q
    let ?d1 = "snd (f q)" and ?dr = "fst (f q)"
    assume d': "d' = ?d1\<lparr>d_drafts := hm_insert (dr_draft_id ?dr) ?dr (d_drafts ?d1)\<rparr>"
    note i1 = daemon_inv_same [OF inv f(2) [of q]]
    then have "drafts_ok d'" using f(1,3) [of q] by (auto simp: d' inv_defs)
    then show ?thesis by (intro daemon_inv_part [OF i1]) (simp_all add: d')
  qed (simp add: inv)
qed

lemma apply_decision_inv:
  assumes "apply_decision ax kind args d = (Reply t ev, d')" and "daemon_inv d"
  shows "daemon_inv d'"
proof (cases kind)
  case DkApprove
  with assms process_approval_inv show ?thesis by (simp add: apply_decision_def)
next
  case DkDeny
  with assms process_deny_inv show ?thesis by (simp add: apply_decision_def)
next
  case DkTicket
  with assms process_ticket_inv show ?thesis by (simp add: apply_decision_def)
next
  case DkStart
  with assms(1) check_initiator_inv [OF _ assms(2)] show ?thesis by (simp add: apply_decision_def)
next
  case DkStop
  with assms(1) check_initiator_inv [OF _ assms(2)] show ?thesis by (simp add: apply_decision_def)
next
  case DkPolicyUpdate
  with assms(1) check_initiator_inv [OF _ assms(2)] show ?thesis by (simp add: apply_decision_def)
qed

lemma handle_signed_inv:
  assumes "handle_signed_decision ax cmd kind uid d = (Reply t ev, d')" and "daemon_inv d"
  shows "daemon_inv d'"
proof (cases "d' = d")
  case False
  with assms(1) obtain args where "apply_decision ax kind args d = (Reply t ev, d')"
    by (auto simp: handle_signed_decision_def split: sum.splits)
  then show ?thesis using assms(2) by (rule apply_decision_inv)
qed (simp add: assms(2))

lemma admin_command_inv:
  assumes "admin_command ax cmd uid d = (Reply t ev, d')" and inv: "daemon_inv d"
  shows "daemon_inv d'"
proof -
  have reg: "daemon_inv d'" if "handle_register cmd uid d = (Reply t ev, d')"
  proof -
    from that have "inv_fields d' = inv_fields d"
      by (auto simp: handle_register_def Let_def inv_fields_def split: list.splits if_splits)
    with inv show ?thesis by (rule daemon_inv_same)
  qed
  have tick: "daemon_inv d'" if "handle_ticket ax cmd uid d = (Reply t ev, d')"
    using that handle_signed_inv [OF _ inv] inv by (simp add: handle_ticket_def split: if_splits)
  have q: "daemon_inv d'" if "(Reply s None, d) = (Reply t ev, d')" for s using that inv by simp
  note sg = handle_signed_inv [of ax cmd _ uid d t ev d', OF _ inv]
    and ck = check_initiator_inv [of ax _ d uid _ t ev d', OF _ inv]
  from assms(1) show ?thesis
    unfolding admin_command_def Let_def by (elim if_eqE) (erule q reg tick sg ck)+
qed

lemma administer_inv:
  assumes "handle_admin_connection ax peer input d = (Some text, d')" and inv: "daemon_inv d"
  shows "daemon_inv d'"
proof (cases "d' = d")
  case False
  with assms(1) obtain uid bytes where p: "peer = Some uid" "input = Some bytes" "bytes \<noteq> []"
    by (auto simp: handle_admin_connection_def split: option.splits if_splits)
  define cmd where "cmd = rust_trim (utf8_lossy (take 1024 bytes))"
  obtain r d1 where c: "admin_command ax cmd uid d = (r, d1)" by fastforce
  show ?thesis
  proof (cases r)
    case Exited
    with assms(1) p c show ?thesis by (simp add: handle_admin_connection_def cmd_def)
  next
    case (Reply t ev)
    with c have "daemon_inv d1" using admin_command_inv inv by blast
    moreover have "inv_fields d' = inv_fields d1"
      using assms(1) p c Reply
      by (cases ev) (auto simp: handle_admin_connection_def cmd_def inv_fields_def)
    ultimately show ?thesis by (rule daemon_inv_same)
  qed
qed (simp add: inv)

section \<open>Properties\<close>

lemma start_up_inv:
  assumes "daemon_inv d"
  shows "daemon_inv (preload_silent_directory_tickets w d)" "daemon_inv (end_drain d)"
proof -
  obtain ts where ts: "preload_silent_directory_tickets w d = d\<lparr>d_queue := d_queue d @ map NsTicketAdd ts\<rparr>"
    using preload_state by blast
  show "daemon_inv (preload_silent_directory_tickets w d)"
    using assms by (rule daemon_inv_same) (simp add: ts inv_fields_def)
  show "daemon_inv (end_drain d)"
    using assms by (rule daemon_inv_same) (simp add: end_drain_def inv_fields_def)
qed

lemma step_inv: "daemon_step d d' \<Longrightarrow> daemon_inv d \<Longrightarrow> daemon_inv d'"
  by (erule daemon_stepE)
    (auto intro: decision_step_inv administer_inv audit_step_inv pam_step_inv start_up_inv)

lemma reachable_inv: "reachable d \<Longrightarrow> daemon_inv d"
  by (induction rule: reachable.induct) (auto intro: fresh_inv step_inv)


lemma lawful_quorum_people:
  assumes "daemon_inv d" and "quorum_approved ax uid d i"
  shows "\<exists>r \<in> set (cp_rules (cb_policy (d_bundle d))). \<exists>us. cr_effect r = NeedApproval \<and>
    uid \<in> us \<and> people_agree d (rule_threshold r) (approver_roles r) us"
proof -
  from assms(2) obtain e args m where e: "hm_get (d_pending d) i = Some e" "sa_uid args = uid"
    "insert_approver (ax_world ax) d args (pe_policy_epoch e) (pe_mpa_state e) = Inr m" "is_fulfilled m"
    by (auto simp: quorum_approved_def signed_by_def)
  from assms(1) e(1) have b: "entry_backed d e" by (simp add: inv_defs)
  then have "votes_ok d (pe_mpa_state e)" by (simp add: entry_backed_def)
  note v = votes_ok_insert [OF e(3) this]
  have "uid \<in> voters m" using insert_approver_voters [OF e(3)] e(2) by simp
  moreover from fulfilled_people [OF v(1) e(4)]
  have "people_agree d (mp_threshold (pe_mpa_state e)) (mp_required_roles (pe_mpa_state e)) (voters m)"
    by (simp add: v(2,3))
  ultimately show ?thesis using b unfolding entry_backed_def by metis
qed

lemma lawful_ctl_people:
  assumes "daemon_inv d" and "ctl_approved ax uid d"
  shows "\<exists>kind ctl mpa us. control_of (d_management d) kind = Some ctl \<and> mc_mpa ctl = MpaEnabled mpa \<and>
    uid \<in> us \<and> people_agree d (mme_threshold mpa) (mme_approver_roles mpa) us"
proof -
  from assms(2) obtain c args m where c: "d_pending_ctl d = Some c" "sa_uid args = uid"
    "insert_approver (ax_world ax) d args (pc_epoch c) (pc_mpa_state c) = Inr m" "is_fulfilled m"
    by (auto simp: ctl_approved_def signed_by_def)
  from assms(1) c(1) have b: "ctl_backed d c" by (simp add: inv_defs)
  then have "votes_ok d (pc_mpa_state c)" by (simp add: ctl_backed_def)
  note v = votes_ok_insert [OF c(3) this]
  have "uid \<in> voters m" using insert_approver_voters [OF c(3)] c(2) by simp
  with fulfilled_people [OF v(1) c(4)] v b show ?thesis unfolding ctl_backed_def by metis
qed



text \<open>
  C26. The daemon starts synchronised and empty-handed. If the boot succeeds, the epoch is the one
  the kernel proposed in its answer to the registration, it is not 0 and the kernel acknowledged
  it; the policy and the management configuration are those compiled from the installed files; and
  the daemon drains, with no verdict sent and nothing granted, in a state the invariants start
  from.
\<close>

theorem boot_synchronised:
  assumes "boot e ax rx port tx = Some (Inr d)"
  shows "await_register e rx = Some (Inr (d_epoch d)) \<and> d_epoch d \<noteq> 0 \<and>
    ax_epoch_ack ax (d_epoch d) = Inr () \<and>
    load_bundle_from_dir (ax_platform ax) (ax_loader ax) DEFAULT_TEAL_DIR = Inr (d_bundle d) \<and>
    (\<exists>ws. prepare_management (bd_loader (ax_loader ax)) MANAGEMENT_PATH (cb_roles (d_bundle d)) =
       Inr (d_management d, ws)) \<and>
    d_mode d = Drain \<and> fresh d \<and> reachable d"
proof -
  note b = boot_Inr [OF assms]
  from b have d: "d = (init_state (d_snapshot d) (d_management d))\<lparr>d_queue :=
      [NsModeSwitch 0, NsSyncEpoch (d_epoch d)]\<rparr>" by blast
  have "fresh d" "d_mode d = Drain"
    by (subst d, simp add: fresh_def init_state_def)+
  with b show ?thesis by (blast intro: reachable.start)
qed

section \<open>A vote can be completed\<close>

lemma all_vote:
  assumes "\<forall>u \<in> set us. sa_uid (args u) = u \<and> wd_hex_decode w (sa_sig_hex (args u)) = Inr (sg u) \<and>
      set (mp_required_roles m) \<inter> set (uid_roles_of d u) \<noteq> {}"
  defines "ballot \<equiv> \<lambda>u. \<lparr>bl_daemon = d, bl_args = args u, bl_epoch = d_epoch d\<rparr>"
  shows "\<exists>m'. foldR (cast_ballot w) (map ballot us) m = Inr m' \<and>
    mp_threshold m' = mp_threshold m \<and> mp_required_roles m' = mp_required_roles m \<and>
    (mpa_wf m \<longrightarrow> mpa_wf m') \<and>
    (\<forall>u. u \<notin> set us \<longrightarrow> hm_get (mp_approvals m') u = hm_get (mp_approvals m) u) \<and>
    (\<forall>u \<in> set us. \<exists>a. hm_get (mp_approvals m') u = Some a \<and>
       set (mp_required_roles m) \<inter> set (uid_roles_of d u) \<subseteq> set (aa_roles a))"
  using assms(1)
proof (induction us arbitrary: m rule: rev_induct)
  case Nil
  show ?case by simp
next
  case (snoc v us)
  from snoc.IH [of m] snoc.prems obtain m1 where
    run: "foldR (cast_ballot w) (map ballot us) m = Inr m1" and
    m1: "mp_threshold m1 = mp_threshold m" "mp_required_roles m1 = mp_required_roles m"
      "mpa_wf m \<longrightarrow> mpa_wf m1"
      "\<forall>u. u \<notin> set us \<longrightarrow> hm_get (mp_approvals m1) u = hm_get (mp_approvals m) u"
      "\<forall>u \<in> set us. \<exists>a. hm_get (mp_approvals m1) u = Some a \<and>
         set (mp_required_roles m) \<inter> set (uid_roles_of d u) \<subseteq> set (aa_roles a)" by auto
  from snoc.prems have v: "sa_uid (args v) = v" "wd_hex_decode w (sa_sig_hex (args v)) = Inr (sg v)"
    "set (mp_required_roles m) \<inter> set (uid_roles_of d v) \<noteq> {}" by auto
  then have "filter (\<lambda>r. r \<in> set (mp_required_roles m1)) (uid_roles_of d v) \<noteq> []"
    by (auto simp: filter_empty_conv m1(2))
  with v obtain m2 where m2: "insert_approver w d (args v) (d_epoch d) m1 = Inr m2"
    by (auto simp: insert_approver_def Let_def)
  note i = insert_approver_Inr [OF m2]
  from i(5) v(1) obtain a where a: "hm_get (mp_approvals m2) = (hm_get (mp_approvals m1))(v \<mapsto> a)"
    "set (aa_roles a) = set (mp_required_roles m) \<inter> set (uid_roles_of d v)"
    by (auto simp: m1(2))
  have "foldR (cast_ballot w) (map ballot (us @ [v])) m = Inr m2"
    using run m2 by (simp add: foldR_append cast_ballot_def ballot_def)
  with i(2,3,6) a m1 show ?case by (intro exI [of _ m2]) auto
qed

text \<open>
  C27. A configured approval can always be completed. For every control of a management file that
  compiles against the roles in force, the vote that opens when the control is requested passes
  once all its approvers have voted; nobody else is needed, and the threshold cannot be out of
  reach.
\<close>

theorem configured_vote_completes:
  assumes "compile_management raw (cb_roles (d_bundle d)) = Inr (mg, ws)" and "core_wf (cb_roles (d_bundle d))"
    and "control_of mg kind = Some ctl" and "mc_mpa ctl = MpaEnabled mpa"
    and "set us = approvers (cb_roles (d_bundle d)) mpa"
    and "\<forall>u \<in> set us. sa_uid (args u) = u \<and> wd_hex_decode w (sa_sig_hex (args u)) = Inr (sg u)"
  shows "\<exists>m. foldR (cast_ballot w)
      (map (\<lambda>u. \<lparr>bl_daemon = d, bl_args = args u, bl_epoch = d_epoch d\<rparr>) us)
      \<lparr>mp_threshold = mme_threshold mpa, mp_required_roles = mme_approver_roles mpa, mp_approvals = [],
       mp_aggregated = None\<rparr> = Inr m \<and> is_fulfilled m"
proof -
  let ?m0 = "\<lparr>mp_threshold = mme_threshold mpa, mp_required_roles = mme_approver_roles mpa,
    mp_approvals = [], mp_aggregated = None\<rparr>"
  have h: "holds_role (cb_roles (d_bundle d)) u r \<longleftrightarrow> r \<in> set (uid_roles_of d u)" for u r
    by (auto simp: holds_role_def roles_at_def uid_roles_of_def split: option.splits)
  from assms(1) obtain w1 w2 w3 w4 where c:
    "compile_control (cb_roles (d_bundle d)) ''start'' (rmg_start raw) [] = Inr (cm_start mg, w1)"
    "compile_control (cb_roles (d_bundle d)) ''stop'' (rmg_stop raw) w1 = Inr (cm_stop mg, w2)"
    "compile_control_opt (cb_roles (d_bundle d)) ''policy_update'' (rmg_policy_update raw) w2 = Inr (cm_policy_update mg, w3)"
    "compile_control_opt (cb_roles (d_bundle d)) ''flush'' (rmg_flush raw) w3 = Inr (cm_flush mg, w4)"
    unfolding compile_management_def by (auto simp: bindR_eq_Inr)
  note ok = compile_control_ok [OF c(1) assms(2)] compile_control_ok [OF c(2) assms(2)]
    compile_control_opt_ok [OF c(3) assms(2)] compile_control_opt_ok [OF c(4) assms(2)]
  have "\<exists>c. control_ok (cb_roles (d_bundle d)) c ctl"
  proof (cases kind)
    case CtlPolicyUpdate
    with ok(3) assms(3) show ?thesis by (cases "rmg_policy_update raw") (auto simp: control_of_def)
  next
    case CtlFlush
    with ok(4) assms(3) show ?thesis by (cases "rmg_flush raw") (auto simp: control_of_def)
  qed (use ok(1,2) assms(3) in \<open>auto simp: control_of_def\<close>)
  with assms(4) have s: "\<forall>r \<in> set (mme_approver_roles mpa). \<exists>u. r \<in> set (uid_roles_of d u)"
    "unat (mme_threshold mpa) \<le> card (set us)"
    using assms(5) by (auto simp: control_ok_def mpa_satisfiable_def h)
  have us: "u \<in> set us \<longleftrightarrow> set (mme_approver_roles mpa) \<inter> set (uid_roles_of d u) \<noteq> {}" for u
    unfolding assms(5) by (auto simp: approvers_def h)
  then have pre: "\<forall>u \<in> set us. sa_uid (args u) = u \<and> wd_hex_decode w (sa_sig_hex (args u)) = Inr (sg u) \<and>
      set (mp_required_roles ?m0) \<inter> set (uid_roles_of d u) \<noteq> {}"
    using assms(6) by simp
  from all_vote [OF pre] obtain m where
    run: "foldR (cast_ballot w) (map (\<lambda>u. \<lparr>bl_daemon = d, bl_args = args u, bl_epoch = d_epoch d\<rparr>) us) ?m0 = Inr m"
    and m: "mp_threshold m = mme_threshold mpa" "mp_required_roles m = mme_approver_roles mpa" "mpa_wf m"
      "\<forall>u \<in> set us. \<exists>a. hm_get (mp_approvals m) u = Some a \<and>
         set (mme_approver_roles mpa) \<inter> set (uid_roles_of d u) \<subseteq> set (aa_roles a)"
    by (auto simp: mpa_wf_def)
  have "is_fulfilled m"
  proof (rule all_approvers_fulfil [where us = "set us" and roles = "\<lambda>u. set (uid_roles_of d u)"])
    show "\<forall>r \<in> set (mp_required_roles m). \<exists>u \<in> set us. r \<in> set (uid_roles_of d u)"
      using s(1) us m(2) by fastforce
  qed (use m s(2) in auto)
  with run show ?thesis by blast
qed

end
