(* ===== verification/Admin_Samples.thy ===== *)
theory Admin_Samples
  imports Admin_Props
begin

text \<open>
  Concrete administrators, requests and a staged policy, at which the theorems about the management
  socket are applied. The sample signature scheme accepts a signature that equals the message.
\<close>

definition staged_loader :: bundle_loader where
  "staged_loader =
     \<lparr>bd_loader = sample_loader
        \<lparr>ld_management_from_value := (\<lambda>_. Inr
           \<lparr>rmg_start = sample_raw_control
              \<lparr>rmc_mpa := \<lparr>rmm_enabled = False, rmm_threshold = None, rmm_approver_roles = None,
                 rmm_timeout_minutes = None\<rparr>\<rparr>,
            rmg_stop = sample_raw_control
              \<lparr>rmc_mpa := \<lparr>rmm_enabled = False, rmm_threshold = None, rmm_approver_roles = None,
                 rmm_timeout_minutes = None\<rparr>\<rparr>,
            rmg_policy_update = None, rmg_flush = None\<rparr>)\<rparr>,
      bd_validate_bundle = (\<lambda>_. Inr ()),
      bd_bundle_from_value = (\<lambda>_. Inr
        \<lparr>rb_schema_version = ''1.0'', rb_name = None, rb_policy_files = [''a.json'']\<rparr>)\<rparr>"

definition sample_adm :: adm where
  "sample_adm =
     \<lparr>ax_world = sample_world, ax_platform = sample_platform, ax_account_name = (\<lambda>_. None),
      ax_uuid = ''A1'', ax_stage_tree = Some (policy_tree ''a.json'' ''b.json''),
      ax_sha256_hex = (\<lambda>s. s), ax_loader = staged_loader, ax_show_error = (\<lambda>_. ''error''),
      ax_backup_dir = ''/var/lib/teal/epochs/epoch_1'', ax_create_dir_all = (\<lambda>_. Inr ()),
      ax_rename = (\<lambda>_ _. Inr ()), ax_epoch_ack = (\<lambda>_. Inr ()),
      ax_public_key_ok = (\<lambda>_. Inr ()), ax_signature_bytes_ok = (\<lambda>_. Inr ()),
      ax_bls_verify = (\<lambda>key msg sig. sig = msg), ax_status_text = (\<lambda>_. []),
      ax_netlink_status_text = []\<rparr>"

definition sample_entry :: pending_entry where
  "sample_entry =
     (entry_from_rule sample_world sample_rule (from_enforce_teal_req (sample_req ''READ'' ''/etc/shadow'')) 1)
       \<lparr>pe_mpa_state := sample_mpa\<lparr>mp_threshold := 1\<rparr>\<rparr>"

definition keyed_daemon :: daemon where
  "keyed_daemon = sample_daemon\<lparr>d_registered_keys := [(0, ''k''), (1000, ''k'')]\<rparr>"

definition voting_daemon :: daemon where
  "voting_daemon = sample_daemon
     \<lparr>d_pending := [(7, sample_entry)], d_registered_keys := [(0, ''k''), (1000, ''k'')]\<rparr>"

section \<open>Texts\<close>

lemma join_words_ends:
  "list_all plain_word ws \<Longrightarrow> ws \<noteq> [] \<Longrightarrow>
     join '' '' ws \<noteq> [] \<and> plain_byte (hd (join '' '' ws)) \<and> plain_byte (last (join '' '' ws)) \<and>
     list_all (\<lambda>c. byte c < 128) (join '' '' ws)"
proof (induction ws)
  case (Cons s ws)
  have s: "s \<noteq> []" "list_all plain_byte s" using Cons.prems by (simp_all add: plain_word_def)
  then have e: "plain_byte (hd s)" "plain_byte (last s)" "list_all (\<lambda>c. byte c < 128) s"
    by (auto simp: list_all_iff plain_byte_def)
  show ?case
  proof (cases ws)
    case Nil
    with s e show ?thesis by simp
  next
    case (Cons t ts)
    have "byte (CHR '' '') < 128" by (simp add: byte_def)
    with Cons s e Cons.IH Cons.prems show ?thesis by (auto simp: list_all_iff)
  qed
qed simp

lemma command_text:
  assumes "list_all plain_word ws" and "ws \<noteq> []" and "length (join '' '' ws) \<le> 1024"
  shows "rust_trim (utf8_lossy (take 1024 (join '' '' ws))) = join '' '' ws"
proof -
  note e = join_words_ends [OF assms(1,2)]
  have "utf8_valid (join '' '' ws)" using e by (intro utf8_valid_ascii) (simp add: list_all_iff)
  with e assms(3) show ?thesis by (simp add: utf8_lossy_valid rust_trim_plain)
qed

lemma sample_words:
  "split_whitespace ''STOP STOP:'' = [''STOP'', ''STOP:'']"
  "split_whitespace ''APPROVE 7 APPROVE:7'' = [''APPROVE'', ''7'', ''APPROVE:7'']"
  "rust_trim (utf8_lossy ''STOP STOP:'') = ''STOP STOP:''"
  "rust_trim (utf8_lossy ''APPROVE 7 APPROVE:7'') = ''APPROVE 7 APPROVE:7''"
  using split_whitespace_words [of "[''STOP'', ''STOP:'']"] command_text [of "[''STOP'', ''STOP:'']"]
    split_whitespace_words [of "[''APPROVE'', ''7'', ''APPROVE:7'']"]
    command_text [of "[''APPROVE'', ''7'', ''APPROVE:7'']"]
  by (simp_all add: plain_word_def plain_byte_def byte_def)

lemma seven: "is_mgmt_id ''7'' \<longleftrightarrow> False" "is_draft_id ''7'' \<longleftrightarrow> False" "parse_u64 ''7'' = Some 7"
  by (simp_all add: is_mgmt_id_def to_uppercase_ascii is_ascii_def byte_def ascii_upper_def Let_def
      is_draft_id_def parse_u64_def parse_uint_def is_digit_def digits_value_def digit_value_def)

definition stop_args :: signed_cmd_args where
  "stop_args = \<lparr>sa_id = [], sa_uid = 0, sa_account = [], sa_sig_hex = ''STOP:'', sa_audit_id = None\<rparr>"

definition vote_args :: signed_cmd_args where
  "vote_args = \<lparr>sa_id = ''7'', sa_uid = 1000, sa_account = [], sa_sig_hex = ''APPROVE:7'', sa_audit_id = None\<rparr>"

lemma sample_parse:
  "parse_args ''STOP STOP:'' DkStop 0 = Inr stop_args"
  "parse_args ''APPROVE 7 APPROVE:7'' DkApprove 1000 = Inr vote_args"
  by (simp_all add: parse_args_def sample_words next_word_def has_id_arg_def is_mgmt_decision_def seven
      stop_args_def vote_args_def)

section \<open>Executions\<close>

lemma sample_verified:
  "fetch_pubkey_and_verify sample_adm 0 DkStop stop_args keyed_daemon = Inr ()"
  "fetch_pubkey_and_verify sample_adm 1000 DkApprove vote_args voting_daemon = Inr ()"
  by (simp_all add: fetch_pubkey_and_verify_def fetch_public_key_def voting_daemon_def keyed_daemon_def
      hm_get_def
      verify_request_def decision_message_def is_mgmt_decision_def seven stop_args_def vote_args_def
      verify_signature_message_def sample_adm_def sample_world_def)

lemma sample_stop:
  "d_mode (snd (handle_admin_connection sample_adm (Some 0) (Some ''STOP STOP:'') keyed_daemon)) = Audit"
  using sample_verified(1)
  by (simp add: handle_admin_connection_def sample_words admin_command_def handle_signed_decision_def
      sample_parse apply_decision_def)
    (simp add: check_initiator_and_handle_def control_of_def keyed_daemon_def sample_daemon_def
      stop_args_def sample_mgmt_control_def handle_mgmt_cmd_def execute_mgmt_ctl_def
      execute_mgmt_ctl_core_def execute_stop_def send_mode_switch_def enqueue_def Let_def)

definition signed_vote :: signed_cmd_args where
  "signed_vote = vote_args\<lparr>sa_account := resolve_account sample_adm 1000\<rparr>"

definition voted :: mpa_state where
  "voted = sample_mpa\<lparr>mp_threshold := 1, mp_approvals := [(1000,
     \<lparr>aa_account = resolve_account sample_adm 1000, aa_roles = [''admin''], aa_approved_at = 0, aa_method = [],
      aa_comment = None, aa_signature = ''APPROVE:7'', aa_epoch = 1\<rparr>)]\<rparr>"

definition voted_daemon :: daemon where
  "voted_daemon = voting_daemon\<lparr>d_pending := [(7, sample_entry\<lparr>pe_mpa_state := voted\<rparr>)]\<rparr>"

lemma sample_vote_inserted:
  "insert_approver sample_world voting_daemon signed_vote 1 (sample_mpa\<lparr>mp_threshold := 1\<rparr>) = Inr voted"
  "is_fulfilled voted"
  by (simp_all add: insert_approver_def voting_daemon_def sample_daemon_def signed_vote_def vote_args_def
      sample_mpa_def uid_roles_of_def sample_core_def empty_roles_core_def hm_get_def hs_of_list_def
      hs_insert_def sample_world_def hm_insert_def voted_def is_fulfilled_def hm_values_def Let_def)

lemma sample_entry_simps:
  "pe_mpa_state sample_entry = sample_mpa\<lparr>mp_threshold := 1\<rparr>" "pe_policy_epoch sample_entry = 1"
  "pe_rule_id sample_entry = Some ''R1''"
  by (simp_all add: sample_entry_def entry_from_rule_def from_base_req_def sample_rule_def)

lemma sample_recorded: "record_approval sample_world signed_vote voting_daemon = Inr (ArEntryReady, voted_daemon)"
proof -
  have "sa_id signed_vote = ''7''" by (simp add: signed_vote_def vote_args_def)
  moreover have "hm_get (d_pending voting_daemon) 7 = Some sample_entry"
    by (simp add: voting_daemon_def hm_get_def)
  moreover have "voting_daemon\<lparr>d_pending := hm_insert 7 (sample_entry\<lparr>pe_mpa_state := voted\<rparr>) (d_pending voting_daemon)\<rparr>
      = voted_daemon"
    by (simp add: voted_daemon_def voting_daemon_def hm_insert_def)
  ultimately show ?thesis
    by (simp add: record_approval_def seven process_approve_entry_def check_fully_approved_def
        sample_entry_simps sample_vote_inserted)
qed

lemma sample_approve:
  "d_queue (snd (handle_admin_connection sample_adm (Some 1000) (Some ''APPROVE 7 APPROVE:7'') voting_daemon)) =
     [NsApprove 7]"
proof -
  let ?ev = "fst (finalize_entry_approval sample_world signed_vote voted_daemon)"
  let ?d = "snd (finalize_entry_approval sample_world signed_vote voted_daemon)"
  have w: "ax_world sample_adm = sample_world" by (simp add: sample_adm_def)
  have id: "sa_id signed_vote = ''7''" by (simp add: signed_vote_def vote_args_def)
  have "process_approval sample_adm signed_vote voting_daemon =
      (case ?ev of Some e \<Rightarrow> Reply (line ''OK'') (Some e)
       | None \<Rightarrow> Reply (line ''ERR approval finalization failed'') None, ?d)"
    by (simp add: process_approval_def w sample_recorded case_prod_beta Let_def)
  then have "d_queue (snd (handle_admin_connection sample_adm (Some 1000) (Some ''APPROVE 7 APPROVE:7'') voting_daemon))
      = d_queue ?d"
    using sample_verified(2)
    by (cases ?ev) (simp_all add: handle_admin_connection_def sample_words admin_command_def
        handle_signed_decision_def sample_parse apply_decision_def flip: signed_vote_def)
  also have "d_queue ?d = [NsApprove 7]"
  proof -
    have g: "hm_get (d_pending voted_daemon) 7 = Some (sample_entry\<lparr>pe_mpa_state := voted\<rparr>)"
      by (simp add: voted_daemon_def hm_get_def)
    have c: "cache_outcome (sample_entry\<lparr>pe_mpa_state := voted\<rparr>)
        (voted_daemon\<lparr>d_pending := hm_remove 7 (d_pending voted_daemon)\<rparr>) =
        ((False, None, []), voted_daemon\<lparr>d_pending := hm_remove 7 (d_pending voted_daemon)\<rparr>)"
      by (simp add: cache_outcome_def sample_entry_simps find_rule_def voted_daemon_def voting_daemon_def
          sample_daemon_def sample_bundle_def sample_policy_def sample_rule_def is_cacheable_def
          default_with_reason_def)
    show ?thesis
      by (simp add: finalize_entry_approval_def id seven g c Let_def send_entry_approval_def send_states)
        (simp add: voted_daemon_def voting_daemon_def sample_daemon_def)
  qed
  finally show ?thesis .
qed

lemma sample_roles_hold:
  "\<exists>core ws. compile_roles_v1 sample_platform sample_raw_roles = Inr (core, ws) \<and>
     lookup_uids_in_compiled_roles core ''audit'' = [1000]"
  by (simp add: compile_roles_v1_def sample_raw_roles_def build_role_catalog_def catalog_step_def
      normalize_name_def validate_role_name_def dedup_vec_keep_order_def role_description_def
      rust_trim_def trim_any.simps ws_seqs_def compile_defaults_def resolve_roles_def
      resolve_step_def compile_assignments_def assignment_step_def normalize_assignment_target_def
      name_to_uid_def sample_platform_def merge_role_set_def compile_group_assignments_def
      compile_login_contexts_def login_context_step_def ssh_source_step_def hm_contains_def
      hs_insert_def byte_def Let_def lookup_uids_in_compiled_roles_def hs_of_list_def hm_insert_def hm_get_def)

lemma sample_tree_hash:
  "compute_directory_hash (\<lambda>s. s) (Some (policy_tree ''a.json'' ''b.json'')) = Inr ''{}{A}{B}''"
proof -
  have h: "is_hidden s \<longleftrightarrow> False" if "s \<noteq> []" "hd s \<noteq> CHR ''.''" for s
    using that by (cases s) (auto simp: is_hidden_def)
  have l: "is_hidden ''.stage.lock''"
    unfolding is_hidden_def by (intro conjI utf8_valid_ascii) (auto simp: byte_def)
  have "collect_policy_files (Some (policy_tree ''a.json'' ''b.json'')) =
      Inr [([''bundle.json''], Some ''{}''), ([''policies'', ''a.json''], Some ''{A}''),
           ([''policies'', ''b.json''], Some ''{B}'')]"
    by (simp add: collect_policy_files_def policy_tree_def h l) (simp add: file_extension_def)
  then show ?thesis by (simp add: compute_directory_hash_def hash_step_def)
qed

lemma sample_loaded:
  assumes "dir = ''/etc/teal.d/new'' \<or> dir = ''/etc/teal.d''"
  shows "\<exists>b m ws. load_bundle_from_dir sample_platform staged_loader dir = Inr b \<and>
    prepare_management (bd_loader staged_loader) q (cb_roles b) = Inr (m, ws)"
proof -
  obtain core ws where core: "compile_roles_v1 sample_platform sample_raw_roles = Inr (core, ws)"
    and audit: "lookup_uids_in_compiled_roles core ''audit'' = [1000]"
    using sample_roles_hold by blast
  define roles where "roles f = \<lparr>cro_roles_file = f, cro_deny_if_role_unknown = True,
    cro_known_roles = rc_known_roles (crc_roles core), cro_core = core\<rparr>" for f
  have "\<exists>p ws. compile_policy_v14 sample_platform (sample_raw_policy [sample_raw_rule ''R1'' ''/etc/shadow''])
      (roles f) = Inr (p, ws)" for f
    using sample_raw_rule_compiles [of "''R1''" 600 "roles f" "[]"]
    by (auto simp: compile_policy_v14_def sample_raw_policy_def validate_pre_approval_defaults_def
        rule_id_step_def rules_step_def pre_approval_defaults_from_def Let_def)
  then obtain p ws2 where p: "compile_policy_v14 sample_platform
      (sample_raw_policy [sample_raw_rule ''R1'' ''/etc/shadow'']) (roles f) = Inr (p f, ws2 f)" for f
    by metis
  have "\<exists>b. load_bundle_from_dir sample_platform staged_loader dir = Inr b \<and> cb_roles b = core"
    using assms
    by (auto simp: load_bundle_from_dir_def staged_loader_def sample_loader_def load_roles_def core
        p [unfolded roles_def]
        load_policies_listed_in_bundle_def bundle_step_def valid_policy_name_def load_policy_def
        with_context_def path_join_def is_absolute_def Let_def)
  moreover have "\<exists>m ws. prepare_management (bd_loader staged_loader) q core = Inr (m, ws)"
    by (simp add: prepare_management_def staged_loader_def sample_loader_def with_context_def
        compile_management_def compile_control_def compile_control_opt_def sample_raw_control_def
        role_ref_step_def mgmt_validate_role_name_def mgmt_name_char_def is_ascii_alphabetic_def
        is_ascii_alphanumeric_def is_digit_def byte_def resolve_role_uids_def audit hs_insert_def
        mgmt_compile_mpa_def Let_def)
  ultimately show ?thesis by blast
qed

lemma sample_staged: "\<exists>b m. staged_ok sample_adm ''{}{A}{B}'' b m"
  using sample_loaded [of STAGE_TEAL_DIR "path_join STAGE_TEAL_DIR ''management.json''"] sample_tree_hash
  by (auto simp: staged_ok_def sample_adm_def STAGE_TEAL_DIR_def)

lemma sample_update:
  "\<exists>d'. execute_policy_update sample_adm ''{}{A}{B}'' sample_daemon = (MrOk 2, NewPolicy, d')"
proof -
  from sample_staged obtain b m where s: "staged_ok sample_adm ''{}{A}{B}'' b m" by blast
  let ?d1 = "sample_daemon\<lparr>d_transition := True\<rparr>"
  let ?u = "\<lparr>pp_old_epoch = 1, pp_new_epoch = 2, pp_new_bundle = b, pp_new_management = m,
    pp_backup_dir = ''/var/lib/teal/epochs/epoch_1''\<rparr>"
  have g: "begin_ticket_transition sample_daemon = Inr ?d1"
    by (simp add: begin_ticket_transition_def sample_daemon_def)
  have e: "d_epoch sample_daemon = 1" "d_channel_open sample_daemon"
    by (simp_all add: sample_daemon_def)
  have a: "ax_backup_dir sample_adm = ''/var/lib/teal/epochs/epoch_1''"
    "ax_create_dir_all sample_adm = (\<lambda>_. Inr ())" "ax_rename sample_adm = (\<lambda>_ _. Inr ())"
    "ax_epoch_ack sample_adm = (\<lambda>_. Inr ())"
    by (simp_all add: sample_adm_def)
  have p: "prepare_policy_update sample_adm ''{}{A}{B}'' ?d1 = Inr ?u"
    using s by (auto simp: prepare_policy_update_def e a checked_inc_def validate_staged_policy_def
        compile_staged_bundle_def staged_ok_def)
  have w: "switch_policy_directory sample_adm ?u = (Inr (), NewPolicy)"
    by (simp add: switch_policy_directory_def a)
  let ?d2 = "?d1\<lparr>d_queue := d_queue sample_daemon @ [NsSyncEpoch 2]\<rparr>"
  have y: "synchronize_kernel_epoch sample_adm 2 ?d1 = (Inr (), ?d2)"
    by (simp add: synchronize_kernel_epoch_def send_sync_epoch_def enqueue_def e a)
  have c: "\<exists>d3. commit_policy_snapshot b 1 2 ?d2 = Inr (2, d3)"
    using commit_policy_snapshot_fresh [of ?d2 1 b] e(1) by simp
  from g p w y c show ?thesis by (auto simp: execute_policy_update_def Let_def)
qed

section \<open>Witnesses\<close>

lemma policy_update_atomic_witness:
  "\<exists>d'. execute_policy_update sample_adm ''{}{A}{B}'' sample_daemon = (MrOk 2, NewPolicy, d') \<and>
     d_epoch d' = 2 \<and> d_approved d' = []"
proof -
  from sample_update obtain d' where
    u: "execute_policy_update sample_adm ''{}{A}{B}'' sample_daemon = (MrOk 2, NewPolicy, d')" by blast
  have "\<not> d_transition sample_daemon" by (simp add: sample_daemon_def)
  from policy_update_atomic [OF u this] u show ?thesis by auto
qed

lemma sample_flush:
  assumes "d_channel_open d" and "\<not> d_transition d" and "d_epoch d = 1"
  shows "\<exists>d'. execute_flush sample_adm d = (MrOk 2, d')"
proof -
  obtain r d' where f: "execute_flush sample_adm d = (r, d')" by fastforce
  from f assms(2) show ?thesis
  proof (cases rule: flush_cases)
    case (failed e)
    with f assms show ?thesis
      by (auto simp: execute_flush_def begin_ticket_transition_def checked_inc_def Let_def
          split: sum.splits prod.splits if_splits)
  next
    case exited
    have a: "ax_epoch_ack sample_adm = (\<lambda>_. Inr ())" by (simp add: sample_adm_def)
    have "synchronize_kernel_epoch sample_adm 2 (d\<lparr>d_transition := True\<rparr>) =
        (Inr (), d\<lparr>d_transition := True, d_queue := d_queue d @ [NsSyncEpoch 2]\<rparr>)"
      using assms(1) by (simp add: synchronize_kernel_epoch_def send_sync_epoch_def enqueue_def a)
    with f exited assms show ?thesis
      by (auto simp: execute_flush_def begin_ticket_transition_def checked_inc_def Let_def advance_epoch_def
          split: if_splits)
  next
    case committed
    with f assms(3) show ?thesis by auto
  qed
qed

lemma sample_daemon_open: "d_channel_open sample_daemon" "\<not> d_transition sample_daemon" "d_epoch sample_daemon = 1"
  by (simp_all add: sample_daemon_def)

lemma flush_locks_down_witness:
  "\<exists>d'. execute_flush sample_adm sample_daemon = (MrOk 2, d') \<and> d_is_flushed d' \<and> d_epoch d' = 2"
proof -
  from sample_flush [OF sample_daemon_open] obtain d' where
    f: "execute_flush sample_adm sample_daemon = (MrOk 2, d')" by blast
  from flush_locks_down [OF f sample_daemon_open(2)] f show ?thesis by auto
qed

lemma approved_survive_restart_witness:
  "\<exists>d1 d2. execute_stop approved_daemon = (MrOk 1, d1) \<and> execute_start sample_adm d1 = (MrOk 1, d2) \<and>
     d_approved d2 = d_approved approved_daemon"
proof -
  have c: "d_channel_open approved_daemon" "d_epoch approved_daemon = 1"
    by (simp_all add: approved_daemon_def approval_daemon_def sample_daemon_def)
  let ?d1 = "stopped [NsModeSwitch 0] approved_daemon"
  have s: "execute_stop approved_daemon = (MrOk 1, ?d1)"
    using c by (simp add: execute_stop_def send_mode_switch_def enqueue_def stopped_def
        clear_ephemeral_state_for_enforce_def Let_def)
  obtain r d2 where t: "execute_start sample_adm ?d1 = (r, d2)" by fastforce
  from t have "r = MrOk 1"
  proof (cases rule: start_cases)
    case (failed e)
    with t c(1) show ?thesis by (simp add: execute_start_def send_mode_switch_def enqueue_def stopped_def Let_def)
  next
    case (committed ts)
    with c(2) show ?thesis by (simp add: stopped_def)
  qed
  with s t approved_survive_restart [OF s] show ?thesis by blast
qed

lemma mgmt_change_authorised_witness: "direct_control 0 keyed_daemon \<or> ctl_approved sample_adm 0 keyed_daemon"
proof -
  obtain out d' where h: "handle_admin_connection sample_adm (Some 0) (Some ''STOP STOP:'') keyed_daemon = (out, d')"
    by fastforce
  with sample_stop have "mgmt_state d' \<noteq> mgmt_state keyed_daemon"
    by (simp add: mgmt_state_def keyed_daemon_def sample_daemon_def)
  with h show ?thesis by (rule mgmt_change_authorised)
qed

lemma kernel_approval_needs_quorum_witness: "quorum_approved sample_adm 1000 voting_daemon 7"
proof -
  obtain out d' where
    h: "handle_admin_connection sample_adm (Some 1000) (Some ''APPROVE 7 APPROVE:7'') voting_daemon = (out, d')"
    by fastforce
  have "d_queue d' = d_queue voting_daemon @ [NsApprove 7]"
    using sample_approve h by (simp add: voting_daemon_def sample_daemon_def)
  from kernel_approval_needs_quorum [OF h this] show ?thesis by simp
qed

lemma voted_entry: "hm_get (d_pending voted_daemon) 7 = Some (sample_entry\<lparr>pe_mpa_state := voted\<rparr>)"
  by (simp add: voted_daemon_def hm_get_def)

lemma sample_deny:
  "\<exists>t ev d'. process_deny_entry vote_args voted_daemon = (Reply t (Some ev), d')"
proof -
  have "check_permission 1000 (mp_required_roles voted) 1 voted_daemon = Inr (True, [''admin''])"
    by (simp add: check_permission_def voted_daemon_def voting_daemon_def sample_daemon_def voted_def
        sample_mpa_def uid_roles_of_def sample_core_def empty_roles_core_def hm_get_def)
  moreover have "sa_id vote_args = ''7''" "sa_uid vote_args = 1000" by (simp_all add: vote_args_def)
  ultimately show ?thesis
    by (simp add: process_deny_entry_def seven voted_entry sample_entry_simps Let_def)
qed

lemma deny_needs_role_witness:
  "set (uid_roles_of voted_daemon 1000) \<inter> set (mp_required_roles voted) \<noteq> {}"
proof -
  have id: "sa_id vote_args = ''7''" "sa_uid vote_args = 1000" by (simp_all add: vote_args_def)
  from sample_deny obtain t ev d' where e: "process_deny_entry vote_args voted_daemon = (Reply t (Some ev), d')"
    by blast
  then have ev: "ev = IeEntryDenied (sample_entry\<lparr>pe_mpa_state := voted\<rparr>) 1000"
    by (auto simp: process_deny_entry_def id seven voted_entry Let_def split: sum.splits if_splits)
  from e have "process_deny vote_args voted_daemon = (Reply t (Some ev), d')"
    by (simp add: process_deny_def id seven)
  from deny_needs_role [OF this] show ?thesis
  proof
    assume same: "d' = voted_daemon"
    from e have "d_pending d' = hm_remove 7 (d_pending voted_daemon)"
      by (auto simp: process_deny_entry_def id seven voted_entry Let_def send_states split: sum.splits if_splits)
    with same have False by (simp add: voted_daemon_def hm_remove_def)
    then show ?thesis ..
  qed (auto simp: ev denied_roles_def id)
qed

lemma signed_command_roundtrip_witness:
  "parse_args ''APPROVE 7 APPROVE:7'' DkApprove 1000 = Inr vote_args"
proof -
  have "proper_args DkApprove 1000 vote_args"
    by (simp add: proper_args_def vote_args_def has_id_arg_def is_mgmt_decision_def seven signed_words_def
        plain_word_def plain_byte_def byte_def)
  from signed_command_roundtrip [OF this] show ?thesis
    by (simp add: signed_words_def vote_args_def has_id_arg_def)
qed

lemma denied_then_approved_witness:
  "\<exists>d2. d_queue (snd (finalize_entry_approval sample_world signed_vote d2)) = [NsDeny 7, NsApprove 7]"
proof -
  from sample_deny obtain t ev d2 where e: "process_deny_entry vote_args voted_daemon = (Reply t (Some ev), d2)"
    by blast
  have "sa_id vote_args = sa_id signed_vote" "d_mode voting_daemon = Enforce" "d_channel_open voting_daemon"
    "hm_wf (d_pending voting_daemon)" "d_queue voting_daemon = []"
    by (simp_all add: signed_vote_def voting_daemon_def sample_daemon_def hm_wf_def)
  note c = this
  from denied_then_approved [OF sample_recorded e c(1-4)] c(5) obtain i where
    q: "d_queue (snd (finalize_entry_approval sample_world signed_vote d2)) = [NsDeny i, NsApprove i]" by auto
  from e have "d_queue d2 = [NsDeny 7]"
    by (auto simp: process_deny_entry_def vote_args_def seven voted_entry Let_def send_states
        split: sum.splits if_splits) (auto simp: voted_daemon_def voting_daemon_def sample_daemon_def)
  then have "NsDeny 7 \<in> set (d_queue (snd (finalize_entry_approval sample_world signed_vote d2)))"
    using finalize_entry_frame [of sample_world signed_vote d2] by (cases "finalize_entry_approval sample_world signed_vote d2") auto
  with q have "i = 7" by simp
  with q show ?thesis by blast
qed

end
