(* ===== verification/System_Samples.thy ===== *)
theory System_Samples
  imports System Admin_Samples
begin

text \<open>Concrete runs at which the theorems about the whole daemon are applied.\<close>

lemma sample_reachable: "reachable approval_daemon" "reachable keyed_daemon"
  by (auto intro!: reachable.start
      simp: fresh_def approval_daemon_def keyed_daemon_def sample_daemon_def)




lemma configured_vote_completes_witness:
  "\<exists>m. foldR (cast_ballot sample_world) [sample_ballot 1000, sample_ballot 1001]
      \<lparr>mp_threshold = 2, mp_required_roles = [''admin''], mp_approvals = [], mp_aggregated = None\<rparr> = Inr m \<and>
     is_fulfilled m"
proof -
  let ?raw = "\<lparr>rmg_start = sample_raw_control, rmg_stop = sample_raw_control, rmg_policy_update = None,
    rmg_flush = None\<rparr>"
  let ?mpa = "\<lparr>mme_threshold = 2, mme_approver_roles = [''admin''], mme_timeout_minutes = 10\<rparr>"
  have c: "\<exists>m ws'. compile_control sample_core which sample_raw_control ws = Inr (m, ws') \<and>
      mc_mpa m = MpaEnabled ?mpa" for which ws
    by (simp add: compile_control_def sample_raw_control_def role_ref_step_def mgmt_validate_role_name_def
        mgmt_name_char_def is_ascii_alphabetic_def is_ascii_alphanumeric_def is_digit_def byte_def
        resolve_role_uids_def lookup_uids_in_compiled_roles_def sample_core_def empty_roles_core_def
        hs_of_list_def hs_insert_def mgmt_compile_mpa_def Let_def)
  obtain m1 w1 where m1: "compile_control sample_core ''start'' sample_raw_control [] = Inr (m1, w1)"
    "mc_mpa m1 = MpaEnabled ?mpa" using c by blast
  obtain m2 w2 where m2: "compile_control sample_core ''stop'' sample_raw_control w1 = Inr (m2, w2)"
    using c by blast
  let ?mg = "\<lparr>cm_start = m1, cm_stop = m2, cm_policy_update = None, cm_flush = None\<rparr>"
  have roles: "cb_roles (d_bundle sample_daemon) = sample_core" by (simp add: sample_daemon_def)
  have 1: "compile_management ?raw (cb_roles (d_bundle sample_daemon)) = Inr (?mg, w2)"
    using m1 m2 by (simp add: compile_management_def compile_control_opt_def roles)
  have 2: "core_wf (cb_roles (d_bundle sample_daemon))"
    by (simp add: roles core_wf_def sample_core_def hm_wf_def)
  have 3: "control_of ?mg CtlStart = Some m1" by (simp add: control_of_def)
  have 4: "set [1000, 1001] = approvers (cb_roles (d_bundle sample_daemon)) ?mpa"
    by (auto simp: roles approvers_def holds_role_def roles_at_def sample_core_def hm_get_def)
  have 5: "\<forall>u \<in> set [1000, 1001]. sa_uid (sample_args u) = u \<and>
      wd_hex_decode sample_world (sa_sig_hex (sample_args u)) = Inr ''s''"
    by (simp add: sample_args_def sample_world_def)
  have b: "map (\<lambda>u. \<lparr>bl_daemon = sample_daemon, bl_args = sample_args u, bl_epoch = d_epoch sample_daemon\<rparr>)
      [1000, 1001] = [sample_ballot 1000, sample_ballot 1001]"
    by (simp add: sample_ballot_def sample_daemon_def)
  show ?thesis using configured_vote_completes [OF 1 2 3 m1(2) 4 5] unfolding b by simp
qed

section \<open>An approval that outlives a flush\<close>

definition agreed_draft :: pre_approval_draft where
  "agreed_draft =
     \<lparr>dr_draft_id = ''T-000000009'', dr_epoch = 1, dr_audit_id = ''u'', dr_rule_id = ''R1'', dr_uid = 1000,
      dr_origin_program_id = entity 0 0, dr_origin_script_id = None, dr_origin_applet = None,
      dr_object_id = entity 0 0, dr_new_object_id = None, dr_op_mask = 1, dr_mpa_state = voted,
      dr_ttl_sec = 60, dr_max_uses = 1\<rparr>"

lemma sample_draft_ticket:
  "\<exists>t. draft_to_ticket sample_world agreed_draft approval_daemon =
     Some (agreed_draft\<lparr>dr_mpa_state := voted\<lparr>mp_aggregated := Some ''agg''\<rparr>\<rparr>, t) \<and> at_rule_id t = ''R1''"
proof -
  have "try_aggregate sample_world voted = Inr (voted\<lparr>mp_aggregated := Some ''agg''\<rparr>)"
    using sample_vote_inserted(2)
    by (simp add: try_aggregate_def hm_values_def signature_step_def sample_world_def voted_def sample_mpa_def)
  moreover have "find_rule (Some ''R1'') approval_daemon = Inr (Some approval_rule, 1)"
    by (simp add: find_rule_def approval_daemon_def approval_rule_def sample_rule_def)
  ultimately show ?thesis
    by (simp add: draft_to_ticket_def agreed_draft_def ticket_from_draft_def)
      (simp add: approval_daemon_def sample_daemon_def approval_rule_def sample_rule_def)
qed

lemma approval_outlives_flush_witness:
  "\<exists>d2 t dr1. execute_flush sample_adm approval_daemon = (MrOk 2, d2) \<and> at_epoch t \<noteq> d_epoch d2 \<and>
     (\<exists>p. d_queue (decision_worker_step sample_world (sample_req ''READ'' ''/etc/shadow'')
            (install_approved dr1 t d2)) = d_queue d2 @ [NsApprove 7, NsTicketAdd p])"
proof -
  let ?n = "sample_req ''READ'' ''/etc/shadow''"
  have o: "d_channel_open approval_daemon" "\<not> d_transition approval_daemon" "d_epoch approval_daemon = 1"
    by (simp_all add: approval_daemon_def sample_daemon_def)
  from sample_draft_ticket obtain dr1 t where
    t: "draft_to_ticket sample_world agreed_draft approval_daemon = Some (dr1, t)" "at_rule_id t = ''R1''" by blast
  from sample_flush [OF o] obtain d2 where f: "execute_flush sample_adm approval_daemon = (MrOk 2, d2)" by blast
  let ?d3 = "install_approved dr1 t d2"
  from f o(2) have "d_bundle d2 = d_bundle approval_daemon" "d_tty_sessions d2 = d_tty_sessions approval_daemon"
    by (cases rule: flush_cases; simp add: flushed_def)+
  then have "worker_evaluate sample_world ?n ?d3 = worker_evaluate sample_world ?n approval_daemon"
    by (simp add: worker_evaluate_def worker_context_def check_registered_session_def install_approved_def)
  then have m: "worker_evaluate sample_world ?n ?d3 = Matched approval_rule" using sample_evaluations(1) by simp
  have r: "cr_effect approval_rule = NeedApproval" "cr_id approval_rule = at_rule_id t" "tr_trans_id ?n = 7"
    using t(2) by (simp_all add: approval_rule_def sample_rule_def sample_req_def)
  from approval_outlives_flush [OF t(1) f o(2,1) m r(1,2)] f r(3) show ?thesis by auto
qed

lemma sample_boot:
  "\<exists>d. boot Little sample_adm [Payload CmdRegister [(EpochA, u32_to Little 5)]] 9 [TxOther 7, TxAck 1000] =
     Some (Inr d)"
proof -
  obtain b m ws where l: "load_bundle_from_dir sample_platform staged_loader DEFAULT_TEAL_DIR = Inr b"
    "prepare_management (bd_loader staged_loader) MANAGEMENT_PATH (cb_roles b) = Inr (m, ws)"
    using sample_loaded [of DEFAULT_TEAL_DIR MANAGEMENT_PATH] by (auto simp: DEFAULT_TEAL_DIR_def)
  have a: "ax_platform sample_adm = sample_platform" "ax_loader sample_adm = staged_loader"
    "ax_epoch_ack sample_adm = (\<lambda>_. Inr ())"
    by (simp_all add: sample_adm_def)
  show ?thesis
    by (simp add: boot_def init_socket_def publish_policy_def init_bundle_at_epoch_def init_state_def
        send_sync_epoch_def enqueue_def a l)
qed

lemma boot_synchronised_witness:
  "\<exists>d. boot Little sample_adm [Payload CmdRegister [(EpochA, u32_to Little 5)]] 9 [TxOther 7, TxAck 1000] =
     Some (Inr d) \<and> d_epoch d = 5 \<and> reachable d"
proof -
  from sample_boot obtain d where
    b: "boot Little sample_adm [Payload CmdRegister [(EpochA, u32_to Little 5)]] 9 [TxOther 7, TxAck 1000] =
      Some (Inr d)" by blast
  from boot_synchronised [OF b] b show ?thesis by simp
qed

lemma start_undone_by_monitor_witness:
  "\<exists>d1. execute_start sample_adm (sample_daemon\<lparr>d_mode := Drain\<rparr>) = (MrOk 1, d1) \<and>
     d_mode (end_drain d1) = Audit \<and> NsModeSwitch 1 \<in> set (d_queue (end_drain d1))"
proof -
  obtain r d1 where s: "execute_start sample_adm (sample_daemon\<lparr>d_mode := Drain\<rparr>) = (r, d1)" by fastforce
  then have r: "r = MrOk 1"
  proof (cases rule: start_cases)
    case (failed e)
    with s show ?thesis
      by (auto simp: execute_start_def send_mode_switch_def enqueue_def sample_daemon_def Let_def)
  qed (simp add: sample_daemon_def)
  from start_undone_by_monitor [OF s [unfolded r]] have
    "NsModeSwitch 1 \<in> set (filter (\<lambda>m. case m of NsModeSwitch _ \<Rightarrow> True | _ \<Rightarrow> False) (d_queue (end_drain d1)))"
    "d_mode (end_drain d1) = Audit"
    by (metis in_set_conv_decomp, blast)
  with s r show ?thesis by simp
qed

end
