(* ===== verification/Kernel_Rs.thy ===== *)
theory Kernel_Rs
  imports Decision Rust_Utf8
begin

text \<open>
  The Rust half of the security module, \<open>kernel/security/teal/teal_rs.rs\<close>: the decision maker the
  C hooks call. The C half is a parameter: the function that waits for the verdict of the daemon,
  the name of the current task and the allocation of C strings. Pointers that may be NULL are
  options, the bytes up to the NUL are strings.
\<close>

section \<open>What the C side hands over\<close>

record c_context =
  cx_target :: "string option"
  cx_program :: "string option"
  cx_script :: "string option"
  cx_args :: "string option"
  cx_target_dev :: u64
  cx_target_ino :: u64

record c_rename_context =
  cr_ctx_program :: "string option"
  cr_ctx_script :: "string option"
  cr_ctx_args :: "string option"
  cr_ctx_old_target :: "string option"
  cr_ctx_old_dev :: u64
  cr_ctx_old_ino :: u64
  cr_ctx_new_target :: "string option"
  cr_ctx_new_dev :: u64
  cr_ctx_new_ino :: u64

text \<open>The pointer of the callback is read as one structure or the other, depending on the event.\<close>

record c_pointer =
  cp_as_file :: c_context
  cp_as_rename :: c_rename_context

text \<open>The arguments of \<open>teal_wait_for_approval\<close>.\<close>

record approval_call =
  ak_action :: string
  ak_target :: string
  ak_target_dev :: u64
  ak_target_ino :: u64
  ak_new_target :: string
  ak_new_target_dev :: u64
  ak_new_target_ino :: u64
  ak_teal_mode :: u8
  ak_program :: string
  ak_script :: string
  ak_applet :: string
  ak_args :: string

record kernel_env =
  ke_wait :: "approval_call \<Rightarrow> int"
  ke_comm :: string
  ke_cstring :: "string \<Rightarrow> int + string"
  ke_enforcing :: bool

section \<open>Configuration\<close>

definition teal_update_config :: "int \<Rightarrow> kernel_env \<Rightarrow> kernel_env" where
  "teal_update_config mode k = k\<lparr>ke_enforcing := (mode = 1)\<rparr>"

section \<open>Asking for approval\<close>

text \<open>\<open>Inl\<close> is the error number of the second attempt.\<close>

definition to_kcstring_or_empty :: "kernel_env \<Rightarrow> string \<Rightarrow> int + string" where
  "to_kcstring_or_empty k s =
     (case ke_cstring k s of Inr cs \<Rightarrow> Inr cs | Inl _ \<Rightarrow> ke_cstring k [])"

definition request_approval_ex :: "kernel_env \<Rightarrow> approval_call \<Rightarrow> int" where
  "request_approval_ex k c =
     (let mode = (if ke_enforcing k then 0 else 1);
          conv = to_kcstring_or_empty k;
          res = bindR (conv (ak_action c)) (\<lambda>action.
            bindR (conv (ak_target c)) (\<lambda>target.
            bindR (conv (ak_new_target c)) (\<lambda>new_target.
            bindR (conv (ak_program c)) (\<lambda>program.
            bindR (conv (ak_script c)) (\<lambda>script.
            bindR (conv (ak_applet c)) (\<lambda>applet.
            bindR (conv (ak_args c)) (\<lambda>args.
              Inr (ke_wait k (c\<lparr>ak_action := action, ak_target := target, ak_new_target := new_target,
                ak_teal_mode := mode, ak_program := program, ak_script := script,
                ak_applet := applet, ak_args := args\<rparr>)))))))))
      in case res of Inl errno \<Rightarrow> errno | Inr r \<Rightarrow> r)"

section \<open>Strings\<close>

definition str_or_empty :: "string \<Rightarrow> string" where
  "str_or_empty s = (if utf8_valid s then s else [])"

definition comm_bytes_to_str :: "string \<Rightarrow> string" where
  "comm_bytes_to_str comm = str_or_empty (takeWhile (\<lambda>b. b \<noteq> CHR 0x00) comm)"

definition cstr_to_str_lossy :: "string option \<Rightarrow> string" where
  "cstr_to_str_lossy p = (case p of None \<Rightarrow> [] | Some s \<Rightarrow> str_or_empty s)"

section \<open>Events\<close>

definition EVENT_READ :: u32 where "EVENT_READ = 1"

definition EVENT_WRITE :: u32 where "EVENT_WRITE = 2"

definition EVENT_EXECUTE :: u32 where "EVENT_EXECUTE = 4"

definition EVENT_DELETE :: u32 where "EVENT_DELETE = 8"

definition EVENT_UNLINK :: u32 where "EVENT_UNLINK = 16"

definition EVENT_RENAME :: u32 where "EVENT_RENAME = 32"

definition EVENT_CHMOD :: u32 where "EVENT_CHMOD = 64"

definition EVENT_CHOWN :: u32 where "EVENT_CHOWN = 128"

definition EVENT_CONNECT :: u32 where "EVENT_CONNECT = 256"

lemmas event_defs = EVENT_READ_def EVENT_WRITE_def EVENT_EXECUTE_def EVENT_DELETE_def
  EVENT_UNLINK_def EVENT_RENAME_def EVENT_CHMOD_def EVENT_CHOWN_def EVENT_CONNECT_def

definition action_name_for_event :: "u32 \<Rightarrow> string option" where
  "action_name_for_event ev =
     (if ev = EVENT_READ then Some ''READ'' else if ev = EVENT_WRITE then Some ''WRITE''
      else if ev = EVENT_EXECUTE then Some ''EXECUTE'' else if ev = EVENT_DELETE then Some ''DELETE''
      else if ev = EVENT_UNLINK then Some ''DELETE'' else if ev = EVENT_RENAME then Some ''RENAME''
      else if ev = EVENT_CHMOD then Some ''CHMOD'' else if ev = EVENT_CHOWN then Some ''CHOWN''
      else None)"

record teal_context =
  tc_target :: string
  tc_program :: string
  tc_script :: string
  tc_args :: string
  tc_target_dev :: u64
  tc_target_ino :: u64

definition parse_teal_ctx :: "c_pointer option \<Rightarrow> teal_context option" where
  "parse_teal_ctx ctx =
     (case ctx of
        None \<Rightarrow> None
      | Some p \<Rightarrow> (let c = cp_as_file p in Some
          \<lparr>tc_target = cstr_to_str_lossy (cx_target c), tc_program = cstr_to_str_lossy (cx_program c),
           tc_script = cstr_to_str_lossy (cx_script c), tc_args = cstr_to_str_lossy (cx_args c),
           tc_target_dev = cx_target_dev c, tc_target_ino = cx_target_ino c\<rparr>))"

definition single_target_call :: "kernel_env \<Rightarrow> string \<Rightarrow> teal_context \<Rightarrow> approval_call" where
  "single_target_call k action t =
     \<lparr>ak_action = action, ak_target = tc_target t, ak_target_dev = tc_target_dev t,
      ak_target_ino = tc_target_ino t, ak_new_target = [], ak_new_target_dev = 0,
      ak_new_target_ino = 0, ak_teal_mode = 0, ak_program = tc_program t, ak_script = tc_script t,
      ak_applet = comm_bytes_to_str (ke_comm k), ak_args = tc_args t\<rparr>"

definition handle_file_event :: "kernel_env \<Rightarrow> u32 \<Rightarrow> c_pointer option \<Rightarrow> int" where
  "handle_file_event k ev ctx =
     (case action_name_for_event ev of
        None \<Rightarrow> 0
      | Some action \<Rightarrow>
          (case parse_teal_ctx ctx of
             None \<Rightarrow> 0
           | Some t \<Rightarrow> request_approval_ex k (single_target_call k action t)))"

definition handle_dentry_event :: "kernel_env \<Rightarrow> u32 \<Rightarrow> c_pointer option \<Rightarrow> int" where
  "handle_dentry_event k ev ctx =
     (case action_name_for_event ev of
        None \<Rightarrow> 0
      | Some action \<Rightarrow>
          (case parse_teal_ctx ctx of
             None \<Rightarrow> 0
           | Some t \<Rightarrow> request_approval_ex k (single_target_call k action t)))"

definition dash_if_empty :: "string \<Rightarrow> string" where
  "dash_if_empty s = (if s = [] then ''-'' else s)"

definition handle_connect_event :: "kernel_env \<Rightarrow> c_pointer option \<Rightarrow> int" where
  "handle_connect_event k ctx =
     (case parse_teal_ctx ctx of
        None \<Rightarrow> 0
      | Some t \<Rightarrow> request_approval_ex k ((single_target_call k ''CONNECT'' t)
          \<lparr>ak_program := dash_if_empty (tc_program t), ak_script := dash_if_empty (tc_script t),
           ak_args := dash_if_empty (tc_args t)\<rparr>))"

definition rename_call :: "kernel_env \<Rightarrow> c_rename_context \<Rightarrow> approval_call" where
  "rename_call k c =
     \<lparr>ak_action = ''RENAME'', ak_target = cstr_to_str_lossy (cr_ctx_old_target c),
      ak_target_dev = cr_ctx_old_dev c, ak_target_ino = cr_ctx_old_ino c,
      ak_new_target = cstr_to_str_lossy (cr_ctx_new_target c), ak_new_target_dev = cr_ctx_new_dev c,
      ak_new_target_ino = cr_ctx_new_ino c, ak_teal_mode = 0,
      ak_program = cstr_to_str_lossy (cr_ctx_program c), ak_script = cstr_to_str_lossy (cr_ctx_script c),
      ak_applet = comm_bytes_to_str (ke_comm k), ak_args = cstr_to_str_lossy (cr_ctx_args c)\<rparr>"

definition handle_rename_event :: "kernel_env \<Rightarrow> c_pointer option \<Rightarrow> int" where
  "handle_rename_event k ctx =
     (case ctx of None \<Rightarrow> 0 | Some p \<Rightarrow> request_approval_ex k (rename_call k (cp_as_rename p)))"

section \<open>The decision maker\<close>

definition all_events :: "u32 list" where
  "all_events = [EVENT_READ, EVENT_WRITE, EVENT_EXECUTE, EVENT_DELETE, EVENT_UNLINK, EVENT_RENAME,
     EVENT_CHMOD, EVENT_CHOWN, EVENT_CONNECT]"

definition handle_event :: "kernel_env \<Rightarrow> u32 \<Rightarrow> c_pointer option \<Rightarrow> int" where
  "handle_event k ev ctx =
     (if ev = EVENT_READ \<or> ev = EVENT_EXECUTE \<or> ev = EVENT_WRITE \<or> ev = EVENT_CHMOD \<or> ev = EVENT_CHOWN
      then handle_file_event k ev ctx
      else if ev = EVENT_UNLINK \<or> ev = EVENT_DELETE then handle_dentry_event k ev ctx
      else if ev = EVENT_RENAME then handle_rename_event k ctx
      else if ev = EVENT_CONNECT then handle_connect_event k ctx
      else 0)"

fun decide_events :: "kernel_env \<Rightarrow> u32 \<Rightarrow> c_pointer option \<Rightarrow> u32 list \<Rightarrow> int" where
  "decide_events k event_type ctx [] = 0"
| "decide_events k event_type ctx (ev # evs) =
     (if event_type AND ev \<noteq> 0 then
        (let res = handle_event k ev ctx
         in if res \<noteq> 0 then res else decide_events k event_type ctx evs)
      else decide_events k event_type ctx evs)"

definition teal_decision_logic :: "kernel_env \<Rightarrow> u32 \<Rightarrow> c_pointer option \<Rightarrow> int" where
  "teal_decision_logic k event_type ctx = decide_events k event_type ctx all_events"

section \<open>Properties\<close>

lemma decide_events_find:
  "decide_events k event_type ctx evs =
     (case List.find (\<lambda>ev. event_type AND ev \<noteq> 0 \<and> handle_event k ev ctx \<noteq> 0) evs of
        Some ev \<Rightarrow> handle_event k ev ctx | None \<Rightarrow> 0)"
  by (induction evs) (auto simp: Let_def)


text \<open>The action of a request whose name is one the kernel module sends.\<close>

lemma event_action_parse:
  "action_name_for_event ev = Some a \<Longrightarrow>
     action_parse a = Inr (if ev = EVENT_READ then Read else if ev = EVENT_WRITE then Write
       else if ev = EVENT_EXECUTE then Execute else if ev = EVENT_DELETE \<or> ev = EVENT_UNLINK then FileDelete
       else if ev = EVENT_RENAME then FileRename else if ev = EVENT_CHMOD then FileChmod else FileChown)"
  unfolding action_name_for_event_def
  by (auto split: if_splits simp: event_defs action_parse_plain plain_byte_def byte_def
      to_ascii_lowercase_def ascii_lower_def)

text \<open>
  A rule on FILE_UNLINK never applies. The module reports removing a file under the name of
  removing a directory, so no event it sends makes a request whose action is unlink, and a rule
  that lists only that action matches none of them.
\<close>

theorem unlink_rules_dead:
  assumes "action_name_for_event ev = Some a" and "tr_action n = a"
    and "cr_action_match r = AmOneOf [FileUnlink]"
    and "ctx = request_to_ctx (from_enforce_teal_req n) roles session"
  shows "ac_action ctx \<noteq> FileUnlink \<and> \<not> rule_matches env r nets ctx st"
proof -
  have "ac_action ctx \<noteq> FileUnlink"
    using event_action_parse [OF assms(1)] assms(2,4)
    by (simp add: request_to_ctx_def from_enforce_teal_req_def request_from_teal_req_def)
  then show ?thesis using assms(3) by (simp add: rule_matches_def)
qed

lemma request_approval_mode:
  assumes "\<forall>c. ak_teal_mode c = (if ke_enforcing k then 0 else 1) \<longrightarrow> w c = ke_wait k c"
  shows "request_approval_ex (k\<lparr>ke_wait := w\<rparr>) c = request_approval_ex k c"
proof -
  have "to_kcstring_or_empty (k\<lparr>ke_wait := w\<rparr>) = to_kcstring_or_empty k"
    by (rule ext) (simp add: to_kcstring_or_empty_def split: sum.split)
  then show ?thesis using assms by (simp add: request_approval_ex_def Let_def)
qed

lemma handle_event_mode:
  assumes "\<forall>c. ak_teal_mode c = (if ke_enforcing k then 0 else 1) \<longrightarrow> w c = ke_wait k c"
  shows "handle_event (k\<lparr>ke_wait := w\<rparr>) ev ctx = handle_event k ev ctx"
proof -
  let ?k = "k\<lparr>ke_wait := w\<rparr>"
  have "single_target_call ?k a t = single_target_call k a t"
    "rename_call ?k c = rename_call k c" for a t c
    by (simp_all add: single_target_call_def rename_call_def)
  then have "handle_file_event ?k ev ctx = handle_file_event k ev ctx"
    "handle_dentry_event ?k ev ctx = handle_dentry_event k ev ctx"
    "handle_rename_event ?k ctx = handle_rename_event k ctx"
    "handle_connect_event ?k ctx = handle_connect_event k ctx"
    by (simp_all add: handle_file_event_def handle_dentry_event_def handle_rename_event_def
        handle_connect_event_def request_approval_mode [OF assms] split: option.split)
  then show ?thesis by (simp only: handle_event_def)
qed

text \<open>
  The mode reaches every question: whatever the event, the daemon is asked with the audit flag
  set exactly when the module is not enforcing, and switching the mode changes nothing else.
\<close>

theorem mode_reaches_every_question:
  assumes "\<forall>c. ak_teal_mode c = (if ke_enforcing k then 0 else 1) \<longrightarrow> w c = ke_wait k c"
  shows "teal_decision_logic (k\<lparr>ke_wait := w\<rparr>) event_type ctx = teal_decision_logic k event_type ctx"
  by (simp add: teal_decision_logic_def decide_events_find handle_event_mode [OF assms] split: option.split)

section \<open>Witnesses\<close>

definition sample_kernel :: kernel_env where
  "sample_kernel = \<lparr>ke_wait = (\<lambda>c. if ak_teal_mode c = 0 \<and> ak_action c = ''DELETE'' then - 13 else 0),
     ke_comm = ''rm'', ke_cstring = Inr, ke_enforcing = True\<rparr>"

definition sample_pointer :: c_pointer where
  "sample_pointer =
     \<lparr>cp_as_file = \<lparr>cx_target = Some ''/srv/x'', cx_program = Some ''/bin/rm'', cx_script = None,
        cx_args = None, cx_target_dev = 1, cx_target_ino = 2\<rparr>,
      cp_as_rename = \<lparr>cr_ctx_program = None, cr_ctx_script = None, cr_ctx_args = None,
        cr_ctx_old_target = None, cr_ctx_old_dev = 0, cr_ctx_old_ino = 0, cr_ctx_new_target = None,
        cr_ctx_new_dev = 0, cr_ctx_new_ino = 0\<rparr>\<rparr>"

lemma sample_unlink_refused:
  "teal_decision_logic sample_kernel EVENT_UNLINK (Some sample_pointer) = - 13"
  by code_simp

lemma unlink_rules_dead_witness:
  "\<not> rule_matches sample_env (sample_rule\<lparr>cr_action_match := AmOneOf [FileUnlink]\<rparr>) nets
     (request_to_ctx (from_enforce_teal_req ((sample_req ''DELETE'' ''/etc/shadow''))) roles session) st"
  using unlink_rules_dead [of EVENT_UNLINK "''DELETE''" "sample_req ''DELETE'' ''/etc/shadow''"
      "sample_rule\<lparr>cr_action_match := AmOneOf [FileUnlink]\<rparr>"]
  by (simp add: event_defs action_name_for_event_def sample_req_def)

lemma mode_reaches_every_question_witness:
  "teal_decision_logic (sample_kernel\<lparr>ke_wait := (\<lambda>c. if ak_action c = ''DELETE'' then - 13 else 0)\<rparr>)
     EVENT_UNLINK (Some sample_pointer) = - 13"
  by (subst mode_reaches_every_question) (simp_all add: sample_kernel_def sample_unlink_refused [unfolded sample_kernel_def])

end
