(* ===== verification/Netlink_Send.thy ===== *)
theory Netlink_Send
  imports Netlink
begin

text \<open>
  The sending half of \<open>netlink.rs\<close>: the packets, the acknowledgement of POLICY_UPDATE and the
  worker that owns the socket. A packet keeps its command, its header flags and its attributes;
  the header fields the kernel fills in are not part of it.
\<close>

section \<open>Packets\<close>

record packet =
  pk_cmd :: teal_cmd
  pk_ack :: bool
  pk_seq :: "u32 option"
  pk_attrs :: attrs

definition plain_packet :: "teal_cmd \<Rightarrow> attrs \<Rightarrow> packet" where
  "plain_packet c as = \<lparr>pk_cmd = c, pk_ack = False, pk_seq = None, pk_attrs = as\<rparr>"

definition build_approve :: "endian \<Rightarrow> u64 \<Rightarrow> packet" where
  "build_approve e trans_id = plain_packet CmdApprove [(TransId, u64_to e trans_id)]"

definition build_deny :: "endian \<Rightarrow> u64 \<Rightarrow> packet" where
  "build_deny e trans_id = plain_packet CmdDeny [(TransId, u64_to e trans_id)]"

definition build_mode_switch_packet :: "endian \<Rightarrow> u32 \<Rightarrow> packet" where
  "build_mode_switch_packet e mode = plain_packet CmdModeSwitch [(Flags, u32_to e mode)]"

definition build_sync_epoch_packet :: "endian \<Rightarrow> u32 \<Rightarrow> packet" where
  "build_sync_epoch_packet e epoch =
     (plain_packet CmdPolicyUpdate [(EpochA, u32_to e epoch)])\<lparr>pk_ack := True\<rparr>"

text \<open>The sum wraps: overflow checks are off in the release profile.\<close>

definition expires_at :: "u64 \<Rightarrow> u64 \<Rightarrow> u64" where
  "expires_at now ttl = (if ttl < - 1 then now + ttl else - 1)"

definition numeric_ticket_id :: "string \<Rightarrow> u64" where
  "numeric_ticket_id s = (case parse_u64 (trim_any [''T-''] s) of Some v \<Rightarrow> v | None \<Rightarrow> 0)"

definition build_ticket_add :: "endian \<Rightarrow> u64 \<Rightarrow> ticket_payload \<Rightarrow> packet" where
  "build_ticket_add e now t = plain_packet CmdTicketAdd
     [(Uid, u32_to e (tk_uid t)), (Op, u32_to e (tk_op t)),
      (ProgDev, u32_to e (ucast (tk_prog_dev t))), (ProgIno, u64_to e (tk_prog_ino t)),
      (ScriptDev, u32_to e (ucast (tk_script_dev t))), (ScriptIno, u64_to e (tk_script_ino t)),
      (TargetDev, u32_to e (ucast (tk_target_dev t))), (TargetIno, u64_to e (tk_target_ino t)),
      (NewTargetDev, u32_to e (ucast (tk_new_target_dev t))),
      (NewTargetIno, u64_to e (tk_new_target_ino t)),
      (ExpiresAt, u64_to e (expires_at now (tk_expires_in_sec t))), (Flags, u32_to e (tk_flags t)),
      (UsesLeft, u32_to e (tk_uses_left t)),
      (TicketId, u64_to e (numeric_ticket_id (tk_ticket_id t))), (EpochA, u32_to e (tk_epoch t)),
      (AuditFlg, u32_to e (tk_audit_flags t)), (AppletHash, u64_to e (tk_applet_hash t))]"

section \<open>The acknowledgement\<close>

text \<open>One datagram: the messages in it are framed by their own length, aligned to four bytes.\<close>

datatype ack = AckOk | AckFail string | AckAbsent

definition align4 :: "nat \<Rightarrow> nat" where
  "align4 n = (n + 3) div 4 * 4"

lemma align4_ge: "n \<le> align4 n"
  unfolding align4_def by presburger

definition field :: "endian \<Rightarrow> nat \<Rightarrow> nat \<Rightarrow> string \<Rightarrow> nat" where
  "field e off n b = le_value (let s = take n (drop off b) in case e of Little \<Rightarrow> s | Big \<Rightarrow> rev s)"

definition i32_of :: "nat \<Rightarrow> int" where
  "i32_of v = sint (of_nat v :: u32)"

definition show_i32 :: "int \<Rightarrow> string" where
  "show_i32 i = (if i < 0 then CHR ''-'' # show_nat (nat (- i)) else show_nat (nat i))"

function scan_ack :: "endian \<Rightarrow> u32 \<Rightarrow> string \<Rightarrow> ack" where
  "scan_ack e seq b =
     (if length b < 16 then (if b = [] then AckAbsent else AckFail ''Truncated Netlink response'')
      else
        (let len = field e 0 4 b
         in if len < 16 \<or> len > length b then AckFail ''Malformed Netlink response''
            else if field e 8 4 b = unat seq \<and> field e 4 2 b = 2 then
              (if len < 20 then AckFail ''Short Netlink ACK''
               else if i32_of (field e 16 4 b) = 0 then AckOk
               else AckFail (''POLICY_UPDATE rejected by kernel: errno='' @
                 show_i32 (i32_of (field e 16 4 b))))
            else scan_ack e seq (drop (align4 len) b)))"
  by pat_completeness auto
termination
proof (relation "measure (\<lambda>(e, seq, b). length b)")
  fix e :: endian and seq :: u32 and b :: string and len :: nat
  assume "\<not> length b < 16" "len = field e 0 4 b" "\<not> (len < 16 \<or> length b < len)"
  then show "((e, seq, drop (align4 len) b), e, seq, b) \<in> measure (\<lambda>(e, seq, b). length b)"
    using align4_ge [of len] by auto
qed simp

declare scan_ack.simps [simp del]

text \<open>
  The wait over what the socket delivers: \<open>None\<close> while no answer has arrived. The receive timeout
  of the socket is one of the \<open>RecvFailed\<close> results.
\<close>

datatype recv_result = Interrupted | RecvFailed string | Closed | Datagram string

fun wait_policy_update_ack :: "endian \<Rightarrow> u32 \<Rightarrow> recv_result list \<Rightarrow> (string + unit) option" where
  "wait_policy_update_ack e seq [] = None"
| "wait_policy_update_ack e seq (r # rs) =
     (case r of
        Interrupted \<Rightarrow> wait_policy_update_ack e seq rs
      | RecvFailed err \<Rightarrow> Some (Inl (''POLICY_UPDATE ACK recv failed: '' @ err))
      | Closed \<Rightarrow> Some (Inl ''TX socket closed while waiting for POLICY_UPDATE ACK'')
      | Datagram b \<Rightarrow>
          (case scan_ack e seq b of
             AckOk \<Rightarrow> Some (Inr ())
           | AckFail err \<Rightarrow> Some (Inl err)
           | AckAbsent \<Rightarrow> wait_policy_update_ack e seq rs))"

section \<open>The sending worker\<close>

datatype ser_error = Wrapped string | OtherSerError

definition contains :: "string \<Rightarrow> string \<Rightarrow> bool" where
  "contains s pat \<longleftrightarrow> sublist pat s"

definition is_fatal_netlink_error :: "ser_error \<Rightarrow> bool" where
  "is_fatal_netlink_error err =
     (case err of
        Wrapped s \<Rightarrow> contains s ''BrokenPipe'' \<or> contains s ''ConnectionReset'' \<or> contains s ''NotConnected''
      | OtherSerError \<Rightarrow> False)"

text \<open>What the socket does during one iteration.\<close>

record sock_outcome =
  so_now :: u64
  so_send :: "ser_error option"
  so_replies :: "recv_result list"

record sender =
  sn_seq :: u32
  sn_sent :: "packet list"
  sn_responses :: "(u32 \<times> (string + unit)) list"
  sn_running :: bool

text \<open>The checks at dispatch time: a ticket is dropped during a transition or when it is stale.\<close>

definition dispatch_allowed :: "daemon \<Rightarrow> netlink_send \<Rightarrow> bool" where
  "dispatch_allowed d m =
     (case m of
        NsTicketAdd t \<Rightarrow> \<not> d_transition d \<and> tk_epoch t = d_epoch d
      | _ \<Rightarrow> True)"

definition build_packet :: "endian \<Rightarrow> u64 \<Rightarrow> netlink_send \<Rightarrow> packet" where
  "build_packet e now m =
     (case m of
        NsApprove i \<Rightarrow> build_approve e i
      | NsDeny i \<Rightarrow> build_deny e i
      | NsTicketAdd t \<Rightarrow> build_ticket_add e now t
      | NsModeSwitch mode \<Rightarrow> build_mode_switch_packet e mode
      | NsSyncEpoch epoch \<Rightarrow> build_sync_epoch_packet e epoch)"

definition sync_epoch_step :: "endian \<Rightarrow> sock_outcome \<Rightarrow> u32 \<Rightarrow> sender \<Rightarrow> sender" where
  "sync_epoch_step e so epoch sn =
     (let seq = sn_seq sn; sn1 = sn\<lparr>sn_seq := seq + 1\<rparr>;
          p = (build_sync_epoch_packet e epoch)\<lparr>pk_seq := Some seq\<rparr>
      in case so_send so of
           Some (Wrapped err) \<Rightarrow> sn1\<lparr>sn_responses := sn_responses sn @ [(epoch, Inl err)]\<rparr>
         | Some OtherSerError \<Rightarrow> sn1\<lparr>sn_responses := sn_responses sn @ [(epoch, Inl [])]\<rparr>
         | None \<Rightarrow>
             (let sn2 = sn1\<lparr>sn_sent := sn_sent sn @ [p]\<rparr>
              in case wait_policy_update_ack e seq (so_replies so) of
                   None \<Rightarrow> sn2\<lparr>sn_running := False\<rparr>
                 | Some res \<Rightarrow> sn2\<lparr>sn_responses := sn_responses sn @ [(epoch, res)]\<rparr>))"

definition send_worker_step ::
  "endian \<Rightarrow> sock_outcome \<Rightarrow> daemon \<Rightarrow> netlink_send \<Rightarrow> sender \<Rightarrow> sender" where
  "send_worker_step e so d m sn =
     (case m of
        NsSyncEpoch epoch \<Rightarrow> sync_epoch_step e so epoch sn
      | _ \<Rightarrow>
          (if \<not> dispatch_allowed d m then sn
           else case so_send so of
               None \<Rightarrow> sn\<lparr>sn_sent := sn_sent sn @ [build_packet e (so_now so) m]\<rparr>
             | Some err \<Rightarrow> (if is_fatal_netlink_error err then sn\<lparr>sn_running := False\<rparr> else sn)))"

text \<open>
  The loop over the queue. Every entry carries the state of the daemon and the behaviour of the
  socket at the moment the request is taken from the queue.
\<close>

fun netlink_send_worker_loop ::
  "endian \<Rightarrow> (sock_outcome \<times> daemon \<times> netlink_send) list \<Rightarrow> sender \<Rightarrow> sender" where
  "netlink_send_worker_loop e [] sn = sn"
| "netlink_send_worker_loop e ((so, d, m) # xs) sn =
     (if \<not> sn_running sn then sn
      else netlink_send_worker_loop e xs (send_worker_step e so d m sn))"

section \<open>Ticket numbers on the wire\<close>

lemma trim_ticket_prefix:
  assumes "s \<noteq> []" and "list_all is_digit s"
  shows "trim_any [''T-''] (''T-'' @ s) = s"
proof -
  from assms have "\<not> prefix ''T-'' s"
    by (cases s) (auto simp: is_digit_def byte_def)
  then have "trim_any [''T-''] s = s" by (intro trim_any_fix) simp
  then show ?thesis by (subst trim_any.simps) simp
qed

lemma numeric_ticket_id_padded: "numeric_ticket_id (''T-'' @ pad_nat w (unat v)) = v"
proof -
  have "unat v < 2 ^ 64" using unat_less [of v] by simp
  then have "parse_u64 (pad_nat w (unat v)) = Some v"
    by (simp add: parse_u64_def parse_uint_pad_nat)
  then show ?thesis using trim_ticket_prefix pad_nat_digits
    by (simp add: numeric_ticket_id_def)
qed

section \<open>Framing\<close>

record reply =
  ry_type :: u16
  ry_flags :: u16
  ry_seq :: u32
  ry_pid :: u32
  ry_body :: string

definition frame :: "endian \<Rightarrow> reply \<Rightarrow> string" where
  "frame e m =
     (let n = 16 + length (ry_body m)
      in u32_to e (of_nat n) @ u16_to e (ry_type m) @ u16_to e (ry_flags m) @ u32_to e (ry_seq m) @
         u32_to e (ry_pid m) @ ry_body m @ replicate (align4 n - n) (CHR 0x00))"

text \<open>What one reply means for the update with the given sequence number.\<close>

definition reply_verdict :: "endian \<Rightarrow> u32 \<Rightarrow> reply \<Rightarrow> ack" where
  "reply_verdict e seq m =
     (if ry_seq m \<noteq> seq \<or> ry_type m \<noteq> 2 then AckAbsent
      else if length (ry_body m) < 4 then AckFail ''Short Netlink ACK''
      else let code = i32_of (field e 0 4 (ry_body m))
        in if code = 0 then AckOk else AckFail (''POLICY_UPDATE rejected by kernel: errno='' @ show_i32 code))"

fun first_answer :: "endian \<Rightarrow> u32 \<Rightarrow> reply list \<Rightarrow> ack" where
  "first_answer e seq [] = AckAbsent"
| "first_answer e seq (m # ms) =
     (case reply_verdict e seq m of AckAbsent \<Rightarrow> first_answer e seq ms | a \<Rightarrow> a)"

lemma field_skip: "length a = off \<Longrightarrow> field e (off + k) n (a @ b) = field e k n b"
  by (simp add: field_def)

lemma field_u16: "field e 0 2 (u16_to e v @ b) = unat v"
  using from_to(1) [of e v] unat_less [of v]
  by (cases e) (simp_all add: field_def u16_to_def to_ne_bytes_def le_value_bytes Let_def)

lemma field_u32: "field e 0 4 (u32_to e v @ b) = unat v"
  using unat_less [of v]
  by (cases e) (simp_all add: field_def u32_to_def to_ne_bytes_def le_value_bytes Let_def)

lemma field_take: "k + n \<le> length a \<Longrightarrow> field e k n (a @ b) = field e k n a"
  by (simp add: field_def)

lemma frame_fields:
  assumes "length (ry_body m) < 65536"
  shows "field e 0 4 (frame e m @ r) = 16 + length (ry_body m)"
    and "field e 4 2 (frame e m @ r) = unat (ry_type m)"
    and "field e 8 4 (frame e m @ r) = unat (ry_seq m)"
    and "4 \<le> length (ry_body m) \<Longrightarrow> field e 16 4 (frame e m @ r) = field e 0 4 (ry_body m)"
    and "length (frame e m) = align4 (16 + length (ry_body m))"
proof -
  let ?n = "16 + length (ry_body m)"
  have n: "unat (of_nat ?n :: u32) = ?n" using assms by (simp add: unat_of_nat take_bit_nat_eq_self del: of_nat_add)
  show "field e 0 4 (frame e m @ r) = ?n"
    by (simp add: frame_def Let_def field_u32 n del: of_nat_add)
  have "field e (4 + 0) 2 (frame e m @ r) = unat (ry_type m)"
    unfolding frame_def Let_def append.assoc by (subst field_skip) (simp_all add: field_u16)
  then show "field e 4 2 (frame e m @ r) = unat (ry_type m)" by simp
  have "field e (4 + (2 + (2 + 0))) 4 (frame e m @ r) = unat (ry_seq m)"
    unfolding frame_def Let_def append.assoc
    by (subst field_skip, simp)+ (simp add: field_u32)
  then show "field e 8 4 (frame e m @ r) = unat (ry_seq m)" by simp
  show "length (frame e m) = align4 ?n"
    using align4_ge [of ?n] by (simp add: frame_def Let_def)
  assume "4 \<le> length (ry_body m)"
  then have "field e (4 + (2 + (2 + (4 + (4 + 0))))) 4 (frame e m @ r) = field e 0 4 (ry_body m)"
    unfolding frame_def Let_def append.assoc
    by (subst field_skip, simp)+ (simp add: field_take)
  then show "field e 16 4 (frame e m @ r) = field e 0 4 (ry_body m)" by simp
qed

text \<open>Scanning one framed reply.\<close>

lemma scan_frame:
  assumes "length (ry_body m) < 65536"
  shows "scan_ack e seq (frame e m @ r) =
    (case reply_verdict e seq m of AckAbsent \<Rightarrow> scan_ack e seq r | a \<Rightarrow> a)"
proof -
  let ?n = "16 + length (ry_body m)" and ?b = "frame e m @ r"
  note f = frame_fields(1-4) [OF assms, of e r] frame_fields(5) [OF assms, of e]
  have l: "?n \<le> length (frame e m)" using f(5) align4_ge [of ?n] by simp
  have step: "scan_ack e seq ?b =
      (if unat (ry_seq m) = unat seq \<and> unat (ry_type m) = 2 then
         (if ?n < 20 then AckFail ''Short Netlink ACK''
          else if i32_of (field e 16 4 ?b) = 0 then AckOk
          else AckFail (''POLICY_UPDATE rejected by kernel: errno='' @ show_i32 (i32_of (field e 16 4 ?b))))
       else scan_ack e seq (drop (align4 ?n) ?b))"
    using l f(1-3) by (subst scan_ack.simps) (simp add: Let_def)
  have t: "unat (ry_type m) = 2 \<longleftrightarrow> ry_type m = 2"
    using word_unat_eq_iff [of "ry_type m" 2] by simp
  have d: "drop (align4 ?n) ?b = r" using f(5) by simp
  show ?thesis
  proof (cases "ry_seq m = seq \<and> ry_type m = 2 \<and> 4 \<le> length (ry_body m)")
    case True
    then show ?thesis unfolding step using f(4)
      by (simp add: reply_verdict_def Let_def)
  next
    case False
    then show ?thesis unfolding step d
      by (auto simp: reply_verdict_def Let_def t simp flip: word_unat_eq_iff)
  qed
qed

lemma scan_frames:
  assumes "\<forall>m \<in> set ms. length (ry_body m) < 65536"
  shows "scan_ack e seq (concat (map (frame e) ms)) = first_answer e seq ms"
  using assms
proof (induction ms)
  case Nil
  show ?case by (simp add: scan_ack.simps)
next
  case (Cons m ms)
  then show ?case using scan_frame [of m e seq "concat (map (frame e) ms)"]
    by (auto split: ack.splits)
qed

section \<open>Properties\<close>

text \<open>
  The update is acknowledged by its own answer only. On every datagram of well-framed replies
  the scanner returns the verdict of the first reply that is an error message with the sequence
  number of the update, skipping the replies to other commands whatever they report; if there is
  none it goes on waiting.
\<close>

theorem ack_is_first_answer:
  assumes "\<forall>m \<in> set ms. length (ry_body m) < 65536"
  shows "wait_policy_update_ack e seq (Datagram (concat (map (frame e) ms)) # rs) =
    (case first_answer e seq ms of
       AckOk \<Rightarrow> Some (Inr ()) | AckFail err \<Rightarrow> Some (Inl err) | AckAbsent \<Rightarrow> wait_policy_update_ack e seq rs)"
  using scan_frames [OF assms, of e seq] by simp

text \<open>
  Ticket numbers survive the trip to the kernel: the number in the packet of a fresh ticket
  prints back to the id under which the daemon filed it, so a report of the kernel about that
  number finds the ticket.
\<close>

theorem ticket_number_roundtrip:
  "''T-'' @ pad_nat 9 (unat (numeric_ticket_id (fst (next_audit_ticket_id d)))) =
     fst (next_audit_ticket_id d)"
  by (simp add: next_audit_ticket_id_def numeric_ticket_id_padded del: append_Cons)

text \<open>What a ticket packet says, as the kernel reads it.\<close>

definition attr_u32 :: "endian \<Rightarrow> attrs \<Rightarrow> teal_attr \<Rightarrow> u32 option" where
  "attr_u32 e as a =
     (case map_of as a of None \<Rightarrow> None | Some p \<Rightarrow> ok_opt (u32_from e p))"

definition attr_u64 :: "endian \<Rightarrow> attrs \<Rightarrow> teal_attr \<Rightarrow> u64 option" where
  "attr_u64 e as a =
     (case map_of as a of None \<Rightarrow> None | Some p \<Rightarrow> ok_opt (u64_from e p))"

text \<open>A ticket packet that some of the given states let through.\<close>

definition ticket_packet_fresh :: "endian \<Rightarrow> daemon list \<Rightarrow> packet \<Rightarrow> bool" where
  "ticket_packet_fresh e ds p \<longleftrightarrow>
     pk_cmd p = CmdTicketAdd \<longrightarrow>
     list_ex (\<lambda>d. \<not> d_transition d \<and> attr_u32 e (pk_attrs p) EpochA = Some (d_epoch d)) ds"

lemma build_ticket_attrs:
  "attr_u32 e (pk_attrs (build_ticket_add e now t)) EpochA = Some (tk_epoch t)"
  "attr_u64 e (pk_attrs (build_ticket_add e now t)) ExpiresAt = Some (expires_at now (tk_expires_in_sec t))"
  by (simp_all add: build_ticket_add_def plain_packet_def attr_u32_def attr_u64_def)

lemma send_worker_step_fresh:
  "list_all (ticket_packet_fresh e ds) (sn_sent sn) \<Longrightarrow> d \<in> set ds \<Longrightarrow>
   list_all (ticket_packet_fresh e ds) (sn_sent (send_worker_step e so d m sn))"
proof (cases m)
  case (NsTicketAdd t)
  moreover assume "d \<in> set ds"
  ultimately have "ticket_packet_fresh e ds (build_packet e now m)" if "dispatch_allowed d m" for now
    using that by (auto simp: ticket_packet_fresh_def build_packet_def dispatch_allowed_def
        build_ticket_attrs list_ex_iff)
  moreover assume "list_all (ticket_packet_fresh e ds) (sn_sent sn)"
  ultimately show ?thesis
    using NsTicketAdd by (auto simp: send_worker_step_def split: option.splits)
qed (auto simp: send_worker_step_def sync_epoch_step_def ticket_packet_fresh_def build_packet_def
    build_approve_def build_deny_def build_mode_switch_packet_def build_sync_epoch_packet_def
    plain_packet_def Let_def split: option.splits ser_error.splits)

lemma send_worker_loop_fresh:
  "list_all (ticket_packet_fresh e ds) (sn_sent sn) \<Longrightarrow> (\<lambda>(so, d, m). d) ` set xs \<subseteq> set ds \<Longrightarrow>
   list_all (ticket_packet_fresh e ds) (sn_sent (netlink_send_worker_loop e xs sn))"
proof (induction e xs sn rule: netlink_send_worker_loop.induct)
  case (2 e so d m xs sn)
  then show ?case using send_worker_step_fresh [of e ds sn d so m] by auto
qed simp


text \<open>
  The expiry of a ticket is not checked for overflow: it lies in the future exactly when the
  ticket is unlimited or the sum of the clock and the lifetime fits in 64 bits; a longer lifetime
  wraps and the ticket has expired before it is added.
\<close>

theorem ticket_expiry_wraps:
  assumes "attr_u64 e (pk_attrs (build_ticket_add e now t)) ExpiresAt = Some x"
  shows "now \<le> x \<longleftrightarrow> tk_expires_in_sec t = - 1 \<or> unat now + unat (tk_expires_in_sec t) < 2 ^ 64"
proof -
  let ?ttl = "tk_expires_in_sec t"
  have x: "x = expires_at now ?ttl" using assms by (simp add: build_ticket_attrs)
  show ?thesis
  proof (cases "?ttl = - 1")
    case True
    then show ?thesis using x by (simp add: expires_at_def)
  next
    case False
    then have "?ttl < - 1" by (simp add: order.strict_iff_order)
    then have "x = now + ?ttl" using x by (simp add: expires_at_def)
    moreover have "now \<le> now + ?ttl \<longleftrightarrow> unat now + unat ?ttl < 2 ^ 64"
      using no_olen_add_nat [of now ?ttl] by simp
    ultimately show ?thesis using False by simp
  qed
qed

section \<open>Witnesses\<close>

definition sample_ticket :: ticket_payload where
  "sample_ticket =
     \<lparr>tk_uid = 1000, tk_op = 1, tk_prog_dev = 1, tk_prog_ino = 2, tk_script_dev = 0, tk_script_ino = 0,
      tk_applet_hash = 0, tk_target_dev = 1, tk_target_ino = 3, tk_new_target_dev = 0,
      tk_new_target_ino = 0, tk_expires_in_sec = 60, tk_flags = 0, tk_uses_left = 1,
      tk_ticket_id = ''T-000000001'', tk_epoch = 1, tk_audit_flags = 0\<rparr>"

lemma ack_is_first_answer_witness:
  "wait_policy_update_ack Little 7
     [Datagram (concat (map (frame Little)
        [\<lparr>ry_type = 2, ry_flags = 0, ry_seq = 6, ry_pid = 0, ry_body = u32_to Little 1\<rparr>,
         \<lparr>ry_type = 2, ry_flags = 0, ry_seq = 7, ry_pid = 0, ry_body = u32_to Little 0\<rparr>]))] =
   Some (Inr ())"
proof -
  let ?ms = "[\<lparr>ry_type = 2, ry_flags = 0, ry_seq = 6, ry_pid = 0, ry_body = u32_to Little 1\<rparr>,
    \<lparr>ry_type = 2, ry_flags = 0, ry_seq = 7, ry_pid = 0, ry_body = u32_to Little 0\<rparr>]"
  have "first_answer Little 7 ?ms = AckOk" by code_simp
  then show ?thesis by (subst ack_is_first_answer) simp_all
qed


lemma ticket_expiry_wraps_witness:
  "\<exists>x. attr_u64 Little (pk_attrs (build_ticket_add Little 5 (sample_ticket\<lparr>tk_expires_in_sec := - 2\<rparr>)))
     ExpiresAt = Some x \<and> \<not> 5 \<le> x"
proof -
  let ?t = "sample_ticket\<lparr>tk_expires_in_sec := - 2\<rparr>"
  have "attr_u64 Little (pk_attrs (build_ticket_add Little 5 ?t)) ExpiresAt =
      Some (expires_at 5 (tk_expires_in_sec ?t))" by (rule build_ticket_attrs)
  from this ticket_expiry_wraps [OF this] show ?thesis by simp
qed

end
