(* ===== verification/Hash_Cache.thy ===== *)
theory Hash_Cache
  imports Daemon_Types Rust_Text
begin

text \<open>
  The program hashes of \<open>evidence/mod.rs\<close>: the cache by file, validated by metadata, the bindings
  of running processes, and their invalidation. An opened file is what its descriptor answers: the
  three \<open>fstat\<close> results and the reads. What other threads do to the two tables while this one
  waits for the lock or reads the file is an argument each. SHA-256 is a parameter.
\<close>

section \<open>State\<close>

record file_stamp =
  fst_size :: u64
  fst_mtime_sec :: int
  fst_mtime_nsec :: int
  fst_ctime_sec :: int
  fst_ctime_nsec :: int

record file_hash_entry =
  he_meta :: file_stamp
  he_sha256 :: string

record process_key =
  pk_pid :: u32
  pk_start_time :: u64

record process_binding =
  pb_file_id :: entity_id
  pb_sha256 :: string

record hash_state =
  hc_files :: "(entity_id, file_hash_entry) hmap"
  hc_bindings :: "(process_key, process_binding) hmap"

section \<open>Files\<close>

record file_stat =
  sb_dev :: u64
  sb_ino :: u64
  sb_stamp :: file_stamp

record open_file =
  op_stat0 :: "string + file_stat"
  op_stat1 :: "string + file_stat"
  op_stat2 :: "string + file_stat"
  op_reads :: "(string + string) list"

record hash_world =
  hw_open :: "path \<Rightarrow> string + open_file"
  hw_stat :: "u32 \<Rightarrow> string + string"
  hw_sha256_hex :: "string \<Rightarrow> string"

definition stat_id :: "file_stat \<Rightarrow> entity_id" where
  "stat_id s = entity (ucast (to_kernel_dev (sb_dev s))) (sb_ino s)"

definition stamp_of :: "string + file_stat \<Rightarrow> string + (entity_id \<times> file_stamp)" where
  "stamp_of r = bindR r (\<lambda>s. Inr (stat_id s, sb_stamp s))"

text \<open>The read loop: it ends at the first empty read.\<close>

fun read_to_end :: "(string + string) list \<Rightarrow> string \<Rightarrow> string + string" where
  "read_to_end [] acc = Inr acc"
| "read_to_end (Inl e # rs) acc = Inl e"
| "read_to_end (Inr chunk # rs) acc = (if chunk = [] then Inr acc else read_to_end rs (acc @ chunk))"

definition digest_text :: "hash_world \<Rightarrow> string \<Rightarrow> string" where
  "digest_text hw content = ''sha256:'' @ hw_sha256_hex hw content"

definition calculate_sha256_from_file :: "hash_world \<Rightarrow> open_file \<Rightarrow> string + string" where
  "calculate_sha256_from_file hw f =
     bindR (read_to_end (op_reads f) []) (\<lambda>content. Inr (digest_text hw content))"

section \<open>The cache\<close>

definition cached_hash :: "entity_id \<Rightarrow> file_stamp \<Rightarrow> hash_state \<Rightarrow> string option" where
  "cached_hash i stamp st =
     (case hm_get (hc_files st) i of
        Some e \<Rightarrow> if he_meta e = stamp then Some (he_sha256 e) else None
      | None \<Rightarrow> None)"

definition invalidate_file_hash :: "entity_id \<Rightarrow> hash_state \<Rightarrow> hash_state" where
  "invalidate_file_hash i st = st\<lparr>hc_files := hm_remove i (hc_files st)\<rparr>"

text \<open>
  The part under the lock of the file. \<open>during\<close> is what the other threads do while this one reads.
\<close>

definition hash_locked ::
  "hash_world \<Rightarrow> open_file \<Rightarrow> entity_id \<Rightarrow> (hash_state \<Rightarrow> hash_state) \<Rightarrow> hash_state \<Rightarrow>
   (string + string) \<times> hash_state" where
  "hash_locked hw f actual_id during st =
     (case stamp_of (op_stat1 f) of
        Inl e \<Rightarrow> (Inl e, st)
      | Inr (id_before, before) \<Rightarrow>
          (if id_before \<noteq> actual_id then
             (Inl ''program identity changed before calculating SHA-256'', st)
           else case cached_hash actual_id before st of
               Some h \<Rightarrow> (Inr h, st)
             | None \<Rightarrow>
                 (let st1 = during (invalidate_file_hash actual_id st)
                  in case calculate_sha256_from_file hw f of
                       Inl e \<Rightarrow> (Inl e, st1)
                     | Inr h \<Rightarrow>
                         (case stamp_of (op_stat2 f) of
                            Inl e \<Rightarrow> (Inl e, st1)
                          | Inr (id_after, after) \<Rightarrow>
                              (if id_after \<noteq> actual_id then
                                 (Inl ''program identity changed while calculating SHA-256'', st1)
                               else if before \<noteq> after then
                                 (Inl ''program metadata changed while calculating SHA-256'', st1)
                               else (Inr h, st1\<lparr>hc_files :=
                                 hm_insert actual_id \<lparr>he_meta = after, he_sha256 = h\<rparr> (hc_files st1)\<rparr>))))))"

definition get_or_calculate_hash ::
  "hash_world \<Rightarrow> path \<Rightarrow> entity_id option \<Rightarrow> (hash_state \<Rightarrow> hash_state) \<Rightarrow> (hash_state \<Rightarrow> hash_state) \<Rightarrow>
   hash_state \<Rightarrow> (string + string) \<times> hash_state" where
  "get_or_calculate_hash hw p expected_id wait during st =
     (case hw_open hw p of
        Inl e \<Rightarrow> (Inl e, st)
      | Inr f \<Rightarrow>
          (case stamp_of (op_stat0 f) of
             Inl e \<Rightarrow> (Inl e, st)
           | Inr (actual_id, current) \<Rightarrow>
               (if (case expected_id of Some i \<Rightarrow> actual_id \<noteq> i | None \<Rightarrow> False) then
                  (Inl ''program identity mismatch'', st)
                else case cached_hash actual_id current st of
                    Some h \<Rightarrow> (Inr h, st)
                  | None \<Rightarrow>
                      hash_locked hw f actual_id during (wait (invalidate_file_hash actual_id st)))))"

definition get_or_calculate_program_hash where
  "get_or_calculate_program_hash hw expected_id p = get_or_calculate_hash hw p (Some expected_id)"

definition get_or_calculate_file_hash where
  "get_or_calculate_file_hash hw p = get_or_calculate_hash hw p None"

section \<open>Bindings of processes\<close>

text \<open>Field 22 of \<open>/proc/<pid>/stat\<close>, counted after the last parenthesis.\<close>

definition process_start_time :: "hash_world \<Rightarrow> u32 \<Rightarrow> string + u64" where
  "process_start_time hw pid =
     bindR (hw_stat hw pid) (\<lambda>stat.
     bindR (ok_or (after_last (CHR '')'') stat) ''invalid /proc/<pid>/stat format'') (\<lambda>rest.
       let fields = split_whitespace rest
       in if length fields \<le> 19 then Inl ''missing starttime in /proc/<pid>/stat''
          else ok_or (parse_u64 (fields ! 19)) ''invalid process starttime''))"

definition bound_hash :: "process_key option \<Rightarrow> entity_id \<Rightarrow> hash_state \<Rightarrow> string option" where
  "bound_hash key file_id st =
     Option.bind key (\<lambda>k.
     Option.bind (hm_get (hc_bindings st) k) (\<lambda>b.
       if pb_file_id b = file_id then Some (pb_sha256 b) else None))"

definition bind_process :: "process_key option \<Rightarrow> entity_id \<Rightarrow> string \<Rightarrow> hash_state \<Rightarrow> hash_state" where
  "bind_process key file_id h st =
     (case key of
        Some k \<Rightarrow>
          st\<lparr>hc_bindings := hm_insert k \<lparr>pb_file_id = file_id, pb_sha256 = h\<rparr> (hc_bindings st)\<rparr>
      | None \<Rightarrow> st)"

definition get_or_calculate_bound_program_hash ::
  "hash_world \<Rightarrow> u32 \<Rightarrow> entity_id \<Rightarrow> path \<Rightarrow> (hash_state \<Rightarrow> hash_state) \<Rightarrow> (hash_state \<Rightarrow> hash_state) \<Rightarrow>
   hash_state \<Rightarrow> (string + string) \<times> hash_state" where
  "get_or_calculate_bound_program_hash hw pid file_id p wait during st =
     (let key = map_option (\<lambda>t. \<lparr>pk_pid = pid, pk_start_time = t\<rparr>) (ok_opt (process_start_time hw pid))
      in case bound_hash key file_id st of
           Some h \<Rightarrow> (Inr h, st)
         | None \<Rightarrow>
             (case get_or_calculate_program_hash hw file_id p wait during st of
                (Inl e, st1) \<Rightarrow> (Inl e, st1)
              | (Inr h, st1) \<Rightarrow> (Inr h, bind_process key file_id h st1)))"

section \<open>Invalidation\<close>

text \<open>The entry is dropped before a write, an unlink or a rename is decided.\<close>

definition invalidate_hash_cache_for_request :: "request \<Rightarrow> hash_state \<Rightarrow> hash_state" where
  "invalidate_hash_cache_for_request req st =
     (let action = map ascii_upper (rq_raw_action req)
      in if action = ''WRITE'' \<or> action = ''UNLINK'' \<or> action = ''RENAME'' then
           (let st1 = (if rq_target_dev req \<noteq> 0 \<or> rq_target_ino req \<noteq> 0
                       then invalidate_file_hash (entity (rq_target_dev req) (rq_target_ino req)) st
                       else st)
            in if action = ''RENAME'' \<and> (rq_new_target_dev req \<noteq> 0 \<or> rq_new_target_ino req \<noteq> 0)
               then invalidate_file_hash (entity (rq_new_target_dev req) (rq_new_target_ino req)) st1
               else st1)
         else st)"

section \<open>Hashes are genuine\<close>

text \<open>
  \<open>content i s\<close> is the content that file \<open>i\<close> has when its metadata are \<open>s\<close>. A read between two
  equal stamps delivers that content: this is the assumption the code makes about the file system.
\<close>

definition reads_faithful :: "(entity_id \<Rightarrow> file_stamp \<Rightarrow> string) \<Rightarrow> open_file \<Rightarrow> bool" where
  "reads_faithful content f \<longleftrightarrow>
     (\<forall>i s. stamp_of (op_stat1 f) = Inr (i, s) \<longrightarrow> stamp_of (op_stat2 f) = Inr (i, s) \<longrightarrow>
        (\<forall>bytes. read_to_end (op_reads f) [] = Inr bytes \<longrightarrow> bytes = content i s))"

definition genuine ::
  "hash_world \<Rightarrow> (entity_id \<Rightarrow> file_stamp \<Rightarrow> string) \<Rightarrow> entity_id \<Rightarrow> string \<Rightarrow> bool" where
  "genuine hw content i h \<longleftrightarrow> (\<exists>s. h = digest_text hw (content i s))"

definition hashes_ok :: "hash_world \<Rightarrow> (entity_id \<Rightarrow> file_stamp \<Rightarrow> string) \<Rightarrow> hash_state \<Rightarrow> bool" where
  "hashes_ok hw content st \<longleftrightarrow> hm_wf (hc_files st) \<and>
     (\<forall>i e. hm_get (hc_files st) i = Some e \<longrightarrow> he_sha256 e = digest_text hw (content i (he_meta e))) \<and>
     (\<forall>k b. hm_get (hc_bindings st) k = Some b \<longrightarrow> genuine hw content (pb_file_id b) (pb_sha256 b))"

lemma hashes_ok_invalidate: "hashes_ok hw content st \<Longrightarrow> hashes_ok hw content (invalidate_file_hash i st)"
  by (auto simp: hashes_ok_def invalidate_file_hash_def split: if_splits)

lemma cached_genuine:
  "hashes_ok hw content st \<Longrightarrow> cached_hash i s st = Some h \<Longrightarrow> h = digest_text hw (content i s)"
  by (auto simp: hashes_ok_def cached_hash_def split: option.splits if_splits)

lemma hash_locked_genuine:
  assumes "hash_locked hw f i during st = (Inr h, st')" and "hashes_ok hw content st"
    and during: "\<And>s. hashes_ok hw content s \<Longrightarrow> hashes_ok hw content (during s)"
    and "reads_faithful content f"
  shows "hashes_ok hw content st' \<and> genuine hw content i h"
proof -
  from assms(1) obtain s where s: "stamp_of (op_stat1 f) = Inr (i, s)"
    by (auto simp: hash_locked_def split: sum.splits if_splits)
  show ?thesis
  proof (cases "cached_hash i s st")
    case (Some h')
    with s assms(1,2) cached_genuine [OF assms(2) Some] show ?thesis
      by (auto simp: hash_locked_def genuine_def)
  next
    case None
    let ?st1 = "during (invalidate_file_hash i st)"
    from None s assms(1) obtain bytes where r: "read_to_end (op_reads f) [] = Inr bytes"
      "stamp_of (op_stat2 f) = Inr (i, s)" "h = digest_text hw bytes"
      "st' = ?st1\<lparr>hc_files := hm_insert i \<lparr>he_meta = s, he_sha256 = h\<rparr> (hc_files ?st1)\<rparr>"
      by (auto simp: hash_locked_def calculate_sha256_from_file_def bindR_eq_Inr Let_def
          split: sum.splits if_splits)
    with s assms(4) have h: "h = digest_text hw (content i s)" by (auto simp: reads_faithful_def)
    have "hashes_ok hw content ?st1" using assms(2) during hashes_ok_invalidate by blast
    with r(4) h show ?thesis by (auto simp: hashes_ok_def genuine_def)
  qed
qed

lemma hash_locked_error:
  assumes "hash_locked hw f i during st = (Inl e, st')" and "hashes_ok hw content st"
    and "\<And>s. hashes_ok hw content s \<Longrightarrow> hashes_ok hw content (during s)"
  shows "hashes_ok hw content st'"
  using assms hashes_ok_invalidate
  by (auto simp: hash_locked_def Let_def split: sum.splits option.splits if_splits prod.splits)

lemma get_hash_genuine:
  assumes "get_or_calculate_hash hw p (Some i) wait during st = (r, st')" and "hashes_ok hw content st"
    and "\<And>s. hashes_ok hw content s \<Longrightarrow> hashes_ok hw content (wait s)"
    and "\<And>s. hashes_ok hw content s \<Longrightarrow> hashes_ok hw content (during s)"
    and "\<And>f. hw_open hw p = Inr f \<Longrightarrow> reads_faithful content f"
  shows "hashes_ok hw content st' \<and> (\<forall>h. r = Inr h \<longrightarrow> genuine hw content i h)"
proof (cases "\<exists>f s. hw_open hw p = Inr f \<and> stamp_of (op_stat0 f) = Inr (i, s) \<and> cached_hash i s st = None")
  case False
  with assms(1,2) cached_genuine show ?thesis
    by (fastforce simp: get_or_calculate_hash_def genuine_def split: sum.splits option.splits if_splits)
next
  case True
  let ?st1 = "wait (invalidate_file_hash i st)"
  from True obtain f where f: "hw_open hw p = Inr f" "hash_locked hw f i during ?st1 = (r, st')"
    using assms(1) by (auto simp: get_or_calculate_hash_def)
  have "hashes_ok hw content ?st1" using assms(2,3) hashes_ok_invalidate by blast
  with f assms(4,5) show ?thesis
    by (cases r) (auto dest: hash_locked_error [where content = content]
        hash_locked_genuine [where content = content])
qed

text \<open>
  C37. The hash in the log is the hash of that program. Whatever other threads do meanwhile, as long
  as they keep the tables sound too, the answer for a request is the digest of a content its
  program file had, also when it comes from the cache or from the binding of the process; a path
  that leads to another file by now is refused; and the tables stay sound.
\<close>

theorem program_hash_genuine:
  assumes "get_or_calculate_bound_program_hash hw pid i p wait during st = (r, st')"
    and "hashes_ok hw content st"
    and "\<And>s. hashes_ok hw content s \<Longrightarrow> hashes_ok hw content (wait s)"
    and "\<And>s. hashes_ok hw content s \<Longrightarrow> hashes_ok hw content (during s)"
    and "\<And>f. hw_open hw p = Inr f \<Longrightarrow> reads_faithful content f"
  shows "hashes_ok hw content st' \<and> (\<forall>h. r = Inr h \<longrightarrow> genuine hw content i h) \<and>
    (\<forall>f s. hw_open hw p = Inr f \<and> stamp_of (op_stat0 f) = Inr s \<and> fst s \<noteq> i \<and>
       (\<forall>k. bound_hash k i st = None) \<longrightarrow> r = Inl ''program identity mismatch'')"
proof -
  define key where "key = map_option (\<lambda>t. \<lparr>pk_pid = pid, pk_start_time = t\<rparr>)
    (ok_opt (process_start_time hw pid))"
  show ?thesis
  proof (cases "bound_hash key i st")
    case (Some h)
    with assms(1,2) have "r = Inr h" "st' = st" "genuine hw content i h"
      by (auto simp: get_or_calculate_bound_program_hash_def key_def [symmetric] bound_hash_def
          hashes_ok_def split: Option.bind_splits if_splits)
    with Some assms(2) show ?thesis by auto
  next
    case None
    obtain r1 st1 where g: "get_or_calculate_hash hw p (Some i) wait during st = (r1, st1)" by fastforce
    with None assms(1) have r: "r = r1"
      "st' = (case r1 of Inr h \<Rightarrow> bind_process key i h st1 | Inl _ \<Rightarrow> st1)"
      by (auto simp: get_or_calculate_bound_program_hash_def key_def [symmetric]
          get_or_calculate_program_hash_def split: sum.splits)
    from get_hash_genuine [OF g assms(2-5)] r have "hashes_ok hw content st'"
      by (auto simp: bind_process_def hashes_ok_def split: sum.splits option.splits)
    moreover from g have "r1 = Inl ''program identity mismatch''"
      if "hw_open hw p = Inr f" "stamp_of (op_stat0 f) = Inr s" "fst s \<noteq> i" for f s
      using that by (cases s) (simp add: get_or_calculate_hash_def)
    ultimately show ?thesis using get_hash_genuine [OF g assms(2-5)] r(1) by blast
  qed
qed

text \<open>A request to write a file leaves no cached hash of it; the other entries stay.\<close>

lemma write_invalidates:
  assumes "map ascii_upper (rq_raw_action req) = ''WRITE''" and "hm_wf (hc_files st)"
    and "rq_target_dev req \<noteq> 0 \<or> rq_target_ino req \<noteq> 0"
  shows "hm_get (hc_files (invalidate_hash_cache_for_request req st)) j =
    (if j = entity (rq_target_dev req) (rq_target_ino req) then None else hm_get (hc_files st) j)"
  using assms by (simp add: invalidate_hash_cache_for_request_def invalidate_file_hash_def)

section \<open>A concrete file\<close>

definition sample_stat :: file_stat where
  "sample_stat = \<lparr>sb_dev = 0x801, sb_ino = 42, sb_stamp =
     \<lparr>fst_size = 3, fst_mtime_sec = 1, fst_mtime_nsec = 0, fst_ctime_sec = 1, fst_ctime_nsec = 0\<rparr>\<rparr>"

definition sample_hash_world :: hash_world where
  "sample_hash_world = \<lparr>hw_open = (\<lambda>_. Inr \<lparr>op_stat0 = Inr sample_stat, op_stat1 = Inr sample_stat,
       op_stat2 = Inr sample_stat, op_reads = [Inr ''ab'', Inr ''c'', Inr []]\<rparr>),
     hw_stat = (\<lambda>_. Inl ''gone''), hw_sha256_hex = (\<lambda>s. s)\<rparr>"

lemma program_hash_genuine_witness:
  "\<exists>st. get_or_calculate_bound_program_hash sample_hash_world 7 (stat_id sample_stat) ''/bin/x''
      (\<lambda>s. s) (\<lambda>s. s) \<lparr>hc_files = [], hc_bindings = []\<rparr> = (Inr ''sha256:abc'', st) \<and>
     hashes_ok sample_hash_world (\<lambda>_ _. ''abc'') st"
proof -
  let ?st = "\<lparr>hc_files = [], hc_bindings = []\<rparr>"
  let ?run = "get_or_calculate_bound_program_hash sample_hash_world 7 (stat_id sample_stat) ''/bin/x''
      (\<lambda>s. s) (\<lambda>s. s) ?st"
  have "fst ?run = Inr ''sha256:abc''"
    by (simp add: get_or_calculate_bound_program_hash_def process_start_time_def sample_hash_world_def
        bound_hash_def get_or_calculate_program_hash_def get_or_calculate_hash_def stamp_of_def
        cached_hash_def hash_locked_def invalidate_file_hash_def calculate_sha256_from_file_def
        digest_text_def Let_def bind_process_def)
  then obtain st where run: "?run = (Inr ''sha256:abc'', st)" by (metis prod.collapse)
  have "hashes_ok sample_hash_world (\<lambda>_ _. ''abc'') ?st" by (simp add: hashes_ok_def)
  from program_hash_genuine [OF run this] run show ?thesis
    by (auto simp: sample_hash_world_def reads_faithful_def)
qed

end
