(* ===== verification/Policy_Diff.thy ===== *)
theory Policy_Diff
  imports Admin_Approval Bundle_Dir Evaluation
begin

text \<open>
  \<open>teal-cli/src/cmd/diff\<close>: the report the approvers of a policy update read. It compares the
  compiled rules of the installed and the staged directory (\<open>rule_diff.rs\<close>), the bundle, the
  roles and the management file (\<open>bundle_diff.rs\<close>), and joins both (\<open>mod.rs\<close>). The texts of the
  report are modelled, the colours of the terminal and the HTML page are not. A set printed by
  the code comes out in the iteration order of a fresh hash set; here it is the order of the list.
\<close>

section \<open>Reports\<close>

datatype security_impact = SiHardened | SiRelaxed | SiNeutral

datatype rule_diff_item =
    RdUnchanged (rd_id: string) (rd_file: string)
  | RdAdded (rd_rule: compiled_rule) (rd_impact: security_impact)
  | RdRemoved (rd_rule: compiled_rule) (rd_impact: security_impact)
  | RdModified (rd_id: string) (rd_impact: security_impact) (rd_details: "string list") (rd_file: string)

definition source_file_or :: "compiled_rule \<Rightarrow> string" where
  "source_file_or r = (case cr_source_file r of Some f \<Rightarrow> f | None \<Rightarrow> ''unknown.json'')"

fun item_source_file :: "rule_diff_item \<Rightarrow> string" where
  "item_source_file (RdUnchanged _ f) = f"
| "item_source_file (RdAdded r _) = source_file_or r"
| "item_source_file (RdRemoved r _) = source_file_or r"
| "item_source_file (RdModified _ _ _ f) = f"

fun item_rule_id :: "rule_diff_item \<Rightarrow> string" where
  "item_rule_id (RdUnchanged i _) = i"
| "item_rule_id (RdAdded r _) = cr_id r"
| "item_rule_id (RdRemoved r _) = cr_id r"
| "item_rule_id (RdModified i _ _ _) = i"

fun item_change_kind :: "rule_diff_item \<Rightarrow> string" where
  "item_change_kind (RdUnchanged _ _) = ''UNCHANGED''"
| "item_change_kind (RdAdded _ _) = ''ADDED''"
| "item_change_kind (RdRemoved _ _) = ''REMOVED''"
| "item_change_kind (RdModified _ _ _ _) = ''MODIFIED''"

fun item_impact :: "rule_diff_item \<Rightarrow> security_impact" where
  "item_impact (RdUnchanged _ _) = SiNeutral"
| "item_impact (RdAdded _ i) = i"
| "item_impact (RdRemoved _ i) = i"
| "item_impact (RdModified _ i _ _) = i"

fun item_details :: "rule_diff_item \<Rightarrow> string list" where
  "item_details (RdModified _ _ ds _) = ds"
| "item_details _ = []"

record global_diff_item =
  gd_key :: string
  gd_old_value :: string
  gd_new_value :: string
  gd_impact :: security_impact
  gd_description :: string

section \<open>Equality of rules\<close>

text \<open>\<open>HashSet\<close> equality, and equality of optional path matchers.\<close>

definition hs_eq :: "'a hset \<Rightarrow> 'a hset \<Rightarrow> bool" where
  "hs_eq a b \<longleftrightarrow> set a = set b"

definition hs_difference :: "'a hset \<Rightarrow> 'a hset \<Rightarrow> 'a hset" where
  "hs_difference a b = filter (\<lambda>x. x \<notin> set b) a"

lemma set_hs_difference [coll_simps, simp]: "set (hs_difference a b) = set a - set b"
  by (auto simp: hs_difference_def)

lemma hs_difference_Nil: "hs_difference a b = [] \<longleftrightarrow> set a \<subseteq> set b"
  by (auto simp: hs_difference_def filter_empty_conv)

fun pm_opt_eq :: "path_matcher option \<Rightarrow> path_matcher option \<Rightarrow> bool" where
  "pm_opt_eq None None = True"
| "pm_opt_eq (Some a) (Some b) = pathmatcher_eq a b"
| "pm_opt_eq _ _ = False"

fun is_action_equal :: "action_matcher \<Rightarrow> action_matcher \<Rightarrow> bool" where
  "is_action_equal AmAny AmAny = True"
| "is_action_equal (AmOneOf a) (AmOneOf b) = hs_eq a b"
| "is_action_equal _ _ = False"

fun is_mpa_equal :: "mpa_matcher option \<Rightarrow> mpa_matcher option \<Rightarrow> bool" where
  "is_mpa_equal None None = True"
| "is_mpa_equal (Some a) (Some b) \<longleftrightarrow>
     mm_threshold a = mm_threshold b \<and> hs_eq (mm_approver_roles a) (mm_approver_roles b)"
| "is_mpa_equal _ _ = False"

definition is_pre_approval_equal :: "compiled_pre_approval \<Rightarrow> compiled_pre_approval \<Rightarrow> bool" where
  "is_pre_approval_equal a b \<longleftrightarrow> cpa_enabled a = cpa_enabled b \<and> cpa_ttl_sec a = cpa_ttl_sec b"

fun is_login_ctx_equal :: "login_context_matcher option \<Rightarrow> login_context_matcher option \<Rightarrow> bool" where
  "is_login_ctx_equal None None = True"
| "is_login_ctx_equal (Some a) (Some b) \<longleftrightarrow>
     lcm_source_ip_network a = lcm_source_ip_network b \<and>
     lcm_auth_method a = lcm_auth_method b \<and>
     lcm_require_interactive_tty a = lcm_require_interactive_tty b \<and>
     lcm_bind_registered_session a = lcm_bind_registered_session b"
| "is_login_ctx_equal _ _ = False"

definition is_subject_equal :: "subject_matcher \<Rightarrow> subject_matcher \<Rightarrow> bool" where
  "is_subject_equal a b \<longleftrightarrow>
     sm_uid a = sm_uid b \<and> hs_eq (sm_required_roles a) (sm_required_roles b) \<and>
     sm_origin_applet a = sm_origin_applet b \<and>
     pm_opt_eq (sm_origin_program a) (sm_origin_program b) \<and>
     pm_opt_eq (sm_origin_script a) (sm_origin_script b) \<and>
     is_login_ctx_equal (sm_login_context a) (sm_login_context b)"

fun is_object_equal :: "object_matcher option \<Rightarrow> object_matcher option \<Rightarrow> bool" where
  "is_object_equal None None = True"
| "is_object_equal (Some a) (Some b) \<longleftrightarrow>
     om_kind a = om_kind b \<and> pm_opt_eq (om_path a) (om_path b) \<and>
     pm_opt_eq (om_new_path a) (om_new_path b)"
| "is_object_equal _ _ = False"

definition is_time_constraint_equal ::
  "time_constraint_matcher \<Rightarrow> time_constraint_matcher \<Rightarrow> bool" where
  "is_time_constraint_equal a b \<longleftrightarrow>
     hs_eq (tcm_allowed_days a) (tcm_allowed_days b) \<and> tcm_start a = tcm_start b \<and>
     tcm_end a = tcm_end b"

definition is_time_constraints_equal ::
  "time_constraint_matcher list \<Rightarrow> time_constraint_matcher list \<Rightarrow> bool" where
  "is_time_constraints_equal a b =
     (if length a \<noteq> length b then False
      else list_all (\<lambda>(ta, tb). is_time_constraint_equal ta tb) (zip a b))"

definition is_rule_equal :: "compiled_rule \<Rightarrow> compiled_rule \<Rightarrow> bool" where
  "is_rule_equal c s \<longleftrightarrow>
     cr_id c = cr_id s \<and> cr_description c = cr_description s \<and> cr_rule_type c = cr_rule_type s \<and>
     cr_effect c = cr_effect s \<and> cr_max_uses c = cr_max_uses s \<and>
     cr_audit_level c = cr_audit_level s \<and> cr_out_reason c = cr_out_reason s \<and>
     tp_flags (cr_ticket_profile c) = tp_flags (cr_ticket_profile s) \<and>
     is_action_equal (cr_action_match c) (cr_action_match s) \<and> is_mpa_equal (cr_mpa c) (cr_mpa s) \<and>
     is_pre_approval_equal (cr_pre_approval c) (cr_pre_approval s) \<and>
     is_subject_equal (cr_subject c) (cr_subject s) \<and> is_object_equal (cr_object c) (cr_object s) \<and>
     is_time_constraints_equal (cr_time_constraints c) (cr_time_constraints s)"

section \<open>What a change means\<close>

definition evaluate_added_rule_impact :: "compiled_rule \<Rightarrow> security_impact" where
  "evaluate_added_rule_impact r =
     (case cr_effect r of
        Allow \<Rightarrow> SiRelaxed | NeedApproval \<Rightarrow> SiRelaxed | Deny \<Rightarrow> SiHardened | AuditOnly \<Rightarrow> SiNeutral)"

definition evaluate_removed_rule_impact :: "compiled_rule \<Rightarrow> security_impact" where
  "evaluate_removed_rule_impact r =
     (case cr_effect r of
        Allow \<Rightarrow> SiHardened | NeedApproval \<Rightarrow> SiHardened | Deny \<Rightarrow> SiRelaxed | AuditOnly \<Rightarrow> SiNeutral)"

text \<open>The arrow of the report in UTF-8, and the derived \<open>Debug\<close> texts.\<close>

definition arrow :: string where
  "arrow = '' '' @ [CHR 0xE2, CHR 0x9E, CHR 0x94] @ '' ''"

fun action_debug :: "action \<Rightarrow> string" where
  "action_debug Read = ''Read''"
| "action_debug Write = ''Write''"
| "action_debug Execute = ''Execute''"
| "action_debug FileDelete = ''FileDelete''"
| "action_debug FileUnlink = ''FileUnlink''"
| "action_debug FileRename = ''FileRename''"
| "action_debug FileChmod = ''FileChmod''"
| "action_debug FileChown = ''FileChown''"
| "action_debug NetConnect = ''NetConnect''"
| "action_debug Unknown = ''Unknown''"

definition actions_debug :: "action hset \<Rightarrow> string" where
  "actions_debug xs = ''{'' @ join '', '' (map action_debug xs) @ ''}''"

fun audit_level_debug :: "audit_level \<Rightarrow> string" where
  "audit_level_debug AlStandard = ''Standard''"
| "audit_level_debug AlSilent = ''Silent''"
| "audit_level_debug AlStrict = ''Strict''"

text \<open>Each step of the inspection gives the details it prints and the impacts it records.\<close>

type_synonym finding = "string list \<times> security_impact list"

fun effect_change_impact :: "effect \<Rightarrow> effect \<Rightarrow> security_impact" where
  "effect_change_impact Deny Allow = SiRelaxed"
| "effect_change_impact Deny NeedApproval = SiRelaxed"
| "effect_change_impact NeedApproval Allow = SiRelaxed"
| "effect_change_impact Deny AuditOnly = SiRelaxed"
| "effect_change_impact Allow Deny = SiHardened"
| "effect_change_impact NeedApproval Deny = SiHardened"
| "effect_change_impact Allow NeedApproval = SiHardened"
| "effect_change_impact _ _ = SiNeutral"

definition inspect_effect :: "compiled_rule \<Rightarrow> compiled_rule \<Rightarrow> finding" where
  "inspect_effect c s =
     (if cr_effect c \<noteq> cr_effect s then
        ([''effect changed: '' @ effect_debug (cr_effect c) @ arrow @ effect_debug (cr_effect s)],
         [effect_change_impact (cr_effect c) (cr_effect s)])
      else ([], []))"

definition sets_changed ::
  "string \<Rightarrow> security_impact \<Rightarrow> string \<Rightarrow> security_impact \<Rightarrow> ('a hset \<Rightarrow> string) \<Rightarrow>
   'a hset \<Rightarrow> 'a hset \<Rightarrow> finding" where
  "sets_changed t1 i1 t2 i2 show_set xs ys =
     ((if xs = [] then [] else [t1 @ show_set xs]) @ (if ys = [] then [] else [t2 @ show_set ys]),
      (if xs = [] then [] else [i1]) @ (if ys = [] then [] else [i2]))"

fun inspect_action :: "action_matcher \<Rightarrow> action_matcher \<Rightarrow> finding" where
  "inspect_action (AmOneOf c) (AmOneOf s) =
     sets_changed ''action added: '' SiRelaxed ''action removed: '' SiHardened actions_debug
       (hs_difference s c) (hs_difference c s)"
| "inspect_action (AmOneOf c) AmAny = ([''action expanded to ANY''], [SiRelaxed])"
| "inspect_action AmAny (AmOneOf s) =
     ([''action restricted from ANY to '' @ actions_debug s], [SiHardened])"
| "inspect_action AmAny AmAny = ([], [])"

definition inspect_threshold :: "mpa_matcher \<Rightarrow> mpa_matcher \<Rightarrow> finding" where
  "inspect_threshold c s =
     (let change = show_u32 (mm_threshold c) @ arrow @ show_u32 (mm_threshold s)
      in if mm_threshold s < mm_threshold c then ([''mpa.threshold decreased: '' @ change], [SiRelaxed])
         else if mm_threshold c < mm_threshold s then ([''mpa.threshold increased: '' @ change], [SiHardened])
         else ([], []))"

definition join_findings :: "finding list \<Rightarrow> finding" where
  "join_findings fs = (concat (map fst fs), concat (map snd fs))"

fun inspect_mpa :: "mpa_matcher option \<Rightarrow> mpa_matcher option \<Rightarrow> finding" where
  "inspect_mpa (Some c) (Some s) =
     join_findings [inspect_threshold c s,
       sets_changed ''mpa approver_roles removed: '' SiRelaxed ''mpa approver_roles added: '' SiHardened
         debug_set (hs_difference (mm_approver_roles c) (mm_approver_roles s))
         (hs_difference (mm_approver_roles s) (mm_approver_roles c))]"
| "inspect_mpa (Some _) None = ([''mpa requirement removed''], [SiRelaxed])"
| "inspect_mpa None (Some _) = ([''mpa requirement newly attached''], [SiHardened])"
| "inspect_mpa None None = ([], [])"

definition inspect_pre_approval :: "compiled_pre_approval \<Rightarrow> compiled_pre_approval \<Rightarrow> finding" where
  "inspect_pre_approval c s =
     (let change = show_u64 (cpa_ttl_sec c) @ ''s'' @ arrow @ show_u64 (cpa_ttl_sec s) @ ''s''
      in if cpa_enabled c \<noteq> cpa_enabled s then
           (if cpa_enabled s
            then ([''pre_approval enabled (ttl: '' @ show_u64 (cpa_ttl_sec s) @ ''s)''], [SiRelaxed])
            else ([''pre_approval disabled''], [SiHardened]))
         else if cpa_enabled s \<and> cpa_ttl_sec c \<noteq> cpa_ttl_sec s then
           (if cpa_ttl_sec c < cpa_ttl_sec s
            then ([''pre_approval ttl extended: '' @ change], [SiRelaxed])
            else ([''pre_approval ttl shortened: '' @ change], [SiHardened]))
         else ([], []))"

fun inspect_login_context ::
  "login_context_matcher option \<Rightarrow> login_context_matcher option \<Rightarrow> finding" where
  "inspect_login_context (Some c) (Some s) =
     (if lcm_require_interactive_tty c \<and> \<not> lcm_require_interactive_tty s then
        ([''login_context: require_interactive_tty relaxed to false''], [SiRelaxed])
      else if \<not> lcm_require_interactive_tty c \<and> lcm_require_interactive_tty s then
        ([''login_context: require_interactive_tty enforced to true''], [SiHardened])
      else ([], []))"
| "inspect_login_context _ _ = ([], [])"

definition inspect_audit_level :: "audit_level \<Rightarrow> audit_level \<Rightarrow> finding" where
  "inspect_audit_level c s =
     (let change = audit_level_debug c @ arrow @ audit_level_debug s
      in if (c, s) \<in> {(AlStrict, AlStandard), (AlStandard, AlSilent), (AlStrict, AlSilent)} then
           ([''audit_level degraded: '' @ change], [SiRelaxed])
         else if (c, s) \<in> {(AlSilent, AlStandard), (AlStandard, AlStrict), (AlSilent, AlStrict)} then
           ([''audit_level strengthened: '' @ change], [SiHardened])
         else ([], []))"

definition dquoted :: "string \<Rightarrow> string" where
  "dquoted s = [CHR 0x22] @ s @ [CHR 0x22]"

definition inspect_texts :: "compiled_rule \<Rightarrow> compiled_rule \<Rightarrow> finding" where
  "inspect_texts c s =
     ((if cr_description c \<noteq> cr_description s then [''description updated''] else []) @
      (if cr_out_reason c \<noteq> cr_out_reason s then
         [''out_reason changed: '' @ dquoted (cr_out_reason c) @ arrow @ dquoted (cr_out_reason s)]
       else []), [])"

definition overall_impact :: "security_impact list \<Rightarrow> security_impact" where
  "overall_impact is =
     (if SiRelaxed \<in> set is then SiRelaxed
      else if SiHardened \<in> set is then SiHardened else SiNeutral)"

definition inspect_rule_modification ::
  "compiled_rule \<Rightarrow> compiled_rule \<Rightarrow> security_impact \<times> string list" where
  "inspect_rule_modification c s =
     (let (details, impacts) = join_findings
        [inspect_effect c s, inspect_action (cr_action_match c) (cr_action_match s),
         inspect_mpa (cr_mpa c) (cr_mpa s),
         inspect_pre_approval (cr_pre_approval c) (cr_pre_approval s),
         inspect_login_context (sm_login_context (cr_subject c)) (sm_login_context (cr_subject s)),
         inspect_audit_level (cr_audit_level c) (cr_audit_level s), inspect_texts c s]
      in (overall_impact impacts, details))"

section \<open>The difference of two policies\<close>

definition current_map_of :: "compiled_rule list \<Rightarrow> (string, compiled_rule) hmap" where
  "current_map_of rules = foldl (\<lambda>m r. hm_insert (cr_id r) r m) [] rules"

definition diff_pair :: "compiled_rule \<Rightarrow> compiled_rule \<Rightarrow> rule_diff_item" where
  "diff_pair c s =
     (let cf = source_file_or c; sf = source_file_or s; same_content = is_rule_equal c s
      in if cf = sf \<and> same_content then RdUnchanged (cr_id s) sf
         else
           let (impact, details) =
                 (if \<not> same_content then inspect_rule_modification c s else (SiNeutral, []));
               details' = details @ (if cf \<noteq> sf then [''file moved: '' @ cf @ arrow @ sf] else [])
           in RdModified (cr_id s) impact details' sf)"

fun diff_stage ::
  "compiled_rule list \<Rightarrow> (string, compiled_rule) hmap \<Rightarrow>
   rule_diff_item list \<times> (string, compiled_rule) hmap" where
  "diff_stage [] m = ([], m)"
| "diff_stage (s # ss) m =
     (let (item, m') = (case hm_get m (cr_id s) of
            Some c \<Rightarrow> (diff_pair c s, hm_remove (cr_id s) m)
          | None \<Rightarrow> (RdAdded s (evaluate_added_rule_impact s), m));
          (items, rest) = diff_stage ss m'
      in (item # items, rest))"

definition diff_rules :: "compiled_rule list \<Rightarrow> compiled_rule list \<Rightarrow> rule_diff_item list" where
  "diff_rules current_rules stage_rules =
     (let (items, rest) = diff_stage stage_rules (current_map_of current_rules)
      in items @ map (\<lambda>r. RdRemoved r (evaluate_removed_rule_impact r)) (hm_values rest))"

text \<open>The settings of the whole policy.\<close>

definition global_item ::
  "string \<Rightarrow> string \<Rightarrow> string \<Rightarrow> security_impact \<Rightarrow> string \<Rightarrow> global_diff_item" where
  "global_item k old new i d =
     \<lparr>gd_key = k, gd_old_value = old, gd_new_value = new, gd_impact = i, gd_description = d\<rparr>"

fun system_type_impact :: "system_type \<Rightarrow> system_type \<Rightarrow> security_impact" where
  "system_type_impact Server Workstation = SiRelaxed"
| "system_type_impact Workstation Server = SiHardened"
| "system_type_impact _ _ = SiNeutral"

fun system_type_description :: "security_impact \<Rightarrow> string" where
  "system_type_description SiRelaxed =
     ''Workstation mode permits non-standard interactive TTY (e.g. GUI sessions).''"
| "system_type_description SiHardened = ''Server mode restricts interactive TTY to pure CUI (pts/tty).''"
| "system_type_description SiNeutral = []"

fun default_effect_impact :: "effect \<Rightarrow> effect \<Rightarrow> security_impact" where
  "default_effect_impact Deny Allow = SiRelaxed"
| "default_effect_impact Deny AuditOnly = SiRelaxed"
| "default_effect_impact NeedApproval Allow = SiRelaxed"
| "default_effect_impact Allow Deny = SiHardened"
| "default_effect_impact AuditOnly Deny = SiHardened"
| "default_effect_impact Allow NeedApproval = SiHardened"
| "default_effect_impact _ _ = SiNeutral"

definition longer_is_relaxed :: "u64 \<Rightarrow> u64 \<Rightarrow> security_impact" where
  "longer_is_relaxed c s = (if c < s then SiRelaxed else SiHardened)"

fun ttl_max_impact :: "u64 option \<Rightarrow> u64 option \<Rightarrow> security_impact" where
  "ttl_max_impact (Some _) None = SiRelaxed"
| "ttl_max_impact None (Some _) = SiHardened"
| "ttl_max_impact (Some c) (Some s) =
     (if c < s then SiRelaxed else if s < c then SiHardened else SiNeutral)"
| "ttl_max_impact None None = SiNeutral"

definition show_ttl_max :: "u64 option \<Rightarrow> string" where
  "show_ttl_max t = (case t of None \<Rightarrow> ''None (unlimited)'' | Some v \<Rightarrow> show_u64 v @ ''s'')"

definition compare_global_configs :: "compiled_policy \<Rightarrow> compiled_policy \<Rightarrow> global_diff_item list" where
  "compare_global_configs c s =
     (let cp = cp_pre_approval_defaults c; sp = cp_pre_approval_defaults s in
      (if cp_system_type c \<noteq> cp_system_type s then
         [let i = system_type_impact (cp_system_type c) (cp_system_type s)
          in global_item ''system_type'' (system_type_debug (cp_system_type c))
               (system_type_debug (cp_system_type s)) i (system_type_description i)]
       else []) @
      (if cp_default_effect c \<noteq> cp_default_effect s then
         [global_item ''default_effect'' (effect_debug (cp_default_effect c))
            (effect_debug (cp_default_effect s))
            (default_effect_impact (cp_default_effect c) (cp_default_effect s))
            (''Fallback effect changed from '' @ effect_debug (cp_default_effect c) @ '' to '' @
             effect_debug (cp_default_effect s))]
       else []) @
      (if cpd_ttl_sec_default cp \<noteq> cpd_ttl_sec_default sp then
         [global_item ''pre_approval_defaults.ttl_sec_default'' (show_u64 (cpd_ttl_sec_default cp) @ ''s'')
            (show_u64 (cpd_ttl_sec_default sp) @ ''s'')
            (longer_is_relaxed (cpd_ttl_sec_default cp) (cpd_ttl_sec_default sp))
            ''Default TTL for JIT pre-approvals changed.'']
       else []) @
      (if cpd_ttl_sec_max cp \<noteq> cpd_ttl_sec_max sp then
         [global_item ''pre_approval_defaults.ttl_sec_max'' (show_ttl_max (cpd_ttl_sec_max cp))
            (show_ttl_max (cpd_ttl_sec_max sp)) (ttl_max_impact (cpd_ttl_sec_max cp) (cpd_ttl_sec_max sp))
            ''Hard limit cap for JIT pre-approval TTL changed.'']
       else []) @
      (if cp_ttl_minutes c \<noteq> cp_ttl_minutes s then
         [global_item ''ttl_minutes'' (show_u64 (cp_ttl_minutes c) @ ''m'') (show_u64 (cp_ttl_minutes s) @ ''m'')
            (longer_is_relaxed (cp_ttl_minutes c) (cp_ttl_minutes s))
            ''MPA pending approval expiration window changed.'']
       else []) @
      (if cp_sweep_minutes c \<noteq> cp_sweep_minutes s then
         [global_item ''sweep_minutes'' (show_u64 (cp_sweep_minutes c) @ ''m'')
            (show_u64 (cp_sweep_minutes s) @ ''m'')
            (longer_is_relaxed (cp_sweep_minutes c) (cp_sweep_minutes s))
            ''Pending approvals sweep/cleanup interval changed.'']
       else []) @
      (if cp_version c \<noteq> cp_version s then
         [global_item ''version'' (policy_version_debug (cp_version c)) (policy_version_debug (cp_version s))
            SiNeutral ''Policy schema version changed.'']
       else []))"

section \<open>bundle_diff.rs\<close>

text \<open>\<open>BTreeSet\<close>: the elements in ascending order.\<close>

definition btree :: "'a::linorder list \<Rightarrow> 'a list" where
  "btree xs = sort (remdups xs)"

definition btree_difference :: "'a::linorder list \<Rightarrow> 'a list \<Rightarrow> 'a list" where
  "btree_difference a b = filter (\<lambda>x. x \<notin> set b) a"

lemma set_btree [coll_simps, simp]: "set (btree xs) = set xs"
  by (simp add: btree_def)

lemma set_btree_difference [coll_simps, simp]: "set (btree_difference a b) = set a - set b"
  by (auto simp: btree_difference_def)

lemma btree_difference_Nil: "btree_difference a b = [] \<longleftrightarrow> set a \<subseteq> set b"
  by (auto simp: btree_difference_def filter_empty_conv)

record bundle_diff =
  bdf_added_policies :: "string list"
  bdf_removed_policies :: "string list"

definition compare_bundle :: "raw_bundle \<Rightarrow> raw_bundle \<Rightarrow> bundle_diff option" where
  "compare_bundle c s =
     (let curr_set = btree (rb_policy_files c); stage_set = btree (rb_policy_files s);
          added = btree_difference stage_set curr_set; removed = btree_difference curr_set stage_set
      in if added = [] \<and> removed = [] then None
         else Some \<lparr>bdf_added_policies = added, bdf_removed_policies = removed\<rparr>)"

record assignment_change =
  ach_target :: string
  ach_added :: "string list"
  ach_removed :: "string list"

record roles_diff =
  rdf_added_roles :: "string list"
  rdf_removed_roles :: "string list"
  rdf_assignment_changes :: "assignment_change list"
  rdf_default_roles_changed :: "(string list \<times> string list) option"

definition assignment_entry ::
  "raw_assignment \<Rightarrow> (u32, string list) hmap \<Rightarrow> (u32, string list) hmap" where
  "assignment_entry a m =
     (case ra_uid a of
        None \<Rightarrow> m
      | Some uid \<Rightarrow>
          hm_insert uid (btree ((case hm_get m uid of Some rs \<Rightarrow> rs | None \<Rightarrow> []) @ ra_roles a)) m)"

definition assignments_to_map :: "raw_assignment list \<Rightarrow> (u32, string list) hmap" where
  "assignments_to_map as = fold assignment_entry as []"

definition assignment_changes ::
  "(u32, string list) hmap \<Rightarrow> (u32, string list) hmap \<Rightarrow> u32 \<Rightarrow> assignment_change list" where
  "assignment_changes c s uid =
     (let curr = (case hm_get c uid of Some rs \<Rightarrow> rs | None \<Rightarrow> []);
          stage = (case hm_get s uid of Some rs \<Rightarrow> rs | None \<Rightarrow> []);
          added = btree_difference stage curr; removed = btree_difference curr stage
      in if added \<noteq> [] \<or> removed \<noteq> []
         then [\<lparr>ach_target = ''UID '' @ show_u32 uid, ach_added = added, ach_removed = removed\<rparr>]
         else [])"

definition compare_roles :: "raw_roles \<Rightarrow> raw_roles \<Rightarrow> roles_diff option" where
  "compare_roles c s =
     (let curr_roles = btree (map rrd_name (rro_roles c)); stage_roles = btree (map rrd_name (rro_roles s));
          curr_map = assignments_to_map (rro_assignments c);
          stage_map = assignments_to_map (rro_assignments s);
          cd = rd_roles_for_unknown_user (rro_defaults c);
          sd = rd_roles_for_unknown_user (rro_defaults s);
          diff = \<lparr>rdf_added_roles = btree_difference stage_roles curr_roles,
                  rdf_removed_roles = btree_difference curr_roles stage_roles,
                  rdf_assignment_changes = concat (map (assignment_changes curr_map stage_map)
                    (btree (hm_keys curr_map @ hm_keys stage_map))),
                  rdf_default_roles_changed = (if cd \<noteq> sd then Some (cd, sd) else None)\<rparr>
      in if rdf_added_roles diff = [] \<and> rdf_removed_roles diff = [] \<and>
            rdf_assignment_changes diff = [] \<and> rdf_default_roles_changed diff = None
         then None else Some diff)"

text \<open>The management file.\<close>

datatype mgmt_impact = MiCritical | MiWarning | MiStricter | MiNeutral

record mgmt_role_change =
  mrc_role_name :: string
  mrc_added_uids :: "u32 list"
  mrc_removed_uids :: "u32 list"

record control_change =
  cc_command :: string
  cc_mpa_enabled_change :: "(bool \<times> bool) option"
  cc_threshold_change :: "(u32 \<times> u32) option"
  cc_added_approver_roles :: "string list"
  cc_removed_approver_roles :: "string list"
  cc_added_initiator_roles :: "string list"
  cc_removed_initiator_roles :: "string list"
  cc_impact :: mgmt_impact

record management_diff =
  mdf_role_changes :: "mgmt_role_change list"
  mdf_control_changes :: "control_change list"

definition opt_or :: "'a \<Rightarrow> 'a option \<Rightarrow> 'a" where
  "opt_or d x = (case x of None \<Rightarrow> d | Some v \<Rightarrow> v)"

lemma opt_or_simps [simp]: "opt_or d None = d" "opt_or d (Some v) = v"
  by (simp_all add: opt_or_def)

definition control_impact ::
  "(bool \<times> bool) option \<Rightarrow> (u32 \<times> u32) option \<Rightarrow> string list \<Rightarrow> string list \<Rightarrow> mgmt_impact" where
  "control_impact enabled_change threshold_change removed_app added_init =
     (if enabled_change = Some (True, False) then MiCritical
      else case threshold_change of
        Some (old_val, new_val) \<Rightarrow> (if new_val < old_val then MiCritical else MiStricter)
      | None \<Rightarrow>
          if enabled_change = Some (False, True) then MiStricter
          else if removed_app \<noteq> [] \<or> added_init \<noteq> [] then MiWarning
          else MiNeutral)"

definition compare_both_controls ::
  "string \<Rightarrow> raw_mgmt_control \<Rightarrow> raw_mgmt_control \<Rightarrow> control_change option" where
  "compare_both_controls cmd c s =
     (let cm = rmc_mpa c; sm = rmc_mpa s;
          curr_init = btree (rmc_initiator_roles c); stage_init = btree (rmc_initiator_roles s);
          added_init = btree_difference stage_init curr_init;
          removed_init = btree_difference curr_init stage_init;
          enabled_change = (if rmm_enabled cm \<noteq> rmm_enabled sm
            then Some (rmm_enabled cm, rmm_enabled sm) else None);
          old_t = opt_or 0 (rmm_threshold cm); new_t = opt_or 0 (rmm_threshold sm);
          threshold_change = (if old_t \<noteq> new_t then Some (old_t, new_t) else None);
          curr_app = btree (opt_or [] (rmm_approver_roles cm));
          stage_app = btree (opt_or [] (rmm_approver_roles sm));
          added_app = btree_difference stage_app curr_app;
          removed_app = btree_difference curr_app stage_app
      in if enabled_change = None \<and> threshold_change = None \<and> added_init = [] \<and> removed_init = [] \<and>
            added_app = [] \<and> removed_app = [] then None
         else Some \<lparr>cc_command = cmd, cc_mpa_enabled_change = enabled_change,
           cc_threshold_change = threshold_change, cc_added_approver_roles = added_app,
           cc_removed_approver_roles = removed_app, cc_added_initiator_roles = added_init,
           cc_removed_initiator_roles = removed_init,
           cc_impact = control_impact enabled_change threshold_change removed_app added_init\<rparr>)"

fun compare_single_control ::
  "string \<Rightarrow> raw_mgmt_control option \<Rightarrow> raw_mgmt_control option \<Rightarrow> control_change option" where
  "compare_single_control cmd (Some c) (Some s) = compare_both_controls cmd c s"
| "compare_single_control cmd None (Some s) =
     Some \<lparr>cc_command = cmd, cc_mpa_enabled_change = Some (False, rmm_enabled (rmc_mpa s)),
       cc_threshold_change = map_option (\<lambda>t. (0, t)) (rmm_threshold (rmc_mpa s)),
       cc_added_approver_roles = opt_or [] (rmm_approver_roles (rmc_mpa s)),
       cc_removed_approver_roles = [], cc_added_initiator_roles = rmc_initiator_roles s,
       cc_removed_initiator_roles = [], cc_impact = MiStricter\<rparr>"
| "compare_single_control cmd (Some c) None =
     Some \<lparr>cc_command = cmd, cc_mpa_enabled_change = Some (rmm_enabled (rmc_mpa c), False),
       cc_threshold_change = map_option (\<lambda>t. (t, 0)) (rmm_threshold (rmc_mpa c)),
       cc_added_approver_roles = [], cc_removed_approver_roles = opt_or [] (rmm_approver_roles (rmc_mpa c)),
       cc_added_initiator_roles = [], cc_removed_initiator_roles = rmc_initiator_roles c,
       cc_impact = MiCritical\<rparr>"
| "compare_single_control cmd None None = None"

definition opt_list :: "'a option \<Rightarrow> 'a list" where
  "opt_list x = (case x of None \<Rightarrow> [] | Some v \<Rightarrow> [v])"

text \<open>The list of role changes is never filled.\<close>

definition compare_management :: "raw_management \<Rightarrow> raw_management \<Rightarrow> management_diff option" where
  "compare_management c s =
     (let changes = concat (map (\<lambda>(cmd, cc, sc). opt_list (compare_single_control cmd cc sc))
        [(''start'', Some (rmg_start c), Some (rmg_start s)),
         (''stop'', Some (rmg_stop c), Some (rmg_stop s)),
         (''policy_update'', rmg_policy_update c, rmg_policy_update s),
         (''flush'', rmg_flush c, rmg_flush s)])
      in if changes = [] then None
         else Some \<lparr>mdf_role_changes = [], mdf_control_changes = changes\<rparr>)"

record full_config_diff =
  fcd_bundle_diff :: "bundle_diff option"
  fcd_roles_diff :: "roles_diff option"
  fcd_mgmt_diff :: "management_diff option"

text \<open>
  \<open>compare_full_config\<close> reads the raw files without validating them against the schemas; whether
  a path exists is a parameter beside the loader.
\<close>

definition compare_full_config ::
  "bundle_loader \<Rightarrow> (path \<Rightarrow> bool) \<Rightarrow> path \<Rightarrow> path \<Rightarrow> load_error + full_config_diff" where
  "compare_full_config bl ex curr_dir stage_dir =
     (let ld = bd_loader bl;
          curr_mgmt = path_join curr_dir ''management.json'';
          stage_mgmt = path_join stage_dir ''management.json'' in
      bindR (with_context ''Failed to load current bundle.json''
               (ld_json_file ld (path_join curr_dir ''bundle.json''))) (\<lambda>cbv.
      bindR (with_context ''Failed to load staged bundle.json''
               (ld_json_file ld (path_join stage_dir ''bundle.json''))) (\<lambda>sbv.
      bindR (bd_bundle_from_value bl cbv) (\<lambda>cb.
      bindR (bd_bundle_from_value bl sbv) (\<lambda>sb.
      bindR (with_context ''Failed to load current roles.json''
               (ld_json_file ld (path_join curr_dir ''roles.json''))) (\<lambda>crv.
      bindR (with_context ''Failed to load staged roles.json''
               (ld_json_file ld (path_join stage_dir ''roles.json''))) (\<lambda>srv.
      bindR (ld_roles_from_value ld crv) (\<lambda>cr.
      bindR (ld_roles_from_value ld srv) (\<lambda>sr.
      bindR (if ex curr_mgmt \<and> ex stage_mgmt then
               bindR (with_context ''Failed to load current management.json''
                        (ld_json_file ld curr_mgmt)) (\<lambda>cmv.
               bindR (with_context ''Failed to load staged management.json''
                        (ld_json_file ld stage_mgmt)) (\<lambda>smv.
               bindR (ld_management_from_value ld cmv) (\<lambda>cm.
               bindR (ld_management_from_value ld smv) (\<lambda>sm.
                 Inr (compare_management cm sm)))))
             else Inr None) (\<lambda>md.
        Inr \<lparr>fcd_bundle_diff = compare_bundle cb sb, fcd_roles_diff = compare_roles cr sr,
             fcd_mgmt_diff = md\<rparr>))))))))))"

section \<open>The report\<close>

record bundle_diff_report =
  bdr_current_hash :: string
  bdr_new_hash :: string
  bdr_config_diff :: "full_config_diff option"
  bdr_global_diffs :: "global_diff_item list"
  bdr_rule_diffs :: "rule_diff_item list"

definition compare_policies ::
  "compiled_bundle \<Rightarrow> compiled_bundle \<Rightarrow> string \<Rightarrow> string \<Rightarrow> bundle_diff_report" where
  "compare_policies current stage current_hash new_hash =
     \<lparr>bdr_current_hash = current_hash, bdr_new_hash = new_hash, bdr_config_diff = None,
      bdr_global_diffs = compare_global_configs (cb_policy current) (cb_policy stage),
      bdr_rule_diffs = diff_rules (cp_rules (cb_policy current)) (cp_rules (cb_policy stage))\<rparr>"

text \<open>\<open>execute_diff\<close> up to the printing of the report.\<close>

definition execute_diff ::
  "platform \<Rightarrow> bundle_loader \<Rightarrow> (path \<Rightarrow> bool) \<Rightarrow> path \<Rightarrow> path \<Rightarrow> string \<Rightarrow> string \<Rightarrow>
   load_error + bundle_diff_report" where
  "execute_diff pf bl ex curr_path stage_path current_hash new_hash =
     bindR (with_context ''Failed to compare bundle configurations''
              (compare_full_config bl ex curr_path stage_path)) (\<lambda>config_diff.
     bindR (with_context ''Failed to load current policy bundle''
              (load_bundle_from_dir pf bl curr_path)) (\<lambda>current_bundle.
     bindR (with_context ''Failed to load staged policy bundle''
              (load_bundle_from_dir pf bl stage_path)) (\<lambda>stage_bundle.
     Inr ((compare_policies current_bundle stage_bundle current_hash new_hash)
            \<lparr>bdr_config_diff := Some config_diff\<rparr>))))"

end
