(* ===== verification/Diff_Facts.thy ===== *)
theory Diff_Facts
  imports Policy_Diff
begin

text \<open>
  What the report of \<open>teal-cli diff\<close> says and what it does not say: every rule of either policy
  is reported exactly once and as what it is; a report without changes guarantees equal
  decisions when order and week intervals are equal too, and does not when they are not.
\<close>

section \<open>The map of the current rules\<close>

lemma current_map_fold:
  "hm_wf m \<Longrightarrow> hm_wf (foldl (\<lambda>m r. hm_insert (cr_id r) r m) m rs)"
  by (induction rs arbitrary: m) auto

lemma current_map_wf [simp]: "hm_wf (current_map_of rs)"
  by (simp add: current_map_of_def current_map_fold)

lemma current_map_get_fold:
  assumes "distinct (map cr_id rs)"
  shows "hm_get (foldl (\<lambda>m r. hm_insert (cr_id r) r m) m rs) i =
    (case List.find (\<lambda>r. cr_id r = i) rs of Some r \<Rightarrow> Some r | None \<Rightarrow> hm_get m i)"
  using assms
proof (induction rs arbitrary: m)
  case (Cons r rs)
  have "List.find (\<lambda>q. cr_id q = i) rs = None" if "cr_id r = i"
    using that Cons.prems by (auto simp: find_None_iff intro: rev_image_eqI)
  with Cons show ?case by (auto split: option.splits)
qed simp

lemma current_map_get:
  "distinct (map cr_id rs) \<Longrightarrow> hm_get (current_map_of rs) i = List.find (\<lambda>r. cr_id r = i) rs"
  by (simp add: current_map_of_def current_map_get_fold split: option.splits)

lemma find_by_id:
  "distinct (map cr_id rs) \<Longrightarrow> List.find (\<lambda>r. cr_id r = i) rs = Some r \<longleftrightarrow> r \<in> set rs \<and> cr_id r = i"
  by (induction rs) auto

lemma current_map_Some:
  "distinct (map cr_id rs) \<Longrightarrow> hm_get (current_map_of rs) i = Some r \<longleftrightarrow> r \<in> set rs \<and> cr_id r = i"
  by (simp add: current_map_get find_by_id)

lemma current_map_None:
  "distinct (map cr_id rs) \<Longrightarrow> hm_get (current_map_of rs) i = None \<longleftrightarrow> i \<notin> cr_id ` set rs"
  by (auto simp: current_map_get find_None_iff)

section \<open>One item per rule\<close>

definition stage_item :: "(string, compiled_rule) hmap \<Rightarrow> compiled_rule \<Rightarrow> rule_diff_item" where
  "stage_item m s = (case hm_get m (cr_id s) of
     Some c \<Rightarrow> diff_pair c s | None \<Rightarrow> RdAdded s (evaluate_added_rule_impact s))"

lemma item_id_pair [simp]: "item_rule_id (diff_pair c s) = cr_id s"
  by (simp add: diff_pair_def Let_def split: prod.splits)

lemma item_id_stage [simp]: "item_rule_id (stage_item m s) = cr_id s"
  by (simp add: stage_item_def split: option.splits)

lemma diff_stage_items:
  assumes "hm_wf m" and "distinct (map cr_id ss)"
  shows "fst (diff_stage ss m) = map (stage_item m) ss \<and> hm_wf (snd (diff_stage ss m)) \<and>
    (\<forall>i. hm_get (snd (diff_stage ss m)) i = (if i \<in> cr_id ` set ss then None else hm_get m i))"
  using assms
proof (induction ss arbitrary: m)
  case (Cons s ss)
  let ?m = "case hm_get m (cr_id s) of Some c \<Rightarrow> hm_remove (cr_id s) m | None \<Rightarrow> m"
  have wf: "hm_wf ?m" using Cons.prems(1) by (auto split: option.splits)
  have get: "hm_get ?m i = (if i = cr_id s then None else hm_get m i)" for i
    using Cons.prems(1) by (auto split: option.splits)
  have "stage_item ?m q = stage_item m q" if "q \<in> set ss" for q
    proof -
    from that Cons.prems(2) have "cr_id q \<noteq> cr_id s" by (auto intro: rev_image_eqI)
    then show ?thesis by (simp only: stage_item_def get if_False)
  qed
  moreover have "diff_stage (s # ss) m =
      (stage_item m s # fst (diff_stage ss ?m), snd (diff_stage ss ?m))"
    by (auto simp: stage_item_def split: option.splits prod.splits)
  ultimately show ?case using Cons.IH [OF wf] Cons.prems(2) get by auto
qed simp

lemma removed_rules:
  assumes "distinct (map cr_id cs)" "distinct (map cr_id ss)"
  shows "r \<in> set (hm_values (snd (diff_stage ss (current_map_of cs)))) \<longleftrightarrow>
    r \<in> set cs \<and> cr_id r \<notin> cr_id ` set ss"
  using diff_stage_items [OF current_map_wf assms(2), of cs] current_map_Some [OF assms(1)]
  by (auto simp: hm_values_iff)

lemma hm_values_distinct_ids:
  "hm_wf m \<Longrightarrow> (\<And>k v. hm_get m k = Some v \<Longrightarrow> f v = k) \<Longrightarrow> map f (hm_values m) = map fst m"
  by (force simp: hm_values_def hm_get_def hm_wf_def)

lemma stage_item_pair:
  "distinct (map cr_id cs) \<Longrightarrow> c \<in> set cs \<Longrightarrow> cr_id c = cr_id s \<Longrightarrow>
     stage_item (current_map_of cs) s = diff_pair c s"
  using current_map_Some [of cs "cr_id s" c] by (simp add: stage_item_def)

lemma stage_item_added:
  "distinct (map cr_id cs) \<Longrightarrow> cr_id s \<notin> cr_id ` set cs \<Longrightarrow>
     stage_item (current_map_of cs) s = RdAdded s (evaluate_added_rule_impact s)"
  using current_map_None [of cs "cr_id s"] by (simp add: stage_item_def)

lemma stage_items_set:
  assumes d: "distinct (map cr_id cs)"
  shows "stage_item (current_map_of cs) ` set ss =
    {diff_pair c s | c s. c \<in> set cs \<and> s \<in> set ss \<and> cr_id c = cr_id s} \<union>
    {RdAdded s (evaluate_added_rule_impact s) | s. s \<in> set ss \<and> cr_id s \<notin> cr_id ` set cs}"
    (is "?L = ?P \<union> ?A")
proof
  have "stage_item (current_map_of cs) s \<in> ?P \<union> ?A" if "s \<in> set ss" for s
  proof (cases "cr_id s \<in> cr_id ` set cs")
    case True
    then obtain c where "c \<in> set cs" "cr_id c = cr_id s" by (metis imageE)
    with that stage_item_pair [OF d] show ?thesis by blast
  next
    case False
    with that stage_item_added [OF d] show ?thesis by blast
  qed
  then show "?L \<subseteq> ?P \<union> ?A" by blast
  have "?P \<subseteq> ?L" using stage_item_pair [OF d] by force
  moreover have "?A \<subseteq> ?L" using stage_item_added [OF d] by force
  ultimately show "?P \<union> ?A \<subseteq> ?L" by blast
qed

lemma diff_reports_each_rule_once_lemma:
  assumes "distinct (map cr_id cs)" and "distinct (map cr_id ss)"
  shows "distinct (map item_rule_id (diff_rules cs ss)) \<and>
    item_rule_id ` set (diff_rules cs ss) = cr_id ` set cs \<union> cr_id ` set ss \<and>
    set (diff_rules cs ss) =
      {diff_pair c s | c s. c \<in> set cs \<and> s \<in> set ss \<and> cr_id c = cr_id s} \<union>
      {RdAdded s (evaluate_added_rule_impact s) | s. s \<in> set ss \<and> cr_id s \<notin> cr_id ` set cs} \<union>
      {RdRemoved c (evaluate_removed_rule_impact c) | c. c \<in> set cs \<and> cr_id c \<notin> cr_id ` set ss}"
proof -
  let ?m = "current_map_of cs"
  let ?rest = "snd (diff_stage ss ?m)"
  let ?rem = "\<lambda>r. RdRemoved r (evaluate_removed_rule_impact r)"
  note st = diff_stage_items [OF current_map_wf assms(2), of cs]
  note rem = removed_rules [OF assms]
  have d: "diff_rules cs ss = map (stage_item ?m) ss @ map ?rem (hm_values ?rest)"
    using st by (simp add: diff_rules_def case_prod_beta)
  have ids: "map item_rule_id (diff_rules cs ss) = map cr_id ss @ map cr_id (hm_values ?rest)"
    by (simp add: d comp_def)
  have "map cr_id (hm_values ?rest) = map fst ?rest"
    using st current_map_Some [OF assms(1)] by (intro hm_values_distinct_ids) (auto split: if_splits)
  then have "distinct (map cr_id (hm_values ?rest))" using st by (simp add: hm_wf_def)
  moreover have rids: "cr_id ` set (hm_values ?rest) = cr_id ` set cs - cr_id ` set ss"
    using rem by (auto simp: image_iff)
  ultimately have dist: "distinct (map item_rule_id (diff_rules cs ss))"
    using assms(2) by (simp add: ids)
  have "set (map item_rule_id (diff_rules cs ss)) = cr_id ` set cs \<union> cr_id ` set ss"
    using rids by (auto simp: ids)
  moreover have "set (diff_rules cs ss) = stage_item ?m ` set ss \<union> ?rem ` set (hm_values ?rest)"
    by (simp add: d)
  moreover have "?rem ` set (hm_values ?rest) = {?rem c | c. c \<in> set cs \<and> cr_id c \<notin> cr_id ` set ss}"
    using rem by blast
  ultimately show ?thesis using dist by (simp add: stage_items_set [OF assms(1)])
qed

text \<open>
  C15. The report is complete and exact. The ids of its items are pairwise distinct and are those of
  both policies together; a rule with the same id on both sides is compared as that pair, a
  staged rule without a counterpart is added, an installed one without a counterpart removed.
\<close>

theorem diff_reports_each_rule_once:
  assumes "distinct (map cr_id cs)" and "distinct (map cr_id ss)"
  shows "distinct (map item_rule_id (diff_rules cs ss)) \<and>
    item_rule_id ` set (diff_rules cs ss) = cr_id ` set cs \<union> cr_id ` set ss \<and>
    set (diff_rules cs ss) =
      {diff_pair c s | c s. c \<in> set cs \<and> s \<in> set ss \<and> cr_id c = cr_id s} \<union>
      {RdAdded s (evaluate_added_rule_impact s) | s. s \<in> set ss \<and> cr_id s \<notin> cr_id ` set cs} \<union>
      {RdRemoved c (evaluate_removed_rule_impact c) | c. c \<in> set cs \<and> cr_id c \<notin> cr_id ` set ss}"
  using diff_reports_each_rule_once_lemma [OF assms] .

section \<open>What equality of rules guarantees\<close>

lemma pathmatcher_eq_matches:
  "pathmatcher_eq a b \<Longrightarrow> pathmatcher_matches pf a q = pathmatcher_matches pf b q"
  by (cases "(a, b)" rule: pathmatcher_eq.cases)
    (auto simp: path_eq_def path_starts_with_def)

lemma pm_opt_eq_cases:
  "pm_opt_eq a b \<Longrightarrow> (a = None \<and> b = None) \<or> (\<exists>x y. a = Some x \<and> b = Some y \<and> pathmatcher_eq x y)"
  by (cases "(a, b)" rule: pm_opt_eq.cases) auto

lemma match_origin_eq: "pm_opt_eq a b \<Longrightarrow> match_origin pf a p = match_origin pf b p"
  by (auto dest!: pm_opt_eq_cases simp: match_origin_def pathmatcher_eq_matches split: option.splits)

lemma opt_covers_eq: "pm_opt_eq a b \<Longrightarrow> opt_covers pf a p = opt_covers pf b p"
  by (auto dest!: pm_opt_eq_cases simp: opt_covers_def pathmatcher_eq_matches)

lemma match_action_eq: "is_action_equal a b \<Longrightarrow> match_action a x = match_action b x"
  by (cases "(a, b)" rule: is_action_equal.cases) (auto simp: hs_eq_def)

lemma is_object_equal_cases:
  "is_object_equal a b \<Longrightarrow> (a = None \<and> b = None) \<or>
     (\<exists>x y. a = Some x \<and> b = Some y \<and> om_kind x = om_kind y \<and>
        pm_opt_eq (om_path x) (om_path y) \<and> pm_opt_eq (om_new_path x) (om_new_path y))"
  by (cases "(a, b)" rule: is_object_equal.cases) auto

lemma match_object_eq:
  assumes "is_object_equal a b"
  shows "match_object pf a p np k = match_object pf b p np k"
proof -
  have path: "(case x of Some pm \<Rightarrow> \<not> pathmatcher_matches pf pm p | None \<Rightarrow> False) =
      (case y of Some pm \<Rightarrow> \<not> pathmatcher_matches pf pm p | None \<Rightarrow> False)"
    and new: "(case x of Some pm \<Rightarrow> (case np of Some q \<Rightarrow> \<not> pathmatcher_matches pf pm q | None \<Rightarrow> True)
        | None \<Rightarrow> False) =
      (case y of Some pm \<Rightarrow> (case np of Some q \<Rightarrow> \<not> pathmatcher_matches pf pm q | None \<Rightarrow> True)
        | None \<Rightarrow> False)"
    if "pm_opt_eq x y" for x y
    using pm_opt_eq_cases [OF that] pathmatcher_eq_matches by (auto split: option.splits)
  show ?thesis
  proof (cases a)
    case None
    with assms show ?thesis by (cases b) auto
  next
    case (Some x)
    with is_object_equal_cases [OF assms] obtain y where y: "b = Some y" "om_kind x = om_kind y"
      "pm_opt_eq (om_path x) (om_path y)" "pm_opt_eq (om_new_path x) (om_new_path y)" by auto
    show ?thesis
      unfolding match_object_def Some y(1) option.case path [OF y(3)] new [OF y(4)] y(2) by (rule refl)
  qed
qed

lemma time_constraint_eq:
  assumes "is_time_constraint_equal a b" and "tcm_week_interval a = tcm_week_interval b"
  shows "time_constraint_holds cal a d m = time_constraint_holds cal b d m"
proof -
  from assms(1) have s: "set (tcm_allowed_days a) = set (tcm_allowed_days b)"
    by (simp add: is_time_constraint_equal_def hs_eq_def)
  then have "tcm_allowed_days a = [] \<longleftrightarrow> tcm_allowed_days b = []" by (metis set_empty)
  with s assms(2) have "matches_start_date cal a = matches_start_date cal b"
    by (intro ext) (simp add: matches_start_date_def)
  with assms show ?thesis
    by (simp add: time_constraint_holds_def is_time_constraint_equal_def Let_def split: option.split)
qed

definition same_weeks :: "compiled_rule \<Rightarrow> compiled_rule \<Rightarrow> bool" where
  "same_weeks c s \<longleftrightarrow>
     map tcm_week_interval (cr_time_constraints c) = map tcm_week_interval (cr_time_constraints s)"

lemma time_constraints_pairwise:
  "is_time_constraints_equal as bs \<Longrightarrow> map tcm_week_interval as = map tcm_week_interval bs \<Longrightarrow>
     list_all2 (\<lambda>a b. is_time_constraint_equal a b \<and> tcm_week_interval a = tcm_week_interval b) as bs"
proof (induction as arbitrary: bs)
  case (Cons a as)
  then show ?case by (cases bs) (auto simp: is_time_constraints_equal_def split: if_splits)
qed (simp add: is_time_constraints_equal_def)

lemma time_constraints_eq:
  assumes "is_time_constraints_equal as bs" and "map tcm_week_interval as = map tcm_week_interval bs"
  shows "match_time_constraints cal as now = match_time_constraints cal bs now"
proof -
  have "(\<exists>c \<in> set as. time_constraint_holds cal c d m) = (\<exists>c \<in> set bs. time_constraint_holds cal c d m)"
    for d m
    using time_constraints_pairwise [OF assms]
    by (induction rule: list_all2_induct) (auto simp: time_constraint_eq)
  moreover have "as = [] \<longleftrightarrow> bs = []" using assms(2) by (metis map_is_Nil_conv)
  ultimately show ?thesis
    by (simp add: match_time_constraints_def match_time_constraints_at_def Let_def)
qed

lemma login_ctx_eq: "is_login_ctx_equal a b \<Longrightarrow> a = b"
  by (cases "(a, b)" rule: is_login_ctx_equal.cases) auto

lemma match_subject_eq:
  assumes "is_subject_equal a b"
  shows "match_subject pf a nets ctx st = match_subject pf b nets ctx st"
proof -
  have r: "set (sm_required_roles a) = set (sm_required_roles b)"
    using assms by (simp add: is_subject_equal_def hs_eq_def)
  then have "sm_required_roles a = [] \<longleftrightarrow> sm_required_roles b = []" by (metis set_empty)
  moreover from assms have "match_origin pf (sm_origin_program a) p = match_origin pf (sm_origin_program b) p"
    "match_origin pf (sm_origin_script a) p = match_origin pf (sm_origin_script b) p" for p
    by (simp_all add: is_subject_equal_def match_origin_eq)
  moreover from assms have "sm_uid a = sm_uid b" "sm_origin_applet a = sm_origin_applet b"
    "sm_login_context a = sm_login_context b"
    by (simp_all add: is_subject_equal_def login_ctx_eq)
  ultimately show ?thesis using r by (simp add: match_subject_def)
qed

text \<open>A rule that compares equal, week intervals included, matches the same requests.\<close>

lemma equal_rules_match:
  assumes "is_rule_equal c s" and "same_weeks c s"
  shows "rule_matches ev c nets ctx st = rule_matches ev s nets ctx st"
  using assms unfolding rule_matches_def is_rule_equal_def same_weeks_def
  by (simp add: match_object_eq [of "cr_object c" "cr_object s"]
      match_action_eq [of "cr_action_match c" "cr_action_match s"]
      match_subject_eq [of "cr_subject c" "cr_subject s"]
      time_constraints_eq [of "cr_time_constraints c" "cr_time_constraints s"])

lemma equal_rules_cover:
  assumes "is_rule_equal c s"
  shows "rule_object_covers pf c p = rule_object_covers pf s p"
    and "rule_program_covers pf c p = rule_program_covers pf s p"
proof -
  from assms have o: "is_object_equal (cr_object c) (cr_object s)"
    and k: "cr_rule_type c = cr_rule_type s"
    and pr: "pm_opt_eq (sm_origin_program (cr_subject c)) (sm_origin_program (cr_subject s))"
    by (simp_all add: is_rule_equal_def is_subject_equal_def)
  from is_object_equal_cases [OF o] k show "rule_object_covers pf c p = rule_object_covers pf s p"
    by (auto simp: rule_object_covers_def opt_covers_eq)
  from pr k show "rule_program_covers pf c p = rule_program_covers pf s p"
    by (simp add: rule_program_covers_def opt_covers_eq)
qed

section \<open>A report without changes\<close>

fun same_decision :: "decision \<Rightarrow> decision \<Rightarrow> bool" where
  "same_decision Pass Pass = True"
| "same_decision (Matched r) (Matched q) = is_rule_equal r q"
| "same_decision NoMatchManaged NoMatchManaged = True"
| "same_decision _ _ = False"

definition nothing_to_report :: "bundle_diff_report \<Rightarrow> bool" where
  "nothing_to_report rep \<longleftrightarrow> bdr_global_diffs rep = [] \<and>
     set (map item_change_kind (bdr_rule_diffs rep)) \<subseteq> {''UNCHANGED''}"

lemma diff_pair_unchanged: "item_change_kind (diff_pair c s) = ''UNCHANGED'' \<longleftrightarrow>
    source_file_or c = source_file_or s \<and> is_rule_equal c s"
  by (simp add: diff_pair_def Let_def split: prod.splits)

lemma first_match_same:
  assumes "list_all2 (\<lambda>c s. is_rule_equal c s \<and> m c = n s) cs ss"
  shows "same_decision (first_match m cs) (first_match n ss)"
  using assms by (induction rule: list_all2_induct) auto

lemma covers_same:
  assumes "list_all2 is_rule_equal cs ss"
  shows "(\<exists>r \<in> set cs. rule_object_covers pf r q) = (\<exists>r \<in> set ss. rule_object_covers pf r q)"
    and "(\<exists>r \<in> set cs. rule_program_covers pf r q) = (\<exists>r \<in> set ss. rule_program_covers pf r q)"
  using assms by (induction rule: list_all2_induct) (simp_all add: equal_rules_cover)

lemma no_global_diffs:
  "compare_global_configs c s = [] \<Longrightarrow> cp_system_type c = cp_system_type s"
  by (simp add: compare_global_configs_def Let_def split: if_splits)

lemma diff_rules_pair:
  assumes "distinct (map cr_id cs)" "distinct (map cr_id ss)"
    and "c \<in> set cs" "s \<in> set ss" "cr_id c = cr_id s"
  shows "diff_pair c s \<in> set (diff_rules cs ss)"
  unfolding conjunct2 [OF conjunct2 [OF diff_reports_each_rule_once_lemma [OF assms(1,2)]]]
  using assms(3-5) by (intro UnI1 CollectI) blast

lemma unchanged_rules_pairwise:
  assumes "distinct (map cr_id cs)" "map cr_id cs = map cr_id ss"
    and "set (map item_change_kind (diff_rules cs ss)) \<subseteq> {''UNCHANGED''}"
  shows "list_all2 is_rule_equal cs ss"
proof (rule list_all2_all_nthI)
  show l: "length cs = length ss" using assms(2) by (metis length_map)
  fix i assume i: "i < length cs"
  have "distinct (map cr_id ss)" using assms(1,2) by simp
  moreover have "cr_id (cs ! i) = cr_id (ss ! i)" using assms(2) i l by (metis nth_map)
  ultimately have "diff_pair (cs ! i) (ss ! i) \<in> set (diff_rules cs ss)"
    using i l assms(1) by (intro diff_rules_pair) auto
  with assms(3) show "is_rule_equal (cs ! i) (ss ! i)" by (auto simp: diff_pair_unchanged image_subset_iff)
qed

text \<open>
  C16. When the report names no change, the two policies decide every request alike, provided that
  the rules come in the same order, that their week intervals agree and that the SSH networks of
  the roles are the same. The report shows none of these three.
\<close>

theorem unchanged_report_same_decisions:
  assumes "policy_wf (cb_policy c)" and "scope_complete (cb_policy c)" "scope_complete (cb_policy s)"
    and "nothing_to_report (compare_policies c s h1 h2)"
    and "map cr_id (cp_rules (cb_policy c)) = map cr_id (cp_rules (cb_policy s))"
    and "list_all2 same_weeks (cp_rules (cb_policy c)) (cp_rules (cb_policy s))"
    and "crc_allowed_ssh_networks (cb_roles c) = crc_allowed_ssh_networks (cb_roles s)"
  shows "same_decision (evaluate ev c ctx) (evaluate ev s ctx)"
proof -
  let ?cs = "cp_rules (cb_policy c)" and ?ss = "cp_rules (cb_policy s)"
  have "distinct (map cr_id ?cs)" using assms(1) by (simp add: policy_wf_def)
  with assms(4,5) have eq: "list_all2 is_rule_equal ?cs ?ss"
    by (simp add: unchanged_rules_pairwise nothing_to_report_def compare_policies_def)
  have st: "cp_system_type (cb_policy c) = cp_system_type (cb_policy s)"
    using assms(4) by (simp add: nothing_to_report_def compare_policies_def no_global_diffs)
  have "bundle_managed ev c ctx = bundle_managed ev s ctx"
    using assms(2,3) covers_same [OF eq]
    by (simp add: bundle_managed_def managed_iff scope_complete_def)
  moreover have "list_all2 (\<lambda>a b. is_rule_equal a b \<and> bundle_matches ev c ctx a = bundle_matches ev s ctx b)
      ?cs ?ss"
    using eq assms(6) by (auto simp: list_all2_conv_all_nth bundle_matches_def st assms(7) equal_rules_match)
  ultimately show ?thesis by (simp add: evaluate_alt first_match_same)
qed

end
