(* ===== verification/Diff_Gaps.thy ===== *)
theory Diff_Gaps
  imports Diff_Facts
begin

text \<open>
  What the report of \<open>teal-cli diff\<close> leaves out or gets wrong, on small policies: the order of the
  rules and the week intervals, most of the fields of a rule, assignments by name or group, the
  timeout of an approval, and the direction of a control that appears or disappears.
\<close>

section \<open>Rules\<close>

definition gap_rule :: "string \<Rightarrow> effect \<Rightarrow> path_matcher \<Rightarrow> compiled_rule" where
  "gap_rule i eff pm =
     (default_with_reason eff ''gap'')
       \<lparr>cr_id := i, cr_object := Some \<lparr>om_path = Some pm, om_new_path = None, om_kind = None\<rparr>,
        cr_action_match := AmOneOf [Read]\<rparr>"

definition deny_etc :: compiled_rule where
  "deny_etc = gap_rule ''D'' Deny (PmPrefix ''/etc'')"

definition allow_motd :: compiled_rule where
  "allow_motd = gap_rule ''A'' Allow (PmPrefix ''/etc/motd'')"

definition weekly :: "u32 \<Rightarrow> compiled_rule" where
  "weekly n = allow_motd\<lparr>cr_time_constraints :=
     [\<lparr>tcm_allowed_days = [], tcm_start = 0, tcm_end = 24 * 60, tcm_week_interval = n\<rparr>]\<rparr>"

definition gap_bundle :: "compiled_rule list \<Rightarrow> compiled_bundle" where
  "gap_bundle rs =
     sample_bundle\<lparr>cb_policy := default_policy\<lparr>cp_rules := rs, cp_scope := scope_from_rules rs\<rparr>\<rparr>"

definition motd_request :: access_context where
  "motd_request = sample_context\<lparr>ac_object_path := ''/etc/motd''\<rparr>"

lemmas gap_defs = gap_rule_def deny_etc_def allow_motd_def weekly_def default_with_reason_def

lemma gap_bundle_fields [simp]:
  "cp_rules (cb_policy (gap_bundle rs)) = rs"
  "cp_system_type (cb_policy (gap_bundle rs)) = Server"
  "cb_roles (gap_bundle rs) = empty_roles_core"
  by (simp_all add: gap_bundle_def sample_bundle_def default_policy_def)

lemma gap_bundle_scope: "scope_complete (cb_policy (gap_bundle rs))"
  by (rule scope_complete_from_rules) (simp add: gap_bundle_def)

lemma gap_global [simp]: "compare_global_configs (cb_policy (gap_bundle rs)) (cb_policy (gap_bundle qs)) = []"
  by (simp add: gap_bundle_def compare_global_configs_def Let_def)

lemma gap_rules_wf: "list_all rule_wf [deny_etc, allow_motd, weekly 1, weekly 2]"
  by (simp add: rule_wf_def gap_defs object_ok_def valid_time_constraint_def is_absolute_def)

lemma gap_matches:
  "rule_matches ev deny_etc nets motd_request st"
  "rule_matches ev allow_motd nets motd_request st"
  by (simp_all add: rule_matches_def gap_defs motd_request_def sample_context_def match_object_def
      match_time_constraints_def match_subject_def match_origin_def path_starts_with_def components_def
      is_absolute_def)

lemma gap_managed:
  assumes "deny_etc \<in> set rs \<or> allow_motd \<in> set rs \<or> weekly n \<in> set rs"
  shows "bundle_managed ev (gap_bundle rs) motd_request"
proof -
  have "rule_object_covers pf r (ac_object_path motd_request)"
    if "r \<in> {deny_etc, allow_motd, weekly n}" for r pf
    using that by (auto simp: rule_object_covers_def gap_defs opt_covers_def motd_request_def
        path_starts_with_def components_def is_absolute_def)
  with assms have "\<exists>r \<in> set rs. rule_object_covers (ev_platform ev) r (ac_object_path motd_request)"
    by blast
  with gap_bundle_scope [of rs]
  have "matches_object_scope (ev_platform ev) (cp_scope (cb_policy (gap_bundle rs)))
      (ac_object_path motd_request)"
    by (simp add: scope_complete_def)
  then show ?thesis by (simp add: bundle_managed_def managed_iff)
qed

lemma gap_evaluate:
  assumes "deny_etc \<in> set rs \<or> allow_motd \<in> set rs \<or> weekly n \<in> set rs"
  shows "evaluate ev (gap_bundle rs) motd_request =
    first_match (\<lambda>r. rule_matches ev r [] motd_request Server) rs"
  using gap_managed [OF assms]
  by (simp add: evaluate_alt bundle_matches_def [abs_def] empty_roles_core_def)

lemma is_rule_equal_refl [simp]: "is_rule_equal r r"
proof -
  have p: "pm_opt_eq x x" for x by (cases x) simp_all
  have "is_object_equal x x" for x by (cases x) (simp_all add: p)
  moreover have "is_mpa_equal x x" for x by (cases x) (simp_all add: hs_eq_def)
  moreover have "is_action_equal x x" for x by (cases x) (simp_all add: hs_eq_def)
  moreover have "is_login_ctx_equal x x" for x by (cases x) simp_all
  moreover have "is_time_constraints_equal xs xs" for xs
    by (induction xs) (auto simp: is_time_constraints_equal_def is_time_constraint_equal_def hs_eq_def)
  ultimately show ?thesis
    by (simp add: is_rule_equal_def is_pre_approval_equal_def is_subject_equal_def hs_eq_def p)
qed

text \<open>
  The order of the rules decides, and the report does not show it. Two well-formed policies with
  the same rules in a different order, both sorted by priority: every rule is reported as
  unchanged, yet the first refuses a request that the second one lets through.
\<close>

theorem reordering_unreported:
  "nothing_to_report (compare_policies (gap_bundle [deny_etc, allow_motd]) (gap_bundle [allow_motd, deny_etc]) h1 h2)
   \<and> policy_wf (cb_policy (gap_bundle [deny_etc, allow_motd]))
   \<and> policy_wf (cb_policy (gap_bundle [allow_motd, deny_etc]))
   \<and> calculate_specificity deny_etc = calculate_specificity allow_motd
   \<and> evaluate ev (gap_bundle [deny_etc, allow_motd]) motd_request = Matched deny_etc
   \<and> evaluate ev (gap_bundle [allow_motd, deny_etc]) motd_request = Matched allow_motd
   \<and> cr_effect deny_etc = Deny \<and> cr_effect allow_motd = Allow"
proof -
  have ids: "cr_id deny_etc = ''D''" "cr_id allow_motd = ''A''" by (simp_all add: gap_defs)
  have "diff_rules [deny_etc, allow_motd] [allow_motd, deny_etc] =
      [diff_pair allow_motd allow_motd, diff_pair deny_etc deny_etc]"
    by (simp add: diff_rules_def current_map_of_def ids hm_get_def hm_insert_def hm_remove_def hm_values_def)
  then have "nothing_to_report (compare_policies (gap_bundle [deny_etc, allow_motd])
      (gap_bundle [allow_motd, deny_etc]) h1 h2)"
    by (simp add: nothing_to_report_def compare_policies_def diff_pair_unchanged)
  moreover have "calculate_specificity deny_etc = calculate_specificity allow_motd"
    by (simp add: calculate_specificity_def gap_defs exact_opt_def)
  ultimately show ?thesis
    using gap_rules_wf by (simp add: policy_wf_def ids gap_evaluate gap_matches) (simp add: gap_defs)
qed

text \<open>
  A rule that applied every week and now applies every second week is reported as unchanged.
\<close>

definition second_week :: eval_env where
  "second_week = sample_env\<lparr>ev_now := \<lparr>ndt_date = 10, ndt_hour = 12, ndt_minute = 0\<rparr>\<rparr>"

lemma week_interval_unreported:
  "nothing_to_report (compare_policies (gap_bundle [weekly 1]) (gap_bundle [weekly 2]) h1 h2)
   \<and> policy_wf (cb_policy (gap_bundle [weekly 1])) \<and> policy_wf (cb_policy (gap_bundle [weekly 2]))
   \<and> evaluate second_week (gap_bundle [weekly 1]) motd_request = Matched (weekly 1)
   \<and> evaluate second_week (gap_bundle [weekly 2]) motd_request = NoMatchManaged"
proof -
  have ids: "cr_id (weekly n) = ''A''" for n by (simp add: gap_defs)
  have "is_rule_equal allow_motd allow_motd" by simp
  then have eq: "is_rule_equal (weekly 1) (weekly 2)"
    unfolding is_rule_equal_def weekly_def
    by (simp add: is_time_constraints_equal_def is_time_constraint_equal_def hs_eq_def)
  have "diff_rules [weekly 1] [weekly 2] = [diff_pair (weekly 1) (weekly 2)]"
    by (simp add: diff_rules_def current_map_of_def ids hm_get_def hm_insert_def hm_remove_def hm_values_def)
  moreover have "source_file_or (weekly 1) = source_file_or (weekly 2)" by (simp add: weekly_def source_file_or_def)
  ultimately have rep: "nothing_to_report (compare_policies (gap_bundle [weekly 1]) (gap_bundle [weekly 2]) h1 h2)"
    by (simp add: nothing_to_report_def compare_policies_def diff_pair_unchanged eq)
  have base: "rule_matches ev (weekly n) [] motd_request Server \<longleftrightarrow>
      match_time_constraints (ev_calendar ev) (cr_time_constraints (weekly n)) (ev_now ev)" for ev n
    using gap_matches(2) [of ev "[]" Server] by (simp add: rule_matches_def weekly_def split: if_splits)
  have "rule_matches second_week (weekly 1) [] motd_request Server"
    and "\<not> rule_matches second_week (weekly 2) [] motd_request Server"
    unfolding base
    by (simp_all add: weekly_def match_time_constraints_def match_time_constraints_at_def
        second_week_def sample_env_def time_constraint_holds_def matches_start_date_def sample_calendar_def)
  with rep gap_rules_wf show ?thesis
    by (simp add: policy_wf_def gap_evaluate [where n = 1] gap_evaluate [where n = 2])
qed

text \<open>
  A modified rule is called neutral, without a single detail, whenever only its subject, its
  object, its time constraints, the number of uses of its tickets or their flags changed.
\<close>

theorem inspection_blind:
  assumes "cr_effect c = cr_effect s" "cr_action_match c = cr_action_match s" "cr_mpa c = cr_mpa s"
    and "cr_pre_approval c = cr_pre_approval s" "cr_audit_level c = cr_audit_level s"
    and "cr_description c = cr_description s" "cr_out_reason c = cr_out_reason s"
    and "sm_login_context (cr_subject c) = None \<or> sm_login_context (cr_subject s) = None \<or>
      sm_login_context (cr_subject c) = sm_login_context (cr_subject s)"
  shows "inspect_rule_modification c s = (SiNeutral, [])"
proof -
  have "inspect_action x x = ([], [])" for x
    by (cases x) (simp_all add: sets_changed_def hs_difference_def)
  moreover have "inspect_mpa x x = ([], [])" for x
    by (cases x) (simp_all add: sets_changed_def hs_difference_def inspect_threshold_def join_findings_def)
  moreover have "inspect_audit_level x x = ([], [])" for x
    by (cases x) (simp_all add: inspect_audit_level_def)
  moreover have "inspect_login_context x y = ([], [])" if "x = None \<or> y = None \<or> x = y" for x y
    using that by (cases "(x, y)" rule: inspect_login_context.cases) auto
  ultimately show ?thesis
    using assms by (simp add: inspect_rule_modification_def join_findings_def inspect_effect_def
        inspect_pre_approval_def inspect_texts_def overall_impact_def)
qed

section \<open>Roles\<close>

text \<open>
  Roles given by user name or to groups, the allowed SSH sources and the switch that denies
  unknown roles are not compared: role files that agree on the role names, on the assignments
  with a uid and on the roles of unknown users have no difference to report.
\<close>

lemma assignments_without_uid:
  "fold assignment_entry as m = fold assignment_entry (filter (\<lambda>a. ra_uid a \<noteq> None) as) m"
  by (induction as arbitrary: m) (simp_all add: assignment_entry_def)

lemma assignment_changes_same: "assignment_changes m m uid = []"
  by (simp add: assignment_changes_def Let_def btree_difference_def)

theorem role_gaps:
  assumes "set (map rrd_name (rro_roles c)) = set (map rrd_name (rro_roles s))"
    and "filter (\<lambda>a. ra_uid a \<noteq> None) (rro_assignments c) = filter (\<lambda>a. ra_uid a \<noteq> None) (rro_assignments s)"
    and "rd_roles_for_unknown_user (rro_defaults c) = rd_roles_for_unknown_user (rro_defaults s)"
  shows "compare_roles c s = None"
proof -
  have m: "assignments_to_map (rro_assignments c) = assignments_to_map (rro_assignments s)"
    unfolding assignments_to_map_def
    by (subst (1 2) assignments_without_uid) (simp only: assms(2))
  have "btree_difference (btree (map rrd_name (rro_roles s))) (btree (map rrd_name (rro_roles c))) = []"
    "btree_difference (btree (map rrd_name (rro_roles c))) (btree (map rrd_name (rro_roles s))) = []"
    using assms(1) by (simp_all add: btree_difference_Nil)
  then show ?thesis
    using assms(3) by (simp add: compare_roles_def Let_def m assignment_changes_same)
qed

text \<open>
  What is compared is compared exactly: a role that a uid gains or loses through an assignment
  with its uid is in the entry of that uid.
\<close>

lemma assignments_to_map_get:
  "set (opt_or [] (hm_get (fold assignment_entry as m) uid)) =
     set (opt_or [] (hm_get m uid)) \<union> (\<Union>a \<in> {a \<in> set as. ra_uid a = Some uid}. set (ra_roles a))"
proof (induction as arbitrary: m)
  case (Cons a as)
  show ?case
    unfolding fold_simps Cons.IH
    by (auto simp: assignment_entry_def opt_or_def split: option.splits)
qed simp

section \<open>Management\<close>

lemma both_controls_changed:
  assumes "rmm_enabled (rmc_mpa c) \<noteq> rmm_enabled (rmc_mpa s) \<or>
     opt_or 0 (rmm_threshold (rmc_mpa c)) \<noteq> opt_or 0 (rmm_threshold (rmc_mpa s))"
  shows "\<exists>ch. compare_both_controls cmd c s = Some ch \<and> cc_command ch = cmd \<and>
    cc_impact ch = control_impact
      (if rmm_enabled (rmc_mpa c) \<noteq> rmm_enabled (rmc_mpa s)
       then Some (rmm_enabled (rmc_mpa c), rmm_enabled (rmc_mpa s)) else None)
      (if opt_or 0 (rmm_threshold (rmc_mpa c)) \<noteq> opt_or 0 (rmm_threshold (rmc_mpa s))
       then Some (opt_or 0 (rmm_threshold (rmc_mpa c)), opt_or 0 (rmm_threshold (rmc_mpa s))) else None)
      (cc_removed_approver_roles ch) (cc_added_initiator_roles ch)"
  using assms by (auto simp: compare_both_controls_def Let_def)

text \<open>
  Switching the approval of a command off, or lowering its threshold, is always reported, and
  always as critical.
\<close>

theorem weaker_approval_is_critical:
  assumes "rmm_enabled (rmc_mpa c) \<and> \<not> rmm_enabled (rmc_mpa s) \<or>
     opt_or 0 (rmm_threshold (rmc_mpa s)) < opt_or 0 (rmm_threshold (rmc_mpa c))"
  shows "\<exists>ch. compare_single_control cmd (Some c) (Some s) = Some ch \<and> cc_command ch = cmd \<and>
    cc_impact ch = MiCritical"
proof -
  have "rmm_enabled (rmc_mpa c) \<noteq> rmm_enabled (rmc_mpa s) \<or>
     opt_or 0 (rmm_threshold (rmc_mpa c)) \<noteq> opt_or 0 (rmm_threshold (rmc_mpa s))"
    using assms by auto
  from both_controls_changed [OF this, of cmd] assms show ?thesis
    by (auto simp: control_impact_def)
qed

lemma timeout_unreported:
  "compare_both_controls cmd c (c\<lparr>rmc_mpa := (rmc_mpa c)\<lparr>rmm_timeout_minutes := t\<rparr>\<rparr>) = None"
  by (simp add: compare_both_controls_def Let_def btree_difference_def)

text \<open>
  A command without a control is refused to everybody. The report nevertheless calls it stricter
  when a control appears, even one without approval, and critical when it disappears.
\<close>

theorem control_direction_reversed:
  assumes "control_of mgmt kind = None"
  shows "check_initiator_and_handle ax kind mgmt uid h d =
      (Reply (line (''ERR '' @ ctl_kind_as_str kind @ '' control is not configured in policy'')) None, d)"
    and "\<exists>ch. compare_single_control cmd None (Some s) = Some ch \<and> cc_impact ch = MiStricter"
    and "\<exists>ch. compare_single_control cmd (Some s) None = Some ch \<and> cc_impact ch = MiCritical"
  using assms by (simp_all add: check_initiator_and_handle_def)

end
