(* ===== verification/Diff_Samples.thy ===== *)
theory Diff_Samples
  imports Diff_Gaps
begin

text \<open>Concrete bundles and controls, at which the theorems about the report are applied.\<close>

lemma diff_reports_each_rule_once_witness:
  "item_rule_id ` set (diff_rules [deny_etc, allow_motd] [weekly 2]) = {''D'', ''A''} \<and>
   distinct (map item_rule_id (diff_rules [deny_etc, allow_motd] [weekly 2]))"
proof -
  have ids: "cr_id deny_etc = ''D''" "cr_id allow_motd = ''A''" "cr_id (weekly 2) = ''A''"
    by (simp_all add: gap_defs)
  have "distinct (map cr_id [deny_etc, allow_motd])" "distinct (map cr_id [weekly 2])"
    by (simp_all add: ids)
  from diff_reports_each_rule_once [OF this] have
    "item_rule_id ` set (diff_rules [deny_etc, allow_motd] [weekly 2]) =
       cr_id ` set [deny_etc, allow_motd] \<union> cr_id ` set [weekly 2]"
    "distinct (map item_rule_id (diff_rules [deny_etc, allow_motd] [weekly 2]))" by blast+
  then show ?thesis by (auto simp: ids)
qed

lemma unchanged_report_same_decisions_witness:
  "\<forall>ev. same_decision (evaluate ev (gap_bundle [deny_etc, allow_motd]) motd_request)
     (evaluate ev (gap_bundle [deny_etc, allow_motd]) motd_request)"
proof
  fix ev
  let ?b = "gap_bundle [deny_etc, allow_motd]"
  have ids: "cr_id deny_etc = ''D''" "cr_id allow_motd = ''A''" by (simp_all add: gap_defs)
  have r: "policy_wf (cb_policy ?b)"
    using gap_rules_wf by (simp add: policy_wf_def ids)
  have "diff_rules [deny_etc, allow_motd] [deny_etc, allow_motd] =
      [diff_pair deny_etc deny_etc, diff_pair allow_motd allow_motd]"
    by (simp add: diff_rules_def current_map_of_def ids hm_get_def hm_insert_def hm_remove_def hm_values_def)
  then have n: "nothing_to_report (compare_policies ?b ?b [] [])"
    by (simp add: nothing_to_report_def compare_policies_def diff_pair_unchanged)
  have w: "list_all2 same_weeks (cp_rules (cb_policy ?b)) (cp_rules (cb_policy ?b))"
    by (simp add: same_weeks_def)
  show "same_decision (evaluate ev ?b motd_request) (evaluate ev ?b motd_request)"
    by (rule unchanged_report_same_decisions [OF r gap_bundle_scope gap_bundle_scope n refl w refl])
qed

lemma weaker_approval_is_critical_witness:
  "\<exists>ch. compare_single_control ''STOP'' (Some sample_raw_control)
     (Some (sample_raw_control\<lparr>rmc_mpa := \<lparr>rmm_enabled = False, rmm_threshold = None,
        rmm_approver_roles = None, rmm_timeout_minutes = None\<rparr>\<rparr>)) = Some ch \<and>
   cc_command ch = ''STOP'' \<and> cc_impact ch = MiCritical"
  by (rule weaker_approval_is_critical) (simp add: sample_raw_control_def)

end
