(* ===== verification/Ai_Aggregate.thy ===== *)
theory Ai_Aggregate
  imports Evidence_Log
begin

text \<open>
  \<open>ai/types.rs\<close>, the filter of \<open>ai/collector.rs\<close> and \<open>ai/aggregator.rs\<close>: log entries that
  concern the analysis become events, and runs of like events become one aggregated event. An
  instant is a number of nanoseconds; the function that reads the clock value of an entry as an
  instant is a parameter. The search for the common directory of the targets is a loop that need
  not end, so \<open>None\<close> is the value of everything that waits for it.
\<close>

section \<open>Events\<close>

type_synonym instant = int

record ai_event =
  ae_event_id :: string
  ae_timestamp :: instant
  ae_log_type :: log_type
  ae_epoch :: u32
  ae_user :: string
  ae_pid :: u32
  ae_action :: string
  ae_binary :: string
  ae_script_path :: "string option"
  ae_applet :: "string option"
  ae_args :: "string option"
  ae_target_path :: string
  ae_target_kind :: string
  ae_new_path :: "string option"
  ae_remote_client :: "string option"
  ae_rule :: "string option"
  ae_ticket_id :: "string option"

definition ai_event_from :: "(u64 \<Rightarrow> instant) \<Rightarrow> audit_log_entry \<Rightarrow> ai_event" where
  "ai_event_from at log =
     (let ctx = al_syscall log; s = sy_subject ctx; ob = sy_object ctx;
          (rule, ticket_id) = (case al_auth log of
             SlowPath p _ \<Rightarrow> (Some (pv_rule_id p), map_option it_ticket_id (pv_issued_ticket p))
           | FastPath t \<Rightarrow> (Some (tf_policy_rule t), Some (tf_ticket_id t)))
      in \<lparr>ae_event_id = al_id log, ae_timestamp = at (al_ts log), ae_log_type = al_log_type log,
          ae_epoch = al_epoch log, ae_user = sy_user ctx, ae_pid = sy_pid ctx, ae_action = sy_action ctx,
          ae_binary = si_path s, ae_script_path = si_script_path s, ae_applet = si_applet s,
          ae_args = si_args s, ae_target_path = oi_path ob, ae_target_kind = oi_kind ob,
          ae_new_path = oi_new_path ob,
          ae_remote_client = Option.bind (al_environment log) en_ssh_client,
          ae_rule = rule, ae_ticket_id = ticket_id\<rparr>)"

definition NOT_MANAGED_TICKET_ID :: string where
  "NOT_MANAGED_TICKET_ID = ''T-000000000''"

definition mgmt_actions :: "string list" where
  "mgmt_actions =
     [''enable enforce mode'', ''disable enforce mode'', ''update policies'', ''flush caches and lockdown'']"

definition is_target_for_ai :: "audit_log_entry \<Rightarrow> bool" where
  "is_target_for_ai log =
     (if sy_action (al_syscall log) \<in> set mgmt_actions then False
      else case al_auth log of
        FastPath _ \<Rightarrow> False
      | SlowPath p _ \<Rightarrow>
          (if map_option it_ticket_id (pv_issued_ticket p) = Some NOT_MANAGED_TICKET_ID then False
           else pv_decision p \<in> {Allow, AuditOnly}))"

definition collect_ai_event :: "(u64 \<Rightarrow> instant) \<Rightarrow> audit_log_entry \<Rightarrow> ai_event option" where
  "collect_ai_event at log = (if is_target_for_ai log then Some (ai_event_from at log) else None)"

section \<open>Patterns of arguments\<close>

record ai_argument_pattern =
  ap_flags :: "string list"
  ap_non_flag_token_count :: u32
  ap_has_shell_operators :: bool
  ap_sample_args_first :: "string option"
  ap_sample_args_last :: "string option"
  ap_unique_args_count :: u64

definition shell_operators :: "string list" where
  "shell_operators = [''|'', ''>'', ''>>'', ''<'', '';'', ''&&'', ''||'']"

definition scan_token ::
  "string \<Rightarrow> string list \<times> u32 \<times> bool \<Rightarrow> string list \<times> u32 \<times> bool" where
  "scan_token token st =
     (case st of (flags, n, ops) \<Rightarrow>
        if token \<in> set shell_operators then (flags, n, True)
        else case Option.bind (strip_prefix ''--'' token) (split_once (CHR ''='')) of
          Some (opt, val) \<Rightarrow> (flags @ [''--'' @ opt], n + 1, ops)
        | None \<Rightarrow>
            if prefix ''-'' token then (flags @ [token], n, ops)
            else (flags, n + 1, ops))"

definition from_raw_args :: "string option \<Rightarrow> ai_argument_pattern option" where
  "from_raw_args args =
     (case args of
        None \<Rightarrow> None
      | Some args_str \<Rightarrow>
          (case fold scan_token (split_whitespace args_str) ([], 0, False) of (flags, n, ops) \<Rightarrow>
             Some \<lparr>ap_flags = flags, ap_non_flag_token_count = n, ap_has_shell_operators = ops,
                   ap_sample_args_first = Some args_str, ap_sample_args_last = None,
                   ap_unique_args_count = 1\<rparr>))"

definition is_compatible_with :: "ai_argument_pattern \<Rightarrow> string list \<Rightarrow> u32 \<Rightarrow> bool \<Rightarrow> bool" where
  "is_compatible_with p flags n ops \<longleftrightarrow>
     ap_flags p = flags \<and> ap_non_flag_token_count p = n \<and> ap_has_shell_operators p = ops"

section \<open>The common directory\<close>

definition rfind :: "char \<Rightarrow> string \<Rightarrow> nat option" where
  "rfind c s =
     (if c \<in> set s then Some (length s - 1 - length (takeWhile (\<lambda>x. x \<noteq> c) (rev s))) else None)"

text \<open>
  The inner loop: \<open>Some (Some n)\<close> is the next length of the prefix, \<open>Some None\<close> the early return of
  the empty string, and \<open>None\<close> a loop that does not end.
\<close>

partial_function (option) shrink_prefix :: "string \<Rightarrow> string \<Rightarrow> nat \<Rightarrow> nat option option" where
  "shrink_prefix first path prefix_len =
     (if prefix (take prefix_len first) path then Some (Some prefix_len)
      else case rfind (CHR ''/'') (take prefix_len first) of
        Some idx \<Rightarrow> shrink_prefix first path (idx + 1)
      | None \<Rightarrow> Some None)"

fun base_path_loop :: "string \<Rightarrow> string list \<Rightarrow> nat \<Rightarrow> string option" where
  "base_path_loop first [] prefix_len = Some (take prefix_len first)"
| "base_path_loop first (p # ps) prefix_len =
     Option.bind (shrink_prefix first p prefix_len) (\<lambda>r.
       case r of None \<Rightarrow> Some [] | Some n \<Rightarrow> base_path_loop first ps n)"

definition common_base_path :: "string list \<Rightarrow> string option" where
  "common_base_path paths =
     (case paths of
        [] \<Rightarrow> Some []
      | first # rest \<Rightarrow> base_path_loop first rest (length first))"

section \<open>Aggregation\<close>

record aggregator_config =
  ag_max_gap_ms :: u64
  ag_max_group_events :: u32

definition default_aggregator_config :: aggregator_config where
  "default_aggregator_config = \<lparr>ag_max_gap_ms = - 1, ag_max_group_events = - 1\<rparr>"

record ai_aggregated_event =
  ag_aggregation_id :: string
  ag_user :: string
  ag_pid :: u32
  ag_binary :: string
  ag_script_path :: "string option"
  ag_applet :: "string option"
  ag_args :: "ai_argument_pattern option"
  ag_remote_client :: "string option"
  ag_action :: string
  ag_log_type :: log_type
  ag_epoch_start :: u32
  ag_epoch_end :: "u32 option"
  ag_rule :: "string option"
  ag_ticket_id :: "string option"
  ag_start_time :: instant
  ag_end_time :: instant
  ag_duration_ms :: u64
  ag_event_count :: u32
  ag_min_interval_ms :: "u64 option"
  ag_max_interval_ms :: "u64 option"
  ag_target_base_path :: string
  ag_unique_target_count :: u64
  ag_target_kind :: string
  ag_sample_target :: "string option"
  ag_sample_new_path :: "string option"
  ag_evidence_event_ids :: "string list"

record aggregating_block =
  bk_user :: string
  bk_pid :: u32
  bk_binary :: string
  bk_script_path :: "string option"
  bk_applet :: "string option"
  bk_remote_client :: "string option"
  bk_action :: string
  bk_log_type :: log_type
  bk_rule :: "string option"
  bk_ticket_id :: "string option"
  bk_target_kind :: string
  bk_epoch_start :: u32
  bk_epoch_end :: u32
  bk_start_time :: instant
  bk_last_time :: instant
  bk_event_count :: u32
  bk_min_interval_ms :: "u64 option"
  bk_max_interval_ms :: "u64 option"
  bk_args_pattern :: "ai_argument_pattern option"
  bk_unique_args :: "string hset"
  bk_target_paths :: "string list"
  bk_sample_target :: "string option"
  bk_sample_new_path :: "string option"
  bk_first_event_id :: string
  bk_last_event_id :: "string option"
  bk_mid_event_id :: "string option"
  bk_source_event_ids :: "string list"

definition block_new :: "ai_event \<Rightarrow> aggregating_block" where
  "block_new e =
     \<lparr>bk_user = ae_user e, bk_pid = ae_pid e, bk_binary = ae_binary e,
      bk_script_path = ae_script_path e, bk_applet = ae_applet e, bk_remote_client = ae_remote_client e,
      bk_action = ae_action e, bk_log_type = ae_log_type e, bk_rule = ae_rule e,
      bk_ticket_id = ae_ticket_id e, bk_target_kind = ae_target_kind e,
      bk_epoch_start = ae_epoch e, bk_epoch_end = ae_epoch e,
      bk_start_time = ae_timestamp e, bk_last_time = ae_timestamp e, bk_event_count = 1,
      bk_min_interval_ms = None, bk_max_interval_ms = None,
      bk_args_pattern = from_raw_args (ae_args e),
      bk_unique_args = (case ae_args e of Some a \<Rightarrow> hs_insert a [] | None \<Rightarrow> []),
      bk_target_paths = [ae_target_path e], bk_sample_target = Some (ae_target_path e),
      bk_sample_new_path = ae_new_path e, bk_first_event_id = ae_event_id e,
      bk_last_event_id = None, bk_mid_event_id = None, bk_source_event_ids = [ae_event_id e]\<rparr>"

text \<open>\<open>TimeDelta::num_milliseconds\<close> of \<open>chrono\<close> rounds towards zero.\<close>

definition num_milliseconds :: "int \<Rightarrow> int" where
  "num_milliseconds ns = (if ns < 0 then - ((- ns) div 1000000) else ns div 1000000)"

definition same_subject :: "aggregating_block \<Rightarrow> ai_event \<Rightarrow> bool" where
  "same_subject b e \<longleftrightarrow>
     bk_user b = ae_user e \<and> bk_pid b = ae_pid e \<and> bk_binary b = ae_binary e \<and>
     bk_script_path b = ae_script_path e \<and> bk_applet b = ae_applet e \<and>
     bk_remote_client b = ae_remote_client e \<and> bk_action b = ae_action e \<and>
     bk_log_type b = ae_log_type e \<and> bk_rule b = ae_rule e \<and> bk_ticket_id b = ae_ticket_id e \<and>
     bk_target_kind b = ae_target_kind e"

definition args_compatible :: "ai_argument_pattern option \<Rightarrow> string option \<Rightarrow> bool" where
  "args_compatible pat args =
     (case (pat, args) of
        (None, None) \<Rightarrow> True
      | (Some p, Some a) \<Rightarrow>
          (case from_raw_args (Some a) of
             Some np \<Rightarrow> is_compatible_with p (ap_flags np) (ap_non_flag_token_count np)
                           (ap_has_shell_operators np)
           | None \<Rightarrow> False)
      | _ \<Rightarrow> False)"

definition can_merge :: "aggregator_config \<Rightarrow> aggregating_block \<Rightarrow> ai_event \<Rightarrow> bool" where
  "can_merge cfg b e =
     (if bk_event_count b \<ge> ag_max_group_events cfg then False
      else
        let gap_ms = num_milliseconds (ae_timestamp e - bk_last_time b) in
        if gap_ms < 0 \<or> gap_ms > int (unat (ag_max_gap_ms cfg)) then False
        else if \<not> same_subject b e then False
        else args_compatible (bk_args_pattern b) (ae_args e))"

definition opt_fold :: "('a \<Rightarrow> 'a \<Rightarrow> 'a) \<Rightarrow> 'a option \<Rightarrow> 'a \<Rightarrow> 'a option" where
  "opt_fold f m x = Some (case m of None \<Rightarrow> x | Some y \<Rightarrow> f y x)"

definition merge_intervals :: "ai_event \<Rightarrow> aggregating_block \<Rightarrow> aggregating_block" where
  "merge_intervals e b =
     (let interval = num_milliseconds (ae_timestamp e - bk_last_time b)
      in if interval \<ge> 0 then
           b\<lparr>bk_min_interval_ms := opt_fold min (bk_min_interval_ms b) (of_int interval),
             bk_max_interval_ms := opt_fold max (bk_max_interval_ms b) (of_int interval)\<rparr>
         else b)"

definition merge_args :: "ai_event \<Rightarrow> aggregating_block \<Rightarrow> aggregating_block" where
  "merge_args e b =
     (case ae_args e of
        None \<Rightarrow> b
      | Some a \<Rightarrow>
          b\<lparr>bk_unique_args := hs_insert a (bk_unique_args b),
            bk_args_pattern := map_option (\<lambda>p. p\<lparr>ap_sample_args_last := Some a\<rparr>) (bk_args_pattern b)\<rparr>)"

definition merge_evidence :: "ai_event \<Rightarrow> aggregating_block \<Rightarrow> aggregating_block" where
  "merge_evidence e b =
     (if bk_event_count b = 2 then b\<lparr>bk_last_event_id := Some (ae_event_id e)\<rparr>
      else if bk_event_count b > 2 then
        b\<lparr>bk_mid_event_id := (case bk_mid_event_id b of None \<Rightarrow> bk_last_event_id b | Some m \<Rightarrow> Some m),
          bk_last_event_id := Some (ae_event_id e)\<rparr>
      else b)"

definition block_merge :: "ai_event \<Rightarrow> aggregating_block \<Rightarrow> aggregating_block" where
  "block_merge e b =
     (let b1 = b\<lparr>bk_event_count := bk_event_count b + 1, bk_epoch_end := ae_epoch e\<rparr>;
          b2 = (merge_intervals e b1)\<lparr>bk_last_time := ae_timestamp e\<rparr>;
          b3 = merge_args e b2;
          b4 = b3\<lparr>bk_target_paths := bk_target_paths b3 @ [ae_target_path e],
                  bk_sample_new_path :=
                    (if bk_sample_new_path b3 = None \<and> ae_new_path e \<noteq> None then ae_new_path e
                     else bk_sample_new_path b3)\<rparr>;
          b5 = merge_evidence e b4
      in b5\<lparr>bk_source_event_ids := bk_source_event_ids b5 @ [ae_event_id e]\<rparr>)"

definition finish_args :: "aggregating_block \<Rightarrow> ai_argument_pattern option" where
  "finish_args b =
     map_option (\<lambda>p.
       let n = of_nat (length (bk_unique_args b))
       in p\<lparr>ap_unique_args_count := n,
            ap_sample_args_last := (if n \<le> (1 :: u64) then None else ap_sample_args_last p)\<rparr>)
       (bk_args_pattern b)"

definition block_finish ::
  "string \<Rightarrow> aggregating_block \<Rightarrow> (ai_aggregated_event \<times> string list) option" where
  "block_finish aggregation_id b =
     Option.bind (common_base_path (bk_target_paths b)) (\<lambda>target_base_path.
       Some (\<lparr>ag_aggregation_id = aggregation_id, ag_user = bk_user b, ag_pid = bk_pid b,
           ag_binary = bk_binary b, ag_script_path = bk_script_path b, ag_applet = bk_applet b,
           ag_args = finish_args b, ag_remote_client = bk_remote_client b, ag_action = bk_action b,
           ag_log_type = bk_log_type b, ag_epoch_start = bk_epoch_start b,
           ag_epoch_end = (if bk_epoch_end b \<noteq> bk_epoch_start b then Some (bk_epoch_end b) else None),
           ag_rule = bk_rule b, ag_ticket_id = bk_ticket_id b,
           ag_start_time = bk_start_time b, ag_end_time = bk_last_time b,
           ag_duration_ms = of_int (max 0 (num_milliseconds (bk_last_time b - bk_start_time b))),
           ag_event_count = bk_event_count b, ag_min_interval_ms = bk_min_interval_ms b,
           ag_max_interval_ms = bk_max_interval_ms b, ag_target_base_path = target_base_path,
           ag_unique_target_count = of_nat (length (hs_of_list (bk_target_paths b))),
           ag_target_kind = bk_target_kind b, ag_sample_target = bk_sample_target b,
           ag_sample_new_path = bk_sample_new_path b,
           ag_evidence_event_ids = [bk_first_event_id b]
             @ (case bk_mid_event_id b of Some m \<Rightarrow> [m] | None \<Rightarrow> [])
             @ (case bk_last_event_id b of Some l \<Rightarrow> [l] | None \<Rightarrow> [])\<rparr>,
         bk_source_event_ids b))"

record ai_aggregation_result =
  ar_events :: "ai_aggregated_event list"
  ar_source_event_ids :: "(string, string list) hmap"

definition aggregation_id_of :: "string \<Rightarrow> nat \<Rightarrow> string" where
  "aggregation_id_of analysis_id seq = analysis_id @ ''-agg-'' @ show_nat seq"

definition emit_block ::
  "string \<Rightarrow> nat \<Rightarrow> aggregating_block \<Rightarrow> ai_aggregation_result \<Rightarrow> ai_aggregation_result option" where
  "emit_block analysis_id seq b acc =
     Option.bind (block_finish (aggregation_id_of analysis_id seq) b) (\<lambda>(a, ids).
       Some \<lparr>ar_events = ar_events acc @ [a],
             ar_source_event_ids = hm_insert (ag_aggregation_id a) ids (ar_source_event_ids acc)\<rparr>)"

text \<open>The sequence number is an \<open>i32\<close> that starts at 1; a batch has far fewer than \<open>2 ^ 31\<close> groups.\<close>

fun aggregate_loop ::
  "aggregator_config \<Rightarrow> string \<Rightarrow> ai_event list \<Rightarrow> aggregating_block option \<Rightarrow> nat \<Rightarrow>
   ai_aggregation_result \<Rightarrow> ai_aggregation_result option" where
  "aggregate_loop cfg aid [] None seq acc = Some acc"
| "aggregate_loop cfg aid [] (Some b) seq acc = emit_block aid seq b acc"
| "aggregate_loop cfg aid (e # es) None seq acc =
     aggregate_loop cfg aid es (Some (block_new e)) seq acc"
| "aggregate_loop cfg aid (e # es) (Some b) seq acc =
     (if can_merge cfg b e then aggregate_loop cfg aid es (Some (block_merge e b)) seq acc
      else Option.bind (emit_block aid seq b acc) (\<lambda>acc'.
        aggregate_loop cfg aid es (Some (block_new e)) (seq + 1) acc'))"

definition aggregate_events ::
  "string \<Rightarrow> ai_event list \<Rightarrow> aggregator_config \<Rightarrow> ai_aggregation_result option" where
  "aggregate_events analysis_id events cfg =
     (if events = [] then Some \<lparr>ar_events = [], ar_source_event_ids = []\<rparr>
      else aggregate_loop cfg analysis_id events None 1 \<lparr>ar_events = [], ar_source_event_ids = []\<rparr>)"

end
