(* ===== verification/Ai_Facts.thy ===== *)
theory Ai_Facts
  imports Ai_Aggregate
begin

text \<open>
  Facts about the aggregation: for which targets the search for their directory ends, that the
  aggregated events partition the events in order, and what each of them says of its group.
\<close>

section \<open>The search for the common directory\<close>

definition dir_of :: "string \<Rightarrow> string" where
  "dir_of s = rev (dropWhile (\<lambda>x. x \<noteq> CHR ''/'') (rev s))"

lemma dir_of_split: "s = dir_of s @ rev (takeWhile (\<lambda>x. x \<noteq> CHR ''/'') (rev s))"
  by (metis dir_of_def rev_append rev_rev_ident takeWhile_dropWhile_id)

lemma dir_of_prefix: "prefix (dir_of s) s"
  by (metis dir_of_split prefixI)

lemma take_dir_of [simp]: "take (length (dir_of s)) s = dir_of s"
  using dir_of_prefix by (metis append_eq_conv_conj prefix_def)

lemma dir_of_ends: "CHR ''/'' \<in> set s \<Longrightarrow> \<exists>d. dir_of s = d @ [CHR ''/'']"
proof -
  assume "CHR ''/'' \<in> set s"
  then have n: "dropWhile (\<lambda>x. x \<noteq> CHR ''/'') (rev s) \<noteq> []" by (auto simp: dropWhile_eq_Nil_conv)
  from hd_dropWhile [OF n] n show ?thesis
    by (cases "dropWhile (\<lambda>x. x \<noteq> CHR ''/'') (rev s)") (auto simp: dir_of_def)
qed

lemma dir_of_idem: "dir_of (dir_of s) = dir_of s"
proof (cases "CHR ''/'' \<in> set s")
  case True
  with dir_of_ends obtain d where "dir_of s = d @ [CHR ''/'']" by blast
  then show ?thesis by (simp add: dir_of_def)
next
  case False
  then have "dropWhile (\<lambda>x. x \<noteq> CHR ''/'') (rev s) = []" by (auto simp: dropWhile_eq_Nil_conv)
  then show ?thesis by (simp add: dir_of_def)
qed

lemma rfind_dir_of:
  "rfind (CHR ''/'') s =
     (if CHR ''/'' \<in> set s then Some (length (dir_of s) - 1) else None)"
proof -
  have "length s = length (dir_of s) + length (takeWhile (\<lambda>x. x \<noteq> CHR ''/'') (rev s))"
    by (subst dir_of_split) simp
  then show ?thesis by (simp add: rfind_def)
qed

lemma length_dir_of: "CHR ''/'' \<in> set s \<Longrightarrow> 0 < length (dir_of s)"
  using dir_of_ends by fastforce

lemma shrink_stop: "prefix (take n f) p \<Longrightarrow> shrink_prefix f p n = Some (Some n)"
  by (subst shrink_prefix.simps) simp

lemma shrink_return:
  "\<not> prefix (take n f) p \<Longrightarrow> CHR ''/'' \<notin> set (take n f) \<Longrightarrow> shrink_prefix f p n = Some None"
  by (subst shrink_prefix.simps) (simp add: rfind_dir_of)

lemma shrink_step:
  "\<not> prefix (take n f) p \<Longrightarrow> CHR ''/'' \<in> set (take n f) \<Longrightarrow>
     shrink_prefix f p n = shrink_prefix f p (length (dir_of (take n f)))"
  using length_dir_of [of "take n f"] by (subst shrink_prefix.simps) (simp add: rfind_dir_of)

text \<open>Once the prefix ends with a slash, its last slash is found again and again.\<close>

definition stuck_at :: "string \<Rightarrow> string \<Rightarrow> nat \<Rightarrow> bool" where
  "stuck_at f p n \<longleftrightarrow> \<not> prefix (take n f) p \<and> CHR ''/'' \<in> set (take n f) \<and>
     length (dir_of (take n f)) = n"

lemma shrink_not_stuck: "shrink_prefix f p n = Some y \<Longrightarrow> \<not> stuck_at f p n"
proof (rule shrink_prefix.raw_induct [where P = "\<lambda>f p n y. \<not> stuck_at f p n"])
  fix shr f p n y
  assume IH: "\<And>f p n y. shr f p n = Some y \<Longrightarrow> \<not> stuck_at f p n"
    and eq: "(if prefix (take n f) p then Some (Some n)
      else case rfind (CHR ''/'') (take n f) of None \<Rightarrow> Some None | Some idx \<Rightarrow> shr f p (idx + 1)) = Some y"
  show "\<not> stuck_at f p n"
  proof
    assume st: "stuck_at f p n"
    then have "rfind (CHR ''/'') (take n f) = Some (n - 1)" and "0 < n"
      using length_dir_of [of "take n f"] by (auto simp: stuck_at_def rfind_dir_of)
    with eq st have "shr f p n = Some y" by (simp add: stuck_at_def)
    from IH [OF this] st show False by blast
  qed
qed

lemma shrink_stuck:
  assumes "\<not> prefix (dir_of f) p" and "CHR ''/'' \<in> set f"
  shows "shrink_prefix f p (length (dir_of f)) = None"
proof (rule ccontr)
  assume "shrink_prefix f p (length (dir_of f)) \<noteq> None"
  then obtain r where r: "shrink_prefix f p (length (dir_of f)) = Some r" by blast
  have "CHR ''/'' \<in> set (dir_of f)" using dir_of_ends [OF assms(2)] by auto
  with shrink_not_stuck [OF r] assms(1) show False by (simp add: stuck_at_def dir_of_idem)
qed

lemma base_path_loop_dir:
  assumes "CHR ''/'' \<in> set f"
  shows "base_path_loop f ps (length (dir_of f)) =
    (if \<forall>p \<in> set ps. prefix (dir_of f) p then Some (dir_of f) else None)"
proof (induction ps)
  case (Cons p ps)
  then show ?case
    using assms by (cases "prefix (dir_of f) p") (simp_all add: shrink_stop shrink_stuck)
qed simp

lemma dir_prefix: "prefix f p \<Longrightarrow> prefix (dir_of f) p"
  by (metis dir_of_prefix prefix_order.trans)

lemma base_path_loop_full:
  "base_path_loop f ps (length f) =
     (if \<forall>p \<in> set ps. prefix f p then Some f
      else if CHR ''/'' \<notin> set f then Some []
      else if \<forall>p \<in> set ps. prefix (dir_of f) p then Some (dir_of f)
      else None)"
proof (induction ps)
  case (Cons p ps)
  consider (ext) "prefix f p" | (no) "\<not> prefix f p" "CHR ''/'' \<notin> set f"
    | (up) "\<not> prefix f p" "CHR ''/'' \<in> set f" by blast
  then show ?case
  proof cases
    case ext
    with Cons.IH dir_prefix [OF ext] show ?thesis by (simp add: shrink_stop)
  next
    case no
    then show ?thesis by (simp add: shrink_return)
  next
    case up
    then have "base_path_loop f (p # ps) (length f) = base_path_loop f (p # ps) (length (dir_of f))"
      by (simp add: shrink_step)
    with up show ?thesis by (simp add: base_path_loop_dir del: base_path_loop.simps)
  qed
qed simp

text \<open>
  C35. The search returns the first target when all others extend it, the empty string when the first
  target has no directory, and its directory when all others lie below it. In every other case, a
  second target outside the directory of the first, it never returns.
\<close>

theorem common_base_path_returns:
  "common_base_path (f # ps) =
     (if list_all (prefix f) ps then Some f
      else if CHR ''/'' \<notin> set f then Some []
      else if list_all (prefix (dir_of f)) ps then Some (dir_of f)
      else None)"
  by (simp add: common_base_path_def base_path_loop_full list_all_iff)

section \<open>One group\<close>

definition group_block :: "ai_event list \<Rightarrow> aggregating_block" where
  "group_block g = fold block_merge (tl g) (block_new (hd g))"

lemma merge_helpers [simp]:
  "bk_source_event_ids (merge_intervals e b) = bk_source_event_ids b"
  "bk_target_paths (merge_intervals e b) = bk_target_paths b"
  "bk_event_count (merge_intervals e b) = bk_event_count b"
  "bk_start_time (merge_intervals e b) = bk_start_time b"
  "bk_first_event_id (merge_intervals e b) = bk_first_event_id b"
  "bk_last_event_id (merge_intervals e b) = bk_last_event_id b"
  "bk_mid_event_id (merge_intervals e b) = bk_mid_event_id b"
  "same_subject (merge_intervals e b) x = same_subject b x"
  "bk_source_event_ids (merge_args e b) = bk_source_event_ids b"
  "bk_target_paths (merge_args e b) = bk_target_paths b"
  "bk_event_count (merge_args e b) = bk_event_count b"
  "bk_start_time (merge_args e b) = bk_start_time b"
  "bk_last_time (merge_args e b) = bk_last_time b"
  "bk_first_event_id (merge_args e b) = bk_first_event_id b"
  "bk_last_event_id (merge_args e b) = bk_last_event_id b"
  "bk_mid_event_id (merge_args e b) = bk_mid_event_id b"
  "same_subject (merge_args e b) x = same_subject b x"
  "bk_source_event_ids (merge_evidence e b) = bk_source_event_ids b"
  "bk_target_paths (merge_evidence e b) = bk_target_paths b"
  "bk_event_count (merge_evidence e b) = bk_event_count b"
  "bk_start_time (merge_evidence e b) = bk_start_time b"
  "bk_last_time (merge_evidence e b) = bk_last_time b"
  "bk_first_event_id (merge_evidence e b) = bk_first_event_id b"
  "same_subject (merge_evidence e b) x = same_subject b x"
  by (simp_all add: merge_intervals_def merge_args_def merge_evidence_def same_subject_def Let_def
      split: option.split)

lemma same_subject_upd [simp]:
  "same_subject (b\<lparr>bk_event_count := n, bk_epoch_end := w\<rparr>) x = same_subject b x"
  "same_subject (b\<lparr>bk_last_time := t\<rparr>) x = same_subject b x"
  "same_subject (b\<lparr>bk_target_paths := ps, bk_sample_new_path := np\<rparr>) x = same_subject b x"
  "same_subject (b\<lparr>bk_source_event_ids := ids\<rparr>) x = same_subject b x"
  by (simp_all add: same_subject_def)

lemma block_merge_fields [simp]:
  "bk_source_event_ids (block_merge e b) = bk_source_event_ids b @ [ae_event_id e]"
  "bk_target_paths (block_merge e b) = bk_target_paths b @ [ae_target_path e]"
  "bk_event_count (block_merge e b) = bk_event_count b + 1"
  "bk_start_time (block_merge e b) = bk_start_time b"
  "bk_last_time (block_merge e b) = ae_timestamp e"
  "bk_first_event_id (block_merge e b) = bk_first_event_id b"
  "same_subject (block_merge e b) x = same_subject b x"
  by (simp_all add: block_merge_def Let_def)

lemma block_merge_evidence:
  "bk_last_event_id (block_merge e b) =
     (if bk_event_count b + 1 \<ge> 2 then Some (ae_event_id e) else bk_last_event_id b)"
  "bk_mid_event_id (block_merge e b) =
     (if bk_event_count b + 1 > 2 \<and> bk_mid_event_id b = None then bk_last_event_id b
      else bk_mid_event_id b)"
  by (auto simp: block_merge_def Let_def merge_evidence_def split: option.split)

lemma block_new_fields [simp]:
  "bk_source_event_ids (block_new e) = [ae_event_id e]"
  "bk_target_paths (block_new e) = [ae_target_path e]"
  "bk_event_count (block_new e) = 1" "bk_start_time (block_new e) = ae_timestamp e"
  "bk_last_time (block_new e) = ae_timestamp e" "bk_first_event_id (block_new e) = ae_event_id e"
  "bk_last_event_id (block_new e) = None" "bk_mid_event_id (block_new e) = None"
  "same_subject (block_new e) e"
  by (simp_all add: block_new_def same_subject_def)

lemma group_block_single [simp]: "group_block [e] = block_new e"
  by (simp add: group_block_def)

lemma group_block_snoc [simp]: "g \<noteq> [] \<Longrightarrow> group_block (g @ [e]) = block_merge e (group_block g)"
  by (cases g) (simp_all add: group_block_def)

lemma nonempty_induct [consumes 1, case_names single snoc]:
  assumes "g \<noteq> []" and "\<And>e. P [e]" and "\<And>g e. g \<noteq> [] \<Longrightarrow> P g \<Longrightarrow> P (g @ [e])"
  shows "P g"
  using assms(1) by (induction g rule: rev_induct) (metis append_Nil assms(2,3), metis append_Nil assms(2,3))

lemma group_block_fields:
  assumes "g \<noteq> []"
  shows "bk_source_event_ids (group_block g) = map ae_event_id g \<and>
    bk_target_paths (group_block g) = map ae_target_path g \<and>
    bk_event_count (group_block g) = of_nat (length g) \<and>
    bk_start_time (group_block g) = ae_timestamp (hd g) \<and>
    bk_last_time (group_block g) = ae_timestamp (last g) \<and>
    bk_first_event_id (group_block g) = ae_event_id (hd g)"
  using assms by (induction g rule: nonempty_induct) auto

text \<open>The middle evidence is always the second event of the group.\<close>

lemma group_block_evidence:
  assumes "g \<noteq> []" and "length g < 2 ^ 32"
  shows "bk_last_event_id (group_block g) = (if length g = 1 then None else Some (ae_event_id (last g))) \<and>
    bk_mid_event_id (group_block g) = (if length g \<le> 2 then None else Some (ae_event_id (g ! 1)))"
  using assms
proof (induction g rule: nonempty_induct)
  case (snoc g e)
  have c: "bk_event_count (group_block g) + 1 = of_nat (length g + 1)"
    using group_block_fields [OF snoc(1)] by simp
  have u: "unat (of_nat (length g + 1) :: u32) = length g + 1"
    using snoc(3) by (simp add: unat_of_nat del: of_nat_Suc of_nat_add)
  have ge: "(2 :: u32) \<le> of_nat (length g + 1) \<longleftrightarrow> 2 \<le> length g + 1"
    and gt: "(2 :: u32) < of_nat (length g + 1) \<longleftrightarrow> 2 < length g + 1"
    unfolding word_le_nat_alt word_less_nat_alt u by simp_all
  from snoc have IH: "bk_last_event_id (group_block g) = (if length g = 1 then None else Some (ae_event_id (last g)))"
    "bk_mid_event_id (group_block g) = (if length g \<le> 2 then None else Some (ae_event_id (g ! 1)))"
    by simp_all
  have len: "0 < length g" using snoc(1) by simp
  have two: "length g = 2 \<Longrightarrow> last g = g ! 1" using snoc(1) by (simp add: last_conv_nth)
  have "bk_last_event_id (group_block (g @ [e])) =
      (if 2 \<le> length g + 1 then Some (ae_event_id e) else bk_last_event_id (group_block g))"
    and "bk_mid_event_id (group_block (g @ [e])) =
      (if 2 < length g + 1 \<and> bk_mid_event_id (group_block g) = None then bk_last_event_id (group_block g)
       else bk_mid_event_id (group_block g))"
    unfolding group_block_snoc [OF snoc(1)] block_merge_evidence c ge gt by (rule refl)+
  then show ?case using IH len two by (auto simp: nth_append)
qed simp

text \<open>A group is a run of events each of which could be merged into the block before it.\<close>

definition mergeable :: "aggregator_config \<Rightarrow> ai_event list \<Rightarrow> bool" where
  "mergeable cfg g \<longleftrightarrow> g \<noteq> [] \<and>
     (\<forall>i. 0 < i \<and> i < length g \<longrightarrow> can_merge cfg (group_block (take i g)) (g ! i))"

lemma mergeable_single [simp]: "mergeable cfg [e]"
  by (simp add: mergeable_def)

lemma mergeable_snoc:
  "g \<noteq> [] \<Longrightarrow> mergeable cfg (g @ [e]) \<longleftrightarrow> mergeable cfg g \<and> can_merge cfg (group_block g) e"
  by (auto simp: mergeable_def nth_append less_Suc_eq split: if_splits)

lemma mergeable_length:
  assumes "mergeable cfg g"
  shows "length g \<le> max 1 (unat (ag_max_group_events cfg))"
proof -
  have "g \<noteq> []" using assms by (simp add: mergeable_def)
  then show ?thesis using assms
  proof (induction g rule: nonempty_induct)
    case (snoc g e)
    then have l: "length g \<le> max 1 (unat (ag_max_group_events cfg))" and c: "can_merge cfg (group_block g) e"
      by (simp_all add: mergeable_snoc)
    have "length g < 2 ^ 32" using l unsigned_less [of "ag_max_group_events cfg", where ?'a = nat] by auto
    then have "unat (of_nat (length g) :: u32) = length g" by (simp add: unat_of_nat)
    moreover from c have "of_nat (length g) < ag_max_group_events cfg"
      using group_block_fields [OF snoc(1)] by (simp add: can_merge_def split: if_splits)
    ultimately show ?case by (simp add: word_less_nat_alt)
  qed simp
qed

lemma mergeable_subject:
  assumes "mergeable cfg g"
  shows "\<forall>e \<in> set g. same_subject (group_block g) e"
proof -
  have "g \<noteq> []" using assms by (simp add: mergeable_def)
  then show ?thesis using assms
  proof (induction g rule: nonempty_induct)
    case (snoc g e)
    then show ?case
      by (auto simp: mergeable_snoc can_merge_def Let_def split: if_splits)
  qed simp
qed

section \<open>The groups of a batch\<close>

lemma show_nat_inj: "show_nat m = show_nat n \<longleftrightarrow> m = n"
  by (metis digits_value_show_nat)

lemma aggregation_id_inj [simp]: "aggregation_id_of aid m = aggregation_id_of aid n \<longleftrightarrow> m = n"
  by (simp add: aggregation_id_of_def show_nat_inj)

lemma block_finish_id: "block_finish i b = Some (a, ids) \<Longrightarrow> ag_aggregation_id a = i"
  by (auto simp: block_finish_def bind_eq_Some_conv)

definition aggregates_of ::
  "string \<Rightarrow> nat \<Rightarrow> ai_event list list \<Rightarrow> ai_aggregated_event list \<Rightarrow> bool" where
  "aggregates_of aid seq gs as \<longleftrightarrow> length as = length gs \<and>
     (\<forall>i < length gs. block_finish (aggregation_id_of aid (seq + i)) (group_block (gs ! i)) =
        Some (as ! i, map ae_event_id (gs ! i)))"

lemma aggregates_of_Cons:
  "aggregates_of aid seq (g # gs) (a # as) \<longleftrightarrow>
     block_finish (aggregation_id_of aid seq) (group_block g) = Some (a, map ae_event_id g) \<and>
     aggregates_of aid (seq + 1) gs as"
  by (auto simp: aggregates_of_def less_Suc_eq_0_disj)

definition sources_of ::
  "string \<Rightarrow> nat \<Rightarrow> ai_event list list \<Rightarrow> (string, string list) hmap \<Rightarrow> bool" where
  "sources_of aid seq gs m \<longleftrightarrow>
     (\<forall>i < length gs. hm_get m (aggregation_id_of aid (seq + i)) = Some (map ae_event_id (gs ! i)))"

lemma emit_block_Some:
  assumes "emit_block aid seq (group_block g) acc = Some acc'" and "g \<noteq> []"
  shows "\<exists>a. block_finish (aggregation_id_of aid seq) (group_block g) = Some (a, map ae_event_id g) \<and>
    acc' = \<lparr>ar_events = ar_events acc @ [a], ar_source_event_ids =
      hm_insert (aggregation_id_of aid seq) (map ae_event_id g) (ar_source_event_ids acc)\<rparr>"
proof -
  from assms(1) obtain a ids where f: "block_finish (aggregation_id_of aid seq) (group_block g) = Some (a, ids)"
    and acc': "acc' = \<lparr>ar_events = ar_events acc @ [a],
      ar_source_event_ids = hm_insert (ag_aggregation_id a) ids (ar_source_event_ids acc)\<rparr>"
    by (auto simp: emit_block_def bind_eq_Some_conv)
  moreover from f group_block_fields [OF assms(2)] have "ids = map ae_event_id g"
    by (auto simp: block_finish_def bind_eq_Some_conv)
  ultimately show ?thesis using block_finish_id [OF f] by simp
qed

lemma aggregate_loop_groups:
  assumes "aggregate_loop cfg aid es (Some (group_block g)) seq acc = Some r" and "mergeable cfg g"
  shows "\<exists>gs as. concat gs = g @ es \<and> (\<forall>h \<in> set gs. mergeable cfg h) \<and> aggregates_of aid seq gs as \<and>
    ar_events r = ar_events acc @ as \<and> sources_of aid seq gs (ar_source_event_ids r) \<and>
    (\<forall>n < seq. hm_get (ar_source_event_ids r) (aggregation_id_of aid n) =
       hm_get (ar_source_event_ids acc) (aggregation_id_of aid n))"
  using assms
proof (induction es arbitrary: g seq acc)
  case Nil
  have "g \<noteq> []" using Nil.prems(2) by (simp add: mergeable_def)
  with Nil.prems(1) emit_block_Some obtain a where
    "block_finish (aggregation_id_of aid seq) (group_block g) = Some (a, map ae_event_id g)"
    "r = \<lparr>ar_events = ar_events acc @ [a], ar_source_event_ids =
      hm_insert (aggregation_id_of aid seq) (map ae_event_id g) (ar_source_event_ids acc)\<rparr>"
    by fastforce
  with Nil.prems(2) show ?case
    by (intro exI [of _ "[g]"] exI [of _ "[a]"]) (simp add: aggregates_of_def sources_of_def)
next
  case (Cons e es)
  have g: "g \<noteq> []" using Cons.prems(2) by (simp add: mergeable_def)
  show ?case
  proof (cases "can_merge cfg (group_block g) e")
    case True
    with Cons.prems g have "aggregate_loop cfg aid es (Some (group_block (g @ [e]))) seq acc = Some r"
      and "mergeable cfg (g @ [e])" by (simp_all add: mergeable_snoc)
    from Cons.IH [OF this] show ?thesis by simp
  next
    case False
    with Cons.prems(1) obtain acc' where em: "emit_block aid seq (group_block g) acc = Some acc'"
      and rest: "aggregate_loop cfg aid es (Some (group_block [e])) (seq + 1) acc' = Some r"
      by (auto simp: bind_eq_Some_conv)
    from emit_block_Some [OF em g] obtain a where
      a: "block_finish (aggregation_id_of aid seq) (group_block g) = Some (a, map ae_event_id g)"
      and acc': "ar_events acc' = ar_events acc @ [a]" "ar_source_event_ids acc' =
        hm_insert (aggregation_id_of aid seq) (map ae_event_id g) (ar_source_event_ids acc)"
      by auto
    from Cons.IH [OF rest mergeable_single] obtain gs as where IH: "concat gs = e # es"
      "\<forall>h \<in> set gs. mergeable cfg h" "aggregates_of aid (seq + 1) gs as"
      "ar_events r = ar_events acc' @ as" "sources_of aid (seq + 1) gs (ar_source_event_ids r)"
      "\<forall>n < seq + 1. hm_get (ar_source_event_ids r) (aggregation_id_of aid n) =
         hm_get (ar_source_event_ids acc') (aggregation_id_of aid n)" by auto
    have "sources_of aid seq (g # gs) (ar_source_event_ids r)"
      using IH(5,6) acc'(2) by (auto simp: sources_of_def nth_Cons split: nat.splits)
    with IH a acc' Cons.prems(2) show ?thesis
      by (intro exI [of _ "g # gs"] exI [of _ "a # as"]) (simp add: aggregates_of_Cons)
  qed
qed

text \<open>What an aggregated event says of the events it stands for.\<close>

definition has_subject :: "ai_aggregated_event \<Rightarrow> ai_event \<Rightarrow> bool" where
  "has_subject a e \<longleftrightarrow>
     ag_user a = ae_user e \<and> ag_pid a = ae_pid e \<and> ag_binary a = ae_binary e \<and>
     ag_script_path a = ae_script_path e \<and> ag_applet a = ae_applet e \<and>
     ag_remote_client a = ae_remote_client e \<and> ag_action a = ae_action e \<and>
     ag_log_type a = ae_log_type e \<and> ag_rule a = ae_rule e \<and> ag_ticket_id a = ae_ticket_id e \<and>
     ag_target_kind a = ae_target_kind e"

definition evidence_of :: "ai_event list \<Rightarrow> string list" where
  "evidence_of g = map ae_event_id
     ([hd g] @ (if length g \<le> 2 then [] else [g ! 1]) @ (if length g = 1 then [] else [last g]))"

definition describes :: "aggregator_config \<Rightarrow> ai_event list \<Rightarrow> ai_aggregated_event \<Rightarrow> bool" where
  "describes cfg g a \<longleftrightarrow> g \<noteq> [] \<and> length g \<le> max 1 (unat (ag_max_group_events cfg)) \<and>
     unat (ag_event_count a) = length g \<and> (\<forall>e \<in> set g. has_subject a e) \<and>
     ag_start_time a = ae_timestamp (hd g) \<and> ag_end_time a = ae_timestamp (last g) \<and>
     ag_evidence_event_ids a = evidence_of g \<and>
     common_base_path (map ae_target_path g) = Some (ag_target_base_path a)"

lemma finish_describes:
  assumes f: "block_finish i (group_block g) = Some (a, ids)" and m: "mergeable cfg g"
  shows "describes cfg g a"
proof -
  have g: "g \<noteq> []" using m by (simp add: mergeable_def)
  note flds = group_block_fields [OF g] and l = mergeable_length [OF m]
  have len: "length g < 2 ^ 32"
    using l unsigned_less [of "ag_max_group_events cfg", where ?'a = nat] by auto
  note ev = group_block_evidence [OF g len]
  have "ag_evidence_event_ids a = evidence_of g"
    using f flds ev by (auto simp: block_finish_def bind_eq_Some_conv evidence_of_def split: if_splits)
  moreover have "\<forall>e \<in> set g. has_subject a e"
    using f mergeable_subject [OF m]
    by (auto simp: block_finish_def bind_eq_Some_conv has_subject_def same_subject_def)
  moreover have "common_base_path (map ae_target_path g) = Some (ag_target_base_path a)"
    "ag_start_time a = ae_timestamp (hd g)" "ag_end_time a = ae_timestamp (last g)"
    "ag_event_count a = of_nat (length g)"
    using f flds by (auto simp: block_finish_def bind_eq_Some_conv)
  moreover have "unat (of_nat (length g) :: u32) = length g" using len by (simp add: unat_of_nat)
  ultimately show ?thesis using g l by (simp add: describes_def)
qed

lemma aggregation_groups:
  assumes "aggregate_events aid evs cfg = Some r"
  shows "\<exists>gs. concat gs = evs \<and> length gs = length (ar_events r) \<and>
    (\<forall>i < length gs. describes cfg (gs ! i) (ar_events r ! i) \<and>
       hm_get (ar_source_event_ids r) (ag_aggregation_id (ar_events r ! i)) = Some (map ae_event_id (gs ! i)))"
proof (cases evs)
  case Nil
  with assms show ?thesis by (intro exI [of _ "[]"]) (auto simp: aggregate_events_def)
next
  case (Cons e es)
  with assms have "aggregate_loop cfg aid es (Some (group_block [e])) 1
      \<lparr>ar_events = [], ar_source_event_ids = []\<rparr> = Some r"
    by (simp add: aggregate_events_def)
  from aggregate_loop_groups [OF this mergeable_single] obtain gs where gs: "concat gs = e # es"
    "\<forall>h \<in> set gs. mergeable cfg h" "aggregates_of aid 1 gs (ar_events r)"
    "sources_of aid 1 gs (ar_source_event_ids r)" by auto
  have "describes cfg (gs ! i) (ar_events r ! i)"
    and "ag_aggregation_id (ar_events r ! i) = aggregation_id_of aid (1 + i)" if "i < length gs" for i
    using gs(2,3) that by (auto simp: aggregates_of_def intro: finish_describes block_finish_id)
  with gs Cons show ?thesis
    by (intro exI [of _ gs]) (auto simp: aggregates_of_def sources_of_def)
qed


section \<open>A batch that is never analysed\<close>

text \<open>
  Two events that can be merged but whose second target lies outside the directory of the first
  one stop the analysis for good.
\<close>

theorem aggregation_hangs:
  assumes "can_merge cfg (block_new e1) e2" and "CHR ''/'' \<in> set (ae_target_path e1)"
    and "\<not> prefix (dir_of (ae_target_path e1)) (ae_target_path e2)"
  shows "aggregate_events aid [e1, e2] cfg = None"
proof -
  have "\<not> prefix (ae_target_path e1) (ae_target_path e2)" using assms(3) dir_prefix by blast
  with assms(2,3) have "common_base_path [ae_target_path e1, ae_target_path e2] = None"
    by (simp add: common_base_path_def base_path_loop_full)
  with assms(1) show ?thesis
    by (simp add: aggregate_events_def emit_block_def block_finish_def)
qed

end
