(* ===== verification/Ai_Engine.thy ===== *)
theory Ai_Engine
  imports Ai_Facts Complex_Main "HOL-Library.List_Lexorder" "HOL-Library.Char_ord"
    "HOL-Library.Product_Lexorder"
begin

text \<open>
  The rest of \<open>ai/\<close>: the collector that cuts the stream of events into requests
  (\<open>collector.rs\<close>), the engine that checks a request, sorts and aggregates it, asks the provider
  and checks the answer (\<open>engine.rs\<close>, \<open>error.rs\<close>), the stored record (\<open>results.rs\<close>), and the
  configuration (\<open>mod.rs\<close>). The provider, the constructors of its adapters, the clock and the
  uuids are parameters.
\<close>

section \<open>Errors\<close>

datatype validation_code =
    VcInvalidJson | VcMissingField | VcInvalidFieldType | VcInvalidFieldValue | VcInvalidConfidence
  | VcMissingEvidence | VcInvalidEvidenceCount | VcUnknownEvidenceId | VcAnalysisIdMismatch

fun validation_code_as_str :: "validation_code \<Rightarrow> string" where
  "validation_code_as_str VcInvalidJson = ''invalid_json''"
| "validation_code_as_str VcMissingField = ''missing_field''"
| "validation_code_as_str VcInvalidFieldType = ''invalid_field_type''"
| "validation_code_as_str VcInvalidFieldValue = ''invalid_field_value''"
| "validation_code_as_str VcInvalidConfidence = ''invalid_confidence''"
| "validation_code_as_str VcMissingEvidence = ''missing_evidence''"
| "validation_code_as_str VcInvalidEvidenceCount = ''invalid_evidence_count''"
| "validation_code_as_str VcUnknownEvidenceId = ''unknown_evidence_id''"
| "validation_code_as_str VcAnalysisIdMismatch = ''analysis_id_mismatch''"

record validation_failure =
  vf_code :: validation_code
  vf_field :: "string option"
  vf_anomaly_index :: "nat option"

datatype provider_error_code =
    PcTimeout | PcRateLimited | PcServerError | PcNetworkError | PcInvalidResponse
  | PcAuthenticationError | PcOther

fun provider_error_code_as_str :: "provider_error_code \<Rightarrow> string" where
  "provider_error_code_as_str PcTimeout = ''timeout''"
| "provider_error_code_as_str PcRateLimited = ''rate_limited''"
| "provider_error_code_as_str PcServerError = ''server_error''"
| "provider_error_code_as_str PcNetworkError = ''network_error''"
| "provider_error_code_as_str PcInvalidResponse = ''invalid_response''"
| "provider_error_code_as_str PcAuthenticationError = ''authentication_error''"
| "provider_error_code_as_str PcOther = ''other''"

record provider_failure =
  pfl_code :: provider_error_code
  pfl_http_status :: "u16 option"

datatype ai_error =
    AeUnavailable string
  | AeTimeout
  | AeRateLimited "u64 option"
  | AeInvalidResponse string
  | AeValidation validation_failure
  | AeInvalidRequest string
  | AeAuthentication string
  | AeProviderFailure provider_failure
  | AeProvider string

text \<open>\<open>status_error\<close> of \<open>adapters/common.rs\<close>: the class of an HTTP status.\<close>

definition status_error :: "u16 \<Rightarrow> ai_error" where
  "status_error status =
     AeProviderFailure \<lparr>pfl_code =
       (if status = 401 \<or> status = 403 then PcAuthenticationError
        else if status = 429 then PcRateLimited
        else if status = 408 \<or> status = 504 then PcTimeout
        else if 500 \<le> status \<and> status < 600 then PcServerError
        else PcOther), pfl_http_status = Some status\<rparr>"

definition validate_model :: "string \<Rightarrow> ai_error + unit" where
  "validate_model model =
     (if model = [] \<or>
         \<not> list_all (\<lambda>b. is_ascii_alphanumeric b \<or> b \<in> set ''-_.:/'') model \<or>
         sublist ''..'' model
      then Inl (AeInvalidRequest ''Invalid model ID'') else Inr ())"

section \<open>Requests and results\<close>

record ai_analysis_request =
  rq_analysis_id :: string
  rq_host :: string
  rq_window_start :: instant
  rq_window_end :: instant
  rq_events :: "ai_event list"

record ai_provider_request =
  pq_analysis_id :: string
  pq_host :: string
  pq_window_start :: instant
  pq_window_end :: instant
  pq_events :: "ai_aggregated_event list"

datatype severity = SevLow | SevMedium | SevHigh | SevCritical

text \<open>An \<open>f32\<close> is a rational number, or one of the infinities or not a number.\<close>

datatype f32 = Finite rat | NotFinite

record ai_anomaly =
  an_severity :: severity
  an_attack_type :: "string option"
  an_summary :: string
  an_explanation :: string
  an_evidence_event_ids :: "string list"
  an_confidence_score :: f32

record ai_analysis_result =
  rs_analysis_id :: string
  rs_anomalies :: "ai_anomaly list"

record ai_analysis_outcome =
  ou_result :: ai_analysis_result
  ou_source_event_ids :: "(string, string list) hmap"
  ou_aggregated_event_count :: nat

section \<open>Checking a request\<close>

fun check_event_ids :: "ai_event list \<Rightarrow> string hset \<Rightarrow> ai_error + unit" where
  "check_event_ids [] ids = Inr ()"
| "check_event_ids (e # es) ids =
     (if rust_trim (ae_event_id e) = [] then Inl (AeInvalidRequest ''event_id is empty'')
      else if ae_event_id e \<in> set ids
      then Inl (AeInvalidRequest (''Duplicate event_id: '' @ ae_event_id e))
      else check_event_ids es (hs_insert (ae_event_id e) ids))"

definition validate_request :: "ai_analysis_request \<Rightarrow> ai_error + unit" where
  "validate_request rq =
     (if rust_trim (rq_analysis_id rq) = [] then Inl (AeInvalidRequest ''analysis_id is empty'')
      else if rust_trim (rq_host rq) = [] then Inl (AeInvalidRequest ''host is empty'')
      else if rq_window_start rq > rq_window_end rq
      then Inl (AeInvalidRequest ''Invalid analysis time window'')
      else check_event_ids (rq_events rq) [])"

section \<open>Checking an answer\<close>

definition invalid :: "validation_code \<Rightarrow> string \<Rightarrow> nat option \<Rightarrow> ai_error" where
  "invalid code field index =
     AeValidation \<lparr>vf_code = code, vf_field = Some field, vf_anomaly_index = index\<rparr>"

fun confidence_ok :: "f32 \<Rightarrow> bool" where
  "confidence_ok (Finite q) \<longleftrightarrow> 0 \<le> q \<and> q \<le> 1"
| "confidence_ok NotFinite = False"

definition check_anomaly :: "string hset \<Rightarrow> nat \<Rightarrow> ai_anomaly \<Rightarrow> ai_error + unit" where
  "check_anomaly event_ids index a =
     (let ids = an_evidence_event_ids a
      in if \<not> confidence_ok (an_confidence_score a)
         then Inl (invalid VcInvalidConfidence ''confidence_score'' (Some index))
         else if ids = [] then Inl (invalid VcMissingEvidence ''evidence_event_ids'' (Some index))
         else if length ids > 3
         then Inl (invalid VcInvalidEvidenceCount ''evidence_event_ids'' (Some index))
         else if \<exists>i \<in> set ids. i \<notin> set event_ids
         then Inl (invalid VcUnknownEvidenceId ''evidence_event_ids'' (Some index))
         else Inr ())"

definition validate_result ::
  "ai_analysis_request \<Rightarrow> ai_provider_request \<Rightarrow> ai_analysis_result \<Rightarrow> ai_error + unit" where
  "validate_result rq pq res =
     (if rs_analysis_id res \<noteq> rq_analysis_id rq
      then Inl (invalid VcAnalysisIdMismatch ''analysis_id'' None)
      else
        let event_ids = hs_of_list (concat (map ag_evidence_event_ids (pq_events pq)))
        in foldR (\<lambda>(index, a) _. check_anomaly event_ids index a)
             (enumerate 0 (rs_anomalies res)) ())"

section \<open>The engine\<close>

type_synonym provider = "ai_provider_request \<Rightarrow> ai_error + ai_analysis_result"

definition sort_events :: "ai_event list \<Rightarrow> ai_event list" where
  "sort_events = sort_key (\<lambda>e. (ae_timestamp e, ae_event_id e))"

definition provider_request_of ::
  "ai_analysis_request \<Rightarrow> ai_aggregated_event list \<Rightarrow> ai_provider_request" where
  "provider_request_of rq evs =
     \<lparr>pq_analysis_id = rq_analysis_id rq, pq_host = rq_host rq, pq_window_start = rq_window_start rq,
      pq_window_end = rq_window_end rq, pq_events = evs\<rparr>"

text \<open>\<open>None\<close>: the aggregation does not end, so neither does the analysis.\<close>

definition analyze_with_provenance ::
  "aggregator_config \<Rightarrow> provider \<Rightarrow> ai_analysis_request \<Rightarrow> (ai_error + ai_analysis_outcome) option" where
  "analyze_with_provenance cfg provider rq =
     (case validate_request rq of
        Inl e \<Rightarrow> Some (Inl e)
      | Inr _ \<Rightarrow>
          let sorted = rq\<lparr>rq_events := sort_events (rq_events rq)\<rparr>
          in Option.bind (aggregate_events (rq_analysis_id sorted) (rq_events sorted) cfg) (\<lambda>agg.
               let pq = provider_request_of sorted (ar_events agg)
               in Some (bindR (provider pq) (\<lambda>result.
                  bindR (validate_result sorted pq result) (\<lambda>_.
                    Inr \<lparr>ou_result = result, ou_source_event_ids = ar_source_event_ids agg,
                         ou_aggregated_event_count = length (pq_events pq)\<rparr>)))))"

definition analyze ::
  "aggregator_config \<Rightarrow> provider \<Rightarrow> ai_analysis_request \<Rightarrow> (ai_error + ai_analysis_result) option" where
  "analyze cfg provider rq =
     map_option (\<lambda>r. bindR r (\<lambda>outcome. Inr (ou_result outcome))) (analyze_with_provenance cfg provider rq)"

record ai_stored_analysis =
  sa_version :: string
  sa_recorded_at :: instant
  sa_provider :: string
  sa_host :: string
  sa_window_start :: instant
  sa_window_end :: instant
  sa_input_event_count :: nat
  sa_aggregated_event_count :: nat
  sa_result :: ai_analysis_result
  sa_source_event_ids :: "(string, string list) hmap"

definition stored_analysis_from_outcome ::
  "instant \<Rightarrow> ai_analysis_request \<Rightarrow> string \<Rightarrow> ai_analysis_outcome \<Rightarrow> ai_stored_analysis" where
  "stored_analysis_from_outcome now rq provider_name outcome =
     \<lparr>sa_version = ''1.0'', sa_recorded_at = now, sa_provider = provider_name, sa_host = rq_host rq,
      sa_window_start = rq_window_start rq, sa_window_end = rq_window_end rq,
      sa_input_event_count = length (rq_events rq),
      sa_aggregated_event_count = ou_aggregated_event_count outcome,
      sa_result = ou_result outcome, sa_source_event_ids = ou_source_event_ids outcome\<rparr>"

text \<open>
  The worker takes the requests one after the other; the records it appends to the results file
  are its value. A request that fails leaves a line in the daemon's log only; one that never ends
  keeps all later ones waiting. The clock readings are given with the requests.
\<close>

fun run_ai_analysis_worker ::
  "aggregator_config \<Rightarrow> provider \<Rightarrow> string \<Rightarrow> (ai_analysis_request \<times> instant) list \<Rightarrow>
   ai_stored_analysis list option" where
  "run_ai_analysis_worker cfg provider name [] = Some []"
| "run_ai_analysis_worker cfg provider name ((rq, now) # rqs) =
     Option.bind (analyze_with_provenance cfg provider rq) (\<lambda>r.
       map_option (\<lambda>rest. (case r of
           Inl _ \<Rightarrow> rest
         | Inr outcome \<Rightarrow> stored_analysis_from_outcome now rq name outcome # rest))
         (run_ai_analysis_worker cfg provider name rqs))"

end
