(* ===== verification/Ai_Collector.thy ===== *)
theory Ai_Collector
  imports Ai_Engine
begin

text \<open>
  \<open>AiCollector\<close>, the queues around it and \<open>build_ai_runtime\<close>, with what the analysis guarantees
  from end to end: no event is lost or doubled between the collector and its requests, and an
  accepted answer rests on log entries of accesses that were let through.
\<close>

section \<open>The collector\<close>

record collector =
  co_host :: string
  co_max_events :: nat
  co_events :: "ai_event list"
  co_window_start :: instant

text \<open>\<open>flush\<close> with the clock and the fresh uuid as arguments.\<close>

definition collector_flush ::
  "instant \<Rightarrow> string \<Rightarrow> collector \<Rightarrow> ai_analysis_request option \<times> collector" where
  "collector_flush end_time uuid c =
     (let c' = c\<lparr>co_events := [], co_window_start := end_time\<rparr>
      in if co_events c = [] then (None, c')
         else (Some \<lparr>rq_analysis_id = uuid, rq_host = co_host c, rq_window_start = co_window_start c,
                     rq_window_end = end_time, rq_events = co_events c\<rparr>, c'))"

text \<open>The bounded queue of requests and the counter of dropped batches.\<close>

record analysis_channel =
  ch_queue :: "ai_analysis_request list"
  ch_capacity :: nat
  ch_closed :: bool
  ch_batches_dropped :: u64

definition submit :: "ai_analysis_request \<Rightarrow> analysis_channel \<Rightarrow> analysis_channel" where
  "submit rq ch =
     (if ch_closed ch then ch
      else if length (ch_queue ch) \<ge> ch_capacity ch
      then ch\<lparr>ch_batches_dropped := ch_batches_dropped ch + 1\<rparr>
      else ch\<lparr>ch_queue := ch_queue ch @ [rq]\<rparr>)"

definition flush_and_submit ::
  "instant \<Rightarrow> string \<Rightarrow> collector \<times> analysis_channel \<Rightarrow> collector \<times> analysis_channel" where
  "flush_and_submit now uuid st =
     (case st of (c, ch) \<Rightarrow>
        (case collector_flush now uuid c of
           (Some rq, c') \<Rightarrow> (c', submit rq ch)
         | (None, c') \<Rightarrow> (c', ch)))"

text \<open>
  What \<open>select!\<close> may find: an event, the end of the channel, a tick of the interval. The worker
  takes requests from the other end in between.
\<close>

datatype collector_input =
    CiEvent ai_event instant string
  | CiClosed instant string
  | CiTick instant string
  | CiTaken

fun collector_step ::
  "collector_input \<Rightarrow> collector \<times> analysis_channel \<Rightarrow> collector \<times> analysis_channel" where
  "collector_step (CiEvent e now uuid) (c, ch) =
     (let c' = c\<lparr>co_events := co_events c @ [e]\<rparr>
      in if length (co_events c') \<ge> co_max_events c' then flush_and_submit now uuid (c', ch)
         else (c', ch))"
| "collector_step (CiClosed now uuid) st = flush_and_submit now uuid st"
| "collector_step (CiTick now uuid) st = flush_and_submit now uuid st"
| "collector_step CiTaken (c, ch) = (c, ch\<lparr>ch_queue := tl (ch_queue ch)\<rparr>)"

text \<open>The loop ends after the end of the channel of events.\<close>

fun collector_run ::
  "collector_input list \<Rightarrow> collector \<times> analysis_channel \<Rightarrow> collector \<times> analysis_channel" where
  "collector_run [] st = st"
| "collector_run (i # is) st =
     (let st' = collector_step i st
      in case i of CiClosed _ _ \<Rightarrow> st' | _ \<Rightarrow> collector_run is st')"

definition new_collector :: "string \<Rightarrow> nat \<Rightarrow> instant \<Rightarrow> collector" where
  "new_collector host max_events now =
     \<lparr>co_host = host, co_max_events = max_events, co_events = [], co_window_start = now\<rparr>"

section \<open>From the log to the collector\<close>

record event_channel =
  ec_queue :: "ai_event list"
  ec_capacity :: nat
  ec_closed :: bool
  ec_dropped :: u64

text \<open>
  What the log writer does after an entry has been written; \<open>None\<close> is a daemon without analysis.
\<close>

definition deliver_to_ai ::
  "(u64 \<Rightarrow> instant) \<Rightarrow> audit_log_entry \<Rightarrow> event_channel option \<Rightarrow> event_channel option" where
  "deliver_to_ai inst entry ai_tx =
     (case ai_tx of
        None \<Rightarrow> None
      | Some ch \<Rightarrow>
          (case collect_ai_event inst entry of
             None \<Rightarrow> Some ch
           | Some e \<Rightarrow>
               (if ec_closed ch then Some ch
                else if length (ec_queue ch) \<ge> ec_capacity ch
                then Some (ch\<lparr>ec_dropped := ec_dropped ch + 1\<rparr>)
                else Some (ch\<lparr>ec_queue := ec_queue ch @ [e]\<rparr>))))"

section \<open>Configuration\<close>

record ollama_config =
  oc_endpoint :: string
  oc_model :: string
  oc_timeout_seconds :: u64
  oc_temperature :: "f32 option"

record cloud_config =
  cl_model :: string
  cl_timeout_seconds :: u64
  cl_temperature :: "f32 option"

record collector_config =
  cf_window_seconds :: u64
  cf_max_events :: nat
  cf_event_queue_capacity :: nat
  cf_analysis_queue_capacity :: nat

record ai_config =
  ai_version :: string
  ai_enabled :: bool
  ai_provider :: string
  ai_ollama :: "ollama_config option"
  ai_groq :: "cloud_config option"
  ai_gemini :: "cloud_config option"
  ai_collector :: collector_config
  ai_system_prompt :: string
  ai_aggregator :: aggregator_config

text \<open>The constructors of the adapters: endpoint or not, model, timeout, prompt, temperature.\<close>

record ai_adapters =
  ad_ollama :: "string \<Rightarrow> string \<Rightarrow> u64 \<Rightarrow> string \<Rightarrow> f32 option \<Rightarrow> string + provider"
  ad_groq :: "string \<Rightarrow> u64 \<Rightarrow> string \<Rightarrow> f32 option \<Rightarrow> string + provider"
  ad_gemini :: "string \<Rightarrow> u64 \<Rightarrow> string \<Rightarrow> f32 option \<Rightarrow> string + provider"

record ai_runtime =
  rt_provider :: provider
  rt_aggregator :: aggregator_config
  rt_window_seconds :: u64
  rt_max_events :: nat
  rt_event_queue_capacity :: nat
  rt_analysis_queue_capacity :: nat

definition validate_temperature :: "f32 option \<Rightarrow> string + unit" where
  "validate_temperature v =
     (case v of
        Some t \<Rightarrow> (if confidence_ok t then Inr () else Inl ''AI temperature must be between 0.0 and 1.0'')
      | None \<Rightarrow> Inr ())"

definition build_provider :: "ai_adapters \<Rightarrow> ai_config \<Rightarrow> string + provider" where
  "build_provider ad c =
     (if ai_provider c = ''ollama'' then
        bindR (ok_or (ai_ollama c) ''Missing ollama configuration'') (\<lambda>ol.
          if rust_trim (oc_endpoint ol) = [] \<or> rust_trim (oc_model ol) = [] \<or> oc_timeout_seconds ol = 0
          then Inl ''Invalid Ollama endpoint, model or timeout_seconds''
          else map_err (\<lambda>e. ''Ollama provider initialization failed: '' @ e)
            (ad_ollama ad (oc_endpoint ol) (oc_model ol) (oc_timeout_seconds ol) (ai_system_prompt c)
              (oc_temperature ol)))
      else if ai_provider c = ''groq'' then
        bindR (ok_or (ai_groq c) ''Missing groq configuration'') (\<lambda>g.
          map_err (\<lambda>e. ''Groq provider initialization failed: '' @ e)
            (ad_groq ad (cl_model g) (cl_timeout_seconds g) (ai_system_prompt c) (cl_temperature g)))
      else if ai_provider c = ''gemini'' then
        bindR (ok_or (ai_gemini c) ''Missing gemini configuration'') (\<lambda>g.
          map_err (\<lambda>e. ''Gemini provider initialization failed: '' @ e)
            (ad_gemini ad (cl_model g) (cl_timeout_seconds g) (ai_system_prompt c) (cl_temperature g)))
      else Inl (''Unsupported AI provider: '' @ ai_provider c))"

definition build_ai_runtime :: "ai_adapters \<Rightarrow> ai_config \<Rightarrow> string + ai_runtime option" where
  "build_ai_runtime ad c =
     (let k = ai_collector c
      in if ai_version c \<noteq> ''1.0'' then Inl (''Unsupported AI config version: '' @ ai_version c)
         else if \<not> ai_enabled c then Inr None
         else if cf_window_seconds k = 0 \<or> cf_max_events k = 0 \<or> cf_event_queue_capacity k = 0 \<or>
              cf_analysis_queue_capacity k = 0
         then Inl ''AI collector settings must be greater than zero''
         else if ag_max_group_events (ai_aggregator c) = 0
         then Inl ''AI aggregator.max_group_events must be greater than zero''
         else bindR (build_provider ad c) (\<lambda>p.
           Inr (Some \<lparr>rt_provider = p, rt_aggregator = ai_aggregator c,
             rt_window_seconds = cf_window_seconds k, rt_max_events = cf_max_events k,
             rt_event_queue_capacity = cf_event_queue_capacity k,
             rt_analysis_queue_capacity = cf_analysis_queue_capacity k\<rparr>)))"

section \<open>Checked requests and answers\<close>

lemma check_event_ids_ok:
  "check_event_ids es ids = Inr () \<longleftrightarrow>
     (\<forall>e \<in> set es. rust_trim (ae_event_id e) \<noteq> [] \<and> ae_event_id e \<notin> set ids) \<and>
     distinct (map ae_event_id es)"
  by (induction es ids rule: check_event_ids.induct) (auto intro: rev_image_eqI)

lemma check_anomaly_ok:
  "check_anomaly ids i a = Inr () \<longleftrightarrow>
     confidence_ok (an_confidence_score a) \<and> an_evidence_event_ids a \<noteq> [] \<and>
     length (an_evidence_event_ids a) \<le> 3 \<and> set (an_evidence_event_ids a) \<subseteq> set ids"
  by (auto simp: check_anomaly_def Let_def)

lemma check_anomalies_ok:
  "foldR (\<lambda>(i, a) _. check_anomaly ids i a) (enumerate n as) () = Inr () \<longleftrightarrow>
     (\<forall>a \<in> set as. confidence_ok (an_confidence_score a) \<and> an_evidence_event_ids a \<noteq> [] \<and>
        length (an_evidence_event_ids a) \<le> 3 \<and> set (an_evidence_event_ids a) \<subseteq> set ids)"
  by (induction as arbitrary: n) (auto simp: bindR_eq_Inr check_anomaly_ok)

lemma set_sort_events [simp]: "set (sort_events es) = set es"
  by (simp add: sort_events_def)

lemma evidence_of_subset: "g \<noteq> [] \<Longrightarrow> set (evidence_of g) \<subseteq> ae_event_id ` set g"
  by (auto simp: evidence_of_def split: if_splits)

lemma analysis_grounded:
  assumes "analyze_with_provenance cfg prov rq = Some (Inr out)" and "a \<in> set (rs_anomalies (ou_result out))"
  shows "rs_analysis_id (ou_result out) = rq_analysis_id rq \<and> confidence_ok (an_confidence_score a) \<and>
    an_evidence_event_ids a \<noteq> [] \<and> length (an_evidence_event_ids a) \<le> 3 \<and>
    (\<forall>i \<in> set (an_evidence_event_ids a). i \<in> ae_event_id ` set (rq_events rq) \<and>
       (\<exists>k ids. hm_get (ou_source_event_ids out) k = Some ids \<and> i \<in> set ids))"
proof -
  let ?rq = "rq\<lparr>rq_events := sort_events (rq_events rq)\<rparr>"
  from assms(1) obtain agg where
    agg: "aggregate_events (rq_analysis_id rq) (sort_events (rq_events rq)) cfg = Some agg"
    and v: "validate_result ?rq (provider_request_of ?rq (ar_events agg)) (ou_result out) = Inr ()"
    and src: "ou_source_event_ids out = ar_source_event_ids agg"
    by (auto simp: analyze_with_provenance_def Let_def bind_eq_Some_conv bindR_eq_Inr split: sum.splits)
  from aggregation_groups [OF agg] obtain gs where gs: "concat gs = sort_events (rq_events rq)"
    "length gs = length (ar_events agg)"
    "\<And>i. i < length gs \<Longrightarrow> describes cfg (gs ! i) (ar_events agg ! i) \<and>
       hm_get (ar_source_event_ids agg) (ag_aggregation_id (ar_events agg ! i)) = Some (map ae_event_id (gs ! i))"
    by blast
  from v have id: "rs_analysis_id (ou_result out) = rq_analysis_id rq"
    and ok: "confidence_ok (an_confidence_score a)" "an_evidence_event_ids a \<noteq> []"
      "length (an_evidence_event_ids a) \<le> 3"
      "set (an_evidence_event_ids a) \<subseteq> (\<Union>e \<in> set (ar_events agg). set (ag_evidence_event_ids e))"
    using assms(2)
    by (auto simp: validate_result_def Let_def check_anomalies_ok provider_request_of_def split: if_splits)
  have "i \<in> ae_event_id ` set (rq_events rq) \<and>
      (\<exists>k ids. hm_get (ou_source_event_ids out) k = Some ids \<and> i \<in> set ids)"
    if "i \<in> set (an_evidence_event_ids a)" for i
  proof -
    from that ok(4) obtain e where "e \<in> set (ar_events agg)" "i \<in> set (ag_evidence_event_ids e)" by blast
    then obtain n where n: "n < length (ar_events agg)"
      and i: "i \<in> set (ag_evidence_event_ids (ar_events agg ! n))" by (auto simp: in_set_conv_nth [of e])
    with gs have d: "describes cfg (gs ! n) (ar_events agg ! n)" by simp
    then have "i \<in> ae_event_id ` set (gs ! n)"
      using i evidence_of_subset [of "gs ! n"] by (auto simp: describes_def)
    moreover have "gs ! n \<in> set gs" using n gs(2) by simp
    then have "set (gs ! n) \<subseteq> set (concat gs)" by (simp only: set_concat) blast
    moreover have "hm_get (ou_source_event_ids out) (ag_aggregation_id (ar_events agg ! n)) =
        Some (map ae_event_id (gs ! n))" using gs(2,3) n src by simp
    ultimately show ?thesis using gs(1) by fastforce
  qed
  with id ok show ?thesis by blast
qed

lemma collected_event:
  "collect_ai_event inst e = Some x \<Longrightarrow>
     al_id e = ae_event_id x \<and> (entry_decision e = Some Allow \<or> entry_decision e = Some AuditOnly)"
  by (cases "al_auth e")
    (auto simp: collect_ai_event_def is_target_for_ai_def ai_event_from_def Let_def entry_decision_def
      split: if_splits)

text \<open>
  C36. An analysis is accepted only if every anomaly it reports names one to three events as evidence,
  with a confidence between 0 and 1. When the request was built from log entries, each piece of
  evidence is the id of an entry about an access that the policy let through.
\<close>

theorem evidence_from_permitted_accesses:
  assumes "analyze_with_provenance cfg prov rq = Some (Inr out)"
    and "a \<in> set (rs_anomalies (ou_result out))"
    and "rq_events rq = List.map_filter (collect_ai_event inst) logs"
  shows "confidence_ok (an_confidence_score a) \<and> length (an_evidence_event_ids a) \<in> {1..3} \<and>
    (\<forall>i \<in> set (an_evidence_event_ids a).
       \<exists>e \<in> set logs. al_id e = i \<and> (entry_decision e = Some Allow \<or> entry_decision e = Some AuditOnly))"
proof -
  note gr = analysis_grounded [OF assms(1,2)]
  have "\<exists>e \<in> set logs. al_id e = ae_event_id x \<and> (entry_decision e = Some Allow \<or> entry_decision e = Some AuditOnly)"
    if "x \<in> set (rq_events rq)" for x
  proof -
    from that assms(3) obtain e where "e \<in> set logs" "collect_ai_event inst e = Some x"
      by (auto simp: map_filter_def)
    with collected_event [OF this(2)] show ?thesis by blast
  qed
  moreover have "length (an_evidence_event_ids a) \<in> {1..3}" using gr by (cases "an_evidence_event_ids a") auto
  ultimately show ?thesis using gr by fastforce
qed

section \<open>No event is lost\<close>

text \<open>The requests a run makes, whether the queue takes them or not, in order.\<close>

definition step_request :: "collector_input \<Rightarrow> collector \<Rightarrow> ai_analysis_request option" where
  "step_request i c =
     (case i of
        CiEvent e now uuid \<Rightarrow>
          (if length (co_events c) + 1 \<ge> co_max_events c
           then fst (collector_flush now uuid (c\<lparr>co_events := co_events c @ [e]\<rparr>)) else None)
      | CiClosed now uuid \<Rightarrow> fst (collector_flush now uuid c)
      | CiTick now uuid \<Rightarrow> fst (collector_flush now uuid c)
      | CiTaken \<Rightarrow> None)"

definition step_event :: "collector_input \<Rightarrow> ai_event list" where
  "step_event i = (case i of CiEvent e _ _ \<Rightarrow> [e] | _ \<Rightarrow> [])"

definition request_events :: "ai_analysis_request option \<Rightarrow> ai_event list" where
  "request_events r = (case r of Some q \<Rightarrow> rq_events q | None \<Rightarrow> [])"

text \<open>
  One step keeps every event: what the collector held and received is what it holds afterwards
  together with the request it made. A request has at least one event and at most the configured
  number, and its window begins where the one before ended.
\<close>

lemma collector_step_keeps_events:
  assumes "length (co_events c) < co_max_events c"
  shows "co_events c @ step_event i =
      request_events (step_request i c) @ co_events (fst (collector_step i (c, ch))) \<and>
    length (co_events (fst (collector_step i (c, ch)))) < co_max_events c \<and>
    (\<forall>q. step_request i c = Some q \<longrightarrow>
       rq_events q \<noteq> [] \<and> length (rq_events q) \<le> co_max_events c \<and>
       rq_window_start q = co_window_start c \<and>
       co_window_start (fst (collector_step i (c, ch))) = rq_window_end q)"
  using assms
  by (cases i) (auto simp: step_request_def step_event_def request_events_def flush_and_submit_def
      collector_flush_def Let_def)

fun run_requests ::
  "collector_input list \<Rightarrow> collector \<times> analysis_channel \<Rightarrow> ai_analysis_request list" where
  "run_requests [] st = []"
| "run_requests (i # is) st =
     (case step_request i (fst st) of Some q \<Rightarrow> [q] | None \<Rightarrow> []) @
     (case i of CiClosed _ _ \<Rightarrow> [] | _ \<Rightarrow> run_requests is (collector_step i st))"

fun run_events :: "collector_input list \<Rightarrow> ai_event list" where
  "run_events [] = []"
| "run_events (i # is) = step_event i @ (case i of CiClosed _ _ \<Rightarrow> [] | _ \<Rightarrow> run_events is)"

lemma collector_step_max: "co_max_events (fst (collector_step i (c, ch))) = co_max_events c"
  by (cases i) (auto simp: flush_and_submit_def collector_flush_def Let_def)

lemma collector_closed: "co_events (fst (collector_step (CiClosed now uuid) st)) = []"
  by (cases st) (auto simp: flush_and_submit_def collector_flush_def Let_def)

text \<open>
  Over a whole run the events the collector received, in order, are those of its requests
  followed by the ones it still holds. Every request has between one event and the configured
  number, and after the channel has ended nothing is left behind.
\<close>

theorem collector_loses_nothing:
  assumes "length (co_events c) < co_max_events c"
  shows "co_events c @ run_events is =
      concat (map rq_events (run_requests is (c, ch))) @ co_events (fst (collector_run is (c, ch))) \<and>
    (\<forall>q \<in> set (run_requests is (c, ch)). length (rq_events q) \<in> {1..co_max_events c}) \<and>
    ((\<exists>now uuid. CiClosed now uuid \<in> set is) \<longrightarrow> co_events (fst (collector_run is (c, ch))) = [])"
  using assms
proof (induction "is" arbitrary: c ch)
  case (Cons i "is")
  obtain c' ch' where st: "collector_step i (c, ch) = (c', ch')" by fastforce
  note step = collector_step_keeps_events [OF Cons.prems, of i ch, unfolded st fst_conv]
  have mx: "co_max_events c' = co_max_events c" using collector_step_max [of i c ch] by (simp add: st)
  have req: "length (rq_events q) \<in> {1..co_max_events c}" if "step_request i c = Some q" for q
    using step that by (cases "rq_events q") auto
  show ?case
  proof (cases "\<exists>now uuid. i = CiClosed now uuid")
    case True
    then obtain now uuid where i: "i = CiClosed now uuid" by blast
    with collector_closed [of now uuid "(c, ch)"] st have "co_events c' = []" by simp
    with step req show ?thesis
      by (simp add: i st [unfolded i] request_events_def del: collector_step.simps split: option.splits)
  next
    case False
    then have other: "(case i of CiClosed _ _ \<Rightarrow> x | _ \<Rightarrow> y) = y" for x y :: 'z
      by (cases i) auto
    have le: "length (co_events c') < co_max_events c'" using step mx by simp
    have "co_events c @ step_event i @ run_events is = request_events (step_request i c) @ co_events c' @ run_events is"
      using step by simp
    moreover have "(\<exists>now uuid. CiClosed now uuid \<in> set (i # is)) \<longleftrightarrow> (\<exists>now uuid. CiClosed now uuid \<in> set is)"
      using False by auto
    ultimately show ?thesis
      using Cons.IH [OF le, of ch'] req
      by (auto simp: other st mx request_events_def Let_def simp del: collector_step.simps split: option.splits)
  qed
qed simp

end
