(* ===== verification/Ai_Samples.thy ===== *)
theory Ai_Samples
  imports Ai_Collector
begin

text \<open>Concrete events, requests and answers, at which the theorems on the analysis are applied.\<close>

definition sample_log :: "string \<Rightarrow> u64 \<Rightarrow> string \<Rightarrow> effect \<Rightarrow> audit_log_entry" where
  "sample_log i t path eff =
     \<lparr>al_ver = ''1.5'', al_id = i, al_log_type = AccessAllowed, al_ts = t, al_host = ''h'', al_epoch = 1,
      al_syscall =
        \<lparr>sy_uid = 0, sy_user = ''root'', sy_pid = 100, sy_action = ''READ'',
         sy_subject = \<lparr>si_path = ''/bin/cat'', si_hash = [], si_applet = None, si_script_path = None,
           si_args = None, si_session_tty = None\<rparr>,
         sy_object = \<lparr>oi_kind = ''file'', oi_path = path, oi_inode = 0, oi_device_id = 0,
           oi_new_path = None, oi_new_inode = None, oi_new_device_id = None\<rparr>\<rparr>,
      al_environment = None,
      al_auth = SlowPath \<lparr>pv_rule_id = ''R'', pv_matched_file = [], pv_mpa_level = 0,
        pv_decision = eff, pv_issued_ticket = None\<rparr> default_mpa_state\<rparr>"

text \<open>One unit of the clock of the log is a millisecond here.\<close>

definition sample_instant :: "u64 \<Rightarrow> instant" where
  "sample_instant t = int (unat t) * 1000000"

definition sample_event :: "string \<Rightarrow> u64 \<Rightarrow> string \<Rightarrow> ai_event" where
  "sample_event i t path = ai_event_from sample_instant (sample_log i t path Allow)"

lemmas sample_event_defs = sample_event_def ai_event_from_def sample_log_def sample_instant_def Let_def

lemma collect_sample_log:
  "collect_ai_event sample_instant (sample_log i t path Allow) = Some (sample_event i t path)"
  "collect_ai_event sample_instant (sample_log i t path Deny) = None"
  by (simp_all add: collect_ai_event_def is_target_for_ai_def sample_event_def sample_log_def
      mgmt_actions_def Let_def)

lemma sample_can_merge:
  "can_merge default_aggregator_config (block_new (sample_event ''e1'' 1 p)) (sample_event ''e2'' 5 q)"
  by (simp add: can_merge_def default_aggregator_config_def same_subject_def block_new_def
      args_compatible_def from_raw_args_def sample_event_defs num_milliseconds_def unsigned_minus_1_eq_mask
      mask_eq_exp_minus_1 word_le_nat_alt)

text \<open>Two reads below one directory become one aggregated event.\<close>

lemma sample_aggregation:
  "\<exists>r. aggregate_events ''A'' [sample_event ''e1'' 1 ''/data/a'', sample_event ''e2'' 5 ''/data/b'']
     default_aggregator_config = Some r \<and> map ag_evidence_event_ids (ar_events r) = [[''e1'', ''e2'']] \<and>
     map ag_target_base_path (ar_events r) = [''/data/'']"
proof -
  let ?e1 = "sample_event ''e1'' 1 ''/data/a''" and ?e2 = "sample_event ''e2'' 5 ''/data/b''"
  have "common_base_path [''/data/a'', ''/data/b''] = Some ''/data/''"
    unfolding common_base_path_def list.case base_path_loop_full by (simp add: dir_of_def)
  then show ?thesis
    using sample_can_merge [of "''/data/a''" "''/data/b''"]
    by (simp add: aggregate_events_def emit_block_def block_finish_def block_merge_evidence)
      (simp add: sample_event_defs)
qed


text \<open>Two reads in different directories are never analysed.\<close>

lemma aggregation_hangs_witness:
  "aggregate_events ''A'' [sample_event ''e1'' 1 ''/data/docs/a'', sample_event ''e2'' 5 ''/data/other/b'']
     default_aggregator_config = None"
  by (rule aggregation_hangs [OF sample_can_merge])
    (simp_all add: sample_event_defs dir_of_def)

section \<open>An accepted analysis\<close>

definition sample_logs :: "audit_log_entry list" where
  "sample_logs = [sample_log ''e1'' 1 ''/data/a'' Allow, sample_log ''e3'' 2 ''/data/c'' Deny]"

definition sample_request :: ai_analysis_request where
  "sample_request =
     \<lparr>rq_analysis_id = ''A'', rq_host = ''h'', rq_window_start = 0, rq_window_end = 9,
      rq_events = List.map_filter (collect_ai_event sample_instant) sample_logs\<rparr>"

definition sample_anomaly :: ai_anomaly where
  "sample_anomaly =
     \<lparr>an_severity = SevLow, an_attack_type = None, an_summary = ''s'', an_explanation = ''x'',
      an_evidence_event_ids = [''e1''], an_confidence_score = Finite (1 / 2)\<rparr>"

definition sample_provider :: provider where
  "sample_provider pq = Inr \<lparr>rs_analysis_id = pq_analysis_id pq, rs_anomalies = [sample_anomaly]\<rparr>"

lemma sample_request_events: "rq_events sample_request = [sample_event ''e1'' 1 ''/data/a'']"
  by (simp add: sample_request_def sample_logs_def map_filter_def collect_sample_log)

lemma sample_analysis:
  "\<exists>out. analyze_with_provenance default_aggregator_config sample_provider sample_request = Some (Inr out) \<and>
     rs_anomalies (ou_result out) = [sample_anomaly]"
proof -
  let ?e = "sample_event ''e1'' 1 ''/data/a''"
  have t: "rust_trim ''A'' = ''A''" "rust_trim ''h'' = ''h''" "rust_trim ''e1'' = ''e1''"
    by (simp_all add: rust_trim_plain plain_byte_def byte_def)
  have id: "ae_event_id ?e = ''e1''" by (simp add: sample_event_defs)
  have v: "validate_request sample_request = Inr ()"
    using sample_request_events by (simp add: validate_request_def sample_request_def t id)
  have s: "sort_events [?e] = [?e]" by (simp add: sort_events_def)
  have "\<exists>r. aggregate_events ''A'' [?e] default_aggregator_config = Some r \<and>
      map ag_evidence_event_ids (ar_events r) = [[''e1'']]"
    by (simp add: aggregate_events_def emit_block_def block_finish_def common_base_path_def id)
  then obtain r where r: "aggregate_events ''A'' [?e] default_aggregator_config = Some r"
    "map ag_evidence_event_ids (ar_events r) = [[''e1'']]" by (elim exE conjE)
  let ?q = "\<lparr>rq_analysis_id = ''A'', rq_host = ''h'', rq_window_start = 0, rq_window_end = 9,
      rq_events = [?e]\<rparr> :: ai_analysis_request"
  have q: "sample_request = ?q" using sample_request_events by (simp add: sample_request_def)
  have "validate_result ?q (provider_request_of ?q (ar_events r))
      \<lparr>rs_analysis_id = ''A'', rs_anomalies = [sample_anomaly]\<rparr> = Inr ()"
    by (simp add: validate_result_def provider_request_of_def check_anomaly_def sample_anomaly_def r(2)
        hs_of_list_def)
  then show ?thesis
    using v r(1) by (simp add: q analyze_with_provenance_def s sample_provider_def provider_request_of_def)
qed

lemma evidence_from_permitted_accesses_witness:
  "\<exists>e \<in> set sample_logs. al_id e = ''e1'' \<and>
     (entry_decision e = Some Allow \<or> entry_decision e = Some AuditOnly)"
proof -
  obtain out where out: "analyze_with_provenance default_aggregator_config sample_provider sample_request = Some (Inr out)"
    "rs_anomalies (ou_result out) = [sample_anomaly]" using sample_analysis by blast
  have "sample_anomaly \<in> set (rs_anomalies (ou_result out))" by (simp add: out(2))
  from evidence_from_permitted_accesses [OF out(1) this, of sample_instant sample_logs]
  show ?thesis by (simp add: sample_request_def sample_anomaly_def)
qed

section \<open>A run of the collector\<close>

definition sample_inputs :: "collector_input list" where
  "sample_inputs =
     [CiEvent (sample_event ''e1'' 1 ''/a'') 1 ''u1'', CiEvent (sample_event ''e2'' 2 ''/b'') 2 ''u2'',
      CiTaken, CiEvent (sample_event ''e3'' 3 ''/c'') 3 ''u3'', CiTick 4 ''u4'', CiClosed 5 ''u5'']"

definition sample_channel :: analysis_channel where
  "sample_channel = \<lparr>ch_queue = [], ch_capacity = 1, ch_closed = False, ch_batches_dropped = 0\<rparr>"

lemma collector_loses_nothing_witness:
  "run_events sample_inputs =
     concat (map rq_events (run_requests sample_inputs (new_collector ''h'' 2 0, sample_channel))) @
     co_events (fst (collector_run sample_inputs (new_collector ''h'' 2 0, sample_channel))) \<and>
   map (map ae_event_id \<circ> rq_events) (run_requests sample_inputs (new_collector ''h'' 2 0, sample_channel)) =
     [[''e1'', ''e2''], [''e3'']]"
proof
  show "run_events sample_inputs =
      concat (map rq_events (run_requests sample_inputs (new_collector ''h'' 2 0, sample_channel))) @
      co_events (fst (collector_run sample_inputs (new_collector ''h'' 2 0, sample_channel)))"
    using conjunct1 [OF collector_loses_nothing [of "new_collector ''h'' 2 0" sample_inputs sample_channel]]
    by (simp add: new_collector_def)
qed (simp add: sample_inputs_def new_collector_def sample_channel_def step_request_def collector_flush_def
    flush_and_submit_def submit_def sample_event_defs)

end
