(* ===== verification/Evidence_Store.thy ===== *)
theory Evidence_Store
  imports Ai_Collector
begin

text \<open>
  \<open>teald/src/evidence/storage.rs\<close> and the writer tasks of \<open>evidence/mod.rs\<close>. Parameters are the
  pieces in which the JSON serialiser hands an entry to the writer and what the operating system
  does: how many bytes each write takes or that it fails, whether opening and synchronising work,
  and when the log file is renamed away by the rotation.
\<close>

section \<open>The file and its buffered writer\<close>

text \<open>
  An outcome of \<open>write\<close> on the file: \<open>Some n\<close> takes at most \<open>n\<close> bytes, \<open>None\<close> is an error. Beyond
  the end of the list every write takes everything.
\<close>

type_synonym write_outcomes = "nat option list"

record log_store =
  ls_open :: bool
  ls_buf :: string
  ls_files :: "string list"
  ls_renamed :: bool
  ls_os :: write_outcomes

text \<open>The files the log went to, the current one last; \<open>ls_renamed\<close>: the current one has been moved away.\<close>

definition cur_file :: "log_store \<Rightarrow> string" where
  "cur_file s = (if ls_files s = [] then [] else last (ls_files s))"

definition append_file :: "string \<Rightarrow> log_store \<Rightarrow> log_store" where
  "append_file w s = s\<lparr>ls_files := (if ls_files s = [] then [w] else butlast (ls_files s) @ [last (ls_files s) @ w])\<rparr>"

text \<open>
  The loop of \<open>flush_buf\<close> and of \<open>write_all\<close>: the bytes written, the rest, success, and the
  outcomes left. A write that takes nothing is an error.
\<close>

fun write_loop :: "write_outcomes \<Rightarrow> string \<Rightarrow> string \<times> string \<times> bool \<times> write_outcomes" where
  "write_loop os [] = ([], [], True, os)"
| "write_loop [] bs = (bs, [], True, [])"
| "write_loop (None # os) bs = ([], bs, False, os)"
| "write_loop (Some n # os) (b # bs) =
     (if n = 0 then ([], b # bs, False, os)
      else (case write_loop os (drop n (b # bs)) of
              (w, r, ok, os') \<Rightarrow> (take n (b # bs) @ w, r, ok, os')))"

definition flush_buf :: "log_store \<Rightarrow> bool \<times> log_store" where
  "flush_buf s =
     (case write_loop (ls_os s) (ls_buf s) of
        (w, r, ok, os) \<Rightarrow> (ok, (append_file w s)\<lparr>ls_buf := r, ls_os := os\<rparr>))"

definition buf_capacity :: nat where
  "buf_capacity = 8192"

definition buf_write_all :: "string \<Rightarrow> log_store \<Rightarrow> bool \<times> log_store" where
  "buf_write_all p s =
     (let spare = buf_capacity - length (ls_buf s)
      in if length p < spare then (True, s\<lparr>ls_buf := ls_buf s @ p\<rparr>)
         else
           (case (if spare < length p then flush_buf s else (True, s)) of
              (False, s') \<Rightarrow> (False, s')
            | (True, s') \<Rightarrow>
                (if buf_capacity \<le> length p then
                   (case write_loop (ls_os s') p of
                      (w, r, ok, os) \<Rightarrow> (ok, (append_file w s')\<lparr>ls_os := os\<rparr>))
                 else (True, s'\<lparr>ls_buf := ls_buf s' @ p\<rparr>))))"

section \<open>storage.rs\<close>

text \<open>\<open>OpenOptions\<close> with create and append: a file moved away is followed by a new one.\<close>

definition open_log :: "log_store \<Rightarrow> log_store" where
  "open_log s =
     (if ls_renamed s \<or> ls_files s = [] then s\<lparr>ls_files := ls_files s @ [[]], ls_renamed := False\<rparr> else s)"

definition get_writer_mut :: "bool \<Rightarrow> log_store \<Rightarrow> bool \<times> log_store" where
  "get_writer_mut can_open s =
     (if ls_open s then (True, s)
      else if can_open then (True, (open_log s)\<lparr>ls_open := True, ls_buf := []\<rparr>)
      else (False, s))"

fun write_pieces :: "string list \<Rightarrow> log_store \<Rightarrow> bool \<times> log_store" where
  "write_pieces [] s = (True, s)"
| "write_pieces (p # ps) s =
     (case buf_write_all p s of (False, s') \<Rightarrow> (False, s') | (True, s') \<Rightarrow> write_pieces ps s')"

definition newline :: string where
  "newline = [CHR 0x0A]"

definition write_log :: "bool \<Rightarrow> string list \<Rightarrow> log_store \<Rightarrow> bool \<times> log_store" where
  "write_log can_open pieces s =
     (case get_writer_mut can_open s of
        (False, s') \<Rightarrow> (False, s')
      | (True, s') \<Rightarrow> write_pieces (pieces @ [newline]) s')"

definition force_flush :: "bool \<Rightarrow> bool \<Rightarrow> log_store \<Rightarrow> bool \<times> log_store" where
  "force_flush can_open sync_ok s =
     (case get_writer_mut can_open s of
        (False, s') \<Rightarrow> (False, s')
      | (True, s') \<Rightarrow> (case flush_buf s' of (ok, s2) \<Rightarrow> (ok \<and> sync_ok, s2)))"

definition reopen_log :: "bool \<Rightarrow> bool \<Rightarrow> log_store \<Rightarrow> bool \<times> log_store" where
  "reopen_log can_open can_reopen s =
     (case get_writer_mut can_open s of
        (False, s') \<Rightarrow> (False, s')
      | (True, s') \<Rightarrow>
          (case flush_buf s' of
             (False, s2) \<Rightarrow> (False, s2)
           | (True, s2) \<Rightarrow> (if can_reopen then (True, (open_log s2)\<lparr>ls_buf := []\<rparr>) else (False, s2))))"

section \<open>The tasks\<close>

text \<open>
  One step of the three tasks, which the lock of the writer serialises, or of the rotation.
\<close>

datatype log_event =
    LogEntry bool audit_log_entry
  | LogFlush bool bool
  | LogHup bool bool
  | LogRotate

record log_writer =
  lw_store :: log_store
  lw_ai :: "event_channel option"
  lw_errors :: nat

definition log_step ::
  "(audit_log_entry \<Rightarrow> string list) \<Rightarrow> (u64 \<Rightarrow> instant) \<Rightarrow> log_event \<Rightarrow> log_writer \<Rightarrow> log_writer" where
  "log_step json inst ev lw =
     (case ev of
        LogEntry can_open entry \<Rightarrow>
          (case write_log can_open (json entry) (lw_store lw) of
             (False, s) \<Rightarrow> lw\<lparr>lw_store := s, lw_errors := lw_errors lw + 1\<rparr>
           | (True, s) \<Rightarrow> lw\<lparr>lw_store := s, lw_ai := deliver_to_ai inst entry (lw_ai lw)\<rparr>)
      | LogFlush can_open sync_ok \<Rightarrow>
          (case force_flush can_open sync_ok (lw_store lw) of
             (ok, s) \<Rightarrow> lw\<lparr>lw_store := s, lw_errors := lw_errors lw + (if ok then 0 else 1)\<rparr>)
      | LogHup can_open can_reopen \<Rightarrow>
          (case reopen_log can_open can_reopen (lw_store lw) of
             (ok, s) \<Rightarrow> lw\<lparr>lw_store := s, lw_errors := lw_errors lw + (if ok then 0 else 1)\<rparr>)
      | LogRotate \<Rightarrow> lw\<lparr>lw_store := (lw_store lw)\<lparr>ls_renamed := True\<rparr>\<rparr>)"

definition log_tasks ::
  "(audit_log_entry \<Rightarrow> string list) \<Rightarrow> (u64 \<Rightarrow> instant) \<Rightarrow> log_event list \<Rightarrow> log_writer \<Rightarrow> log_writer" where
  "log_tasks json inst evs lw = fold (log_step json inst) evs lw"

section \<open>What the log holds\<close>

definition log_bytes :: "log_store \<Rightarrow> string" where
  "log_bytes s = concat (ls_files s) @ ls_buf s"

definition store_wf :: "log_store \<Rightarrow> bool" where
  "store_wf s \<longleftrightarrow> (ls_open s \<longrightarrow> ls_files s \<noteq> []) \<and> (\<not> ls_open s \<longrightarrow> ls_buf s = []) \<and>
     length (ls_buf s) \<le> buf_capacity"

lemma concat_append_file [simp]: "concat (ls_files (append_file w s)) = concat (ls_files s) @ w"
  by (cases "ls_files s" rule: rev_cases) (simp_all add: append_file_def)

lemma append_file_simps [simp]:
  "ls_buf (append_file w s) = ls_buf s" "ls_open (append_file w s) = ls_open s"
  "ls_os (append_file w s) = ls_os s" "ls_files (append_file w s) \<noteq> []"
  by (simp_all add: append_file_def)

lemma write_loop_parts:
  "write_loop os bs = (w, r, ok, os') \<Longrightarrow> w @ r = bs \<and> (ok \<longleftrightarrow> r = [])"
proof (induction os bs arbitrary: w r ok os' rule: write_loop.induct)
  case (4 n os b bs)
  show ?case
  proof (cases "n = 0")
    case False
    obtain w1 r1 ok1 os1 where l: "write_loop os (drop n (b # bs)) = (w1, r1, ok1, os1)"
      by (metis prod_cases4)
    from 4(1) [OF False l] have "w1 @ r1 = drop n (b # bs)" "ok1 = (r1 = [])" by simp_all
    moreover from 4(2) False l have "w = take n (b # bs) @ w1" "r = r1" "ok = ok1" by simp_all
    ultimately show ?thesis by (metis append.assoc append_take_drop_id)
  qed (use 4(2) in auto)
qed auto

text \<open>What every operation on an open writer does to the log: it appends a prefix of its text.\<close>

definition appends :: "bool \<Rightarrow> string \<Rightarrow> log_store \<Rightarrow> log_store \<Rightarrow> bool" where
  "appends ok txt s t \<longleftrightarrow>
     (\<exists>w. log_bytes t = log_bytes s @ w \<and> prefix w txt \<and> (ok \<longrightarrow> w = txt)) \<and> store_wf t \<and> ls_open t"

lemma flush_buf_keeps:
  assumes "flush_buf s = (ok, t)" and "store_wf s" and "ls_open s"
  shows "log_bytes t = log_bytes s" "store_wf t" "ls_open t" "ok \<longleftrightarrow> ls_buf t = []"
proof -
  obtain w r ok' os where l: "write_loop (ls_os s) (ls_buf s) = (w, r, ok', os)"
    by (metis prod_cases4)
  note parts = write_loop_parts [OF l]
  then have "length r \<le> length (ls_buf s)" by (metis length_append le_add2)
  with assms l parts show "log_bytes t = log_bytes s" "store_wf t" "ls_open t" "ok \<longleftrightarrow> ls_buf t = []"
    by (auto simp: flush_buf_def log_bytes_def store_wf_def)
qed

lemma flush_step_keeps:
  assumes "(if b then flush_buf s else (True, s)) = (ok, t)" and "store_wf s" and "ls_open s"
  shows "log_bytes t = log_bytes s" "store_wf t" "ls_open t"
  using assms flush_buf_keeps [of s ok t] by (auto split: if_splits)

lemma buf_write_all_appends:
  assumes run: "buf_write_all p s = (ok, t)" and wf: "store_wf s" "ls_open s"
  shows "appends ok p s t"
proof (cases "length p < buf_capacity - length (ls_buf s)")
  case True
  with run wf show ?thesis
    by (auto simp: buf_write_all_def appends_def log_bytes_def store_wf_def)
next
  case False
  define b where "b = (buf_capacity - length (ls_buf s) < length p)"
  obtain fl s' where f: "(if b then flush_buf s else (True, s)) = (fl, s')" by fastforce
  note keep = flush_step_keeps [OF f wf]
  show ?thesis
  proof (cases fl)
    case bad: False
    with run False f have "ok = False" "t = s'" by (simp_all add: buf_write_all_def b_def)
    with keep show ?thesis by (simp add: appends_def)
  next
    case good: True
    then have space: "length p < buf_capacity \<Longrightarrow> length (ls_buf s' @ p) \<le> buf_capacity"
      using f wf False flush_buf_keeps(4) [of s True s']
      by (auto simp: b_def store_wf_def split: if_splits)
    show ?thesis
    proof (cases "buf_capacity \<le> length p")
      case True
      obtain w r ok' os where l: "write_loop (ls_os s') p = (w, r, ok', os)" by (metis prod_cases4)
      have "ls_buf s' = []"
      proof (cases b)
        case True
        then show ?thesis using f good wf flush_buf_keeps(4) [of s True s'] by simp
      next
        case b: False
        with True have "buf_capacity \<le> buf_capacity - length (ls_buf s)" by (simp add: b_def)
        then have "length (ls_buf s) = 0" unfolding buf_capacity_def by linarith
        with b f show ?thesis by simp
      qed
      with run False f good True l keep write_loop_parts [OF l] show ?thesis
        by (auto simp: buf_write_all_def b_def appends_def log_bytes_def store_wf_def)
    next
      case small: False
      with run False f good have "ok = True" "t = s'\<lparr>ls_buf := ls_buf s' @ p\<rparr>"
        by (simp_all add: buf_write_all_def b_def)
      with keep space small show ?thesis
        by (auto simp: appends_def log_bytes_def store_wf_def)
    qed
  qed
qed

lemma appends_then:
  "appends True p s t \<Longrightarrow> appends ok q t u \<Longrightarrow> appends ok (p @ q) s u"
  by (auto simp: appends_def)

lemma appends_weaken: "appends False p s t \<Longrightarrow> appends False (p @ q) s t"
  by (auto simp: appends_def)

lemma write_pieces_appends:
  "write_pieces ps s = (ok, t) \<Longrightarrow> store_wf s \<Longrightarrow> ls_open s \<Longrightarrow> appends ok (concat ps) s t"
proof (induction ps arbitrary: s)
  case Nil
  then show ?case by (simp add: appends_def)
next
  case (Cons p ps)
  obtain ok1 s1 where 1: "buf_write_all p s = (ok1, s1)" by fastforce
  note a = buf_write_all_appends [OF 1 Cons.prems(2,3)]
  show ?case
  proof (cases ok1)
    case True
    with 1 Cons.prems(1) have "write_pieces ps s1 = (ok, t)" by simp
    from Cons.IH [OF this] a have "appends ok (concat ps) s1 t" by (simp add: appends_def)
    with a True show ?thesis using appends_then [of p s s1 ok "concat ps" t] by simp
  next
    case False
    with 1 a Cons.prems(1) show ?thesis using appends_weaken [of p s s1 "concat ps"] by simp
  qed
qed

lemma get_writer_keeps:
  assumes "get_writer_mut c s = (ok, t)" and "store_wf s"
  shows "log_bytes t = log_bytes s" "store_wf t" "ok \<Longrightarrow> ls_open t"
  using assms
  by (auto simp: get_writer_mut_def open_log_def log_bytes_def store_wf_def split: if_splits)

lemma write_log_appends:
  assumes run: "write_log c ps s = (ok, t)" and wf: "store_wf s"
  shows "\<exists>w. log_bytes t = log_bytes s @ w \<and> prefix w (concat ps @ newline) \<and>
    (ok \<longrightarrow> w = concat ps @ newline) \<and> store_wf t"
proof -
  obtain ok1 s1 where 1: "get_writer_mut c s = (ok1, s1)" by fastforce
  note keep = get_writer_keeps [OF 1 wf]
  show ?thesis
  proof (cases ok1)
    case True
    with run 1 have "write_pieces (ps @ [newline]) s1 = (ok, t)" by (simp add: write_log_def)
    from write_pieces_appends [OF this] keep True show ?thesis by (auto simp: appends_def)
  next
    case False
    with run 1 keep show ?thesis by (auto simp: write_log_def)
  qed
qed

lemma force_flush_keeps:
  assumes run: "force_flush c y s = (ok, t)" and wf: "store_wf s"
  shows "log_bytes t = log_bytes s" "store_wf t" "ok \<Longrightarrow> ls_buf t = []"
proof -
  obtain ok1 s1 where 1: "get_writer_mut c s = (ok1, s1)" by fastforce
  obtain ok2 s2 where 2: "flush_buf s1 = (ok2, s2)" by fastforce
  note keep = get_writer_keeps [OF 1 wf]
  show "log_bytes t = log_bytes s" "store_wf t" "ok \<Longrightarrow> ls_buf t = []"
    using run 1 2 keep flush_buf_keeps [OF 2] by (cases ok1; auto simp: force_flush_def)+
qed

lemma reopen_log_keeps:
  assumes run: "reopen_log c r s = (ok, t)" and wf: "store_wf s"
  shows "log_bytes t = log_bytes s" "store_wf t" "ok \<Longrightarrow> ls_buf t = [] \<and> \<not> ls_renamed t"
proof -
  obtain ok1 s1 where 1: "get_writer_mut c s = (ok1, s1)" by fastforce
  obtain ok2 s2 where 2: "flush_buf s1 = (ok2, s2)" by fastforce
  note keep = get_writer_keeps [OF 1 wf]
  show "log_bytes t = log_bytes s" "store_wf t" "ok \<Longrightarrow> ls_buf t = [] \<and> \<not> ls_renamed t"
    using run 1 2 keep flush_buf_keeps [OF 2]
    by (cases ok1; cases ok2; auto simp: reopen_log_def open_log_def log_bytes_def store_wf_def
        split: if_splits)+
qed

section \<open>Nothing is lost and everything is in order\<close>

definition json_line :: "(audit_log_entry \<Rightarrow> string list) \<Rightarrow> audit_log_entry \<Rightarrow> string" where
  "json_line json e = concat (json e) @ newline"

definition entries_of :: "log_event list \<Rightarrow> audit_log_entry list" where
  "entries_of evs = List.map_filter (\<lambda>ev. case ev of LogEntry _ e \<Rightarrow> Some e | _ \<Rightarrow> None) evs"

lemma entries_of_Cons [simp]:
  "entries_of [] = []"
  "entries_of (ev # evs) = (case ev of LogEntry _ e \<Rightarrow> e # entries_of evs | _ \<Rightarrow> entries_of evs)"
  by (simp_all add: entries_of_def map_filter_simps split: log_event.splits)

text \<open>The texts of the entries, how many of them are not complete, and the errors reported.\<close>

definition logged ::
  "(audit_log_entry \<Rightarrow> string list) \<Rightarrow> audit_log_entry list \<Rightarrow> string list \<Rightarrow> nat \<Rightarrow> bool" where
  "logged json es ws errs \<longleftrightarrow>
     list_all2 (\<lambda>e w. prefix w (json_line json e)) es ws \<and>
     length (filter (\<lambda>(e, w). w \<noteq> json_line json e) (zip es ws)) \<le> errs"

lemma logged_Cons:
  "prefix w (json_line json e) \<Longrightarrow> (w = json_line json e \<or> 0 < k) \<Longrightarrow> logged json es ws n \<Longrightarrow>
   logged json (e # es) (w # ws) (n + k)"
  by (auto simp: logged_def)

lemma logged_mono: "logged json es ws n \<Longrightarrow> n \<le> m \<Longrightarrow> logged json es ws m"
  by (auto simp: logged_def)

lemma log_step_logged:
  assumes "store_wf (lw_store lw)"
  shows "\<exists>ws k. log_bytes (lw_store (log_step json inst ev lw)) = log_bytes (lw_store lw) @ concat ws \<and>
     logged json (entries_of [ev]) ws k \<and> lw_errors (log_step json inst ev lw) = lw_errors lw + k \<and>
     store_wf (lw_store (log_step json inst ev lw))"
proof (cases ev)
  case (LogEntry c e)
  obtain ok t where w: "write_log c (json e) (lw_store lw) = (ok, t)" by fastforce
  from write_log_appends [OF w assms] obtain w' where
    "log_bytes t = log_bytes (lw_store lw) @ w'" "prefix w' (json_line json e)"
    "ok \<longrightarrow> w' = json_line json e" "store_wf t" by (auto simp: json_line_def)
  with LogEntry w show ?thesis
    by (intro exI [of _ "[w']"] exI [of _ "if ok then 0 else 1"])
       (auto simp: log_step_def logged_def split: bool.splits)
next
  case (LogFlush c y)
  obtain ok t where w: "force_flush c y (lw_store lw) = (ok, t)" by fastforce
  with LogFlush force_flush_keeps [OF w assms] show ?thesis
    by (intro exI [of _ "[]"] exI [of _ "if ok then 0 else 1"]) (simp add: log_step_def logged_def)
next
  case (LogHup c r)
  obtain ok t where w: "reopen_log c r (lw_store lw) = (ok, t)" by fastforce
  with LogHup reopen_log_keeps [OF w assms] show ?thesis
    by (intro exI [of _ "[]"] exI [of _ "if ok then 0 else 1"]) (simp add: log_step_def logged_def)
next
  case LogRotate
  with assms show ?thesis
    by (intro exI [of _ "[]"] exI [of _ 0])
       (simp add: log_step_def logged_def log_bytes_def store_wf_def)
qed

lemma logged_append:
  "logged json es ws n \<Longrightarrow> logged json es' ws' m \<Longrightarrow> logged json (es @ es') (ws @ ws') (n + m)"
  by (auto simp: logged_def zip_append list_all2_lengthD intro: list_all2_appendI)

lemma entries_of_append: "entries_of (ev # evs) = entries_of [ev] @ entries_of evs"
  by (simp split: log_event.splits)

declare entries_of_Cons(2) [simp del]

text \<open>
  C13. Whatever the operating system answers to writes, opens and syncs, and however rotation,
  flushing and reopening fall between the entries: the bytes of all log files in their order,
  followed by the buffer, are those from before followed by one piece for each entry in the order
  in which the entries arrived; each piece is the line of its entry or a beginning of it, and there
  are at most as many incomplete pieces as errors reported. The buffer never outgrows its capacity.
\<close>

theorem log_keeps_every_entry:
  assumes "store_wf (lw_store lw)"
  shows "\<exists>ws k. log_bytes (lw_store (log_tasks json inst evs lw)) = log_bytes (lw_store lw) @ concat ws \<and>
     logged json (entries_of evs) ws k \<and> lw_errors (log_tasks json inst evs lw) = lw_errors lw + k \<and>
     store_wf (lw_store (log_tasks json inst evs lw))"
  using assms
proof (induction evs arbitrary: lw)
  case Nil
  then show ?case by (intro exI [of _ "[]"] exI [of _ 0]) (simp add: log_tasks_def logged_def)
next
  case (Cons ev evs)
  obtain ws k where 1: "log_bytes (lw_store (log_step json inst ev lw)) = log_bytes (lw_store lw) @ concat ws"
    "logged json (entries_of [ev]) ws k" "lw_errors (log_step json inst ev lw) = lw_errors lw + k"
    "store_wf (lw_store (log_step json inst ev lw))"
    using log_step_logged [OF Cons.prems] by blast
  obtain ws' k' where 2: "log_bytes (lw_store (log_tasks json inst evs (log_step json inst ev lw))) =
      log_bytes (lw_store (log_step json inst ev lw)) @ concat ws'"
    "logged json (entries_of evs) ws' k'"
    "lw_errors (log_tasks json inst evs (log_step json inst ev lw)) =
      lw_errors (log_step json inst ev lw) + k'"
    "store_wf (lw_store (log_tasks json inst evs (log_step json inst ev lw)))"
    using Cons.IH [OF 1(4)] by blast
  show ?case
    using 1 2 logged_append [OF 1(2) 2(2)]
    by (intro exI [of _ "ws @ ws'"] exI [of _ "k + k'"])
       (simp add: log_tasks_def entries_of_append [of ev evs])
qed

text \<open>A writer that has not been used, over an empty file.\<close>

definition fresh_writer :: "write_outcomes \<Rightarrow> log_writer" where
  "fresh_writer os =
     \<lparr>lw_store = \<lparr>ls_open = False, ls_buf = [], ls_files = [], ls_renamed = False, ls_os = os\<rparr>,
      lw_ai = None, lw_errors = 0\<rparr>"

lemma log_keeps_every_entry_witness:
  "\<forall>json inst evs os. \<exists>ws k.
     log_bytes (lw_store (log_tasks json inst evs (fresh_writer os))) = concat ws \<and>
     logged json (entries_of evs) ws k \<and> lw_errors (log_tasks json inst evs (fresh_writer os)) = k"
proof (intro allI)
  fix json inst evs os
  have "store_wf (lw_store (fresh_writer os))"
    by (simp add: store_wf_def fresh_writer_def)
  from log_keeps_every_entry [OF this, of json inst evs]
  show "\<exists>ws k. log_bytes (lw_store (log_tasks json inst evs (fresh_writer os))) = concat ws \<and>
     logged json (entries_of evs) ws k \<and> lw_errors (log_tasks json inst evs (fresh_writer os)) = k"
    by (auto simp: fresh_writer_def log_bytes_def)
qed

text \<open>
  A write that fails in the middle of an entry leaves its beginning in the buffer. Nothing removes
  it, so the next entry is written behind it on the same line, and neither can be read.
\<close>

theorem failed_write_joins_lines:
  "\<exists>s1 s2. write_log True [''{'', replicate 8192 (CHR ''x'')] (lw_store (fresh_writer [None])) = (False, s1) \<and>
     write_log True [''{b}''] s1 = (True, s2) \<and> log_bytes s2 = ''{{b}'' @ newline"
  by (simp add: write_log_def get_writer_mut_def fresh_writer_def open_log_def buf_write_all_def
      buf_capacity_def flush_buf_def append_file_def log_bytes_def newline_def)

end
