(* ===== verification/Verify_Ast.thy ===== *)
theory Verify_Ast
  imports Compile_Policy
begin

text \<open>
  \<open>teal-cli/src/verify/ast.rs\<close>: from a raw policy and the goals of a verification to the
  intermediate model that is translated to Alloy. Sets of entities and of paths are lists in
  some order.
\<close>

section \<open>Goals and the intermediate model\<close>

record verify_goal =
  vg_name :: string
  vg_target :: string
  vg_new_target :: "string option"
  vg_action :: "string list"
  vg_expected_effect :: string
  vg_role_set :: "string list option"
  vg_user :: "string option"
  vg_uid :: "u32 option"
  vg_program :: "string option"
  vg_script :: "string option"
  vg_applet :: "string option"

datatype entity_category =
    EcUser | EcUid | EcRole | EcProgram | EcScript | EcApplet | EcResourcePath | EcOperation

record ir_entity =
  en_name :: string
  en_category :: entity_category

datatype ir_term =
    IrMatch string string
  | IrIn string "string list"

datatype ir_expr =
    IrAnd "ir_expr list"
  | IrOr "ir_expr list"
  | IrEq string string
  | IrTerm ir_term

datatype ir_assertion =
    AssertDeny (as_name: string) (as_condition: ir_expr)
  | AssertNeedApprovalBypass (as_name: string) (as_condition: ir_expr)
  | AssertAllow (as_name: string) (as_condition: ir_expr)

record ir_rule =
  ir_id :: string
  ir_effect :: effect
  ir_condition :: ir_expr

record teal_ir_model =
  tm_name :: string
  tm_entities :: "ir_entity hset"
  tm_rules :: "ir_rule list"
  tm_assertions :: "ir_assertion list"
  tm_managed_paths :: "string hset"

section \<open>Entities\<close>

definition ent :: "entity_category \<Rightarrow> string \<Rightarrow> ir_entity" where
  "ent c n = \<lparr>en_name = n, en_category = c\<rparr>"

definition opt_items :: "'a option \<Rightarrow> 'a list" where
  "opt_items x = (case x of None \<Rightarrow> [] | Some v \<Rightarrow> [v])"

lemma set_opt_items [simp]: "set (opt_items x) = set_option x"
  by (cases x) (simp_all add: opt_items_def)

text \<open>The entities a rule inserts, in the order of the code.\<close>

definition extract_entity :: "raw_rule \<Rightarrow> ir_entity hset \<Rightarrow> ir_entity hset" where
  "extract_entity r es =
     (let s = rr_subject r
      in hs_extend es
        (map (ent EcUser) (opt_items (rsu_user s)) @
         map (ent EcUid \<circ> show_u32) (opt_items (rsu_uid s)) @
         map (ent EcRole) (rsu_roles s) @
         map (ent EcProgram) (opt_items (rsu_origin_program s)) @
         map (ent EcScript) (opt_items (rsu_origin_script s)) @
         map (ent EcApplet) (opt_items (rsu_origin_applet s)) @
         concat (map (\<lambda>ob. ent EcResourcePath (rob_path ob) #
             map (ent EcResourcePath) (opt_items (rob_new_path ob))) (opt_items (rr_object r))) @
         map (ent EcOperation \<circ> action_display) (rac_ops (rr_action r))))"

section \<open>Conditions\<close>

definition process_matchable_attr :: "string \<Rightarrow> string \<Rightarrow> ir_expr" where
  "process_matchable_attr attr val =
     (if prefix ''glob:'' val \<or> prefix ''prefix:'' val \<or> CHR ''*'' \<in> set val
      then IrTerm (IrMatch attr val) else IrEq attr val)"

definition extract_condition :: "raw_rule \<Rightarrow> ir_expr" where
  "extract_condition r =
     (let s = rr_subject r
      in IrAnd
        (map (IrEq ''subject.user'') (opt_items (rsu_user s)) @
         map (IrEq ''subject.uid'' \<circ> show_u32) (opt_items (rsu_uid s)) @
         (if rsu_roles s \<noteq> [] then [IrTerm (IrIn ''subject.role'' (rsu_roles s))] else []) @
         map (process_matchable_attr ''subject.origin_program'') (opt_items (rsu_origin_program s)) @
         map (process_matchable_attr ''subject.origin_script'') (opt_items (rsu_origin_script s)) @
         map (process_matchable_attr ''subject.origin_applet'') (opt_items (rsu_origin_applet s)) @
         (case rr_object r of
            None \<Rightarrow> []
          | Some ob \<Rightarrow> process_matchable_attr ''object.path'' (rob_path ob) #
              map (process_matchable_attr ''object.new_path'') (opt_items (rob_new_path ob))) @
         (if rac_ops (rr_action r) \<noteq> []
          then [IrOr (map (process_matchable_attr ''action.op'' \<circ> action_display) (rac_ops (rr_action r)))]
          else [])))"

section \<open>Assertions\<close>

definition build_condition :: "verify_goal \<Rightarrow> ir_expr" where
  "build_condition g = IrAnd
     (process_matchable_attr ''object.path'' (vg_target g) #
      map (process_matchable_attr ''object.new_path'') (opt_items (vg_new_target g)) @
      (if vg_action g \<noteq> [] then [IrTerm (IrIn ''action.op'' (vg_action g))] else []) @
      (case vg_role_set g of
         Some roles \<Rightarrow> (if roles \<noteq> [] then [IrTerm (IrIn ''subject.role'' roles)] else [])
       | None \<Rightarrow> []) @
      map (IrEq ''subject.user'') (opt_items (vg_user g)) @
      map (IrEq ''subject.uid'' \<circ> show_u32) (opt_items (vg_uid g)) @
      map (process_matchable_attr ''subject.origin_program'') (opt_items (vg_program g)) @
      map (IrEq ''subject.origin_script'') (opt_items (vg_script g)) @
      map (IrEq ''subject.origin_applet'') (opt_items (vg_applet g)))"

definition build_assertion :: "verify_goal \<Rightarrow> string + ir_assertion" where
  "build_assertion g =
     (let n = vg_name g; c = build_condition g; e = vg_expected_effect g
      in if e = ''deny'' then Inr (AssertDeny n c)
         else if e = ''need_approval'' then Inr (AssertNeedApprovalBypass n c)
         else if e = ''allow'' then Inr (AssertAllow n c)
         else Inl (''Unknown expected_effect: '' @ e))"

section \<open>The model\<close>

text \<open>Rules that are only audited and rules for subjects only are left out.\<close>

definition verified_rule :: "raw_rule \<Rightarrow> bool" where
  "verified_rule r \<longleftrightarrow> \<not> (rr_effect r = AuditOnly \<or> rr_rule_type r = RtSubjectOnly)"

definition object_paths :: "raw_rule \<Rightarrow> string list" where
  "object_paths r =
     (case rr_object r of None \<Rightarrow> [] | Some ob \<Rightarrow> rob_path ob # opt_items (rob_new_path ob))"

definition ir_rule_of :: "raw_rule \<Rightarrow> ir_rule" where
  "ir_rule_of r = \<lparr>ir_id = rr_id r, ir_effect = rr_effect r, ir_condition = extract_condition r\<rparr>"

fun rules_loop ::
  "raw_rule list \<Rightarrow> ir_entity hset \<times> ir_rule list \<times> string hset \<Rightarrow> ir_entity hset \<times> ir_rule list \<times> string hset" where
  "rules_loop [] st = st"
| "rules_loop (r # rs) (ents, irs, managed) =
     (if \<not> verified_rule r then rules_loop rs (ents, irs, managed)
      else rules_loop rs
        (extract_entity r ents, irs @ [ir_rule_of r], hs_extend managed (object_paths r)))"

definition goal_step ::
  "verify_goal \<Rightarrow> ir_entity hset \<times> ir_assertion list \<Rightarrow> string + (ir_entity hset \<times> ir_assertion list)" where
  "goal_step g st =
     (case st of (ents, asserts) \<Rightarrow>
        bindR (build_assertion g) (\<lambda>a.
          Inr (hs_extend ents (map (ent EcResourcePath) (vg_target g # opt_items (vg_new_target g))),
               asserts @ [a])))"

definition model_from_raw :: "raw_policy \<Rightarrow> verify_goal list \<Rightarrow> string \<Rightarrow> string + teal_ir_model" where
  "model_from_raw raw goals policy_name =
     (case rules_loop (rp_rules raw) ([], [], []) of (ents, irs, managed) \<Rightarrow>
        bindR (foldR goal_step goals (ents, [])) (\<lambda>(ents', asserts).
          Inr \<lparr>tm_name = policy_name, tm_entities = ents', tm_rules = irs, tm_assertions = asserts,
               tm_managed_paths = managed\<rparr>))"

lemma rules_loop_rules:
  "fst (snd (rules_loop rs (ents, irs, managed))) = irs @ map ir_rule_of (filter verified_rule rs)"
  by (induction rs arbitrary: ents irs managed) auto

lemma rules_loop_managed:
  "set (snd (snd (rules_loop rs (ents, irs, managed)))) =
     set managed \<union> (\<Union>r \<in> {r \<in> set rs. verified_rule r}. set (object_paths r))"
  by (induction rs arbitrary: ents irs managed) auto

end
