(* ===== verification/Verify_Alloy.thy ===== *)
theory Verify_Alloy
  imports Verify_Ast Rust_Text
begin

text \<open>
  \<open>teal-cli/src/verify/transpiler_alloy.rs\<close>: the Alloy text generated from the intermediate
  model. Which characters beyond ASCII are alphanumeric is a parameter (\<open>al\<close>), as is the matching
  of the crate \<open>glob\<close> (\<open>gm\<close>; it fails on patterns that do not parse). The maps and sets are lists
  in some order.
\<close>

section \<open>Names\<close>

function utf8_chars :: "string \<Rightarrow> string list" where
  "utf8_chars s = (if s = [] then [] else
     take (snd (utf8_chunk s)) s # utf8_chars (drop (snd (utf8_chunk s)) s))"
  by auto
termination
  by (relation "measure length") (auto simp: utf8_chunk_pos)

declare utf8_chars.simps [simp del]

type_synonym alnum = "string \<Rightarrow> bool"

definition char_alnum :: "alnum \<Rightarrow> string \<Rightarrow> bool" where
  "char_alnum al ch = (case ch of [c] \<Rightarrow> is_ascii_alphanumeric c | _ \<Rightarrow> al ch)"

definition sanitize :: "alnum \<Rightarrow> string \<Rightarrow> string" where
  "sanitize al s = concat (map (\<lambda>ch. if char_alnum al ch then ch else ''_'') (utf8_chars s))"

section \<open>State\<close>

record alloy_transpiler =
  tr_roles :: "string hset"
  tr_users :: "string hset"
  tr_uids :: "string hset"
  tr_objs :: "string hset"
  tr_progs :: "string hset"
  tr_scripts :: "string hset"
  tr_applets :: "string hset"
  tr_ops :: "string hset"
  tr_obj_matches :: "(string, string) hmap"
  tr_prog_matches :: "(string, string) hmap"

definition new_transpiler :: alloy_transpiler where
  "new_transpiler =
     \<lparr>tr_roles = [], tr_users = [], tr_uids = [], tr_objs = [], tr_progs = [], tr_scripts = [],
      tr_applets = [], tr_ops = [], tr_obj_matches = [], tr_prog_matches = []\<rparr>"

section \<open>Pass 1\<close>

definition scan_value :: "string \<Rightarrow> string \<Rightarrow> alloy_transpiler \<Rightarrow> alloy_transpiler" where
  "scan_value attr val t =
     (if attr = ''subject.role'' then t\<lparr>tr_roles := hs_insert val (tr_roles t)\<rparr>
      else if attr = ''subject.user'' then t\<lparr>tr_users := hs_insert val (tr_users t)\<rparr>
      else if attr = ''subject.uid'' then t\<lparr>tr_uids := hs_insert val (tr_uids t)\<rparr>
      else if attr = ''object.path'' \<or> attr = ''object.new_path'' then t\<lparr>tr_objs := hs_insert val (tr_objs t)\<rparr>
      else if attr = ''subject.origin_program'' then t\<lparr>tr_progs := hs_insert val (tr_progs t)\<rparr>
      else if attr = ''subject.origin_script'' then t\<lparr>tr_scripts := hs_insert val (tr_scripts t)\<rparr>
      else if attr = ''subject.origin_applet'' then t\<lparr>tr_applets := hs_insert val (tr_applets t)\<rparr>
      else if attr = ''action.op'' then t\<lparr>tr_ops := hs_insert val (tr_ops t)\<rparr>
      else t)"

definition scan_in_value :: "string \<Rightarrow> string \<Rightarrow> alloy_transpiler \<Rightarrow> alloy_transpiler" where
  "scan_in_value attr val t =
     (if attr = ''subject.role'' \<or> attr = ''action.op'' then scan_value attr val t else t)"

fun scan_expression :: "ir_expr \<Rightarrow> alloy_transpiler \<Rightarrow> alloy_transpiler" where
  "scan_expression (IrAnd es) t = fold scan_expression es t"
| "scan_expression (IrOr es) t = fold scan_expression es t"
| "scan_expression (IrEq attr val) t = scan_value attr val t"
| "scan_expression (IrTerm (IrIn attr vals)) t = fold (scan_in_value attr) vals t"
| "scan_expression (IrTerm (IrMatch attr pat)) t = t"

definition match_set_name :: "string \<Rightarrow> string \<Rightarrow> string option" where
  "match_set_name attr ctx =
     (if attr = ''object.path'' then Some (''MatchSet_Obj_'' @ ctx)
      else if attr = ''object.new_path'' then Some (''MatchSet_NewObj_'' @ ctx)
      else if attr = ''subject.origin_program'' then Some (''MatchSet_Prog_'' @ ctx)
      else None)"

definition register_match ::
  "alnum \<Rightarrow> string \<Rightarrow> string \<Rightarrow> string \<Rightarrow> alloy_transpiler \<Rightarrow> alloy_transpiler" where
  "register_match al ctx attr pat t =
     (case match_set_name attr (sanitize al ctx) of
        None \<Rightarrow> t
      | Some n \<Rightarrow>
          (if attr = ''subject.origin_program''
           then t\<lparr>tr_prog_matches := hm_insert n pat (tr_prog_matches t)\<rparr>
           else t\<lparr>tr_obj_matches := hm_insert n pat (tr_obj_matches t)\<rparr>))"

fun collect_matches :: "alnum \<Rightarrow> string \<Rightarrow> ir_expr \<Rightarrow> alloy_transpiler \<Rightarrow> alloy_transpiler" where
  "collect_matches al ctx (IrAnd es) t = fold (collect_matches al ctx) es t"
| "collect_matches al ctx (IrOr es) t = fold (collect_matches al ctx) es t"
| "collect_matches al ctx (IrTerm (IrMatch attr pat)) t = register_match al ctx attr pat t"
| "collect_matches al ctx (IrTerm (IrIn attr vals)) t = t"
| "collect_matches al ctx (IrEq attr val) t = t"

definition analyse :: "alnum \<Rightarrow> teal_ir_model \<Rightarrow> alloy_transpiler" where
  "analyse al ir =
     (let t1 = fold (\<lambda>r t. collect_matches al (ir_id r) (ir_condition r)
                 (scan_expression (ir_condition r) t)) (tm_rules ir) new_transpiler;
          t2 = fold (\<lambda>a t. collect_matches al (as_name a) (as_condition a)
                 (scan_expression (as_condition a) t)) (tm_assertions ir) t1
      in t2\<lparr>tr_objs := hs_extend (tr_objs t2) (tm_managed_paths ir)\<rparr>)"

section \<open>Pass 2: text\<close>

definition ln :: "string \<Rightarrow> string" where
  "ln s = s @ [CHR 0x0A]"

definition lns :: "string list \<Rightarrow> string" where
  "lns ss = concat (map ln ss)"

definition request_sig :: "alloy_transpiler \<Rightarrow> string" where
  "request_sig t = lns
     ([''sig Request {''] @
      (if tr_users t \<noteq> [] then [''  user: lone User,''] else []) @
      (if tr_uids t \<noteq> [] then [''  uid: lone Uid,''] else []) @
      [''  role: set Role,''] @
      (if tr_progs t \<noteq> [] then [''  origin_program: lone Program,''] else []) @
      (if tr_scripts t \<noteq> [] then [''  origin_script: lone Script,''] else []) @
      (if tr_applets t \<noteq> [] then [''  applet: lone Applet,''] else []) @
      [''  path: one Object,'', ''  new_path: lone Object,'', ''  op: one Operation,'',
       ''  has_ticket: one Boolean,'', ''  triggered_by: one RuleID'', ''}'',
       ''// --- Structural Constraints ---'', ''fact RequestConstraints {''] @
      (if \<exists>op \<in> set (tr_ops t). to_uppercase op = ''RENAME''
       then [''  all r: Request | (Op_RENAME not in r.op) implies no r.new_path'']
       else [''  all r: Request | no r.new_path'']) @
      [''}'' @ [CHR 0x0A]])"

definition signatures_text :: "alnum \<Rightarrow> alloy_transpiler \<Rightarrow> teal_ir_model \<Rightarrow> string" where
  "signatures_text al t ir =
     lns [''abstract sig Boolean {}'', ''one sig True, False extends Boolean {} '' @ [CHR 0x0A],
       ''abstract sig RuleID {}'', ''abstract sig Object {}'', ''abstract sig Role {}'',
       ''abstract sig Operation {}'', ''abstract sig Program {}'' @ [CHR 0x0A],
       ''abstract sig User {}'', ''abstract sig Applet {}'', ''abstract sig Uid {}'',
       ''abstract sig Script {}'', ''// --- Rule Identities ---''] @
     lns (map (\<lambda>r. ''one sig '' @ sanitize al (ir_id r) @ '' extends RuleID {}'') (tm_rules ir)) @
     ln [] @ request_sig t"

fun sig_group :: "(string \<Rightarrow> string) \<Rightarrow> string \<Rightarrow> string \<Rightarrow> string list \<Rightarrow> string hset \<Rightarrow> string" where
  "sig_group clean pre parent [] seen = []"
| "sig_group clean pre parent (i # is) seen =
     (let c = clean i
      in (if c \<in> set seen then [] else ln (''one sig '' @ pre @ ''_'' @ c @ '' extends '' @ parent @ '' {}'')) @
         sig_group clean pre parent is (hs_insert c seen))"

definition entities_text :: "alnum \<Rightarrow> string \<Rightarrow> alloy_transpiler \<Rightarrow> string" where
  "entities_text al heading t =
     (let s = sanitize al
      in ln heading @
         sig_group s ''User'' ''User'' (tr_users t) [] @ sig_group s ''Obj'' ''Object'' (tr_objs t) [] @
         sig_group s ''Role'' ''Role'' (tr_roles t) [] @ sig_group s ''Prog'' ''Program'' (tr_progs t) [] @
         sig_group s ''Uid'' ''Uid'' (tr_uids t) [] @ sig_group s ''Script'' ''Script'' (tr_scripts t) [] @
         sig_group s ''Applet'' ''Applet'' (tr_applets t) [] @
         sig_group (to_uppercase \<circ> s) ''Op'' ''Operation'' (tr_ops t) [])"

type_synonym glob_crate = "string \<Rightarrow> string \<Rightarrow> bool option"

definition rust_glob_match :: "glob_crate \<Rightarrow> string \<Rightarrow> string \<Rightarrow> bool" where
  "rust_glob_match gm pattern path =
     (case strip_prefix ''glob:'' pattern of
        Some p \<Rightarrow> (case gm p path of Some b \<Rightarrow> b | None \<Rightarrow> False)
      | None \<Rightarrow>
          (case strip_prefix ''prefix:'' pattern of
             Some p \<Rightarrow> prefix p path
           | None \<Rightarrow> path = pattern))"

definition set_or_none :: "string list \<Rightarrow> string" where
  "set_or_none xs = (if xs = [] then ''none'' else join '' + '' xs)"

definition match_fact ::
  "alnum \<Rightarrow> glob_crate \<Rightarrow> string \<Rightarrow> string \<Rightarrow> string list \<Rightarrow> string \<times> string \<Rightarrow> string" where
  "match_fact al gm pre parent items m =
     (case m of (set_name, pattern) \<Rightarrow>
        let matched = map (\<lambda>p. pre @ sanitize al p) (filter (rust_glob_match gm pattern) items)
        in lns [''sig '' @ set_name @ '' in '' @ parent @ '' {}'',
                ''fact { '' @ set_name @ '' = '' @ set_or_none matched @ '' }''])"

definition match_facts_text :: "alnum \<Rightarrow> glob_crate \<Rightarrow> alloy_transpiler \<Rightarrow> string" where
  "match_facts_text al gm t =
     ln ''// --- Pattern Matching Facts ---'' @
     concat (map (match_fact al gm ''Obj_'' ''Object'' (tr_objs t)) (tr_obj_matches t)) @
     concat (map (match_fact al gm ''Prog_'' ''Program'' (tr_progs t)) (tr_prog_matches t)) @ ln []"

definition translate_eq :: "alnum \<Rightarrow> string \<Rightarrow> string \<Rightarrow> string" where
  "translate_eq al attr val =
     (let v = sanitize al val
      in if attr = ''subject.role'' then ''Role_'' @ v @ '' in r.role''
         else if attr = ''subject.user'' then ''r.user = User_'' @ v
         else if attr = ''subject.uid'' then ''r.uid = Uid_'' @ v
         else if attr = ''subject.origin_program'' then ''r.origin_program = Prog_'' @ v
         else if attr = ''subject.origin_script'' then ''r.script = Script_'' @ v
         else if attr = ''subject.origin_applet'' then ''r.applet = Applet_'' @ v
         else if attr = ''object.path'' then ''r.path = Obj_'' @ v
         else if attr = ''object.new_path'' then ''r.new_path = Obj_'' @ v
         else if attr = ''action.op'' then ''r.op = Op_'' @ to_uppercase v
         else ''/* unknown attr: '' @ attr @ '' */'')"

text \<open>
  The context is used here as it is. The insertions into the maps at this point come after the
  facts have been printed and are left out.
\<close>

fun translate_term :: "alnum \<Rightarrow> string \<Rightarrow> ir_term \<Rightarrow> string" where
  "translate_term al ctx (IrMatch attr pat) =
     (case match_set_name attr ctx of
        None \<Rightarrow> ''false''
      | Some n \<Rightarrow>
          (if attr = ''object.path'' then ''r.path in '' @ n
           else if attr = ''object.new_path'' then ''r.new_path in '' @ n
           else ''r.origin_program in '' @ n))"
| "translate_term al ctx (IrIn attr vals) =
     (let atoms = map (\<lambda>v. if attr = ''subject.role'' then ''Role_'' @ sanitize al v
            else if attr = ''action.op'' then ''Op_'' @ to_uppercase (sanitize al v)
            else ''Unknown_'' @ sanitize al v) vals
      in (if attr = ''subject.role'' then ''r.role'' else ''r.op'') @ '' & ('' @ join '' + '' atoms @ '') != none'')"

definition indent :: "nat \<Rightarrow> string" where
  "indent n = concat (replicate n ''  '')"

fun build_expr_string :: "alnum \<Rightarrow> string \<Rightarrow> nat \<Rightarrow> ir_expr \<Rightarrow> string" where
  "build_expr_string al ctx d (IrAnd es) =
     indent d @ ln ''('' @ join ('' and'' @ [CHR 0x0A]) (map (build_expr_string al ctx (d + 1)) es) @
     [CHR 0x0A] @ indent d @ '')''"
| "build_expr_string al ctx d (IrOr es) =
     indent d @ ln ''('' @ join ('' or'' @ [CHR 0x0A]) (map (build_expr_string al ctx (d + 1)) es) @
     [CHR 0x0A] @ indent d @ '')''"
| "build_expr_string al ctx d (IrEq attr val) = indent d @ translate_eq al attr val"
| "build_expr_string al ctx d (IrTerm tm) = indent d @ translate_term al ctx tm"

definition rule_pred_name :: "alnum \<Rightarrow> string \<Rightarrow> string" where
  "rule_pred_name al rule_id = ''Rule_'' @ sanitize al rule_id"

definition rule_predicate_text :: "alnum \<Rightarrow> ir_rule \<Rightarrow> string" where
  "rule_predicate_text al r = lns [''pred '' @ rule_pred_name al (ir_id r) @ ''[r: Request] {'',
     build_expr_string al (ir_id r) 1 (ir_condition r), ''}'' @ [CHR 0x0A]]"

definition allow_case :: "alnum \<Rightarrow> ir_rule \<Rightarrow> string" where
  "allow_case al r =
     ''    (id = '' @ sanitize al (ir_id r) @ '' and '' @ rule_pred_name al (ir_id r) @ ''[r] '' @
     (if ir_effect r = NeedApproval then ''and r.has_ticket = True'' else []) @ '')''"

text \<open>The comments of the generated predicate are arguments: two lines of Japanese text.\<close>

definition access_allowed_text :: "alnum \<Rightarrow> string \<times> string \<Rightarrow> teal_ir_model \<Rightarrow> string" where
  "access_allowed_text al comments ir =
     (let allow_rules = filter (\<lambda>r. ir_effect r \<in> {Allow, NeedApproval}) (tm_rules ir);
          deny_rules = filter (\<lambda>r. ir_effect r = Deny) (tm_rules ir)
      in ln ''// --- Core Access Control Logic ---'' @
         lns [''sig ManagedObjects in Object {}'',
           ''fact { ManagedObjects = '' @
             set_or_none (map (\<lambda>p. ''Obj_'' @ sanitize al p) (tm_managed_paths ir)) @ '' }'',
           ''pred AccessAllowed[r: Request] {'',
           ''  let is_managed = (some r.path & ManagedObjects) or (some r.new_path & ManagedObjects) |'',
           ''  ('', fst comments, ''    (is_managed => (AnyAllow[r] and not AnyDeny[r]))'',
           ''    and'', snd comments, ''    (not is_managed => r = r)'', ''  )'', ''}'' @ [CHR 0x0A],
           ''pred AnyAllow[r: Request] {'', ''  some id: RuleID | r.triggered_by = id and ('',
           join ('' or'' @ [CHR 0x0A]) (map (allow_case al) allow_rules) @ [CHR 0x0A] @ ''  )'',
           ''}'' @ [CHR 0x0A], ''pred AnyDeny[r: Request] {'',
           (if deny_rules = [] then ''  some none''
            else ''  '' @ join '' or '' (map (\<lambda>r. rule_pred_name al (ir_id r) @ ''[r]'') deny_rules)),
           ''}'' @ [CHR 0x0A]])"

definition assertion_safe_name :: "alnum \<Rightarrow> nat \<Rightarrow> ir_assertion \<Rightarrow> string" where
  "assertion_safe_name al i a =
     (if as_name a = [] then ''Goal_'' @ show_nat i else sanitize al (as_name a))"

text \<open>The comment lines inside the assertions are the second argument.\<close>

fun assertion_body :: "string \<Rightarrow> (ir_assertion \<Rightarrow> string list) \<Rightarrow> ir_assertion \<Rightarrow> string list" where
  "assertion_body n cm (AssertDeny nm c) =
     cm (AssertDeny nm c) @ [''  no r: Request | Target_'' @ n @ ''[r] and AccessAllowed[r]'']"
| "assertion_body n cm (AssertNeedApprovalBypass nm c) =
     cm (AssertNeedApprovalBypass nm c) @
     [''  all r: Request | (Target_'' @ n @ ''[r] and AccessAllowed[r]) => r.has_ticket = True'']"
| "assertion_body n cm (AssertAllow nm c) =
     cm (AssertAllow nm c) @ [''  some r: Request | Target_'' @ n @ ''[r] and AccessAllowed[r]'']"

definition assertion_text ::
  "alnum \<Rightarrow> (ir_assertion \<Rightarrow> string list) \<Rightarrow> nat \<times> ir_assertion \<Rightarrow> string" where
  "assertion_text al cm ia =
     (case ia of (i, a) \<Rightarrow>
        let n = assertion_safe_name al i a
        in lns ([''pred Target_'' @ n @ ''[r: Request] {'', build_expr_string al n 1 (as_condition a),
                 ''}'' @ [CHR 0x0A], ''assert '' @ n @ '' {''] @ assertion_body n cm a @
                [''}'', ''check '' @ n @ '' for 5'' @ [CHR 0x0A]]))"

definition replace_dashes :: "string \<Rightarrow> string" where
  "replace_dashes s = map (\<lambda>c. if c = CHR ''-'' then CHR ''_'' else c) s"

definition transpile ::
  "alnum \<Rightarrow> glob_crate \<Rightarrow> string \<Rightarrow> string \<times> string \<Rightarrow> (ir_assertion \<Rightarrow> string list) \<Rightarrow> teal_ir_model \<Rightarrow> string" where
  "transpile al gm heading comments cm ir =
     (let t = analyse al ir
      in lns [''/* Generated by TEAL CLI */'',
              ''module teal_policy_'' @ replace_dashes (tm_name ir) @ [CHR 0x0A]] @
         signatures_text al t ir @ entities_text al heading t @ match_facts_text al gm t @
         concat (map (rule_predicate_text al) (tm_rules ir)) @ access_allowed_text al comments ir @
         ln ''// --- Security Assertions (BDD Goals) ---'' @
         concat (map (assertion_text al cm) (enumerate 0 (tm_assertions ir))))"

end
