(* ===== verification/Verify_Facts.thy ===== *)
theory Verify_Facts
  imports Verify_Alloy
begin

text \<open>
  The two passes of the Alloy generator against each other: the pattern sets a predicate uses and
  those the first pass declares.
\<close>

section \<open>The terms of a condition\<close>

fun expr_terms :: "ir_expr \<Rightarrow> ir_term set" where
  "expr_terms (IrAnd es) = (\<Union>e \<in> set es. expr_terms e)"
| "expr_terms (IrOr es) = (\<Union>e \<in> set es. expr_terms e)"
| "expr_terms (IrEq a v) = {}"
| "expr_terms (IrTerm tm) = {tm}"

definition declared_sets :: "alloy_transpiler \<Rightarrow> string set" where
  "declared_sets t = {n. hm_get (tr_obj_matches t) n \<noteq> None} \<union> {n. hm_get (tr_prog_matches t) n \<noteq> None}"

definition used_sets :: "string \<Rightarrow> ir_expr \<Rightarrow> string set" where
  "used_sets ctx e = {n. \<exists>attr pat. IrMatch attr pat \<in> expr_terms e \<and> match_set_name attr ctx = Some n}"

lemma used_sets_simps [simp]:
  "used_sets ctx (IrAnd es) = (\<Union>e \<in> set es. used_sets ctx e)"
  "used_sets ctx (IrOr es) = (\<Union>e \<in> set es. used_sets ctx e)"
  "used_sets ctx (IrEq a v) = {}"
  "used_sets ctx (IrTerm (IrMatch a v)) = set_option (match_set_name a ctx)"
  "used_sets ctx (IrTerm (IrIn a vs)) = {}"
  by (auto simp: used_sets_def)

section \<open>The first pass\<close>

lemma declared_update:
  "declared_sets (t\<lparr>tr_obj_matches := hm_insert n p (tr_obj_matches t)\<rparr>) = insert n (declared_sets t)"
  "declared_sets (t\<lparr>tr_prog_matches := hm_insert n p (tr_prog_matches t)\<rparr>) = insert n (declared_sets t)"
  by (auto simp: declared_sets_def hm_get_def hm_insert_def update_conv')

lemma declared_register:
  "declared_sets (register_match al ctx attr pat t) =
     declared_sets t \<union> set_option (match_set_name attr (sanitize al ctx))"
  by (auto simp: register_match_def declared_update split: option.splits)

lemma declared_scan_value [simp]: "declared_sets (scan_value attr v t) = declared_sets t"
  by (simp add: declared_sets_def scan_value_def)

lemma declared_scan_in [simp]: "declared_sets (fold (scan_in_value attr) vs t) = declared_sets t"
  by (induction vs arbitrary: t) (simp_all add: scan_in_value_def)

lemma fold_declared:
  assumes "\<And>x s. x \<in> set xs \<Longrightarrow> declared_sets (f x s) = declared_sets s \<union> g x"
  shows "declared_sets (fold f xs t) = declared_sets t \<union> (\<Union>x \<in> set xs. g x)"
  using assms by (induction xs arbitrary: t) auto

lemma declared_scan [simp]: "declared_sets (scan_expression e t) = declared_sets t"
proof (induction e t rule: scan_expression.induct)
  case (1 es t)
  then show ?case using fold_declared [of es scan_expression "\<lambda>_. {}"] by simp
next
  case (2 es t)
  then show ?case using fold_declared [of es scan_expression "\<lambda>_. {}"] by simp
qed simp_all

lemma declared_collect:
  "declared_sets (collect_matches al ctx e t) = declared_sets t \<union> used_sets (sanitize al ctx) e"
proof (induction al ctx e t rule: collect_matches.induct)
  case (1 al ctx es t)
  then show ?case using fold_declared [of es "collect_matches al ctx" "used_sets (sanitize al ctx)"] by simp
next
  case (2 al ctx es t)
  then show ?case using fold_declared [of es "collect_matches al ctx" "used_sets (sanitize al ctx)"] by simp
qed (simp_all add: declared_register)

lemma declared_analyse:
  "declared_sets (analyse al ir) =
     (\<Union>r \<in> set (tm_rules ir). used_sets (sanitize al (ir_id r)) (ir_condition r)) \<union>
     (\<Union>a \<in> set (tm_assertions ir). used_sets (sanitize al (as_name a)) (as_condition a))"
proof -
  have objs: "declared_sets (t\<lparr>tr_objs := x\<rparr>) = declared_sets t" for t x
    by (simp add: declared_sets_def)
  have new: "declared_sets new_transpiler = {}"
    by (simp add: declared_sets_def new_transpiler_def hm_get_def)
  let ?rules = "fold (\<lambda>r t. collect_matches al (ir_id r) (ir_condition r)
      (scan_expression (ir_condition r) t))"
  let ?asserts = "fold (\<lambda>a t. collect_matches al (as_name a) (as_condition a)
      (scan_expression (as_condition a) t))"
  have rules: "declared_sets (?rules rs t) =
      declared_sets t \<union> (\<Union>r \<in> set rs. used_sets (sanitize al (ir_id r)) (ir_condition r))" for rs t
    by (rule fold_declared) (simp add: declared_collect)
  have asserts: "declared_sets (?asserts xs t) =
      declared_sets t \<union> (\<Union>a \<in> set xs. used_sets (sanitize al (as_name a)) (as_condition a))" for xs t
    by (rule fold_declared) (simp add: declared_collect)
  show ?thesis
    by (simp only: analyse_def Let_def objs rules asserts new Un_empty_left)
qed

section \<open>Use and declaration\<close>

text \<open>A pattern is printed as membership in the set of its attribute and context.\<close>

lemma translate_match:
  "translate_term al ctx (IrMatch attr pat) =
     (case match_set_name attr ctx of None \<Rightarrow> ''false''
      | Some n \<Rightarrow> (if attr = ''object.path'' then ''r.path'' else if attr = ''object.new_path''
                 then ''r.new_path'' else ''r.origin_program'') @ '' in '' @ n)"
  by (simp split: option.splits)

text \<open>
  When no rule has a character in its id that is replaced by an underscore and every goal has a
  name, every set that the predicate of a rule or the target of a goal uses is declared, with the
  fact that gives its elements.
\<close>

theorem pattern_sets_declared:
  assumes ids: "\<And>r. r \<in> set (tm_rules ir) \<Longrightarrow> sanitize al (ir_id r) = ir_id r"
    and names: "\<And>a. a \<in> set (tm_assertions ir) \<Longrightarrow> as_name a \<noteq> []"
    and rule: "r \<in> set (tm_rules ir)" and goal: "a \<in> set (tm_assertions ir)"
  shows "used_sets (ir_id r) (ir_condition r) \<subseteq> declared_sets (analyse al ir)"
    and "used_sets (assertion_safe_name al i a) (as_condition a) \<subseteq> declared_sets (analyse al ir)"
  using ids [OF rule] rule names [OF goal] goal
  by (auto simp: declared_analyse assertion_safe_name_def bexI [of _ r] bexI [of _ a])

text \<open>
  A rule with a pattern and a dash in its id: the predicate of the rule names a set that is not
  declared.
\<close>

definition dashed_model :: teal_ir_model where
  "dashed_model =
     \<lparr>tm_name = ''p'', tm_entities = [],
      tm_rules = [\<lparr>ir_id = ''rule-001'', ir_effect = Deny,
        ir_condition = IrAnd [IrTerm (IrMatch ''object.path'' ''prefix:/etc'')]\<rparr>],
      tm_assertions = [], tm_managed_paths = [''prefix:/etc'']\<rparr>"

lemma sanitize_ascii:
  "\<forall>c \<in> set s. byte c < 128 \<Longrightarrow> sanitize al s = map (\<lambda>c. if is_ascii_alphanumeric c then c else CHR ''_'') s"
  by (induction s)
     (simp_all add: sanitize_def utf8_chars.simps [of "[]"] utf8_chars.simps [of "_ # _"] utf8_chunk_def
        char_alnum_def)

theorem dashed_rule_undeclared:
  "rule_predicate_text al (hd (tm_rules dashed_model)) =
     lns [''pred Rule_rule_001[r: Request] {'',
          ''  ('' @ [CHR 0x0A] @ ''    r.path in MatchSet_Obj_rule-001'' @ [CHR 0x0A] @ ''  )'',
          ''}'' @ [CHR 0x0A]]"
  "declared_sets (analyse al dashed_model) = {''MatchSet_Obj_rule_001''}"
proof -
  have s: "sanitize al ''rule-001'' = ''rule_001''"
    by (simp add: sanitize_ascii byte_def is_ascii_alphanumeric_def is_ascii_alphabetic_def is_digit_def)
  show "rule_predicate_text al (hd (tm_rules dashed_model)) =
     lns [''pred Rule_rule_001[r: Request] {'',
          ''  ('' @ [CHR 0x0A] @ ''    r.path in MatchSet_Obj_rule-001'' @ [CHR 0x0A] @ ''  )'',
          ''}'' @ [CHR 0x0A]]"
    by (simp add: rule_predicate_text_def rule_pred_name_def dashed_model_def s match_set_name_def
        indent_def ln_def)
  show "declared_sets (analyse al dashed_model) = {''MatchSet_Obj_rule_001''}"
    by (simp add: declared_analyse dashed_model_def s match_set_name_def)
qed

text \<open>
  A rule that allows everything below a directory and the goal that nobody reaches anything below
  it. The only path the generator has seen is the text of the pattern, which does not match itself,
  so the set of the target is empty and the goal cannot be violated.
\<close>

definition prefix_goal :: verify_goal where
  "prefix_goal =
     \<lparr>vg_name = ''goal'', vg_target = ''prefix:/etc'', vg_new_target = None, vg_action = [],
      vg_expected_effect = ''deny'', vg_role_set = None, vg_user = None, vg_uid = None,
      vg_program = None, vg_script = None, vg_applet = None\<rparr>"

definition prefix_model :: "ir_assertion \<Rightarrow> teal_ir_model" where
  "prefix_model a =
     \<lparr>tm_name = ''p'', tm_entities = [],
      tm_rules = [\<lparr>ir_id = ''rule'', ir_effect = Allow,
        ir_condition = IrAnd [process_matchable_attr ''object.path'' ''prefix:/etc'']\<rparr>],
      tm_assertions = [a], tm_managed_paths = [''prefix:/etc'']\<rparr>"

theorem prefix_target_empty:
  "\<exists>a. build_assertion prefix_goal = Inr a \<and>
     match_facts_text al gm (analyse al (prefix_model a)) =
       ln ''// --- Pattern Matching Facts ---'' @
       lns [''sig MatchSet_Obj_rule in Object {}'', ''fact { MatchSet_Obj_rule = none }'',
            ''sig MatchSet_Obj_goal in Object {}'', ''fact { MatchSet_Obj_goal = none }''] @ ln []"
proof -
  have s: "sanitize al ''rule'' = ''rule''" "sanitize al ''goal'' = ''goal''"
    by (simp_all add: sanitize_ascii byte_def is_ascii_alphanumeric_def is_ascii_alphabetic_def)
  show ?thesis
    by (simp add: build_assertion_def prefix_goal_def build_condition_def prefix_model_def
        process_matchable_attr_def opt_items_def analyse_def register_match_def match_set_name_def s
        new_transpiler_def hm_insert_def hs_insert_def match_facts_text_def match_fact_def
        rust_glob_match_def strip_prefix_def set_or_none_def lns_def ln_def)
qed

end
