(* ===== verification/Verify_Check.thy ===== *)
theory Verify_Check
  imports Verify_Facts
begin

text \<open>
  \<open>teal-cli/src/verify/checker_alloy.rs\<close>: the counterexample is read from the XML of the solver and
  its names are translated back. The events of the XML reader are a list (an error of the reader is
  an event that is skipped, the end of the file is the end of the list); the solver itself, its
  temporary files and the terminal are not modelled.
\<close>

section \<open>Data\<close>

record req_data =
  rd_roles :: "string list"
  rd_prog :: string
  rd_obj :: string
  rd_new_obj :: string
  rd_op :: string
  rd_rule_id :: string

definition default_req_data :: req_data where
  "default_req_data = \<lparr>rd_roles = [], rd_prog = [], rd_obj = [], rd_new_obj = [], rd_op = [], rd_rule_id = []\<rparr>"

record raw_counter_example =
  ce_goal_name :: string
  ce_is_violated :: bool
  ce_rule_id :: string
  ce_object_atom :: string
  ce_new_object_atom :: string
  ce_subject_atom :: string
  ce_subject_roles :: "string list"
  ce_subject_origin :: string
  ce_action :: string
  ce_path_map :: "(string, string) hmap"

definition default_counter_example :: raw_counter_example where
  "default_counter_example =
     \<lparr>ce_goal_name = [], ce_is_violated = False, ce_rule_id = [], ce_object_atom = [],
      ce_new_object_atom = [], ce_subject_atom = [], ce_subject_roles = [], ce_subject_origin = [],
      ce_action = [], ce_path_map = []\<rparr>"

type_synonym xml_attrs = "(string \<times> string) list"

datatype xml_event =
    XStart string xml_attrs
  | XEmpty string xml_attrs
  | XEnd string
  | XOther

section \<open>Reading the counterexample\<close>

fun extract_atoms :: "xml_event list \<Rightarrow> string list \<Rightarrow> string list \<times> xml_event list" where
  "extract_atoms [] acc = (acc, [])"
| "extract_atoms (XStart n as # es) acc = extract_atoms es
     (if n = ''atom'' then acc @ (case map_of as ''label'' of Some l \<Rightarrow> [l] | None \<Rightarrow> []) else acc)"
| "extract_atoms (XEmpty n as # es) acc = extract_atoms es
     (if n = ''atom'' then acc @ (case map_of as ''label'' of Some l \<Rightarrow> [l] | None \<Rightarrow> []) else acc)"
| "extract_atoms (XEnd n # es) acc = (if n = ''tuple'' then (acc, es) else extract_atoms es acc)"
| "extract_atoms (XOther # es) acc = extract_atoms es acc"

lemma extract_atoms_length: "length (snd (extract_atoms es acc)) \<le> length es"
  by (induction es acc rule: extract_atoms.induct) (auto split: option.splits)

text \<open>\<open>split('$').next()\<close> always has a first part.\<close>

definition strip_id :: "string \<Rightarrow> string" where
  "strip_id atom = takeWhile (\<lambda>c. c \<noteq> CHR ''$'') atom"

definition set_req_field :: "string \<Rightarrow> string \<Rightarrow> req_data \<Rightarrow> req_data" where
  "set_req_field label v r =
     (if label = ''triggered_by'' then r\<lparr>rd_rule_id := v\<rparr>
      else if label = ''role'' \<or> label = ''roles'' then r\<lparr>rd_roles := rd_roles r @ [v]\<rparr>
      else if label = ''origin_program'' then r\<lparr>rd_prog := v\<rparr>
      else if label = ''path'' \<or> label = ''object'' then r\<lparr>rd_obj := v\<rparr>
      else if label = ''new_path'' \<or> label = ''new_object'' then r\<lparr>rd_new_obj := v\<rparr>
      else if label = ''op'' then r\<lparr>rd_op := v\<rparr>
      else r)"

type_synonym req_map = "(string, req_data) hmap"

definition process_tuple ::
  "string \<Rightarrow> string list \<Rightarrow> raw_counter_example \<times> req_map \<Rightarrow> raw_counter_example \<times> req_map" where
  "process_tuple label atoms st =
     (case st of (ce, reqs) \<Rightarrow>
      (case atoms of
         i # a # _ \<Rightarrow>
           (if prefix ''Request'' i
            then (let r = (case hm_get reqs i of Some r \<Rightarrow> r | None \<Rightarrow> default_req_data)
                  in (ce, hm_insert i (set_req_field label (strip_id a) r) reqs))
            else if label = ''path'' then (ce\<lparr>ce_path_map := hm_insert i a (ce_path_map ce)\<rparr>, reqs)
            else (ce, reqs))
       | _ \<Rightarrow> (ce, reqs)))"

definition attr_or_default :: "xml_attrs \<Rightarrow> string \<Rightarrow> string" where
  "attr_or_default as k = (case map_of as k of Some v \<Rightarrow> v | None \<Rightarrow> [])"

definition nth_word :: "nat \<Rightarrow> string \<Rightarrow> string option" where
  "nth_word n s = (let ws = split_whitespace s in if n < length ws then Some (ws ! n) else None)"

record xml_state =
  xs_ce :: raw_counter_example
  xs_reqs :: req_map
  xs_field :: string
  xs_skolem :: string
  xs_culprit :: string

definition xml_start :: "string \<Rightarrow> xml_attrs \<Rightarrow> xml_state \<Rightarrow> xml_state" where
  "xml_start n as st =
     (if n = ''instance'' then
        (case map_of as ''command'' of
           None \<Rightarrow> st
         | Some cmd \<Rightarrow> st\<lparr>xs_ce := (xs_ce st)\<lparr>ce_goal_name :=
             (case nth_word 1 cmd of Some g \<Rightarrow> g | None \<Rightarrow> ''unknown'')\<rparr>\<rparr>)
      else if n = ''field'' then st\<lparr>xs_field := attr_or_default as ''label'', xs_skolem := []\<rparr>
      else if n = ''skolem'' then st\<lparr>xs_skolem := attr_or_default as ''label'', xs_field := []\<rparr>
      else st)"

definition xml_tuple :: "string list \<Rightarrow> xml_state \<Rightarrow> xml_state" where
  "xml_tuple atoms st =
     (if xs_skolem st \<noteq> [] \<and> suffix ''_r'' (xs_skolem st) then
        (case atoms of
           a # _ \<Rightarrow> (if prefix ''Request'' a then st\<lparr>xs_culprit := a\<rparr> else st)
         | [] \<Rightarrow> st)
      else if xs_field st \<noteq> [] then
        (case process_tuple (xs_field st) atoms (xs_ce st, xs_reqs st) of
           (ce, reqs) \<Rightarrow> st\<lparr>xs_ce := ce, xs_reqs := reqs\<rparr>)
      else st)"

function xml_loop :: "xml_event list \<Rightarrow> xml_state \<Rightarrow> xml_state" where
  "xml_loop [] st = st"
| "xml_loop (XStart n as # es) st =
     (if n = ''tuple'' then
        (case extract_atoms es [] of (atoms, es') \<Rightarrow> xml_loop es' (xml_tuple atoms st))
      else xml_loop es (xml_start n as st))"
| "xml_loop (XEmpty n as # es) st = xml_loop es st"
| "xml_loop (XEnd n # es) st = xml_loop es st"
| "xml_loop (XOther # es) st = xml_loop es st"
  by pat_completeness auto
termination
  by (relation "measure (length \<circ> fst)")
     (auto, metis extract_atoms_length less_Suc_eq_le snd_conv)

definition parse_xml :: "xml_event list \<Rightarrow> raw_counter_example" where
  "parse_xml es =
     (let st = xml_loop es \<lparr>xs_ce = default_counter_example\<lparr>ce_goal_name := ''unknown'', ce_is_violated := True\<rparr>,
            xs_reqs = [], xs_field = [], xs_skolem = [], xs_culprit = []\<rparr>;
          culprit = (if xs_culprit st = [] then ''Request$0'' else xs_culprit st);
          ce = xs_ce st
      in case hm_get (xs_reqs st) culprit of
           None \<Rightarrow> ce
         | Some r \<Rightarrow> ce\<lparr>ce_rule_id := rd_rule_id r, ce_object_atom := rd_obj r,
             ce_new_object_atom := rd_new_obj r, ce_action := rd_op r, ce_subject_roles := rd_roles r,
             ce_subject_origin := rd_prog r,
             ce_subject_atom := join '' + ''
               ((if rd_roles r \<noteq> [] then [join '' + '' (rd_roles r)] else []) @
                (if rd_prog r \<noteq> [] then [''Prog: '' @ rd_prog r] else []))\<rparr>)"

section \<open>Translating the names back\<close>

record decoded_violation =
  dv_goal_name :: string
  dv_counter_example_math :: string
  dv_subject_info :: string
  dv_object_path :: string
  dv_new_object_path :: "string option"
  dv_action :: string
  dv_triggered_rule_id :: string
  dv_rule_description :: string

definition find_original_path :: "alnum \<Rightarrow> string list \<Rightarrow> string \<Rightarrow> string" where
  "find_original_path al managed atom =
     (let stripped = (case strip_prefix ''Obj_'' atom of Some s \<Rightarrow> s | None \<Rightarrow> atom)
      in case find (\<lambda>p. sanitize al p = stripped) managed of
           Some orig \<Rightarrow> orig
         | None \<Rightarrow> map (\<lambda>c. if c = CHR ''_'' then CHR ''/'' else c) stripped)"

definition strip_or_self :: "string \<Rightarrow> string \<Rightarrow> string \<Rightarrow> string" where
  "strip_or_self p s other = (case strip_prefix p s of Some r \<Rightarrow> r | None \<Rightarrow> other)"

definition counter_example_math :: "string \<Rightarrow> string option \<Rightarrow> string \<Rightarrow> string \<Rightarrow> string \<Rightarrow> string" where
  "counter_example_math object_path new_path action role origin =
     (let nl = [CHR 0x0A]; bs = [CHR 0x5C]; q = [CHR 0x27]
      in bs @ ''exists r '' @ bs @ ''in Requests :'' @ nl @
         ''    (object.path = '' @ q @ object_path @ q @ nl @
         (case new_path of
            Some np \<Rightarrow> ''      '' @ bs @ ''land object.new_path = '' @ q @ np @ q @ nl
          | None \<Rightarrow> []) @
         ''      '' @ bs @ ''land action.op = '' @ action @ nl @
         ''      '' @ bs @ ''land subject.role = '' @ role @ nl @
         ''      '' @ bs @ ''land subject.origin = '' @ origin @ nl @
         ''      '' @ bs @ ''land AccessAllowed(r))'')"

text \<open>The fixed sentence of the description is an argument.\<close>

definition decode_violation ::
  "alnum \<Rightarrow> string \<Rightarrow> raw_counter_example \<Rightarrow> teal_ir_model \<Rightarrow> decoded_violation" where
  "decode_violation al description raw m =
     (let rule = strip_id (ce_rule_id raw);
          obj = strip_id (ce_object_atom raw);
          new_obj = strip_id (ce_new_object_atom raw);
          path = find_original_path al (tm_managed_paths m) obj;
          new_path = (if new_obj = [] \<or> new_obj = ''none'' then None
                      else Some (find_original_path al (tm_managed_paths m) new_obj));
          original = (case find (\<lambda>r. sanitize al (ir_id r) = rule) (tm_rules m) of
                        Some r \<Rightarrow> ir_id r | None \<Rightarrow> rule);
          action = strip_or_self ''Op_'' (strip_id (ce_action raw)) (ce_action raw);
          roles = map (\<lambda>r. strip_or_self ''Role_'' (strip_id r) (strip_id r)) (ce_subject_roles raw);
          role_str = (if roles = [] then ''None'' else join '', '' roles);
          origin = (if ce_subject_origin raw = [] then ''None''
                    else [CHR 0x27] @ ce_subject_origin raw @ [CHR 0x27])
      in \<lparr>dv_goal_name = ce_goal_name raw,
          dv_counter_example_math = counter_example_math path new_path action role_str origin,
          dv_subject_info = role_str, dv_object_path = path, dv_new_object_path = new_path,
          dv_action = action, dv_triggered_rule_id = original, dv_rule_description = description\<rparr>)"

section \<open>All goals\<close>

text \<open>\<open>str::lines\<close>.\<close>

definition text_lines :: "string \<Rightarrow> string list" where
  "text_lines s =
     (let ls = split_on (CHR 0x0A) s; ls' = (if last ls = [] then butlast ls else ls)
      in map (\<lambda>l. if suffix [CHR 0x0D] l then butlast l else l) ls')"

definition extract_goal_names :: "string \<Rightarrow> string list" where
  "extract_goal_names als =
     List.map_filter (nth_word 1) (filter (\<lambda>l. prefix ''check '' (rust_trim l)) (text_lines als))"

text \<open>
  The solver is an argument: for each goal an error, the events of a counterexample, or no
  counterexample.
\<close>

type_synonym alloy_run = "string \<Rightarrow> string \<Rightarrow> string + xml_event list option"

definition check_goal :: "alloy_run \<Rightarrow> string \<Rightarrow> string \<Rightarrow> string + raw_counter_example" where
  "check_goal run_alloy als goal =
     bindR (run_alloy als goal) (\<lambda>r. Inr (case r of
         Some xml \<Rightarrow> (parse_xml xml)\<lparr>ce_is_violated := True, ce_goal_name := goal\<rparr>
       | None \<Rightarrow> default_counter_example\<lparr>ce_goal_name := goal, ce_is_violated := False\<rparr>))"

definition run_all_checks :: "alloy_run \<Rightarrow> string \<Rightarrow> string + raw_counter_example list" where
  "run_all_checks run_alloy als =
     foldR (\<lambda>goal results. bindR (check_goal run_alloy als goal) (\<lambda>ce. Inr (results @ [ce])))
       (extract_goal_names als) []"

text \<open>What \<open>VerifyExecutor::execute\<close> prints: the violations and the goals that passed.\<close>

definition verify_execute ::
  "alnum \<Rightarrow> string \<Rightarrow> alloy_run \<Rightarrow> string \<Rightarrow> teal_ir_model \<Rightarrow> string + (decoded_violation + string) list" where
  "verify_execute al description run_alloy als m =
     bindR (run_all_checks run_alloy als) (\<lambda>results.
       Inr (map (\<lambda>res. if ce_is_violated res then Inl (decode_violation al description res m)
                        else Inr (ce_goal_name res)) results))"

lemma results_loop:
  "foldR (\<lambda>goal results. bindR (check_goal run_alloy als goal) (\<lambda>ce. Inr (results @ [ce]))) gs acc = Inr out
   \<longleftrightarrow> (\<exists>ces. out = acc @ ces \<and> list_all2 (\<lambda>g ce. check_goal run_alloy als g = Inr ce) gs ces)"
  by (induction gs arbitrary: acc out)
     (auto simp: result_simps list_all2_Cons1)

section \<open>Facts\<close>

lemma sanitize_chars:
  "utf8_valid s \<Longrightarrow> c \<in> set (sanitize al s) \<Longrightarrow> 128 \<le> byte c \<or> is_ascii_alphanumeric c \<or> c = CHR ''_''"
proof (induction s rule: utf8_chars.induct)
  case (1 s)
  show ?case
  proof (cases "s = []")
    case True
    with 1 show ?thesis by (simp add: sanitize_def utf8_chars.simps)
  next
    case False
    define n where "n = snd (utf8_chunk s)"
    have v: "fst (utf8_chunk s)" "utf8_valid (drop n s)"
      using 1(2) False by (subst (asm) utf8_valid.simps, simp add: n_def)+
    have split: "sanitize al s =
        (if char_alnum al (take n s) then take n s else ''_'') @ sanitize al (drop n s)"
      using False by (simp add: sanitize_def utf8_chars.simps [of s] n_def)
    have "c \<in> set (take n s) \<Longrightarrow> char_alnum al (take n s) \<Longrightarrow> 128 \<le> byte c \<or> is_ascii_alphanumeric c"
    proof (cases "byte (hd s) < 128")
      case True
      then have "take n s = [hd s]" using False by (cases s) (simp_all add: n_def utf8_chunk_def)
      then show "c \<in> set (take n s) \<Longrightarrow> char_alnum al (take n s) \<Longrightarrow> ?thesis"
        by (simp add: char_alnum_def)
    next
      case big: False
      then show "c \<in> set (take n s) \<Longrightarrow> char_alnum al (take n s) \<Longrightarrow> ?thesis"
        using utf8_chunk_high [OF v(1) False big] by (simp add: n_def)
    qed
    with 1 False v(2) split show ?thesis by (auto simp: n_def split: if_splits)
  qed
qed

lemma strip_id_sanitized: "utf8_valid s \<Longrightarrow> strip_id (sanitize al s @ CHR ''$'' # k) = sanitize al s"
  unfolding strip_id_def
  by (subst takeWhile_append2)
     (auto dest!: sanitize_chars [of s _ al] simp: is_ascii_alphanumeric_def is_ascii_alphabetic_def
        is_digit_def byte_def)

lemma find_unique:
  assumes "x \<in> set xs" and "P x" and same: "\<forall>y \<in> set xs. P y \<longrightarrow> f y = f x"
  shows "\<exists>y. find P xs = Some y \<and> f y = f x"
proof (cases "find P xs")
  case None
  with assms(1,2) show ?thesis by (simp add: find_None_iff)
next
  case (Some y)
  then have "P y" "y \<in> set xs" by (auto simp: find_Some_iff)
  with same Some show ?thesis by simp
qed

text \<open>
  The report of a counterexample names the real path and rule: when the atoms of the
  counterexample are those generated for a managed path and for a rule of the model (with the number
  the solver appends), and no other managed path or rule id becomes the same name, the decoded
  violation has exactly this path and this rule id. The generated names are not injective, so
  without the condition another path or rule may be named.
\<close>

theorem counterexample_names_genuine:
  assumes path: "p \<in> set (tm_managed_paths m)" "utf8_valid p"
      "\<And>q. q \<in> set (tm_managed_paths m) \<Longrightarrow> sanitize al q = sanitize al p \<Longrightarrow> q = p"
    and rule: "r \<in> set (tm_rules m)" "utf8_valid (ir_id r)"
      "\<And>q. q \<in> set (tm_rules m) \<Longrightarrow> sanitize al (ir_id q) = sanitize al (ir_id r) \<Longrightarrow> ir_id q = ir_id r"
    and atoms: "ce_object_atom raw = ''Obj_'' @ sanitize al p @ CHR ''$'' # k"
      "ce_rule_id raw = sanitize al (ir_id r) @ CHR ''$'' # k'"
  shows "dv_object_path (decode_violation al d raw m) = p \<and>
    dv_triggered_rule_id (decode_violation al d raw m) = ir_id r"
proof
  have "strip_id (ce_object_atom raw) = ''Obj_'' @ sanitize al p"
    using strip_id_sanitized [OF path(2), of al k] by (simp add: atoms strip_id_def)
  moreover from find_unique [of p "tm_managed_paths m" "\<lambda>q. sanitize al q = sanitize al p" id] path
  have "find (\<lambda>q. sanitize al q = sanitize al p) (tm_managed_paths m) = Some p" by auto
  ultimately show "dv_object_path (decode_violation al d raw m) = p"
    by (simp add: decode_violation_def Let_def find_original_path_def strip_prefix_def)
  have "strip_id (ce_rule_id raw) = sanitize al (ir_id r)"
    using strip_id_sanitized [OF rule(2), of al k'] by (simp add: atoms)
  with find_unique [OF rule(1), of "\<lambda>q. sanitize al (ir_id q) = sanitize al (ir_id r)" ir_id] rule(3)
  show "dv_triggered_rule_id (decode_violation al d raw m) = ir_id r"
    by (auto simp: decode_violation_def Let_def)
qed

text \<open>Two managed paths that become the same atom: a violation of the second is reported for the first.\<close>

theorem counterexample_names_confused:
  "sanitize al ''/srv/a-b'' = sanitize al ''/srv/a_b'' \<and>
   find_original_path al [''/srv/a-b'', ''/srv/a_b''] (''Obj_'' @ sanitize al ''/srv/a_b'') = ''/srv/a-b''"
  by (simp add: find_original_path_def strip_prefix_def sanitize_ascii byte_def is_ascii_alphanumeric_def
      is_ascii_alphabetic_def is_digit_def)

definition reported_model :: teal_ir_model where
  "reported_model = dashed_model\<lparr>tm_managed_paths := [''/etc/shadow'', ''/etc/passwd'']\<rparr>"

definition reported_example :: raw_counter_example where
  "reported_example = default_counter_example
     \<lparr>ce_object_atom := ''Obj__etc_passwd$0'', ce_rule_id := ''rule_001$0''\<rparr>"

lemma counterexample_names_genuine_witness:
  "\<forall>al d. dv_object_path (decode_violation al d reported_example reported_model) = ''/etc/passwd'' \<and>
     dv_triggered_rule_id (decode_violation al d reported_example reported_model) = ''rule-001''"
proof (intro allI)
  fix al d
  have s: "sanitize al ''/etc/passwd'' = ''_etc_passwd''" "sanitize al ''/etc/shadow'' = ''_etc_shadow''"
    "sanitize al ''rule-001'' = ''rule_001''"
    by (simp_all add: sanitize_ascii byte_def is_ascii_alphanumeric_def is_ascii_alphabetic_def is_digit_def)
  have u: "utf8_valid ''/etc/passwd''" "utf8_valid ''rule-001''"
    by (simp_all add: utf8_valid_ascii byte_def)
  have r: "hd (tm_rules reported_model) \<in> set (tm_rules reported_model)"
    "ir_id (hd (tm_rules reported_model)) = ''rule-001''"
    "\<And>q. q \<in> set (tm_rules reported_model) \<Longrightarrow> ir_id q = ''rule-001''"
    by (auto simp: reported_model_def dashed_model_def)
  have p: "set (tm_managed_paths reported_model) = {''/etc/shadow'', ''/etc/passwd''}"
    by (simp add: reported_model_def)
  have a: "ce_object_atom reported_example = ''Obj__etc_passwd$0''" "ce_rule_id reported_example = ''rule_001$0''"
    by (simp_all add: reported_example_def)
  have "dv_object_path (decode_violation al d reported_example reported_model) = ''/etc/passwd'' \<and>
     dv_triggered_rule_id (decode_violation al d reported_example reported_model) = ir_id (hd (tm_rules reported_model))"
  proof (rule counterexample_names_genuine [where k = "''0''" and k' = "''0''"])
    fix q assume q: "q \<in> set (tm_managed_paths reported_model)" "sanitize al q = sanitize al ''/etc/passwd''"
    have "q \<noteq> ''/etc/shadow''"
    proof
      assume e: "q = ''/etc/shadow''"
      from q(2) [unfolded e] have "''_etc_shadow'' = ''_etc_passwd''" unfolding s .
      then show False by simp
    qed
    with q(1) show "q = ''/etc/passwd''" unfolding p by blast
  qed (simp_all add: s u r p a)
  then show "dv_object_path (decode_violation al d reported_example reported_model) = ''/etc/passwd'' \<and>
     dv_triggered_rule_id (decode_violation al d reported_example reported_model) = ''rule-001''"
    by (simp add: r)
qed

end
