(* ===== verification/Client.thy ===== *)
theory Client
  imports Admin_Props
begin

text \<open>
  The command line client: \<open>teal-cli/src/main.rs\<close>, \<open>cmd/update.rs\<close>, \<open>cmd/stage_init.rs\<close> and
  \<open>cmd/status.rs\<close>. Signing, hexadecimal digits and the syntax of UUIDs are parameters, a directory
  is a tree of files. The terminal, the argument parser and the generation of keys are not modelled.
\<close>

section \<open>Signed decisions\<close>

record client =
  cl_signing_key :: "string + string"
  cl_sign :: "string \<Rightarrow> string \<Rightarrow> string"
  cl_hex_encode :: "string \<Rightarrow> string"
  cl_uuid_ok :: "string \<Rightarrow> bool"

definition message_and_command :: "decision_kind \<Rightarrow> string \<Rightarrow> string option \<Rightarrow> string + (string \<times> string)" where
  "message_and_command kind i audit_id =
     (let k = decision_kind_as_str kind
      in if is_mgmt_decision kind i then
           bindR (ok_or audit_id ''audit_id is required for management approval/denial'') (\<lambda>a.
             Inr (k @ '':'' @ i @ '':'' @ a, k @ '' '' @ i @ '' '' @ a @ '' ''))
         else Inr (k @ '':'' @ i, k @ '' '' @ i @ '' ''))"

text \<open>The command that is sent.\<close>

definition run_signed_decision ::
  "client \<Rightarrow> decision_kind \<Rightarrow> string \<Rightarrow> string option \<Rightarrow> string + string" where
  "run_signed_decision c kind i audit_id =
     bindR (cl_signing_key c) (\<lambda>key.
       if is_mgmt_decision kind i \<and> audit_id = None
       then Inl ''audit_id is required for management commands''
       else if \<not> is_mgmt_decision kind i \<and> audit_id \<noteq> None
       then Inl ''audit_id is only valid for management APPROVE/DENY''
       else if (case audit_id of Some v \<Rightarrow> \<not> cl_uuid_ok c v | None \<Rightarrow> False)
       then Inl ''Invalid audit_id UUID''
       else bindR (message_and_command kind i audit_id) (\<lambda>(message, command).
         Inr (command @ cl_hex_encode c (cl_sign c key message))))"

text \<open>\<open>send_command\<close>: what goes to the socket.\<close>

definition wire_command :: "string \<Rightarrow> string" where
  "wire_command cmd = (if suffix [CHR 0x0A] cmd then cmd else cmd @ [CHR 0x0A])"

section \<open>Commands\<close>

datatype client_command =
    CcRegister string
  | CcList
  | CcApprove string "string option"
  | CcDeny string "string option"
  | CcTicket string
  | CcStart
  | CcStop
  | CcFlush
  | CcEmergency string

text \<open>The arm of \<open>main\<close> for each; \<open>CcRegister\<close> holds the text of the key file.\<close>

fun client_command_text :: "client \<Rightarrow> client_command \<Rightarrow> string + string" where
  "client_command_text c (CcRegister hex_key) = Inr (''REGISTER '' @ rust_trim hex_key)"
| "client_command_text c CcList = Inr ''LIST''"
| "client_command_text c (CcApprove i a) = run_signed_decision c DkApprove i a"
| "client_command_text c (CcDeny i a) = run_signed_decision c DkDeny i a"
| "client_command_text c (CcTicket r) = run_signed_decision c DkTicket r None"
| "client_command_text c CcStart = run_signed_decision c DkStart [] None"
| "client_command_text c CcStop = run_signed_decision c DkStop [] None"
| "client_command_text c CcFlush = Inr ''FLUSH''"
| "client_command_text c (CcEmergency token) = Inr (''EMERGENCY '' @ token)"

section \<open>Policy update\<close>

text \<open>
  The staged directory, how it loads and the hash function are parameters; the request carries the
  hash of the tree.
\<close>

definition update_run ::
  "client \<Rightarrow> (string \<Rightarrow> string) \<Rightarrow> (path \<Rightarrow> load_error + compiled_bundle) \<Rightarrow> fs_node option \<Rightarrow> string + string" where
  "update_run c sha load stage =
     (if stage = None then Inl ''staging directory not found''
      else bindR (map_err (\<lambda>_. ''Failed to load/validate staged policy bundle'') (load STAGE_TEAL_DIR)) (\<lambda>_.
        bindR (map_err (\<lambda>_. ''Failed to compute staged policy hash'') (compute_directory_hash sha stage)) (\<lambda>h.
          run_signed_decision c DkPolicyUpdate h None)))"

section \<open>Initialising the staging directory\<close>

type_synonym dir_entries = "(string \<times> fs_node) list"

text \<open>The copied entries and the number of files; a lossy name starts with a dot iff its first byte is one.\<close>

fun copy_node :: "fs_node \<Rightarrow> string + (fs_node list \<times> nat)"
  and copy_dir_recursive :: "bool \<Rightarrow> dir_entries \<Rightarrow> string + (dir_entries \<times> nat)" where
  "copy_node (FsDir (Some sub)) =
     bindR (copy_dir_recursive False sub) (\<lambda>(cs, k). Inr ([FsDir (Some cs)], k))"
| "copy_node (FsDir None) = Inl ''Failed to read directory''"
| "copy_node (FsFile (Some content)) = Inr ([FsFile (Some content)], 1)"
| "copy_node (FsFile None) = Inl ''Failed to copy''"
| "copy_node FsOther = Inr ([], 0)"
| "copy_dir_recursive is_root [] = Inr ([], 0)"
| "copy_dir_recursive is_root ((name, node) # es) =
     (if prefix ''.'' name \<or> (is_root \<and> name = ''new'') then copy_dir_recursive is_root es
      else
        bindR (copy_node node) (\<lambda>(c, k).
        bindR (copy_dir_recursive is_root es) (\<lambda>(cs, n). Inr (map (Pair name) c @ cs, k + n))))"

text \<open>
  The policy directory before and after; the staging directory is its entry \<open>new\<close>. What a failed
  run leaves there is not modelled.
\<close>

definition stage_init :: "bool \<Rightarrow> dir_entries option \<Rightarrow> string + (dir_entries \<times> nat)" where
  "stage_init force current =
     (case current of
        None \<Rightarrow> Inl ''policy directory does not exist''
      | Some entries \<Rightarrow>
          bindR (case map_of entries ''new'' of
              None \<Rightarrow> Inr ()
            | Some (FsDir (Some sub)) \<Rightarrow>
                (if sub \<noteq> [] \<and> \<not> force then Inl ''staging directory is not empty'' else Inr ())
            | Some (FsDir None) \<Rightarrow>
                (if force then Inl ''Failed to clear existing staging directory''
                 else Inl ''staging directory is not empty'')
            | Some _ \<Rightarrow>
                (if force then Inl ''Failed to clear existing staging directory''
                 else Inl ''staging directory is not empty'')) (\<lambda>_.
          bindR (copy_dir_recursive True entries) (\<lambda>(copied, n).
            Inr (AList.update ''new'' (FsDir (Some copied)) entries, n))))"

section \<open>Waiting for the log storm to settle\<close>

text \<open>
  One poll: whether the time is over by then, and the answer: none, one that cannot be read, or
  whether the buffer is used less than the threshold.
\<close>

datatype settle_answer = SaNoAnswer | SaUnreadable | SaUsage bool

datatype settle_result = Settled | SettleTimeout | StillWaiting nat

definition POLL_COUNT :: nat where
  "POLL_COUNT = 3"

fun wait_settle :: "(bool \<times> settle_answer) list \<Rightarrow> nat \<Rightarrow> settle_result" where
  "wait_settle [] n = StillWaiting n"
| "wait_settle ((late, a) # ps) n =
     (if late then SettleTimeout
      else case a of
          SaUsage True \<Rightarrow> (if POLL_COUNT \<le> n then Settled else wait_settle ps (n + 1))
        | SaUsage False \<Rightarrow> wait_settle ps 1
        | _ \<Rightarrow> wait_settle ps n)"

text \<open>Three polls below the threshold end the wait, and not fewer; answers that fail do not count.\<close>

lemma wait_settle_three:
  "wait_settle ((False, SaUsage True) # (False, SaUsage True) # (False, SaUsage True) # ps) 1 = Settled"
  "wait_settle ((False, SaUsage False) # ps) n = wait_settle ps 1"
  "a \<noteq> SaUsage True \<Longrightarrow> a \<noteq> SaUsage False \<Longrightarrow> wait_settle ((False, a) # ps) n = wait_settle ps n"
  by (auto simp: POLL_COUNT_def split: settle_answer.split)

section \<open>The staged copy\<close>

lemma bindR_return [simp]: "bindR m Inr = m"
  by (cases m) simp_all

fun node_names_utf8 :: "fs_node \<Rightarrow> bool" and names_utf8 :: "dir_entries \<Rightarrow> bool" where
  "node_names_utf8 (FsDir (Some sub)) \<longleftrightarrow> names_utf8 sub"
| "node_names_utf8 _ \<longleftrightarrow> True"
| "names_utf8 [] \<longleftrightarrow> True"
| "names_utf8 ((name, node) # es) \<longleftrightarrow> utf8_valid name \<and> node_names_utf8 node \<and> names_utf8 es"

definition not_stage :: "bool \<Rightarrow> dir_entries \<Rightarrow> dir_entries" where
  "not_stage is_root es = filter (\<lambda>(name, _). \<not> (is_root \<and> name = ''new'')) es"

lemma copy_collected:
  "copy_node node = Inr (c, k) \<Longrightarrow> node_names_utf8 node \<Longrightarrow>
     (case c of [] \<Rightarrow> collect_node dir node = Inr [] | [n] \<Rightarrow> collect_node dir n = collect_node dir node
      | _ \<Rightarrow> False)"
  "copy_dir_recursive is_root es = Inr (cs, m) \<Longrightarrow> names_utf8 es \<Longrightarrow>
     collect_entries dir cs = collect_entries dir (not_stage is_root es)"
proof (induction node and is_root es arbitrary: dir c k and dir cs m rule: copy_node_copy_dir_recursive.induct)
  case (1 sub)
  then show ?case by (auto simp: result_simps not_stage_def)
next
  case (7 is_root name node es)
  show ?case
  proof (cases "prefix ''.'' name \<or> (is_root \<and> name = ''new'')")
    case True
    with 7 show ?thesis by (auto simp: not_stage_def is_hidden_def)
  next
    case False
    with 7(4) obtain c k cs' n where
      c: "copy_node node = Inr (c, k)" and cs': "copy_dir_recursive is_root es = Inr (cs', n)"
      and cs: "cs = map (Pair name) c @ cs'" by (auto simp: result_simps)
    have rest: "collect_entries dir cs' = collect_entries dir (not_stage is_root es)"
      using 7(3) [OF False c refl cs'] 7(5) by simp
    have node: "case c of [] \<Rightarrow> collect_node d node = Inr []
        | [n] \<Rightarrow> collect_node d n = collect_node d node | _ \<Rightarrow> False" for d
      using 7(2) [OF False c] 7(5) by simp
    have vis: "\<not> is_hidden name" using False by (simp add: is_hidden_def)
    have "not_stage is_root ((name, node) # es) = (name, node) # not_stage is_root es"
      using False by (simp add: not_stage_def)
    with cs rest vis node [of "dir @ [name]"] show ?thesis
      by (cases c rule: list.exhaust; cases "tl c") (auto split: list.splits)
  qed
qed (auto simp: not_stage_def)

text \<open>
  After the staging directory has been initialised it holds what is in force: its hash is the
  hash of the policy directory without the staging directory, so an update requested without any
  edit carries the hash of the installed policy, whichever hash function is used.
\<close>

theorem stage_init_copies_policy:
  assumes "stage_init force (Some entries) = Inr (entries', n)" and "names_utf8 entries"
  shows "compute_directory_hash sha (map_of entries' ''new'') =
    compute_directory_hash sha (Some (FsDir (Some (not_stage True entries))))"
proof -
  from assms(1) obtain copied where c: "copy_dir_recursive True entries = Inr (copied, n)"
    and e: "entries' = AList.update ''new'' (FsDir (Some copied)) entries"
    by (auto simp: stage_init_def result_simps)
  from copy_collected(2) [OF c assms(2)] have
    "collect_entries [] copied = collect_entries [] (not_stage True entries)" .
  then show ?thesis
    by (simp add: e update_conv' compute_directory_hash_def collect_policy_files_def)
qed

section \<open>The client against the daemon\<close>

lemma split_ws_words:
  "list_all (list_all plain_byte) ws \<Longrightarrow> plain_word s \<Longrightarrow>
   split_whitespace (concat (map (\<lambda>w. w @ '' '') ws) @ s) = filter (\<lambda>w. w \<noteq> []) ws @ [s]"
  unfolding split_whitespace_def
proof (induction ws)
  case Nil
  then show ?case using split_ws_plain [of s "[]" "[]"] by (simp add: split_ws_end plain_word_def)
next
  case (Cons w ws)
  then show ?case
    using split_ws_plain [of w "[]" "'' '' @ concat (map (\<lambda>w. w @ '' '') ws) @ s"]
    by (simp add: split_ws_space)
qed

lemma rust_trim_newline:
  assumes "s \<noteq> []" "plain_byte (hd s)" "plain_byte (last s)"
  shows "rust_trim (s @ [CHR 0x0A]) = s"
proof -
  have "strip_any ws_seqs (s @ [CHR 0x0A]) = None"
    using assms(1,2) by (cases s) (auto simp: strip_plain)
  moreover have "strip_any (map rev ws_seqs) (CHR 0x0A # t) = Some t" for t
    by (simp add: ws_seqs_def)
  moreover have "trim_any (map rev ws_seqs) (rev s) = rev s"
    using rust_trim_plain [OF assms] assms(1,2)
    by (cases s) (simp_all add: rust_trim_def trim_any_fix strip_plain rev_swap)
  ultimately show ?thesis
    by (simp add: rust_trim_def trim_any_fix trim_any.simps [of _ "CHR 0x0A # rev s"])
qed

text \<open>The texts the client may be given: words of printable ASCII, and an id only where one belongs.\<close>

definition client_words_ok :: "client \<Rightarrow> decision_kind \<Rightarrow> string \<Rightarrow> string option \<Rightarrow> bool" where
  "client_words_ok c kind i audit \<longleftrightarrow>
     (if has_id_arg kind then plain_word i else i = []) \<and>
     (case audit of Some a \<Rightarrow> plain_word a | None \<Rightarrow> True) \<and>
     (\<forall>key m. plain_word (cl_hex_encode c (cl_sign c key m)))"

text \<open>What the client and the daemon rely on of keys and signatures, for one key pair.\<close>

definition keys_match :: "client \<Rightarrow> adm \<Rightarrow> string \<Rightarrow> string \<Rightarrow> bool" where
  "keys_match c ax sk pub_hex \<longleftrightarrow>
     (\<exists>pub. wd_hex_decode (ax_world ax) pub_hex = Inr pub \<and> ax_public_key_ok ax pub = Inr () \<and>
        (\<forall>m. ax_bls_verify ax pub m (cl_sign c sk m) \<and>
           ax_signature_bytes_ok ax (cl_sign c sk m) = Inr ())) \<and>
     (\<forall>b. wd_hex_decode (ax_world ax) (cl_hex_encode c b) = Inr b)"

lemma kind_words [simp]: "plain_word (decision_kind_as_str kind)"
  by (cases kind) (simp_all add: plain_word_def plain_byte_def byte_def)

lemma kind_nonempty [simp]: "decision_kind_as_str kind \<noteq> []"
  by (cases kind) simp_all

definition sent_words :: "decision_kind \<Rightarrow> string \<Rightarrow> string option \<Rightarrow> string list" where
  "sent_words kind i audit = [decision_kind_as_str kind, i] @ (case audit of Some a \<Rightarrow> [a] | None \<Rightarrow> [])"

lemma client_line:
  assumes "run_signed_decision c kind i audit = Inr cmd" and "client_words_ok c kind i audit"
  shows "\<exists>sk msg. cl_signing_key c = Inr sk \<and> message_and_command kind i audit = Inr (msg,
      concat (map (\<lambda>w. w @ '' '') (sent_words kind i audit))) \<and>
    cmd = concat (map (\<lambda>w. w @ '' '') (sent_words kind i audit)) @ cl_hex_encode c (cl_sign c sk msg) \<and>
    (is_mgmt_decision kind i \<longleftrightarrow> audit \<noteq> None)"
  using assms
  by (cases audit) (auto simp: run_signed_decision_def message_and_command_def result_simps Let_def
      sent_words_def split: if_splits)

lemma daemon_reads:
  assumes "run_signed_decision c kind i audit = Inr cmd" and ok: "client_words_ok c kind i audit"
    and "cl_signing_key c = Inr sk"
  shows "\<exists>msg. decision_message kind \<lparr>sa_id = i, sa_uid = uid, sa_account = [],
        sa_sig_hex = cl_hex_encode c (cl_sign c sk msg), sa_audit_id = audit\<rparr> = Inr msg \<and>
    parse_args cmd kind uid = Inr \<lparr>sa_id = i, sa_uid = uid, sa_account = [],
        sa_sig_hex = cl_hex_encode c (cl_sign c sk msg), sa_audit_id = audit\<rparr>"
proof -
  from client_line [OF assms(1,2)] assms(3) obtain msg where
    m: "message_and_command kind i audit = Inr (msg, concat (map (\<lambda>w. w @ '' '') (sent_words kind i audit)))"
    and cmd: "cmd = concat (map (\<lambda>w. w @ '' '') (sent_words kind i audit)) @ cl_hex_encode c (cl_sign c sk msg)"
    and a: "is_mgmt_decision kind i \<longleftrightarrow> audit \<noteq> None" by auto
  let ?sig = "cl_hex_encode c (cl_sign c sk msg)"
  have words: "list_all (list_all plain_byte) (sent_words kind i audit)"
    using ok kind_words [of kind]
    by (auto simp: sent_words_def client_words_ok_def plain_word_def split: if_splits option.splits)
  have split: "split_whitespace cmd = filter (\<lambda>w. w \<noteq> []) (sent_words kind i audit) @ [?sig]"
    unfolding cmd by (rule split_ws_words [OF words]) (use ok in \<open>simp add: client_words_ok_def\<close>)
  have mg: "is_mgmt_decision kind i \<Longrightarrow> has_id_arg kind"
    by (auto simp: is_mgmt_decision_def has_id_arg_def)
  show ?thesis
  proof (intro exI [of _ msg] conjI)
    show "decision_message kind \<lparr>sa_id = i, sa_uid = uid, sa_account = [], sa_sig_hex = ?sig,
        sa_audit_id = audit\<rparr> = Inr msg"
      using m a by (auto simp: decision_message_def message_and_command_def Let_def)
    show "parse_args cmd kind uid = Inr \<lparr>sa_id = i, sa_uid = uid, sa_account = [], sa_sig_hex = ?sig,
        sa_audit_id = audit\<rparr>"
      using a ok mg
      by (cases audit; cases "has_id_arg kind")
         (auto simp: parse_args_def split next_word_def sent_words_def client_words_ok_def
           plain_word_def)
  qed
qed

lemma client_bytes:
  assumes "run_signed_decision c kind i audit = Inr cmd" and ok: "client_words_ok c kind i audit"
  shows "cmd \<noteq> []" "plain_byte (hd cmd)" "plain_byte (last cmd)" "\<forall>b \<in> set cmd. byte b < 128"
    "\<exists>sig. split_whitespace cmd = filter (\<lambda>w. w \<noteq> []) (sent_words kind i audit) @ [sig]"
proof -
  from client_line [OF assms] obtain sig where
    cmd: "cmd = concat (map (\<lambda>w. w @ '' '') (sent_words kind i audit)) @ sig" and sig: "plain_word sig"
    using ok by (auto simp: client_words_ok_def)
  have words: "list_all (list_all plain_byte) (sent_words kind i audit)"
    using ok kind_words [of kind]
    by (auto simp: sent_words_def client_words_ok_def plain_word_def split: if_splits option.splits)
  show "cmd \<noteq> []" using sig by (simp add: cmd plain_word_def)
  show "plain_byte (last cmd)" using sig by (simp add: cmd plain_word_def list_all_iff)
  have "plain_byte (hd (decision_kind_as_str kind))"
    using kind_words [of kind] unfolding plain_word_def by (metis hd_in_set list_all_iff)
  then show "plain_byte (hd cmd)" by (simp add: cmd sent_words_def)
  have "plain_byte b \<or> b = CHR '' ''" if "b \<in> set cmd" for b
    using that words sig unfolding cmd plain_word_def list_all_iff by (auto split: if_splits)
  moreover have "plain_byte b \<or> b = CHR '' '' \<Longrightarrow> byte b < 128" for b
    by (auto simp: plain_byte_def byte_def)
  ultimately show "\<forall>b \<in> set cmd. byte b < 128" by blast
  show "\<exists>sig. split_whitespace cmd = filter (\<lambda>w. w \<noteq> []) (sent_words kind i audit) @ [sig]"
    using split_ws_words [OF words sig] cmd by blast
qed

lemma wire_read:
  assumes "run_signed_decision c kind i audit = Inr cmd" and "client_words_ok c kind i audit"
    and "length cmd < 1024"
  shows "rust_trim (utf8_lossy (take 1024 (wire_command cmd))) = cmd"
proof -
  note b = client_bytes [OF assms(1,2)]
  have "last cmd \<noteq> CHR 0x0A" using b(3) by (auto simp: plain_byte_def byte_def)
  with b(1) have "\<not> suffix [CHR 0x0A] cmd" by (auto simp: suffix_def)
  then have w: "take 1024 (wire_command cmd) = cmd @ [CHR 0x0A]"
    using assms(3) by (simp add: wire_command_def)
  have "utf8_valid (cmd @ [CHR 0x0A])"
    using b(4) by (intro utf8_valid_ascii) (auto simp: byte_def)
  with b(1-3) show ?thesis by (simp add: w utf8_lossy_valid rust_trim_newline)
qed

text \<open>
  C14. What the client sends is what the daemon carries out: for a client whose public key is
  registered for its uid, every command the client agrees to send, framed as it frames it, is read
  by the connection handler as that decision with that id and audit id, its signature verifies, and
  the decision is applied for that uid; a ticket request is answered with an error while the epoch
  changes. The line must fit the one read of 1024 bytes.
\<close>

theorem client_request_served:
  assumes sent: "run_signed_decision c kind i audit = Inr cmd" and key: "cl_signing_key c = Inr sk"
    and ok: "client_words_ok c kind i audit" and keys: "keys_match c ax sk pub"
    and reg: "hm_get (d_registered_keys d) uid = Some pub" and len: "length cmd < 1024"
  shows "\<exists>args. sa_id args = i \<and> sa_audit_id args = audit \<and> sa_uid args = uid \<and>
    admin_command ax (rust_trim (utf8_lossy (take 1024 (wire_command cmd)))) uid d =
      (if kind = DkTicket \<and> d_transition d
       then (Reply (line ''ERR policy epoch transition in progress'') None, d)
       else apply_decision ax kind args d)"
proof -
  from daemon_reads [OF sent ok key] obtain msg where
    m: "decision_message kind \<lparr>sa_id = i, sa_uid = uid, sa_account = [],
        sa_sig_hex = cl_hex_encode c (cl_sign c sk msg), sa_audit_id = audit\<rparr> = Inr msg"
    and p: "parse_args cmd kind uid = Inr \<lparr>sa_id = i, sa_uid = uid, sa_account = [],
        sa_sig_hex = cl_hex_encode c (cl_sign c sk msg), sa_audit_id = audit\<rparr>" by blast
  let ?args = "\<lparr>sa_id = i, sa_uid = uid, sa_account = [],
        sa_sig_hex = cl_hex_encode c (cl_sign c sk msg), sa_audit_id = audit\<rparr>"
  have v: "fetch_pubkey_and_verify ax uid kind ?args d = Inr ()"
    using keys m reg by (auto simp: fetch_pubkey_and_verify_def fetch_public_key_def verify_request_def
        verify_signature_message_def keys_match_def)
  have signed: "handle_signed_decision ax cmd kind uid d =
      apply_decision ax kind (?args\<lparr>sa_account := resolve_account ax uid\<rparr>) d"
    using p v by (simp add: handle_signed_decision_def)
  obtain ws where w: "split_whitespace cmd = decision_kind_as_str kind # ws"
    using client_bytes(5) [OF sent ok] by (auto simp: sent_words_def)
  have "admin_command ax cmd uid d =
      (if kind = DkTicket then handle_ticket ax cmd uid d else handle_signed_decision ax cmd kind uid d)"
    by (cases kind) (simp_all add: admin_command_def w)
  then show ?thesis
    unfolding wire_read [OF sent ok len]
    by (intro exI [of _ "?args\<lparr>sa_account := resolve_account ax uid\<rparr>"])
       (use signed in \<open>auto simp: handle_ticket_def\<close>)
qed

text \<open>
  An update request is tied to the staged policy: the hash the client puts into it is the one
  the daemon computes when it validates the staged directory, so the check passes as long as the
  directory has not changed in between, and fails with the error of a mismatch when it has another
  hash by then.
\<close>

theorem update_request_bound_to_stage:
  assumes "update_run c (ax_sha256_hex ax) load stage = Inr cmd"
  shows "\<exists>h. run_signed_decision c DkPolicyUpdate h None = Inr cmd \<and>
    (\<forall>ax'. ax_sha256_hex ax' = ax_sha256_hex ax \<longrightarrow>
      validate_staged_policy ax' h =
        (case compute_directory_hash (ax_sha256_hex ax) (ax_stage_tree ax') of
           Inl e \<Rightarrow> Inl (''staged policy hash failed: '' @ e)
         | Inr h' \<Rightarrow> if compute_directory_hash (ax_sha256_hex ax) stage = Inr h' then Inr ()
             else Inl ''TOCTOU validation failed: hash mismatch''))"
  using assms
  by (auto simp: update_run_def result_simps validate_staged_policy_def map_err_def
      split: sum.splits if_splits)

text \<open>
  The break-glass command of the client has no counterpart: the daemon answers that it does not
  know the command, and nothing changes.
\<close>

theorem emergency_unknown:
  assumes "plain_word token" and "length token < 1000"
  shows "client_command_text c (CcEmergency token) = Inr (''EMERGENCY '' @ token)"
    and "handle_admin_connection ax (Some uid) (Some (wire_command (''EMERGENCY '' @ token))) d =
      (Some (line ''ERR unknown cmd''), d)"
proof -
  let ?cmd = "''EMERGENCY '' @ token"
  have last: "plain_byte (last token)" "token \<noteq> []"
    using assms(1) by (auto simp: plain_word_def list_all_iff)
  have "last token \<noteq> CHR 0x0A" using last by (auto simp: plain_byte_def byte_def)
  moreover have "last ?cmd = last token" using last by simp
  ultimately have ns: "\<not> suffix [CHR 0x0A] ?cmd" by (metis last_snoc suffix_def)
  have l: "rust_trim (?cmd @ [CHR 0x0A]) = ?cmd"
    using last by (intro rust_trim_newline) (simp_all add: plain_byte_def byte_def)
  have "utf8_valid (?cmd @ [CHR 0x0A])"
    using assms(1) by (intro utf8_valid_ascii) (auto simp: plain_word_def list_all_iff plain_byte_def byte_def)
  then have "utf8_lossy (?cmd @ [CHR 0x0A]) = ?cmd @ [CHR 0x0A]" by (rule utf8_lossy_valid)
  with l have r: "rust_trim (utf8_lossy (take 1024 (wire_command ?cmd))) = ?cmd"
    using assms(2) ns by (simp add: wire_command_def)
  have "list_all plain_word [''EMERGENCY'', token]"
    using assms(1) by (simp add: plain_word_def plain_byte_def byte_def)
  from split_whitespace_words [OF this] have w: "split_whitespace ?cmd = [''EMERGENCY'', token]" by simp
  show "handle_admin_connection ax (Some uid) (Some (wire_command ?cmd)) d =
      (Some (line ''ERR unknown cmd''), d)"
    unfolding handle_admin_connection_def using r w ns
    by (simp add: admin_command_def wire_command_def)
qed simp

end
