(* ===== verification/Client_Samples.thy ===== *)
theory Client_Samples
  imports Client Admin_Samples
begin

text \<open>
  A client, its key and a staged policy, at which the theorems about the client are applied. The
  sample scheme signs with the message itself behind a tag and writes bytes as two letters.
\<close>

definition letters :: "string \<Rightarrow> string" where
  "letters s = concat (map (\<lambda>c. [char_of (65 + byte c div 16), char_of (65 + byte c mod 16)]) s)"

fun unletters :: "string \<Rightarrow> string" where
  "unletters (a # b # s) = char_of ((byte a - 65) * 16 + (byte b - 65)) # unletters s"
| "unletters _ = []"

lemma byte_bound: "byte c < 256"
  unfolding byte_def by (metis mod_less_divisor of_char_mod_256 zero_less_numeral)

lemma unletters_letters [simp]: "unletters (letters s) = s"
proof (induction s)
  case (Cons c s)
  have b: "byte c div 16 < 16" using byte_bound [of c] by (simp add: less_mult_imp_div_less)
  have "byte (char_of (65 + n)) = 65 + n" if "n < 16" for n :: nat
    using that by (simp add: byte_def)
  with b Cons show ?case by (simp add: letters_def byte_def)
qed (simp add: letters_def)

lemma letters_bytes: "list_all plain_byte (letters s)"
proof (induction s)
  case (Cons c s)
  have b: "byte c div 16 < 16" "byte c mod 16 < 16"
    using byte_bound [of c] by (simp_all add: less_mult_imp_div_less)
  have "plain_byte (char_of (65 + n))" if "n < 16" for n :: nat
    using that by (simp add: plain_byte_def byte_def)
  with b Cons show ?case by (simp add: letters_def)
qed (simp add: letters_def)

lemma letters_plain: "s \<noteq> [] \<Longrightarrow> plain_word (letters s)"
  using letters_bytes [of s] by (cases s) (simp_all add: plain_word_def letters_def)

definition sample_client :: client where
  "sample_client =
     \<lparr>cl_signing_key = Inr ''k'', cl_sign = (\<lambda>key m. ''s'' @ m), cl_hex_encode = letters,
      cl_uuid_ok = (\<lambda>_. True)\<rparr>"

definition client_adm :: adm where
  "client_adm = sample_adm
     \<lparr>ax_world := sample_world\<lparr>wd_hex_decode := (\<lambda>s. Inr (unletters s))\<rparr>,
      ax_bls_verify := (\<lambda>key m sig. sig = ''s'' @ m)\<rparr>"

lemma sample_keys_match: "keys_match sample_client client_adm ''k'' ''k''"
  by (simp add: keys_match_def sample_client_def client_adm_def sample_adm_def)

lemma sample_request:
  "run_signed_decision sample_client DkStop [] None = Inr (''STOP  '' @ letters ''sSTOP:'')"
  by (simp add: run_signed_decision_def sample_client_def is_mgmt_decision_def message_and_command_def)

lemma client_request_served_witness:
  "\<exists>args. sa_id args = [] \<and> sa_audit_id args = None \<and> sa_uid args = 0 \<and>
     admin_command client_adm (rust_trim (utf8_lossy (take 1024 (wire_command
       (''STOP  '' @ letters ''sSTOP:''))))) 0 keyed_daemon = apply_decision client_adm DkStop args keyed_daemon"
proof -
  have "client_words_ok sample_client DkStop [] None"
    by (simp add: client_words_ok_def has_id_arg_def sample_client_def letters_plain)
  moreover have "cl_signing_key sample_client = Inr ''k''"
    "hm_get (d_registered_keys keyed_daemon) 0 = Some ''k''" "length (''STOP  '' @ letters ''sSTOP:'') < 1024"
    by (simp_all add: sample_client_def keyed_daemon_def hm_get_def letters_def)
  ultimately have "\<exists>args. sa_id args = [] \<and> sa_audit_id args = None \<and> sa_uid args = 0 \<and>
     admin_command client_adm (rust_trim (utf8_lossy (take 1024 (wire_command
       (''STOP  '' @ letters ''sSTOP:''))))) 0 keyed_daemon =
     (if DkStop = DkTicket \<and> d_transition keyed_daemon
      then (Reply (line ''ERR policy epoch transition in progress'') None, keyed_daemon)
      else apply_decision client_adm DkStop args keyed_daemon)"
    using client_request_served [OF sample_request _ _ sample_keys_match] by blast
  then show ?thesis by simp
qed

definition sample_stage :: "fs_node option" where
  "sample_stage = Some (policy_tree ''a.json'' ''b.json'')"

lemma update_request_bound_to_stage_witness:
  "\<exists>cmd h. update_run sample_client (ax_sha256_hex sample_adm) (\<lambda>_. Inr sample_bundle) sample_stage = Inr cmd \<and>
     run_signed_decision sample_client DkPolicyUpdate h None = Inr cmd \<and> validate_staged_policy sample_adm h = Inr ()"
proof -
  have h: "compute_directory_hash (ax_sha256_hex sample_adm) sample_stage = Inr ''{}{A}{B}''"
    using sample_tree_hash by (simp add: sample_adm_def sample_stage_def)
  then obtain cmd where c:
    "update_run sample_client (ax_sha256_hex sample_adm) (\<lambda>_. Inr sample_bundle) sample_stage = Inr cmd"
    by (auto simp: update_run_def sample_stage_def run_signed_decision_def sample_client_def
        is_mgmt_decision_def message_and_command_def)
  from update_request_bound_to_stage [OF c] obtain h' where
    1: "run_signed_decision sample_client DkPolicyUpdate h' None = Inr cmd" and
    2: "ax_sha256_hex sample_adm = ax_sha256_hex sample_adm \<Longrightarrow> validate_staged_policy sample_adm h' =
        (case compute_directory_hash (ax_sha256_hex sample_adm) (ax_stage_tree sample_adm) of
           Inl e \<Rightarrow> Inl (''staged policy hash failed: '' @ e)
         | Inr x \<Rightarrow> if compute_directory_hash (ax_sha256_hex sample_adm) sample_stage = Inr x then Inr ()
             else Inl ''TOCTOU validation failed: hash mismatch'')" by blast
  have "validate_staged_policy sample_adm h' = Inr ()"
    using 2 h by (simp add: sample_adm_def sample_stage_def)
  with c 1 show ?thesis by blast
qed

text \<open>A policy directory with a hidden file, a subdirectory and an empty staging directory.\<close>

definition sample_entries :: dir_entries where
  "sample_entries =
     [(''bundle.json'', FsFile (Some ''{}'')), (''new'', FsDir (Some [])),
      (''policies'', FsDir (Some [(''a.json'', FsFile (Some ''{A}''))]))]"

lemma stage_init_copies_policy_witness:
  "\<exists>entries' n. stage_init False (Some sample_entries) = Inr (entries', n) \<and>
     compute_directory_hash (\<lambda>s. s) (map_of entries' ''new'') =
       compute_directory_hash (\<lambda>s. s) (Some (FsDir (Some (not_stage True sample_entries))))"
proof -
  have i: "stage_init False (Some sample_entries) = Inr (AList.update ''new'' (FsDir (Some
      [(''bundle.json'', FsFile (Some ''{}'')),
       (''policies'', FsDir (Some [(''a.json'', FsFile (Some ''{A}''))]))])) sample_entries, 2)"
    by (simp add: stage_init_def sample_entries_def)
  have "names_utf8 sample_entries"
    by (simp add: sample_entries_def utf8_valid_ascii byte_def)
  from stage_init_copies_policy [OF i this] i show ?thesis by blast
qed

end
