(* ===== verification/Log_View.thy ===== *)
theory Log_View
  imports Ai_Aggregate
begin

text \<open>
  \<open>teal-logview/src/main.rs\<close>, first part: reading the log, the index of tickets, the columns of an
  entry and the commands \<open>view\<close> and \<open>tail\<close>. Decoding a JSON line, reading a clock value, printing an
  instant and the crate \<open>glob\<close> are parameters. What is modelled of a run is its standard output
  and how it ends; messages on the error stream are left out. A slice of a string that does not
  end at a character is a panic, which is the value \<open>None\<close> of everything that prints.
\<close>

section \<open>The environment\<close>

record view_env =
  ve_decode :: "string \<Rightarrow> audit_log_entry option"   \<comment> \<open>\<open>serde_json::from_str\<close>\<close>
  ve_instant :: "u64 \<Rightarrow> instant"                     \<comment> \<open>the clock value of an entry\<close>
  ve_rfc3339 :: "instant \<Rightarrow> string"                  \<comment> \<open>\<open>DateTime::to_rfc3339\<close>\<close>
  ve_glob :: "string \<Rightarrow> (string \<Rightarrow> bool) option"    \<comment> \<open>\<open>glob::Pattern::new\<close> and \<open>matches\<close>\<close>

definition entry_ts :: "view_env \<Rightarrow> audit_log_entry \<Rightarrow> instant" where
  "entry_ts v e = ve_instant v (al_ts e)"

text \<open>\<open>BufRead::lines\<close>: the last line may lack its newline, and a line must be valid UTF-8.\<close>

definition strip_cr :: "string \<Rightarrow> string" where
  "strip_cr l = (if l \<noteq> [] \<and> last l = CHR 0x0D then butlast l else l)"

definition raw_lines :: "string \<Rightarrow> string list" where
  "raw_lines content =
     (let ps = split_on (CHR 0x0A) content
      in map strip_cr (butlast ps) @ (if last ps = [] then [] else [last ps]))"

definition buf_lines :: "string \<Rightarrow> (unit + string) list" where
  "buf_lines content = map (\<lambda>l. if utf8_valid l then Inr l else Inl ()) (raw_lines content)"

section \<open>The index of tickets\<close>

record ticket_metadata =
  tm_original_path :: string
  tm_new_path :: "string option"

type_synonym ticket_index = "(string, ticket_metadata) hmap"

definition index_entry :: "audit_log_entry \<Rightarrow> ticket_index \<Rightarrow> ticket_index" where
  "index_entry e idx =
     (if al_log_type e = InteractiveDecision \<or> al_log_type e = AccessAllowed then
        (case al_auth e of
           SlowPath p _ \<Rightarrow>
             (case pv_issued_ticket p of
                Some info \<Rightarrow>
                  hm_insert (it_ticket_id info)
                    \<lparr>tm_original_path = oi_path (sy_object (al_syscall e)),
                     tm_new_path = oi_new_path (sy_object (al_syscall e))\<rparr> idx
              | None \<Rightarrow> idx)
         | FastPath _ \<Rightarrow> idx)
      else if al_log_type e = TicketExpired then
        (case al_auth e of FastPath t \<Rightarrow> hm_remove (tf_ticket_id t) idx | SlowPath _ _ \<Rightarrow> idx)
      else idx)"

definition process_log_line ::
  "view_env \<Rightarrow> string \<Rightarrow> ticket_index \<Rightarrow> audit_log_entry option \<times> ticket_index" where
  "process_log_line v line idx =
     (case ve_decode v line of None \<Rightarrow> (None, idx) | Some e \<Rightarrow> (Some e, index_entry e idx))"

definition resolve_target_path ::
  "audit_log_entry \<Rightarrow> ticket_index \<Rightarrow> string \<times> string option" where
  "resolve_target_path e idx =
     (if al_log_type e = TicketConsumed then
        (case al_auth e of
           FastPath t \<Rightarrow>
             (case hm_get idx (tf_ticket_id t) of
                Some m \<Rightarrow> (tm_original_path m, tm_new_path m)
              | None \<Rightarrow> (''UNKNOWN (Expired or Lost)'', None))
         | SlowPath _ _ \<Rightarrow> (''ERROR'', None))
      else (oi_path (sy_object (al_syscall e)), oi_new_path (sy_object (al_syscall e))))"

section \<open>The columns of an entry\<close>

fun log_type_name :: "log_type \<Rightarrow> string" where
  "log_type_name InteractiveDecision = ''INTERACTIVE_DECISION''"
| "log_type_name AccessAllowed = ''ACCESS_ALLOWED''"
| "log_type_name AccessDenied = ''ACCESS_DENIED''"
| "log_type_name TicketIssued = ''TICKET_ISSUED''"
| "log_type_name TicketConsumed = ''TICKET_CONSUMED''"
| "log_type_name TicketExpired = ''TICKET_EXPIRED''"
| "log_type_name LogNotManaged = ''NOT_MANAGED''"

definition extract_log_type :: "audit_log_entry \<Rightarrow> string" where
  "extract_log_type e = log_type_name (al_log_type e)"

definition extract_rule_id :: "audit_log_entry \<Rightarrow> string" where
  "extract_rule_id e = (case al_auth e of SlowPath p _ \<Rightarrow> pv_rule_id p | FastPath _ \<Rightarrow> ''-'')"

definition extract_result :: "audit_log_entry \<Rightarrow> string" where
  "extract_result e =
     (case al_auth e of
        FastPath _ \<Rightarrow> ''FAST PATH''
      | SlowPath p _ \<Rightarrow> to_uppercase (effect_debug (pv_decision p)))"

definition extract_ticket_id :: "audit_log_entry \<Rightarrow> string" where
  "extract_ticket_id e =
     (case al_auth e of
        FastPath t \<Rightarrow> tf_ticket_id t
      | SlowPath p _ \<Rightarrow>
          (case pv_issued_ticket p of Some issued \<Rightarrow> it_ticket_id issued | None \<Rightarrow> ''-''))"

definition or_dash :: "string option \<Rightarrow> string" where
  "or_dash s = (case s of Some x \<Rightarrow> x | None \<Rightarrow> ''-'')"

definition extract_subject_path :: "audit_log_entry \<Rightarrow> string" where
  "extract_subject_path e = si_path (sy_subject (al_syscall e))"

definition extract_script :: "audit_log_entry \<Rightarrow> string" where
  "extract_script e = or_dash (si_script_path (sy_subject (al_syscall e)))"

definition extract_applet :: "audit_log_entry \<Rightarrow> string" where
  "extract_applet e = or_dash (si_applet (sy_subject (al_syscall e)))"

definition extract_session_tty :: "audit_log_entry \<Rightarrow> string" where
  "extract_session_tty e = or_dash (si_session_tty (sy_subject (al_syscall e)))"

text \<open>\<open>str::is_char_boundary\<close> and the slice \<open>&s[..n]\<close>.\<close>

definition is_char_boundary :: "nat \<Rightarrow> string \<Rightarrow> bool" where
  "is_char_boundary n s \<longleftrightarrow> n = length s \<or> (n < length s \<and> \<not> is_cont (s ! n))"

definition slice_to :: "nat \<Rightarrow> string \<Rightarrow> string option" where
  "slice_to n s = (if is_char_boundary n s then Some (take n s) else None)"

definition extract_args_short :: "audit_log_entry \<Rightarrow> string option" where
  "extract_args_short e =
     (case si_args (sy_subject (al_syscall e)) of
        Some args \<Rightarrow>
          (if length args > 30 then map_option (\<lambda>s. s @ ''...'') (slice_to 27 args) else Some args)
      | None \<Rightarrow> Some ''-'')"

section \<open>Output\<close>

datatype output_mode = Brief | Debug | Trace

definition header_output :: "output_mode \<Rightarrow> string list" where
  "header_output mode =
     (case mode of
        Brief \<Rightarrow> [''TIME,USER,ACTION,TARGET,NEW_TARGET,RESULT,RULE_ID'']
      | Debug \<Rightarrow>
          [''TIME,LOG_TYPE,USER,ACTION,TARGET,NEW_TARGET,ARGS,RESULT,RULE_ID,TICKET,EPOCH,PROG,SCRIPT,APPLET,TTY'']
      | Trace \<Rightarrow> [])"

definition colour :: "string \<Rightarrow> string \<Rightarrow> string" where
  "colour code s = CHR 0x1B # ''['' @ code @ ''m'' @ s @ CHR 0x1B # ''[0m''"

definition display_result :: "bool \<Rightarrow> string \<Rightarrow> string" where
  "display_result is_tty raw =
     (if is_tty then
        (if raw = ''ALLOW'' then colour ''32'' raw
         else if raw = ''DENY'' then colour ''31'' raw
         else if raw = ''FAST PATH'' then colour ''33'' raw
         else raw)
      else raw)"

definition in_quotes :: "string \<Rightarrow> string" where
  "in_quotes s = CHR 0x22 # s @ [CHR 0x22]"

definition no_commas :: "string \<Rightarrow> string" where
  "no_commas s = replace_all '','' '' '' s"

definition format_output ::
  "view_env \<Rightarrow> bool \<Rightarrow> audit_log_entry \<Rightarrow> ticket_index \<Rightarrow> output_mode \<Rightarrow> string list option" where
  "format_output v is_tty e idx mode =
     (let (target, new_target) = resolve_target_path e idx;
          shown = display_result is_tty (extract_result e);
          time = ve_rfc3339 v (entry_ts v e);
          user = sy_user (al_syscall e);
          act = no_commas (sy_action (al_syscall e))
      in case mode of
           Brief \<Rightarrow> Some [join '','' [time, user, act, in_quotes target, in_quotes (or_dash new_target),
             shown, extract_rule_id e]]
         | Debug \<Rightarrow>
             map_option (\<lambda>args. [join '','' [time, extract_log_type e, user, act, in_quotes target,
               in_quotes (or_dash new_target),
               in_quotes (replace_all [CHR 0x22] [CHR 0x22, CHR 0x22] args), shown, extract_rule_id e,
               extract_ticket_id e, show_u32 (al_epoch e), extract_subject_path e, extract_script e,
               extract_applet e, extract_session_tty e]])
               (extract_args_short e)
         | Trace \<Rightarrow> Some [])"

section \<open>The command \<open>view\<close>\<close>

record view_args =
  va_since :: "instant option"
  va_until :: "instant option"
  va_ticket :: "string option"
  va_epoch :: "u32 option"
  va_deny_only :: bool
  va_path :: "string option"
  va_mode :: output_mode

definition view_selects :: "view_env \<Rightarrow> view_args \<Rightarrow> audit_log_entry \<Rightarrow> ticket_index \<Rightarrow> bool" where
  "view_selects v a e idx =
     (if (case va_since a of Some t \<Rightarrow> entry_ts v e < t | None \<Rightarrow> False) then False
      else if (case va_until a of Some t \<Rightarrow> t < entry_ts v e | None \<Rightarrow> False) then False
      else if (case va_ticket a of Some t \<Rightarrow> extract_ticket_id e \<noteq> t | None \<Rightarrow> False) then False
      else if (case va_path a of
                 Some f \<Rightarrow>
                   (let (target, new_path) = resolve_target_path e idx
                    in target \<noteq> f \<and> extract_subject_path e \<noteq> f \<and> new_path \<noteq> Some f)
               | None \<Rightarrow> False) then False
      else if va_deny_only a \<and> extract_result e \<noteq> ''DENY'' then False
      else (case va_epoch a of Some ep \<Rightarrow> al_epoch e = ep | None \<Rightarrow> True))"

datatype view_end = ViewDone | ViewReadError | ViewPanic

fun view_loop ::
  "view_env \<Rightarrow> bool \<Rightarrow> view_args \<Rightarrow> (unit + string) list \<Rightarrow> ticket_index \<Rightarrow> string list \<times> view_end" where
  "view_loop v tty a [] idx = ([], ViewDone)"
| "view_loop v tty a (Inl _ # ls) idx = ([], ViewReadError)"
| "view_loop v tty a (Inr line # ls) idx =
     (case process_log_line v line idx of
        (None, idx1) \<Rightarrow> view_loop v tty a ls idx1
      | (Some e, idx1) \<Rightarrow>
          (if view_selects v a e idx1 then
             (case format_output v tty e idx1 (va_mode a) of
                None \<Rightarrow> ([], ViewPanic)
              | Some out \<Rightarrow> (case view_loop v tty a ls idx1 of (rest, en) \<Rightarrow> (out @ rest, en)))
           else view_loop v tty a ls idx1))"

definition run_view :: "view_env \<Rightarrow> bool \<Rightarrow> view_args \<Rightarrow> string \<Rightarrow> string list \<times> view_end" where
  "run_view v tty a content =
     (case view_loop v tty a (buf_lines content) [] of
        (out, en) \<Rightarrow> (header_output (va_mode a) @ out, en))"

section \<open>The command \<open>tail\<close>\<close>

text \<open>
  One turn of the endless loop: what \<open>read_line\<close> hands over is nothing new, a line with its
  newline, or an error; only a line changes the index or prints.
\<close>

datatype tail_read = TailEof | TailLine string | TailError

definition tail_step ::
  "view_env \<Rightarrow> bool \<Rightarrow> output_mode \<Rightarrow> tail_read \<Rightarrow> ticket_index \<Rightarrow> string list option \<times> ticket_index" where
  "tail_step v tty mode r idx =
     (case r of
        TailEof \<Rightarrow> (Some [], idx)
      | TailError \<Rightarrow> (Some [], idx)
      | TailLine line \<Rightarrow>
          (let trimmed = rust_trim line
           in if trimmed = [] then (Some [], idx)
              else (case process_log_line v trimmed idx of
                      (Some e, idx1) \<Rightarrow> (format_output v tty e idx1 mode, idx1)
                    | (None, idx1) \<Rightarrow> (Some [], idx1))))"

fun run_tail ::
  "view_env \<Rightarrow> bool \<Rightarrow> output_mode \<Rightarrow> tail_read list \<Rightarrow> ticket_index \<Rightarrow> string list option" where
  "run_tail v tty mode [] idx = Some []"
| "run_tail v tty mode (r # rs) idx =
     (case tail_step v tty mode r idx of
        (None, _) \<Rightarrow> None
      | (Some out, idx1) \<Rightarrow> map_option (\<lambda>rest. out @ rest) (run_tail v tty mode rs idx1))"

end
