(* ===== verification/Log_Optimize.thy ===== *)
theory Log_Optimize
  imports Compile_Policy "HOL-Library.Multiset" "HOL-Library.List_Lexorder" "HOL-Library.Char_ord"
    "HOL-Library.Product_Lexorder" "HOL-Library.Option_ord"
begin

text \<open>
  \<open>teal-logview/src/main.rs\<close>, second part: the optimisation of a policy, which drops every rule
  that another rule with the same effect and audit level is taken to contain. The order in which
  a \<open>HashMap\<close> hands out its groups is a parameter.
\<close>

section \<open>Paths of raw rules\<close>

definition trim_start_matches :: "string \<Rightarrow> string \<Rightarrow> string" where
  "trim_start_matches p s = trim_any [p] s"

definition clean_path :: "string \<Rightarrow> string" where
  "clean_path s = trim_start_matches ''glob:'' (trim_start_matches ''prefix:'' s)"

definition effective_path_len :: "string \<Rightarrow> nat" where
  "effective_path_len s = length (clean_path s)"

definition json_path_contains :: "string \<Rightarrow> string \<Rightarrow> bool" where
  "json_path_contains kept target =
     (if kept = target then True
      else if prefix ''prefix:'' kept then
        (let base = trim_start_matches ''prefix:'' kept; t = clean_path target
         in if \<not> prefix base t then False
            else if (base \<noteq> [] \<and> last base = CHR ''/'') \<or> length t = length base then True
            else prefix ''/'' (drop (length base) t))
      else False)"

section \<open>Grouping and sorting\<close>

record merge_key =
  mk_effect :: string
  mk_audit_level :: "string option"

definition merge_key_of :: "raw_rule \<Rightarrow> merge_key" where
  "merge_key_of r =
     \<lparr>mk_effect = effect_as_str (rr_effect r),
      mk_audit_level = Some (audit_level_as_str (rr_audit_level r))\<rparr>"

type_synonym rule_groups = "(merge_key, raw_rule list) hmap"

definition push_group :: "raw_rule \<Rightarrow> rule_groups \<Rightarrow> rule_groups" where
  "push_group r m =
     (let k = merge_key_of r
      in hm_insert k ((case hm_get m k of Some rs \<Rightarrow> rs | None \<Rightarrow> []) @ [r]) m)"

definition group_rules_by_effect_and_audit :: "raw_rule list \<Rightarrow> rule_groups" where
  "group_rules_by_effect_and_audit rules = fold push_group rules []"

definition object_path :: "raw_rule \<Rightarrow> string option" where
  "object_path r = map_option rob_path (rr_object r)"

definition object_new_path :: "raw_rule \<Rightarrow> string option" where
  "object_new_path r = Option.bind (rr_object r) rob_new_path"

definition opt_len :: "string option \<Rightarrow> nat" where
  "opt_len s = (case s of Some p \<Rightarrow> effective_path_len p | None \<Rightarrow> 0)"

definition login_context_key ::
  "raw_login_context \<Rightarrow> string option \<times> string option \<times> bool option \<times> bool option" where
  "login_context_key lc =
     (rlc_source_ip lc, rlc_auth_method lc, rlc_require_interactive_tty lc,
      rlc_bind_registered_session lc)"

text \<open>The seven comparisons as one key; the last one is descending.\<close>

definition optimization_key ::
  "raw_rule \<Rightarrow> nat \<times> nat \<times> nat \<times> string option \<times> string option \<times>
     (string option \<times> string option \<times> bool option \<times> bool option) option \<times> int" where
  "optimization_key r =
     (let s = rr_subject r
      in (opt_len (object_path r), opt_len (object_new_path r), opt_len (rsu_origin_program s),
          rsu_origin_applet s, rsu_user s, map_option login_context_key (rsu_login_context s),
          - int (length (rac_ops (rr_action r)))))"

definition sort_rules_for_optimization :: "raw_rule list \<Rightarrow> raw_rule list" where
  "sort_rules_for_optimization = sort_key optimization_key"

definition or_empty :: "string option \<Rightarrow> string" where
  "or_empty s = (case s of Some x \<Rightarrow> x | None \<Rightarrow> [])"

definition display_key ::
  "raw_rule \<Rightarrow> string option \<times> string option \<times> string \<times> string \<times> string option" where
  "display_key r =
     (let s = rr_subject r
      in (rsu_origin_program s, rsu_origin_applet s, or_empty (object_path r),
          or_empty (object_new_path r), rsu_user s))"

definition sort_rules_for_display :: "raw_rule list \<Rightarrow> raw_rule list" where
  "sort_rules_for_display = sort_key display_key"

section \<open>Containment\<close>

definition login_context_shadowed ::
  "raw_login_context option \<Rightarrow> raw_login_context option \<Rightarrow> bool" where
  "login_context_shadowed kept cur =
     (case (kept, cur) of
        (None, _) \<Rightarrow> True
      | (Some _, None) \<Rightarrow> False
      | (Some k, Some c) \<Rightarrow>
          (rlc_source_ip k = None \<or> rlc_source_ip k = rlc_source_ip c) \<and>
          (rlc_auth_method k = None \<or> rlc_auth_method k = rlc_auth_method c) \<and>
          (rlc_require_interactive_tty k = None \<or>
             rlc_require_interactive_tty k = rlc_require_interactive_tty c) \<and>
          (rlc_bind_registered_session k = None \<or>
             rlc_bind_registered_session k = rlc_bind_registered_session c))"

definition object_shadowed :: "raw_object option \<Rightarrow> raw_object option \<Rightarrow> bool" where
  "object_shadowed kept cur =
     (case (kept, cur) of
        (None, None) \<Rightarrow> True
      | (Some k, Some c) \<Rightarrow>
          json_path_contains (rob_path k) (rob_path c) \<and>
          (case (rob_new_path k, rob_new_path c) of
             (None, _) \<Rightarrow> True
           | (Some _, None) \<Rightarrow> False
           | (Some kn, Some cn) \<Rightarrow> json_path_contains kn cn)
      | _ \<Rightarrow> False)"

definition is_shadowed :: "raw_rule \<Rightarrow> raw_rule \<Rightarrow> bool" where
  "is_shadowed cur kept =
     (let ks = rr_subject kept; cs = rr_subject cur
      in (rsu_origin_program ks = None \<or> or_empty (rsu_origin_program ks) = [] \<or>
            json_path_contains (or_empty (rsu_origin_program ks)) (or_empty (rsu_origin_program cs))) \<and>
         (rsu_origin_applet ks = None \<or> rsu_origin_applet ks = rsu_origin_applet cs) \<and>
         (rsu_user ks = None \<or> rsu_user ks = rsu_user cs) \<and>
         login_context_shadowed (rsu_login_context ks) (rsu_login_context cs) \<and>
         object_shadowed (rr_object kept) (rr_object cur) \<and>
         (\<forall>op \<in> set (rac_ops (rr_action cur)). op \<in> set (rac_ops (rr_action kept))))"

definition merged_note :: string where
  "merged_note = ''Merged with narrower rules''"

definition update_reason :: "string option \<Rightarrow> string" where
  "update_reason reason =
     (case reason of
        Some r \<Rightarrow> if sublist merged_note r then r else r @ '' ('' @ merged_note @ '')''
      | None \<Rightarrow> merged_note)"

text \<open>One rule of the loop: the first kept rule that contains it absorbs it.\<close>

fun absorb :: "bool \<Rightarrow> raw_rule \<Rightarrow> raw_rule list \<Rightarrow> raw_rule list" where
  "absorb annotate cur [] = [cur]"
| "absorb annotate cur (k # ks) =
     (if is_shadowed cur k then
        (if annotate then k\<lparr>rr_reason := Some (update_reason (rr_reason k))\<rparr> else k) # ks
      else k # absorb annotate cur ks)"

definition filter_shadowed_rules :: "raw_rule list \<Rightarrow> bool \<Rightarrow> raw_rule list" where
  "filter_shadowed_rules rules annotate = fold (absorb annotate) rules []"

section \<open>Rule identifiers and the whole optimisation\<close>

fun unique_ids :: "raw_rule list \<Rightarrow> (string, nat) hmap \<Rightarrow> raw_rule list" where
  "unique_ids [] seen = []"
| "unique_ids (r # rs) seen =
     (let n = (case hm_get seen (rr_id r) of Some c \<Rightarrow> c | None \<Rightarrow> 0)
      in (if n > 0 then r\<lparr>rr_id := rr_id r @ ''-'' @ show_nat n\<rparr> else r)
           # unique_ids rs (hm_insert (rr_id r) (n + 1) seen))"

definition ensure_unique_rule_ids :: "raw_rule list \<Rightarrow> raw_rule list" where
  "ensure_unique_rule_ids rules = unique_ids rules []"

definition optimize_rules ::
  "(rule_groups \<Rightarrow> rule_groups) \<Rightarrow> raw_rule list \<Rightarrow> bool \<Rightarrow> raw_rule list" where
  "optimize_rules arrange rules annotate =
     (let groups = arrange (group_rules_by_effect_and_audit rules);
          kept = concat (map (\<lambda>g. filter_shadowed_rules (sort_rules_for_optimization g) annotate)
                   (hm_values groups))
      in sort_rules_for_display (ensure_unique_rule_ids kept))"

text \<open>The command \<open>optimize\<close>, between the JSON it reads and the JSON it prints.\<close>

definition optimize_policy :: "(rule_groups \<Rightarrow> rule_groups) \<Rightarrow> bool \<Rightarrow> raw_policy \<Rightarrow> raw_policy" where
  "optimize_policy arrange annotate draft =
     draft\<lparr>rp_rules := optimize_rules arrange (rp_rules draft) annotate\<rparr>"

end
