(* ===== verification/Log_Profile.thy ===== *)
theory Log_Profile
  imports Log_View Log_Optimize
begin

text \<open>
  \<open>teal-logview/src/main.rs\<close>, third part: the command \<open>profile\<close>, which drafts a policy from the log.
  Accesses are collected by who did what to which object; to calm a storm, accesses to several
  files of a directory are taken together; every pattern that is left becomes a rule. The order in
  which each \<open>HashMap\<close> is read is a parameter. Progress messages are left out.
\<close>

section \<open>Parents of paths\<close>

text \<open>
  \<open>Path::parent\<close>: the last component goes, and with it the separators and the components \<open>.\<close> around
  it. What comes before the body of a path is its root or a leading \<open>.\<close>.
\<close>

definition body_start :: "path \<Rightarrow> nat" where
  "body_start s = (if prefix ''/'' s \<or> s = ''.'' \<or> prefix ''./'' s then 1 else 0)"

definition last_component :: "nat \<Rightarrow> path \<Rightarrow> nat \<times> string" where
  "last_component start s =
     (let body = drop start s; lastc = rev (takeWhile (\<lambda>c. c \<noteq> CHR ''/'') (rev body))
      in (length lastc + (if CHR ''/'' \<in> set body then 1 else 0), lastc))"

lemma last_component_shorter:
  "start < length s \<Longrightarrow> (n, c) = last_component start s \<Longrightarrow> length s - n < length s"
  by (cases "rev (drop start s)") (auto simp: last_component_def Let_def split: if_splits)

function trim_right :: "nat \<Rightarrow> path \<Rightarrow> path" where
  "trim_right start s =
     (if start < length s then
        (case last_component start s of (n, lastc) \<Rightarrow>
           if lastc = [] \<or> lastc = ''.'' then trim_right start (take (length s - n) s) else s)
      else s)"
  by pat_completeness auto
termination by (relation "measure (\<lambda>(start, s). length s)") (auto intro: last_component_shorter)

declare trim_right.simps [simp del]

definition path_parent :: "path \<Rightarrow> path option" where
  "path_parent s =
     (let start = body_start s; t = trim_right start s
      in if start < length t then
           Some (trim_right start (take (length t - fst (last_component start t)) t))
         else if start = 1 \<and> \<not> is_absolute s then Some []
         else None)"

section \<open>Collecting accesses\<close>

record profile_key =
  pk_user :: string
  pk_subject_program :: string
  pk_origin_applet :: string
  pk_object_path :: string
  pk_new_path :: "string option"
  pk_action :: string
  pk_login_context :: "raw_login_context option"

datatype profile_target = AllowDraft | AntiStorm

type_synonym profile_events = "(profile_key, instant list) hmap"

definition is_object_match :: "view_env \<Rightarrow> string \<Rightarrow> string \<Rightarrow> bool" where
  "is_object_match v flt target =
     (case strip_prefix ''prefix:'' flt of
        Some p \<Rightarrow> prefix p target
      | None \<Rightarrow>
          (case strip_prefix ''glob:'' flt of
             Some g \<Rightarrow> (case ve_glob v g of Some matches \<Rightarrow> matches target | None \<Rightarrow> False)
           | None \<Rightarrow> target = flt))"

definition extract_raw_login_context :: "audit_log_entry \<Rightarrow> raw_login_context option" where
  "extract_raw_login_context e =
     map_option (\<lambda>tty. \<lparr>rlc_source_ip = None, rlc_auth_method = None,
       rlc_require_interactive_tty = Some (prefix ''pts'' tty \<or> prefix ''tty'' tty),
       rlc_bind_registered_session = Some True\<rparr>) (si_session_tty (sy_subject (al_syscall e)))"

record profile_args =
  pa_since :: "instant option"
  pa_target :: profile_target
  pa_deny_only :: bool
  pa_object :: "string option"

definition profile_key_of :: "audit_log_entry \<Rightarrow> ticket_index \<Rightarrow> profile_key" where
  "profile_key_of e idx =
     (let (target_path, new_path) = resolve_target_path e idx
      in \<lparr>pk_user = sy_user (al_syscall e), pk_subject_program = extract_subject_path e,
          pk_origin_applet = extract_applet e, pk_object_path = target_path, pk_new_path = new_path,
          pk_action = sy_action (al_syscall e), pk_login_context = extract_raw_login_context e\<rparr>)"

definition profile_selects :: "view_env \<Rightarrow> profile_args \<Rightarrow> audit_log_entry \<Rightarrow> ticket_index \<Rightarrow> bool" where
  "profile_selects v a e idx =
     (if (case pa_since a of Some t \<Rightarrow> entry_ts v e < t | None \<Rightarrow> False) then False
      else if pa_deny_only a \<and> extract_result e \<noteq> ''DENY'' then False
      else if pa_target a = AllowDraft \<and> extract_result e \<noteq> ''DENY'' \<and> extract_rule_id e \<noteq> [] \<and>
              extract_rule_id e \<noteq> ''-'' then False
      else (case pa_object a of
              None \<Rightarrow> True
            | Some flt \<Rightarrow>
                (let (target_path, new_path) = resolve_target_path e idx
                 in is_object_match v flt target_path \<or>
                    (case new_path of Some np \<Rightarrow> is_object_match v flt np | None \<Rightarrow> False))))"

definition add_event :: "profile_key \<Rightarrow> instant \<Rightarrow> profile_events \<Rightarrow> profile_events" where
  "add_event k t m = hm_insert k ((case hm_get m k of Some ts \<Rightarrow> ts | None \<Rightarrow> []) @ [t]) m"

datatype profile_error = CannotOpenLog | CannotReadLog

definition collect_step ::
  "view_env \<Rightarrow> profile_args \<Rightarrow> unit + string \<Rightarrow> ticket_index \<times> profile_events \<Rightarrow>
   profile_error + ticket_index \<times> profile_events" where
  "collect_step v a line st =
     (case st of (idx, ev) \<Rightarrow>
        bindR (map_err (\<lambda>_. CannotReadLog) line) (\<lambda>l.
          if rust_trim l = [] then Inr (idx, ev)
          else (case process_log_line v l idx of
                  (None, idx1) \<Rightarrow> Inr (idx1, ev)
                | (Some e, idx1) \<Rightarrow>
                    Inr (idx1, if profile_selects v a e idx1
                               then add_event (profile_key_of e idx1) (entry_ts v e) ev else ev))))"

definition collect_profile_events ::
  "view_env \<Rightarrow> profile_args \<Rightarrow> string option \<Rightarrow> profile_error + profile_events" where
  "collect_profile_events v a file =
     bindR (ok_or file CannotOpenLog) (\<lambda>content.
     bindR (foldR (collect_step v a) (buf_lines content) ([], [])) (\<lambda>(idx, ev). Inr ev))"

section \<open>Storms\<close>

definition is_storm :: "instant list \<Rightarrow> nat \<Rightarrow> int \<Rightarrow> bool" where
  "is_storm ts threshold window =
     (if threshold = 0 \<or> length ts < threshold then False
      else \<exists>i \<in> set [0..<length ts - threshold + 1]. ts ! (i + threshold - 1) - ts ! i \<le> window)"

record group_key =
  gk_user :: string
  gk_subject_program :: string
  gk_origin_applet :: string
  gk_parent_dir :: string
  gk_action :: string
  gk_login_context :: "raw_login_context option"

type_synonym dir_groups = "(group_key, instant list \<times> string hset \<times> profile_key) hmap"

definition is_file_op :: "string \<Rightarrow> bool" where
  "is_file_op act =
     (let a = to_uppercase act
      in sublist ''READ'' a \<or> sublist ''WRITE'' a \<or> sublist ''DELETE'' a \<or> sublist ''UNLINK'' a \<or>
         sublist ''CHMOD'' a \<or> sublist ''CHOWN'' a)"

text \<open>The directory under which a key is taken together with others, if it is at all.\<close>

definition rollup_dir :: "profile_key \<Rightarrow> string option" where
  "rollup_dir k =
     (if is_file_op (pk_action k) then
        (case path_parent (pk_object_path k) of
           Some p \<Rightarrow> if 1 < length p \<and> p \<noteq> ''/dev'' then Some p else None
         | None \<Rightarrow> None)
      else None)"

definition group_key_of :: "profile_key \<Rightarrow> string \<Rightarrow> group_key" where
  "group_key_of k dir =
     \<lparr>gk_user = pk_user k, gk_subject_program = pk_subject_program k,
      gk_origin_applet = pk_origin_applet k, gk_parent_dir = dir, gk_action = pk_action k,
      gk_login_context = pk_login_context k\<rparr>"

definition rollup_step ::
  "profile_key \<times> instant list \<Rightarrow> dir_groups \<times> profile_events \<Rightarrow> dir_groups \<times> profile_events" where
  "rollup_step kt st =
     (case (kt, st) of ((k, ts), (dirs, res)) \<Rightarrow>
        (case rollup_dir k of
           Some dir \<Rightarrow>
             (let gk = group_key_of k dir;
                  (ts0, files, wild) =
                    (case hm_get dirs gk of
                       Some g \<Rightarrow> g
                     | None \<Rightarrow> ([], [], k\<lparr>pk_object_path := ''prefix:'' @ dir, pk_new_path := None\<rparr>))
              in (hm_insert gk (ts0 @ ts, hs_insert (pk_object_path k) files, wild) dirs, res))
         | None \<Rightarrow> (dirs, hm_insert k ts res)))"

definition settle_group :: "group_key \<times> (instant list \<times> string hset \<times> profile_key) \<Rightarrow> profile_events \<Rightarrow> profile_events" where
  "settle_group g res =
     (case g of (_, (ts, files, wild)) \<Rightarrow>
        if 2 \<le> length files then hm_insert wild (sort ts) res
        else (case files of
                f # _ \<Rightarrow> hm_insert (wild\<lparr>pk_object_path := f\<rparr>) (sort ts) res
              | [] \<Rightarrow> res))"

definition rollup_parent_directories_for_anti_storm ::
  "(dir_groups \<Rightarrow> dir_groups) \<Rightarrow> profile_events \<Rightarrow> profile_events" where
  "rollup_parent_directories_for_anti_storm dir_order events =
     (case fold rollup_step events ([], []) of (dirs, res) \<Rightarrow> fold settle_group (dir_order dirs) res)"

section \<open>Rules\<close>

definition abstract_path :: "string \<Rightarrow> string" where
  "abstract_path p =
     (if sublist ''/tmp/'' p \<or> sublist ''/var/run/'' p then
        (case rfind (CHR ''/'') p of Some idx \<Rightarrow> ''prefix:'' @ take (idx + 1) p | None \<Rightarrow> p)
      else p)"

definition parse_ops :: "string \<Rightarrow> action list" where
  "parse_ops s =
     List.map_filter (\<lambda>w. ok_opt (action_parse w))
       (filter (\<lambda>w. w \<noteq> []) (map rust_trim (split_on (CHR '','') s)))"

definition given :: "string \<Rightarrow> string option" where
  "given s = (if s = [] \<or> s = ''-'' then None else Some s)"

definition ANTI_STORM_WINDOW_SECS :: nat where
  "ANTI_STORM_WINDOW_SECS = 10"

definition build_raw_rule ::
  "profile_key \<Rightarrow> nat \<Rightarrow> profile_target \<Rightarrow> nat \<Rightarrow> nat \<Rightarrow> nat \<Rightarrow> raw_rule" where
  "build_raw_rule k observed target threshold window_secs rule_index =
     (let final_path = abstract_path (pk_object_path k);
          ops = parse_ops (pk_action k);
          is_rename = FileRename \<in> set ops;
          final_new_path = (if is_rename then map_option abstract_path (pk_new_path k) else None);
          nameless = (final_path = ''-'' \<or> final_path = []);
          storm = (target = AntiStorm)
      in \<lparr>rr_id = ''auto_'' @ (if storm then ''suppress'' else ''allow'') @ ''_'' @
            last (split_on (CHR ''/'') (pk_subject_program k)) @ ''_'' @
            (if is_rename then ''rename'' else ''ops'') @ ''_'' @ show_nat rule_index,
          rr_description = None,
          rr_rule_type = (if nameless then RtSubjectOnly else RtStandard),
          rr_subject =
            \<lparr>rsu_user = (if storm then None else given (pk_user k)), rsu_uid = None, rsu_roles = [],
             rsu_origin_program = given (pk_subject_program k), rsu_origin_script = None,
             rsu_origin_applet = given (pk_origin_applet k), rsu_login_context = pk_login_context k\<rparr>,
          rr_time_constraints = [],
          rr_object =
            (if nameless then None else Some \<lparr>rob_path = final_path, rob_new_path = final_new_path\<rparr>),
          rr_action = \<lparr>rac_ops = ops\<rparr>, rr_effect = Allow, rr_mpa = None,
          rr_audit_level = (if storm then AlSilent else AlStandard),
          rr_max_uses = (if storm then 10000 else 1),
          rr_pre_approval = Some \<lparr>rpa_enabled = False, rpa_ttl_sec = None\<rparr>,
          rr_reason = Some
            (if storm then ''Auto-generated suppress rule (storm threshold: '' @ show_nat threshold @
               '' accesses / '' @ show_nat window_secs @ '' sec, total observed: '' @ show_nat observed @ '')''
             else ''Auto-generated allow draft''),
          rr_ticket_profile =
            \<lparr>rtp_silent_io = storm, rtp_inherit = storm, rtp_allow_nameless_ipc = nameless\<rparr>\<rparr>)"

definition sort_rules :: "raw_rule list \<Rightarrow> raw_rule list" where
  "sort_rules = sort_key display_key"

section \<open>The draft\<close>

definition draft_patterns ::
  "profile_target \<Rightarrow> nat \<Rightarrow> profile_events \<Rightarrow> (profile_key \<times> nat) list" where
  "draft_patterns target threshold events =
     List.map_filter (\<lambda>(k, ts).
       case target of
         AllowDraft \<Rightarrow> Some (k, length (sort ts))
       | AntiStorm \<Rightarrow>
           (if is_storm (sort ts) threshold (int ANTI_STORM_WINDOW_SECS * 10 ^ 9)
            then Some (k, length (sort ts)) else None)) events"

definition draft_rules :: "profile_target \<Rightarrow> nat \<Rightarrow> profile_events \<Rightarrow> raw_rule list" where
  "draft_rules target threshold events =
     map (\<lambda>(i, (k, n)). build_raw_rule k n target threshold ANTI_STORM_WINDOW_SECS i)
       (enumerate 0 (draft_patterns target threshold events))"

text \<open>What \<open>generate_profile_json\<close> prints, before it is written as JSON; \<open>events\<close> is in reading order.\<close>

definition generate_profile ::
  "(rule_groups \<Rightarrow> rule_groups) \<Rightarrow> profile_events \<Rightarrow> profile_target \<Rightarrow> nat \<Rightarrow> bool \<Rightarrow> raw_policy" where
  "generate_profile arrange events target threshold optimize =
     (let generated = draft_rules target threshold events;
          rules = (if optimize then optimize_rules arrange generated True else generated)
      in \<lparr>rp_version = ''1.4'', rp_system_type = Server, rp_default_effect = Some Allow,
          rp_default_reason = Some ''No matching rule; default allow.'', rp_ttl_minutes = 60,
          rp_sweep_minutes = 5,
          rp_pre_approval_defaults = \<lparr>rpd_ttl_sec_default = 600, rpd_ttl_sec_max = Some 900\<rparr>,
          rp_rules = sort_rules rules\<rparr>)"

record map_orders =
  mo_events :: "profile_events \<Rightarrow> profile_events"
  mo_dirs :: "dir_groups \<Rightarrow> dir_groups"
  mo_groups :: "rule_groups \<Rightarrow> rule_groups"

definition run_profile ::
  "map_orders \<Rightarrow> view_env \<Rightarrow> string option \<Rightarrow> profile_args \<Rightarrow> nat \<Rightarrow> bool \<Rightarrow> profile_error + raw_policy" where
  "run_profile mo v file a threshold optimize =
     bindR (collect_profile_events v a file) (\<lambda>collected.
     let events = (if pa_target a = AntiStorm
                   then rollup_parent_directories_for_anti_storm (mo_dirs mo) (mo_events mo collected)
                   else collected)
     in Inr (generate_profile (mo_groups mo) (mo_events mo events) (pa_target a) threshold optimize))"

end
