(* ===== verification/Log_Optimize_Facts.thy ===== *)
theory Log_Optimize_Facts
  imports Log_Optimize Policy_Facts
begin

text \<open>
  What the optimisation keeps and what it loses. Every rule survives or is contained, in the sense
  of \<open>is_shadowed\<close>, in a rule of the result; for plain rules (no uid, roles, script or times, no
  empty set of operations) containment means that the engine matches whatever it matched before.
  For other rules it does not, and even among plain ones the order in which the engine reads the
  rules can turn a refusal into a permission.
\<close>

section \<open>Grouping\<close>

lemma opt_items_append [simp]:
  "(case x of Some rs \<Rightarrow> rs | None \<Rightarrow> []) @ ys = (case x of Some rs \<Rightarrow> rs @ ys | None \<Rightarrow> ys)"
  by (cases x) auto

text \<open>The rules of a group, in the order of the policy.\<close>

lemma group_fold:
  "hm_wf m \<Longrightarrow>
     hm_wf (fold push_group rs m) \<and>
     (\<forall>k. (case hm_get (fold push_group rs m) k of Some g \<Rightarrow> g | None \<Rightarrow> []) =
        (case hm_get m k of Some g \<Rightarrow> g | None \<Rightarrow> []) @ filter (\<lambda>r. merge_key_of r = k) rs)"
proof (induction rs arbitrary: m)
  case Nil
  then show ?case by (auto split: option.splits)
next
  case (Cons r rs)
  have wf: "hm_wf (push_group r m)" using Cons.prems by (simp add: push_group_def Let_def)
  have "(case hm_get (push_group r m) k of Some g \<Rightarrow> g | None \<Rightarrow> []) =
      (case hm_get m k of Some g \<Rightarrow> g | None \<Rightarrow> []) @ (if merge_key_of r = k then [r] else [])" for k
    by (auto simp: push_group_def Let_def split: option.splits)
  with Cons.IH [OF wf] wf show ?case by (auto split: option.splits)
qed

lemma group_members:
  assumes "hm_get (group_rules_by_effect_and_audit rs) k = Some g"
  shows "g = filter (\<lambda>r. merge_key_of r = k) rs"
  using group_fold [of "[]" rs] assms
  by (auto simp: group_rules_by_effect_and_audit_def split: option.splits dest: spec [of _ k])

lemma group_wf: "hm_wf (group_rules_by_effect_and_audit rs)"
  using group_fold [of "[]" rs] by (simp add: group_rules_by_effect_and_audit_def)

lemma group_of_rule:
  assumes "r \<in> set rs"
  shows "hm_get (group_rules_by_effect_and_audit rs) (merge_key_of r) =
     Some (filter (\<lambda>q. merge_key_of q = merge_key_of r) rs)"
proof -
  have "(case hm_get (group_rules_by_effect_and_audit rs) (merge_key_of r) of Some g \<Rightarrow> g | None \<Rightarrow> []) =
      filter (\<lambda>q. merge_key_of q = merge_key_of r) rs"
    using group_fold [of "[]" rs] by (simp add: group_rules_by_effect_and_audit_def)
  moreover have "filter (\<lambda>q. merge_key_of q = merge_key_of r) rs \<noteq> []"
    using assms by (auto simp: filter_empty_conv)
  ultimately show ?thesis by (auto split: option.splits)
qed

section \<open>Absorbing\<close>

text \<open>A rule up to its identifier and its reason, the two labels the optimisation rewrites.\<close>

definition same_rule :: "raw_rule \<Rightarrow> raw_rule \<Rightarrow> bool" where
  "same_rule a b \<longleftrightarrow> a\<lparr>rr_id := [], rr_reason := None\<rparr> = b\<lparr>rr_id := [], rr_reason := None\<rparr>"

lemma same_rule_refl [simp]: "same_rule r r"
  by (simp add: same_rule_def)

lemma same_rule_sym: "same_rule a b \<Longrightarrow> same_rule b a"
  by (simp add: same_rule_def)

lemma same_rule_trans: "same_rule a b \<Longrightarrow> same_rule b c \<Longrightarrow> same_rule a c"
  by (simp add: same_rule_def)

lemma same_rule_label [simp]:
  "same_rule (a\<lparr>rr_id := i\<rparr>) b = same_rule a b" "same_rule (a\<lparr>rr_reason := x\<rparr>) b = same_rule a b"
  "same_rule b (a\<lparr>rr_id := i\<rparr>) = same_rule b a" "same_rule b (a\<lparr>rr_reason := x\<rparr>) = same_rule b a"
  by (simp_all add: same_rule_def)

lemma same_rule_fields:
  assumes "same_rule a b"
  shows "rr_subject a = rr_subject b" "rr_object a = rr_object b" "rr_action a = rr_action b"
    "rr_effect a = rr_effect b" "rr_audit_level a = rr_audit_level b"
    "rr_time_constraints a = rr_time_constraints b" "rr_pre_approval a = rr_pre_approval b"
    "rr_rule_type a = rr_rule_type b" "rr_max_uses a = rr_max_uses b" "rr_mpa a = rr_mpa b"
    "rr_ticket_profile a = rr_ticket_profile b" "rr_description a = rr_description b"
  using assms by (cases a; cases b; simp add: same_rule_def)+

lemma same_rule_merge_key: "same_rule a b \<Longrightarrow> merge_key_of a = merge_key_of b"
  by (simp add: merge_key_of_def same_rule_fields)

lemma same_rule_shadowed:
  assumes "same_rule a a'" and "same_rule k k'"
  shows "is_shadowed a k = is_shadowed a' k'"
  using same_rule_fields [OF assms(1)] same_rule_fields [OF assms(2)] by (simp add: is_shadowed_def)

text \<open>What one rule is represented by: itself up to its labels, or a rule that contains it.\<close>

definition represented :: "raw_rule \<Rightarrow> raw_rule list \<Rightarrow> bool" where
  "represented r ks \<longleftrightarrow> (\<exists>k \<in> set ks. merge_key_of k = merge_key_of r \<and> (same_rule k r \<or> is_shadowed r k))"

lemma represented_mono:
  assumes "represented r ks" and "\<And>k. k \<in> set ks \<Longrightarrow> \<exists>k' \<in> set ks'. same_rule k' k"
  shows "represented r ks'"
proof -
  from assms(1) obtain k where k: "k \<in> set ks" "merge_key_of k = merge_key_of r"
    "same_rule k r \<or> is_shadowed r k" by (auto simp: represented_def)
  from assms(2) [OF k(1)] obtain k' where k': "k' \<in> set ks'" "same_rule k' k" by blast
  with k have "same_rule k' r \<or> is_shadowed r k'"
    using same_rule_trans same_rule_shadowed [OF same_rule_refl [of r] k'(2)] by blast
  with k k' same_rule_merge_key [OF k'(2)] show ?thesis by (auto simp: represented_def)
qed

text \<open>\<open>covers as bs\<close>: every rule of \<open>bs\<close> is in \<open>as\<close> up to its labels.\<close>

definition covers :: "raw_rule list \<Rightarrow> raw_rule list \<Rightarrow> bool" where
  "covers as bs \<longleftrightarrow> (\<forall>b \<in> set bs. \<exists>a \<in> set as. same_rule a b)"

lemma coversD: "covers as bs \<Longrightarrow> b \<in> set bs \<Longrightarrow> \<exists>a \<in> set as. same_rule a b"
  by (simp add: covers_def)

lemma covers_refl: "covers as as"
  unfolding covers_def using same_rule_refl by blast

lemma covers_Nil [simp]: "covers as []"
  by (simp add: covers_def)

lemma covers_subset: "set bs \<subseteq> set as \<Longrightarrow> covers as bs"
  unfolding covers_def using same_rule_refl by blast

lemma covers_trans: "covers as bs \<Longrightarrow> covers bs cs \<Longrightarrow> covers as cs"
  unfolding covers_def using same_rule_trans by blast

lemma covers_Cons: "same_rule a b \<Longrightarrow> covers as bs \<Longrightarrow> covers (a # as) (b # bs)"
  by (auto simp: covers_def)

lemma covers_append: "covers as bs \<Longrightarrow> covers as' bs' \<Longrightarrow> covers (as @ as') (bs @ bs')"
  by (auto simp: covers_def)

lemma absorb_keeps: "covers (absorb an r ks) ks"
  by (induction ks) (auto intro!: covers_Cons covers_refl)

lemma absorb_represents:
  "\<exists>k \<in> set (absorb an r ks). same_rule k r \<or> is_shadowed r k"
proof (induction ks)
  case (Cons k ks)
  show ?case
  proof (cases "is_shadowed r k")
    case True
    then have "is_shadowed r (if an then k\<lparr>rr_reason := Some (update_reason (rr_reason k))\<rparr> else k)"
      using same_rule_shadowed [of r r k] by simp
    with True show ?thesis by auto
  next
    case False
    with Cons show ?thesis by auto
  qed
qed simp

lemma absorb_origin: "covers (ks @ [r]) (absorb an r ks)"
proof (induction ks)
  case Nil
  show ?case by (simp add: covers_refl)
next
  case (Cons k ks)
  have "covers (ks @ [r]) ks" by (rule covers_subset) auto
  with Cons show ?case by (auto intro!: covers_Cons)
qed

lemma fold_absorb_keeps: "covers (fold (absorb an) rs ks) ks"
  by (induction rs arbitrary: ks) (auto intro: covers_refl covers_trans [OF _ absorb_keeps])

lemma fold_absorb_origin: "covers (ks @ rs) (fold (absorb an) rs ks)"
proof (induction rs arbitrary: ks)
  case Nil
  show ?case by (simp add: covers_refl)
next
  case (Cons r rs)
  have "covers ((ks @ [r]) @ rs) (absorb an r ks @ rs)"
    by (rule covers_append [OF absorb_origin covers_refl])
  from covers_trans [OF this Cons] show ?case by simp
qed

lemma filter_shadowed_represents:
  assumes "r \<in> set rs" and one: "\<And>q. q \<in> set rs \<Longrightarrow> merge_key_of q = K"
  shows "represented r (filter_shadowed_rules rs an)"
proof -
  from assms(1) obtain before after where rs: "rs = before @ r # after" by (meson split_list)
  define ks where "ks = fold (absorb an) before []"
  from absorb_represents obtain k where k: "k \<in> set (absorb an r ks)" "same_rule k r \<or> is_shadowed r k"
    by blast
  have f: "filter_shadowed_rules rs an = fold (absorb an) after (absorb an r ks)"
    by (simp add: filter_shadowed_rules_def rs ks_def)
  from coversD [OF fold_absorb_keeps k(1), of an after] obtain k' where
    k': "k' \<in> set (filter_shadowed_rules rs an)" "same_rule k' k"
    by (auto simp: f)
  have "covers rs (filter_shadowed_rules rs an)"
    using fold_absorb_origin [of "[]" rs an] by (simp add: filter_shadowed_rules_def)
  from coversD [OF this k'(1)] obtain q where "q \<in> set rs" "same_rule k' q"
    using same_rule_sym by blast
  then have "merge_key_of k' = K" using one same_rule_merge_key by metis
  moreover have "merge_key_of r = K" using one assms(1) by simp
  moreover have "same_rule k' r \<or> is_shadowed r k'"
    using k(2) k'(2) same_rule_trans same_rule_shadowed [OF same_rule_refl [of r] k'(2)] by blast
  ultimately show ?thesis using k'(1) by (auto simp: represented_def)
qed

lemma filter_shadowed_origin: "covers rs (filter_shadowed_rules rs an)"
  using fold_absorb_origin [of "[]" rs an] by (simp add: filter_shadowed_rules_def)

section \<open>The whole optimisation\<close>

lemma unique_ids_same: "list_all2 same_rule (unique_ids rs seen) rs"
  by (induction rs arbitrary: seen) (auto simp: Let_def)

lemma unique_ids_covers: "covers (unique_ids rs seen) rs" "covers rs (unique_ids rs seen)"
  by (induction rs arbitrary: seen) (auto simp: Let_def intro!: covers_Cons covers_refl)

definition permutes :: "(rule_groups \<Rightarrow> rule_groups) \<Rightarrow> bool" where
  "permutes arrange \<longleftrightarrow> (\<forall>m. mset (arrange m) = mset m)"

lemma arranged_groups:
  assumes "permutes arrange"
  shows "g \<in> set (hm_values (arrange (group_rules_by_effect_and_audit rs))) \<longleftrightarrow>
     (\<exists>k. hm_get (group_rules_by_effect_and_audit rs) k = Some g)"
proof -
  have "set (arrange m) = set m" for m
    using assms by (metis permutes_def set_mset_mset)
  then have "set (hm_values (arrange (group_rules_by_effect_and_audit rs))) =
      set (hm_values (group_rules_by_effect_and_audit rs))"
    by (simp add: hm_values_def)
  with hm_values_iff [OF group_wf] show ?thesis by simp
qed

definition kept_rules :: "(rule_groups \<Rightarrow> rule_groups) \<Rightarrow> raw_rule list \<Rightarrow> bool \<Rightarrow> raw_rule list" where
  "kept_rules arrange rules an =
     concat (map (\<lambda>g. filter_shadowed_rules (sort_rules_for_optimization g) an)
       (hm_values (arrange (group_rules_by_effect_and_audit rules))))"

lemma optimize_rules_kept:
  "optimize_rules arrange rules an =
     sort_rules_for_display (ensure_unique_rule_ids (kept_rules arrange rules an))"
  by (simp add: optimize_rules_def kept_rules_def Let_def)

lemma kept_represents:
  assumes "permutes arrange" and "r \<in> set rules"
  shows "represented r (kept_rules arrange rules an)"
proof -
  define g where "g = filter (\<lambda>q. merge_key_of q = merge_key_of r) rules"
  have "r \<in> set (sort_rules_for_optimization g)"
    using assms(2) by (simp add: g_def sort_rules_for_optimization_def)
  moreover have "merge_key_of q = merge_key_of r" if "q \<in> set (sort_rules_for_optimization g)" for q
    using that by (simp add: g_def sort_rules_for_optimization_def)
  ultimately have "represented r (filter_shadowed_rules (sort_rules_for_optimization g) an)"
    by (rule filter_shadowed_represents)
  moreover have "g \<in> set (hm_values (arrange (group_rules_by_effect_and_audit rules)))"
    using arranged_groups [OF assms(1)] group_of_rule [OF assms(2)] by (auto simp: g_def)
  ultimately show ?thesis by (auto simp: represented_def kept_rules_def)
qed

lemma kept_origin:
  assumes "permutes arrange"
  shows "covers rules (kept_rules arrange rules an)"
  unfolding covers_def
proof
  fix k assume "k \<in> set (kept_rules arrange rules an)"
  then obtain g where
    g: "g \<in> set (hm_values (arrange (group_rules_by_effect_and_audit rules)))"
    "k \<in> set (filter_shadowed_rules (sort_rules_for_optimization g) an)"
    by (auto simp: kept_rules_def)
  then obtain mk where "hm_get (group_rules_by_effect_and_audit rules) mk = Some g"
    using arranged_groups [OF assms] by blast
  from group_members [OF this] coversD [OF filter_shadowed_origin g(2)]
  show "\<exists>r \<in> set rules. same_rule r k" by (auto simp: sort_rules_for_optimization_def)
qed

lemma optimize_drops_only_shadowed_lemma:
  assumes "permutes arrange"
  shows "(\<forall>r \<in> set rules. represented r (optimize_rules arrange rules annotate)) \<and>
     (\<forall>k \<in> set (optimize_rules arrange rules annotate). \<exists>r \<in> set rules. same_rule k r)"
proof (intro conjI ballI)
  let ?o = "optimize_rules arrange rules annotate" and ?k = "kept_rules arrange rules annotate"
  have o: "set ?o = set (unique_ids ?k [])"
    by (simp add: optimize_rules_kept sort_rules_for_display_def ensure_unique_rule_ids_def)
  have c: "covers ?o ?k" "covers ?k ?o" using unique_ids_covers [of ?k "[]"] by (simp_all add: covers_def o)
  show "represented r ?o" if "r \<in> set rules" for r
    using kept_represents [OF assms that] by (rule represented_mono) (rule coversD [OF c(1)])
  show "\<exists>r \<in> set rules. same_rule k r" if "k \<in> set ?o" for k
    using coversD [OF covers_trans [OF kept_origin [OF assms] c(2)] that] by (blast intro: same_rule_sym)
qed


end
