(* ===== verification/Optimize_Sound.thy ===== *)
theory Optimize_Sound
  imports Log_Optimize_Facts
begin

text \<open>
  Containment of raw rules and matching of compiled rules: for plain rules, whatever the engine
  matches with the compiled form of a contained rule it matches with that of the containing one.
\<close>

section \<open>Paths\<close>

lemma body_components_append: "body_components (xs @ ys) = body_components xs @ body_components ys"
  by (induction xs) auto

lemma split_at_separator: "split_on c (a @ c # b) = split_on c a @ split_on c b"
  by (induction a) (auto split: list.splits simp: split_on_nonempty)

lemma components_extend:
  assumes "is_absolute base"
  shows "prefix (components base) (components (base @ CHR ''/'' # rest))"
  using assms by (simp add: components_def Let_def is_absolute_def split_at_separator body_components_append)

lemma components_extend_slash:
  assumes "is_absolute base" and "base \<noteq> []" and "last base = CHR ''/''"
  shows "prefix (components base) (components (base @ rest))"
proof -
  from assms(2,3) obtain b where b: "base = b @ [CHR ''/'']" by (metis append_butlast_last_id)
  have "is_absolute (base @ rest)" using assms(1) by (auto simp: is_absolute_def)
  moreover have "split_on (CHR ''/'') base = split_on (CHR ''/'') b @ [[]]"
    using split_at_separator [of "CHR ''/''" b "[]"] by (simp add: b)
  moreover have "split_on (CHR ''/'') (base @ rest) = split_on (CHR ''/'') b @ split_on (CHR ''/'') rest"
    by (simp add: b split_at_separator)
  ultimately show ?thesis using assms(1) by (simp add: components_def Let_def body_components_append)
qed

text \<open>A path as rules write it: absolute, without outer blanks, possibly marked as a prefix.\<close>

definition plain_spec :: "string \<Rightarrow> bool" where
  "plain_spec s \<longleftrightarrow> rust_trim s = s \<and> (\<exists>p. is_absolute p \<and> (s = p \<or> s = ''prefix:'' @ p))"

definition spec_matcher :: "string \<Rightarrow> path_matcher" where
  "spec_matcher s = (case strip_prefix ''prefix:'' s of Some p \<Rightarrow> PmPrefix p | None \<Rightarrow> PmExact s)"

lemma absolute_no_mark:
  assumes "is_absolute p"
  shows "\<not> prefix ''prefix:'' p" "\<not> prefix ''glob:'' p" "p \<noteq> []"
    "strip_prefix ''prefix:'' p = None" "strip_prefix ''glob:'' p = None"
  using assms by (auto simp: is_absolute_def strip_prefix_def prefix_def)

lemma spec_matcher_cases:
  "is_absolute p \<Longrightarrow> spec_matcher p = PmExact p" "spec_matcher (''prefix:'' @ p) = PmPrefix p"
  by (simp_all add: spec_matcher_def absolute_no_mark del: append_Cons)

lemma trim_absolute:
  assumes "is_absolute p"
  shows "trim_start_matches ''prefix:'' p = p" "trim_start_matches ''glob:'' p = p"
    "trim_start_matches ''prefix:'' (''prefix:'' @ p) = p"
proof -
  show a: "trim_start_matches ''prefix:'' p = p" "trim_start_matches ''glob:'' p = p"
    using absolute_no_mark [OF assms] by (simp_all add: trim_start_matches_def trim_any_fix)
  have "trim_any [''prefix:''] (''prefix:'' @ p) = trim_any [''prefix:''] p"
    by (subst trim_any.simps) simp
  with a(1) show "trim_start_matches ''prefix:'' (''prefix:'' @ p) = p"
    by (simp add: trim_start_matches_def)
qed

lemma contains_matches:
  assumes k: "plain_spec k" and c: "plain_spec c" and "json_path_contains k c"
    and m: "pathmatcher_matches pf (spec_matcher c) q"
  shows "pathmatcher_matches pf (spec_matcher k) q"
proof (cases "k = c")
  case True
  with m show ?thesis by simp
next
  case False
  with assms(3) have pk: "prefix ''prefix:'' k" by (simp add: json_path_contains_def split: if_splits)
  with k absolute_no_mark obtain base where base: "k = ''prefix:'' @ base" "is_absolute base"
    by (auto simp: plain_spec_def)
  from c obtain t where t: "is_absolute t" "c = t \<or> c = ''prefix:'' @ t" by (auto simp: plain_spec_def)
  have "trim_start_matches ''prefix:'' k = base" using trim_absolute base by simp
  moreover have "clean_path c = t" using t trim_absolute [OF t(1)] by (auto simp: clean_path_def)
  ultimately have inc: "prefix base t" and
    or: "last base = CHR ''/'' \<or> length t = length base \<or> prefix ''/'' (drop (length base) t)"
    using assms(3) False pk by (auto simp: json_path_contains_def Let_def split: if_splits)
  from inc obtain rest where rest: "t = base @ rest" by (auto simp: prefix_def)
  have nonempty: "base \<noteq> []" using absolute_no_mark(3) [OF base(2)] .
  have ext: "prefix (components base) (components t)"
    using or components_extend [OF base(2)] components_extend_slash [OF base(2) nonempty]
    by (auto simp: rest prefix_def [of "''/''"])
  from t(2) m have "prefix (components t) (components q)"
    by (elim disjE)
      (simp_all add: spec_matcher_cases t(1) path_eq_def path_starts_with_def del: append_Cons)
  with ext show ?thesis
    by (simp add: base spec_matcher_cases path_starts_with_def del: append_Cons)
qed

section \<open>Compiling plain rules\<close>

definition plain_rule :: "raw_rule \<Rightarrow> bool" where
  "plain_rule r \<longleftrightarrow>
     rsu_uid (rr_subject r) = None \<and> rsu_roles (rr_subject r) = [] \<and>
     rsu_origin_script (rr_subject r) = None \<and> rr_time_constraints r = [] \<and>
     rac_ops (rr_action r) \<noteq> [] \<and> Unknown \<notin> set (rac_ops (rr_action r)) \<and>
     pred_option plain_spec (rsu_origin_program (rr_subject r)) \<and>
     pred_option (\<lambda>ob. plain_spec (rob_path ob) \<and> pred_option plain_spec (rob_new_path ob)) (rr_object r)"

lemma plain_spec_compiles:
  assumes "plain_spec s"
  shows "compile_path_matcher_v14 pf s = Inr (spec_matcher s)"
    "pathmatcher_parse pf s = Inr (spec_matcher s)" "s \<noteq> []"
proof -
  from assms obtain p where p: "is_absolute p" "s = p \<or> s = ''prefix:'' @ p" and t: "rust_trim s = s"
    by (auto simp: plain_spec_def)
  note n = absolute_no_mark [OF p(1)]
  have g: "strip_prefix ''glob:'' (''prefix:'' @ p) = None" by (simp add: strip_prefix_def prefix_def)
  from p(2) show "compile_path_matcher_v14 pf s = Inr (spec_matcher s)"
  proof
    assume "s = p"
    with n p(1) t show ?thesis by (simp add: compile_path_matcher_v14_def spec_matcher_def)
  next
    assume "s = ''prefix:'' @ p"
    with g p(1) t show ?thesis
      by (simp add: compile_path_matcher_v14_def spec_matcher_def del: append_Cons)
  qed
  from p(2) show "pathmatcher_parse pf s = Inr (spec_matcher s)"
  proof
    assume "s = p"
    with n show ?thesis by (simp add: pathmatcher_parse_def spec_matcher_def)
  next
    assume "s = ''prefix:'' @ p"
    with g show ?thesis by (simp add: pathmatcher_parse_def spec_matcher_def del: append_Cons)
  qed
  from p(2) n show "s \<noteq> []" by auto
qed

lemma plain_object_compiles:
  assumes "plain_rule r"
  shows "compile_object_v14 pf (rr_object r) =
     Inr (map_option (\<lambda>ob. \<lparr>om_path = Some (spec_matcher (rob_path ob)),
       om_new_path = map_option spec_matcher (rob_new_path ob), om_kind = None\<rparr>) (rr_object r))"
  using assms by (auto simp: plain_rule_def compile_object_v14_def plain_spec_compiles split: option.splits)

lemma opt_compile_plain:
  assumes "pred_option plain_spec v"
  shows "fst (opt_compile_path pf f v ws) = map_option spec_matcher v"
proof (cases v)
  case None
  then show ?thesis by (simp add: opt_compile_path_def opt_trimmed_nonempty_def)
next
  case (Some s)
  with assms have "plain_spec s" by simp
  moreover from this have "rust_trim s = s" by (simp add: plain_spec_def)
  ultimately show ?thesis
    using Some by (simp add: opt_compile_path_def opt_trimmed_nonempty_def plain_spec_compiles Let_def)
qed

definition trimmed :: "string option \<Rightarrow> string option" where
  "trimmed v = (case v of None \<Rightarrow> None | Some s \<Rightarrow> if rust_trim s = [] then None else Some (rust_trim s))"

lemma fst_opt_trimmed: "fst (opt_trimmed_nonempty f v ws) = trimmed v"
  by (simp add: opt_trimmed_nonempty_def trimmed_def Let_def split: option.split)

text \<open>The matcher of a login context does not depend on the warnings so far.\<close>

definition login_matcher :: "platform \<Rightarrow> raw_login_context \<Rightarrow> login_context_matcher" where
  "login_matcher pf raw =
     \<lparr>lcm_source_ip_network = Option.bind (trimmed (rlc_source_ip raw)) (\<lambda>s. ok_opt (net_parse pf s)),
      lcm_auth_method = trimmed (rlc_auth_method raw),
      lcm_require_interactive_tty = (rlc_require_interactive_tty raw = Some True),
      lcm_bind_registered_session = (rlc_bind_registered_session raw = Some True)\<rparr>"

lemma bool_opt: "(case x of None \<Rightarrow> False | Some b \<Rightarrow> b) = (x = Some True)"
  by (cases x) auto

lemma login_context_compiles: "fst (compile_login_context pf raw ws) = login_matcher pf raw"
  using fst_opt_trimmed [of "''subject.login_context.source_ip''" "rlc_source_ip raw" ws]
    fst_opt_trimmed [of "''subject.login_context.auth_method''" "rlc_auth_method raw"]
  by (auto simp: compile_login_context_def login_matcher_def Let_def case_prod_beta bool_opt
      split: option.splits sum.splits)

lemma plain_subject:
  assumes "plain_rule r" and "compile_subject_v14 pf (rr_subject r) db ws = (m, ws')"
  shows "sm_uid m = Option.bind (trimmed (rsu_user (rr_subject r)))
       (\<lambda>n. ok_opt (name_to_uid (user_from_name pf) n))"
    "sm_required_roles m = []" "sm_origin_script m = None"
    "sm_origin_program m = map_option spec_matcher (rsu_origin_program (rr_subject r))"
    "sm_origin_applet m = trimmed (rsu_origin_applet (rr_subject r))"
    "sm_login_context m = map_option (login_matcher pf) (rsu_login_context (rr_subject r))"
proof -
  let ?s = "rr_subject r"
  from assms(1) have p: "rsu_uid ?s = None" "rsu_roles ?s = []" "rsu_origin_script ?s = None"
    "pred_option plain_spec (rsu_origin_program ?s)" by (simp_all add: plain_rule_def)
  note d = compile_subject_v14_def Let_def case_prod_beta
  show "sm_uid m = Option.bind (trimmed (rsu_user ?s)) (\<lambda>n. ok_opt (name_to_uid (user_from_name pf) n))"
    using compile_subject_uid [OF assms(2)] p(1) by (simp add: trimmed_def split: option.splits)
  show "sm_required_roles m = []"
    using assms(2) p(2) by (auto simp: d compile_required_roles_def)
  show "sm_origin_script m = None"
    using assms(2) p(3) by (auto simp: d opt_compile_path_def opt_trimmed_nonempty_def)
  show "sm_origin_program m = map_option spec_matcher (rsu_origin_program ?s)"
    using assms(2) opt_compile_plain [OF p(4)] by (auto simp: d)
  show "sm_origin_applet m = trimmed (rsu_origin_applet ?s)"
    using assms(2) fst_opt_trimmed by (auto simp: d)
  show "sm_login_context m = map_option (login_matcher pf) (rsu_login_context ?s)"
    using assms(2) login_context_compiles by (auto simp: d split: option.splits)
qed

section \<open>Containment\<close>

lemma nothing_in_no_path:
  assumes "plain_spec k"
  shows "\<not> json_path_contains k []"
proof
  assume c: "json_path_contains k []"
  have "clean_path [] = []" by (simp add: clean_path_def trim_start_matches_def trim_any_fix)
  from assms obtain p where p: "is_absolute p" "k = p \<or> k = ''prefix:'' @ p" by (auto simp: plain_spec_def)
  from absolute_no_mark [OF p(1)] p(2) c \<open>clean_path [] = []\<close> have "prefix p []"
    by (elim disjE)
      (simp_all add: json_path_contains_def trim_absolute(3) [OF p(1)] Let_def del: append_Cons split: if_splits)
  with absolute_no_mark(3) [OF p(1)] show False by simp
qed

lemma login_context_mono:
  assumes m: "match_login_context pf c nets ctx st"
    and ip: "lcm_source_ip_network k = None \<or> lcm_source_ip_network k = lcm_source_ip_network c"
    and auth: "lcm_auth_method k = None \<or> lcm_auth_method k = lcm_auth_method c"
    and tty: "lcm_require_interactive_tty k \<longrightarrow> lcm_require_interactive_tty c"
    and bind: "lcm_bind_registered_session k \<longrightarrow> lcm_bind_registered_session c"
  shows "match_login_context pf k nets ctx st"
proof (cases "lcm_bind_registered_session k")
  case False
  with m tty show ?thesis by (auto simp: match_login_context_def split: if_splits)
next
  case True
  with bind have b: "lcm_bind_registered_session c" by simp
  show ?thesis
  proof (cases "ac_registered_session ctx")
    case None
    with m tty ip auth b show ?thesis
      by (cases st) (auto simp: match_login_context_def split: if_splits)
  next
    case (Some s)
    from ip show ?thesis
    proof
      assume "lcm_source_ip_network k = None"
      with m tty auth b Some show ?thesis by (auto simp: match_login_context_def split: if_splits)
    next
      assume "lcm_source_ip_network k = lcm_source_ip_network c"
      with m tty auth b Some show ?thesis by (auto simp: match_login_context_def split: if_splits)
    qed
  qed
qed

lemma login_context_contained:
  assumes "login_context_shadowed k c"
    and "\<forall>lc. c = Some lc \<longrightarrow> match_login_context pf (login_matcher pf lc) nets ctx st"
    and "k = Some kl"
  shows "match_login_context pf (login_matcher pf kl) nets ctx st"
proof -
  from assms(1,3) obtain cl where c: "c = Some cl" by (auto simp: login_context_shadowed_def split: option.splits)
  let ?k = "login_matcher pf kl" and ?c = "login_matcher pf cl"
  have f: "lcm_source_ip_network ?k = None \<or> lcm_source_ip_network ?k = lcm_source_ip_network ?c"
    "lcm_auth_method ?k = None \<or> lcm_auth_method ?k = lcm_auth_method ?c"
    "lcm_require_interactive_tty ?k \<longrightarrow> lcm_require_interactive_tty ?c"
    "lcm_bind_registered_session ?k \<longrightarrow> lcm_bind_registered_session ?c"
    using assms(1) by (auto simp: assms(3) c login_context_shadowed_def login_matcher_def trimmed_def)
  from assms(2) c have "match_login_context pf ?c nets ctx st" by simp
  from login_context_mono [OF this f] show ?thesis .
qed

lemma object_contained:
  assumes p: "plain_rule r" "plain_rule k" and s: "object_shadowed (rr_object k) (rr_object r)"
    and o: "compile_object_v14 pf (rr_object r) = Inr co" "compile_object_v14 pf (rr_object k) = Inr ko"
    and m: "match_object pf co path new_path kind"
  shows "match_object pf ko path new_path kind"
proof (cases "rr_object r")
  case None
  with s have "rr_object k = None" by (auto simp: object_shadowed_def split: option.splits)
  with o(2) show ?thesis by (simp add: compile_object_v14_def match_object_def)
next
  case (Some ro)
  with s obtain kb where kb: "rr_object k = Some kb" by (auto simp: object_shadowed_def split: option.splits)
  from p Some kb have spec: "plain_spec (rob_path ro)" "pred_option plain_spec (rob_new_path ro)"
    "plain_spec (rob_path kb)" "pred_option plain_spec (rob_new_path kb)"
    by (auto simp: plain_rule_def)
  have "pathmatcher_matches pf (spec_matcher (rob_path kb)) path"
    using m s o(1) plain_object_compiles [OF p(1), of pf] contains_matches [OF spec(3,1)]
    by (auto simp: Some kb match_object_def object_shadowed_def split: if_splits)
  moreover have "\<exists>q. new_path = Some q \<and> pathmatcher_matches pf (spec_matcher kn) q"
    if kn: "rob_new_path kb = Some kn" for kn
  proof -
    from s Some kb kn obtain rn where rn: "rob_new_path ro = Some rn" "json_path_contains kn rn"
      by (auto simp: object_shadowed_def split: option.splits)
    with m o(1) plain_object_compiles [OF p(1), of pf] Some obtain q where
      "new_path = Some q" "pathmatcher_matches pf (spec_matcher rn) q"
      by (auto simp: match_object_def split: if_splits option.splits)
    with contains_matches [of kn rn pf q] rn spec kn show ?thesis by auto
  qed
  ultimately show ?thesis
    using o(2) plain_object_compiles [OF p(2), of pf] kb
    by (auto simp: match_object_def split: option.splits)
qed

lemma origin_contained:
  assumes "pred_option plain_spec k" and "pred_option plain_spec c"
    and "k = None \<or> or_empty k = [] \<or> json_path_contains (or_empty k) (or_empty c)"
    and "match_origin pf (map_option spec_matcher c) q"
  shows "match_origin pf (map_option spec_matcher k) q"
proof (cases k)
  case None
  then show ?thesis by (simp add: match_origin_def)
next
  case (Some s)
  with assms(1) have s: "plain_spec s" by simp
  with assms(3) Some have "json_path_contains s (or_empty c)"
    by (auto simp: or_empty_def plain_spec_compiles(3))
  with nothing_in_no_path [OF s] obtain t where t: "c = Some t" "json_path_contains s t"
    by (cases c) (auto simp: or_empty_def)
  with assms(2,4) contains_matches [OF s, of t pf] Some show ?thesis
    by (auto simp: match_origin_def split: option.splits)
qed

lemma shadowed_parts:
  assumes "is_shadowed c k"
  shows "rsu_origin_program (rr_subject k) = None \<or> or_empty (rsu_origin_program (rr_subject k)) = [] \<or>
      json_path_contains (or_empty (rsu_origin_program (rr_subject k)))
        (or_empty (rsu_origin_program (rr_subject c)))"
    "rsu_origin_applet (rr_subject k) = None \<or>
      rsu_origin_applet (rr_subject k) = rsu_origin_applet (rr_subject c)"
    "rsu_user (rr_subject k) = None \<or> rsu_user (rr_subject k) = rsu_user (rr_subject c)"
    "login_context_shadowed (rsu_login_context (rr_subject k)) (rsu_login_context (rr_subject c))"
    "object_shadowed (rr_object k) (rr_object c)"
    "set (rac_ops (rr_action c)) \<subseteq> set (rac_ops (rr_action k))"
  using assms unfolding is_shadowed_def Let_def by blast+

lemma plain_parts:
  assumes "plain_rule r"
  shows "pred_option plain_spec (rsu_origin_program (rr_subject r))"
    "Unknown \<notin> set (rac_ops (rr_action r))" "set (rac_ops (rr_action r)) \<noteq> {}"
    "rr_time_constraints r = []"
  using assms by (simp_all add: plain_rule_def)

lemma in_larger_set:
  assumes "A - {u} = {} \<or> a \<in> A - {u}" and "u \<notin> A" and "A \<noteq> {}" and "A \<subseteq> B" and "u \<notin> B"
  shows "B - {u} = {} \<or> a \<in> B - {u}"
  using assms by auto

lemma match_subject_parts:
  assumes "match_subject pf m nets ctx st"
  shows "match_origin pf (sm_origin_program m) (ac_origin_program ctx)"
    "sm_uid m = Some u \<Longrightarrow> ac_uid ctx = u"
    "sm_origin_applet m = Some a \<Longrightarrow> ac_origin_applet ctx = Some a"
    "sm_login_context m = Some lc \<Longrightarrow> match_login_context pf lc nets ctx st"
  using assms by (auto simp: match_subject_def split: if_splits option.splits)

theorem contained_rule_matches:
  assumes p: "plain_rule r" "plain_rule k" and s: "is_shadowed r k"
    and c: "compile_rule_v14 pf r ttl db ws = Inr (rc, ws')" "compile_rule_v14 pf k ttl' db vs = Inr (kc, vs')"
    and pf: "ev_platform ev = pf" and m: "rule_matches ev rc nets ctx st"
  shows "rule_matches ev kc nets ctx st"
proof -
  from compile_rule_Inr [OF c(1)] obtain a1 a2 a3 a4 where
    r: "compile_subject_v14 pf (rr_subject r) db a1 = (cr_subject rc, a2)"
    "compile_time_constraints_v14 (rr_time_constraints r) a2 = Inr (cr_time_constraints rc, a3)"
    "compile_object_v14 pf (rr_object r) = Inr (cr_object rc)"
    "compile_action_v14 (rr_action r) a3 = Inr (cr_action_match rc, a4)" by metis
  from compile_rule_Inr [OF c(2)] obtain b1 b2 b3 b4 where
    k: "compile_subject_v14 pf (rr_subject k) db b1 = (cr_subject kc, b2)"
    "compile_time_constraints_v14 (rr_time_constraints k) b2 = Inr (cr_time_constraints kc, b3)"
    "compile_object_v14 pf (rr_object k) = Inr (cr_object kc)"
    "compile_action_v14 (rr_action k) b3 = Inr (cr_action_match kc, b4)" by metis
  note rs = plain_subject [OF p(1) r(1)] and ks = plain_subject [OF p(2) k(1)]
  from m have ms: "match_subject pf (cr_subject rc) nets ctx st"
    and ma: "match_action (cr_action_match rc) (ac_action ctx)"
    and mo: "match_object pf (cr_object rc) (ac_object_path ctx) (ac_object_new_path ctx) (ac_object_kind ctx)"
    by (auto simp: rule_matches_def pf split: if_splits)
  note sp = shadowed_parts [OF s] and mp = match_subject_parts [OF ms]
  have "match_object pf (cr_object kc) (ac_object_path ctx) (ac_object_new_path ctx) (ac_object_kind ctx)"
    by (rule object_contained [OF p sp(5) r(3) k(3) mo])
  moreover have "match_action (cr_action_match kc) (ac_action ctx)"
    by (rule compile_action_match [OF k(4), THEN iffD2, OF in_larger_set
          [OF compile_action_match [OF r(4), THEN iffD1, OF ma] plain_parts(2,3) [OF p(1)] sp(6)
            plain_parts(2) [OF p(2)]]])
  moreover have "cr_time_constraints kc = []"
    using k(2) plain_parts(4) [OF p(2)] by (simp add: compile_time_constraints_v14_def)
  moreover have "match_subject pf (cr_subject kc) nets ctx st"
  proof -
    have "match_origin pf (sm_origin_program (cr_subject kc)) (ac_origin_program ctx)"
      unfolding ks(4)
      by (rule origin_contained [OF plain_parts(1) [OF p(2)] plain_parts(1) [OF p(1)] sp(1)])
        (use mp(1) in \<open>simp add: rs(4)\<close>)
    moreover have "sm_uid (cr_subject kc) = Some u \<Longrightarrow> ac_uid ctx = u" for u
      using sp(3) mp(2) by (auto simp: rs(1) ks(1) trimmed_def)
    moreover have "sm_origin_applet (cr_subject kc) = Some x \<Longrightarrow> ac_origin_applet ctx = Some x" for x
      using sp(2) mp(3) by (auto simp: rs(5) ks(5) trimmed_def)
    moreover have "sm_login_context (cr_subject kc) = Some lc \<Longrightarrow> match_login_context pf lc nets ctx st" for lc
      using login_context_contained [OF sp(4)] mp(4) by (auto simp: rs(6) ks(6))
    ultimately show ?thesis
      by (auto simp: match_subject_def ks(2,3) match_origin_def [of _ None] split: option.splits)
  qed
  ultimately show ?thesis by (simp add: rule_matches_def pf match_time_constraints_def)
qed

end
