(* ===== verification/Log_Facts.thy ===== *)
theory Log_Facts
  imports Log_Profile Optimize_Sound
begin

text \<open>
  Facts about the log viewer: what a consumed ticket is resolved to, what a storm is, that taking
  directories together loses no access, and that a drafted policy compiles and grants the same
  requests whether it is optimised or not.
\<close>

section \<open>The index of tickets\<close>

definition issued_by :: "audit_log_entry \<Rightarrow> string option" where
  "issued_by e =
     (if al_log_type e = InteractiveDecision \<or> al_log_type e = AccessAllowed then
        (case al_auth e of SlowPath p _ \<Rightarrow> map_option it_ticket_id (pv_issued_ticket p) | FastPath _ \<Rightarrow> None)
      else None)"

definition expired_by :: "audit_log_entry \<Rightarrow> string option" where
  "expired_by e =
     (if al_log_type e = TicketExpired then
        (case al_auth e of FastPath t \<Rightarrow> Some (tf_ticket_id t) | SlowPath _ _ \<Rightarrow> None)
      else None)"

text \<open>The reference: the latest entry that issued the ticket or saw it expire.\<close>

definition last_touch :: "string \<Rightarrow> audit_log_entry list \<Rightarrow> audit_log_entry option" where
  "last_touch tid es = List.find (\<lambda>e. issued_by e = Some tid \<or> expired_by e = Some tid) (rev es)"

definition target_of :: "audit_log_entry \<Rightarrow> string \<times> string option" where
  "target_of e = (oi_path (sy_object (al_syscall e)), oi_new_path (sy_object (al_syscall e)))"

lemma index_entry_wf: "hm_wf idx \<Longrightarrow> hm_wf (index_entry e idx)"
  by (simp add: index_entry_def split: auth_info.split option.split)

lemma index_entry_get:
  "hm_wf idx \<Longrightarrow> hm_get (index_entry e idx) tid =
     (if issued_by e = Some tid then
        Some \<lparr>tm_original_path = fst (target_of e), tm_new_path = snd (target_of e)\<rparr>
      else if expired_by e = Some tid then None else hm_get idx tid)"
  by (auto simp: index_entry_def issued_by_def expired_by_def target_of_def
      split: auth_info.splits option.splits)

lemma index_fold:
  "hm_wf (fold index_entry es []) \<and>
   hm_get (fold index_entry es []) tid =
     Option.bind (last_touch tid es) (\<lambda>e. if issued_by e = Some tid
       then Some \<lparr>tm_original_path = fst (target_of e), tm_new_path = snd (target_of e)\<rparr> else None)"
proof (induction es rule: rev_induct)
  case Nil
  then show ?case by (simp add: last_touch_def)
next
  case (snoc e es)
  then show ?case by (simp add: index_entry_wf index_entry_get last_touch_def)
qed

text \<open>
  When the log viewer shows an entry of a consumed ticket it names the object of the latest
  decision that issued this ticket: the index built while reading agrees with a search of the log
  so far for the last entry that issued the ticket or saw it expire. If that entry is an expiry, or
  there is none, the object is shown as unknown.
\<close>

theorem consumed_ticket_resolved:
  assumes "al_log_type c = TicketConsumed" and "al_auth c = FastPath t"
  shows "resolve_target_path c (fold index_entry (es @ [c]) []) =
     (case last_touch (tf_ticket_id t) es of
        Some e \<Rightarrow> if issued_by e = Some (tf_ticket_id t) then target_of e
                  else (''UNKNOWN (Expired or Lost)'', None)
      | None \<Rightarrow> (''UNKNOWN (Expired or Lost)'', None))"
proof -
  have "index_entry c idx = idx" for idx using assms by (simp add: index_entry_def)
  then show ?thesis
    using assms index_fold [of es "tf_ticket_id t"]
    by (cases "last_touch (tf_ticket_id t) es") (auto simp: resolve_target_path_def)
qed

section \<open>Storms\<close>

lemma length_filter_weaker:
  "(\<And>x. P x \<Longrightarrow> Q x) \<Longrightarrow> length (filter P xs) \<le> length (filter Q xs)"
  by (induction xs) (auto simp: le_SucI)

lemma sorted_between:
  assumes "sorted ts" and "i \<le> j" and "j < length ts"
  shows "Suc j - i \<le> length (filter (\<lambda>x. ts ! i \<le> x \<and> x \<le> ts ! j) ts)"
proof -
  let ?P = "\<lambda>x. ts ! i \<le> x \<and> x \<le> ts ! j"
  have "{i..j} \<subseteq> {n. n < length ts \<and> ?P (ts ! n)}"
    using assms by (auto intro: sorted_nth_mono)
  then have "card {i..j} \<le> card {n. n < length ts \<and> ?P (ts ! n)}" by (rule card_mono [rotated]) simp
  then show ?thesis by (simp add: length_filter_conv_card)
qed

lemma is_storm_iff:
  assumes "0 < threshold"
  shows "is_storm ts threshold window \<longleftrightarrow>
     (\<exists>i. i + threshold \<le> length ts \<and> ts ! (i + threshold - 1) - ts ! i \<le> window)"
proof (cases "length ts < threshold")
  case False
  then have "i \<in> set [0..<length ts - threshold + 1] \<longleftrightarrow> i + threshold \<le> length ts" for i by auto
  with False assms show ?thesis by (simp only: is_storm_def Bex_def) simp
qed (simp add: is_storm_def)

text \<open>
  \<open>is_storm\<close> finds every storm: on sorted times, and for a threshold above zero, comparing the
  times that lie \<open>threshold\<close> apart answers whether some interval as long as the window holds at
  least \<open>threshold\<close> accesses.
\<close>

theorem storm_is_dense_interval:
  assumes "sorted ts" and "0 < threshold"
  shows "is_storm ts threshold window \<longleftrightarrow>
     (\<exists>start. threshold \<le> length (filter (\<lambda>x. start \<le> x \<and> x \<le> start + window) ts))"
proof
  assume "is_storm ts threshold window"
  then obtain i where i: "i + threshold \<le> length ts" "ts ! (i + threshold - 1) - ts ! i \<le> window"
    using is_storm_iff [OF assms(2)] by blast
  let ?j = "i + threshold - 1"
  have "threshold \<le> length (filter (\<lambda>x. ts ! i \<le> x \<and> x \<le> ts ! ?j) ts)"
    using sorted_between [OF assms(1), of i ?j] i(1) assms(2) by simp
  also have "\<dots> \<le> length (filter (\<lambda>x. ts ! i \<le> x \<and> x \<le> ts ! i + window) ts)"
    using i(2) by (intro length_filter_weaker) simp
  finally show "\<exists>start. threshold \<le> length (filter (\<lambda>x. start \<le> x \<and> x \<le> start + window) ts)" by blast
next
  assume "\<exists>start. threshold \<le> length (filter (\<lambda>x. start \<le> x \<and> x \<le> start + window) ts)"
  then obtain s where s: "threshold \<le> length (filter (\<lambda>x. s \<le> x \<and> x \<le> s + window) ts)" ..
  let ?I = "{n. n < length ts \<and> s \<le> ts ! n \<and> ts ! n \<le> s + window}"
  have card: "threshold \<le> card ?I" using s by (simp add: length_filter_conv_card)
  with assms(2) have ne: "?I \<noteq> {}" by (metis card.empty not_less)
  define i where "i = Min ?I"
  have mi: "i \<in> ?I" unfolding i_def by (rule Min_in) (use ne in auto)
  have ma: "Max ?I \<in> ?I" by (rule Max_in) (use ne in auto)
  have "?I \<subseteq> {i..Max ?I}" by (auto simp: i_def)
  then have "threshold \<le> Suc (Max ?I) - i"
    using card card_mono [of "{i..Max ?I}" ?I] by simp
  moreover have "i \<le> Max ?I" by (rule Max_ge) (use mi in auto)
  ultimately have le: "i + threshold - 1 \<le> Max ?I" "i + threshold \<le> length ts" using ma by auto
  have "ts ! (i + threshold - 1) \<le> ts ! (Max ?I)"
    using assms(1) le(1) ma by (intro sorted_nth_mono) auto
  with mi ma have "ts ! (i + threshold - 1) - ts ! i \<le> window" by simp
  with le(2) show "is_storm ts threshold window"
    using is_storm_iff [OF assms(2)] by blast
qed

section \<open>Taking directories together\<close>

text \<open>The instants of all values of a map, as a multiset.\<close>

definition total_times :: "('v \<Rightarrow> instant list) \<Rightarrow> ('k, 'v) hmap \<Rightarrow> instant multiset" where
  "total_times f m = sum_mset (image_mset (\<lambda>(k, v). mset (f v)) (mset m))"

lemma total_times_simps [simp]:
  "total_times f [] = {#}" "total_times f ((k, v) # m) = mset (f v) + total_times f m"
  by (simp_all add: total_times_def)

lemma total_times_new:
  "hm_get m k = None \<Longrightarrow> total_times f (hm_insert k v m) = total_times f m + mset (f v)"
  by (induction m) (auto simp: hm_get_def hm_insert_def split: if_splits)

lemma total_times_more:
  "hm_wf m \<Longrightarrow> hm_get m k = Some u \<Longrightarrow> mset (f v) = mset (f u) + T \<Longrightarrow>
     total_times f (hm_insert k v m) = total_times f m + T"
  by (induction m) (auto simp: hm_get_def hm_insert_def hm_wf_def split: if_splits)

definition plain_events :: "profile_events \<Rightarrow> bool" where
  "plain_events ev \<longleftrightarrow> hm_wf ev \<and> list_all (\<lambda>(k, ts). is_absolute (pk_object_path k)) ev"

definition wild_key :: "group_key \<Rightarrow> profile_key" where
  "wild_key g =
     \<lparr>pk_user = gk_user g, pk_subject_program = gk_subject_program g,
      pk_origin_applet = gk_origin_applet g, pk_object_path = ''prefix:'' @ gk_parent_dir g,
      pk_new_path = None, pk_action = gk_action g, pk_login_context = gk_login_context g\<rparr>"

text \<open>What a group knows: files of its directory that the action applies to, and its key.\<close>

definition group_ok :: "group_key \<times> (instant list \<times> string hset \<times> profile_key) \<Rightarrow> bool" where
  "group_ok g \<longleftrightarrow>
     (case g of (gk, (ts, files, wild)) \<Rightarrow>
        wild = wild_key gk \<and> files \<noteq> [] \<and> is_file_op (gk_action gk) \<and>
        (\<forall>f \<in> set files. is_absolute f \<and> path_parent f = Some (gk_parent_dir gk) \<and>
           1 < length (gk_parent_dir gk) \<and> gk_parent_dir gk \<noteq> ''/dev''))"

lemma group_key_fields [simp]:
  "gk_parent_dir (group_key_of k d) = d" "gk_action (group_key_of k d) = pk_action k"
  "k\<lparr>pk_object_path := ''prefix:'' @ d, pk_new_path := None\<rparr> = wild_key (group_key_of k d)"
  by (simp_all add: group_key_of_def wild_key_def)

lemma rollup_dir_Some:
  "rollup_dir k = Some d \<Longrightarrow> is_file_op (pk_action k) \<and> path_parent (pk_object_path k) = Some d \<and>
     1 < length d \<and> d \<noteq> ''/dev''"
  by (auto simp: rollup_dir_def split: if_splits option.splits)

definition rollup_inv ::
  "profile_events \<Rightarrow> dir_groups \<times> profile_events \<Rightarrow> bool" where
  "rollup_inv seen st \<longleftrightarrow>
     (case st of (dirs, res) \<Rightarrow>
        hm_wf dirs \<and> hm_wf res \<and> list_all group_ok dirs \<and>
        (\<forall>k \<in> set (hm_keys res). k \<in> set (hm_keys seen) \<and> rollup_dir k = None \<and> is_absolute (pk_object_path k)) \<and>
        total_times fst dirs + total_times (\<lambda>ts. ts) res = total_times (\<lambda>ts. ts) seen)"

lemma list_all_insert:
  "list_all P m \<Longrightarrow> P (k, v) \<Longrightarrow> list_all P (hm_insert k v m)"
  by (induction m) (auto simp: hm_insert_def)

lemma hm_keys_insert: "set (hm_keys (hm_insert k v m)) = insert k (set (hm_keys m))"
  by (auto simp: hm_keys_def hm_insert_def dom_update)

lemma hm_keys_snoc [simp]: "hm_keys (m @ [(k, v)]) = hm_keys m @ [k]"
  by (simp add: hm_keys_def)

lemma total_times_append [simp]: "total_times f (a @ b) = total_times f a + total_times f b"
  by (induction a) (auto simp: add.assoc)

lemma rollup_step_new:
  assumes "rollup_dir k = Some d" and "hm_get dirs (group_key_of k d) = None"
  shows "rollup_step (k, ts) (dirs, res) =
     (hm_insert (group_key_of k d) (ts, [pk_object_path k], wild_key (group_key_of k d)) dirs, res)"
  using assms by (simp add: rollup_step_def Let_def hs_insert_def del: append_Cons)

lemma rollup_step_inv:
  assumes "rollup_inv seen st" and "is_absolute (pk_object_path k)" and "k \<notin> set (hm_keys seen)"
  shows "rollup_inv (seen @ [(k, ts)]) (rollup_step (k, ts) st)"
proof -
  obtain dirs res where st: "st = (dirs, res)" by fastforce
  note inv = assms(1) [unfolded st rollup_inv_def split_conv]
  show ?thesis
  proof (cases "rollup_dir k")
    case None
    have "hm_get res k = None"
      using inv assms(3) by (auto simp: set_hm_keys)
    with inv None assms(2) show ?thesis
      by (auto simp: st rollup_inv_def rollup_step_def hm_keys_insert total_times_new)
  next
    case (Some d)
    note d = rollup_dir_Some [OF Some]
    let ?g = "group_key_of k d"
    show ?thesis
    proof (cases "hm_get dirs ?g")
      case None
      have "group_ok (?g, (ts, [pk_object_path k], wild_key ?g))"
        using d assms(2) by (simp add: group_ok_def)
      with inv rollup_step_new [OF Some None] show ?thesis
        by (auto simp: st rollup_inv_def total_times_new [OF None] list_all_insert)
    next
      case old: (Some v)
      obtain ts0 files wild where v: "v = (ts0, files, wild)" by (cases v) auto
      from old inv have ok: "group_ok (?g, (ts0, files, wild))"
        by (auto simp: v list_all_iff dest: hm_get_in)
      then have "group_ok (?g, (ts0 @ ts, hs_insert (pk_object_path k) files, wild))"
        using d assms(2) by (auto simp: group_ok_def hs_insert_def)
      moreover have "total_times fst (hm_insert ?g (ts0 @ ts, hs_insert (pk_object_path k) files, wild) dirs) =
          total_times fst dirs + mset ts"
        using inv by (intro total_times_more [OF _ old]) (simp_all add: v)
      ultimately show ?thesis using inv old Some
        by (auto simp: st v rollup_inv_def rollup_step_def Let_def list_all_insert)
    qed
  qed
qed

lemma rollup_fold_inv:
  assumes "rollup_inv seen st" and "plain_events (seen @ es)"
  shows "rollup_inv (seen @ es) (fold rollup_step es st)"
  using assms
proof (induction es arbitrary: seen st)
  case (Cons e es)
  obtain k ts where e: "e = (k, ts)" by fastforce
  from Cons.prems(2) have "is_absolute (pk_object_path k)" "k \<notin> set (hm_keys seen)"
    by (auto simp: plain_events_def e hm_wf_def hm_keys_def)
  from rollup_step_inv [OF Cons.prems(1) this, of ts] Cons.IH [of "seen @ [e]"] Cons.prems(2)
  show ?case by (simp add: e)
qed simp

text \<open>Settling the groups: each gets a key of its own, from which the group can be told.\<close>

definition settled_key :: "group_key \<times> (instant list \<times> string hset \<times> profile_key) \<Rightarrow> profile_key" where
  "settled_key g =
     (case g of (_, (ts, files, wild)) \<Rightarrow>
        if 2 \<le> length files then wild else wild\<lparr>pk_object_path := hd files\<rparr>)"

definition dir_of_key :: "profile_key \<Rightarrow> string" where
  "dir_of_key k =
     (case strip_prefix ''prefix:'' (pk_object_path k) of
        Some d \<Rightarrow> d
      | None \<Rightarrow> (case path_parent (pk_object_path k) of Some d \<Rightarrow> d | None \<Rightarrow> []))"

lemma settle_group_insert:
  "group_ok g \<Longrightarrow> settle_group g res = hm_insert (settled_key g) (sort (fst (snd g))) res"
  by (cases g; cases "fst (snd (snd g))") (auto simp: settle_group_def settled_key_def group_ok_def)

lemma settled_key_group:
  assumes "group_ok g"
  shows "group_key_of (settled_key g) (dir_of_key (settled_key g)) = fst g"
    "\<not> (is_absolute (pk_object_path (settled_key g)) \<and> rollup_dir (settled_key g) = None)"
proof -
  obtain gk ts files wild where g: "g = (gk, (ts, files, wild))" by (cases g) auto
  note ok = assms [unfolded g group_ok_def split_conv]
  have wild: "wild = wild_key gk" using ok by simp
  have one: "hd files \<in> set files" using ok by simp
  have "\<not> is_absolute (''prefix:'' @ x)" for x by (simp add: is_absolute_def)
  then show "\<not> (is_absolute (pk_object_path (settled_key g)) \<and> rollup_dir (settled_key g) = None)"
    using ok one by (auto simp: g wild settled_key_def wild_key_def rollup_dir_def)
  have "dir_of_key (settled_key g) = gk_parent_dir gk"
    using ok one absolute_no_mark(4) [of "hd files"]
    by (simp add: g wild settled_key_def wild_key_def dir_of_key_def del: append_Cons)
  then show "group_key_of (settled_key g) (dir_of_key (settled_key g)) = fst g"
    by (simp add: g wild settled_key_def wild_key_def group_key_of_def)
qed

lemma settle_fold:
  assumes "list_all group_ok gs" and "distinct (map settled_key gs)"
    and "\<forall>g \<in> set gs. settled_key g \<notin> set (hm_keys res)" and "hm_wf res"
  shows "total_times (\<lambda>ts. ts) (fold settle_group gs res) = total_times fst gs + total_times (\<lambda>ts. ts) res \<and>
     hm_wf (fold settle_group gs res)"
  using assms
proof (induction gs arbitrary: res)
  case (Cons g gs)
  have "hm_get res (settled_key g) = None" using Cons.prems(3) by (auto simp: set_hm_keys)
  then have "total_times (\<lambda>ts. ts) (settle_group g res) = total_times (\<lambda>ts. ts) res + mset (fst (snd g))"
    using Cons.prems(1) by (simp add: settle_group_insert total_times_new)
  moreover have "total_times (\<lambda>ts. ts) (fold settle_group gs (settle_group g res)) =
      total_times fst gs + total_times (\<lambda>ts. ts) (settle_group g res) \<and> hm_wf (fold settle_group gs (settle_group g res))"
  proof (rule Cons.IH)
    show "\<forall>h \<in> set gs. settled_key h \<notin> set (hm_keys (settle_group g res))"
    proof
      fix h assume h: "h \<in> set gs"
      with Cons.prems(2) have "settled_key h \<noteq> settled_key g" by (metis distinct.simps(2) imageI list.map(2) set_map)
      with Cons.prems(1,3) h show "settled_key h \<notin> set (hm_keys (settle_group g res))"
        by (simp add: settle_group_insert hm_keys_insert)
    qed
  qed (use Cons.prems in \<open>simp_all add: settle_group_insert\<close>)
  moreover have "total_times fst (g # gs) = mset (fst (snd g)) + total_times fst gs" by (cases g) simp
  ultimately show ?case by (simp add: add.commute add.left_commute)
qed simp

lemma total_times_mset: "mset a = mset b \<Longrightarrow> total_times f a = total_times f b"
  by (simp add: total_times_def)

text \<open>
  C23. Taking the files of a directory together loses no access and counts none twice: whatever the
  order in which the maps are read, the instants of all patterns after the step are those before it.
\<close>

theorem rollup_keeps_every_access:
  assumes "plain_events events" and "\<And>m. mset (dir_order m) = mset m"
  shows "total_times (\<lambda>ts. ts) (rollup_parent_directories_for_anti_storm dir_order events) = total_times (\<lambda>ts. ts) events \<and>
     hm_wf (rollup_parent_directories_for_anti_storm dir_order events)"
proof -
  obtain dirs res where f: "fold rollup_step events ([], []) = (dirs, res)" by fastforce
  have "rollup_inv [] ([], [])" by (simp add: rollup_inv_def hm_keys_def)
  from rollup_fold_inv [OF this, of events] assms(1) f have inv: "rollup_inv events (dirs, res)" by simp
  let ?gs = "dir_order dirs"
  have set: "set ?gs = set dirs" using assms(2) by (metis set_mset_mset)
  then have ok: "list_all group_ok ?gs" using inv by (simp add: rollup_inv_def list_all_iff)
  have "mset (map fst ?gs) = mset (map fst dirs)" using assms(2) by simp
  then have "distinct (map fst ?gs)"
    using mset_eq_imp_distinct_iff inv by (fastforce simp only: rollup_inv_def hm_wf_def split_conv)
  moreover have "map fst ?gs = map (\<lambda>k. group_key_of k (dir_of_key k)) (map settled_key ?gs)"
    using ok settled_key_group(1) by (auto simp: list_all_iff)
  ultimately have "distinct (map settled_key ?gs)" by (metis distinct_map)
  moreover have "\<forall>g \<in> set ?gs. settled_key g \<notin> set (hm_keys res)"
  proof
    fix g assume "g \<in> set ?gs"
    then have "group_ok g" using ok by (simp only: list_all_iff)
    from settled_key_group(2) [OF this] inv show "settled_key g \<notin> set (hm_keys res)"
      unfolding rollup_inv_def split_conv by blast
  qed
  ultimately have "total_times (\<lambda>ts. ts) (fold settle_group ?gs res) = total_times fst ?gs + total_times (\<lambda>ts. ts) res \<and>
      hm_wf (fold settle_group ?gs res)"
    using inv by (intro settle_fold [OF ok]) (auto simp: rollup_inv_def)
  then show ?thesis
    using inv total_times_mset [OF assms(2), of fst dirs]
    by (simp add: rollup_parent_directories_for_anti_storm_def f rollup_inv_def)
qed

end
