(* ===== verification/Log_Draft.thy ===== *)
theory Log_Draft
  imports Log_Facts
begin

text \<open>
  Drafted policies: every rule drafted from a well-formed access is plain, so the draft compiles,
  and optimising it changes no grant. Drafts of other entries of the log go wrong: an entry of
  the fast path becomes a rule for every operation, one of a management command a rule that does not
  compile, and a storm of refusals a rule that permits what was refused.
\<close>

section \<open>Identifiers survive the optimisation once at most\<close>

lemma distinct_sub:
  assumes "mset ys \<subseteq># mset xs" and "distinct xs"
  shows "distinct ys"
proof -
  have "count (mset ys) a = (if a \<in> set ys then 1 else 0)" for a
  proof (cases "a \<in> set ys")
    case True
    then have "0 < count (mset ys) a" by (simp add: count_greater_zero_iff)
    moreover have "count (mset xs) a \<le> 1"
      using assms(2) by (cases "a \<in> set xs") (auto simp: distinct_count_atmost_1 not_in_iff)
    ultimately have "count (mset ys) a = 1"
      using mset_subset_eq_count [OF assms(1), of a] by linarith
    then show ?thesis using True by simp
  qed (simp add: count_eq_zero_iff)
  then show ?thesis by (simp add: distinct_count_atmost_1)
qed

definition ids :: "raw_rule list \<Rightarrow> string multiset" where
  "ids rs = mset (map rr_id rs)"

lemma ids_simps [simp]: "ids [] = {#}" "ids (r # rs) = add_mset (rr_id r) (ids rs)" "ids (a @ b) = ids a + ids b"
  by (simp_all add: ids_def)

lemma absorb_ids: "ids (absorb an r ks) \<subseteq># add_mset (rr_id r) (ids ks)"
  by (induction ks) (auto intro: subset_mset.order_trans simp: add_mset_commute)

lemma filter_shadowed_ids: "ids (filter_shadowed_rules rs an) \<subseteq># ids rs"
proof -
  have "ids (fold (absorb an) rs ks) \<subseteq># ids ks + ids rs" for ks
  proof (induction rs arbitrary: ks)
    case (Cons r rs)
    have "ids (absorb an r ks) + ids rs \<subseteq># ids ks + ids (r # rs)"
      using subset_mset.add_right_mono [OF absorb_ids [of an r ks], of "ids rs"] by simp
    with Cons [of "absorb an r ks"] show ?case by (simp add: subset_mset.order_trans)
  qed simp
  from this [of "[]"] show ?thesis by (simp add: filter_shadowed_rules_def)
qed

lemma ids_concat_mono: "(\<And>g. ids (f g) \<subseteq># ids g) \<Longrightarrow> ids (concat (map f gs)) \<subseteq># ids (concat gs)"
  by (induction gs) (auto intro: subset_mset.add_mono)

lemma ids_mset: "mset a = mset b \<Longrightarrow> ids a = ids b"
  by (simp add: ids_def)

lemma hm_values_replace:
  "hm_wf m \<Longrightarrow> mset (concat (hm_values (hm_insert k (case hm_get m k of Some g \<Rightarrow> g @ [r] | None \<Rightarrow> [r]) m))) =
     add_mset r (mset (concat (hm_values m)))"
  by (induction m) (auto simp: hm_get_def hm_insert_def hm_wf_def hm_values_def split: option.splits)

lemma group_partition: "mset (concat (hm_values (group_rules_by_effect_and_audit rs))) = mset rs"
proof -
  have "hm_wf m \<Longrightarrow> mset (concat (hm_values (fold push_group rs m))) = mset (concat (hm_values m)) + mset rs" for m
    by (induction rs arbitrary: m) (simp_all add: push_group_def Let_def hm_values_replace)
  from this [of "[]"] show ?thesis by (simp add: group_rules_by_effect_and_audit_def hm_values_def)
qed

lemma mset_concat_values: "mset a = mset b \<Longrightarrow> mset (concat (hm_values a)) = mset (concat (hm_values b))"
  by (simp add: hm_values_def mset_concat flip: sum_mset_sum_list)

lemma kept_ids:
  assumes "permutes arrange"
  shows "ids (kept_rules arrange rules an) \<subseteq># ids rules"
proof -
  let ?g = "hm_values (arrange (group_rules_by_effect_and_audit rules))"
  have "ids (filter_shadowed_rules (sort_rules_for_optimization g) an) \<subseteq># ids g" for g
    using filter_shadowed_ids [of "sort_rules_for_optimization g" an]
      ids_mset [of "sort_rules_for_optimization g" g] by (simp add: sort_rules_for_optimization_def)
  then have "ids (kept_rules arrange rules an) \<subseteq># ids (concat ?g)"
    unfolding kept_rules_def by (rule ids_concat_mono)
  also have "ids (concat ?g) = ids rules"
    using mset_concat_values [of "arrange (group_rules_by_effect_and_audit rules)"] assms group_partition
    by (intro ids_mset) (simp add: permutes_def)
  finally show ?thesis .
qed

lemma unique_ids_distinct:
  "distinct (map rr_id rs) \<Longrightarrow> \<forall>r \<in> set rs. hm_get seen (rr_id r) = None \<Longrightarrow> unique_ids rs seen = rs"
proof (induction rs arbitrary: seen)
  case (Cons a rs)
  have "hm_get (hm_insert (rr_id a) 1 seen) (rr_id r) = None" if "r \<in> set rs" for r
    using Cons.prems that by (metis distinct.simps(2) hm_facts(2) image_eqI list.set_intros(2) list.simps(9) set_map)
  with Cons show ?case by (simp add: Let_def)
qed simp

lemma distinct_ids_sorted [simp]: "distinct (map rr_id (sort_key f rs)) = distinct (map rr_id rs)"
  by (rule mset_eq_imp_distinct_iff) simp

lemma optimize_distinct_ids:
  assumes "permutes arrange" and "distinct (map rr_id rules)"
  shows "distinct (map rr_id (optimize_rules arrange rules an))"
proof -
  have "distinct (map rr_id (kept_rules arrange rules an))"
    by (rule distinct_sub [OF kept_ids [OF assms(1), unfolded ids_def] assms(2)])
  then show ?thesis
    by (simp add: optimize_rules_kept ensure_unique_rule_ids_def unique_ids_distinct sort_rules_for_display_def)
qed

section \<open>Plain accesses\<close>

definition plain_path :: "string \<Rightarrow> bool" where
  "plain_path p \<longleftrightarrow> is_absolute p \<and> list_all plain_byte p"

definition plain_key :: "profile_key \<Rightarrow> bool" where
  "plain_key k \<longleftrightarrow>
     plain_path (pk_object_path k) \<and> pred_option plain_path (pk_new_path k) \<and>
     pred_option plain_path (given (pk_subject_program k)) \<and>
     parse_ops (pk_action k) \<noteq> [] \<and> Unknown \<notin> set (parse_ops (pk_action k))"

lemma plain_trim: "list_all plain_byte s \<Longrightarrow> s \<noteq> [] \<Longrightarrow> rust_trim s = s"
  by (rule rust_trim_plain) (auto simp: list_all_iff)

lemma plain_path_spec: "plain_path p \<Longrightarrow> plain_spec p"
  using plain_trim absolute_no_mark(3) by (auto simp: plain_path_def plain_spec_def)

lemma abstract_path_spec:
  assumes "plain_path p"
  shows "plain_spec (abstract_path p)" "abstract_path p \<noteq> []" "abstract_path p \<noteq> ''-''"
proof -
  have a: "is_absolute p" "list_all plain_byte p" using assms by (simp_all add: plain_path_def)
  then obtain r where p: "p = CHR ''/'' # r" by (auto simp: is_absolute_def prefix_def)
  have cut: "plain_spec (''prefix:'' @ take (Suc n) p)" for n
  proof -
    have "list_all plain_byte (''prefix:'' @ take (Suc n) p)"
      using a(2) by (auto simp: p list_all_iff plain_byte_def byte_def dest: in_set_takeD)
    then have "rust_trim (''prefix:'' @ take (Suc n) p) = ''prefix:'' @ take (Suc n) p"
      by (rule plain_trim) simp
    moreover have "is_absolute (take (Suc n) p)" by (simp add: p is_absolute_def)
    ultimately show ?thesis unfolding plain_spec_def by blast
  qed
  show "plain_spec (abstract_path p)"
    using cut plain_path_spec [OF assms] by (auto simp: abstract_path_def simp del: append_Cons take_Suc_Cons split: option.split)
  show "abstract_path p \<noteq> []" "abstract_path p \<noteq> ''-''"
    by (auto simp: abstract_path_def p split: option.split)
qed

lemma drafted_rule_plain:
  assumes "plain_key k"
  shows "plain_rule (build_raw_rule k n target th w i)"
    "rr_object (build_raw_rule k n target th w i) \<noteq> None"
    "rr_rule_type (build_raw_rule k n target th w i) = RtStandard"
  using assms abstract_path_spec [of "pk_object_path k"] abstract_path_spec(1) plain_path_spec
  by (auto simp: plain_key_def build_raw_rule_def Let_def plain_rule_def option.pred_map o_def
      split: option.splits elim: option.pred_mono_strong)

lemma drafted_rule_fields:
  "rr_effect (build_raw_rule k n target th w i) = Allow"
  "rr_pre_approval (build_raw_rule k n target th w i) = Some \<lparr>rpa_enabled = False, rpa_ttl_sec = None\<rparr>"
  by (simp_all add: build_raw_rule_def Let_def)

lemma drafted_ids_distinct:
  "distinct (map rr_id (draft_rules target th events))"
proof -
  have nou: "CHR ''_'' \<notin> set (show_nat i)" for i
    using show_nat_digits [of i] by (auto simp: list_all_iff is_digit_def byte_def)
  have "after_last (CHR ''_'') (rr_id (build_raw_rule k n target th w i)) = Some (show_nat i)" for k n w i
  proof -
    have "\<exists>pre. rr_id (build_raw_rule k n target th w i) = pre @ CHR ''_'' # show_nat i"
      by (rule exI [of _ "''auto_'' @ (if target = AntiStorm then ''suppress'' else ''allow'') @ ''_'' @
            last (split_on (CHR ''/'') (pk_subject_program k)) @ ''_'' @
            (if FileRename \<in> set (parse_ops (pk_action k)) then ''rename'' else ''ops'')"])
        (simp add: build_raw_rule_def Let_def)
    then show ?thesis using after_last_append [OF nou] by auto
  qed
  then have "map (\<lambda>s. after_last (CHR ''_'') s) (map rr_id (draft_rules target th events)) =
      map (Some \<circ> show_nat) [0..<length (draft_patterns target th events)]"
    by (auto simp: draft_rules_def enumerate_eq_zip case_prod_beta intro: nth_equalityI)
  moreover have "inj (Some \<circ> show_nat)" by (metis comp_apply digits_value_show_nat injI option.inject)
  ultimately show ?thesis by (metis distinct_map distinct_upt inj_on_subset subset_UNIV)
qed

section \<open>Policies of plain rules\<close>

text \<open>What the rules of a draft have in common, before and after the optimisation.\<close>

definition drafted :: "raw_rule \<Rightarrow> bool" where
  "drafted r \<longleftrightarrow>
     plain_rule r \<and> rr_object r \<noteq> None \<and> rr_rule_type r = RtStandard \<and> rr_effect r = Allow \<and>
     rr_pre_approval r = Some \<lparr>rpa_enabled = False, rpa_ttl_sec = None\<rparr>"

lemma drafted_same: "same_rule a b \<Longrightarrow> drafted b \<Longrightarrow> drafted a"
  by (simp add: drafted_def plain_rule_def same_rule_fields)

lemma drafted_compiles: "drafted r \<Longrightarrow> \<exists>c ws'. compile_rule_v14 pf r ttl db ws = Inr (c, ws')"
proof -
  assume d: "drafted r"
  then have p: "plain_rule r" by (simp add: drafted_def)
  have a: "\<exists>m w. compile_action_v14 (rr_action r) ws1 = Inr (m, w)" for ws1
    by (simp add: compile_action_v14_def Let_def case_prod_beta)
  obtain sub ws2 where sub: "compile_subject_v14 pf (rr_subject r) db ws = (sub, ws2)" by fastforce
  from a [of ws2] obtain m w where "compile_action_v14 (rr_action r) ws2 = Inr (m, w)" by blast
  with d p sub show ?thesis
    by (simp add: compile_rule_v14_def drafted_def validate_pre_approval_for_rule_def plain_parts(4)
        compile_time_constraints_v14_def plain_object_compiles)
qed

lemma rules_fold_compiles:
  "\<forall>r \<in> set rs. drafted r \<Longrightarrow> \<exists>res. foldR (rules_step pf ttl db) rs st = Inr res"
proof (induction rs arbitrary: st)
  case (Cons r rs)
  obtain acc ws where st: "st = (acc, ws)" by fastforce
  from drafted_compiles [of r pf ttl db ws] Cons.prems obtain c ws' where
    "compile_rule_v14 pf r ttl db ws = Inr (c, ws')" by auto
  with Cons show ?case by (simp add: st rules_step_def)
qed simp

lemma ids_accepted: "distinct (map rr_id rs) \<Longrightarrow> \<exists>seen. foldR rule_id_step rs [] = Inr seen"
proof -
  have "distinct (map rr_id rs) \<Longrightarrow> rr_id ` set rs \<inter> set s = {} \<Longrightarrow> \<exists>t. foldR rule_id_step rs s = Inr t" for s
    by (induction rs arbitrary: s) (auto simp: rule_id_step_def)
  then show "distinct (map rr_id rs) \<Longrightarrow> \<exists>seen. foldR rule_id_step rs [] = Inr seen" by simp
qed

definition drafted_policy :: "raw_policy \<Rightarrow> bool" where
  "drafted_policy raw \<longleftrightarrow>
     rp_version raw = ''1.4'' \<and>
     validate_pre_approval_defaults (rp_pre_approval_defaults raw) = Inr () \<and>
     distinct (map rr_id (rp_rules raw)) \<and> (\<forall>r \<in> set (rp_rules raw). drafted r)"

lemma drafted_policy_compiles:
  assumes "drafted_policy raw"
  shows "\<exists>p ws. compile_policy_v14 pf raw db = Inr (p, ws)"
proof -
  from assms ids_accepted obtain seen where "foldR rule_id_step (rp_rules raw) [] = Inr seen"
    by (auto simp: drafted_policy_def)
  moreover from assms obtain rs ws where
    "foldR (rules_step pf (rpd_ttl_sec_default (rp_pre_approval_defaults raw)) db) (rp_rules raw) ([], []) = Inr (rs, ws)"
    using rules_fold_compiles by (metis drafted_policy_def surj_pair)
  ultimately show ?thesis
    using assms by (simp add: drafted_policy_def compile_policy_v14_def Let_def pre_approval_defaults_from_def)
qed

definition granted :: "eval_env \<Rightarrow> compiled_bundle \<Rightarrow> access_context \<Rightarrow> bool" where
  "granted ev b ctx \<longleftrightarrow> (\<exists>r. evaluate ev b ctx = Matched r \<and> cr_effect r = Allow)"

text \<open>Whatever form of a contained rule matches, every compiled form of the container matches.\<close>

lemma contained_compiled:
  assumes "drafted r" and "drafted k" and "is_shadowed r k \<or> same_rule k r"
    and "compiles_to pf ttl db r c" and "compiles_to pf ttl' db k c'" and "ev_platform ev = pf"
    and "rule_matches ev c nets ctx st"
  shows "rule_matches ev c' nets ctx st"
proof -
  have refl: "is_shadowed r r" for r
    by (auto simp: is_shadowed_def Let_def json_path_contains_def login_context_shadowed_def
        object_shadowed_def split: option.splits)
  have "is_shadowed r k"
    using assms(3) refl [of r] same_rule_shadowed [of r r k r] by auto
  with assms contained_rule_matches show ?thesis
    unfolding compiles_to_def drafted_def by blast
qed

lemma granted_by_rule:
  assumes d: "drafted_policy raw" and c: "compile_policy_v14 pf raw db = Inr (cb_policy b, ws)"
    and pf: "ev_platform ev = pf"
  defines "ttl \<equiv> rpd_ttl_sec_default (rp_pre_approval_defaults raw)"
  shows "granted ev b ctx \<longleftrightarrow>
     (\<exists>rr \<in> set (rp_rules raw). \<exists>r. compiles_to pf ttl db rr r \<and> bundle_matches ev b ctx r)"
proof -
  from c obtain rs where rs: "list_all2 (compiles_to pf ttl db) (rp_rules raw) rs"
    "cp_rules (cb_policy b) = sort_by_specificity rs"
    unfolding ttl_def by (rule compile_policy_Inr)
  have from_raw: "\<exists>rr \<in> set (rp_rules raw). compiles_to pf ttl db rr r" if "r \<in> set (cp_rules (cb_policy b))" for r
  proof -
    have "r \<in> set rs" using that rs(2) by (simp add: set_sort_by_specificity)
    with rs(1) show ?thesis by (metis list_all2_conv_all_nth in_set_conv_nth)
  qed
  have allow: "cr_effect r = Allow" if "r \<in> set (cp_rules (cb_policy b))" for r
  proof -
    from from_raw [OF that] obtain rr where "rr \<in> set (rp_rules raw)" "compiles_to pf ttl db rr r" by blast
    with d show ?thesis
      by (auto simp: drafted_policy_def drafted_def compiles_to_def elim: compile_rule_Inr)
  qed
  show ?thesis
  proof
    assume "granted ev b ctx"
    then obtain r where "evaluate ev b ctx = Matched r" by (auto simp: granted_def)
    then have "r \<in> set (cp_rules (cb_policy b))" "bundle_matches ev b ctx r"
      by (auto simp: evaluate_alt first_match_Matched split: if_splits)
    with from_raw show "\<exists>rr \<in> set (rp_rules raw). \<exists>r. compiles_to pf ttl db rr r \<and> bundle_matches ev b ctx r"
      by blast
  next
    assume "\<exists>rr \<in> set (rp_rules raw). \<exists>r. compiles_to pf ttl db rr r \<and> bundle_matches ev b ctx r"
    then obtain rr r where r: "rr \<in> set (rp_rules raw)" "compiles_to pf ttl db rr r" "bundle_matches ev b ctx r"
      by blast
    from r(1) rs(1) obtain r' where r': "r' \<in> set rs" "compiles_to pf ttl db rr r'"
      by (metis list_all2_conv_all_nth in_set_conv_nth)
    from d r(1) have dr: "drafted rr" by (simp add: drafted_policy_def)
    then have "bundle_matches ev b ctx r'"
      using contained_compiled [OF dr dr _ r(2) r'(2) pf] r(3) by (simp add: bundle_matches_def)
    moreover have "is_indexed r'"
      using compiled_rule_indexed [OF r'(2)] dr by (simp add: drafted_def)
    moreover from r'(1) obtain before after where pos: "cp_rules (cb_policy b) = before @ r' # after"
      by (metis rs(2) set_sort_by_specificity split_list)
    moreover from c have "cp_scope (cb_policy b) = scope_from_rules (cp_rules (cb_policy b))"
      by (rule compile_policy_Inr)
    ultimately obtain q where q: "q \<in> insert r' (set before)" "evaluate ev b ctx = Matched q"
      using indexed_rule_decides [of b before r' after ev ctx] by auto
    with pos have "q \<in> set (cp_rules (cb_policy b))" by auto
    with q(2) allow show "granted ev b ctx" by (auto simp: granted_def)
  qed
qed

text \<open>A policy whose every rule has a container in another grants no more than the other.\<close>

lemma grants_included:
  assumes d: "drafted_policy x" "drafted_policy y"
    and c: "compile_policy_v14 pf x db = Inr (p, ws)" "compile_policy_v14 pf y db = Inr (q, vs)"
    and st: "rp_system_type x = rp_system_type y" and pf: "ev_platform ev = pf"
    and inc: "\<forall>r \<in> set (rp_rules x). \<exists>k \<in> set (rp_rules y). is_shadowed r k \<or> same_rule k r"
    and g: "granted ev (b\<lparr>cb_policy := p\<rparr>) ctx"
  shows "granted ev (b\<lparr>cb_policy := q\<rparr>) ctx"
proof -
  let ?ttl = "\<lambda>z. rpd_ttl_sec_default (rp_pre_approval_defaults z)"
  have st': "cp_system_type q = cp_system_type p"
    using st by (metis compile_policy_Inr [OF c(1)] compile_policy_Inr [OF c(2)])
  from g granted_by_rule [OF d(1) _ pf, of db "b\<lparr>cb_policy := p\<rparr>" ws ctx] c(1) obtain rr r where
    r: "rr \<in> set (rp_rules x)" "compiles_to pf (?ttl x) db rr r" "bundle_matches ev (b\<lparr>cb_policy := p\<rparr>) ctx r"
    by auto
  from inc r(1) obtain k where k: "k \<in> set (rp_rules y)" "is_shadowed rr k \<or> same_rule k rr" by blast
  have dr: "drafted rr" "drafted k" using d r(1) k(1) by (simp_all add: drafted_policy_def)
  from drafted_compiles [OF dr(2), of pf "?ttl y" db] obtain kc where kc: "compiles_to pf (?ttl y) db k kc"
    unfolding compiles_to_def by blast
  have "bundle_matches ev (b\<lparr>cb_policy := q\<rparr>) ctx kc"
    using contained_compiled [OF dr k(2) r(2) kc pf] r(3) by (simp add: bundle_matches_def st')
  with k(1) kc granted_by_rule [OF d(2) _ pf, of db "b\<lparr>cb_policy := q\<rparr>" vs ctx] c(2) show ?thesis by auto
qed

section \<open>Optimising a draft\<close>

lemma generated_policy:
  assumes "list_all (\<lambda>(k, ts). plain_key k) events" and "permutes arrange"
  shows "drafted_policy (generate_profile arrange events target th opt)"
    "rr \<in> set (rp_rules (generate_profile arrange events target th opt)) \<longleftrightarrow>
       rr \<in> set (if opt then optimize_rules arrange (draft_rules target th events) True
                else draft_rules target th events)"
proof -
  let ?rs = "draft_rules target th events" and ?p = "generate_profile arrange events target th opt"
  have "drafted r" if r: "r \<in> set ?rs" for r
  proof -
    from r obtain i k n where r: "r = build_raw_rule k n target th ANTI_STORM_WINDOW_SECS i"
      "(k, n) \<in> set (draft_patterns target th events)"
      by (auto simp: draft_rules_def dest!: in_set_enumerate_eq [THEN iffD1] nth_mem)
    then have "plain_key k"
      using assms(1) by (auto simp: draft_patterns_def map_filter_def list_all_iff split: profile_target.splits if_splits)
    with r(1) drafted_rule_plain drafted_rule_fields show ?thesis by (simp add: drafted_def)
  qed
  then have o: "drafted r" if "r \<in> set (optimize_rules arrange ?rs True)" for r
    using optimize_drops_only_shadowed_lemma [OF assms(2)] that drafted_same by blast
  show "drafted_policy ?p"
    using \<open>\<And>r. r \<in> set ?rs \<Longrightarrow> drafted r\<close> o drafted_ids_distinct optimize_distinct_ids [OF assms(2) drafted_ids_distinct]
    by (simp add: drafted_policy_def generate_profile_def Let_def sort_rules_def validate_pre_approval_defaults_def)
  show "rr \<in> set (rp_rules ?p) \<longleftrightarrow> rr \<in> set (if opt then optimize_rules arrange ?rs True else ?rs)"
    by (simp add: generate_profile_def Let_def sort_rules_def)
qed

text \<open>
  C17. Optimising a draft changes no grant: a policy drafted from well-formed accesses compiles
  with and without the optimisation, and the engine grants a request under the one exactly when
  it grants it under the other, whatever the request, the roles and the clock.
\<close>

theorem optimised_draft_grants_the_same:
  assumes "list_all (\<lambda>(k, ts). plain_key k) events" and "permutes arrange"
  shows "\<exists>p ws q vs.
     compile_policy_v14 pf (generate_profile arrange events target th False) db = Inr (p, ws) \<and>
     compile_policy_v14 pf (generate_profile arrange events target th True) db = Inr (q, vs) \<and>
     (\<forall>ev b ctx. ev_platform ev = pf \<longrightarrow>
        granted ev (b\<lparr>cb_policy := p\<rparr>) ctx = granted ev (b\<lparr>cb_policy := q\<rparr>) ctx)"
proof -
  let ?a = "generate_profile arrange events target th False"
  let ?o = "generate_profile arrange events target th True"
  note g = generated_policy(1) [OF assms, of target th] generated_policy(2) [OF assms, of _ target th]
  obtain p ws where p: "compile_policy_v14 pf ?a db = Inr (p, ws)" using drafted_policy_compiles [OF g(1)] by blast
  obtain q vs where q: "compile_policy_v14 pf ?o db = Inr (q, vs)" using drafted_policy_compiles [OF g(1)] by blast
  note opt = optimize_drops_only_shadowed_lemma [OF assms(2), of "draft_rules target th events" True]
  have st: "rp_system_type ?a = rp_system_type ?o" by (simp add: generate_profile_def Let_def)
  have "\<forall>r \<in> set (rp_rules ?a). \<exists>k \<in> set (rp_rules ?o). is_shadowed r k \<or> same_rule k r"
    "\<forall>r \<in> set (rp_rules ?o). \<exists>k \<in> set (rp_rules ?a). is_shadowed r k \<or> same_rule k r"
    using opt g(2) [of _ True] g(2) [of _ False] same_rule_sym by (auto simp: represented_def) blast+
  then have "granted ev (b\<lparr>cb_policy := p\<rparr>) ctx = granted ev (b\<lparr>cb_policy := q\<rparr>) ctx"
    if "ev_platform ev = pf" for ev b ctx
    using grants_included [OF g(1) g(1) p q st that] grants_included [OF g(1) g(1) q p st [symmetric] that] by blast
  with p q show ?thesis by blast
qed

end
