(* ===== verification/Log_Gaps.thy ===== *)
theory Log_Gaps
  imports Log_Draft Ai_Samples
begin

text \<open>
  Where the log viewer does not do what it is for, and concrete instances of its theorems. The
  optimisation takes a restricted rule to contain an unrestricted one; the rule identifiers it
  makes unique can collide; it can turn a refusal into a permission. Drafts generalise entries they
  should leave out, and a long argument that is not plain ASCII ends the viewer.
\<close>

section \<open>Restrictions that containment does not look at\<close>

text \<open>
  A rule counts as contained in the same rule with a uid, required roles, a script or time
  constraints added, although the added restrictions make the other rule match less.
\<close>

lemma restricted_rule_absorbs:
  "is_shadowed r (r\<lparr>rr_time_constraints := tcs,
     rr_subject := (rr_subject r)\<lparr>rsu_uid := uid, rsu_roles := roles, rsu_origin_script := script\<rparr>\<rparr>)"
  by (auto simp: is_shadowed_def Let_def json_path_contains_def login_context_shadowed_def
      object_shadowed_def split: option.splits)

text \<open>A rule without operations stands for every operation, and counts as contained in one for a single operation.\<close>

lemma any_operation_absorbed:
  "is_shadowed (r\<lparr>rr_action := \<lparr>rac_ops = []\<rparr>\<rparr>) (r\<lparr>rr_action := \<lparr>rac_ops = [op]\<rparr>\<rparr>)"
  "compile_action_v14 \<lparr>rac_ops = []\<rparr> ws = Inr (AmAny, ws)"
  by (auto simp: is_shadowed_def Let_def json_path_contains_def login_context_shadowed_def
      object_shadowed_def compile_action_v14_def split: option.splits)

section \<open>Identifiers\<close>

text \<open>Numbering the second of two equal identifiers can produce the identifier of a third rule.\<close>

lemma numbered_id_collides:
  assumes "rr_id a = i" and "rr_id b = i" and "rr_id c = i @ ''-1''"
  shows "map rr_id (ensure_unique_rule_ids [a, b, c]) = [i, i @ ''-1'', i @ ''-1'']"
proof -
  have "show_nat 1 = ''1''" by code_simp
  with assms show ?thesis by (simp add: ensure_unique_rule_ids_def Let_def)
qed

section \<open>A refusal that the optimisation lifts\<close>

definition gap_rule :: "string \<Rightarrow> string option \<Rightarrow> string \<Rightarrow> effect \<Rightarrow> raw_rule" where
  "gap_rule rid user p eff =
     (sample_raw_rule rid p)\<lparr>rr_effect := eff,
        rr_subject := (rr_subject (sample_raw_rule rid p))\<lparr>rsu_user := user\<rparr>\<rparr>"

text \<open>Alice may read nothing below \<open>/s\<close>; everybody else may read \<open>/s/k\<close>.\<close>

definition lifted_policy :: raw_policy where
  "lifted_policy = sample_raw_policy
     [gap_rule ''D1'' (Some ''alice'') ''/s/k'' Deny, gap_rule ''D2'' (Some ''alice'') ''prefix:/s'' Deny,
      gap_rule ''A'' None ''/s/k'' Allow]"

definition decided_by :: "raw_policy \<Rightarrow> access_context \<Rightarrow> (string \<times> effect) option" where
  "decided_by raw ctx =
     (case compile_policy_v14 sample_platform raw sample_known_roles of
        Inl _ \<Rightarrow> None
      | Inr (p, _) \<Rightarrow>
          (case evaluate sample_env (sample_bundle\<lparr>cb_policy := p\<rparr>) ctx of
             Matched r \<Rightarrow> Some (cr_id r, cr_effect r) | _ \<Rightarrow> None))"

text \<open>What a rule of this kind compiles to, as far as the decision looks at it.\<close>

definition gap_form :: "string \<Rightarrow> u32 option \<Rightarrow> path_matcher \<Rightarrow> effect \<Rightarrow> compiled_rule \<Rightarrow> bool" where
  "gap_form rid uid pm eff r \<longleftrightarrow>
     cr_id r = rid \<and> cr_effect r = eff \<and> cr_rule_type r = RtStandard \<and>
     cr_subject r = any_subject\<lparr>sm_uid := uid\<rparr> \<and> cr_time_constraints r = [] \<and>
     cr_object r = Some \<lparr>om_path = Some pm, om_new_path = None, om_kind = None\<rparr> \<and>
     cr_action_match r = AmOneOf [Read]"

lemma gap_compiles:
  "\<exists>r w. compile_rule_v14 sample_platform (gap_rule rid (Some ''alice'') ''/s/k'' eff) ttl db ws = Inr (r, w) \<and>
     gap_form rid (Some 1000) (PmExact ''/s/k'') eff r"
  "\<exists>r w. compile_rule_v14 sample_platform (gap_rule rid (Some ''alice'') ''prefix:/s'' eff) ttl db ws = Inr (r, w) \<and>
     gap_form rid (Some 1000) (PmPrefix ''/s'') eff r"
  "\<exists>r w. compile_rule_v14 sample_platform (gap_rule rid None ''/s/k'' eff) ttl db ws = Inr (r, w) \<and>
     gap_form rid None (PmExact ''/s/k'') eff r"
  by (simp_all add: gap_rule_def sample_raw_rule_def gap_form_def any_subject_def compile_eval)

lemma gap_specificity:
  "gap_form rid uid (PmExact p) eff r \<Longrightarrow> calculate_specificity r = Medium"
  "gap_form rid uid (PmPrefix p) eff r \<Longrightarrow> calculate_specificity r = Low"
  by (simp_all add: gap_form_def calculate_specificity_def exact_opt_def any_subject_def)

text \<open>The policy compiles to the compiled rules, sorted, and to their scope.\<close>

lemma gap_policy:
  assumes "foldR (rules_step sample_platform 600 sample_known_roles) rs ([], []) = Inr (cs, w)"
    and "distinct (map rr_id rs)"
  shows "\<exists>p v. compile_policy_v14 sample_platform (sample_raw_policy rs) sample_known_roles = Inr (p, v) \<and>
    cp_rules p = sort_by_specificity cs \<and> cp_scope p = scope_from_rules (cp_rules p)"
  using assms ids_accepted [OF assms(2)]
  by (auto simp: compile_policy_v14_def sample_raw_policy_def validate_pre_approval_defaults_def
      pre_approval_defaults_from_def Let_def)

definition key_request :: access_context where
  "key_request = sample_context\<lparr>ac_object_path := ''/s/k''\<rparr>"

lemma bundled_gap_matches:
  assumes "gap_form rid uid pm eff r"
  shows "rule_matches sample_env r nets key_request st \<longleftrightarrow>
     pathmatcher_matches sample_platform pm ''/s/k'' \<and> (uid = None \<or> uid = Some 1000)"
  using assms
  by (auto simp: gap_form_def any_subject_def rule_matches_def match_object_def match_subject_def
      match_time_constraints_def match_origin_def key_request_def sample_context_def sample_env_def
      split: option.splits)

lemma first_rule_decides:
  assumes "cp_rules p = r # after" and "cp_scope p = scope_from_rules (cp_rules p)"
    and "gap_form rid uid (PmExact ''/s/k'') eff r" and "uid = None \<or> uid = Some 1000"
  shows "evaluate sample_env (sample_bundle\<lparr>cb_policy := p\<rparr>) key_request = Matched r"
proof -
  have "is_indexed r" using assms(3) by (simp add: is_indexed_def gap_form_def)
  moreover have "bundle_matches sample_env (sample_bundle\<lparr>cb_policy := p\<rparr>) key_request r"
    using bundled_gap_matches [OF assms(3)] assms(4) by (simp add: bundle_matches_def)
  ultimately show ?thesis
    using indexed_rule_decides [of "sample_bundle\<lparr>cb_policy := p\<rparr>" "[]" r after sample_env key_request] assms(1,2)
    by simp
qed

lemma lifted_policy_optimised:
  "optimize_policy id False lifted_policy =
     sample_raw_policy [gap_rule ''A'' None ''/s/k'' Allow, gap_rule ''D2'' (Some ''alice'') ''prefix:/s'' Deny]"
  by code_simp

text \<open>
  The rules are all plain and the dropped one is contained in another, yet alice, refused before
  the optimisation, is let in after it: the engine reads exact rules before prefixes, and the exact
  refusal that came before the permission is gone.
\<close>

lemma optimising_lifts_a_refusal:
  "decided_by lifted_policy key_request = Some (''D1'', Deny)"
  "decided_by (optimize_policy id False lifted_policy) key_request = Some (''A'', Allow)"
proof -
  let ?step = "rules_step sample_platform 600 sample_known_roles"
  obtain d1 w1 where d1: "compile_rule_v14 sample_platform (gap_rule ''D1'' (Some ''alice'') ''/s/k'' Deny) 600
      sample_known_roles [] = Inr (d1, w1)" "gap_form ''D1'' (Some 1000) (PmExact ''/s/k'') Deny d1"
    using gap_compiles(1) by blast
  obtain d2 w2 where d2: "compile_rule_v14 sample_platform (gap_rule ''D2'' (Some ''alice'') ''prefix:/s'' Deny) 600
      sample_known_roles w1 = Inr (d2, w2)" "gap_form ''D2'' (Some 1000) (PmPrefix ''/s'') Deny d2"
    using gap_compiles(2) by blast
  obtain a w3 where a: "compile_rule_v14 sample_platform (gap_rule ''A'' None ''/s/k'' Allow) 600
      sample_known_roles w2 = Inr (a, w3)" "gap_form ''A'' None (PmExact ''/s/k'') Allow a"
    using gap_compiles(3) by blast
  have ids: "rr_id (gap_rule i u q e) = i" for i u q e by (simp add: gap_rule_def sample_raw_rule_def)
  obtain p v where p: "compile_policy_v14 sample_platform lifted_policy sample_known_roles = Inr (p, v)"
    "cp_rules p = sort_by_specificity [d1, d2, a]" "cp_scope p = scope_from_rules (cp_rules p)"
    using gap_policy [of "[gap_rule ''D1'' (Some ''alice'') ''/s/k'' Deny,
        gap_rule ''D2'' (Some ''alice'') ''prefix:/s'' Deny, gap_rule ''A'' None ''/s/k'' Allow]" "[d1, d2, a]" w3]
      d1(1) d2(1) a(1) by (auto simp: rules_step_def ids lifted_policy_def)
  have "sort_by_specificity [d1, d2, a] = [d1, a, d2]"
    by (simp add: sort_by_specificity_def gap_specificity(1) [OF d1(2)] gap_specificity(2) [OF d2(2)]
        gap_specificity(1) [OF a(2)] less_eq_specificity_def)
  with first_rule_decides [of p d1 "[a, d2]" _ _ Deny] p d1(2)
  show "decided_by lifted_policy key_request = Some (''D1'', Deny)"
    by (auto simp: decided_by_def gap_form_def)
  obtain b w4 where b: "compile_rule_v14 sample_platform (gap_rule ''A'' None ''/s/k'' Allow) 600
      sample_known_roles [] = Inr (b, w4)" "gap_form ''A'' None (PmExact ''/s/k'') Allow b"
    using gap_compiles(3) by blast
  obtain c w5 where c: "compile_rule_v14 sample_platform (gap_rule ''D2'' (Some ''alice'') ''prefix:/s'' Deny) 600
      sample_known_roles w4 = Inr (c, w5)" "gap_form ''D2'' (Some 1000) (PmPrefix ''/s'') Deny c"
    using gap_compiles(2) by blast
  obtain q u where q: "compile_policy_v14 sample_platform (optimize_policy id False lifted_policy)
      sample_known_roles = Inr (q, u)"
    "cp_rules q = sort_by_specificity [b, c]" "cp_scope q = scope_from_rules (cp_rules q)"
    unfolding lifted_policy_optimised
    using gap_policy [of "[gap_rule ''A'' None ''/s/k'' Allow, gap_rule ''D2'' (Some ''alice'') ''prefix:/s'' Deny]"
        "[b, c]" w5] b(1) c(1) by (auto simp: rules_step_def ids)
  have "sort_by_specificity [b, c] = [b, c]"
    by (simp add: sort_by_specificity_def gap_specificity(1) [OF b(2)] gap_specificity(2) [OF c(2)]
        less_eq_specificity_def)
  with first_rule_decides [of q b "[c]" _ _ Allow] q b(2)
  show "decided_by (optimize_policy id False lifted_policy) key_request = Some (''A'', Allow)"
    by (auto simp: decided_by_def gap_form_def)
qed

section \<open>Drafts of what should not be drafted\<close>

definition draft_all :: profile_args where
  "draft_all = \<lparr>pa_since = None, pa_target = AllowDraft, pa_deny_only = False, pa_object = None\<rparr>"

text \<open>
  An entry of a ticket consumed in the kernel names no operation. It is selected for an allow draft,
  although what it reports was permitted, and the rule drafted from it permits every operation.
\<close>

lemma consumed_ticket_drafts_everything:
  fixes le ev t idx n th w i
  defines "e \<equiv> enqueue_fast_path le TicketConsumed ev t"
  defines "r \<equiv> build_raw_rule (profile_key_of e idx) n AllowDraft th w i"
  shows "profile_selects v draft_all e idx" "rr_effect r = Allow"
    "compile_action_v14 (rr_action r) ws = Inr (AmAny, ws)"
proof -
  show "profile_selects v draft_all e idx"
    by (simp add: profile_selects_def draft_all_def extract_rule_id_def e_def enqueue_fast_path_def)
  have "pk_action (profile_key_of e idx) = ''-''"
    by (simp add: profile_key_of_def e_def enqueue_fast_path_def case_prod_beta Let_def)
  moreover have "parse_ops ''-'' = []" by code_simp
  ultimately show "rr_effect r = Allow" "compile_action_v14 (rr_action r) ws = Inr (AmAny, ws)"
    by (simp_all add: r_def build_raw_rule_def Let_def compile_action_v14_def)
qed

text \<open>
  An entry of an approved management command is selected as well, and its rule does not compile,
  because the object of such an entry is no path: one command in the log spoils the whole draft.
\<close>

lemma command_spoils_draft:
  fixes le ty d c idx n th w i
  defines "e \<equiv> enqueue_mgmt_ctl le ty d c"
  defines "r \<equiv> build_raw_rule (profile_key_of e idx) n AllowDraft th w i"
  assumes "ty \<noteq> TicketConsumed"
  shows "profile_selects v draft_all e idx" "\<exists>err. compile_rule_v14 pf r ttl db ws = Inl err"
proof -
  show "profile_selects v draft_all e idx"
    by (simp add: profile_selects_def draft_all_def extract_rule_id_def e_def enqueue_mgmt_ctl_def
        case_prod_beta Let_def)
  have "fst (resolve_target_path e idx) = fst (snd (ctl_log_strings c))"
    using assms(3) by (simp add: resolve_target_path_def e_def enqueue_mgmt_ctl_def case_prod_beta Let_def)
  then have "pk_object_path (profile_key_of e idx) = fst (snd (ctl_log_strings c))"
    by (simp add: profile_key_of_def case_prod_beta Let_def)
  then have p: "pk_object_path (profile_key_of e idx) \<in>
      {''system:mode/enforce'', ''system:mode/audit'', ''system:policy/update'', ''system:network/lockdown''}"
    by (auto simp: ctl_log_strings_def split: mgmt_ctl_kind.splits)
  have "\<exists>x. compile_path_matcher_v14 pf (abstract_path p) = Inl x \<and> abstract_path p \<notin> {[], ''-''}"
    if "p \<in> {''system:mode/enforce'', ''system:mode/audit'', ''system:policy/update'', ''system:network/lockdown''}" for p
  proof -
    have "abstract_path p = p" "rust_trim p = p"
      using that by (auto simp: abstract_path_def rust_trim_plain plain_byte_def byte_def sublist_code)
    with that show ?thesis
      by (auto simp: compile_path_matcher_v14_def Let_def strip_prefix_def is_absolute_def)
  qed
  from this [OF p] obtain x where x: "compile_path_matcher_v14 pf (abstract_path (pk_object_path (profile_key_of e idx))) = Inl x"
    "abstract_path (pk_object_path (profile_key_of e idx)) \<notin> {[], ''-''}" by blast
  then have "compile_object_v14 pf (rr_object r) = Inl x"
    by (simp add: r_def build_raw_rule_def Let_def compile_object_v14_def)
  then show "\<exists>err. compile_rule_v14 pf r ttl db ws = Inl err"
    by (simp add: compile_rule_v14_def r_def build_raw_rule_def Let_def validate_pre_approval_for_rule_def
        compile_time_constraints_v14_def case_prod_beta)
qed

text \<open>
  A storm of refused accesses becomes a rule that permits them, to every user and without a trace
  in the log.
\<close>

lemma refused_storm_permitted:
  assumes "al_auth e = SlowPath p m" and "pv_decision p = Deny"
    and "is_storm (sort ts) th (int ANTI_STORM_WINDOW_SECS * 10 ^ 9)"
  shows "profile_selects v (draft_all\<lparr>pa_target := AntiStorm\<rparr>) e idx"
    "\<exists>r. draft_rules AntiStorm th [(profile_key_of e idx, ts)] = [r] \<and> rr_effect r = Allow \<and>
       rsu_user (rr_subject r) = None \<and> rr_audit_level r = AlSilent"
  using assms
  by (simp_all add: profile_selects_def draft_all_def draft_rules_def draft_patterns_def
      map_filter_simps enumerate_eq_zip build_raw_rule_def Let_def)

section \<open>Arguments that end the viewer\<close>

text \<open>
  With more than thirty bytes of arguments the viewer keeps the first 27; when they end within a
  character it panics, and shows nothing of the rest of the log.
\<close>

lemma long_argument_ends_view:
  assumes "ve_decode v line = Some e" and "si_args (sy_subject (al_syscall e)) = Some args"
    and "30 < length args" and "is_cont (args ! 27)" and "va_mode a = Debug"
    and "view_selects v a e (index_entry e idx)"
  shows "view_loop v tty a (Inr line # ls) idx = ([], ViewPanic)"
  using assms
  by (simp add: process_log_line_def format_output_def extract_args_short_def slice_to_def
      is_char_boundary_def case_prod_beta Let_def)

section \<open>Instances\<close>

definition consumed_log :: "string \<Rightarrow> audit_log_entry" where
  "consumed_log tid =
     (sample_log ''e2'' 2 [] Allow)\<lparr>al_log_type := TicketConsumed,
        al_auth := FastPath \<lparr>tf_ticket_id = tid, tf_uses_left = 1, tf_policy_rule = ''cached''\<rparr>\<rparr>"

definition issuing_log :: "string \<Rightarrow> string \<Rightarrow> audit_log_entry" where
  "issuing_log tid path =
     (sample_log ''e1'' 1 path Allow)\<lparr>al_auth := SlowPath \<lparr>pv_rule_id = ''R'', pv_matched_file = [],
        pv_mpa_level = 0, pv_decision = Allow,
        pv_issued_ticket = Some \<lparr>it_ticket_id = tid, it_ttl_sec = 60\<rparr>\<rparr> default_mpa_state\<rparr>"

lemma consumed_ticket_resolved_witness:
  "resolve_target_path (consumed_log ''T-1'')
     (fold index_entry [issuing_log ''T-1'' ''/etc/motd'', issuing_log ''T-2'' ''/etc/shadow'', consumed_log ''T-1''] []) =
     (''/etc/motd'', None)"
  using consumed_ticket_resolved [of "consumed_log ''T-1''" _ "[issuing_log ''T-1'' ''/etc/motd'', issuing_log ''T-2'' ''/etc/shadow'']"]
  by (simp add: consumed_log_def issuing_log_def sample_log_def last_touch_def issued_by_def expired_by_def
      target_of_def)

lemma storm_is_dense_interval_witness: "is_storm [1, 5, 6] 2 3"
proof -
  have "2 \<le> length (filter (\<lambda>x. 5 \<le> x \<and> x \<le> 5 + 3) [1, 5, 6 :: int])" by simp
  with storm_is_dense_interval [of "[1, 5, 6]" 2 3] show ?thesis
    by (simp only: sorted_simps list.set ball_simps) auto
qed

definition sample_key :: "string \<Rightarrow> profile_key" where
  "sample_key p =
     \<lparr>pk_user = ''alice'', pk_subject_program = ''/bin/cat'', pk_origin_applet = ''-'', pk_object_path = p,
      pk_new_path = None, pk_action = ''READ'', pk_login_context = None\<rparr>"

definition sample_events :: profile_events where
  "sample_events = [(sample_key ''/s/a'', [3, 1]), (sample_key ''/s/b'', [2])]"

lemma rollup_keeps_every_access_witness:
  "total_times (\<lambda>ts. ts) (rollup_parent_directories_for_anti_storm rev sample_events) = {#1, 2, 3#}"
proof -
  have "plain_events sample_events"
    by (simp add: plain_events_def sample_events_def sample_key_def hm_wf_def is_absolute_def)
  with rollup_keeps_every_access [of sample_events rev]
  have "total_times (\<lambda>ts. ts) (rollup_parent_directories_for_anti_storm rev sample_events) =
      total_times (\<lambda>ts. ts) sample_events" by simp
  then show ?thesis by (simp add: sample_events_def)
qed


lemma sample_key_plain: "plain_key (sample_key ''/s/a'')" "plain_key (sample_key ''/tmp/b'')"
proof -
  have "parse_ops ''READ'' = [Read]" by code_simp
  then show "plain_key (sample_key ''/s/a'')" "plain_key (sample_key ''/tmp/b'')"
    by (simp_all add: plain_key_def sample_key_def plain_path_def is_absolute_def plain_byte_def byte_def given_def)
qed

lemma optimised_draft_grants_the_same_witness:
  "\<exists>p ws q vs.
     compile_policy_v14 sample_platform (generate_profile rev
       [(sample_key ''/s/a'', [1]), (sample_key ''/tmp/b'', [2])] AllowDraft 0 False) sample_known_roles = Inr (p, ws) \<and>
     compile_policy_v14 sample_platform (generate_profile rev
       [(sample_key ''/s/a'', [1]), (sample_key ''/tmp/b'', [2])] AllowDraft 0 True) sample_known_roles = Inr (q, vs) \<and>
     (\<forall>ctx. granted sample_env (sample_bundle\<lparr>cb_policy := p\<rparr>) ctx =
        granted sample_env (sample_bundle\<lparr>cb_policy := q\<rparr>) ctx)"
  using optimised_draft_grants_the_same [of "[(sample_key ''/s/a'', [1]), (sample_key ''/tmp/b'', [2])]" rev
      sample_platform AllowDraft 0 sample_known_roles]
  by (auto simp: sample_key_plain permutes_def sample_env_def)

end
