(* ===== verification/Eval_Data.thy ===== *)
theory Eval_Data
  imports Log_View Ai_Collector
begin

text \<open>
  \<open>teal-logview/src/ai\<close>, first part: datasets of events, taken from the log (\<open>dataset.rs\<close>) or made up
  (\<open>generate.rs\<close>), and their evaluation by a provider, batch by batch (\<open>eval.rs\<close>). Reading and
  writing JSON, the adapters, the uuids and the times taken are parameters; what a command writes
  is its value. An instant is a number of nanoseconds, up to the last one \<open>chrono\<close> can represent,
  which is a parameter too.
\<close>

section \<open>Datasets from the log\<close>

record create_args =
  dc_from :: "instant option"
  dc_to :: "instant option"
  dc_action :: "string option"
  dc_binary :: "string option"

definition matches_filters :: "ai_event \<Rightarrow> create_args \<Rightarrow> bool" where
  "matches_filters e a =
     (if (case dc_from a of Some t \<Rightarrow> ae_timestamp e < t | None \<Rightarrow> False) then False
      else if (case dc_to a of Some t \<Rightarrow> t \<le> ae_timestamp e | None \<Rightarrow> False) then False
      else if (case dc_action a of Some s \<Rightarrow> \<not> eq_ignore_ascii_case (ae_action e) s | None \<Rightarrow> False) then False
      else if (case dc_binary a of Some b \<Rightarrow> ae_binary e \<noteq> b | None \<Rightarrow> False) then False
      else True)"

datatype dataset_error = EmptyInterval | NoInput | OutputExists | BadLine

definition create_step ::
  "view_env \<Rightarrow> create_args \<Rightarrow> unit + string \<Rightarrow> ai_event list \<Rightarrow> dataset_error + ai_event list" where
  "create_step v a line acc =
     bindR (map_err (\<lambda>_. BadLine) line) (\<lambda>l.
       if rust_trim l = [] then Inr acc
       else (case ve_decode v l of
               None \<Rightarrow> Inr acc
             | Some entry \<Rightarrow>
                 (case collect_ai_event (ve_instant v) entry of
                    Some e \<Rightarrow> Inr (if matches_filters e a then acc @ [e] else acc)
                  | None \<Rightarrow> Inr acc)))"

text \<open>The events of the dataset; after an error nothing of it is left.\<close>

definition dataset_create ::
  "view_env \<Rightarrow> create_args \<Rightarrow> string option \<Rightarrow> bool \<Rightarrow> dataset_error + ai_event list" where
  "dataset_create v a input out_exists =
     (if (case (dc_from a, dc_to a) of (Some f, Some t) \<Rightarrow> t \<le> f | _ \<Rightarrow> False) then Inl EmptyInterval
      else bindR (ok_or input NoInput) (\<lambda>content.
        if out_exists then Inl OutputExists
        else foldR (create_step v a) (buf_lines content) []))"

section \<open>Synthetic datasets\<close>

datatype scenario = NormalRename | MassRename | MassDelete

fun scenario_label :: "scenario \<Rightarrow> string" where
  "scenario_label NormalRename = ''normal-rename''"
| "scenario_label MassRename = ''mass-rename''"
| "scenario_label MassDelete = ''mass-delete''"

fun default_events :: "scenario \<Rightarrow> nat" where
  "default_events NormalRename = 5"
| "default_events MassRename = 100"
| "default_events MassDelete = 100"

fun default_interval_ms :: "scenario \<Rightarrow> int" where
  "default_interval_ms NormalRename = 10000"
| "default_interval_ms MassRename = 100"
| "default_interval_ms MassDelete = 100"

definition MAX_EVENTS :: nat where
  "MAX_EVENTS = 100000"

definition i64_max :: int where
  "i64_max = 2 ^ 63 - 1"

text \<open>Action, target and destination of the \<open>i\<close>-th event of a scenario.\<close>

fun scenario_access :: "scenario \<Rightarrow> nat \<Rightarrow> string \<times> string \<times> string option" where
  "scenario_access NormalRename i =
     (''RENAME'', ''/home/testuser/documents/draft_'' @ pad_nat 6 i @ ''.txt'',
      Some (''/home/testuser/documents/final_'' @ pad_nat 6 i @ ''.txt''))"
| "scenario_access MassRename i =
     (''RENAME'', ''/data/documents/file_'' @ pad_nat 6 i @ ''.txt'',
      Some (''/data/documents/file_'' @ pad_nat 6 i @ ''.enc''))"
| "scenario_access MassDelete i =
     (''UNLINK'', ''/data/documents/file_'' @ pad_nat 6 i @ ''.txt'', None)"

fun scenario_actor :: "scenario \<Rightarrow> string \<times> u32 \<times> string" where
  "scenario_actor NormalRename = (''testuser'', 2100, ''/usr/bin/mv'')"
| "scenario_actor MassRename = (''root'', 4321, ''/usr/bin/mv'')"
| "scenario_actor MassDelete = (''root'', 4322, ''/usr/bin/rm'')"

datatype generate_error =
    BadStart | BadCount | BadInterval | OffsetOverflow | TimestampOverflow | OutputTaken

definition generate_event ::
  "instant \<Rightarrow> scenario \<Rightarrow> instant \<Rightarrow> int \<Rightarrow> nat \<Rightarrow> generate_error + ai_event" where
  "generate_event dt_max sc start interval_ms i =
     (let offset_ms = int i * interval_ms; t = start + offset_ms * 1000000
      in if offset_ms > i64_max then Inl OffsetOverflow
         else if t > dt_max then Inl TimestampOverflow
         else
           (case (scenario_access sc i, scenario_actor sc) of
              ((act, target, new_path), (user, pid, binary)) \<Rightarrow>
                Inr \<lparr>ae_event_id = ''synthetic-'' @ scenario_label sc @ ''-'' @ pad_nat 6 i, ae_timestamp = t,
                     ae_log_type = AccessAllowed, ae_epoch = 1, ae_user = user, ae_pid = pid,
                     ae_action = act, ae_binary = binary, ae_script_path = None, ae_applet = None,
                     ae_args = None, ae_target_path = target, ae_target_kind = ''file'',
                     ae_new_path = new_path, ae_remote_client = None, ae_rule = None, ae_ticket_id = None\<rparr>))"

definition generate_events ::
  "instant \<Rightarrow> scenario \<Rightarrow> nat \<Rightarrow> instant \<Rightarrow> int \<Rightarrow> generate_error + ai_event list" where
  "generate_events dt_max sc count_of start interval_ms =
     (if count_of = 0 \<or> count_of > MAX_EVENTS then Inl BadCount
      else if interval_ms \<le> 0 then Inl BadInterval
      else foldR (\<lambda>i acc. bindR (generate_event dt_max sc start interval_ms i) (\<lambda>e. Inr (acc @ [e])))
             [0..<count_of] [])"

text \<open>The command \<open>generate\<close>: the start, given as text, is read by \<open>chrono\<close>.\<close>

definition generate_run ::
  "instant \<Rightarrow> (string \<Rightarrow> instant option) \<Rightarrow> scenario \<Rightarrow> nat option \<Rightarrow> int option \<Rightarrow> string \<Rightarrow> bool \<Rightarrow>
   generate_error + ai_event list" where
  "generate_run dt_max read_time sc events interval_ms start out_exists =
     bindR (ok_or (read_time start) BadStart) (\<lambda>t.
     bindR (generate_events dt_max sc (case events of Some n \<Rightarrow> n | None \<Rightarrow> default_events sc) t
              (case interval_ms of Some i \<Rightarrow> i | None \<Rightarrow> default_interval_ms sc)) (\<lambda>evs.
       if out_exists then Inl OutputTaken else Inr evs))"

section \<open>Batches\<close>

text \<open>
  The loop of \<open>split_batches\<close> after the first event of the current batch, with the start of its
  window. \<open>None\<close> is the panic of adding the window to an instant close to the last one.
\<close>

fun split_loop ::
  "instant \<Rightarrow> int \<Rightarrow> nat \<Rightarrow> ai_event list \<Rightarrow> instant \<Rightarrow> ai_event list \<Rightarrow> ai_event list list option" where
  "split_loop dt_max window max_events cur start [] = Some (if cur = [] then [] else [cur])"
| "split_loop dt_max window max_events cur start (e # es) =
     (if start + window > dt_max then None
      else if ae_timestamp e \<ge> start + window \<or> length cur \<ge> max_events then
        map_option (\<lambda>bs. if cur = [] then bs else cur # bs)
          (split_loop dt_max window max_events [e] (ae_timestamp e) es)
      else split_loop dt_max window max_events (cur @ [e]) start es)"

datatype eval_error =
    LimitsZero | WindowTooLong | GroupLimitZero | CannotOpenDataset | CannotReadDataset nat
  | InvalidEvent nat | EmptyDataset | MissingProviderConfig string | UnsupportedProvider string
  | ProviderSetup string | CannotCreateReport

definition split_batches ::
  "instant \<Rightarrow> ai_event list \<Rightarrow> u64 \<Rightarrow> nat \<Rightarrow> (eval_error + ai_event list list) option" where
  "split_batches dt_max events window_seconds max_events =
     (if window_seconds = 0 \<or> max_events = 0 then Some (Inl LimitsZero)
      else if uint window_seconds > i64_max div 1000 then Some (Inl WindowTooLong)
      else map_option Inr
        (case events of
           [] \<Rightarrow> Some []
         | e # es \<Rightarrow>
             split_loop dt_max (uint window_seconds * 10 ^ 9) max_events [e] (ae_timestamp e) es))"

section \<open>Evaluation\<close>

record eval_batch_error =
  be_error_type :: string
  be_code :: "string option"
  be_field :: "string option"
  be_anomaly_index :: "nat option"
  be_http_status :: "u16 option"

record eval_batch_report =
  br_batch_index :: nat
  br_analysis_id :: string
  br_window_start :: instant
  br_window_end :: instant
  br_input_event_count :: nat
  br_aggregated_event_count :: "nat option"
  br_target_event_ids :: "string list"
  br_elapsed_ms :: u64
  br_result :: "ai_analysis_result option"
  br_error :: "eval_batch_error option"
  br_source_event_ids :: "(string, string list) hmap"

record eval_report =
  er_report_version :: string
  er_evaluated_at :: instant
  er_provider_name :: string
  er_model_name :: string
  er_config_sha256 :: string
  er_prompt_sha256 :: string
  er_dataset_path :: string
  er_input_event_count :: nat
  er_aggregated_event_count :: nat
  er_batch_count :: nat
  er_elapsed_ms :: u64
  er_batches :: "eval_batch_report list"

definition provider_failed :: "string \<Rightarrow> u16 option \<Rightarrow> eval_batch_error" where
  "provider_failed code status =
     \<lparr>be_error_type = ''provider_failed'', be_code = Some code, be_field = None,
      be_anomaly_index = None, be_http_status = status\<rparr>"

fun batch_error_of :: "ai_error \<Rightarrow> eval_batch_error" where
  "batch_error_of (AeValidation f) =
     \<lparr>be_error_type = ''validation_failed'', be_code = Some (validation_code_as_str (vf_code f)),
      be_field = vf_field f, be_anomaly_index = vf_anomaly_index f, be_http_status = None\<rparr>"
| "batch_error_of (AeProviderFailure f) =
     provider_failed (provider_error_code_as_str (pfl_code f)) (pfl_http_status f)"
| "batch_error_of AeTimeout = provider_failed ''timeout'' None"
| "batch_error_of (AeRateLimited _) = provider_failed ''rate_limited'' None"
| "batch_error_of (AeAuthentication _) = provider_failed ''authentication_error'' None"
| "batch_error_of (AeInvalidResponse _) = provider_failed ''invalid_response'' None"
| "batch_error_of (AeInvalidRequest _) =
     \<lparr>be_error_type = ''invalid_request'', be_code = None, be_field = None, be_anomaly_index = None,
      be_http_status = None\<rparr>"
| "batch_error_of (AeUnavailable _) = provider_failed ''other'' None"
| "batch_error_of (AeProvider _) = provider_failed ''other'' None"

text \<open>
  What a run takes from outside: uuids and the times taken, by the index of the batch, the time at
  its end, the bytes of the configuration file and the digest of bytes as hex digits.
\<close>

record eval_run =
  ru_uuid :: "nat \<Rightarrow> string"
  ru_elapsed :: "nat \<Rightarrow> u64"
  ru_host :: string
  ru_now :: instant
  ru_total_elapsed :: u64
  ru_config_raw :: string
  ru_sha256_hex :: "string \<Rightarrow> string"

definition calculate_sha256 :: "eval_run \<Rightarrow> string \<Rightarrow> string" where
  "calculate_sha256 ru content = ''sha256:'' @ ru_sha256_hex ru content"

definition eval_request :: "eval_run \<Rightarrow> nat \<Rightarrow> ai_event list \<Rightarrow> ai_analysis_request" where
  "eval_request ru index evs =
     \<lparr>rq_analysis_id = ''eval-'' @ ru_uuid ru index, rq_host = ru_host ru,
      rq_window_start = ae_timestamp (hd evs), rq_window_end = ae_timestamp (last evs), rq_events = evs\<rparr>"

definition batch_report ::
  "eval_run \<Rightarrow> nat \<Rightarrow> ai_event list \<Rightarrow> ai_error + ai_analysis_outcome \<Rightarrow> eval_batch_report" where
  "batch_report ru index evs outcome =
     (let rq = eval_request ru index evs
      in \<lparr>br_batch_index = index + 1, br_analysis_id = rq_analysis_id rq,
          br_window_start = rq_window_start rq, br_window_end = rq_window_end rq,
          br_input_event_count = length (rq_events rq),
          br_aggregated_event_count =
            (case outcome of Inr oc \<Rightarrow> Some (ou_aggregated_event_count oc) | Inl _ \<Rightarrow> None),
          br_target_event_ids = map ae_event_id evs, br_elapsed_ms = ru_elapsed ru index,
          br_result = (case outcome of Inr oc \<Rightarrow> Some (ou_result oc) | Inl _ \<Rightarrow> None),
          br_error = (case outcome of Inr _ \<Rightarrow> None | Inl e \<Rightarrow> Some (batch_error_of e)),
          br_source_event_ids =
            (case outcome of Inr oc \<Rightarrow> ou_source_event_ids oc | Inl _ \<Rightarrow> [])\<rparr>)"

fun eval_batches ::
  "eval_run \<Rightarrow> aggregator_config \<Rightarrow> provider \<Rightarrow> nat \<Rightarrow> ai_event list list \<Rightarrow> eval_batch_report list option" where
  "eval_batches ru cfg prov index [] = Some []"
| "eval_batches ru cfg prov index (evs # bs) =
     Option.bind (analyze_with_provenance cfg prov (eval_request ru index evs)) (\<lambda>outcome.
       map_option (\<lambda>rest. batch_report ru index evs outcome # rest)
         (eval_batches ru cfg prov (index + 1) bs))"

definition eval_provider :: "ai_adapters \<Rightarrow> ai_config \<Rightarrow> eval_error + provider \<times> string" where
  "eval_provider ad c =
     (if ai_provider c = ''gemini'' then
        bindR (ok_or (ai_gemini c) (MissingProviderConfig ''gemini'')) (\<lambda>g.
        bindR (map_err ProviderSetup (ad_gemini ad (cl_model g) (cl_timeout_seconds g) (ai_system_prompt c)
          (cl_temperature g))) (\<lambda>p. Inr (p, cl_model g)))
      else if ai_provider c = ''groq'' then
        bindR (ok_or (ai_groq c) (MissingProviderConfig ''groq'')) (\<lambda>g.
        bindR (map_err ProviderSetup (ad_groq ad (cl_model g) (cl_timeout_seconds g) (ai_system_prompt c)
          (cl_temperature g))) (\<lambda>p. Inr (p, cl_model g)))
      else if ai_provider c = ''ollama'' then
        bindR (ok_or (ai_ollama c) (MissingProviderConfig ''ollama'')) (\<lambda>ol.
        bindR (map_err ProviderSetup (ad_ollama ad (oc_endpoint ol) (oc_model ol) (oc_timeout_seconds ol)
          (ai_system_prompt c) (oc_temperature ol))) (\<lambda>p. Inr (p, oc_model ol)))
      else Inl (UnsupportedProvider (ai_provider c)))"

fun read_events ::
  "(string \<Rightarrow> ai_event option) \<Rightarrow> nat \<Rightarrow> (unit + string) list \<Rightarrow> eval_error + ai_event list" where
  "read_events decode n [] = Inr []"
| "read_events decode n (Inl _ # ls) = Inl (CannotReadDataset n)"
| "read_events decode n (Inr l # ls) =
     (if rust_trim l = [] then read_events decode (n + 1) ls
      else bindR (ok_or (decode l) (InvalidEvent n)) (\<lambda>e.
             bindR (read_events decode (n + 1) ls) (\<lambda>es. Inr (e # es))))"

text \<open>The report of a run that gets as far as the provider; \<open>None\<close> is a panic or a batch that never ends.\<close>

definition eval_report_of ::
  "eval_run \<Rightarrow> string \<Rightarrow> ai_config \<Rightarrow> provider \<times> string \<Rightarrow> nat \<Rightarrow> ai_event list list \<Rightarrow> eval_report option" where
  "eval_report_of ru dataset c pm input_count batches =
     map_option (\<lambda>rs.
       \<lparr>er_report_version = ''1.2'', er_evaluated_at = ru_now ru, er_provider_name = ai_provider c,
        er_model_name = snd pm, er_config_sha256 = calculate_sha256 ru (ru_config_raw ru),
        er_prompt_sha256 = calculate_sha256 ru (ai_system_prompt c), er_dataset_path = dataset,
        er_input_event_count = input_count,
        er_aggregated_event_count =
          sum_list (map (\<lambda>r. case br_aggregated_event_count r of Some n \<Rightarrow> n | None \<Rightarrow> 0) rs),
        er_batch_count = length rs, er_elapsed_ms = ru_total_elapsed ru, er_batches = rs\<rparr>)
       (eval_batches ru (ai_aggregator c) (fst pm) 0 batches)"

definition eval_run_report ::
  "instant \<Rightarrow> ai_adapters \<Rightarrow> (string \<Rightarrow> ai_event option) \<Rightarrow> eval_run \<Rightarrow> ai_config \<Rightarrow> string \<Rightarrow>
   string option \<Rightarrow> bool \<Rightarrow> (eval_error + eval_report) option" where
  "eval_run_report dt_max ad decode ru c dataset file out_exists =
     (if ag_max_group_events (ai_aggregator c) = 0 then Some (Inl GroupLimitZero)
      else
        case bindR (ok_or file CannotOpenDataset) (\<lambda>content. read_events decode 1 (buf_lines content)) of
          Inl e \<Rightarrow> Some (Inl e)
        | Inr events \<Rightarrow>
            if events = [] then Some (Inl EmptyDataset)
            else
              Option.bind (split_batches dt_max (sort_events events) (cf_window_seconds (ai_collector c))
                (cf_max_events (ai_collector c))) (\<lambda>split.
                case bindR split (\<lambda>batches. bindR (eval_provider ad c) (\<lambda>pm. Inr (batches, pm))) of
                  Inl e \<Rightarrow> Some (Inl e)
                | Inr (batches, pm) \<Rightarrow>
                    map_option (\<lambda>report. if out_exists then Inl CannotCreateReport else Inr report)
                      (eval_report_of ru dataset c pm (length events) batches)))"

end
