(* ===== verification/Eval_Compare.thy ===== *)
theory Eval_Compare
  imports Eval_Data
begin

text \<open>
  \<open>teal-logview/src/ai/compare.rs\<close>: the comparison of two evaluation reports. Batches are compared
  when they have the same input events, anomalies are the same when their evidence goes back to the
  same events of the log. The order in which a \<open>HashMap\<close> is read is a parameter; the layout of the
  printed report is left out, its numbers on what is compared are not.
\<close>

section \<open>Evidence\<close>

datatype compare_error =
    NoEvidence | UnknownEvidence string | AmbiguousEvidence string | EmptySources string
  | NoInputEvents nat | DuplicateInput nat | OverlappingInput string | RepeatedBatch string

definition evidence_sources :: "(string, string list) hmap \<Rightarrow> string \<Rightarrow> compare_error + string list" where
  "evidence_sources m i =
     bindR (case hm_get m i of
              Some s \<Rightarrow> Inr s
            | None \<Rightarrow>
                (case filter (\<lambda>s. i \<in> set s) (hm_values m) of
                   [] \<Rightarrow> Inl (UnknownEvidence i)
                 | [s] \<Rightarrow> Inr s
                 | _ \<Rightarrow> Inl (AmbiguousEvidence i)))
       (\<lambda>s. if s = [] then Inl (EmptySources i) else Inr s)"

definition original_evidence_key ::
  "string list \<Rightarrow> (string, string list) hmap \<Rightarrow> compare_error + string list" where
  "original_evidence_key evidence_ids m =
     (if evidence_ids = [] then Inl NoEvidence
      else bindR (foldR (\<lambda>i acc. bindR (evidence_sources m i) (\<lambda>s. Inr (acc @ s))) evidence_ids [])
             (\<lambda>originals. Inr (remdups_adj (sort originals))))"

section \<open>Batches\<close>

definition batch_key :: "eval_batch_report \<Rightarrow> compare_error + string list" where
  "batch_key b =
     (if br_target_event_ids b = [] then Inl (NoInputEvents (br_batch_index b))
      else let key = sort (br_target_event_ids b)
           in if \<exists>i \<in> set [1..<length key]. key ! (i - 1) = key ! i
              then Inl (DuplicateInput (br_batch_index b)) else Inr key)"

type_synonym batch_map = "(string list, eval_batch_report) hmap"

definition see_event :: "string \<Rightarrow> string \<Rightarrow> string hset \<Rightarrow> compare_error + string hset" where
  "see_event path i seen = (if i \<in> set seen then Inl (OverlappingInput path) else Inr (hs_insert i seen))"

definition index_step ::
  "string \<Rightarrow> eval_batch_report \<Rightarrow> batch_map \<times> string hset \<Rightarrow> compare_error + batch_map \<times> string hset" where
  "index_step path b st =
     (case st of (m, seen) \<Rightarrow>
        bindR (batch_key b) (\<lambda>key.
        bindR (foldR (see_event path) key seen) (\<lambda>seen1.
          if hm_contains m key then Inl (RepeatedBatch path) else Inr (hm_insert key b m, seen1))))"

definition batch_index :: "eval_report \<Rightarrow> compare_error + batch_map" where
  "batch_index report =
     bindR (foldR (index_step (er_dataset_path report)) (er_batches report) ([], [])) (\<lambda>(m, seen). Inr m)"

record comparable =
  co_pairs :: "(eval_batch_report \<times> eval_batch_report) list"
  co_excluded_failed :: nat
  co_unmatched_base :: nat
  co_unmatched_cand :: nat

definition succeeded :: "eval_batch_report \<Rightarrow> bool" where
  "succeeded b \<longleftrightarrow> br_result b \<noteq> None"

definition compare_step :: "batch_map \<Rightarrow> string list \<times> eval_batch_report \<Rightarrow> comparable \<Rightarrow> comparable" where
  "compare_step cand kb c =
     (case kb of (key, left) \<Rightarrow>
        (case hm_get cand key of
           Some right \<Rightarrow>
             (if succeeded left \<and> succeeded right then c\<lparr>co_pairs := co_pairs c @ [(left, right)]\<rparr>
              else c\<lparr>co_excluded_failed := co_excluded_failed c + 1\<rparr>)
         | None \<Rightarrow> c\<lparr>co_unmatched_base := co_unmatched_base c + 1\<rparr>))"

definition comparable_batches ::
  "(batch_map \<Rightarrow> batch_map) \<Rightarrow> eval_report \<Rightarrow> eval_report \<Rightarrow> compare_error + comparable" where
  "comparable_batches order base cand =
     bindR (batch_index base) (\<lambda>base_index.
     bindR (batch_index cand) (\<lambda>cand_index.
     let c = fold (compare_step cand_index) (order base_index)
               \<lparr>co_pairs = [], co_excluded_failed = 0, co_unmatched_base = 0, co_unmatched_cand = 0\<rparr>
     in Inr (c\<lparr>co_pairs := sort_key (\<lambda>p. br_batch_index (fst p)) (co_pairs c),
               co_unmatched_cand :=
                 length (filter (\<lambda>k. \<not> hm_contains base_index k) (hm_keys cand_index))\<rparr>)))"

section \<open>Detections\<close>

definition batch_detections :: "eval_batch_report \<Rightarrow> compare_error + (ai_anomaly \<times> string list) list" where
  "batch_detections b =
     (case br_result b of
        None \<Rightarrow> Inr []
      | Some res \<Rightarrow>
          foldR (\<lambda>a acc. bindR (original_evidence_key (an_evidence_event_ids a) (br_source_event_ids b))
                   (\<lambda>key. Inr (acc @ [(a, key)]))) (rs_anomalies res) [])"

definition collect_detections ::
  "eval_batch_report list \<Rightarrow> compare_error + (ai_anomaly \<times> string list) list" where
  "collect_detections bs =
     foldR (\<lambda>b acc. bindR (batch_detections b) (\<lambda>ds. Inr (acc @ ds))) bs []"

record comparison =
  cp_comparable :: comparable
  cp_base_anomalies :: nat
  cp_cand_anomalies :: nat
  cp_common :: nat
  cp_dropped :: nat
  cp_new :: nat

definition discrepancies ::
  "comparable \<Rightarrow> (ai_anomaly \<times> string list) list \<Rightarrow> (ai_anomaly \<times> string list) list \<Rightarrow> comparison" where
  "discrepancies c bd cd =
     (let bk = hs_of_list (map snd bd); ck = hs_of_list (map snd cd)
      in \<lparr>cp_comparable = c, cp_base_anomalies = length bd, cp_cand_anomalies = length cd,
          cp_common = length (filter (\<lambda>k. k \<in> set ck) bk),
          cp_dropped = length (filter (\<lambda>k. k \<notin> set ck) bk),
          cp_new = length (filter (\<lambda>k. k \<notin> set bk) ck)\<rparr>)"

definition compare_reports ::
  "(batch_map \<Rightarrow> batch_map) \<Rightarrow> eval_report \<Rightarrow> eval_report \<Rightarrow> compare_error + comparison" where
  "compare_reports order base cand =
     bindR (comparable_batches order base cand) (\<lambda>c.
     bindR (collect_detections (map fst (co_pairs c))) (\<lambda>bd.
     bindR (collect_detections (map snd (co_pairs c))) (\<lambda>cd. Inr (discrepancies c bd cd))))"

end
