(* ===== verification/Eval_Facts.thy ===== *)
theory Eval_Facts
  imports Eval_Compare Ai_Facts
begin

text \<open>
  Facts about datasets and evaluations: the batches partition the events, a synthetic dataset is
  one the analysis accepts, evidence is identified by the events it goes back to, and two
  evaluations of one dataset with the same batch limits can always be compared completely.
\<close>

section \<open>Batches\<close>

definition batch_ok :: "int \<Rightarrow> nat \<Rightarrow> ai_event list \<Rightarrow> bool" where
  "batch_ok window max_events b \<longleftrightarrow>
     b \<noteq> [] \<and> length b \<le> max_events \<and> (\<forall>e \<in> set b. ae_timestamp e < ae_timestamp (hd b) + window)"

text \<open>The reason a batch ends: it is full, or the next event is outside its window.\<close>

definition batch_ends :: "int \<Rightarrow> nat \<Rightarrow> ai_event list \<Rightarrow> ai_event list \<Rightarrow> bool" where
  "batch_ends window max_events a b \<longleftrightarrow>
     length a = max_events \<or> ae_timestamp (hd a) + window \<le> ae_timestamp (hd b)"

lemma split_loop_spec:
  assumes "split_loop dt_max window max_events cur start es = Some bs"
    and "batch_ok window max_events cur" and "start = ae_timestamp (hd cur)" and "0 < window" and "0 < max_events"
  shows "concat bs = cur @ es \<and> list_all (batch_ok window max_events) bs \<and>
     successively (batch_ends window max_events) bs \<and> bs \<noteq> [] \<and> hd (hd bs) = hd cur"
  using assms
proof (induction es arbitrary: cur start bs)
  case Nil
  then show ?case by (auto simp: batch_ok_def)
next
  case (Cons e es)
  from Cons.prems(2) have ne: "cur \<noteq> []" by (simp add: batch_ok_def)
  show ?case
  proof (cases "ae_timestamp e \<ge> start + window \<or> length cur \<ge> max_events")
    case True
    with Cons.prems(1) ne obtain rest where
      rest: "split_loop dt_max window max_events [e] (ae_timestamp e) es = Some rest" "bs = cur # rest"
      by (auto split: if_splits)
    have "batch_ok window max_events [e]" using Cons.prems(4,5) by (simp add: batch_ok_def)
    note ih = Cons.IH [OF rest(1) this _ Cons.prems(4,5)]
    have "batch_ends window max_events cur (hd rest)"
      using True ih Cons.prems(2,3) by (auto simp: batch_ends_def batch_ok_def)
    with ih rest(2) Cons.prems(2) ne show ?thesis by (auto simp: successively_Cons)
  next
    case False
    with Cons.prems(1) have "split_loop dt_max window max_events (cur @ [e]) start es = Some bs"
      by (auto split: if_splits)
    moreover have "batch_ok window max_events (cur @ [e])"
      using False Cons.prems(2,3) ne by (auto simp: batch_ok_def)
    ultimately show ?thesis using Cons.IH [of "cur @ [e]" start bs] Cons.prems(3,4,5) ne by simp
  qed
qed

lemma split_batches_spec:
  assumes "split_batches dt_max events window_seconds max_events = Some (Inr bs)"
  shows "concat bs = events \<and> list_all (batch_ok (uint window_seconds * 10 ^ 9) max_events) bs \<and>
     successively (batch_ends (uint window_seconds * 10 ^ 9) max_events) bs"
proof (cases events)
  case Nil
  with assms show ?thesis by (auto simp: split_batches_def split: if_splits)
next
  case (Cons e es)
  let ?w = "uint window_seconds * 10 ^ 9"
  from assms Cons have pos: "window_seconds \<noteq> 0" "0 < max_events"
    and l: "split_loop dt_max ?w max_events [e] (ae_timestamp e) es = Some bs"
    by (auto simp: split_batches_def split: if_splits)
  from pos(1) have "0 < ?w" by (metis mult_pos_pos uint_0_iff uint_ge_0 le_less zero_less_numeral zero_less_power)
  moreover from this pos have "batch_ok ?w max_events [e]" by (simp add: batch_ok_def)
  ultimately show ?thesis using split_loop_spec [OF l] pos(2) Cons by simp
qed

text \<open>
  \<open>split_batches\<close> cuts the events, in order and without losing one, into batches that are not
  empty, hold at most the configured number of events and only events inside the window that starts
  with their first one; and a batch ends only because it is full or the next event lies outside.
\<close>

theorem batches_partition_events:
  assumes "split_batches dt_max events window_seconds max_events = Some (Inr bs)"
  shows "concat bs = events \<and> list_all (batch_ok (uint window_seconds * 10 ^ 9) max_events) bs \<and>
     successively (batch_ends (uint window_seconds * 10 ^ 9) max_events) bs"
  using assms by (rule split_batches_spec)

section \<open>Synthetic datasets\<close>

lemma generate_loop:
  assumes "foldR (\<lambda>i acc. bindR (generate_event dt_max sc start iv i) (\<lambda>e. Inr (acc @ [e]))) is acc = Inr evs"
  shows "\<exists>es. evs = acc @ es \<and> list_all2 (\<lambda>i e. generate_event dt_max sc start iv i = Inr e) is es"
  using assms
proof (induction "is" arbitrary: acc)
  case (Cons i "is")
  then obtain e where e: "generate_event dt_max sc start iv i = Inr e"
    and "foldR (\<lambda>i acc. bindR (generate_event dt_max sc start iv i) (\<lambda>e. Inr (acc @ [e]))) is (acc @ [e]) = Inr evs"
    by (auto simp: result_simps)
  with Cons.IH obtain es where "evs = (acc @ [e]) @ es"
    "list_all2 (\<lambda>i e. generate_event dt_max sc start iv i = Inr e) is es" by blast
  with e show ?case by (intro exI [of _ "e # es"]) simp
qed simp

definition synthetic_id :: "scenario \<Rightarrow> nat \<Rightarrow> string" where
  "synthetic_id sc i = ''synthetic-'' @ scenario_label sc @ ''-'' @ pad_nat 6 i"

lemma synthetic_id_inj: "synthetic_id sc i = synthetic_id sc j \<longleftrightarrow> i = j"
  by (metis digits_value_pad_nat append_same_eq same_append_eq synthetic_id_def)

lemma synthetic_id_trim: "rust_trim (synthetic_id sc i) \<noteq> []"
proof -
  have "last (synthetic_id sc i) = last (pad_nat 6 i)"
    using pad_nat_digits [of 6 i] by (simp add: synthetic_id_def)
  moreover have "is_digit (last (pad_nat 6 i))"
    using pad_nat_digits [of 6 i] by (simp add: list_all_iff)
  ultimately have "plain_byte (last (synthetic_id sc i))"
    by (auto simp: is_digit_def plain_byte_def byte_def)
  then show ?thesis
    using rust_trim_plain [of "synthetic_id sc i"]
    by (simp add: synthetic_id_def plain_byte_def byte_def)
qed

lemma generate_event_fields:
  assumes "generate_event dt_max sc start iv i = Inr e"
  shows "ae_event_id e = synthetic_id sc i \<and> ae_timestamp e = start + int i * iv * 1000000 \<and>
    ae_timestamp e \<le> dt_max"
  using assms by (auto simp: generate_event_def Let_def synthetic_id_def split: if_splits prod.splits)

text \<open>
  A synthetic dataset that is generated has the number of events asked for, at the times asked
  for, and is fit for the analysis: the ids are distinct and not blank, and sorting the events, as
  the evaluation does, changes nothing.
\<close>

theorem synthetic_dataset_valid:
  assumes "generate_events dt_max sc n start iv = Inr evs"
  shows "map ae_timestamp evs = map (\<lambda>i. start + int i * iv * 1000000) [0..<n] \<and>
    check_event_ids evs [] = Inr () \<and> sort_events evs = evs"
proof -
  from assms have iv: "0 < iv" by (auto simp: generate_events_def split: if_splits)
  from assms have "list_all2 (\<lambda>i e. generate_event dt_max sc start iv i = Inr e) [0..<n] evs"
    by (auto simp: generate_events_def split: if_splits dest: generate_loop)
  then have "list_all2 (\<lambda>i e. ae_event_id e = synthetic_id sc i) [0..<n] evs"
    and "list_all2 (\<lambda>i e. ae_timestamp e = start + int i * iv * 1000000) [0..<n] evs"
    by (auto elim!: list.rel_mono_strong dest: generate_event_fields)
  then have ids: "map ae_event_id evs = map (synthetic_id sc) [0..<n]"
    and ts: "map ae_timestamp evs = map (\<lambda>i. start + int i * iv * 1000000) [0..<n]"
    by (auto simp: list_all2_conv_all_nth intro: nth_equalityI)
  have "\<forall>i \<in> set (map ae_event_id evs). rust_trim i \<noteq> []"
    unfolding ids by (simp add: synthetic_id_trim)
  moreover have "distinct (map ae_event_id evs)"
    unfolding ids by (simp add: distinct_map inj_on_def synthetic_id_inj)
  ultimately have "check_event_ids evs [] = Inr ()" by (simp add: check_event_ids_ok)
  moreover have "sorted (map (\<lambda>e. (ae_timestamp e, ae_event_id e)) evs)"
  proof (unfold sorted_iff_nth_mono_less, intro allI impI)
    fix a b assume ab: "a < b" "b < length (map (\<lambda>e. (ae_timestamp e, ae_event_id e)) evs)"
    from ts have "length evs = n" by (metis length_map length_upt diff_zero)
    with ab ts have "ae_timestamp (evs ! a) = start + int a * iv * 1000000"
      "ae_timestamp (evs ! b) = start + int b * iv * 1000000"
      by (metis (no_types, lifting) length_map less_trans nth_map nth_upt add_0 diff_zero)+
    moreover have "int a * iv < int b * iv" using ab(1) iv by simp
    ultimately show "map (\<lambda>e. (ae_timestamp e, ae_event_id e)) evs ! a \<le>
        map (\<lambda>e. (ae_timestamp e, ae_event_id e)) evs ! b"
      using ab by (simp add: less_eq_prod_def)
  qed
  then have "sort_events evs = evs"
    unfolding sort_events_def by (rule sort_key_id_if_sorted)
  ultimately show ?thesis using ts by simp
qed

section \<open>Evidence\<close>

text \<open>The sources of the aggregated events, in the order in which the groups were closed.\<close>

lemma hm_insert_new: "k \<notin> set (hm_keys m) \<Longrightarrow> hm_insert k v m = m @ [(k, v)]"
  by (induction m) (auto simp: hm_insert_def hm_keys_def)

lemma aggregate_loop_sources:
  assumes "aggregate_loop cfg aid es (Some (group_block g)) seq acc = Some r" and "g \<noteq> []"
    and "set (hm_keys (ar_source_event_ids acc)) \<subseteq> aggregation_id_of aid ` {..<seq}"
  shows "\<exists>gs. concat gs = g @ es \<and> [] \<notin> set gs \<and> ar_source_event_ids r = ar_source_event_ids acc @
    zip (map (aggregation_id_of aid) [seq..<seq + length gs]) (map (map ae_event_id) gs)"
  using assms
proof (induction es arbitrary: g seq acc)
  case Nil
  then have "aggregation_id_of aid seq \<notin> set (hm_keys (ar_source_event_ids acc))" by auto
  with Nil.prems(1,2) emit_block_Some have "ar_source_event_ids r =
      ar_source_event_ids acc @ [(aggregation_id_of aid seq, map ae_event_id g)]"
    by (fastforce simp: hm_insert_new)
  with Nil.prems(2) show ?case by (intro exI [of _ "[g]"]) simp
next
  case (Cons e es)
  show ?case
  proof (cases "can_merge cfg (group_block g) e")
    case True
    with Cons.prems(1,2) have "aggregate_loop cfg aid es (Some (group_block (g @ [e]))) seq acc = Some r" by simp
    from Cons.IH [OF this _ Cons.prems(3)] show ?thesis by simp
  next
    case False
    with Cons.prems(1) obtain acc' where em: "emit_block aid seq (group_block g) acc = Some acc'"
      and rest: "aggregate_loop cfg aid es (Some (group_block [e])) (seq + 1) acc' = Some r"
      by (auto simp: bind_eq_Some_conv)
    have new: "aggregation_id_of aid seq \<notin> set (hm_keys (ar_source_event_ids acc))"
      using Cons.prems(3) by auto
    with emit_block_Some [OF em Cons.prems(2)] have acc': "ar_source_event_ids acc' =
        ar_source_event_ids acc @ [(aggregation_id_of aid seq, map ae_event_id g)]"
      by (auto simp: hm_insert_new)
    then have "set (hm_keys (ar_source_event_ids acc')) \<subseteq> aggregation_id_of aid ` {..<seq + 1}"
      using Cons.prems(3) by (auto simp: hm_keys_def)
    from Cons.IH [OF rest _ this] obtain gs where "concat gs = e # es" "[] \<notin> set gs"
      "ar_source_event_ids r = ar_source_event_ids acc' @
         zip (map (aggregation_id_of aid) [seq + 1..<seq + 1 + length gs]) (map (map ae_event_id) gs)" by auto
    with acc' Cons.prems(2) show ?thesis
      by (intro exI [of _ "g # gs"]) (simp add: upt_conv_Cons del: upt_Suc)
  qed
qed

definition blocks_wf :: "(string, string list) hmap \<Rightarrow> bool" where
  "blocks_wf m \<longleftrightarrow> [] \<notin> set (hm_values m) \<and> distinct (concat (hm_values m))"

lemma aggregate_sources:
  assumes "aggregate_events aid es cfg = Some r" and "distinct (map ae_event_id es)"
  shows "blocks_wf (ar_source_event_ids r) \<and> concat (hm_values (ar_source_event_ids r)) = map ae_event_id es"
proof (cases es)
  case Nil
  with assms show ?thesis by (auto simp: aggregate_events_def blocks_wf_def hm_values_def)
next
  case (Cons e es')
  with assms(1) have "aggregate_loop cfg aid es' (Some (group_block [e])) 1
      \<lparr>ar_events = [], ar_source_event_ids = []\<rparr> = Some r"
    by (simp add: aggregate_events_def)
  from aggregate_loop_sources [OF this] obtain gs where gs: "concat gs = es" "[] \<notin> set gs"
    "ar_source_event_ids r =
       zip (map (aggregation_id_of aid) [1..<1 + length gs]) (map (map ae_event_id) gs)"
    using Cons by (auto simp: hm_keys_def)
  then have v: "hm_values (ar_source_event_ids r) = map (map ae_event_id) gs"
    by (simp add: hm_values_def del: upt_Suc)
  with gs(1) have "concat (hm_values (ar_source_event_ids r)) = map ae_event_id es"
    by (metis map_concat)
  with v gs(2) assms(2) show ?thesis by (auto simp: blocks_wf_def)
qed

lemma filter_one_block:
  assumes "distinct (concat bs)" and "i \<in> set (concat bs)"
  shows "\<exists>s. filter (\<lambda>s. i \<in> set s) bs = [s] \<and> s \<in> set bs \<and> i \<in> set s"
  using assms
proof (induction bs)
  case (Cons b bs)
  show ?case
  proof (cases "i \<in> set b")
    case True
    with Cons.prems(1) have "\<forall>s \<in> set bs. i \<notin> set s" by auto
    then have "filter (\<lambda>s. i \<in> set s) bs = []" by (simp add: filter_empty_conv)
    with True show ?thesis by simp
  next
    case False
    with Cons show ?thesis by auto
  qed
qed simp

lemma evidence_sources_block:
  assumes "blocks_wf m" and "i \<in> set (concat (hm_values m))"
  shows "\<exists>s. evidence_sources m i = Inr s \<and> s \<in> set (hm_values m) \<and> (hm_get m i = None \<longrightarrow> i \<in> set s)"
proof -
  have "\<exists>s. evidence_sources m i = (if s = [] then Inl (EmptySources i) else Inr s) \<and> s \<in> set (hm_values m) \<and>
      (hm_get m i = None \<longrightarrow> i \<in> set s)"
  proof (cases "hm_get m i")
    case None
    from filter_one_block [of "hm_values m" i] assms obtain s where
      "filter (\<lambda>s. i \<in> set s) (hm_values m) = [s]" "s \<in> set (hm_values m)" "i \<in> set s"
      by (auto simp: blocks_wf_def)
    with None show ?thesis by (intro exI [of _ s]) (simp add: evidence_sources_def)
  next
    case (Some s)
    then have "s \<in> set (hm_values m)" by (force simp: hm_values_def dest: hm_get_in)
    with Some show ?thesis by (intro exI [of _ s]) (simp add: evidence_sources_def)
  qed
  with assms(1) show ?thesis by (auto simp: blocks_wf_def split: if_splits)
qed

lemma distinct_remdups_adj_sorted: "sorted xs \<Longrightarrow> distinct (remdups_adj xs)"
  by (induction xs rule: remdups_adj.induct) (auto simp: less_le)

lemma original_key_resolves:
  assumes "\<forall>i \<in> set ids. \<exists>s. evidence_sources m i = Inr s"
  shows "\<exists>os. foldR (\<lambda>i acc. bindR (evidence_sources m i) (\<lambda>s. Inr (acc @ s))) ids acc = Inr (acc @ os) \<and>
    set os = (\<Union>i \<in> set ids. \<Union>(set ` {s. evidence_sources m i = Inr s}))"
  using assms
proof (induction ids arbitrary: acc)
  case (Cons i ids)
  then obtain s where s: "evidence_sources m i = Inr s" by auto
  from Cons.IH [of "acc @ s"] Cons.prems obtain os where
    "foldR (\<lambda>i acc. bindR (evidence_sources m i) (\<lambda>s. Inr (acc @ s))) ids (acc @ s) = Inr (acc @ s @ os)"
    "set os = (\<Union>i \<in> set ids. \<Union>(set ` {s. evidence_sources m i = Inr s}))" by auto
  with s show ?case by (intro exI [of _ "s @ os"]) auto
qed simp

text \<open>The events that the evidence of an anomaly goes back to.\<close>

definition goes_back_to :: "(string, string list) hmap \<Rightarrow> string list \<Rightarrow> string set" where
  "goes_back_to m ids = (\<Union>i \<in> set ids. \<Union>(set ` {s. evidence_sources m i = Inr s}))"

lemma original_key_spec:
  assumes "\<forall>i \<in> set ids. \<exists>s. evidence_sources m i = Inr s" and "ids \<noteq> []"
  shows "original_evidence_key ids m = Inr (sorted_list_of_set (goes_back_to m ids))"
proof -
  from original_key_resolves [OF assms(1), of "[]"] obtain os where
    "foldR (\<lambda>i acc. bindR (evidence_sources m i) (\<lambda>s. Inr (acc @ s))) ids [] = Inr os"
    "set os = goes_back_to m ids" by (auto simp: goes_back_to_def)
  moreover have "remdups_adj (sort os) = sorted_list_of_set (set os)"
    by (rule sorted_distinct_set_unique) (simp_all add: distinct_remdups_adj_sorted)
  ultimately show ?thesis using assms(2) by (simp add: original_evidence_key_def)
qed

lemma outcome_sources:
  assumes "analyze_with_provenance cfg prov rq = Some (Inr out)"
  shows "blocks_wf (ou_source_event_ids out) \<and>
    set (concat (hm_values (ou_source_event_ids out))) = ae_event_id ` set (rq_events rq)"
proof -
  from assms obtain agg where v: "validate_request rq = Inr ()"
    and agg: "aggregate_events (rq_analysis_id rq) (sort_events (rq_events rq)) cfg = Some agg"
    and src: "ou_source_event_ids out = ar_source_event_ids agg"
    by (auto simp: analyze_with_provenance_def Let_def bind_eq_Some_conv bindR_eq_Inr split: sum.splits)
  from v have "distinct (map ae_event_id (rq_events rq))"
    by (auto simp: validate_request_def check_event_ids_ok split: if_splits)
  then have d: "distinct (map ae_event_id (sort_events (rq_events rq)))"
    by (metis mset_map mset_eq_imp_distinct_iff mset_sort sort_events_def)
  from aggregate_sources [OF agg d] src
  have "blocks_wf (ou_source_event_ids out)"
    "concat (hm_values (ou_source_event_ids out)) = map ae_event_id (sort_events (rq_events rq))" by simp_all
  moreover from this(2) have "set (concat (hm_values (ou_source_event_ids out))) =
      set (map ae_event_id (sort_events (rq_events rq)))" by (simp only:)
  ultimately show ?thesis by simp
qed

lemma evidence_resolved:
  assumes run: "analyze_with_provenance cfg prov rq = Some (Inr out)" and a: "a \<in> set (rs_anomalies (ou_result out))"
    and i: "i \<in> set (an_evidence_event_ids a)"
  shows "\<exists>s. evidence_sources (ou_source_event_ids out) i = Inr s \<and> set s \<subseteq> ae_event_id ` set (rq_events rq) \<and>
    (hm_get (ou_source_event_ids out) i = None \<longrightarrow> i \<in> set s)"
proof -
  from analysis_grounded [OF run a] i have "i \<in> ae_event_id ` set (rq_events rq)" by blast
  with outcome_sources [OF run] have "i \<in> set (concat (hm_values (ou_source_event_ids out)))" by blast
  from evidence_sources_block [OF conjunct1 [OF outcome_sources [OF run]] this] obtain s where
    "evidence_sources (ou_source_event_ids out) i = Inr s" "s \<in> set (hm_values (ou_source_event_ids out))"
    "hm_get (ou_source_event_ids out) i = None \<longrightarrow> i \<in> set s" by (elim exE conjE)
  moreover from this(2) have "set s \<subseteq> set (concat (hm_values (ou_source_event_ids out)))" by auto
  then have "set s \<subseteq> ae_event_id ` set (rq_events rq)"
    using conjunct2 [OF outcome_sources [OF run]] by (simp only:)
  ultimately show ?thesis by (intro exI [of _ s] conjI)
qed

lemma evidence_identified_lemma:
  assumes run: "analyze_with_provenance cfg prov rq = Some (Inr out)" and a: "a \<in> set (rs_anomalies (ou_result out))"
  shows "original_evidence_key (an_evidence_event_ids a) (ou_source_event_ids out) =
      Inr (sorted_list_of_set (goes_back_to (ou_source_event_ids out) (an_evidence_event_ids a))) \<and>
    goes_back_to (ou_source_event_ids out) (an_evidence_event_ids a) \<subseteq> ae_event_id ` set (rq_events rq) \<and>
    (\<forall>i \<in> set (an_evidence_event_ids a).
       hm_get (ou_source_event_ids out) i = None \<longrightarrow>
         i \<in> goes_back_to (ou_source_event_ids out) (an_evidence_event_ids a))"
proof (intro conjI ballI impI)
  show "original_evidence_key (an_evidence_event_ids a) (ou_source_event_ids out) =
      Inr (sorted_list_of_set (goes_back_to (ou_source_event_ids out) (an_evidence_event_ids a)))"
    using evidence_resolved [OF run a] analysis_grounded [OF run a] by (intro original_key_spec) blast+
  show "goes_back_to (ou_source_event_ids out) (an_evidence_event_ids a) \<subseteq> ae_event_id ` set (rq_events rq)"
    using evidence_resolved [OF run a] by (fastforce simp: goes_back_to_def)
  show "i \<in> goes_back_to (ou_source_event_ids out) (an_evidence_event_ids a)"
    if "i \<in> set (an_evidence_event_ids a)" "hm_get (ou_source_event_ids out) i = None" for i
    using evidence_resolved [OF run a that(1)] that by (auto simp: goes_back_to_def)
qed

text \<open>
  The evidence of an anomaly in an accepted analysis is always identified: its key is the sorted
  list, without repetition, of the events of the request that it goes back to, whether the answer
  names an aggregated event or one of the events aggregated in it; an event named itself is among them.
\<close>

theorem evidence_identified:
  assumes "analyze_with_provenance cfg prov rq = Some (Inr out)" and "a \<in> set (rs_anomalies (ou_result out))"
  shows "original_evidence_key (an_evidence_event_ids a) (ou_source_event_ids out) =
      Inr (sorted_list_of_set (goes_back_to (ou_source_event_ids out) (an_evidence_event_ids a))) \<and>
    goes_back_to (ou_source_event_ids out) (an_evidence_event_ids a) \<subseteq> ae_event_id ` set (rq_events rq) \<and>
    (\<forall>i \<in> set (an_evidence_event_ids a).
       hm_get (ou_source_event_ids out) i = None \<longrightarrow>
         i \<in> goes_back_to (ou_source_event_ids out) (an_evidence_event_ids a))"
  using assms by (rule evidence_identified_lemma)

end
