(* ===== verification/Eval_Compare_Facts.thy ===== *)
theory Eval_Compare_Facts
  imports Eval_Facts
begin

text \<open>
  Two evaluations of one dataset: their batches are matched completely, and the evidence of every
  anomaly in them is resolved, so that comparing them cannot fail.
\<close>

section \<open>The index of batches\<close>

definition key_of :: "eval_batch_report \<Rightarrow> string list" where
  "key_of b = sort (br_target_event_ids b)"

lemma batch_key_distinct:
  assumes "br_target_event_ids b \<noteq> []" and "distinct (br_target_event_ids b)"
  shows "batch_key b = Inr (key_of b)"
proof -
  have "distinct (key_of b)" using assms(2) by (simp add: key_of_def)
  then have "key_of b ! (i - 1) \<noteq> key_of b ! i" if "i \<in> set [1..<length (key_of b)]" for i
    using that by (auto simp: nth_eq_iff_index_eq)
  then show ?thesis using assms(1) by (auto simp: batch_key_def key_of_def Let_def)
qed

lemma see_events:
  assumes "distinct is" and "set is \<inter> set seen = {}"
  shows "foldR (see_event p) is seen = Inr (seen @ is)"
  using assms by (induction "is" arbitrary: seen) (auto simp: see_event_def hs_insert_def)

lemma batch_index_fold:
  assumes "distinct (concat (map br_target_event_ids bs))" and "[] \<notin> set (map br_target_event_ids bs)"
    and "set seen \<inter> set (concat (map br_target_event_ids bs)) = {}"
    and "\<forall>k \<in> set (hm_keys m). k \<noteq> [] \<and> set k \<subseteq> set seen"
  shows "\<exists>seen'. foldR (index_step p) bs (m, seen) = Inr (m @ map (\<lambda>b. (key_of b, b)) bs, seen')"
  using assms
proof (induction bs arbitrary: m seen)
  case (Cons b bs)
  have ne: "br_target_event_ids b \<noteq> []" and d: "distinct (br_target_event_ids b)" using Cons.prems(1,2) by auto
  have k: "set (key_of b) = set (br_target_event_ids b)" "distinct (key_of b)" "key_of b \<noteq> []"
    using d ne by (auto simp: key_of_def simp flip: set_empty)
  have s: "foldR (see_event p) (key_of b) seen = Inr (seen @ key_of b)"
    using k Cons.prems(3) by (intro see_events) auto
  have new: "key_of b \<notin> set (hm_keys m)"
  proof
    assume "key_of b \<in> set (hm_keys m)"
    with Cons.prems(4) have "set (br_target_event_ids b) \<subseteq> set seen" unfolding k(1) [symmetric] by blast
    moreover have "set (br_target_event_ids b) \<subseteq> set (concat (map br_target_event_ids (b # bs)))" by simp
    ultimately have "set (br_target_event_ids b) \<subseteq> {}" unfolding Cons.prems(3) [symmetric] by (rule Int_greatest)
    with ne show False by simp
  qed
  then have c: "\<not> hm_contains m (key_of b)" by (simp add: hm_contains_def set_hm_keys)
  have step: "index_step p b (m, seen) = Inr (m @ [(key_of b, b)], seen @ key_of b)"
    by (simp only: index_step_def batch_key_distinct [OF ne d] s prod.case bindR_Inr c
        hm_insert_new [OF new] if_False)
  have "\<exists>seen'. foldR (index_step p) bs (m @ [(key_of b, b)], seen @ key_of b) =
      Inr ((m @ [(key_of b, b)]) @ map (\<lambda>b. (key_of b, b)) bs, seen')"
  proof (rule Cons.IH)
    show "distinct (concat (map br_target_event_ids bs))" "[] \<notin> set (map br_target_event_ids bs)"
      using Cons.prems(1,2) by simp_all
    show "set (seen @ key_of b) \<inter> set (concat (map br_target_event_ids bs)) = {}"
      using Cons.prems(1,3) k(1) by auto
    show "\<forall>k \<in> set (hm_keys (m @ [(key_of b, b)])). k \<noteq> [] \<and> set k \<subseteq> set (seen @ key_of b)"
      using Cons.prems(4) k(3) by (auto simp: hm_keys_def)
  qed
  then obtain seen' where "foldR (index_step p) bs (m @ [(key_of b, b)], seen @ key_of b) =
      Inr ((m @ [(key_of b, b)]) @ map (\<lambda>b. (key_of b, b)) bs, seen')" ..
  with step show ?case by (intro exI [of _ seen']) simp
qed simp

lemma batch_index_all:
  assumes "distinct (concat (map br_target_event_ids (er_batches r)))"
    and "[] \<notin> set (map br_target_event_ids (er_batches r))"
  shows "batch_index r = Inr (map (\<lambda>b. (key_of b, b)) (er_batches r))"
  using batch_index_fold [OF assms, of "[]" "[]" "er_dataset_path r"]
  by (auto simp: batch_index_def hm_keys_def)

section \<open>Matching\<close>

lemma compare_fold:
  assumes "\<forall>kb \<in> set kbs. hm_contains cand (fst kb)"
  shows "co_unmatched_base (fold (compare_step cand) kbs c) = co_unmatched_base c \<and>
    co_unmatched_cand (fold (compare_step cand) kbs c) = co_unmatched_cand c \<and>
    length (co_pairs (fold (compare_step cand) kbs c)) + co_excluded_failed (fold (compare_step cand) kbs c) =
      length (co_pairs c) + co_excluded_failed c + length kbs \<and>
    set (co_pairs (fold (compare_step cand) kbs c)) = set (co_pairs c) \<union>
      {(b, b'). \<exists>k. (k, b) \<in> set kbs \<and> hm_get cand k = Some b' \<and> succeeded b \<and> succeeded b'}"
  using assms
proof (induction kbs arbitrary: c)
  case (Cons kb kbs)
  obtain k b where kb: "kb = (k, b)" by (cases kb)
  from Cons.prems kb obtain b' where b': "hm_get cand k = Some b'" by (auto simp: hm_contains_def)
  from Cons.prems have all: "\<forall>kb \<in> set kbs. hm_contains cand (fst kb)" by simp
  note ih = Cons.IH [OF all, of "compare_step cand kb c"]
  show ?case
  proof (cases "succeeded b \<and> succeeded b'")
    case True
    with kb b' have "compare_step cand kb c = c\<lparr>co_pairs := co_pairs c @ [(b, b')]\<rparr>"
      by (simp add: compare_step_def)
    with ih kb b' True show ?thesis by auto
  next
    case False
    with kb b' have "compare_step cand kb c = c\<lparr>co_excluded_failed := co_excluded_failed c + 1\<rparr>"
      by (simp add: compare_step_def)
    with ih kb b' False show ?thesis by auto
  qed
qed simp

lemma keyed_get: "hm_get (map (\<lambda>b. (key_of b, b)) bs) k = Some b \<Longrightarrow> b \<in> set bs \<and> k = key_of b"
  by (auto dest: hm_get_in)

lemma keyed_keys: "hm_keys (map (\<lambda>b. (key_of b, b)) bs) = map key_of bs"
  by (simp add: hm_keys_def)

text \<open>Two reports on the same batches.\<close>

lemma comparable_same_batches:
  assumes same: "map br_target_event_ids (er_batches r1) = map br_target_event_ids (er_batches r2)"
    and d: "distinct (concat (map br_target_event_ids (er_batches r1)))"
    and ne: "[] \<notin> set (map br_target_event_ids (er_batches r1))"
    and order: "\<And>m. mset (order m) = mset m"
  shows "\<exists>c. comparable_batches order r1 r2 = Inr c \<and> co_unmatched_base c = 0 \<and> co_unmatched_cand c = 0 \<and>
    length (co_pairs c) + co_excluded_failed c = length (er_batches r1) \<and>
    (\<forall>(b, b') \<in> set (co_pairs c). b \<in> set (er_batches r1) \<and> b' \<in> set (er_batches r2) \<and>
       set (br_target_event_ids b) = set (br_target_event_ids b') \<and> succeeded b \<and> succeeded b')"
proof -
  let ?m = "\<lambda>r. map (\<lambda>b. (key_of b, b)) (er_batches r)"
  let ?c = "fold (compare_step (?m r2)) (order (?m r1))
     \<lparr>co_pairs = [], co_excluded_failed = 0, co_unmatched_base = 0, co_unmatched_cand = 0\<rparr>"
  have i1: "batch_index r1 = Inr (?m r1)" using batch_index_all d ne by simp
  have i2: "batch_index r2 = Inr (?m r2)" using batch_index_all d ne same by simp
  have "map key_of (er_batches r1) = map key_of (er_batches r2)"
    using arg_cong [OF same, of "map sort"] by (simp add: key_of_def [abs_def] o_def)
  then have keys: "set (hm_keys (?m r1)) = set (hm_keys (?m r2))" unfolding keyed_keys by simp
  have ord: "set (order (?m r1)) = set (?m r1)" "length (order (?m r1)) = length (er_batches r1)"
    using mset_eq_setD [OF order] mset_eq_length [OF order, of "?m r1"] by simp_all
  have "\<forall>kb \<in> set (?m r1). fst kb \<in> set (hm_keys (?m r2))"
    unfolding keys [symmetric] by (simp add: keyed_keys)
  then have "\<forall>kb \<in> set (order (?m r1)). hm_contains (?m r2) (fst kb)"
    unfolding ord(1) set_hm_keys hm_contains_def by simp
  note f = compare_fold [OF this, of "\<lparr>co_pairs = [], co_excluded_failed = 0, co_unmatched_base = 0,
    co_unmatched_cand = 0\<rparr>"]
  have "\<forall>k \<in> set (hm_keys (?m r2)). hm_contains (?m r1) k"
    unfolding keys [symmetric] by (simp add: set_hm_keys hm_contains_def)
  then have "filter (\<lambda>k. \<not> hm_contains (?m r1) k) (hm_keys (?m r2)) = []"
    by (simp add: filter_empty_conv)
  then have c: "comparable_batches order r1 r2 = Inr (?c\<lparr>co_pairs := sort_key (\<lambda>p. br_batch_index (fst p)) (co_pairs ?c),
      co_unmatched_cand := 0\<rparr>)"
    by (simp add: comparable_batches_def i1 i2 Let_def)
  have "b \<in> set (er_batches r1) \<and> b' \<in> set (er_batches r2) \<and>
      set (br_target_event_ids b) = set (br_target_event_ids b') \<and> succeeded b \<and> succeeded b'"
    if "(b, b') \<in> set (co_pairs ?c)" for b b'
  proof -
    from that f ord(1) obtain k where k: "(k, b) \<in> set (?m r1)" "hm_get (?m r2) k = Some b'" "succeeded b" "succeeded b'"
      by auto
    from keyed_get [OF k(2)] k(1) have "b' \<in> set (er_batches r2)" "key_of b = key_of b'" "b \<in> set (er_batches r1)"
      by auto
    with k(3,4) show ?thesis by (metis key_of_def set_sort)
  qed
  with c f ord(2) show ?thesis by auto
qed

section \<open>Evaluations\<close>

text \<open>A report is the outcome of analysing its events.\<close>

definition reports_on :: "aggregator_config \<Rightarrow> provider \<Rightarrow> eval_run \<Rightarrow> ai_event list \<Rightarrow> eval_batch_report \<Rightarrow> bool" where
  "reports_on cfg prov ru evs b \<longleftrightarrow>
     (\<exists>i outcome. analyze_with_provenance cfg prov (eval_request ru i evs) = Some outcome \<and>
        b = batch_report ru i evs outcome)"

lemma eval_batches_spec:
  "eval_batches ru cfg prov n bs = Some rs \<Longrightarrow> list_all2 (reports_on cfg prov ru) bs rs"
proof (induction bs arbitrary: n rs)
  case (Cons evs bs)
  then show ?case
    by (auto simp: bind_eq_Some_conv reports_on_def)
qed simp

lemma report_targets: "reports_on cfg prov ru evs b \<Longrightarrow> br_target_event_ids b = map ae_event_id evs"
  by (auto simp: reports_on_def batch_report_def Let_def)

lemma report_detections:
  assumes "reports_on cfg prov ru evs b"
  shows "\<exists>ds. batch_detections b = Inr ds"
proof -
  from assms obtain i outcome where run: "analyze_with_provenance cfg prov (eval_request ru i evs) = Some outcome"
    and b: "b = batch_report ru i evs outcome" by (auto simp: reports_on_def)
  show ?thesis
  proof (cases outcome)
    case (Inl e)
    with b show ?thesis by (simp add: batch_report_def batch_detections_def Let_def)
  next
    case (Inr out)
    have "\<exists>ds. foldR (\<lambda>a acc. bindR (original_evidence_key (an_evidence_event_ids a) (ou_source_event_ids out))
        (\<lambda>key. Inr (acc @ [(a, key)]))) as acc = Inr ds"
      if "set as \<subseteq> set (rs_anomalies (ou_result out))" for as acc
      using that
    proof (induction as arbitrary: acc)
      case (Cons a as)
      then have "a \<in> set (rs_anomalies (ou_result out))" by simp
      from evidence_identified_lemma [OF run [unfolded Inr] this] Cons show ?case by simp
    qed simp
    with b Inr show ?thesis by (simp add: batch_report_def batch_detections_def Let_def)
  qed
qed

lemma collect_detections_ok:
  assumes "\<forall>b \<in> set bs. \<exists>ds. batch_detections b = Inr ds"
  shows "\<exists>ds. collect_detections bs = Inr ds"
proof -
  have "\<exists>ds. foldR (\<lambda>b acc. bindR (batch_detections b) (\<lambda>ds. Inr (acc @ ds))) bs acc = Inr ds" for acc
    using assms by (induction bs arbitrary: acc) auto
  then show ?thesis by (simp add: collect_detections_def)
qed

lemma eval_run_report_spec:
  assumes "eval_run_report dt_max ad decode ru c ds (Some content) ex = Some (Inr r)"
    and "read_events decode 1 (buf_lines content) = Inr events"
  shows "\<exists>prov batches. split_batches dt_max (sort_events events) (cf_window_seconds (ai_collector c))
      (cf_max_events (ai_collector c)) = Some (Inr batches) \<and>
    list_all2 (reports_on (ai_aggregator c) prov ru) batches (er_batches r) \<and>
    er_batch_count r = length (er_batches r)"
proof -
  let ?pick = "\<lambda>batches. bindR (eval_provider ad c) (\<lambda>pm. Inr (batches, pm))"
  from assms obtain split where
    split: "split_batches dt_max (sort_events events) (cf_window_seconds (ai_collector c))
      (cf_max_events (ai_collector c)) = Some split"
    and run: "(case bindR split ?pick of Inl e \<Rightarrow> Some (Inl e)
      | Inr (batches, pm) \<Rightarrow> map_option (\<lambda>report. if ex then Inl CannotCreateReport else Inr report)
          (eval_report_of ru ds c pm (length events) batches)) = Some (Inr r)"
    by (simp add: eval_run_report_def bind_eq_Some_conv split: if_splits) blast
  from run obtain batches pm where pick: "bindR split ?pick = Inr (batches, pm)"
    and r: "eval_report_of ru ds c pm (length events) batches = Some r"
    by (cases "bindR split ?pick") (auto split: if_splits)
  from pick have "split = Inr batches" by (auto simp: bindR_eq_Inr)
  with split have b: "split_batches dt_max (sort_events events) (cf_window_seconds (ai_collector c))
      (cf_max_events (ai_collector c)) = Some (Inr batches)" by simp
  from r have "eval_batches ru (ai_aggregator c) (fst pm) 0 batches = Some (er_batches r)"
    "er_batch_count r = length (er_batches r)"
    by (auto simp: eval_report_of_def)
  with b eval_batches_spec show ?thesis by blast
qed

lemma eval_report_batches:
  assumes "split_batches dt_max evs w n = Some (Inr batches)" and "distinct (map ae_event_id evs)"
    and "list_all2 (reports_on cfg prov ru) batches bs"
  shows "map br_target_event_ids bs = map (map ae_event_id) batches \<and>
    distinct (concat (map br_target_event_ids bs)) \<and> [] \<notin> set (map br_target_event_ids bs) \<and>
    (\<forall>b \<in> set bs. \<exists>ds. batch_detections b = Inr ds)"
proof -
  note sp = split_batches_spec [OF assms(1)]
  have t: "map br_target_event_ids bs = map (map ae_event_id) batches"
    using assms(3) by (induction) (auto dest: report_targets)
  then have "concat (map br_target_event_ids bs) = map ae_event_id (concat batches)"
    by (simp add: map_concat)
  with sp assms(2) have "distinct (concat (map br_target_event_ids bs))" by simp
  moreover have "[] \<notin> set (map br_target_event_ids bs)"
    unfolding t using sp by (auto simp: list_all_iff batch_ok_def)
  moreover have "\<exists>ds. batch_detections b = Inr ds" if "b \<in> set bs" for b
    using assms(3) that report_detections by (metis in_set_conv_nth list_all2_conv_all_nth)
  ultimately show ?thesis using t by blast
qed

text \<open>
  C18. Two evaluations of one dataset with distinct event ids and the same limits on batches can be
  compared, whatever the providers and the way events are aggregated: every batch of the one has its
  partner in the other, so no batch is left out but those that failed, and the evidence of every
  anomaly is traced back without an error.
\<close>

theorem evaluations_comparable:
  assumes "eval_run_report dt_max ad1 decode ru1 c1 ds1 (Some content) ex1 = Some (Inr r1)"
    and "eval_run_report dt_max ad2 decode ru2 c2 ds2 (Some content) ex2 = Some (Inr r2)"
    and "read_events decode 1 (buf_lines content) = Inr events" and "distinct (map ae_event_id events)"
    and "cf_window_seconds (ai_collector c1) = cf_window_seconds (ai_collector c2)"
    and "cf_max_events (ai_collector c1) = cf_max_events (ai_collector c2)"
    and "\<And>m. mset (order m) = mset m"
  shows "\<exists>cp. compare_reports order r1 r2 = Inr cp \<and>
    co_unmatched_base (cp_comparable cp) = 0 \<and> co_unmatched_cand (cp_comparable cp) = 0 \<and>
    length (co_pairs (cp_comparable cp)) + co_excluded_failed (cp_comparable cp) = er_batch_count r1 \<and>
    (\<forall>(b, b') \<in> set (co_pairs (cp_comparable cp)).
       set (br_target_event_ids b) = set (br_target_event_ids b') \<and> succeeded b \<and> succeeded b')"
proof -
  have d: "distinct (map ae_event_id (sort_events events))"
    using assms(4) by (metis mset_map mset_eq_imp_distinct_iff mset_sort sort_events_def)
  from eval_run_report_spec [OF assms(1,3)] obtain p1 b1 where e1:
    "split_batches dt_max (sort_events events) (cf_window_seconds (ai_collector c1))
      (cf_max_events (ai_collector c1)) = Some (Inr b1)"
    "list_all2 (reports_on (ai_aggregator c1) p1 ru1) b1 (er_batches r1)"
    "er_batch_count r1 = length (er_batches r1)" by blast
  from eval_run_report_spec [OF assms(2,3)] obtain p2 where e2:
    "list_all2 (reports_on (ai_aggregator c2) p2 ru2) b1 (er_batches r2)"
    using e1(1) assms(5,6) by auto
  note t1 = eval_report_batches [OF e1(1) d e1(2)] and t2 = eval_report_batches [OF e1(1) d e2]
  have "map br_target_event_ids (er_batches r1) = map br_target_event_ids (er_batches r2)"
    using t1 t2 by simp
  from comparable_same_batches [OF this _ _ assms(7)] t1 obtain c where
    c: "comparable_batches order r1 r2 = Inr c" "co_unmatched_base c = 0" "co_unmatched_cand c = 0"
    "length (co_pairs c) + co_excluded_failed c = length (er_batches r1)"
    "\<forall>(b, b') \<in> set (co_pairs c). b \<in> set (er_batches r1) \<and> b' \<in> set (er_batches r2) \<and>
       set (br_target_event_ids b) = set (br_target_event_ids b') \<and> succeeded b \<and> succeeded b'" by blast
  have "\<exists>ds. collect_detections (map fst (co_pairs c)) = Inr ds"
    using c(5) t1 by (intro collect_detections_ok) fastforce
  moreover have "\<exists>ds. collect_detections (map snd (co_pairs c)) = Inr ds"
    using c(5) t2 by (intro collect_detections_ok) fastforce
  ultimately show ?thesis using c e1(3) by (fastforce simp: compare_reports_def discrepancies_def Let_def)
qed

end
