(* ===== verification/Eval_Samples.thy ===== *)
theory Eval_Samples
  imports Eval_Compare_Facts Ai_Samples
begin

text \<open>Concrete datasets and evaluations, at which the theorems on them are applied.\<close>

section \<open>Batches\<close>

definition sample_dataset :: "ai_event list" where
  "sample_dataset = [sample_event ''e1'' 1 ''/a'', sample_event ''e2'' 2 ''/b'', sample_event ''e3'' 1500 ''/c'']"

lemma batches_partition_events_witness:
  "\<exists>bs. split_batches (10 ^ 18) sample_dataset 1 10 = Some (Inr bs) \<and> map length bs = [2, 1] \<and>
     concat bs = sample_dataset \<and> list_all (batch_ok (uint (1 :: u64) * 10 ^ 9) 10) bs \<and>
     successively (batch_ends (uint (1 :: u64) * 10 ^ 9) 10) bs"
proof -
  have "\<exists>bs. split_batches (10 ^ 18) sample_dataset 1 10 = Some (Inr bs) \<and> map length bs = [2, 1]"
    by (simp add: split_batches_def sample_dataset_def i64_max_def sample_event_defs)
  then obtain bs where bs: "split_batches (10 ^ 18) sample_dataset 1 10 = Some (Inr bs)" "map length bs = [2, 1]"
    by (elim exE conjE)
  with batches_partition_events [OF bs(1)] show ?thesis by (intro exI [of _ bs]) (simp only: simp_thms)
qed

lemma synthetic_dataset_valid_witness:
  "\<exists>evs. generate_events (10 ^ 18) MassDelete 2 7 100 = Inr evs \<and>
     map ae_timestamp evs = [7, 100000007] \<and> check_event_ids evs [] = Inr () \<and> sort_events evs = evs"
proof -
  have "\<exists>evs. generate_events (10 ^ 18) MassDelete 2 7 100 = Inr evs"
    by (simp add: generate_events_def MAX_EVENTS_def generate_event_def i64_max_def upt_rec Let_def)
  then obtain evs where evs: "generate_events (10 ^ 18) MassDelete 2 7 100 = Inr evs" by (elim exE)
  from synthetic_dataset_valid [OF this] have "map ae_timestamp evs = [7, 100000007]"
    "check_event_ids evs [] = Inr ()" "sort_events evs = evs" by (simp_all add: upt_rec)
  with evs show ?thesis by (intro exI [of _ evs] conjI)
qed

section \<open>Evidence\<close>

lemma evidence_identified_witness:
  "\<exists>out k. analyze_with_provenance default_aggregator_config sample_provider sample_request = Some (Inr out) \<and>
     original_evidence_key [''e1''] (ou_source_event_ids out) = Inr k \<and> set k \<subseteq> {''e1''}"
proof -
  obtain out where out: "analyze_with_provenance default_aggregator_config sample_provider sample_request = Some (Inr out)"
    "rs_anomalies (ou_result out) = [sample_anomaly]" using sample_analysis by blast
  have "sample_anomaly \<in> set (rs_anomalies (ou_result out))" by (simp add: out(2))
  note t = evidence_identified [OF out(1) this]
  have fin: "finite (goes_back_to (ou_source_event_ids out) (an_evidence_event_ids sample_anomaly))"
    and e: "ae_event_id ` set (rq_events sample_request) = {''e1''}"
    using t by (auto simp: sample_request_events sample_event_defs intro: finite_subset)
  from t fin out(1) show ?thesis unfolding e by (auto simp: sample_anomaly_def)
qed

section \<open>Two evaluations\<close>

definition last_instant :: instant where
  "last_instant = 10 ^ 18"

definition sample_adapters :: ai_adapters where
  "sample_adapters = \<lparr>ad_ollama = (\<lambda>_ _ _ _ _. Inr sample_provider),
     ad_groq = (\<lambda>_ _ _ _. Inr (\<lambda>_. Inl AeTimeout)), ad_gemini = (\<lambda>_ _ _ _. Inl ''no key'')\<rparr>"

definition sample_ai_config :: "string \<Rightarrow> ai_config" where
  "sample_ai_config provider =
     \<lparr>ai_version = ''1.0'', ai_enabled = True, ai_provider = provider,
      ai_ollama = Some \<lparr>oc_endpoint = ''http://localhost'', oc_model = ''m1'', oc_timeout_seconds = 60, oc_temperature = None\<rparr>,
      ai_groq = Some \<lparr>cl_model = ''m2'', cl_timeout_seconds = 60, cl_temperature = None\<rparr>, ai_gemini = None,
      ai_collector = \<lparr>cf_window_seconds = 60, cf_max_events = 10, cf_event_queue_capacity = 10, cf_analysis_queue_capacity = 2\<rparr>,
      ai_system_prompt = ''p'', ai_aggregator = default_aggregator_config\<rparr>"

definition sample_run :: "char \<Rightarrow> eval_run" where
  "sample_run u = \<lparr>ru_uuid = (\<lambda>_. [u]), ru_elapsed = (\<lambda>_. 0), ru_host = ''h'', ru_now = 0,
     ru_total_elapsed = 0, ru_config_raw = [], ru_sha256_hex = id\<rparr>"

definition sample_decode :: "string \<Rightarrow> ai_event option" where
  "sample_decode l = Some (sample_event l 1 ''/data/a'')"

lemma sample_lines: "buf_lines ''e1'' = [Inr ''e1'']"
  by (simp add: buf_lines_def raw_lines_def utf8_valid_ascii byte_def)

lemma sample_read: "read_events sample_decode 1 (buf_lines ''e1'') = Inr [sample_event ''e1'' 1 ''/data/a'']"
  by (simp add: sample_lines sample_decode_def rust_trim_plain plain_byte_def byte_def)

lemma sample_outcome:
  assumes u: "plain_byte u"
  shows "\<exists>out. analyze_with_provenance default_aggregator_config sample_provider
    (eval_request (sample_run u) 0 [sample_event ''e1'' 1 ''/data/a'']) = Some (Inr out)"
proof -
  let ?e = "sample_event ''e1'' 1 ''/data/a''" and ?aid = "''eval-'' @ [u]"
  let ?q = "\<lparr>rq_analysis_id = ?aid, rq_host = ''h'', rq_window_start = 1000000,
      rq_window_end = 1000000, rq_events = [?e]\<rparr> :: ai_analysis_request"
  have t: "rust_trim ?aid = ?aid" "rust_trim ''h'' = ''h''" "rust_trim ''e1'' = ''e1''"
    using u by (simp_all add: rust_trim_plain) (simp_all add: rust_trim_plain plain_byte_def byte_def)
  have id: "ae_event_id ?e = ''e1''" by (simp add: sample_event_defs)
  have q: "eval_request (sample_run u) 0 [?e] = ?q"
    by (simp add: eval_request_def sample_run_def) (simp add: sample_event_defs)
  have v: "validate_request ?q = Inr ()" using t by (simp add: validate_request_def id)
  have s: "sort_events [?e] = [?e]" by (simp add: sort_events_def)
  have "\<exists>r. aggregate_events ?aid [?e] default_aggregator_config = Some r \<and>
      map ag_evidence_event_ids (ar_events r) = [[''e1'']]"
    by (simp add: aggregate_events_def emit_block_def block_finish_def common_base_path_def id)
  then obtain r where r: "aggregate_events ?aid [?e] default_aggregator_config = Some r"
    "map ag_evidence_event_ids (ar_events r) = [[''e1'']]" by (elim exE conjE)
  have "validate_result ?q (provider_request_of ?q (ar_events r))
      \<lparr>rs_analysis_id = ?aid, rs_anomalies = [sample_anomaly]\<rparr> = Inr ()"
    by (simp add: validate_result_def provider_request_of_def check_anomaly_def sample_anomaly_def r(2)
        hs_of_list_def)
  then show ?thesis
    using v r(1) by (simp add: q analyze_with_provenance_def s sample_provider_def provider_request_of_def)
qed

lemma sample_evaluation:
  assumes "plain_byte u"
  shows "\<exists>r. eval_run_report last_instant sample_adapters sample_decode (sample_run u) (sample_ai_config ''ollama'')
    ''d.jsonl'' (Some ''e1'') False = Some (Inr r) \<and> er_batch_count r = 1"
proof -
  let ?e = "sample_event ''e1'' 1 ''/data/a''"
  obtain out where out: "analyze_with_provenance default_aggregator_config sample_provider
      (eval_request (sample_run u) 0 [?e]) = Some (Inr out)" using sample_outcome [OF assms] by (elim exE)
  have b: "split_batches last_instant [?e] 60 10 = Some (Inr [[?e]])"
    by (simp add: split_batches_def i64_max_def)
  have s: "sort_events [?e] = [?e]" by (simp add: sort_events_def)
  have p: "eval_provider sample_adapters (sample_ai_config ''ollama'') = Inr (sample_provider, ''m1'')"
    by (simp add: eval_provider_def sample_ai_config_def sample_adapters_def)
  have g: "ag_max_group_events default_aggregator_config \<noteq> 0" by (simp add: default_aggregator_config_def)
  show ?thesis
    using sample_read
    by (simp add: eval_run_report_def eval_report_of_def b s p out)
      (simp add: sample_ai_config_def g b s out eval_report_of_def)
qed

lemma evaluations_comparable_witness:
  "\<exists>r1 r2 cp. eval_run_report last_instant sample_adapters sample_decode (sample_run (CHR ''u''))
       (sample_ai_config ''ollama'') ''d.jsonl'' (Some ''e1'') False = Some (Inr r1) \<and>
     compare_reports rev r1 r2 = Inr cp \<and> co_unmatched_base (cp_comparable cp) = 0 \<and>
     length (co_pairs (cp_comparable cp)) + co_excluded_failed (cp_comparable cp) = 1"
proof -
  have "plain_byte (CHR ''u'')" "plain_byte (CHR ''v'')" by (simp_all add: plain_byte_def byte_def)
  then obtain r1 r2 where
    r1: "eval_run_report last_instant sample_adapters sample_decode (sample_run (CHR ''u''))
      (sample_ai_config ''ollama'') ''d.jsonl'' (Some ''e1'') False = Some (Inr r1)" "er_batch_count r1 = 1"
    and r2: "eval_run_report last_instant sample_adapters sample_decode (sample_run (CHR ''v''))
      (sample_ai_config ''ollama'') ''d.jsonl'' (Some ''e1'') False = Some (Inr r2)"
    using sample_evaluation by meson
  have "\<exists>cp. compare_reports rev r1 r2 = Inr cp \<and>
    co_unmatched_base (cp_comparable cp) = 0 \<and> co_unmatched_cand (cp_comparable cp) = 0 \<and>
    length (co_pairs (cp_comparable cp)) + co_excluded_failed (cp_comparable cp) = er_batch_count r1 \<and>
    (\<forall>(b, b') \<in> set (co_pairs (cp_comparable cp)).
       set (br_target_event_ids b) = set (br_target_event_ids b') \<and> succeeded b \<and> succeeded b')"
    by (rule evaluations_comparable [OF r1(1) r2 sample_read]) simp_all
  with r1 show ?thesis by (elim exE conjE) (intro exI conjI, assumption+, simp_all)
qed

end
