(* ===== verification/Ai_Adapter_Facts.thy ===== *)
theory Ai_Adapter_Facts
  imports Ai_Adapters
begin

text \<open>
  Facts about the adapters: which answers are read and as what, what an error can carry, and where
  a request goes.
\<close>

section \<open>The shape of an answer\<close>

fun severity_name :: "severity \<Rightarrow> string" where
  "severity_name SevLow = ''low''"
| "severity_name SevMedium = ''medium''"
| "severity_name SevHigh = ''high''"
| "severity_name SevCritical = ''critical''"

text \<open>The JSON object of an anomaly.\<close>

definition anomaly_json :: "json_env \<Rightarrow> json \<Rightarrow> ai_anomaly \<Rightarrow> bool" where
  "anomaly_json je item a \<longleftrightarrow>
     json_get item ''severity'' = Some (JString (severity_name (an_severity a))) \<and>
     json_get item ''attack_type'' = Some (case an_attack_type a of None \<Rightarrow> JNull | Some t \<Rightarrow> JString t) \<and>
     json_get item ''summary'' = Some (JString (an_summary a)) \<and>
     json_get item ''explanation'' = Some (JString (an_explanation a)) \<and>
     json_get item ''evidence_event_ids'' = Some (JArray (map JString (an_evidence_event_ids a))) \<and>
     (\<exists>q. json_get item ''confidence_score'' = Some (JNumber q) \<and> an_confidence_score a = je_f32 je q)"

lemma severity_of_name: "severity_of s = Some v \<longleftrightarrow> s = severity_name v"
  by (cases v) (auto simp: severity_of_def)

lemma as_simps [simp]:
  "as_str v = Some s \<longleftrightarrow> v = JString s" "as_array v = Some xs \<longleftrightarrow> v = JArray xs"
  "as_object v = Some m \<longleftrightarrow> v = JObject m" "as_number v = Some q \<longleftrightarrow> v = JNumber q"
  by (cases v; auto)+

lemma those_as_str: "those (map as_str vs) = Some ss \<longleftrightarrow> vs = map JString ss"
  by (induction vs arbitrary: ss) (auto split: option.splits simp: Cons_eq_map_conv)

lemma those_Some: "those xs = Some ys \<longleftrightarrow> xs = map Some ys"
  by (induction xs arbitrary: ys) (auto split: option.splits simp: Cons_eq_map_conv)

lemma foldR_unit_ok:
  "foldR (\<lambda>x _. f x) xs () = Inr () \<longleftrightarrow> (\<forall>x \<in> set xs. f x = Inr ())" for f :: "'a \<Rightarrow> 'e + unit"
  by (induction xs) (auto simp: bindR_eq_Inr)

lemma check_present_ok: "foldR (check_present i m) fs () = Inr () \<longleftrightarrow> (\<forall>f \<in> set fs. hm_contains m f)"
  by (induction fs) (auto simp: bindR_eq_Inr check_present_def)

lemma check_type_ok: "foldR (check_type i m) fs () = Inr () \<longleftrightarrow>
    (\<forall>f \<in> set fs. \<exists>v. hm_get m f = Some v \<and> field_type_ok f v)"
  by (induction fs) (auto simp: bindR_eq_Inr check_type_def split: option.splits)

lemma check_item_ok: "check_item (i, item) () = Inr () \<longleftrightarrow> (\<exists>m. item = JObject m \<and>
    (\<forall>f \<in> set anomaly_fields. hm_contains m f) \<and>
    (\<forall>f \<in> set typed_fields. \<exists>v. hm_get m f = Some v \<and> field_type_ok f v))"
  by (auto simp: check_item_def bindR_eq_Inr check_present_ok check_type_ok ok_or_eq_Inr)

lemma check_items_ok: "foldR check_item (enumerate n items) () = Inr () \<longleftrightarrow>
    (\<forall>item \<in> set items. check_item (0, item) () = Inr ())"
  by (induction items arbitrary: n) (auto simp: bindR_eq_Inr check_item_ok)

lemma checked_item:
  assumes "check_item (i, item) () = Inr ()" and "read_anomaly je item = Some a"
  shows "anomaly_json je item a"
proof -
  from assms(1) obtain m where m: "item = JObject m"
    and f: "\<forall>f \<in> set typed_fields. \<exists>v. hm_get m f = Some v \<and> field_type_ok f v"
    by (auto simp: check_item_ok)
  from f obtain v where "hm_get m ''attack_type'' = Some v" "v = JNull \<or> as_str v \<noteq> None"
    by (auto simp: typed_fields_def field_type_ok_def)
  with assms(2) m show ?thesis
    by (auto simp: read_anomaly_def bind_eq_Some_conv severity_of_name those_as_str anomaly_json_def json_get_def)
qed

lemma anomaly_item:
  assumes "anomaly_json je item a"
  shows "check_item (i, item) () = Inr () \<and> read_anomaly je item = Some a"
proof
  from assms obtain m where m: "item = JObject m" by (auto simp: anomaly_json_def json_get_def bind_eq_Some_conv)
  with assms show "check_item (i, item) () = Inr ()"
    unfolding check_item_ok anomaly_fields_def typed_fields_def
    by (auto simp: anomaly_json_def json_get_def hm_contains_def field_type_ok_def split: option.splits)
  have "those (map (as_str \<circ> JString) ids) = Some ids" for ids by (induction ids) simp_all
  then show "read_anomaly je item = Some a"
    using assms by (cases "an_attack_type a")
      (auto simp: anomaly_json_def read_anomaly_def severity_of_name bind_eq_Some_conv)
qed

lemma parse_output_spec:
  "parse_output je aid content = Inr res \<longleftrightarrow> rs_analysis_id res = aid \<and>
     (\<exists>root items. je_parse je content = Some (JObject root) \<and> hm_get root ''anomalies'' = Some (JArray items) \<and>
        list_all2 (anomaly_json je) items (rs_anomalies res))"
proof -
  have "(\<forall>item \<in> set items. check_item (0, item) () = Inr ()) \<and> map (read_anomaly je) items = map Some as \<longleftrightarrow>
      list_all2 (anomaly_json je) items as" for items as
  proof (induction items arbitrary: as)
    case (Cons item items)
    show ?case
    proof (cases as)
      case (Cons a as')
      with Cons.IH [of as'] show ?thesis using checked_item [of 0 item je a] anomaly_item [of je item a 0] by auto
    qed simp
  qed simp
  then have l: "(foldR check_item (enumerate 0 items) () = Inr () \<and> those (map (read_anomaly je) items) = Some as) \<longleftrightarrow>
      list_all2 (anomaly_json je) items as" for items as
    by (simp add: check_items_ok those_Some)
  have "parse_output je aid content = Inr res \<longleftrightarrow> (\<exists>root items. je_parse je content = Some (JObject root) \<and>
      hm_get root ''anomalies'' = Some (JArray items) \<and> foldR check_item (enumerate 0 items) () = Inr () \<and>
      (\<exists>as. those (map (read_anomaly je) items) = Some as \<and> res = \<lparr>rs_analysis_id = aid, rs_anomalies = as\<rparr>))"
    by (auto simp: parse_output_def bindR_eq_Inr ok_or_eq_Inr)
  then show ?thesis unfolding l [symmetric] by (cases res) auto
qed

text \<open>
  C21. An answer of a provider is accepted exactly when it is a JSON object whose field \<open>anomalies\<close> is an
  array of objects that each give a severity, an attack type or null, a summary, an explanation, a
  list of evidence ids and a score; the result holds exactly these values, under the id of the request.
\<close>

theorem answer_read_exactly:
  "parse_output je aid content = Inr res \<longleftrightarrow> rs_analysis_id res = aid \<and>
     (\<exists>root items. je_parse je content = Some (JObject root) \<and> hm_get root ''anomalies'' = Some (JArray items) \<and>
        list_all2 (anomaly_json je) items (rs_anomalies res))"
  by (rule parse_output_spec)

section \<open>What an error can carry\<close>

definition known_field :: "string \<Rightarrow> bool" where
  "known_field f \<longleftrightarrow> f = ''anomalies'' \<or> f \<in> set anomaly_fields"

text \<open>An error without any text: nothing of the answer, the request or a key can be in it.\<close>

fun textless :: "ai_error \<Rightarrow> bool" where
  "textless (AeValidation v) = (\<forall>f. vf_field v = Some f \<longrightarrow> known_field f)"
| "textless (AeProviderFailure _) = True"
| "textless _ = False"

lemma textless_shape: "textless (shape_error c f i) \<longleftrightarrow> (\<forall>x. f = Some x \<longrightarrow> known_field x)"
  by (simp add: shape_error_def)

lemma typed_field_known: "f \<in> set typed_fields \<Longrightarrow> known_field f"
  by (auto simp: typed_fields_def known_field_def anomaly_fields_def)

lemma foldR_textless:
  assumes "foldR f xs s = Inl e" and "\<And>x s e. x \<in> set xs \<Longrightarrow> f x s = Inl e \<Longrightarrow> textless e"
  shows "textless e"
  using assms by (induction xs arbitrary: s) (auto simp: bindR_eq_Inl)

lemma check_item_textless: "check_item ix u = Inl e \<Longrightarrow> textless e"
proof -
  assume a: "check_item ix u = Inl e"
  have p: "textless e" if "foldR (check_present i m) anomaly_fields () = Inl e" for i m e
    using that by (rule foldR_textless) (auto simp: check_present_def textless_shape known_field_def split: if_splits)
  have t: "textless e" if "foldR (check_type i m) typed_fields () = Inl e" for i m e
    using that
    by (rule foldR_textless)
      (auto simp: check_type_def textless_shape typed_field_known split: if_splits)
  from a p t show ?thesis
    by (cases ix, cases "as_object (snd ix)")
      (auto simp: check_item_def bindR_eq_Inl textless_shape known_field_def)
qed

lemma ok_or_eq_Inl: "ok_or x e = Inl f \<longleftrightarrow> x = None \<and> f = e"
  by (cases x) auto

lemma parse_output_textless:
  assumes "parse_output je aid content = Inl e"
  shows "textless e"
  using assms foldR_textless [of check_item _ "()" e]
  by (auto simp: parse_output_def bindR_eq_Inl ok_or_eq_Inl textless_shape known_field_def
      dest: check_item_textless)

lemma send_textless: "send http q = Inl e \<Longrightarrow> textless e"
  by (cases "http q")
    (auto simp: send_def bindR_eq_Inl bindR_eq_Inr network_error_def status_error_def split: if_splits)

lemma content_textless:
  "gemini_content r = Inl e \<Longrightarrow> textless e"
  "groq_content r = Inl e \<Longrightarrow> textless e"
  "ollama_content r = Inl e \<Longrightarrow> textless e"
  by (auto simp: gemini_content_def groq_content_def ollama_content_def bindR_eq_Inl ok_or_eq_Inl
      invalid_response_def Let_def split: if_splits)

lemma request_error:
  "gemini_request je a rq = Inl e \<Longrightarrow> user_prompt je rq = Inl e"
  "groq_request je a rq = Inl e \<Longrightarrow> user_prompt je rq = Inl e"
  "ollama_request je a rq = Inl e \<Longrightarrow> user_prompt je rq = Inl e"
  by (simp_all add: gemini_request_def groq_request_def ollama_request_def bindR_eq_Inl)

text \<open>The three adapters as providers.\<close>

definition adapter_provider :: "json_env \<Rightarrow> http_client \<Rightarrow> adapter \<Rightarrow> provider \<Rightarrow> bool" where
  "adapter_provider je http a p \<longleftrightarrow>
     p = gemini_analyze je http a \<or> p = groq_analyze je http a \<or> p = ollama_analyze je http a"

lemma provider_error:
  assumes "adapter_provider je http a p" and "p rq = Inl e"
  shows "user_prompt je rq = Inl e \<or> textless e"
  using assms parse_output_textless send_textless content_textless request_error
  by (auto simp: adapter_provider_def gemini_analyze_def groq_analyze_def ollama_analyze_def bindR_eq_Inl)

text \<open>Whatever the configuration, the provider the daemon runs with is one of the three adapters.\<close>

lemma built_provider_is_adapter:
  assumes "build_provider (host_adapters je http h) c = Inr p"
  shows "\<exists>a. adapter_provider je http a p"
  using assms
  by (auto simp: build_provider_def host_adapters_def bindR_eq_Inr map_err_eq_Inr adapter_provider_def
      split: if_splits)

text \<open>
  C22. Errors are safe to log: whatever provider the configuration of the daemon selects, when an
  analysis fails, the error carries no text of the answer, the key or the events, only a class, a
  status, and the name of one of the seven known fields with the position of the anomaly; unless the
  request could not be written at all.
\<close>

theorem provider_errors_carry_no_text:
  assumes "build_provider (host_adapters je http h) c = Inr p" and "p rq = Inl e" and "je_request je rq = Inr body"
  shows "textless e"
proof -
  from built_provider_is_adapter [OF assms(1)] obtain a where "adapter_provider je http a p" ..
  from provider_error [OF this assms(2)] assms(3) show ?thesis by (simp add: user_prompt_def)
qed

section \<open>Where a request goes\<close>

text \<open>
  An adapter for Gemini sends its requests, with the key in a header only, to one path below the
  address of the models: a configured model name can neither leave that path nor add a query or
  a fragment.
\<close>

theorem gemini_request_confined:
  assumes "gemini_new key ok model timeout prompt temperature = Inr a" and "gemini_request je a rq = Inr q"
  shows "\<exists>m. hq_url q = ''https://generativelanguage.googleapis.com/v1beta/models/'' @ m @ '':generateContent'' \<and>
    m \<noteq> [] \<and> set m \<inter> set ''/?#%'' = {} \<and> \<not> sublist ''..'' m \<and>
    (\<exists>k. key = Some k \<and> rust_trim k \<noteq> [] \<and> hq_headers q = [(''x-goog-api-key'', k)])"
proof -
  from assms(1) obtain k where v: "validate_model model = Inr ()" "CHR ''/'' \<notin> set model"
    and k: "api_key_of ''GEMINI_API_KEY'' key = Inr k"
    and a: "at_model a = model" "at_api_key a = k"
    by (auto simp: gemini_new_def bindR_eq_Inr split: if_splits)
  from k have key: "key = Some k" "rust_trim k \<noteq> []"
    by (auto simp: api_key_of_def split: option.splits if_splits)
  from v have m: "model \<noteq> []" "\<not> sublist ''..'' model"
    "\<forall>b \<in> set model. is_ascii_alphanumeric b \<or> b \<in> set ''-_.:/''"
    by (auto simp: validate_model_def list_all_iff split: if_splits)
  have "c \<notin> set ''/?#%''" if "c \<in> set model" for c
    using m(3) v(2) that
    by (auto simp: is_ascii_alphanumeric_def is_ascii_alphabetic_def is_digit_def byte_def)
  then have "set model \<inter> set ''/?#%'' = {}" by blast
  with assms(2) a m(1,2) key show ?thesis
    by (intro exI [of _ model]) (auto simp: gemini_request_def bindR_eq_Inr)
qed

section \<open>The prompt\<close>

text \<open>
  The source writes the rules of the prompt on lines of their own, but ends each line with a backslash,
  which joins it to the next one: there is no line break left.
\<close>

lemma prompt_lines_joined: "CHR 0x0A \<notin> set SYSTEM_PROMPT"
  by (simp add: SYSTEM_PROMPT_def)

section \<open>Samples\<close>

definition sample_json :: json_env where
  "sample_json = \<lparr>je_parse = (\<lambda>_. None), je_print = (\<lambda>_. []), je_request = (\<lambda>_. Inr ''{}''),
     je_f32 = (\<lambda>_. NotFinite), je_of_f32 = (\<lambda>_. JNull)\<rparr>"

definition sample_host :: host_env where
  "sample_host = \<lparr>he_gemini_key = Some ''k'', he_groq_key = None, he_client_ok = True\<rparr>"

definition gemini_config :: ai_config where
  "gemini_config =
     \<lparr>ai_version = ''1.0'', ai_enabled = True, ai_provider = ''gemini'', ai_ollama = None, ai_groq = None,
      ai_gemini = Some \<lparr>cl_model = ''g-2.5'', cl_timeout_seconds = 60, cl_temperature = None\<rparr>,
      ai_collector = \<lparr>cf_window_seconds = 60, cf_max_events = 10, cf_event_queue_capacity = 10, cf_analysis_queue_capacity = 2\<rparr>,
      ai_system_prompt = ''p'', ai_aggregator = default_aggregator_config\<rparr>"

definition empty_request :: ai_provider_request where
  "empty_request = \<lparr>pq_analysis_id = ''A'', pq_host = ''h'', pq_window_start = 0, pq_window_end = 0, pq_events = []\<rparr>"

text \<open>A server that answers every request with text that is not JSON.\<close>

definition chatty_server :: http_client where
  "chatty_server q = Inr \<lparr>ha_status = 200, ha_json = Some (JObject [(''candidates'', JArray [JObject [(''content'',
     JObject [(''parts'', JArray [JObject [(''text'', JString ''secret'')]])])]])]), ha_chat = None\<rparr>"

lemma sample_gemini:
  "gemini_new (Some ''k'') True ''g-2.5'' 60 ''p'' None =
     Inr \<lparr>at_endpoint = [], at_model = ''g-2.5'', at_api_key = ''k'', at_system_prompt = ''p'', at_temperature = None,
       at_context = None\<rparr>"
proof -
  have "\<not> sublist ''..'' ''g-2.5''" by (simp add: sublist_code)
  moreover have "rust_trim ''k'' = ''k''" by (simp add: rust_trim_plain plain_byte_def byte_def)
  ultimately show ?thesis
    by (simp add: gemini_new_def validate_model_def validate_temperature_def api_key_of_def build_client_def
        is_ascii_alphanumeric_def is_ascii_alphabetic_def is_digit_def byte_def)
qed

lemma provider_errors_carry_no_text_witness:
  "\<exists>p e. build_provider (host_adapters sample_json chatty_server sample_host) gemini_config = Inr p \<and>
     p empty_request = Inl e \<and> textless e"
proof -
  let ?a = "\<lparr>at_endpoint = [], at_model = ''g-2.5'', at_api_key = ''k'', at_system_prompt = ''p'',
    at_temperature = None, at_context = None\<rparr>"
  let ?p = "gemini_analyze sample_json chatty_server ?a"
  have b: "build_provider (host_adapters sample_json chatty_server sample_host) gemini_config = Inr ?p"
    by (simp add: build_provider_def host_adapters_def sample_host_def gemini_config_def sample_gemini)
  have "\<exists>e. ?p empty_request = Inl e"
    by (simp add: gemini_analyze_def gemini_request_def user_prompt_def sample_json_def send_def chatty_server_def
        is_success_def gemini_content_def json_get_def hm_get_def map_filter_def parse_output_def)
  then obtain e where e: "?p empty_request = Inl e" by (elim exE)
  have "je_request sample_json empty_request = Inr ''{}''" by (simp add: sample_json_def)
  from provider_errors_carry_no_text [OF b e this] b e show ?thesis by (intro exI conjI)
qed

lemma gemini_request_confined_witness:
  "\<exists>a q m. gemini_new (Some ''k'') True ''g-2.5'' 60 ''p'' None = Inr a \<and>
     gemini_request sample_json a empty_request = Inr q \<and>
     hq_url q = ''https://generativelanguage.googleapis.com/v1beta/models/'' @ m @ '':generateContent'' \<and>
     set m \<inter> set ''/?#%'' = {}"
proof -
  let ?a = "\<lparr>at_endpoint = [], at_model = ''g-2.5'', at_api_key = ''k'', at_system_prompt = ''p'',
    at_temperature = None, at_context = None\<rparr>"
  have "\<exists>q. gemini_request sample_json ?a empty_request = Inr q"
    by (simp add: gemini_request_def user_prompt_def sample_json_def)
  then obtain q where q: "gemini_request sample_json ?a empty_request = Inr q" by (elim exE)
  from gemini_request_confined [OF sample_gemini q] obtain m where
    "hq_url q = ''https://generativelanguage.googleapis.com/v1beta/models/'' @ m @ '':generateContent''"
    "set m \<inter> set ''/?#%'' = {}" by (elim exE conjE)
  with q sample_gemini show ?thesis by (intro exI conjI)
qed

end
