(* ===== verification/Diff_Html.thy ===== *)
theory Diff_Html
  imports Policy_Diff
begin

text \<open>
  \<open>cmd/diff/html.rs\<close> and \<open>render_terminal\<close> of \<open>cmd/diff/mod.rs\<close>: the report an approver reads, as a
  page and on the terminal. A report is a list of pieces: fixed text, named by the line of the source
  where it starts (of \<open>html.rs\<close> for the page, of \<open>mod.rs\<close> for the terminal) and its number among the
  pieces between the holes of a template, and values put into the holes. The fixed texts, the time of the report, and the debug format of strings and
  rules are parameters; colours of the terminal are left out.
\<close>

section \<open>Pieces\<close>

datatype piece = Fixed nat nat | Shown string

record render_env =
  re_text :: "nat \<Rightarrow> nat \<Rightarrow> string"
  re_time :: string
  re_debug_str :: "string \<Rightarrow> string"
  re_debug_rule :: "compiled_rule \<Rightarrow> string"

fun piece_text :: "render_env \<Rightarrow> piece \<Rightarrow> string" where
  "piece_text re (Fixed l n) = re_text re l n"
| "piece_text re (Shown s) = s"

text \<open>A template with its holes filled: fixed text before, between and after the values.\<close>

definition fill :: "nat \<Rightarrow> string list \<Rightarrow> piece list" where
  "fill l vals = Fixed l 0 # concat (map (\<lambda>(i, v). [Shown v, Fixed l (i + 1)]) (enumerate 0 vals))"

definition debug_list :: "('a \<Rightarrow> string) \<Rightarrow> 'a list \<Rightarrow> string" where
  "debug_list f xs = ''['' @ join '', '' (map f xs) @ '']''"

section \<open>Escaping\<close>

definition escape_html :: "string \<Rightarrow> string" where
  "escape_html s =
     replace_all [CHR 0x27] ''&#39;'' (replace_all [CHR 0x22] ''&quot;''
       (replace_all ''>'' ''&gt;'' (replace_all ''<'' ''&lt;'' (replace_all ''&'' ''&amp;'' s))))"

section \<open>The page\<close>

definition or_dashes :: "('a list \<Rightarrow> string) \<Rightarrow> 'a list \<Rightarrow> string" where
  "or_dashes f xs = (if xs = [] then ''-'' else f xs)"

definition html_role_change :: "mgmt_role_change \<Rightarrow> piece list" where
  "html_role_change r =
     fill 277 [escape_html (mrc_role_name r), or_dashes (debug_list show_u32) (mrc_added_uids r),
       or_dashes (debug_list show_u32) (mrc_removed_uids r)]"

text \<open>The line with the class and the label of an impact.\<close>

fun mgmt_badge :: "mgmt_impact \<Rightarrow> nat" where
  "mgmt_badge MiCritical = 307"
| "mgmt_badge MiWarning = 308"
| "mgmt_badge MiStricter = 309"
| "mgmt_badge MiNeutral = 310"

definition show_bool :: "bool \<Rightarrow> string" where
  "show_bool b = (if b then ''true'' else ''false'')"

definition roles_detail :: "render_env \<Rightarrow> nat \<Rightarrow> string list \<Rightarrow> string list" where
  "roles_detail re l roles =
     (if roles = [] then [] else [re_text re l 0 @ debug_list (re_debug_str re) roles])"

definition control_details :: "render_env \<Rightarrow> control_change \<Rightarrow> string list" where
  "control_details re c =
     (case cc_threshold_change c of
        Some (o_t, n_t) \<Rightarrow> [''Threshold: '' @ show_u32 o_t @ arrow @ show_u32 n_t] | None \<Rightarrow> []) @
     (case cc_mpa_enabled_change c of
        Some (o_e, n_e) \<Rightarrow> [''MPA Enabled: '' @ show_bool o_e @ arrow @ show_bool n_e] | None \<Rightarrow> []) @
     roles_detail re 321 (cc_added_initiator_roles c) @ roles_detail re 327 (cc_removed_initiator_roles c) @
     roles_detail re 334 (cc_added_approver_roles c) @ roles_detail re 340 (cc_removed_approver_roles c)"

definition html_control_change :: "render_env \<Rightarrow> control_change \<Rightarrow> piece list" where
  "html_control_change re c =
     [Fixed 346 0, Shown (escape_html (cc_command c)), Fixed 346 1, Fixed (mgmt_badge (cc_impact c)) 0,
      Fixed 346 2, Fixed (mgmt_badge (cc_impact c)) 1, Fixed 346 3,
      Shown (escape_html (join '' / '' (control_details re c))), Fixed 346 4]"

definition html_mgmt :: "render_env \<Rightarrow> management_diff \<Rightarrow> piece list" where
  "html_mgmt re m =
     Fixed 268 0 #
     (if mdf_control_changes m = [] \<and> mdf_role_changes m = [] then [Fixed 270 0]
      else
        (if mdf_role_changes m = [] then []
         else [Fixed 274 0, Fixed 275 0] @ concat (map html_role_change (mdf_role_changes m)) @ [Fixed 298 0]) @
        (if mdf_control_changes m = [] then []
         else [Fixed 303 0, Fixed 304 0] @ concat (map (html_control_change re) (mdf_control_changes m)) @
           [Fixed 360 0])) @
     [Fixed 363 0]"

definition html_assignment :: "assignment_change \<Rightarrow> piece list" where
  "html_assignment a =
     fill 389 [escape_html (ach_target a), or_dashes (\<lambda>xs. escape_html (join '', '' xs)) (ach_added a),
       or_dashes (\<lambda>xs. escape_html (join '', '' xs)) (ach_removed a)]"

text \<open>The default roles are put in as their debug format, without escaping.\<close>

definition html_defaults :: "render_env \<Rightarrow> string list \<times> string list \<Rightarrow> piece list" where
  "html_defaults re d =
     fill 411 [debug_list (re_debug_str re) (fst d), debug_list (re_debug_str re) (snd d)]"

definition html_roles :: "render_env \<Rightarrow> roles_diff \<Rightarrow> piece list" where
  "html_roles re r =
     Fixed 368 0 #
     (if rdf_added_roles r = [] \<and> rdf_removed_roles r = [] then []
      else Fixed 372 0 # concat (map (\<lambda>x. fill 374 [escape_html x]) (rdf_added_roles r)) @
        concat (map (\<lambda>x. fill 380 [escape_html x]) (rdf_removed_roles r)) @ [Fixed 382 0]) @
     (if rdf_assignment_changes r = [] \<and> rdf_default_roles_changed r = None then []
      else Fixed 387 0 # concat (map html_assignment (rdf_assignment_changes r)) @
        (case rdf_default_roles_changed r of Some d \<Rightarrow> html_defaults re d | None \<Rightarrow> []) @ [Fixed 421 0]) @
     [Fixed 424 0]"

definition html_bundle :: "bundle_diff \<Rightarrow> piece list" where
  "html_bundle b =
     Fixed 429 0 # concat (map (\<lambda>f. fill 431 [escape_html f]) (bdf_added_policies b)) @
     concat (map (\<lambda>f. fill 437 [escape_html f]) (bdf_removed_policies b)) @ [Fixed 442 0]"

definition html_config :: "render_env \<Rightarrow> full_config_diff \<Rightarrow> piece list" where
  "html_config re c =
     Fixed 264 0 #
     (case fcd_mgmt_diff c of Some m \<Rightarrow> html_mgmt re m | None \<Rightarrow> []) @
     (case fcd_roles_diff c of Some r \<Rightarrow> html_roles re r | None \<Rightarrow> []) @
     (case fcd_bundle_diff c of Some b \<Rightarrow> html_bundle b | None \<Rightarrow> [])"

fun global_badge :: "security_impact \<Rightarrow> nat" where
  "global_badge SiRelaxed = 468"
| "global_badge SiHardened = 469"
| "global_badge SiNeutral = 470"

definition html_global :: "global_diff_item \<Rightarrow> piece list" where
  "html_global g =
     [Fixed 472 0, Shown (escape_html (gd_key g)), Fixed 472 1, Shown (escape_html (gd_old_value g)),
      Fixed 472 2, Shown (escape_html (gd_new_value g)), Fixed 472 3, Fixed (global_badge (gd_impact g)) 0,
      Fixed 472 4, Fixed (global_badge (gd_impact g)) 1, Fixed 472 5,
      Shown (escape_html (gd_description g)), Fixed 472 6]"

definition html_globals :: "global_diff_item list \<Rightarrow> piece list" where
  "html_globals gs =
     Fixed 447 0 #
     (if gs = [] then [Fixed 449 0]
      else Fixed 451 0 # concat (map html_global gs) @ [Fixed 490 0])"

fun rule_badge :: "security_impact \<Rightarrow> nat" where
  "rule_badge SiRelaxed = 526"
| "rule_badge SiHardened = 529"
| "rule_badge SiNeutral = 532"

fun html_item :: "render_env \<Rightarrow> rule_diff_item \<Rightarrow> piece list" where
  "html_item re (RdModified i impact details f) =
     [Fixed 535 0, Fixed (rule_badge impact) 0, Fixed 535 1, Shown (escape_html i), Fixed 535 2,
      Fixed (rule_badge impact) 1, Fixed 535 3, Fixed (rule_badge impact) 2, Fixed 535 4] @
     concat (map (\<lambda>d. fill 550 [escape_html d]) details) @ [Fixed 552 0]"
| "html_item re (RdAdded r impact) = fill 555 [escape_html (cr_id r), escape_html (re_debug_rule re r)]"
| "html_item re (RdRemoved r impact) = fill 570 [escape_html (cr_id r), escape_html (re_debug_rule re r)]"
| "html_item re (RdUnchanged i f) = []"

definition is_unchanged :: "rule_diff_item \<Rightarrow> bool" where
  "is_unchanged d = (case d of RdUnchanged _ _ \<Rightarrow> True | _ \<Rightarrow> False)"

text \<open>The items by file, in the order of the file names.\<close>

definition file_groups :: "rule_diff_item list \<Rightarrow> (string \<times> rule_diff_item list) list" where
  "file_groups ds =
     map (\<lambda>f. (f, filter (\<lambda>d. item_source_file d = f) ds)) (btree (map item_source_file ds))"

definition html_group :: "render_env \<Rightarrow> string \<times> rule_diff_item list \<Rightarrow> piece list" where
  "html_group re g =
     fill 504 [escape_html (fst g), show_nat (length (filter (\<lambda>d. \<not> is_unchanged d) (snd g)))] @
     concat (map (html_item re) (snd g)) @ [Fixed 588 0]"

definition html_rules :: "render_env \<Rightarrow> rule_diff_item list \<Rightarrow> piece list" where
  "html_rules re ds =
     Fixed 494 0 #
     (if file_groups ds = [] then [Fixed 496 0] else concat (map (html_group re) (file_groups ds)))"

text \<open>How many rules were added, removed and modified, and how many changes relax or harden.\<close>

definition report_counts :: "rule_diff_item list \<Rightarrow> nat \<times> nat \<times> nat \<times> nat \<times> nat" where
  "report_counts ds =
     (let counted = (\<lambda>p. length (filter p ds))
      in (counted (\<lambda>d. case d of RdAdded _ _ \<Rightarrow> True | _ \<Rightarrow> False),
          counted (\<lambda>d. case d of RdRemoved _ _ \<Rightarrow> True | _ \<Rightarrow> False),
          counted (\<lambda>d. case d of RdModified _ _ _ _ \<Rightarrow> True | _ \<Rightarrow> False),
          counted (\<lambda>d. item_impact d = SiRelaxed), counted (\<lambda>d. item_impact d = SiHardened)))"

definition html_header :: "render_env \<Rightarrow> bundle_diff_report \<Rightarrow> piece list" where
  "html_header re r =
     (case report_counts (bdr_rule_diffs r) of (added, removed, modified, relaxed, hardened) \<Rightarrow>
        Fixed 68 0 # fill 234
          [re_time re, escape_html (bdr_current_hash r), escape_html (bdr_new_hash r),
           show_nat (length (file_groups (bdr_rule_diffs r))), show_nat relaxed, show_nat hardened,
           show_nat added, show_nat removed, show_nat modified])"

definition html_pieces :: "render_env \<Rightarrow> bundle_diff_report \<Rightarrow> piece list" where
  "html_pieces re r =
     html_header re r @
     (case bdr_config_diff r of Some c \<Rightarrow> html_config re c | None \<Rightarrow> []) @
     html_globals (bdr_global_diffs r) @ html_rules re (bdr_rule_diffs r) @ [Fixed 593 0]"

definition render_html :: "render_env \<Rightarrow> bundle_diff_report \<Rightarrow> string" where
  "render_html re r = concat (map (piece_text re) (html_pieces re r))"

text \<open>\<open>generate_html_report\<close>: what is written, if writing succeeds.\<close>

definition generate_html_report :: "render_env \<Rightarrow> (string \<Rightarrow> string + unit) \<Rightarrow> bundle_diff_report \<Rightarrow> string + unit" where
  "generate_html_report re write r =
     map_err (\<lambda>e. ''Failed to write HTML diff report: '' @ e) (write (render_html re r))"

section \<open>The terminal\<close>

definition text_line :: "nat \<Rightarrow> piece list" where
  "text_line l = [Fixed l 0]"

definition unless_empty :: "nat \<Rightarrow> ('a list \<Rightarrow> string) \<Rightarrow> 'a list \<Rightarrow> piece list" where
  "unless_empty l f xs = (if xs = [] then [] else fill l [f xs])"

definition term_role_change :: "mgmt_role_change \<Rightarrow> piece list" where
  "term_role_change r =
     fill 202 [mrc_role_name r] @ unless_empty 204 (debug_list show_u32) (mrc_added_uids r) @
     unless_empty 210 (debug_list show_u32) (mrc_removed_uids r)"

fun term_mgmt_badge :: "mgmt_impact \<Rightarrow> nat" where
  "term_mgmt_badge MiCritical = 221"
| "term_mgmt_badge MiWarning = 224"
| "term_mgmt_badge MiStricter = 227"
| "term_mgmt_badge MiNeutral = 230"

definition term_control_change :: "render_env \<Rightarrow> control_change \<Rightarrow> piece list" where
  "term_control_change re c =
     (let names = debug_list (re_debug_str re) in
      [Fixed 233 0, Fixed (term_mgmt_badge (cc_impact c)) 0, Fixed 233 1, Shown (cc_command c), Fixed 233 2] @
      (case cc_threshold_change c of Some (o_t, n_t) \<Rightarrow> fill 239 [show_u32 o_t, show_u32 n_t] | None \<Rightarrow> []) @
      (case cc_mpa_enabled_change c of Some (o_e, n_e) \<Rightarrow> fill 246 [show_bool o_e, show_bool n_e] | None \<Rightarrow> []) @
      unless_empty 254 names (cc_added_initiator_roles c) @ unless_empty 260 names (cc_removed_initiator_roles c) @
      unless_empty 267 names (cc_added_approver_roles c) @ unless_empty 273 names (cc_removed_approver_roles c))"

definition term_assignment :: "render_env \<Rightarrow> assignment_change \<Rightarrow> piece list" where
  "term_assignment re a =
     fill 305 [ach_target a] @ unless_empty 307 (debug_list (re_debug_str re)) (ach_added a) @
     unless_empty 313 (debug_list (re_debug_str re)) (ach_removed a)"

definition term_mgmt :: "render_env \<Rightarrow> management_diff \<Rightarrow> piece list" where
  "term_mgmt re m =
     text_line 195 @ concat (map term_role_change (mdf_role_changes m)) @
     concat (map (term_control_change re) (mdf_control_changes m)) @ text_line 279"

definition term_roles :: "render_env \<Rightarrow> roles_diff \<Rightarrow> piece list" where
  "term_roles re r =
     text_line 284 @ unless_empty 291 (debug_list (re_debug_str re)) (rdf_added_roles r) @
     unless_empty 297 (debug_list (re_debug_str re)) (rdf_removed_roles r) @
     concat (map (term_assignment re) (rdf_assignment_changes r)) @
     (case rdf_default_roles_changed r of
        Some (o_d, n_d) \<Rightarrow> fill 322 [debug_list (re_debug_str re) o_d, debug_list (re_debug_str re) n_d]
      | None \<Rightarrow> []) @ text_line 324"

definition term_bundle :: "bundle_diff \<Rightarrow> piece list" where
  "term_bundle b =
     text_line 329 @ concat (map (\<lambda>f. fill 334 [f]) (bdf_added_policies b)) @
     concat (map (\<lambda>f. fill 337 [f]) (bdf_removed_policies b)) @ text_line 339"

definition term_config :: "render_env \<Rightarrow> full_config_diff \<Rightarrow> piece list" where
  "term_config re c =
     (case fcd_mgmt_diff c of Some m \<Rightarrow> term_mgmt re m | None \<Rightarrow> []) @
     (case fcd_roles_diff c of Some r \<Rightarrow> term_roles re r | None \<Rightarrow> []) @
     (case fcd_bundle_diff c of Some b \<Rightarrow> term_bundle b | None \<Rightarrow> [])"

fun term_badge :: "nat \<Rightarrow> security_impact \<Rightarrow> nat" where
  "term_badge l SiRelaxed = l"
| "term_badge l SiHardened = l + 1"
| "term_badge l SiNeutral = l + 2"

definition term_global :: "global_diff_item \<Rightarrow> piece list" where
  "term_global g =
     [Fixed 357 0, Fixed (term_badge 353 (gd_impact g)) 0, Fixed 357 1, Shown (gd_key g), Fixed 357 2,
      Shown (gd_old_value g), Fixed 357 3, Shown (gd_new_value g), Fixed 357 4] @
     (if gd_description g = [] then [] else fill 365 [gd_description g])"

definition term_item :: "rule_diff_item \<Rightarrow> piece list" where
  "term_item d =
     [Fixed 387 0, Fixed (term_badge 383 (item_impact d)) 0, Fixed 387 1, Shown (item_rule_id d), Fixed 387 2,
      Shown (item_change_kind d), Fixed 387 3] @
     concat (map (\<lambda>x. fill 394 [x]) (item_details d))"

definition render_terminal :: "render_env \<Rightarrow> bundle_diff_report \<Rightarrow> piece list" where
  "render_terminal re r =
     text_line 181 @ fill 185 [bdr_current_hash r] @ fill 186 [bdr_new_hash r] @ text_line 187 @
     (case bdr_config_diff r of Some c \<Rightarrow> term_config re c | None \<Rightarrow> []) @
     (if bdr_global_diffs r = [] then []
      else text_line 347 @ concat (map term_global (bdr_global_diffs r)) @ text_line 368) @
     text_line 374 @
     (if bdr_rule_diffs r = [] then text_line 379 else concat (map term_item (bdr_rule_diffs r))) @
     text_line 398"

end
