(* ===== verification/Diff_Html_Facts.thy ===== *)
theory Diff_Html_Facts
  imports Diff_Html
begin

text \<open>
  Facts about the rendered report: escaping can be undone and leaves no markup, the page shows every
  change and puts nothing on it that is not escaped, but for the default roles.
\<close>

section \<open>Escaping, byte by byte\<close>

fun escape_char :: "char \<Rightarrow> string" where
  "escape_char c =
     (if c = CHR ''&'' then ''&amp;'' else if c = CHR ''<'' then ''&lt;'' else if c = CHR ''>'' then ''&gt;''
      else if c = CHR 0x22 then ''&quot;'' else if c = CHR 0x27 then ''&#39;'' else [c])"

lemma replace_char: "replace_all [c] r s = concat (map (\<lambda>x. if x = c then r else [x]) s)"
proof (induction s)
  case Nil
  show ?case by (subst replace_all.simps) simp
next
  case (Cons x s)
  then show ?case by (subst replace_all.simps) auto
qed

lemma escape_html_chars: "escape_html s = concat (map escape_char s)"
  by (induction s) (auto simp: escape_html_def replace_char)

definition html_safe :: "string \<Rightarrow> bool" where
  "html_safe s \<longleftrightarrow> set s \<inter> {CHR ''<'', CHR ''>'', CHR 0x22, CHR 0x27} = {}"

lemma html_safe_append [simp]: "html_safe (s @ t) \<longleftrightarrow> html_safe s \<and> html_safe t"
  by (auto simp: html_safe_def)

lemma html_safe_Cons: "html_safe (c # s) \<longleftrightarrow> c \<notin> {CHR ''<'', CHR ''>'', CHR 0x22, CHR 0x27} \<and> html_safe s"
  by (auto simp: html_safe_def)

lemma html_safe_Nil [simp]: "html_safe []"
  by (simp add: html_safe_def)

lemma escape_char_safe: "html_safe (escape_char c)"
  by (simp add: html_safe_Cons)

lemma escape_html_safe [simp]: "html_safe (escape_html s)"
  by (induction s) (simp_all add: escape_html_chars escape_char_safe del: escape_char.simps)

text \<open>How a browser reads the text back.\<close>

function unescape :: "string \<Rightarrow> string" where
  "unescape s =
     (case s of
        [] \<Rightarrow> []
      | c # cs \<Rightarrow>
          if prefix ''&amp;'' s then CHR ''&'' # unescape (drop 5 s)
          else if prefix ''&lt;'' s then CHR ''<'' # unescape (drop 4 s)
          else if prefix ''&gt;'' s then CHR ''>'' # unescape (drop 4 s)
          else if prefix ''&quot;'' s then CHR 0x22 # unescape (drop 6 s)
          else if prefix ''&#39;'' s then CHR 0x27 # unescape (drop 5 s)
          else c # unescape cs)"
  by pat_completeness auto
termination by (relation "measure length") auto

declare unescape.simps [simp del]

lemma unescape_escape_char: "unescape (escape_char c @ s) = c # unescape s"
  by (subst unescape.simps) simp

lemma unescape_escape: "unescape (escape_html s) = s"
proof (induction s)
  case Nil
  show ?case by (subst unescape.simps) (simp add: escape_html_chars)
next
  case (Cons c s)
  then show ?case using unescape_escape_char [of c "escape_html s"]
    by (simp add: escape_html_chars del: escape_char.simps)
qed

section \<open>The page\<close>

definition shown :: "piece list \<Rightarrow> string set" where
  "shown ps = {s. Shown s \<in> set ps}"

lemma shown_simps [simp]:
  "shown [] = {}" "shown (Fixed l n # ps) = shown ps" "shown (Shown s # ps) = insert s (shown ps)"
  "shown (ps @ qs) = shown ps \<union> shown qs" "shown (concat pss) = (\<Union>ps \<in> set pss. shown ps)"
  by (auto simp: shown_def)

lemma shown_fill [simp]: "shown (fill l vals) = set vals"
proof -
  have "shown (concat (map (\<lambda>(i, v). [Shown v, Fixed l (i + 1)]) (enumerate n vals))) = set vals" for n
    by (induction vals arbitrary: n) auto
  then show ?thesis by (simp add: fill_def)
qed

lemma html_safe_digits: "list_all is_digit s \<Longrightarrow> html_safe s"
  by (induction s) (auto simp: html_safe_Cons is_digit_def byte_def)

lemma html_safe_numbers [simp]: "html_safe (show_nat n)" "html_safe (show_u32 w)"
  using show_nat_digits by (auto simp: show_u32_def intro!: html_safe_digits)

lemma html_safe_join: "html_safe sep \<Longrightarrow> \<forall>s \<in> set ss. html_safe s \<Longrightarrow> html_safe (join sep ss)"
  by (induction sep ss rule: join.induct) auto

lemma html_safe_uids [simp]: "html_safe (debug_list show_u32 ws)"
  by (auto simp: debug_list_def html_safe_Cons intro!: html_safe_join)

lemma html_safe_dashes: "(\<And>ys. html_safe (f ys)) \<Longrightarrow> html_safe (or_dashes f xs)"
  by (simp add: or_dashes_def html_safe_Cons)

definition all_safe :: "piece list \<Rightarrow> bool" where
  "all_safe ps \<longleftrightarrow> (\<forall>s \<in> shown ps. html_safe s)"

lemma all_safe_simps [simp]:
  "all_safe []" "all_safe (Fixed l n # ps) = all_safe ps" "all_safe (Shown s # ps) \<longleftrightarrow> html_safe s \<and> all_safe ps"
  "all_safe (ps @ qs) \<longleftrightarrow> all_safe ps \<and> all_safe qs" "all_safe (concat pss) \<longleftrightarrow> (\<forall>ps \<in> set pss. all_safe ps)"
  "all_safe (fill l vals) \<longleftrightarrow> (\<forall>v \<in> set vals. html_safe v)"
  by (auto simp: all_safe_def)

lemma html_mgmt_safe: "all_safe (html_mgmt re m)"
  by (simp add: html_mgmt_def html_role_change_def html_control_change_def html_safe_dashes)

lemma html_roles_safe: "rdf_default_roles_changed r = None \<Longrightarrow> all_safe (html_roles re r)"
  by (simp add: html_roles_def html_assignment_def html_safe_dashes)

lemma html_item_safe: "all_safe (html_item re d)"
  by (cases d) simp_all

lemma html_pieces_safe:
  assumes "html_safe (re_time re)"
    and "\<And>c r. bdr_config_diff rep = Some c \<Longrightarrow> fcd_roles_diff c = Some r \<Longrightarrow> rdf_default_roles_changed r = None"
  shows "all_safe (html_pieces re rep)"
proof -
  have "all_safe (html_config re c)" if "bdr_config_diff rep = Some c" for c
    using assms(2) [OF that] html_roles_safe html_mgmt_safe
    by (auto simp: html_config_def html_bundle_def split: option.splits)
  then show ?thesis using assms(1) html_item_safe
    by (auto simp: html_pieces_def html_header_def html_globals_def html_global_def html_rules_def html_group_def
        Let_def split: option.splits prod.splits)
qed

text \<open>
  C19. The HTML report an approver opens cannot be altered by the policy it shows: every value on the page,
  names, hashes, paths, details and rule previews, is escaped, so it holds no angle bracket or quote;
  provided the default roles are unchanged, which are the one value that is not escaped.
\<close>

theorem report_page_escaped:
  assumes "html_safe (re_time re)"
    and "\<And>c r. bdr_config_diff rep = Some c \<Longrightarrow> fcd_roles_diff c = Some r \<Longrightarrow> rdf_default_roles_changed r = None"
    and "Shown s \<in> set (html_pieces re rep)"
  shows "html_safe s"
  using html_pieces_safe [OF assms(1,2)] assms(3) by (auto simp: all_safe_def shown_def)

lemma group_of_item: "d \<in> set ds \<Longrightarrow>
    (item_source_file d, filter (\<lambda>x. item_source_file x = item_source_file d) ds) \<in> set (file_groups ds)"
  by (auto simp: file_groups_def)

lemma item_on_page:
  assumes "d \<in> set (bdr_rule_diffs r)"
  shows "shown (html_item re d) \<subseteq> shown (html_pieces re r)"
proof -
  let ?ds = "bdr_rule_diffs r"
  let ?g = "(item_source_file d, filter (\<lambda>x. item_source_file x = item_source_file d) ?ds)"
  from assms have g: "?g \<in> set (file_groups ?ds)" by (rule group_of_item)
  have "shown (html_item re d) \<subseteq> shown (html_group re ?g)" using assms by (auto simp: html_group_def)
  also have "\<dots> \<subseteq> shown (html_rules re ?ds)" using g by (auto simp: html_rules_def)
  finally show ?thesis by (auto simp: html_pieces_def)
qed

lemma item_shows_id: "\<not> is_unchanged d \<Longrightarrow> escape_html (item_rule_id d) \<in> shown (html_item re d)"
  by (cases d) (auto simp: is_unchanged_def)

lemma item_shows_details: "x \<in> set (item_details d) \<Longrightarrow> escape_html x \<in> shown (html_item re d)"
  by (cases d) auto

lemma global_on_page:
  assumes "g \<in> set (bdr_global_diffs r)"
  shows "{escape_html (gd_key g), escape_html (gd_old_value g), escape_html (gd_new_value g)} \<subseteq>
    shown (html_pieces re r)"
proof -
  have "shown (html_global g) \<subseteq> shown (html_globals (bdr_global_diffs r))"
    using assms by (auto simp: html_globals_def)
  moreover have "shown (html_globals (bdr_global_diffs r)) \<subseteq> shown (html_pieces re r)"
    by (auto simp: html_pieces_def)
  ultimately show ?thesis by (auto simp: html_global_def)
qed

text \<open>
  C20. The HTML report hides nothing: for every rule that was added, removed or modified the page holds its
  id, and every detail of a modification, as text that reads back to exactly that; and likewise the key
  and both values of every global setting that changed.
\<close>

theorem report_page_shows_changes:
  "(\<forall>d \<in> set (bdr_rule_diffs r). \<not> is_unchanged d \<longrightarrow>
      {item_rule_id d} \<union> set (item_details d) \<subseteq> unescape ` shown (html_pieces re r)) \<and>
   (\<forall>g \<in> set (bdr_global_diffs r).
      {gd_key g, gd_old_value g, gd_new_value g} \<subseteq> unescape ` shown (html_pieces re r))"
proof (intro conjI ballI impI)
  have reads: "x \<in> unescape ` S" if "escape_html x \<in> S" for x S
    using that unescape_escape [of x] by (metis image_eqI)
  show "{item_rule_id d} \<union> set (item_details d) \<subseteq> unescape ` shown (html_pieces re r)"
    if d: "d \<in> set (bdr_rule_diffs r)" "\<not> is_unchanged d" for d
  proof
    fix x assume "x \<in> {item_rule_id d} \<union> set (item_details d)"
    then have "escape_html x \<in> shown (html_item re d)"
      using item_shows_id [OF d(2)] item_shows_details by auto
    then show "x \<in> unescape ` shown (html_pieces re r)"
      by (intro reads) (rule subsetD [OF item_on_page [OF d(1)]])
  qed
  show "{gd_key g, gd_old_value g, gd_new_value g} \<subseteq> unescape ` shown (html_pieces re r)"
    if "g \<in> set (bdr_global_diffs r)" for g
    using global_on_page [OF that] by (auto intro!: reads)
qed

section \<open>What is put on the page or the terminal as it is\<close>

text \<open>A change of the default roles puts the names of the staged file on the page without escaping.\<close>

lemma default_roles_unescaped:
  assumes "rd_roles_for_unknown_user (rro_defaults c) \<noteq> rd_roles_for_unknown_user (rro_defaults s)"
  shows "\<exists>d. compare_roles c s = Some d \<and>
    debug_list (re_debug_str re) (rd_roles_for_unknown_user (rro_defaults s)) \<in> shown (html_roles re d)"
  using assms by (auto simp: compare_roles_def html_roles_def html_defaults_def Let_def)

lemma script_on_page: "\<not> html_safe (debug_list (\<lambda>s. [CHR 0x22] @ s @ [CHR 0x22]) [''<script>alert(1)</script>''])"
  by (simp add: debug_list_def html_safe_Cons)

text \<open>The terminal gets ids and details byte for byte, control sequences included.\<close>

lemma terminal_shows_raw:
  assumes "d \<in> set (bdr_rule_diffs r)"
  shows "item_rule_id d \<in> shown (render_terminal re r)"
proof -
  have "item_rule_id d \<in> shown (term_item d)" by (simp add: term_item_def)
  moreover have "shown (term_item d) \<subseteq> shown (render_terminal re r)"
    using assms by (auto simp: render_terminal_def)
  ultimately show ?thesis by blast
qed

section \<open>A sample\<close>

definition sample_render :: render_env where
  "sample_render = \<lparr>re_text = (\<lambda>_ _. []), re_time = ''2026-01-01 00:00:00'', re_debug_str = id, re_debug_rule = (\<lambda>_. [])\<rparr>"

definition sample_page :: bundle_diff_report where
  "sample_page = \<lparr>bdr_current_hash = ''a'', bdr_new_hash = ''b'', bdr_config_diff = None, bdr_global_diffs = [],
     bdr_rule_diffs = [RdModified ''<R1>'' SiRelaxed [''path: /a''] ''p.json'']\<rparr>"

lemma report_page_escaped_witness:
  "Shown ''&lt;R1&gt;'' \<in> set (html_pieces sample_render sample_page) \<and> html_safe ''&lt;R1&gt;''"
proof
  have t: "html_safe (re_time sample_render)" by (simp add: sample_render_def html_safe_def)
  have "escape_html ''<R1>'' = ''&lt;R1&gt;''" by (simp add: escape_html_chars)
  then show on: "Shown ''&lt;R1&gt;'' \<in> set (html_pieces sample_render sample_page)"
    by (simp add: html_pieces_def html_rules_def html_group_def file_groups_def btree_def sample_page_def)
  show "html_safe ''&lt;R1&gt;''"
    by (rule report_page_escaped [OF t _ on]) (simp add: sample_page_def)
qed

lemma report_page_shows_changes_witness:
  "{''<R1>''} \<union> {''path: /a''} \<subseteq> unescape ` shown (html_pieces sample_render sample_page)"
  using conjunct1 [OF report_page_shows_changes [of sample_page sample_render]]
  by (simp add: sample_page_def is_unchanged_def)

end
