(* ===== verification/Spec2Isabelle.thy ===== *)
theory Spec2Isabelle
  imports System_Samples Kernel_Rs Netlink_Send Bundle_Dir Load Compile_Roles Hash_Cache Diff_Samples
    Ai_Samples Evidence_Store Verify_Check Client_Samples Log_Gaps Eval_Samples
    Ai_Adapter_Facts Diff_Html_Facts
begin

text \<open>
  TEAL: mandatory, ticket-based access control for Linux with multi-party approval. This library
  models the Rust code of TEAL and proves what makes it correct, and what does not hold although
  one would expect it to.

  \<^bold>\<open>The program.\<close> A security module in the kernel stops every operation it has no ticket for and
  asks the daemon \<open>teald\<close> over Generic Netlink. The decision worker evaluates the compiled policy:
  it lets the request go ahead, refuses it, or leaves it pending until enough people with the
  right roles have approved it over the management socket; a verdict can come with a ticket, so
  that the kernel need not ask again. In audit mode nothing is stopped and the audit worker only
  logs. Policy updates and flushes raise an epoch that kernel and daemon share; what was granted
  under an old epoch must not survive. A PAM module tells the daemon who logged in where.

  \<^bold>\<open>Theories: ground.\<close>
  \<^item> \<open>Prelude\<close>: machine integers, results (\<open>error + 'a\<close>), the fallible fold, and the contracts of
    hash sets and hash maps as locales, interpreted on lists and association lists. A hash map is
    an association list without duplicate keys, so its order stands for the iteration order.
  \<^item> \<open>Rust_Std\<close>, \<open>Rust_Text\<close>, \<open>Rust_Utf8\<close>, \<open>Rust_Path\<close>: what the code uses of the standard library,
    on strings as byte lists: trimming, splitting, numbers, case, lossy UTF-8, paths, addresses.

  \<^bold>\<open>Theories: the policy engine\<close> (\<open>teal_policy_engine/src/v14\<close>).
  \<^item> \<open>Engine_Types\<close>, \<open>Raw\<close>, \<open>Ir\<close>: the data of \<open>types.rs\<close>, \<open>errors.rs\<close>, \<open>util.rs\<close>, \<open>raw.rs\<close>, \<open>ir.rs\<close>;
    \<open>Scope\<close>: the index that decides whether a request is managed at all, proved to be exact.
  \<^item> \<open>Matchers\<close>, \<open>Evaluation\<close>: \<open>matchers.rs\<close> and \<open>eval.rs\<close>; the decision is the first matching rule,
    windows and login contexts mean what they say.
  \<^item> \<open>Compile_Roles\<close>, \<open>Compile_Policy\<close>, \<open>Policy_Facts\<close>: \<open>compile.rs\<close>; well-formedness of everything that
    compiles, exactness of the role assignments, the order of the rules.
  \<^item> \<open>Mgmt_Compile\<close>, \<open>Load\<close>: \<open>management.rs\<close> and the loading in \<open>teald\<close>'s \<open>policy.rs\<close>, \<open>roles.rs\<close>,
    \<open>management.rs\<close>. \<open>Samples\<close> holds a small policy for the witnesses.

  \<^bold>\<open>Theories: the daemon\<close> (\<open>teald/src\<close>).
  \<^item> \<open>Daemon_Types\<close>, \<open>Daemon_State\<close>: \<open>types.rs\<close>, \<open>state.rs\<close>, \<open>common.rs\<close>. The record \<open>daemon\<close> holds every
    global of the process; each region under a lock and each atomic access is one operation on it.
    Channels are lists in sending order: \<open>d_queue\<close> to the kernel, \<open>d_events\<close> to the audit worker.
  \<^item> \<open>Mpa\<close>: votes and their thresholds. \<open>Epoch_Store\<close>: the policy snapshot as an optimistic store, a
    locale whose laws the update and the flush satisfy. \<open>Tickets\<close>: tickets, drafts, pending entries.
  \<^item> \<open>Decision\<close>, \<open>Decision_Facts\<close>: \<open>worker/decision.rs\<close>. The abstract specification is \<open>verdict_for\<close>; the
    worker refines it step by step and spends every approval once.
  \<^item> \<open>Netlink\<close>, \<open>Netlink_Send\<close>: \<open>netlink.rs\<close>, receiving and sending, with the byte order as a parameter.
  \<^item> \<open>Bundle_Dir\<close>: loading and hashing a policy directory. \<open>Hash_Cache\<close>: the hashes of programs.
  \<^item> \<open>Evidence_Log\<close>, \<open>Audit_Worker\<close>, \<open>Audit_Facts\<close>: \<open>evidence/schema.rs\<close>, \<open>evidence/context.rs\<close>, the
    entry builders of \<open>evidence/mod.rs\<close> and \<open>worker/audit.rs\<close>.
  \<^item> \<open>Admin_Mgmt\<close>, \<open>Admin_Approval\<close>, \<open>Admin_Facts\<close>, \<open>Admin_Props\<close>: \<open>worker/admin.rs\<close>, from the bytes of a
    connection to the reply; frame lemmas for each handler and what only the right people can do.
  \<^item> \<open>Pam_Session\<close>: \<open>pam_teal\<close>, \<open>pam_server.rs\<close>, \<open>teal_common\<close>. \<open>Start_Up\<close>: \<open>main.rs\<close> and the status queries.
  \<^item> \<open>System\<close>: the daemon as a transition system, with an invariant over all reachable states;
    \<open>Admin_Samples\<close> and \<open>System_Samples\<close> hold concrete runs.

  \<^item> \<open>Evidence_Store\<close>: \<open>evidence/storage.rs\<close> and the tasks of \<open>evidence/mod.rs\<close>, the buffered log file with
    flushing and rotation: whatever the writes return, what was logged stays complete and in order.
  \<^item> \<open>Ai_Aggregate\<close>, \<open>Ai_Facts\<close>, \<open>Ai_Engine\<close>, \<open>Ai_Collector\<close>, \<open>Ai_Samples\<close>: \<open>ai\<close>, from a log entry to the
    stored analysis of a language model; the batches are partitioned exactly, when aggregating them
    ends at all, and an accepted answer rests on entries that exist.
  \<^item> \<open>Ai_Adapters\<close>, \<open>Ai_Adapter_Facts\<close>: \<open>ai/adapters\<close> and the texts of \<open>error.rs\<close>: prompts, requests to the three
    providers and their answers. An answer is read exactly, and no error carries a text of it.

  \<^bold>\<open>Theories: the command line client\<close> (\<open>teal-cli/src\<close>).
  \<^item> \<open>Client\<close>, \<open>Client_Samples\<close>: \<open>main.rs\<close>, \<open>cmd/update.rs\<close>, \<open>cmd/stage_init.rs\<close>, \<open>cmd/status.rs\<close>. What the
    client signs and sends is what the daemon reads, verifies and carries out.
  \<^item> \<open>Policy_Diff\<close>, \<open>Diff_Facts\<close>, \<open>Diff_Gaps\<close>, \<open>Diff_Samples\<close>: \<open>cmd/diff\<close>, the report an approver reads. It
    names each rule once; when it names no change the decisions are the same, up to three things it
    does not look at, each shown by an example.
  \<^item> \<open>Diff_Html\<close>, \<open>Diff_Html_Facts\<close>: \<open>cmd/diff/html.rs\<close> and the terminal text, as lists of fixed and inserted
    pieces. The page shows every change and escapes every value but one.
  \<^item> \<open>Verify_Ast\<close>, \<open>Verify_Alloy\<close>, \<open>Verify_Facts\<close>, \<open>Verify_Check\<close>: \<open>verify\<close>, the export of a policy to Alloy
    as text and the translation of a counterexample back to paths and rules.

  \<^bold>\<open>Theories: the log viewer\<close> (\<open>teal-logview/src\<close>).
  \<^item> \<open>Log_View\<close>, \<open>Log_Profile\<close>, \<open>Log_Optimize\<close>: \<open>main.rs\<close>, the commands \<open>view\<close>, \<open>tail\<close>, \<open>profile\<close> and \<open>optimize\<close>.
  \<^item> \<open>Log_Optimize_Facts\<close>, \<open>Optimize_Sound\<close>, \<open>Log_Facts\<close>, \<open>Log_Draft\<close>, \<open>Log_Gaps\<close>: the index of tickets and the
    storms are exact, no access is lost, the optimisation drops contained rules only, and it leaves
    the grants of a drafted policy alone; not those of every policy, as an example shows.
  \<^item> \<open>Eval_Data\<close>, \<open>Eval_Compare\<close>, \<open>Eval_Facts\<close>, \<open>Eval_Compare_Facts\<close>, \<open>Eval_Samples\<close>: \<open>ai\<close>, datasets, their
    evaluation in batches and the comparison of two reports, which is complete and cannot fail
    for two evaluations of one dataset.

  \<^bold>\<open>Theories: the kernel\<close> (\<open>kernel/security/teal/teal_rs.rs\<close>): \<open>Kernel_Rs\<close>, the decision maker.

  \<^bold>\<open>Parameters.\<close> What is not Rust source of this repository is an argument: JSON and schemas
  (\<open>loader\<close>), globs, calendar and user database (\<open>eval_env\<close>, \<open>platform\<close>), clock, uuids, file metadata,
  BLS and hex (\<open>world\<close>), file operations and the kernel's answers (\<open>adm\<close>), \<open>/proc\<close> (\<open>proc_fs\<close>), the
  sockets and the log file (lists of deliveries and outcomes), signatures and hex digits of the client,
  the HTTP client and the numbers of JSON (\<open>json_env\<close>), the runs of Alloy and its XML, SHA-256, the C half
  of the module (\<open>kernel_env\<close>), log decoding, globs and instants as text (\<open>view_env\<close>), the fixed texts of a
  report (\<open>render_env\<close>), the last instant of \<open>chrono\<close>. Where the order in which a hash map is read matters,
  it is an argument too. A panic is the value \<open>None\<close> or a constructor of the result.
  Witnesses instantiate them with concrete functions.

  \<^bold>\<open>Bounds.\<close> Both walks up the process tree stop after 10 steps, as in the code. The waits on a
  socket take the list of what arrives and return \<open>None\<close> while the answer has not come. The search for
  the common directory of a batch is a partial function, since it need not end. All other functions
  are total; the scanner of replies terminates because a message is at least 16 bytes.

  \<^bold>\<open>Concurrency.\<close> In \<open>System\<close> a handler is one step. Where the code releases a lock in the middle, the
  phases are definitions of their own, and \<open>Admin_Props\<close>, \<open>Audit_Worker\<close> and \<open>Hash_Cache\<close> state what can
  happen in between.

  \<^bold>\<open>Not modelled.\<close> The C security module; reading and validating JSON (\<open>load.rs\<close>, \<open>schema.rs\<close>); the HTTP
  client itself and the adapter for tests; the solver Alloy and the formulas in LaTeX; markup, style
  and colours of the reports; keys and arguments of the client; progress messages and printed layouts
  of the log viewer; the benchmark; the JSON text of the status replies. They carry no decision of
  the access control.
\<close>

end
